(* ===== verification/Prelude.thy ===== *)
theory Prelude
  imports Main "HOL-Library.Word" "HOL-Library.Sublist"
begin

text \<open>
  The vocabulary every component shares: machine integers, byte strings, the result type of
  fallible Rust code, checked arithmetic, slices cut into chunks, and little-endian numbers.
  Rust panics are values (\<open>Panic\<close>), so every \<open>unwrap\<close>, \<open>assert!\<close> and out-of-range index of the
  source is a branch of the model.
\<close>

unbundle bit_operations_syntax

named_theorems codec_simps \<open>rewrite rules for encoders and decoders\<close>
named_theorems step_simps \<open>one-step evaluation rules of the stateful operations\<close>

subsection \<open>Types\<close>

type_synonym u8 = "8 word"
type_synonym u16 = "16 word"
type_synonym u32 = "32 word"
type_synonym u64 = "64 word"
type_synonym bytes = "8 word list"

text \<open>
  A Rust \<open>str\<close> is a sequence of Unicode scalar values; \<open>lit\<close> turns an Isabelle literal into one.
\<close>

type_synonym rstr = "nat list"

definition lit :: "string \<Rightarrow> rstr" where
  "lit s = map of_char s"

definition ascii :: "string \<Rightarrow> bytes" where
  "ascii s = map (\<lambda>c. word_of_nat (of_char c)) s"

text \<open>The \<open>std::io::ErrorKind\<close>s the code raises or receives.\<close>

datatype io_kind =
    NotFound
  | PermissionDenied
  | ConnectionRefused
  | ConnectionAborted
  | NotConnected
  | InvalidData
  | UnexpectedEof
  | OtherIo nat

text \<open>An error keeps its kind and the constant part of its message.\<close>

datatype io_error = IoError io_kind string

fun err_kind :: "io_error \<Rightarrow> io_kind" where
  "err_kind (IoError k m) = k"

text \<open>
  \<open>Diverge\<close> is what a bounded loop returns when its bound is exhausted; the components prove that
  it is never returned.
\<close>

datatype 'a result = Ok 'a | Err io_error | Panic | Diverge

fun rbind :: "'a result \<Rightarrow> ('a \<Rightarrow> 'b result) \<Rightarrow> 'b result" where
  "rbind (Ok a) f = f a"
| "rbind (Err e) f = Err e"
| "rbind Panic f = Panic"
| "rbind Diverge f = Diverge"

fun is_ok :: "'a result \<Rightarrow> bool" where
  "is_ok (Ok a) = True"
| "is_ok _ = False"

text \<open>\<open>unwrap\<close> of an \<open>Option\<close>.\<close>

fun unwrap_opt :: "'a option \<Rightarrow> 'a result" where
  "unwrap_opt None = Panic"
| "unwrap_opt (Some a) = Ok a"

lemma rbind_Ok_iff: "rbind r f = Ok b \<longleftrightarrow> (\<exists>a. r = Ok a \<and> f a = Ok b)"
  by (cases r) auto

lemma unwrap_opt_Ok_iff [simp]: "unwrap_opt x = Ok a \<longleftrightarrow> x = Some a"
  by (cases x) auto

subsection \<open>Sequencing stateful, fallible operations\<close>

text \<open>
  An async method with \<open>&mut\<close> access to a state and a \<open>Result\<close> is a function from the state to its
  result and the state it leaves behind, also on the error paths. \<open>bind_io\<close> is the \<open>?\<close> operator.
\<close>

type_synonym ('s, 'a) io = "'s \<Rightarrow> 'a result \<times> 's"

definition return_io :: "'a \<Rightarrow> ('s, 'a) io" where
  "return_io a s = (Ok a, s)"

definition bind_io :: "('s, 'a) io \<Rightarrow> ('a \<Rightarrow> ('s, 'b) io) \<Rightarrow> ('s, 'b) io" where
  "bind_io m f s =
     (case m s of
        (Ok a, s') \<Rightarrow> f a s'
      | (Err e, s') \<Rightarrow> (Err e, s')
      | (Panic, s') \<Rightarrow> (Panic, s')
      | (Diverge, s') \<Rightarrow> (Diverge, s'))"

definition fail_io :: "'a result \<Rightarrow> ('s, 'a) io" where
  "fail_io r s = (r, s)"

lemma bind_io_Ok [step_simps]: "m s = (Ok a, s') \<Longrightarrow> bind_io m f s = f a s'"
  by (simp add: bind_io_def)

lemma bind_io_Err [step_simps]: "m s = (Err e, s') \<Longrightarrow> bind_io m f s = (Err e, s')"
  by (simp add: bind_io_def)

lemma bind_io_Panic [step_simps]: "m s = (Panic, s') \<Longrightarrow> bind_io m f s = (Panic, s')"
  by (simp add: bind_io_def)

lemma bind_io_return [simp]: "bind_io (return_io a) f = f a"
  by (simp add: bind_io_def return_io_def fun_eq_iff)

lemma bind_io_assoc: "bind_io (bind_io m f) g = bind_io m (\<lambda>a. bind_io (f a) g)"
  by (rule ext) (simp add: bind_io_def split: result.split prod.split)

lemma bind_io_cases:
  assumes "bind_io m f s = (r, t)"
  obtains (ok) a s' where "m s = (Ok a, s')" "f a s' = (r, t)"
    | (err) e where "m s = (Err e, t)" "r = Err e"
    | (panic) "m s = (Panic, t)" "r = Panic"
    | (diverge) "m s = (Diverge, t)" "r = Diverge"
proof (cases "m s")
  case (Pair r0 s0)
  with assms that show thesis
    by (cases r0) (auto simp: bind_io_def)
qed

subsection \<open>Integer arithmetic with the build's overflow checks\<close>

text \<open>
  \<open>a + b\<close> on a fixed-width integer panics on overflow when the crate is built with overflow checks
  (the \<open>dev\<close> profile) and wraps otherwise (the \<open>release\<close> profile of \<open>Cargo.toml\<close>); \<open>chk\<close> is the
  profile's setting.
\<close>

definition add_chk :: "bool \<Rightarrow> 'a::len word \<Rightarrow> 'a word \<Rightarrow> 'a word result" where
  "add_chk chk a b =
     (if chk \<and> 2 ^ LENGTH('a) \<le> unat a + unat b then Panic else Ok (a + b))"

lemma add_chk_release [simp]: "add_chk False a b = Ok (a + b)"
  by (simp add: add_chk_def)

lemma add_chk_no_overflow:
  "unat a + unat b < 2 ^ LENGTH('a::len) \<Longrightarrow> add_chk chk a (b :: 'a word) = Ok (a + b)"
  by (simp add: add_chk_def)

lemma add_chk_cases: "add_chk chk a b = Ok (a + b) \<or> add_chk chk a b = Panic"
  by (simp add: add_chk_def)

subsection \<open>Slices\<close>

text \<open>\<open>slice::chunks\<close>: consecutive pieces of length \<open>n\<close>, the last one possibly shorter.\<close>

function chunks :: "nat \<Rightarrow> 'a list \<Rightarrow> 'a list list" where
  "chunks n xs = (if n = 0 \<or> xs = [] then [] else take n xs # chunks n (drop n xs))"
  by pat_completeness auto
termination
  by (relation "measure (\<lambda>(n, xs). length xs)") auto

declare chunks.simps [simp del]

lemma chunks_Nil [simp]: "chunks n [] = []"
  by (simp add: chunks.simps)

lemma chunks_short: "xs \<noteq> [] \<Longrightarrow> length xs \<le> n \<Longrightarrow> chunks n xs = [xs]"
  by (cases "n = 0") (simp_all add: chunks.simps [of n xs])

lemma chunks_long:
  "0 < n \<Longrightarrow> n < length xs \<Longrightarrow> chunks n xs = take n xs # chunks n (drop n xs)"
  by (subst chunks.simps) auto

lemma concat_chunks: "0 < n \<Longrightarrow> concat (chunks n xs) = xs"
proof (induction n xs rule: chunks.induct)
  case (1 n xs)
  then show ?case
    by (cases "xs = []") (simp_all add: chunks.simps [of n xs])
qed

lemma chunks_length: "c \<in> set (chunks n xs) \<Longrightarrow> c \<noteq> [] \<and> length c \<le> n"
proof (induction n xs rule: chunks.induct)
  case (1 n xs)
  then show ?case
    by (cases "n = 0 \<or> xs = []") (auto simp: chunks.simps [of n xs])
qed

lemma length_drop_mod: "n \<le> length xs \<Longrightarrow> length (drop n xs) mod n = length xs mod n"
  unfolding length_drop by (rule le_mod_geq [symmetric])

lemma chunks_exact:
  assumes "0 < n" "length xs mod n = 0"
  shows "\<forall>c \<in> set (chunks n xs). length c = n"
  using assms
proof (induction n xs rule: chunks.induct)
  case (1 n xs)
  show ?case
  proof (cases "xs = []")
    case False
    then have le: "n \<le> length xs" using "1.prems" by (auto simp: mod_eq_0_iff_dvd dest: dvd_imp_le)
    then have "length (drop n xs) mod n = 0" using "1.prems"(2) by (simp only: length_drop_mod)
    then have "\<forall>c \<in> set (chunks n (drop n xs)). length c = n"
      using "1.IH" "1.prems"(1) False by (metis neq0_conv)
    moreover have "chunks n xs = take n xs # chunks n (drop n xs)"
      using False "1.prems"(1) by (subst chunks.simps) simp
    moreover have "length (take n xs) = n" using le by simp
    ultimately show ?thesis by (metis set_ConsD)
  qed simp
qed

lemma chunks_split:
  assumes "0 < n" "length xs mod n \<noteq> 0"
  shows "\<exists>ps q. chunks n xs = ps @ [q] \<and> (\<forall>p \<in> set ps. length p = n) \<and> length q < n \<and>
    length ps = length xs div n"
  using assms
proof (induction n xs rule: chunks.induct)
  case (1 n xs)
  have ne: "xs \<noteq> []" using "1.prems" by auto
  show ?case
  proof (cases "length xs < n")
    case True
    then show ?thesis using ne by (intro exI [of _ "[]"] exI [of _ xs]) (simp add: chunks_short)
  next
    case False
    then have le: "n \<le> length xs" by simp
    then have "length (drop n xs) mod n \<noteq> 0" using "1.prems"(2) length_drop_mod [OF le] by metis
    then obtain ps q where ps: "chunks n (drop n xs) = ps @ [q]" "\<forall>p \<in> set ps. length p = n"
      "length q < n" "length ps = length (drop n xs) div n"
      using "1.IH" "1.prems"(1) ne by (metis neq0_conv)
    have "chunks n xs = (take n xs # ps) @ [q]"
      using ne "1.prems"(1) ps(1) by (subst chunks.simps) simp
    moreover have "length (take n xs # ps) = length xs div n"
      using ps(4) le_div_geq [OF "1.prems"(1) le] by simp
    moreover have "\<forall>p \<in> set (take n xs # ps). length p = n" using ps(2) le by simp
    ultimately show ?thesis using ps(3) by blast
  qed
qed

text \<open>\<open>Vec::resize\<close>.\<close>

definition resize :: "nat \<Rightarrow> 'a \<Rightarrow> 'a list \<Rightarrow> 'a list" where
  "resize n x xs = (if n \<le> length xs then take n xs else xs @ replicate (n - length xs) x)"

lemma length_resize [simp]: "length (resize n x xs) = n"
  by (simp add: resize_def)

lemma take_resize: "k \<le> n \<Longrightarrow> k \<le> length xs \<Longrightarrow> take k (resize n x xs) = take k xs"
  by (simp add: resize_def min_def)

text \<open>\<open>Iterator::rposition\<close> on a byte.\<close>

fun rposition :: "'a \<Rightarrow> 'a list \<Rightarrow> nat option" where
  "rposition c [] = None"
| "rposition c (x # xs) =
     (case rposition c xs of
        Some i \<Rightarrow> Some (Suc i)
      | None \<Rightarrow> if x = c then Some 0 else None)"

lemma rposition_None: "rposition c xs = None \<longleftrightarrow> c \<notin> set xs"
  by (induction xs) (auto split: option.splits)

lemma rposition_Some:
  "rposition c xs = Some i \<longleftrightarrow>
     i < length xs \<and> xs ! i = c \<and> c \<notin> set (drop (Suc i) xs)"
proof (induction xs arbitrary: i)
  case (Cons x xs)
  show ?case
  proof (cases i)
    case 0
    then show ?thesis using rposition_None [of c xs]
      by (cases "rposition c xs") auto
  next
    case (Suc j)
    then show ?thesis using Cons.IH [of j]
      by (auto split: option.splits)
  qed
qed simp

subsection \<open>Little-endian numbers\<close>

fun le_val :: "bytes \<Rightarrow> nat" where
  "le_val [] = 0"
| "le_val (b # bs) = unat b + 256 * le_val bs"

fun le_bytes :: "nat \<Rightarrow> nat \<Rightarrow> bytes" where
  "le_bytes 0 v = []"
| "le_bytes (Suc n) v = word_of_nat (v mod 256) # le_bytes n (v div 256)"

lemma length_le_bytes [simp]: "length (le_bytes n v) = n"
  by (induction n arbitrary: v) auto

lemma unat_u8_lt [simp]: "unat (b :: u8) < 256"
  using unsigned_less [of b] by simp

lemma unat_word_of_nat_u8 [simp]: "v < 256 \<Longrightarrow> unat (word_of_nat v :: u8) = v"
  by (simp add: unat_of_nat)

lemma le_val_le_bytes [codec_simps]: "le_val (le_bytes n v) = v mod 256 ^ n"
proof (induction n arbitrary: v)
  case (Suc n)
  have "v mod 256 ^ Suc n = v mod 256 + 256 * (v div 256 mod 256 ^ n)"
    by (simp add: mod_mult2_eq)
  with Suc show ?case by simp
qed simp

lemma le_val_bound: "le_val bs < 256 ^ length bs"
proof (induction bs)
  case (Cons b bs)
  have "unat b + 256 * le_val bs < 256 + 256 * le_val bs" by simp
  also have "\<dots> \<le> 256 * 256 ^ length bs" using Cons by simp
  finally show ?case by simp
qed simp

lemma le_bytes_le_val [codec_simps]: "length bs = n \<Longrightarrow> le_bytes n (le_val bs) = bs"
  by (induction bs arbitrary: n) auto

lemma le_val_le_bytes_small: "v < 256 ^ n \<Longrightarrow> le_val (le_bytes n v) = v"
  by (simp add: codec_simps)

lemma le_val_word:
  fixes x :: "'a::len word"
  assumes "2 ^ LENGTH('a) = (256 :: nat) ^ n"
  shows "le_val (le_bytes n (unat x)) = unat x"
proof -
  have "unat x < 256 ^ n"
    using unsigned_less [of x] assms by (metis of_nat_unat unsigned_less)
  then show ?thesis by (rule le_val_le_bytes_small)
qed

lemma le_val_u16 [codec_simps, simp]: "le_val (le_bytes 2 (unat (x :: u16))) = unat x"
  by (rule le_val_word) simp

lemma le_val_u32 [codec_simps, simp]: "le_val (le_bytes 4 (unat (x :: u32))) = unat x"
  by (rule le_val_word) simp

lemma le_val_u64 [codec_simps, simp]: "le_val (le_bytes 8 (unat (x :: u64))) = unat x"
  by (rule le_val_word) simp

end
