(* ===== verification/Concurrent.thy ===== *)
theory Concurrent
  imports Prelude "HOL-Library.AList"
begin

text \<open>
  The shared containers of the control-plane side of the proxy. A \<open>DashMap\<close> is an association list
  with distinct keys, in the order in which it is iterated; \<open>get\<close>, \<open>insert\<close> and \<open>remove\<close> are atomic.
  A \<open>tokio::sync::watch\<close> channel keeps the last value that was sent and a version; a receiver that
  has seen an older version is woken up and reads the current value.
\<close>

type_synonym ('k, 'v) dashmap = "('k \<times> 'v) list"

definition dm_wf :: "('k, 'v) dashmap \<Rightarrow> bool" where
  "dm_wf m \<longleftrightarrow> distinct (map fst m)"

abbreviation dm_get :: "('k, 'v) dashmap \<Rightarrow> 'k \<Rightarrow> 'v option" where
  "dm_get \<equiv> map_of"

abbreviation dm_insert :: "'k \<Rightarrow> 'v \<Rightarrow> ('k, 'v) dashmap \<Rightarrow> ('k, 'v) dashmap" where
  "dm_insert \<equiv> AList.update"

abbreviation dm_remove :: "'k \<Rightarrow> ('k, 'v) dashmap \<Rightarrow> ('k, 'v) dashmap" where
  "dm_remove \<equiv> AList.delete"

lemma dm_wf_Nil [simp]: "dm_wf []"
  by (simp add: dm_wf_def)

lemma dm_wf_insert [simp]: "dm_wf m \<Longrightarrow> dm_wf (dm_insert k v m)"
  by (simp add: dm_wf_def distinct_update)

lemma dm_wf_remove [simp]: "dm_wf m \<Longrightarrow> dm_wf (dm_remove k m)"
  by (simp add: dm_wf_def distinct_delete)

lemma dm_get_insert [simp]: "dm_get (dm_insert k v m) = (dm_get m)(k \<mapsto> v)"
  by (rule update_conv')

lemma dm_get_remove [simp]: "dm_get (dm_remove k m) = (dm_get m)(k := None)"
  by (rule delete_conv')

lemma dm_mem: "dm_wf m \<Longrightarrow> (k, v) \<in> set m \<longleftrightarrow> dm_get m k = Some v"
  by (simp add: dm_wf_def)

lemma dm_Nil_iff: "m = [] \<longleftrightarrow> dm_get m = Map.empty"
  by (metis map_of_eq_empty_iff)

record 'a watch =
  wt_value :: 'a
  wt_version :: nat

definition watch_channel :: "'a \<Rightarrow> 'a watch" where
  "watch_channel x = \<lparr>wt_value = x, wt_version = 0\<rparr>"

definition watch_send :: "'a \<Rightarrow> 'a watch \<Rightarrow> 'a watch" where
  "watch_send x w = \<lparr>wt_value = x, wt_version = Suc (wt_version w)\<rparr>"

text \<open>
  \<open>changed\<close> followed by \<open>borrow_and_update\<close>, for a receiver that has seen version \<open>seen\<close>: the current
  value, if it is newer.
\<close>

definition watch_poll :: "nat \<Rightarrow> 'a watch \<Rightarrow> ('a \<times> nat) option" where
  "watch_poll seen w = (if seen < wt_version w then Some (wt_value w, wt_version w) else None)"

text \<open>
  What a receiver sees of values that are sent in bursts, when it polls after each burst.
\<close>

fun observe :: "nat \<Rightarrow> 'a watch \<Rightarrow> 'a list list \<Rightarrow> 'a list" where
  "observe seen w [] = []"
| "observe seen w (burst # bursts) =
     (let w' = foldl (\<lambda>w x. watch_send x w) w burst in
      case watch_poll seen w' of
        Some (x, v) \<Rightarrow> x # observe v w' bursts
      | None \<Rightarrow> observe seen w' bursts)"

lemma watch_sends:
  "foldl (\<lambda>w x. watch_send x w) w (xs @ [x]) =
     \<lparr>wt_value = x, wt_version = wt_version w + length xs + 1\<rparr>"
proof -
  have "wt_version (foldl (\<lambda>w x. watch_send x w) w xs) = wt_version w + length xs"
    by (induction xs arbitrary: w) (simp_all add: watch_send_def)
  then show ?thesis by (simp add: watch_send_def)
qed

lemma observe_last:
  "observe (wt_version w) w bursts = map last (filter (\<lambda>b. b \<noteq> []) bursts)"
proof (induction bursts arbitrary: w)
  case (Cons burst bursts)
  show ?case
  proof (cases burst rule: rev_exhaust)
    case Nil
    then show ?thesis using Cons.IH by (simp add: watch_poll_def)
  next
    case (snoc xs x)
    let ?w = "\<lparr>wt_value = x, wt_version = wt_version w + length xs + 1\<rparr>"
    have "observe (wt_version w) w (burst # bursts) = x # observe (wt_version ?w) ?w bursts"
      unfolding snoc observe.simps Let_def watch_sends by (simp add: watch_poll_def)
    then show ?thesis using Cons.IH [of ?w] snoc by simp
  qed
qed simp

text \<open>\<open>VecDeque::get\<close> and \<open>Vec::get\<close>.\<close>

definition list_get :: "'a list \<Rightarrow> nat \<Rightarrow> 'a option" where
  "list_get xs i = (if i < length xs then Some (xs ! i) else None)"

end
