(* ===== verification/CpResolver.thy ===== *)
theory CpResolver
  imports Concurrent
begin

text \<open>
  \<open>backend/control_plane_resolver.rs\<close>: the members of the control plane the proxy may subscribe to.
  The gRPC connection of a member (\<open>tonic::Channel\<close>) is a type parameter, and connecting to an address
  is a function \<open>conn\<close> that gives a connection or fails. The HTTP endpoint that lists the members is a
  sequence of answers.
\<close>

subsection \<open>Members and channels\<close>

record CpBackend =
  cb_name :: rstr
  cb_generation :: u64
  cb_role :: u32
  cb_gossip_addr :: rstr
  cb_service_addr :: rstr
  cb_address :: rstr
  cb_ready :: u32

datatype CpChannelStatus = Unavailable | Available

record 'c CpChannel =
  ch_status :: CpChannelStatus
  ch_generation :: u64
  ch_channel :: 'c
  ch_backend_name :: rstr
  ch_service :: rstr
  ch_endpoint :: rstr

definition cp_channel_new :: "(rstr \<Rightarrow> 'c option) \<Rightarrow> CpBackend \<Rightarrow> 'c CpChannel option" where
  "cp_channel_new conn cp_backend =
     map_option (\<lambda>channel.
       \<lparr>ch_status = Available, ch_generation = cb_generation cp_backend, ch_channel = channel,
        ch_backend_name = cb_name cp_backend, ch_service = cb_service_addr cp_backend,
        ch_endpoint = cb_address cp_backend\<rparr>)
       (conn (lit ''http://'' @ cb_service_addr cp_backend))"

record 'c CpResolver =
  cr_cp_service :: rstr
  cr_interval :: nat
  cr_backends :: "(rstr, 'c CpChannel) dashmap"
  cr_started :: bool
  cr_pick_index :: u64

text \<open>
  \<open>Uri::try_from\<close> is a parameter: \<open>None\<close> for a string that is no URI, otherwise its scheme, if it has
  one. An interval is given in seconds.
\<close>

definition cp_resolver_new ::
  "(rstr \<Rightarrow> rstr option option) \<Rightarrow> rstr \<Rightarrow> nat option \<Rightarrow> 'c CpResolver result" where
  "cp_resolver_new uri cp_service interval =
     rbind (unwrap_opt (uri cp_service)) (\<lambda>scheme.
       Ok \<lparr>cr_cp_service =
             (if scheme = Some (lit ''http'') then cp_service else lit ''http://'' @ cp_service),
           cr_interval = (case interval of Some d \<Rightarrow> d | None \<Rightarrow> 1),
           cr_backends = [], cr_started = False, cr_pick_index = 0\<rparr>)"

subsection \<open>Choosing a member\<close>

definition available_channels :: "'c CpResolver \<Rightarrow> 'c CpChannel list" where
  "available_channels r = filter (\<lambda>c. ch_status c = Available) (map snd (cr_backends r))"

text \<open>\<open>fetch_add\<close> wraps around; \<open>get(index).unwrap()\<close> panics when no member is available.\<close>

definition get_cp_backend :: "'c CpResolver \<Rightarrow> 'c CpChannel result \<times> 'c CpResolver" where
  "get_cp_backend r =
     (let available = available_channels r;
          picked = cr_pick_index r + 1;
          index = (if length available \<le> unat picked then 0 else picked);
          r1 = r\<lparr>cr_pick_index := index\<rparr> in
      (if unat index < length available then Ok (available ! unat index) else Panic, r1))"

definition mark_backend_unavailable :: "rstr \<Rightarrow> 'c CpResolver \<Rightarrow> 'c CpResolver" where
  "mark_backend_unavailable backend_name r =
     (case dm_get (cr_backends r) backend_name of
        Some c \<Rightarrow> r\<lparr>cr_backends := dm_insert backend_name (c\<lparr>ch_status := Unavailable\<rparr>) (cr_backends r)\<rparr>
      | None \<Rightarrow> r)"

subsection \<open>Refreshing the members\<close>

definition merge_channel :: "CpBackend \<Rightarrow> 'c CpChannel \<Rightarrow> 'c CpChannel \<Rightarrow> 'c CpChannel" where
  "merge_channel b new_channel old_channel =
     (case ch_status old_channel of
        Unavailable \<Rightarrow>
          old_channel\<lparr>ch_status := Available, ch_generation := cb_generation b,
                      ch_channel := ch_channel new_channel\<rparr>
      | Available \<Rightarrow>
          if ch_generation old_channel < cb_generation b
          then old_channel\<lparr>ch_generation := cb_generation b, ch_channel := ch_channel new_channel\<rparr>
          else old_channel)"

definition update_backend ::
  "(rstr \<Rightarrow> 'c option) \<Rightarrow> (rstr, 'c CpChannel) dashmap \<Rightarrow> CpBackend \<Rightarrow> (rstr, 'c CpChannel) dashmap" where
  "update_backend conn m b =
     (case cp_channel_new conn b of
        Some new_channel \<Rightarrow>
          (case dm_get m (cb_name b) of
             Some old_channel \<Rightarrow> dm_insert (cb_name b) (merge_channel b new_channel old_channel) m
           | None \<Rightarrow> dm_insert (cb_name b) new_channel m)
      | None \<Rightarrow> dm_remove (cb_name b) m)"

definition update_backends :: "(rstr \<Rightarrow> 'c option) \<Rightarrow> CpBackend list \<Rightarrow> 'c CpResolver \<Rightarrow> 'c CpResolver" where
  "update_backends conn new_cp_backend r =
     (let kept = filter (\<lambda>(name, c). name \<in> cb_name ` set new_cp_backend) (cr_backends r) in
      r\<lparr>cr_backends := foldl (update_backend conn) kept new_cp_backend\<rparr>)"

text \<open>
  An answer of the members endpoint is a list of members, or \<open>None\<close> when the request or its JSON
  fails; then the ticker loop of \<open>start\<close> returns the error. The loop ends without an error at the
  shutdown message, here the end of the answers.
\<close>

definition refresh_backends ::
  "(rstr \<Rightarrow> 'c option) \<Rightarrow> CpBackend list option \<Rightarrow> 'c CpResolver \<Rightarrow> unit result \<times> 'c CpResolver" where
  "refresh_backends conn answer r =
     (case answer of
        Some backends \<Rightarrow> (Ok (), update_backends conn backends r)
      | None \<Rightarrow> (Err (IoError (OtherIo 0) ''Failed to get cp backends''), r))"

fun resolver_start ::
  "(rstr \<Rightarrow> 'c option) \<Rightarrow> CpBackend list option list \<Rightarrow> 'c CpResolver \<Rightarrow> unit result \<times> 'c CpResolver" where
  "resolver_start conn [] r = (Ok (), r)"
| "resolver_start conn (answer # answers) r =
     (case refresh_backends conn answer r of
        (Ok _, r1) \<Rightarrow>
          resolver_start conn answers
            (if cr_backends r1 \<noteq> [] \<and> \<not> cr_started r1 then r1\<lparr>cr_started := True\<rparr> else r1)
      | (Err e, r1) \<Rightarrow> (Err e, r1)
      | (Panic, r1) \<Rightarrow> (Panic, r1)
      | (Diverge, r1) \<Rightarrow> (Diverge, r1))"

subsection \<open>The member that is chosen\<close>

definition resolver_wf :: "'c CpResolver \<Rightarrow> bool" where
  "resolver_wf r \<longleftrightarrow> dm_wf (cr_backends r) \<and>
     list_all (\<lambda>(name, c). ch_backend_name c = name) (cr_backends r)"

lemma resolver_wf_iff:
  "resolver_wf r \<longleftrightarrow> dm_wf (cr_backends r) \<and>
     (\<forall>name c. dm_get (cr_backends r) name = Some c \<longrightarrow> ch_backend_name c = name)"
  unfolding resolver_wf_def list_all_iff by (metis (mono_tags, lifting) case_prod_beta dm_mem prod.collapse prod.sel)

definition next_index :: "nat \<Rightarrow> u64 \<Rightarrow> nat" where
  "next_index n i = (if n \<le> unat (i + 1) then 0 else unat (i + 1))"

lemma get_cp_backend_eq:
  "get_cp_backend r =
     (let n = length (available_channels r); i = next_index n (cr_pick_index r) in
      (if n = 0 then Panic else Ok (available_channels r ! i), r\<lparr>cr_pick_index := word_of_nat i\<rparr>))"
  by (auto simp: get_cp_backend_def next_index_def Let_def)

lemma available_pick [simp]: "available_channels (r\<lparr>cr_pick_index := i\<rparr>) = available_channels r"
  by (simp add: available_channels_def)

lemma next_index_lt: "0 < n \<Longrightarrow> next_index n i < n"
  by (simp add: next_index_def)

lemma next_index_step:
  assumes "i < n" "n < 2 ^ 64"
  shows "next_index n (word_of_nat i) = (i + 1) mod n"
proof -
  have "unat (word_of_nat i + 1 :: u64) = i + 1"
    using assms by (simp add: unat_of_nat unat_word_ariths)
  moreover have "(i + 1) mod n = (if n \<le> i + 1 then 0 else i + 1)"
    using assms(1) by (cases "n = i + 1") simp_all
  ultimately show ?thesis by (simp add: next_index_def)
qed

text \<open>The members picked by \<open>k\<close> calls in a row.\<close>

fun picks :: "nat \<Rightarrow> 'c CpResolver \<Rightarrow> 'c CpChannel result list" where
  "picks 0 r = []"
| "picks (Suc k) r = (let (c, r') = get_cp_backend r in c # picks k r')"

lemma picks_from:
  assumes "i < length (available_channels r)" "length (available_channels r) < 2 ^ 64"
  shows "picks k (r\<lparr>cr_pick_index := word_of_nat i\<rparr>) =
    map (\<lambda>j. Ok (available_channels r ! ((i + 1 + j) mod length (available_channels r)))) [0..<k]"
  using assms(1)
proof (induction k arbitrary: i)
  case (Suc k)
  let ?n = "length (available_channels r)"
  have pos: "0 < ?n" using Suc.prems by linarith
  have bound: "(i + 1) mod ?n < ?n" by (rule mod_less_divisor [OF pos])
  have "picks (Suc k) (r\<lparr>cr_pick_index := word_of_nat i\<rparr>) =
      Ok (available_channels r ! ((i + 1) mod ?n)) #
      map (\<lambda>j. Ok (available_channels r ! (((i + 1) mod ?n + 1 + j) mod ?n))) [0..<k]"
    using Suc.IH [OF bound] pos next_index_step [OF Suc.prems assms(2)]
    by (simp add: get_cp_backend_eq Let_def)
  moreover have "((i + 1) mod ?n + 1 + j) mod ?n = (i + 1 + Suc j) mod ?n" for j
    using mod_add_left_eq [of "i + 1" ?n "1 + j"] by (simp add: add.assoc)
  ultimately show ?case by (simp add: upt_conv_Cons map_Suc_upt [symmetric] del: upt_Suc map_Suc_upt)
qed simp

lemma picks_round_robin:
  assumes "c \<in> set (available_channels r)" "length (available_channels r) < 2 ^ 64"
  shows "Ok c \<in> set (picks (Suc (length (available_channels r))) r)"
proof -
  let ?n = "length (available_channels r)" and ?i = "next_index (length (available_channels r)) (cr_pick_index r)"
  obtain m where m: "m < ?n" "c = available_channels r ! m" using assms(1) by (metis in_set_conv_nth)
  have i: "?i < ?n" using m(1) by (intro next_index_lt) linarith
  define j where "j = (m + ?n - (?i + 1)) mod ?n"
  have "(?i + 1 + j) mod ?n = (?i + 1 + (m + ?n - (?i + 1))) mod ?n"
    unfolding j_def by (rule mod_add_right_eq)
  also have "?i + 1 + (m + ?n - (?i + 1)) = m + ?n" using i by linarith
  also have "(m + ?n) mod ?n = m" using m(1) by simp
  finally have "(?i + 1 + j) mod ?n = m" .
  moreover have "j < ?n" using m(1) by (auto simp: j_def intro: mod_less_divisor)
  ultimately have "Ok c \<in> set (picks ?n (r\<lparr>cr_pick_index := word_of_nat ?i\<rparr>))"
    using picks_from [OF i assms(2), of ?n] m(2) by (auto simp del: upt_Suc)
  then show ?thesis using i by (simp add: get_cp_backend_eq Let_def)
qed

lemma get_cp_backend_available:
  assumes "resolver_wf r" "get_cp_backend r = (Ok c, r')"
  shows "ch_status c = Available" "dm_get (cr_backends r) (ch_backend_name c) = Some c"
proof -
  let ?n = "length (available_channels r)"
  have n: "?n \<noteq> 0" "c = available_channels r ! next_index ?n (cr_pick_index r)"
    using assms(2) by (auto simp: get_cp_backend_eq Let_def split: if_splits)
  then have "c \<in> set (available_channels r)" using next_index_lt [of ?n] by simp
  then obtain name where c: "(name, c) \<in> set (cr_backends r)" "ch_status c = Available"
    by (auto simp: available_channels_def)
  then show "ch_status c = Available" "dm_get (cr_backends r) (ch_backend_name c) = Some c"
    using assms(1) by (auto simp: resolver_wf_iff dm_mem)
qed

lemma get_cp_backend_panics: "fst (get_cp_backend r) = Panic \<longleftrightarrow> available_channels r = []"
  by (simp add: get_cp_backend_eq Let_def)

subsection \<open>The members after a refresh\<close>

definition refreshed ::
  "(rstr \<Rightarrow> 'c option) \<Rightarrow> CpBackend \<Rightarrow> 'c CpChannel option \<Rightarrow> 'c CpChannel option" where
  "refreshed conn b old =
     map_option (\<lambda>new. case old of None \<Rightarrow> new | Some c \<Rightarrow> merge_channel b new c) (cp_channel_new conn b)"

lemma update_backend_get:
  "dm_get (update_backend conn m b) =
     (dm_get m)(cb_name b := refreshed conn b (dm_get m (cb_name b)))"
  by (auto simp: update_backend_def refreshed_def split: option.split)

lemma foldl_update_backend_get:
  assumes "distinct (map cb_name bs)"
  shows "dm_get (foldl (update_backend conn) m bs) name =
    (case find (\<lambda>b. cb_name b = name) bs of
       Some b \<Rightarrow> refreshed conn b (dm_get m name) | None \<Rightarrow> dm_get m name)"
  using assms
proof (induction bs arbitrary: m)
  case (Cons b bs)
  moreover have "find (\<lambda>b'. cb_name b' = cb_name b) bs = None"
    using Cons.prems by (simp add: find_None_iff) (metis imageI)
  ultimately show ?case by (auto simp: update_backend_get split: option.split)
qed simp

lemma dm_get_filter_keys:
  "dm_get (filter (\<lambda>(k, v). k \<in> A) m) k = (if k \<in> A then dm_get m k else None)"
  by (induction m) auto

lemma update_backends_get:
  assumes "distinct (map cb_name bs)"
  shows "dm_get (cr_backends (update_backends conn bs r)) name =
    (case find (\<lambda>b. cb_name b = name) bs of
       Some b \<Rightarrow> refreshed conn b (dm_get (cr_backends r) name) | None \<Rightarrow> None)"
proof (cases "find (\<lambda>b. cb_name b = name) bs")
  case None
  then have "name \<notin> cb_name ` set bs" by (auto simp: find_None_iff)
  then show ?thesis
    using None by (simp add: update_backends_def foldl_update_backend_get [OF assms] dm_get_filter_keys)
next
  case (Some b)
  then have "name \<in> cb_name ` set bs" by (auto simp: find_Some_iff)
  then show ?thesis
    using Some by (simp add: update_backends_def foldl_update_backend_get [OF assms] dm_get_filter_keys)
qed

lemma find_by_key:
  assumes "distinct (map f xs)" "x \<in> set xs"
  shows "find (\<lambda>y. f y = f x) xs = Some x"
  using assms by (induction xs) (auto simp: image_iff)

lemma update_backends_listed:
  assumes "distinct (map cb_name bs)" "b \<in> set bs"
  shows "dm_get (cr_backends (update_backends conn bs r)) (cb_name b) =
    refreshed conn b (dm_get (cr_backends r) (cb_name b))"
  by (simp add: update_backends_get [OF assms(1)] find_by_key [OF assms])

lemma refreshed_cases:
  assumes "refreshed conn b old = Some c"
  obtains (fresh) channel where "old = None" "conn (lit ''http://'' @ cb_service_addr b) = Some channel"
      "c = \<lparr>ch_status = Available, ch_generation = cb_generation b, ch_channel = channel,
        ch_backend_name = cb_name b, ch_service = cb_service_addr b, ch_endpoint = cb_address b\<rparr>"
    | (renewed) channel prev where "old = Some prev" "ch_status prev = Unavailable \<or> ch_generation prev < cb_generation b"
      "c = prev\<lparr>ch_status := Available, ch_generation := cb_generation b, ch_channel := channel\<rparr>"
    | (kept) "old = Some c" "ch_status c = Available" "cb_generation b \<le> ch_generation c"
proof -
  obtain channel where ch: "conn (lit ''http://'' @ cb_service_addr b) = Some channel"
    using assms by (auto simp: refreshed_def cp_channel_new_def)
  show thesis
  proof (cases old)
    case None
    then show ?thesis using assms ch by (intro fresh) (auto simp: refreshed_def cp_channel_new_def)
  next
    case (Some prev)
    then have c: "c = merge_channel b \<lparr>ch_status = Available, ch_generation = cb_generation b, ch_channel = channel,
        ch_backend_name = cb_name b, ch_service = cb_service_addr b, ch_endpoint = cb_address b\<rparr> prev"
      using assms ch by (simp add: refreshed_def cp_channel_new_def)
    show ?thesis
    proof (cases "ch_status prev = Unavailable \<or> ch_generation prev < cb_generation b")
      case True
      then show ?thesis using Some c
        by (intro renewed [of prev channel]; cases "ch_status prev") (auto simp: merge_channel_def)
    next
      case False
      then have "ch_status prev = Available" by (cases "ch_status prev") simp_all
      then show ?thesis using Some c False by (intro kept) (auto simp: merge_channel_def)
    qed
  qed
qed

lemma refreshed_available:
  assumes "refreshed conn b old = Some c"
  shows "ch_status c = Available" "cb_generation b \<le> ch_generation c"
    "old = Some prev \<Longrightarrow> ch_status prev = Available \<Longrightarrow> ch_generation prev \<le> ch_generation c"
  using assms by (cases rule: refreshed_cases; auto)+

lemma refreshed_name:
  assumes "refreshed conn b old = Some c" "\<forall>prev. old = Some prev \<longrightarrow> ch_backend_name prev = cb_name b"
  shows "ch_backend_name c = cb_name b"
  using assms by (cases rule: refreshed_cases) auto

lemma refreshed_None: "refreshed conn b old = None \<longleftrightarrow> conn (lit ''http://'' @ cb_service_addr b) = None"
  by (simp add: refreshed_def cp_channel_new_def)

lemma update_backends_dom:
  assumes "distinct (map cb_name bs)"
  shows "dom (dm_get (cr_backends (update_backends conn bs r))) =
    {cb_name b | b. b \<in> set bs \<and> conn (lit ''http://'' @ cb_service_addr b) \<noteq> None}" (is "?dom = ?members")
proof (intro set_eqI iffI)
  fix name
  assume "name \<in> ?members"
  then show "name \<in> ?dom"
    using update_backends_listed [OF assms, of _ conn r] refreshed_None [of conn] by force
next
  fix name
  assume "name \<in> ?dom"
  then obtain b where b: "find (\<lambda>b. cb_name b = name) bs = Some b"
    "refreshed conn b (dm_get (cr_backends r) name) \<noteq> None"
    by (auto simp: update_backends_get [OF assms] split: option.splits)
  moreover from b(1) have "b \<in> set bs" "cb_name b = name" by (auto simp: find_Some_iff)
  ultimately show "name \<in> ?members" by (auto simp: refreshed_None)
qed

lemma foldl_update_backend_wf: "dm_wf m \<Longrightarrow> dm_wf (foldl (update_backend conn) m bs)"
  by (induction bs arbitrary: m) (auto simp: update_backend_def split: option.split)

lemma dm_wf_filter: "dm_wf m \<Longrightarrow> dm_wf (filter p m)"
  by (simp add: dm_wf_def distinct_map_filter)

lemma update_backends_wf:
  assumes "resolver_wf r" "distinct (map cb_name bs)"
  shows "resolver_wf (update_backends conn bs r)"
  unfolding resolver_wf_iff
proof (intro conjI allI impI)
  show "dm_wf (cr_backends (update_backends conn bs r))"
    using assms(1) by (simp add: update_backends_def resolver_wf_def foldl_update_backend_wf dm_wf_filter)
next
  fix name c
  assume "dm_get (cr_backends (update_backends conn bs r)) name = Some c"
  then obtain b where b: "find (\<lambda>b. cb_name b = name) bs = Some b"
    "refreshed conn b (dm_get (cr_backends r) name) = Some c"
    by (auto simp: update_backends_get [OF assms(2)] split: option.splits)
  from b(1) have "cb_name b = name" by (auto simp: find_Some_iff)
  with refreshed_name [OF b(2)] assms(1) show "ch_backend_name c = name" by (simp add: resolver_wf_iff)
qed

lemma mark_unavailable_wf: "resolver_wf r \<Longrightarrow> resolver_wf (mark_backend_unavailable name r)"
  by (auto simp: mark_backend_unavailable_def resolver_wf_iff split: option.split)

end
