(* ===== verification/Utf8.thy ===== *)
theory Utf8
  imports Prelude
begin

text \<open>
  Rust strings and their UTF-8 bytes (\<open>std::str::from_utf8\<close>, \<open>str::len\<close>, byte slicing of a \<open>str\<close>).
  A string is its list of Unicode scalar values; lengths and slice bounds count bytes, and slicing
  panics off a character boundary.
\<close>

definition is_scalar :: "nat \<Rightarrow> bool" where
  "is_scalar c \<longleftrightarrow> c < 0xD800 \<or> 0xE000 \<le> c \<and> c < 0x110000"

definition char_len :: "nat \<Rightarrow> nat" where
  "char_len c = (if c < 0x80 then 1 else if c < 0x800 then 2 else if c < 0x10000 then 3 else 4)"

definition utf8_char :: "nat \<Rightarrow> bytes" where
  "utf8_char c =
     (if c < 0x80 then [word_of_nat c]
      else if c < 0x800 then
        [word_of_nat (0xC0 + c div 64), word_of_nat (0x80 + c mod 64)]
      else if c < 0x10000 then
        [word_of_nat (0xE0 + c div 4096), word_of_nat (0x80 + c div 64 mod 64),
         word_of_nat (0x80 + c mod 64)]
      else
        [word_of_nat (0xF0 + c div 262144), word_of_nat (0x80 + c div 4096 mod 64),
         word_of_nat (0x80 + c div 64 mod 64), word_of_nat (0x80 + c mod 64)])"

definition utf8_encode :: "rstr \<Rightarrow> bytes" where
  "utf8_encode s = concat (map utf8_char s)"

definition str_len :: "rstr \<Rightarrow> nat" where
  "str_len s = sum_list (map char_len s)"

text \<open>A continuation byte \<open>10xxxxxx\<close>.\<close>

definition is_cont :: "u8 \<Rightarrow> bool" where
  "is_cont b \<longleftrightarrow> 0x80 \<le> unat b \<and> unat b < 0xC0"

text \<open>
  The first character of a byte string: its scalar value and the bytes behind it. Overlong forms,
  surrogates and values past \<open>0x10FFFF\<close> are refused.
\<close>

definition utf8_head :: "bytes \<Rightarrow> (nat \<times> bytes) option" where
  "utf8_head bs =
     (case bs of
        [] \<Rightarrow> None
      | b # r \<Rightarrow>
          let n = unat b;
              c1 = unat (r ! 0) - 0x80; c2 = unat (r ! 1) - 0x80; c3 = unat (r ! 2) - 0x80 in
          if n < 0x80 then Some (n, r)
          else if 0xC2 \<le> n \<and> n < 0xE0 then
            (if 1 \<le> length r \<and> is_cont (r ! 0) then Some ((n - 0xC0) * 64 + c1, drop 1 r) else None)
          else if 0xE0 \<le> n \<and> n < 0xF0 then
            (let c = (n - 0xE0) * 4096 + c1 * 64 + c2 in
             if 2 \<le> length r \<and> is_cont (r ! 0) \<and> is_cont (r ! 1) \<and> 0x800 \<le> c \<and> is_scalar c
             then Some (c, drop 2 r) else None)
          else if 0xF0 \<le> n \<and> n < 0xF5 then
            (let c = (n - 0xF0) * 262144 + c1 * 4096 + c2 * 64 + c3 in
             if 3 \<le> length r \<and> is_cont (r ! 0) \<and> is_cont (r ! 1) \<and> is_cont (r ! 2) \<and>
                0x10000 \<le> c \<and> is_scalar c
             then Some (c, drop 3 r) else None)
          else None)"

lemma utf8_head_shorter: "utf8_head bs = Some (c, r) \<Longrightarrow> length r < length bs"
  by (cases bs) (auto simp: utf8_head_def Let_def split: if_splits)

function utf8_decode :: "bytes \<Rightarrow> rstr option" where
  "utf8_decode bs =
     (if bs = [] then Some []
      else case utf8_head bs of
             None \<Rightarrow> None
           | Some (c, r) \<Rightarrow> map_option (\<lambda>cs. c # cs) (utf8_decode r))"
  by pat_completeness auto
termination
  by (relation "measure length") (auto dest: utf8_head_shorter)

declare utf8_decode.simps [simp del]

lemma utf8_decode_Nil [simp]: "utf8_decode [] = Some []"
  by (simp add: utf8_decode.simps)

lemma length_utf8_char: "length (utf8_char c) = char_len c"
  by (simp add: utf8_char_def char_len_def)

lemma length_utf8_encode: "length (utf8_encode s) = str_len s"
  by (induction s) (simp_all add: utf8_encode_def str_len_def length_utf8_char)

lemma sextets2: "c div 4096 * 4096 + c div 64 mod 64 * 64 + c mod 64 = (c :: nat)"
proof -
  have "c div 4096 = c div 64 div 64" by (simp add: div_mult2_eq)
  then show ?thesis
    using div_mult_mod_eq [of c 64] div_mult_mod_eq [of "c div 64" 64] by linarith
qed

lemma sextets3:
  "c div 262144 * 262144 + c div 4096 mod 64 * 4096 + c div 64 mod 64 * 64 + c mod 64 = (c :: nat)"
proof -
  have "c div 262144 = c div 4096 div 64" by (simp add: div_mult2_eq)
  then show ?thesis
    using sextets2 [of c] div_mult_mod_eq [of "c div 4096" 64] by linarith
qed

lemma sextet_bound: "(c :: nat) mod 64 < 64"
  by simp

lemma utf8_head_char:
  assumes "is_scalar c"
  shows "utf8_head (utf8_char c @ r) = Some (c, r)"
proof -
  have cont: "unat (word_of_nat (0x80 + x mod 64) :: u8) = 0x80 + x mod 64"
    "is_cont (word_of_nat (0x80 + x mod 64))" for x :: nat
  proof -
    have "0x80 + x mod 64 < 256" using sextet_bound [of x] by linarith
    then show "unat (word_of_nat (0x80 + x mod 64) :: u8) = 0x80 + x mod 64"
      by (rule unat_word_of_nat_u8)
    then show "is_cont (word_of_nat (0x80 + x mod 64))"
      using sextet_bound [of x] unfolding is_cont_def by linarith
  qed
  have lead: "unat (word_of_nat (k + x) :: u8) = k + x" if "k + x < 256" for k x :: nat
    using that by (rule unat_word_of_nat_u8)
  consider "c < 0x80" | "0x80 \<le> c" "c < 0x800" | "0x800 \<le> c" "c < 0x10000"
    | "0x10000 \<le> c" "c < 0x110000"
    using assms unfolding is_scalar_def by linarith
  then show ?thesis
  proof cases
    case 1
    then show ?thesis by (simp add: utf8_head_def utf8_char_def)
  next
    case 2
    then have "2 \<le> c div 64" "c div 64 < 32"
      by (simp_all add: less_eq_div_iff_mult_less_eq div_less_iff_less_mult)
    with 2 cont [of c] lead [of 192 "c div 64"] show ?thesis
      by (simp add: utf8_head_def utf8_char_def Let_def del: of_nat_add)
  next
    case 3
    then have "c div 4096 < 16" by (simp add: div_less_iff_less_mult)
    with 3 assms cont [of c] cont [of "c div 64"] lead [of 224 "c div 4096"] sextets2 [of c]
    show ?thesis
      by (simp add: utf8_head_def utf8_char_def Let_def del: of_nat_add)
  next
    case 4
    then have "c div 262144 < 5" by (simp add: div_less_iff_less_mult)
    with 4 assms cont [of c] cont [of "c div 64"] cont [of "c div 4096"]
      lead [of 240 "c div 262144"] sextets3 [of c]
    show ?thesis
      by (simp add: utf8_head_def utf8_char_def Let_def numeral_2_eq_2 del: of_nat_add)
  qed
qed

lemma utf8_char_not_Nil: "utf8_char c \<noteq> []"
  by (simp add: utf8_char_def)

lemma utf8_decode_encode:
  assumes "list_all is_scalar s"
  shows "utf8_decode (utf8_encode s) = Some s"
  using assms
proof (induction s)
  case Nil
  then show ?case by (simp add: utf8_encode_def)
next
  case (Cons c s)
  then show ?case
    using utf8_char_not_Nil [of c] utf8_head_char [of c "utf8_encode s"]
    by (subst utf8_decode.simps) (simp add: utf8_encode_def)
qed

text \<open>An ASCII byte of an encoding is that character: the multi-byte forms only use high bytes.\<close>

lemma word_of_nat_high: "128 \<le> x \<Longrightarrow> x < 256 \<Longrightarrow> b < 128 \<Longrightarrow> word_of_nat x \<noteq> (word_of_nat b :: u8)"
  by (metis linorder_not_le nat_less_le order_less_le_trans unat_word_of_nat_u8 less_trans)

lemma utf8_char_ascii:
  assumes "is_scalar c" "b < 128" "word_of_nat b \<in> set (utf8_char c)"
  shows "b = c"
proof (rule ccontr)
  assume "b \<noteq> c"
  have m: "x mod 64 < 64" for x :: nat by simp
  have "c < 0x110000" using assms(1) by (auto simp: is_scalar_def)
  then have d: "c < 0x800 \<Longrightarrow> c div 64 < 32" "c < 0x10000 \<Longrightarrow> c div 4096 < 16" "c div 262144 < 5"
    by (simp_all add: div_less_iff_less_mult)
  have n: "(word_of_nat b :: u8) \<noteq> word_of_nat (k + x)" if "128 \<le> k" "k + x < 256" for k x
    using word_of_nat_high [of "k + x" b] that assms(2) by auto
  show False
  proof (cases "c < 128")
    case True
    with assms(2,3) \<open>b \<noteq> c\<close> show False
      using unat_word_of_nat_u8 [of b] unat_word_of_nat_u8 [of c] by (auto simp: utf8_char_def)
  next
    case False
    with assms(3) n [of 128 "c mod 64"] n [of 128 "c div 64 mod 64"] n [of 128 "c div 4096 mod 64"]
      n [of 192 "c div 64"] n [of 224 "c div 4096"] n [of 240 "c div 262144"]
      m [of c] m [of "c div 64"] m [of "c div 4096"] d
    show False by (auto simp: utf8_char_def split: if_splits simp del: of_nat_add)
  qed
qed

lemma utf8_no_ascii:
  assumes "list_all is_scalar s" "b \<notin> set s" "b < 128"
  shows "word_of_nat b \<notin> set (utf8_encode s)"
  using assms utf8_char_ascii by (fastforce simp: utf8_encode_def list_all_iff)

subsection \<open>Lossy decoding\<close>

text \<open>
  \<open>String::from_utf8_lossy\<close>: every maximal invalid piece becomes one \<open>U+FFFD\<close>. A piece is the lead
  byte with as many continuation bytes as still fit some valid sequence.
\<close>

definition second_ok :: "nat \<Rightarrow> u8 \<Rightarrow> bool" where
  "second_ok n b \<longleftrightarrow>
     (if n = 0xE0 then 0xA0 \<le> unat b \<and> unat b < 0xC0
      else if n = 0xED then 0x80 \<le> unat b \<and> unat b < 0xA0
      else if n = 0xF0 then 0x90 \<le> unat b \<and> unat b < 0xC0
      else if n = 0xF4 then 0x80 \<le> unat b \<and> unat b < 0x90
      else is_cont b)"

definition invalid_len :: "bytes \<Rightarrow> nat" where
  "invalid_len bs =
     (case bs of
        [] \<Rightarrow> 0
      | b # r \<Rightarrow>
          if 0xE0 \<le> unat b \<and> unat b < 0xF5 \<and> r \<noteq> [] \<and> second_ok (unat b) (r ! 0) then
            (if 0xF0 \<le> unat b \<and> 2 \<le> length r \<and> is_cont (r ! 1) then 3 else 2)
          else 1)"

function utf8_lossy :: "bytes \<Rightarrow> rstr" where
  "utf8_lossy bs =
     (if bs = [] then []
      else case utf8_head bs of
             Some (c, r) \<Rightarrow> c # utf8_lossy r
           | None \<Rightarrow> 0xFFFD # utf8_lossy (drop (invalid_len bs) bs))"
  by pat_completeness auto
termination
  by (relation "measure length")
    (auto dest: utf8_head_shorter simp: invalid_len_def neq_Nil_conv)

declare utf8_lossy.simps [simp del]

lemma utf8_lossy_Nil [simp]: "utf8_lossy [] = []"
  by (simp add: utf8_lossy.simps)

lemma utf8_lossy_valid: "utf8_decode bs = Some s \<Longrightarrow> utf8_lossy bs = s"
proof (induction bs arbitrary: s rule: utf8_decode.induct)
  case (1 bs)
  show ?case
  proof (cases "bs = []")
    case False
    with "1.prems" obtain c r t where h: "utf8_head bs = Some (c, r)" "utf8_decode r = Some t" "s = c # t"
      by (subst (asm) utf8_decode.simps) (auto split: option.splits)
    then have "utf8_lossy r = t" using "1.IH" False by auto
    with h False show ?thesis by (subst utf8_lossy.simps) simp
  qed (use "1.prems" in simp)
qed

subsection \<open>Byte slices of strings\<close>

text \<open>\<open>&s[..n]\<close> and \<open>&s[n..]\<close>: \<open>None\<close> is the panic off a character boundary or past the end.\<close>

fun str_split :: "nat \<Rightarrow> rstr \<Rightarrow> (rstr \<times> rstr) option" where
  "str_split 0 s = Some ([], s)"
| "str_split (Suc n) [] = None"
| "str_split (Suc n) (c # s) =
     (if char_len c \<le> Suc n
      then map_option (\<lambda>(a, b). (c # a, b)) (str_split (Suc n - char_len c) s)
      else None)"

definition str_slice :: "nat \<Rightarrow> nat \<Rightarrow> rstr \<Rightarrow> rstr option" where
  "str_slice a b s =
     (if b < a then None
      else case str_split a s of
             None \<Rightarrow> None
           | Some (_, t) \<Rightarrow> map_option fst (str_split (b - a) t))"

lemma char_len_pos [simp]: "0 < char_len c"
  by (simp add: char_len_def)

lemma str_split_append: "str_split (str_len a) (a @ b) = Some (a, b)"
proof (induction a)
  case (Cons c a)
  obtain n where "char_len c + str_len a = Suc n"
    using char_len_pos [of c] by (metis add_gr_0 gr0_implies_Suc)
  with Cons show ?case
    by (auto simp: str_len_def) (metis diff_add_inverse le_add1 option.map(2) prod.case str_split.simps(3))
qed (simp add: str_len_def)

lemma str_slice_append:
  "str_slice (str_len a) (str_len a + str_len b) (a @ b @ c) = Some b"
  by (simp add: str_slice_def str_split_append)

lemma str_len_append [simp]: "str_len (a @ b) = str_len a + str_len b"
  by (simp add: str_len_def)

subsection \<open>Numbers\<close>

text \<open>\<open>format!\<close> of an unsigned number.\<close>

fun digits :: "nat \<Rightarrow> rstr" where
  "digits n = (if n < 10 then [48 + n] else digits (n div 10) @ [48 + n mod 10])"

declare digits.simps [simp del]

end
