(* ===== verification/Tenant.thy ===== *)
theory Tenant
  imports Utf8
begin

text \<open>
  \<open>backend/mod.rs\<close>: the obfuscated tenant key that clients put into their user name, backend
  instances and the life cycle marker of a pooled connection. The main result is that decoding an
  encoded key gives the key back, for all keys whose lengths fit the header, and what happens
  beyond that.
\<close>

subsection \<open>Data\<close>

record TenantKey =
  tk_region :: rstr
  tk_available_zone :: rstr
  tk_namespace :: rstr
  tk_cluster_name :: rstr

definition tenant_key_default :: TenantKey where
  "tenant_key_default = \<lparr>tk_region = [], tk_available_zone = [], tk_namespace = [], tk_cluster_name = []\<rparr>"

definition test_tenant_key :: TenantKey where
  "test_tenant_key = \<lparr>tk_region = lit ''NONE'', tk_available_zone = lit ''NONE'',
     tk_namespace = lit ''NONE'', tk_cluster_name = lit ''NONE''\<rparr>"

subsection \<open>Obfuscation\<close>

definition is_ascii_lowercase :: "nat \<Rightarrow> bool" where
  "is_ascii_lowercase c \<longleftrightarrow> 97 \<le> c \<and> c \<le> 122"

definition is_ascii_uppercase :: "nat \<Rightarrow> bool" where
  "is_ascii_uppercase c \<longleftrightarrow> 65 \<le> c \<and> c \<le> 90"

definition is_ascii_alphabetic :: "nat \<Rightarrow> bool" where
  "is_ascii_alphabetic c \<longleftrightarrow> is_ascii_lowercase c \<or> is_ascii_uppercase c"

text \<open>
  The arithmetic of the source is on \<open>u8\<close>; every intermediate value lies between 0 and 147, so it
  neither wraps nor underflows.
\<close>

definition obfuscate_char :: "nat \<Rightarrow> nat \<Rightarrow> nat" where
  "obfuscate_char c index =
     (if is_ascii_alphabetic c then
        let shift = (index * 3 + 10) mod 26;
            base = (if is_ascii_lowercase c then 97 else 65) in
        (c - base + 26 - shift) mod 26 + base
      else c)"

definition restore_char :: "nat \<Rightarrow> nat \<Rightarrow> nat" where
  "restore_char c index =
     (if is_ascii_alphabetic c then
        let shift = (index * 3 + 10) mod 26;
            base = (if is_ascii_lowercase c then 97 else 65) in
        (c - base + shift) mod 26 + base
      else c)"

definition map_enumerated :: "('a \<Rightarrow> nat \<Rightarrow> 'b) \<Rightarrow> 'a list \<Rightarrow> 'b list" where
  "map_enumerated f xs = map (\<lambda>(i, c). f c i) (enumerate 0 xs)"

definition obfuscate_string :: "rstr \<Rightarrow> rstr" where
  "obfuscate_string original_string = map_enumerated obfuscate_char original_string"

definition restore_string :: "rstr \<Rightarrow> rstr" where
  "restore_string obfuscated_string = map_enumerated restore_char obfuscated_string"

subsection \<open>The encoded key\<close>

text \<open>The crate \<open>hex\<close>: \<open>encode\<close> and \<open>decode\<close> (\<open>None\<close> is an error).\<close>

record hex =
  hex_encode :: "bytes \<Rightarrow> rstr"
  hex_decode :: "rstr \<Rightarrow> bytes option"

locale hex_spec =
  fixes H :: hex
  assumes decode_encode: "hex_decode H (hex_encode H bs) = Some bs"
    and encode_len: "str_len (hex_encode H bs) = 2 * length bs"

definition encode_tenant_key :: "hex \<Rightarrow> TenantKey \<Rightarrow> rstr" where
  "encode_tenant_key H tenant_key =
     (let encode_region = obfuscate_string (tk_region tenant_key);
          encode_az = obfuscate_string (tk_available_zone tenant_key);
          encode_s = obfuscate_string (tk_namespace tenant_key);
          encode_cluster_name = obfuscate_string (tk_cluster_name tenant_key);
          encode_len =
            [word_of_nat (str_len encode_region), word_of_nat (str_len encode_az),
             word_of_nat (str_len encode_s), word_of_nat (str_len encode_cluster_name)] in
      hex_encode H encode_len @ encode_region @ encode_az @ encode_s @ encode_cluster_name)"

text \<open>\<open>iter().sum::<u8>()\<close>, with the overflow check of the build.\<close>

fun sum_u8 :: "bool \<Rightarrow> u8 \<Rightarrow> u8 list \<Rightarrow> u8 result" where
  "sum_u8 chk acc [] = Ok acc"
| "sum_u8 chk acc (b # bs) = rbind (add_chk chk acc b) (\<lambda>acc. sum_u8 chk acc bs)"

definition set_field :: "nat \<Rightarrow> rstr \<Rightarrow> TenantKey \<Rightarrow> TenantKey" where
  "set_field idx field key =
     (if idx = 0 then key\<lparr>tk_region := field\<rparr>
      else if idx = 1 then key\<lparr>tk_available_zone := field\<rparr>
      else if idx = 2 then key\<lparr>tk_namespace := field\<rparr>
      else if idx = 3 then key\<lparr>tk_cluster_name := field\<rparr>
      else key)"

text \<open>The \<open>for_each\<close> over the header bytes: \<open>ls\<close> are the lengths not yet handled.\<close>

fun decode_fields :: "bool \<Rightarrow> rstr \<Rightarrow> u8 list \<Rightarrow> nat \<Rightarrow> u8 list \<Rightarrow> TenantKey \<Rightarrow> TenantKey result" where
  "decode_fields chk key_string key_len idx [] key = Ok key"
| "decode_fields chk key_string key_len idx (len # ls) key =
     rbind (sum_u8 chk 0 (take idx key_len)) (\<lambda>sum.
       let start = 8 + unat sum; end_pos = start + unat len in
       rbind (unwrap_opt (str_slice start end_pos key_string)) (\<lambda>decode_string.
         decode_fields chk key_string key_len (Suc idx) ls
           (set_field idx (restore_string decode_string) key)))"

definition decode_tenant_key :: "hex \<Rightarrow> bool \<Rightarrow> rstr \<Rightarrow> TenantKey result" where
  "decode_tenant_key H chk key_string =
     rbind (unwrap_opt (str_slice 0 8 key_string)) (\<lambda>header.
     rbind (unwrap_opt (hex_decode H header)) (\<lambda>key_len.
     decode_fields chk key_string key_len 0 key_len tenant_key_default))"

subsection \<open>Backend instances and connection life cycles\<close>

datatype ServiceStatus = UnKnowStatus | NotReady | Ready | Offline

fun status_as_str_name :: "ServiceStatus \<Rightarrow> string" where
  "status_as_str_name UnKnowStatus = ''UnKnowStatus''"
| "status_as_str_name NotReady = ''NotReady''"
| "status_as_str_name Ready = ''Ready''"
| "status_as_str_name Offline = ''Offline''"

definition status_from_str_name :: "string \<Rightarrow> ServiceStatus option" where
  "status_from_str_name v =
     (if v = ''UnKnowStatus'' then Some UnKnowStatus
      else if v = ''NotReady'' then Some NotReady
      else if v = ''Ready'' then Some Ready
      else if v = ''Offline'' then Some Offline
      else None)"

record ClusterName =
  cn_namespace :: rstr
  cn_cluster_name :: rstr

record DBLocation =
  loc_region :: rstr
  loc_available_zone :: rstr
  loc_namespace :: rstr
  loc_node_name :: rstr

record BackendInstance =
  bi_location :: DBLocation
  bi_addr :: rstr
  bi_status :: ServiceStatus
  bi_cluster :: ClusterName

definition backend_instance_new ::
  "DBLocation \<Rightarrow> rstr \<Rightarrow> ServiceStatus \<Rightarrow> ClusterName \<Rightarrow> BackendInstance" where
  "backend_instance_new location addr status cluster =
     \<lparr>bi_location = location, bi_addr = addr, bi_status = status, bi_cluster = cluster\<rparr>"

datatype DbConnPhase = PhaseNone | PhaseConnection | PhaseCommand

record DbUserConnLifeCycle =
  lc_db_user :: "rstr option"
  lc_conn_phase :: "DbConnPhase option"

definition life_cycle_default :: DbUserConnLifeCycle where
  "life_cycle_default = \<lparr>lc_db_user = None, lc_conn_phase = None\<rparr>"

definition life_cycle_is_none :: "DbUserConnLifeCycle \<Rightarrow> bool" where
  "life_cycle_is_none lc \<longleftrightarrow> lc_db_user lc = None \<and> lc_conn_phase lc = None"

definition new_conn_life_cycle :: "rstr \<Rightarrow> DbConnPhase \<Rightarrow> DbUserConnLifeCycle" where
  "new_conn_life_cycle db_user conn_phase =
     \<lparr>lc_db_user = Some db_user, lc_conn_phase = Some conn_phase\<rparr>"

lemma status_names: "status_from_str_name v = Some s \<longleftrightarrow> v = status_as_str_name s"
  by (cases s) (auto simp: status_from_str_name_def)

subsection \<open>Obfuscation is invertible\<close>

lemma shift_back:
  assumes "x < 26" "s < (26 :: nat)"
  shows "((x + 26 - s) mod 26 + s) mod 26 = x"
proof -
  have "((x + 26 - s) mod 26 + s) mod 26 = (x + 26 - s + s) mod 26" by (rule mod_add_left_eq)
  also have "\<dots> = x" using assms by simp
  finally show ?thesis .
qed

lemma obfuscate_char_case:
  "is_ascii_lowercase (obfuscate_char c i) = is_ascii_lowercase c"
  "is_ascii_uppercase (obfuscate_char c i) = is_ascii_uppercase c"
proof -
  have m: "x mod 26 < 26" for x :: nat by simp
  define y where "y = (c - (if is_ascii_lowercase c then 97 else 65) + 26 - (i * 3 + 10) mod 26) mod 26"
  have "y < 26" by (simp add: y_def)
  moreover have "obfuscate_char c i =
      (if is_ascii_alphabetic c then y + (if is_ascii_lowercase c then 97 else 65) else c)"
    by (simp add: obfuscate_char_def y_def Let_def)
  ultimately show "is_ascii_lowercase (obfuscate_char c i) = is_ascii_lowercase c"
    "is_ascii_uppercase (obfuscate_char c i) = is_ascii_uppercase c"
    by (auto simp: is_ascii_lowercase_def is_ascii_uppercase_def is_ascii_alphabetic_def)
qed

lemma restore_obfuscate_char: "restore_char (obfuscate_char c i) i = c"
proof (cases "is_ascii_alphabetic c")
  case True
  define base :: nat where "base = (if is_ascii_lowercase c then 97 else 65)"
  define s where "s = (i * 3 + 10) mod 26"
  have b: "base \<le> c" "c - base < 26"
    using True by (auto simp: base_def is_ascii_alphabetic_def is_ascii_lowercase_def is_ascii_uppercase_def)
  have o: "obfuscate_char c i = (c - base + 26 - s) mod 26 + base"
    using True by (simp add: obfuscate_char_def base_def s_def Let_def)
  have "restore_char (obfuscate_char c i) i = (obfuscate_char c i - base + s) mod 26 + base"
    using True by (simp add: restore_char_def is_ascii_alphabetic_def obfuscate_char_case base_def s_def Let_def)
  also have "\<dots> = ((c - base + 26 - s) mod 26 + s) mod 26 + base" unfolding o by simp
  also have "\<dots> = c" using shift_back [OF b(2), of s] b(1) by (simp add: s_def)
  finally show ?thesis .
next
  case False
  then show ?thesis by (simp add: restore_char_def obfuscate_char_def)
qed

lemma map_enumerated_inverse:
  assumes "\<And>c i. g (f c i) i = c"
  shows "map_enumerated g (map_enumerated f xs) = xs"
proof -
  have "map (\<lambda>(i, c). g c i) (enumerate n (map (\<lambda>(i, c). f c i) (enumerate n xs))) = xs" for n
    by (induction xs arbitrary: n) (simp_all add: assms)
  then show ?thesis by (simp add: map_enumerated_def)
qed

lemma restore_obfuscate: "restore_string (obfuscate_string s) = s"
  unfolding restore_string_def obfuscate_string_def
  by (rule map_enumerated_inverse) (rule restore_obfuscate_char)

text \<open>Obfuscation keeps the length in bytes: ASCII letters stay ASCII letters.\<close>

lemma char_len_obfuscate: "char_len (obfuscate_char c i) = char_len c"
proof (cases "is_ascii_alphabetic c")
  case True
  then have "is_ascii_alphabetic (obfuscate_char c i)"
    by (simp add: is_ascii_alphabetic_def obfuscate_char_case)
  with True show ?thesis
    by (auto simp: char_len_def is_ascii_alphabetic_def is_ascii_lowercase_def is_ascii_uppercase_def)
qed (simp add: obfuscate_char_def)

lemma str_len_obfuscate: "str_len (obfuscate_string s) = str_len s"
proof -
  have "sum_list (map char_len (map (\<lambda>(i, c). obfuscate_char c i) (enumerate n s))) =
      sum_list (map char_len s)" for n
    by (induction s arbitrary: n) (simp_all add: char_len_obfuscate)
  then show ?thesis by (simp add: str_len_def obfuscate_string_def map_enumerated_def)
qed

subsection \<open>Decoding an encoded key\<close>

lemma sum_u8_fits:
  assumes "unat acc + sum_list (map unat bs) < 256"
  shows "\<exists>v. sum_u8 chk acc bs = Ok v \<and> unat v = unat acc + sum_list (map unat bs)"
  using assms
proof (induction bs arbitrary: acc)
  case (Cons b bs)
  then have lt: "unat acc + unat b < 2 ^ LENGTH(8)" by simp
  then have "unat (acc + b) = unat acc + unat b" by (simp add: unat_word_ariths)
  with Cons.IH [of "acc + b"] Cons.prems add_chk_no_overflow [OF lt, of chk] show ?case
    by (simp add: add.assoc)
qed simp

lemma sum_u8_overflow:
  assumes "256 \<le> unat acc + sum_list (map unat bs)"
  shows "sum_u8 True acc bs = Panic"
  using assms
proof (induction bs arbitrary: acc)
  case Nil
  then show ?case using unat_u8_lt [of acc] by simp
next
  case (Cons b bs)
  show ?case
  proof (cases "unat acc + unat b < 256")
    case True
    then have "unat (acc + b) = unat acc + unat b" by (simp add: unat_word_ariths)
    with Cons True show ?thesis by (simp add: add_chk_def)
  qed (simp add: add_chk_def)
qed

definition header_of :: "TenantKey \<Rightarrow> u8 list" where
  "header_of k = [word_of_nat (str_len (tk_region k)), word_of_nat (str_len (tk_available_zone k)),
     word_of_nat (str_len (tk_namespace k)), word_of_nat (str_len (tk_cluster_name k))]"

definition lengths_fit :: "TenantKey \<Rightarrow> bool" where
  "lengths_fit k \<longleftrightarrow> str_len (tk_region k) < 256 \<and> str_len (tk_available_zone k) < 256 \<and>
     str_len (tk_namespace k) < 256 \<and> str_len (tk_cluster_name k) < 256"

definition prefix_len :: "TenantKey \<Rightarrow> nat" where
  "prefix_len k = str_len (tk_region k) + str_len (tk_available_zone k) + str_len (tk_namespace k)"

text \<open>One step of the loop: the slice is the field, as long as the prefix sum fits a byte.\<close>

lemma decode_fields_step:
  assumes "str_len hdr = 8" "sum_list (map unat (take idx key_len)) = str_len pre" "str_len pre < 256"
    "str_len field < 256"
  shows "decode_fields chk (hdr @ pre @ obfuscate_string field @ post) key_len idx
      (word_of_nat (str_len field) # ls) key =
    decode_fields chk (hdr @ pre @ obfuscate_string field @ post) key_len (Suc idx) ls
      (set_field idx field key)"
proof -
  obtain v where v: "sum_u8 chk 0 (take idx key_len) = Ok v" "unat v = str_len pre"
    using sum_u8_fits [of 0 "take idx key_len" chk] assms(2,3) by auto
  have "str_slice (8 + str_len pre) (8 + str_len pre + str_len field)
      (hdr @ pre @ obfuscate_string field @ post) = Some (obfuscate_string field)"
    using str_slice_append [of "hdr @ pre" "obfuscate_string field" post] assms(1)
    by (simp add: str_len_obfuscate)
  with v assms(4) show ?thesis by (simp add: restore_obfuscate)
qed

context hex_spec
begin

lemma encode_shape:
  "encode_tenant_key H k = hex_encode H (header_of k) @ obfuscate_string (tk_region k) @
     obfuscate_string (tk_available_zone k) @ obfuscate_string (tk_namespace k) @
     obfuscate_string (tk_cluster_name k)"
  by (simp add: encode_tenant_key_def header_of_def str_len_obfuscate Let_def)

lemma decode_encoded:
  "decode_tenant_key H chk (encode_tenant_key H k) =
     decode_fields chk (encode_tenant_key H k) (header_of k) 0 (header_of k) tenant_key_default"
proof -
  have "str_len (hex_encode H (header_of k)) = 8" by (simp add: encode_len header_of_def)
  then have "str_slice 0 8 (encode_tenant_key H k) = Some (hex_encode H (header_of k))"
    using str_slice_append [of "[]" "hex_encode H (header_of k)"]
    by (simp add: encode_shape str_len_def)
  then show ?thesis by (simp add: decode_tenant_key_def decode_encode)
qed

lemma decode_steps:
  assumes "lengths_fit k"
  shows step0: "decode_fields chk (encode_tenant_key H k) (header_of k) 0
        (word_of_nat (str_len (tk_region k)) # ls) x =
      decode_fields chk (encode_tenant_key H k) (header_of k) 1 ls (set_field 0 (tk_region k) x)"
    and step1: "decode_fields chk (encode_tenant_key H k) (header_of k) 1
        (word_of_nat (str_len (tk_available_zone k)) # ls) x =
      decode_fields chk (encode_tenant_key H k) (header_of k) 2 ls (set_field 1 (tk_available_zone k) x)"
    and step2: "str_len (tk_region k) + str_len (tk_available_zone k) < 256 \<Longrightarrow>
      decode_fields chk (encode_tenant_key H k) (header_of k) 2
        (word_of_nat (str_len (tk_namespace k)) # ls) x =
      decode_fields chk (encode_tenant_key H k) (header_of k) 3 ls (set_field 2 (tk_namespace k) x)"
    and step3: "prefix_len k < 256 \<Longrightarrow>
      decode_fields chk (encode_tenant_key H k) (header_of k) 3
        (word_of_nat (str_len (tk_cluster_name k)) # ls) x =
      decode_fields chk (encode_tenant_key H k) (header_of k) 4 ls (set_field 3 (tk_cluster_name k) x)"
proof -
  let ?r = "tk_region k" and ?a = "tk_available_zone k" and ?n = "tk_namespace k" and ?c = "tk_cluster_name k"
  let ?l = "header_of k"
  have h: "str_len (hex_encode H ?l) = 8" by (simp add: encode_len header_of_def)
  note fit = assms [unfolded lengths_fit_def]
  have nil: "str_len [] = 0" by (simp add: str_len_def)
  have s0: "sum_list (map unat (take 0 ?l)) = str_len []" by (simp add: nil)
  have s1: "sum_list (map unat (take 1 ?l)) = str_len (obfuscate_string ?r)"
    and s2: "sum_list (map unat (take 2 ?l)) = str_len (obfuscate_string ?r @ obfuscate_string ?a)"
    and s3: "sum_list (map unat (take 3 ?l)) =
      str_len (obfuscate_string ?r @ obfuscate_string ?a @ obfuscate_string ?n)"
    using fit by (simp_all add: header_of_def str_len_obfuscate)
  note shapes = encode_shape str_len_obfuscate nil numeral_3_eq_3 numeral_2_eq_2 prefix_len_def
  show "decode_fields chk (encode_tenant_key H k) ?l 0 (word_of_nat (str_len ?r) # ls) x =
      decode_fields chk (encode_tenant_key H k) ?l 1 ls (set_field 0 ?r x)"
    using decode_fields_step [OF h s0, of ?r chk] fit by (simp add: shapes)
  show "decode_fields chk (encode_tenant_key H k) ?l 1 (word_of_nat (str_len ?a) # ls) x =
      decode_fields chk (encode_tenant_key H k) ?l 2 ls (set_field 1 ?a x)"
    using decode_fields_step [OF h s1, of ?a chk] fit by (simp add: shapes)
  show "str_len ?r + str_len ?a < 256 \<Longrightarrow>
      decode_fields chk (encode_tenant_key H k) ?l 2 (word_of_nat (str_len ?n) # ls) x =
      decode_fields chk (encode_tenant_key H k) ?l 3 ls (set_field 2 ?n x)"
    using decode_fields_step [OF h s2, of ?n chk] fit by (simp add: shapes)
  show "prefix_len k < 256 \<Longrightarrow>
      decode_fields chk (encode_tenant_key H k) ?l 3 (word_of_nat (str_len ?c) # ls) x =
      decode_fields chk (encode_tenant_key H k) ?l 4 ls (set_field 3 ?c x)"
    using decode_fields_step [OF h s3, of ?c chk "[]"] fit by (simp add: encode_shape str_len_obfuscate prefix_len_def)
qed

lemma decode_encode_tenant_key:
  assumes "lengths_fit k" "prefix_len k < 256"
  shows "decode_tenant_key H chk (encode_tenant_key H k) = Ok k"
proof -
  have s: "str_len (tk_region k) + str_len (tk_available_zone k) < 256"
    using assms(2) by (simp add: prefix_len_def)
  have "decode_fields chk (encode_tenant_key H k) (header_of k) 0
      [word_of_nat (str_len (tk_region k)), word_of_nat (str_len (tk_available_zone k)),
       word_of_nat (str_len (tk_namespace k)), word_of_nat (str_len (tk_cluster_name k))]
      tenant_key_default = Ok k"
    unfolding step0 [OF assms(1)] step1 [OF assms(1)] step2 [OF assms(1) s] step3 [OF assms]
    by (simp add: set_field_def tenant_key_default_def)
  then show ?thesis unfolding decode_encoded by (simp add: header_of_def)
qed

text \<open>
  When the first three fields together are longer than a byte can count, the sum of the lengths
  overflows: the checked build panics on a key it has encoded itself.
\<close>

lemma decode_encode_overflow:
  assumes "lengths_fit k" "256 \<le> prefix_len k"
  shows "decode_tenant_key H True (encode_tenant_key H k) = Panic"
proof -
  let ?l = "header_of k" and ?key = "encode_tenant_key H k"
  note fit = assms(1) [unfolded lengths_fit_def]
  let ?n = "word_of_nat (str_len (tk_namespace k)) :: u8" and ?c = "word_of_nat (str_len (tk_cluster_name k)) :: u8"
  have "decode_fields True ?key ?l 2 [?n, ?c] x = Panic" for x
  proof (cases "str_len (tk_region k) + str_len (tk_available_zone k) < 256")
    case True
    have "sum_u8 True 0 (take 3 ?l) = Panic"
      using assms(2) fit by (intro sum_u8_overflow) (simp add: header_of_def prefix_len_def)
    then show ?thesis unfolding step2 [OF assms(1) True] by simp
  next
    case False
    then have "sum_u8 True 0 (take 2 ?l) = Panic"
      using fit by (intro sum_u8_overflow) (simp add: header_of_def)
    then show ?thesis by simp
  qed
  then have "decode_fields True ?key ?l 0 [word_of_nat (str_len (tk_region k)),
      word_of_nat (str_len (tk_available_zone k)), ?n, ?c] tenant_key_default = Panic"
    unfolding step0 [OF assms(1)] step1 [OF assms(1)] by simp
  then show ?thesis unfolding decode_encoded by (simp add: header_of_def)
qed

end

text \<open>Lower-case hexadecimal digits, two per byte.\<close>

definition hex_digit :: "nat \<Rightarrow> nat" where
  "hex_digit d = (if d < 10 then 48 + d else 87 + d)"

definition hex_val :: "nat \<Rightarrow> nat option" where
  "hex_val c =
     (if 48 \<le> c \<and> c \<le> 57 then Some (c - 48)
      else if 97 \<le> c \<and> c \<le> 102 then Some (c - 87)
      else if 65 \<le> c \<and> c \<le> 70 then Some (c - 55)
      else None)"

fun hex_encode_ref :: "bytes \<Rightarrow> rstr" where
  "hex_encode_ref [] = []"
| "hex_encode_ref (b # bs) = hex_digit (unat b div 16) # hex_digit (unat b mod 16) # hex_encode_ref bs"

fun hex_decode_ref :: "rstr \<Rightarrow> bytes option" where
  "hex_decode_ref [] = Some []"
| "hex_decode_ref [c] = None"
| "hex_decode_ref (c # d # s) =
     (case (hex_val c, hex_val d, hex_decode_ref s) of
        (Some x, Some y, Some bs) \<Rightarrow> Some (word_of_nat (16 * x + y) # bs)
      | _ \<Rightarrow> None)"

definition hex_ref :: hex where
  "hex_ref = \<lparr>hex_encode = hex_encode_ref, hex_decode = hex_decode_ref\<rparr>"

lemma hex_val_digit: "d < 16 \<Longrightarrow> hex_val (hex_digit d) = Some d"
  by (simp add: hex_val_def hex_digit_def)

lemma hex_digit_len: "d < 16 \<Longrightarrow> char_len (hex_digit d) = 1"
  by (simp add: hex_digit_def char_len_def)

lemma nibbles: "(unat b div 16 :: nat) < 16" for b :: u8
  by (simp add: div_less_iff_less_mult)

lemma hex_decode_encode_ref: "hex_decode_ref (hex_encode_ref bs) = Some bs"
  by (induction bs) (simp_all add: hex_val_digit nibbles)

lemma str_len_hex_ref: "str_len (hex_encode_ref bs) = 2 * length bs"
  by (induction bs) (simp_all add: str_len_def hex_digit_len nibbles)

interpretation hex_ref: hex_spec hex_ref
  by unfold_locales (simp_all add: hex_ref_def hex_decode_encode_ref str_len_hex_ref)

end
