(* ===== verification/Discovery.thy ===== *)
theory Discovery
  imports CpResolver Tenant "HOL-Library.Finite_Map"
begin

text \<open>
  \<open>backend/backend_discovery.rs\<close>: the backends of each tenant, as the topology service of the control
  plane announces them. The gRPC streams are lists of what they deliver; the generated message types
  (\<open>prost/common_proto.rs\<close>, \<open>prost/topology.rs\<close>) are records with the fields of the source.
\<close>

subsection \<open>Messages\<close>

record Endpoint =
  ep_address :: rstr
  ep_port_name :: rstr
  ep_port :: "32 word"

record ServiceExpose =
  se_addr :: rstr
  se_port :: "32 word"

record ServiceSecrets =
  sec_user :: rstr
  sec_password :: rstr

record DBService =
  svc_location :: "DBLocation option"
  svc_cluster :: rstr
  svc_service :: rstr
  svc_status :: "32 word"
  svc_expose :: "ServiceExpose option"
  svc_secrets :: "ServiceSecrets option"
  svc_endpoints :: "Endpoint list"
  svc_payload :: "(rstr, rstr) fmap"

record DBServiceList =
  sl_service_list :: "DBService list"

record Timestamp =
  ts_seconds :: u64
  ts_nanos :: "32 word"

record ServiceChangeEvent =
  ce_service :: "DBService option"
  ce_event_timestamp :: "Timestamp option"

datatype Payload = ServiceList DBServiceList | ChangeEvent ServiceChangeEvent | NoData

text \<open>The accessor \<open>status()\<close> of the generated message: an unknown number is the default variant.\<close>

definition svc_get_status :: "DBService \<Rightarrow> ServiceStatus" where
  "svc_get_status s =
     (if svc_status s = 1 then NotReady else if svc_status s = 2 then Ready
      else if svc_status s = 3 then Offline else UnKnowStatus)"

text \<open>The discriminants of the enumeration, which its derived order compares.\<close>

fun discriminant :: "ServiceStatus \<Rightarrow> nat" where
  "discriminant UnKnowStatus = 0"
| "discriminant NotReady = 1"
| "discriminant Ready = 2"
| "discriminant Offline = 3"

lemma discriminant_inj: "discriminant a = discriminant b \<longleftrightarrow> a = b"
  by (cases a; cases b) simp_all

instantiation ServiceStatus :: linorder
begin

definition less_eq_ServiceStatus :: "ServiceStatus \<Rightarrow> ServiceStatus \<Rightarrow> bool" where
  "less_eq_ServiceStatus a b \<longleftrightarrow> discriminant a \<le> discriminant b"

definition less_ServiceStatus :: "ServiceStatus \<Rightarrow> ServiceStatus \<Rightarrow> bool" where
  "less_ServiceStatus a b \<longleftrightarrow> discriminant a < discriminant b"

instance
  by intro_classes (auto simp: less_eq_ServiceStatus_def less_ServiceStatus_def discriminant_inj)

end

text \<open>The accessor inverts the numbering of the wire format.\<close>

lemma svc_get_status_discriminant:
  "svc_get_status (s\<lparr>svc_status := word_of_nat (discriminant st)\<rparr>) = st"
  by (cases st) (simp_all add: svc_get_status_def)

record SubscribeId =
  si_id :: rstr
  si_namespace :: rstr
  si_name :: rstr

record SubscribeNamespaceRequest =
  sr_db_location :: "DBLocation option"
  sr_subscribe_id :: "SubscribeId option"
  sr_force :: bool
  sr_label :: "(rstr, rstr) fmap"

text \<open>\<open>format!\<close> of a signed number.\<close>

definition show_i32 :: "32 word \<Rightarrow> rstr" where
  "show_i32 w = (if sint w < 0 then lit ''-'' @ digits (nat (- sint w)) else digits (nat (sint w)))"

definition SQL_PORT :: rstr where
  "SQL_PORT = lit ''sql-port''"

subsection \<open>State\<close>

text \<open>
  The queue of \<open>tenant_key_tx\<close> and \<open>tenant_key_rx\<close> holds the keys the request stream has not sent
  yet; \<open>bd_requests\<close> are the requests it has sent.
\<close>

record BackendDiscovery =
  bd_node_id :: rstr
  bd_namespace :: rstr
  bd_tenant_keys :: "TenantKey list"
  bd_requests :: "SubscribeNamespaceRequest list"
  bd_tenants :: "(TenantKey, BackendInstance list) dashmap"
  bd_db_instance :: "BackendInstance watch"

definition backend_instance_default :: BackendInstance where
  "backend_instance_default =
     \<lparr>bi_location = \<lparr>loc_region = [], loc_available_zone = [], loc_namespace = [], loc_node_name = []\<rparr>,
      bi_addr = [], bi_status = UnKnowStatus, bi_cluster = \<lparr>cn_namespace = [], cn_cluster_name = []\<rparr>\<rparr>"

definition discovery_new :: "rstr \<Rightarrow> rstr \<Rightarrow> BackendDiscovery" where
  "discovery_new node_id namespace =
     \<lparr>bd_node_id = node_id, bd_namespace = namespace, bd_tenant_keys = [], bd_requests = [],
      bd_tenants = [], bd_db_instance = watch_channel backend_instance_default\<rparr>"

text \<open>The process-wide instance: made by the first call, shared by the later ones.\<close>

definition get_backend_discovery :: "BackendDiscovery option \<Rightarrow> rstr \<Rightarrow> rstr \<Rightarrow> BackendDiscovery" where
  "get_backend_discovery once node_id namespace =
     (case once of Some d \<Rightarrow> d | None \<Rightarrow> discovery_new node_id namespace)"

definition unsubscribed_tenants :: "TenantKey \<Rightarrow> BackendDiscovery \<Rightarrow> BackendDiscovery" where
  "unsubscribed_tenants tenant_key d = d\<lparr>bd_tenants := dm_insert tenant_key [] (bd_tenants d)\<rparr>"

definition all_cluster_list :: "BackendDiscovery \<Rightarrow> (TenantKey, BackendInstance list) dashmap" where
  "all_cluster_list d = bd_tenants d"

definition backend_instance_change_notify :: "BackendDiscovery \<Rightarrow> BackendInstance watch" where
  "backend_instance_change_notify d = bd_db_instance d"

text \<open>The receiving half of the queue lives as long as the sending one, so \<open>send\<close> succeeds.\<close>

definition subscribe_for :: "TenantKey \<Rightarrow> BackendDiscovery \<Rightarrow> unit result \<times> BackendDiscovery" where
  "subscribe_for tenant_key d = (Ok (), d\<lparr>bd_tenant_keys := bd_tenant_keys d @ [tenant_key]\<rparr>)"

definition subscribe_request :: "rstr \<Rightarrow> rstr \<Rightarrow> TenantKey \<Rightarrow> SubscribeNamespaceRequest" where
  "subscribe_request my_node_id namespace tenant_key =
     \<lparr>sr_db_location = Some
        \<lparr>loc_region = tk_region tenant_key, loc_available_zone = tk_available_zone tenant_key,
         loc_namespace = tk_namespace tenant_key, loc_node_name = []\<rparr>,
      sr_subscribe_id = Some \<lparr>si_id = my_node_id, si_namespace = namespace, si_name = my_node_id\<rparr>,
      sr_force = True, sr_label = fmempty\<rparr>"

text \<open>
  One poll of the request stream: the next key of the queue becomes a request. When the queue is empty
  the stream waits: \<open>recv\<close> never returns \<open>None\<close>, because the discovery itself holds a sender, so that the
  stream does not end.
\<close>

definition send_stream :: "BackendDiscovery \<Rightarrow> BackendDiscovery" where
  "send_stream d =
     (case bd_tenant_keys d of
        [] \<Rightarrow> d
      | tenant_key # ks \<Rightarrow>
          d\<lparr>bd_requests := bd_requests d @ [subscribe_request (bd_node_id d) (bd_namespace d) tenant_key],
            bd_tenant_keys := ks\<rparr>)"

subsection \<open>Change events\<close>

definition changed_instance :: "DBService \<Rightarrow> (TenantKey \<times> BackendInstance) result" where
  "changed_instance db_service =
     rbind (unwrap_opt (find (\<lambda>e. ep_port_name e = SQL_PORT) (svc_endpoints db_service))) (\<lambda>endpoint.
     rbind (unwrap_opt (svc_location db_service)) (\<lambda>location.
       let addr = ep_address endpoint @ lit '':'' @ show_i32 (ep_port endpoint);
           namespace = loc_namespace location in
       Ok (\<lparr>tk_region = [], tk_available_zone = [], tk_namespace = namespace,
            tk_cluster_name = svc_cluster db_service\<rparr>,
           \<lparr>bi_location = location, bi_addr = addr, bi_status = svc_get_status db_service,
            bi_cluster = \<lparr>cn_namespace = namespace, cn_cluster_name = svc_cluster db_service\<rparr>\<rparr>)))"

definition change_event :: "DBService \<Rightarrow> BackendDiscovery \<Rightarrow> BackendDiscovery result" where
  "change_event db_service d =
     rbind (changed_instance db_service) (\<lambda>(tenant_key, inst).
     rbind (unwrap_opt (dm_get (bd_tenants d) tenant_key)) (\<lambda>instances.
       Ok (d\<lparr>bd_tenants :=
               dm_insert tenant_key (filter (\<lambda>e. bi_addr e \<noteq> bi_addr inst) instances @ [inst]) (bd_tenants d),
             bd_db_instance := watch_send inst (bd_db_instance d)\<rparr>)))"

text \<open>
  While a subscription is open, the REST handler may queue tenants and the transport polls the request
  stream, in any order.
\<close>

datatype queue_event = Queued TenantKey | Polled

fun queue_step :: "queue_event \<Rightarrow> BackendDiscovery \<Rightarrow> BackendDiscovery" where
  "queue_step (Queued k) d = snd (subscribe_for k d)"
| "queue_step Polled d = send_stream d"

text \<open>
  What happens while \<open>recv_stream\<close> waits: the response stream delivers a response with its payload or a
  transport error, or something happens to the queue. The end of the list is the end of the response
  stream, or the shutdown.
\<close>

datatype stream_item = Message "Payload option" | StreamError | Queue queue_event

fun recv_stream :: "stream_item list \<Rightarrow> BackendDiscovery \<Rightarrow> unit result \<times> BackendDiscovery" where
  "recv_stream [] d = (Ok (), d)"
| "recv_stream (Queue q # items) d = recv_stream items (queue_step q d)"
| "recv_stream (StreamError # items) d = (Err (IoError (OtherIo 0) ''status''), d)"
| "recv_stream (Message payload # items) d =
     (case payload of
        Some (ChangeEvent event) \<Rightarrow>
          (case rbind (unwrap_opt (ce_service event)) (\<lambda>db_service. change_event db_service d) of
             Ok d' \<Rightarrow> recv_stream items d'
           | Err e \<Rightarrow> (Err e, d)
           | Panic \<Rightarrow> (Panic, d)
           | Diverge \<Rightarrow> (Diverge, d))
      | None \<Rightarrow> (Err (IoError (OtherIo 0) ''BackendDiscovery receive empty payload.''), d)
      | _ \<Rightarrow> (Panic, d))"

text \<open>
  A subscription is rejected, after the request stream has perhaps been polled, or delivers a stream
  until the stream or the proxy ends. The request stream of the attempt before is gone by then.
\<close>

datatype subscription = Rejected "queue_event list" | Streaming "stream_item list"

definition send_subscribe :: "subscription \<Rightarrow> BackendDiscovery \<Rightarrow> unit result \<times> BackendDiscovery" where
  "send_subscribe sub d =
     (case sub of
        Rejected qs \<Rightarrow> (Err (IoError (OtherIo 0) ''SendSubscribeRequestError''), foldl (\<lambda>d q. queue_step q d) d qs)
      | Streaming items \<Rightarrow> recv_stream items d)"

text \<open>
  The retry loop. Each attempt names the member lists the resolver fetches while the subscription
  runs, and how the subscription goes. \<open>Diverge\<close> stands for a loop that is still running when the
  attempts are used up.
\<close>

record attempt =
  at_refreshes :: "CpBackend list list"
  at_subscription :: subscription

definition resubscribe :: "BackendDiscovery \<Rightarrow> BackendDiscovery" where
  "resubscribe d = d\<lparr>bd_tenant_keys := bd_tenant_keys d @ map fst (bd_tenants d)\<rparr>"

fun discover_loop ::
  "(rstr \<Rightarrow> 'c option) \<Rightarrow> attempt list \<Rightarrow> 'c CpChannel \<Rightarrow> 'c CpResolver \<Rightarrow> BackendDiscovery \<Rightarrow>
   unit result \<times> 'c CpResolver \<times> BackendDiscovery" where
  "discover_loop conn [] cp_channel r d = (Diverge, r, d)"
| "discover_loop conn (a # as) cp_channel r d =
     (case send_subscribe (at_subscription a) d of
        (Ok _, d1) \<Rightarrow> (Ok (), r, d1)
      | (Err e, d1) \<Rightarrow>
          (let r1 = mark_backend_unavailable (ch_backend_name cp_channel)
                      (foldl (\<lambda>r bs. update_backends conn bs r) r (at_refreshes a)) in
           case get_cp_backend r1 of
             (Ok cp_channel1, r2) \<Rightarrow> discover_loop conn as cp_channel1 r2 (resubscribe d1)
           | (_, r2) \<Rightarrow> (Panic, r2, d1))
      | (Panic, d1) \<Rightarrow> (Panic, r, d1)
      | (Diverge, d1) \<Rightarrow> (Diverge, r, d1))"

definition discover_with_retry ::
  "(rstr \<Rightarrow> 'c option) \<Rightarrow> attempt list \<Rightarrow> 'c CpResolver \<Rightarrow> BackendDiscovery \<Rightarrow>
   unit result \<times> 'c CpResolver \<times> BackendDiscovery" where
  "discover_with_retry conn attempts r d =
     (case get_cp_backend r of
        (Ok cp_channel, r1) \<Rightarrow> discover_loop conn attempts cp_channel r1 d
      | (_, r1) \<Rightarrow> (Panic, r1, d))"

subsection \<open>The instances of a tenant\<close>

text \<open>What a tenant's list is: at most one instance per address, each in the tenant's cluster.\<close>

definition instances_wf :: "TenantKey \<Rightarrow> BackendInstance list \<Rightarrow> bool" where
  "instances_wf k instances \<longleftrightarrow> distinct (map bi_addr instances) \<and>
     list_all (\<lambda>e. cn_namespace (bi_cluster e) = tk_namespace k \<and>
                   cn_cluster_name (bi_cluster e) = tk_cluster_name k) instances"

definition discovery_wf :: "BackendDiscovery \<Rightarrow> bool" where
  "discovery_wf d \<longleftrightarrow> dm_wf (bd_tenants d) \<and> list_all (\<lambda>(k, instances). instances_wf k instances) (bd_tenants d)"

text \<open>The abstract content: the instance a tenant has at an address.\<close>

definition instance_at :: "BackendDiscovery \<Rightarrow> TenantKey \<Rightarrow> rstr \<Rightarrow> BackendInstance option" where
  "instance_at d k addr =
     (case dm_get (bd_tenants d) k of
        Some instances \<Rightarrow> find (\<lambda>e. bi_addr e = addr) instances
      | None \<Rightarrow> None)"

lemma discovery_wf_iff:
  "discovery_wf d \<longleftrightarrow> dm_wf (bd_tenants d) \<and>
     (\<forall>k instances. dm_get (bd_tenants d) k = Some instances \<longrightarrow> instances_wf k instances)"
  unfolding discovery_wf_def list_all_iff by (metis (mono_tags, lifting) case_prod_beta dm_mem prod.collapse prod.sel)

lemma discovery_wf_new: "discovery_wf (discovery_new node_id namespace)"
  by (simp add: discovery_wf_def discovery_new_def)

lemma unsubscribed_tenants_wf: "discovery_wf d \<Longrightarrow> discovery_wf (unsubscribed_tenants k d)"
  by (simp add: discovery_wf_iff unsubscribed_tenants_def instances_wf_def)

lemma changed_instance_cluster:
  assumes "changed_instance svc = Ok (k, inst)"
  shows "cn_namespace (bi_cluster inst) = tk_namespace k" "cn_cluster_name (bi_cluster inst) = tk_cluster_name k"
    "tk_region k = []" "tk_available_zone k = []" "bi_status inst = svc_get_status svc"
  using assms by (auto simp: changed_instance_def rbind_Ok_iff Let_def)

lemma change_event_Ok:
  "change_event svc d = Ok d' \<longleftrightarrow>
     (\<exists>k inst instances. changed_instance svc = Ok (k, inst) \<and> dm_get (bd_tenants d) k = Some instances \<and>
        d' = d\<lparr>bd_tenants := dm_insert k (filter (\<lambda>e. bi_addr e \<noteq> bi_addr inst) instances @ [inst]) (bd_tenants d),
               bd_db_instance := watch_send inst (bd_db_instance d)\<rparr>)"
  by (auto simp: change_event_def rbind_Ok_iff)

lemma instances_wf_replace:
  assumes "instances_wf k instances" "cn_namespace (bi_cluster inst) = tk_namespace k"
    "cn_cluster_name (bi_cluster inst) = tk_cluster_name k"
  shows "instances_wf k (filter (\<lambda>e. bi_addr e \<noteq> bi_addr inst) instances @ [inst])"
  using assms by (auto simp: instances_wf_def list_all_iff distinct_map_filter)

lemma change_event_wf:
  assumes "discovery_wf d" "change_event svc d = Ok d'"
  shows "discovery_wf d'"
proof -
  obtain k inst instances where e: "changed_instance svc = Ok (k, inst)" "dm_get (bd_tenants d) k = Some instances"
    "d' = d\<lparr>bd_tenants := dm_insert k (filter (\<lambda>e. bi_addr e \<noteq> bi_addr inst) instances @ [inst]) (bd_tenants d),
            bd_db_instance := watch_send inst (bd_db_instance d)\<rparr>"
    using assms(2) by (auto simp: change_event_Ok)
  have "instances_wf k instances" using assms(1) e(2) by (simp add: discovery_wf_iff)
  then have "instances_wf k (filter (\<lambda>e. bi_addr e \<noteq> bi_addr inst) instances @ [inst])"
    by (rule instances_wf_replace) (use changed_instance_cluster [OF e(1)] in simp_all)
  then show ?thesis using assms(1) by (simp add: discovery_wf_iff e(3))
qed

lemma find_replaced:
  "find (\<lambda>e. bi_addr e = addr) (filter (\<lambda>e. bi_addr e \<noteq> bi_addr inst) instances @ [inst]) =
     (if addr = bi_addr inst then Some inst else find (\<lambda>e. bi_addr e = addr) instances)"
  by (induction instances) auto

lemma change_event_updates:
  assumes "changed_instance svc = Ok (k, inst)" "change_event svc d = Ok d'"
  shows "instance_at d' = (instance_at d)(k := (instance_at d k)(bi_addr inst \<mapsto> inst))"
    "dom (dm_get (bd_tenants d')) = dom (dm_get (bd_tenants d))"
    "bd_db_instance d' = watch_send inst (bd_db_instance d)"
  using assms by (auto simp: change_event_Ok instance_at_def find_replaced fun_eq_iff split: if_splits)

lemma queue_step_keeps [simp]:
  "bd_tenants (queue_step q d) = bd_tenants d" "bd_db_instance (queue_step q d) = bd_db_instance d"
  "instance_at (queue_step q d) = instance_at d" "discovery_wf (queue_step q d) = discovery_wf d"
proof -
  show t: "bd_tenants (queue_step q d) = bd_tenants d" and "bd_db_instance (queue_step q d) = bd_db_instance d"
    by (cases q; simp add: subscribe_for_def send_stream_def split: list.split)+
  show "instance_at (queue_step q d) = instance_at d" "discovery_wf (queue_step q d) = discovery_wf d"
    by (simp_all add: instance_at_def discovery_wf_def t fun_eq_iff)
qed

text \<open>
  What an item of a subscription is worth, given the tenants of the table: it announces an instance of
  one of them or concerns the queue, and the loop goes on, or it ends the loop with a result.
\<close>

definition announced :: "stream_item \<Rightarrow> (TenantKey \<times> BackendInstance) option" where
  "announced item =
     (case item of
        Message (Some (ChangeEvent event)) \<Rightarrow>
          (case ce_service event of
             Some svc \<Rightarrow> (case changed_instance svc of Ok ki \<Rightarrow> Some ki | _ \<Rightarrow> None)
           | None \<Rightarrow> None)
      | _ \<Rightarrow> None)"

definition item_verdict :: "TenantKey set \<Rightarrow> stream_item \<Rightarrow> unit result" where
  "item_verdict tenants item =
     (case item of
        Queue q \<Rightarrow> Ok ()
      | StreamError \<Rightarrow> Err (IoError (OtherIo 0) ''status'')
      | Message None \<Rightarrow> Err (IoError (OtherIo 0) ''BackendDiscovery receive empty payload.'')
      | Message (Some p) \<Rightarrow> if \<exists>ki. announced item = Some ki \<and> fst ki \<in> tenants then Ok () else Panic)"

abbreviation event_item :: "ServiceChangeEvent \<Rightarrow> stream_item" where
  "event_item event \<equiv> Message (Some (ChangeEvent event))"

fun learn ::
  "(TenantKey \<Rightarrow> rstr \<Rightarrow> BackendInstance option) \<Rightarrow> TenantKey \<times> BackendInstance \<Rightarrow>
   TenantKey \<Rightarrow> rstr \<Rightarrow> BackendInstance option" where
  "learn m (k, inst) = m(k := (m k)(bi_addr inst \<mapsto> inst))"

lemma changed_instance_cases: "(\<exists>ki. changed_instance svc = Ok ki) \<or> changed_instance svc = Panic"
  by (cases "find (\<lambda>e. ep_port_name e = SQL_PORT) (svc_endpoints svc)"; cases "svc_location svc")
    (simp_all add: changed_instance_def Let_def)

lemma announced_event:
  "announced (event_item event) =
     (case ce_service event of None \<Rightarrow> None
      | Some svc \<Rightarrow> (case changed_instance svc of Ok ki \<Rightarrow> Some ki | _ \<Rightarrow> None))"
  by (simp add: announced_def split: option.split)

text \<open>One item: the verdict is what the loop does with it.\<close>

lemma recv_stream_Cons:
  "item_verdict (dom (dm_get (bd_tenants d))) item \<noteq> Ok () \<Longrightarrow>
     recv_stream (item # items) d = (item_verdict (dom (dm_get (bd_tenants d))) item, d)"
  "item_verdict (dom (dm_get (bd_tenants d))) item = Ok () \<Longrightarrow> discovery_wf d \<Longrightarrow>
     \<exists>d1. recv_stream (item # items) d = recv_stream items d1 \<and> discovery_wf d1 \<and>
       dom (dm_get (bd_tenants d1)) = dom (dm_get (bd_tenants d)) \<and>
       instance_at d1 = (case announced item of Some ki \<Rightarrow> learn (instance_at d) ki | None \<Rightarrow> instance_at d) \<and>
       bd_db_instance d1 = (case announced item of Some ki \<Rightarrow> watch_send (snd ki) (bd_db_instance d) | None \<Rightarrow> bd_db_instance d)"
proof -
  let ?T = "dom (dm_get (bd_tenants d))"
  have panics: "rbind (unwrap_opt (ce_service event)) (\<lambda>svc. change_event svc d) = Panic"
    if "\<not> (\<exists>ki. announced (event_item event) = Some ki \<and> fst ki \<in> ?T)" for event
  proof (cases "ce_service event")
    case (Some svc)
    then show ?thesis using that changed_instance_cases [of svc]
      by (auto simp: announced_event change_event_def domIff split: prod.split)
  qed simp
  show "recv_stream (item # items) d = (item_verdict ?T item, d)" if "item_verdict ?T item \<noteq> Ok ()"
  proof (cases item)
    case (Message p)
    then show ?thesis
    proof (cases p)
      case (Some pl)
      then show ?thesis using that panics Message
        by (cases pl) (auto simp: item_verdict_def announced_def split: if_splits)
    qed (simp add: Message item_verdict_def)
  qed (use that in \<open>simp_all add: item_verdict_def\<close>)
  show "\<exists>d1. recv_stream (item # items) d = recv_stream items d1 \<and> discovery_wf d1 \<and>
       dom (dm_get (bd_tenants d1)) = ?T \<and>
       instance_at d1 = (case announced item of Some ki \<Rightarrow> learn (instance_at d) ki | None \<Rightarrow> instance_at d) \<and>
       bd_db_instance d1 = (case announced item of Some ki \<Rightarrow> watch_send (snd ki) (bd_db_instance d) | None \<Rightarrow> bd_db_instance d)"
    if v: "item_verdict ?T item = Ok ()" and wf: "discovery_wf d"
  proof (cases "announced item")
    case None
    then obtain q where "item = Queue q" using v by (auto simp: item_verdict_def split: stream_item.splits option.splits)
    then show ?thesis using None wf by (intro exI [of _ "queue_step q d"]) simp
  next
    case (Some ki)
    then obtain event svc where e: "item = event_item event" "ce_service event = Some svc" "changed_instance svc = Ok ki"
      by (auto simp: announced_def split: stream_item.splits option.splits Payload.splits result.splits)
    have "fst ki \<in> ?T" using v Some e(1) by (simp add: item_verdict_def split: if_splits)
    then obtain d1 where d1: "change_event svc d = Ok d1"
      using e(3) by (cases ki) (auto simp: change_event_Ok)
    then show ?thesis
      using e Some change_event_updates [of svc "fst ki" "snd ki" d d1] change_event_wf [OF wf d1]
      by (intro exI [of _ d1]) (cases ki; simp)
  qed
qed

text \<open>The whole stream: the items up to the first one that ends it, and the result.\<close>

lemma recv_stream_follows:
  assumes "discovery_wf d"
  shows "\<exists>seen rest d'. items = seen @ rest \<and>
    (\<forall>item \<in> set seen. item_verdict (dom (dm_get (bd_tenants d))) item = Ok ()) \<and>
    (case rest of [] \<Rightarrow> recv_stream items d = (Ok (), d')
     | item # _ \<Rightarrow> item_verdict (dom (dm_get (bd_tenants d))) item \<noteq> Ok () \<and>
         recv_stream items d = (item_verdict (dom (dm_get (bd_tenants d))) item, d')) \<and>
    discovery_wf d' \<and> dom (dm_get (bd_tenants d')) = dom (dm_get (bd_tenants d)) \<and>
    instance_at d' = foldl learn (instance_at d) (List.map_filter announced seen) \<and>
    bd_db_instance d' = foldl (\<lambda>w ki. watch_send (snd ki) w) (bd_db_instance d) (List.map_filter announced seen)"
  using assms
proof (induction items arbitrary: d)
  case Nil
  then show ?case by (simp add: List.map_filter_def)
next
  case (Cons item items)
  let ?T = "dom (dm_get (bd_tenants d))"
  show ?case
  proof (cases "item_verdict ?T item = Ok ()")
    case False
    then show ?thesis using recv_stream_Cons(1) [OF False, of items] Cons.prems
      by (intro exI [of _ "[]"] exI [of _ "item # items"] exI [of _ d]) (simp add: List.map_filter_def)
  next
    case True
    from recv_stream_Cons(2) [OF True Cons.prems, of items] obtain d1 where
      d1: "recv_stream (item # items) d = recv_stream items d1" "discovery_wf d1" "dom (dm_get (bd_tenants d1)) = ?T"
        "instance_at d1 = (case announced item of Some ki \<Rightarrow> learn (instance_at d) ki | None \<Rightarrow> instance_at d)"
        "bd_db_instance d1 = (case announced item of Some ki \<Rightarrow> watch_send (snd ki) (bd_db_instance d) | None \<Rightarrow> bd_db_instance d)"
      by blast
    from Cons.IH [OF d1(2)] obtain seen rest d' where
      IH: "items = seen @ rest" "\<forall>item \<in> set seen. item_verdict ?T item = Ok ()"
        "case rest of [] \<Rightarrow> recv_stream items d1 = (Ok (), d')
         | item # _ \<Rightarrow> item_verdict ?T item \<noteq> Ok () \<and> recv_stream items d1 = (item_verdict ?T item, d')"
        "discovery_wf d'" "dom (dm_get (bd_tenants d')) = ?T"
        "instance_at d' = foldl learn (instance_at d1) (List.map_filter announced seen)"
        "bd_db_instance d' = foldl (\<lambda>w ki. watch_send (snd ki) w) (bd_db_instance d1) (List.map_filter announced seen)"
      unfolding d1(3) by blast
    show ?thesis
      using IH True d1
      by (intro exI [of _ "item # seen"] exI [of _ rest] exI [of _ d'])
        (auto simp: List.map_filter_def split: list.splits option.splits)
  qed
qed

subsection \<open>Retries\<close>

text \<open>A rejected subscription: the member is marked, every known tenant is queued again.\<close>

lemma discover_loop_retry:
  assumes "send_subscribe (at_subscription a) d = (Err e, d1)"
    and "r1 = mark_backend_unavailable (ch_backend_name c)
      (foldl (\<lambda>r bs. update_backends conn bs r) r (at_refreshes a))"
    and "get_cp_backend r1 = (Ok c1, r2)"
  shows "discover_loop conn (a # as) c r d = discover_loop conn as c1 r2 (resubscribe d1)"
    and "ch_backend_name c1 = ch_backend_name c \<longrightarrow> \<not> resolver_wf r1"
proof -
  show "discover_loop conn (a # as) c r d = discover_loop conn as c1 r2 (resubscribe d1)"
    using assms by (simp add: Let_def)
  show "ch_backend_name c1 = ch_backend_name c \<longrightarrow> \<not> resolver_wf r1"
  proof (intro impI notI)
    assume same: "ch_backend_name c1 = ch_backend_name c" and wf: "resolver_wf r1"
    have "ch_status c1 = Available" "dm_get (cr_backends r1) (ch_backend_name c) = Some c1"
      using get_cp_backend_available [OF wf assms(3)] same by simp_all
    moreover have "dm_get (cr_backends r1) (ch_backend_name c) = Some x \<Longrightarrow> ch_status x = Unavailable" for x
      using assms(2) by (auto simp: mark_backend_unavailable_def split: option.splits)
    ultimately show False by fastforce
  qed
qed

lemma discover_loop_no_member:
  assumes "send_subscribe (at_subscription a) d = (Err e, d1)"
    and "available_channels (mark_backend_unavailable (ch_backend_name c)
      (foldl (\<lambda>r bs. update_backends conn bs r) r (at_refreshes a))) = []"
  shows "fst (discover_loop conn (a # as) c r d) = Panic"
proof -
  let ?r1 = "mark_backend_unavailable (ch_backend_name c) (foldl (\<lambda>r bs. update_backends conn bs r) r (at_refreshes a))"
  obtain r2 where "get_cp_backend ?r1 = (Panic, r2)"
    using assms(2) get_cp_backend_panics [of ?r1] by (cases "get_cp_backend ?r1") auto
  then show ?thesis using assms(1) by (simp add: Let_def)
qed

text \<open>The transport polls the request stream until it waits: one request per queued tenant, in order.\<close>

lemma polled_empty:
  "(send_stream ^^ length (bd_tenant_keys d)) d =
     d\<lparr>bd_requests := bd_requests d @ map (subscribe_request (bd_node_id d) (bd_namespace d)) (bd_tenant_keys d),
       bd_tenant_keys := []\<rparr>"
proof (induction "bd_tenant_keys d" arbitrary: d)
  case Nil
  then show ?case using Nil.hyps [symmetric] by simp
next
  case (Cons k ks)
  have poll: "send_stream d = d\<lparr>bd_requests := bd_requests d @ [subscribe_request (bd_node_id d) (bd_namespace d) k],
      bd_tenant_keys := ks\<rparr>"
    using Cons.hyps(2) [symmetric] by (simp add: send_stream_def)
  show ?case
    unfolding Cons.hyps(2) [symmetric] using Cons.hyps(1) [of "send_stream d"] by (simp add: funpow_swap1 poll)
qed

lemma resubscribe_requests:
  assumes "k \<in> dom (dm_get (bd_tenants d))"
  shows "subscribe_request (bd_node_id d) (bd_namespace d) k \<in>
    set (bd_requests ((send_stream ^^ length (bd_tenant_keys (resubscribe d))) (resubscribe d)))"
proof -
  have "k \<in> set (bd_tenant_keys (resubscribe d))"
    using assms by (auto simp: resubscribe_def dest: map_of_SomeD intro: rev_image_eqI)
  then show ?thesis by (simp add: polled_empty) (simp add: resubscribe_def)
qed

subsection \<open>The states the program reaches\<close>

text \<open>
  The program creates the discovery, queues tenants (the REST handler \<open>add_tenant\<close>) and runs the
  retry loop; no code calls \<open>unsubscribed_tenants\<close>.
\<close>

inductive discovered :: "BackendDiscovery \<Rightarrow> bool" where
  disc_new: "discovered (discovery_new node_id namespace)"
| disc_subscribe: "discovered d \<Longrightarrow> subscribe_for k d = (res, d') \<Longrightarrow> discovered d'"
| disc_stream: "discovered d \<Longrightarrow> send_subscribe sub d = (res, d') \<Longrightarrow> discovered d'"
| disc_retry: "discovered d \<Longrightarrow> discovered (resubscribe d)"

lemma recv_stream_no_tenants:
  "bd_tenants d = [] \<Longrightarrow> bd_tenants (snd (recv_stream items d)) = []"
proof (induction items d rule: recv_stream.induct)
  case (4 payload items d)
  have "change_event svc d \<noteq> Ok d'" for svc d' using 4(2) by (simp add: change_event_Ok)
  then show ?case
    using 4(2) by (auto split: option.splits Payload.splits result.splits simp: rbind_Ok_iff)
qed simp_all

lemma queue_no_tenants: "bd_tenants (foldl (\<lambda>d q. queue_step q d) d qs) = bd_tenants d"
  by (induction qs arbitrary: d) simp_all

lemma discovered_no_tenants: "discovered d \<Longrightarrow> bd_tenants d = []"
proof (induction rule: discovered.induct)
  case (disc_stream d sub res d')
  then have "d' = snd (send_subscribe sub d)" "bd_tenants d = []" by simp_all
  then show ?case
    by (simp add: send_subscribe_def queue_no_tenants recv_stream_no_tenants split: subscription.split)
qed (auto simp: discovery_new_def subscribe_for_def resubscribe_def)

lemma discovered_event_panics:
  assumes "discovered d"
  shows "fst (recv_stream (event_item event # items) d) = Panic"
  using discovered_no_tenants [OF assms] recv_stream_Cons(1) [of d "event_item event" items]
  by (simp add: item_verdict_def)

end
