(* ===== verification/Router.thy ===== *)
theory Router
  imports Discovery
begin

text \<open>
  \<open>backend/router/\<close>: the choice of a backend for a tenant. The random generator is a function \<open>G\<close>:
  \<open>G n\<close> is what \<open>gen_range(0..n)\<close> draws. Both routers satisfy one contract, which is all the backend
  manager relies on.
\<close>

subsection \<open>Load balancers\<close>

datatype BackendLoadBalancerType = Random | P2C

locale rng_spec =
  fixes G :: "nat \<Rightarrow> nat"
  assumes gen_range: "0 < n \<Longrightarrow> G n < n"

text \<open>\<open>gen_range\<close> panics on an empty range.\<close>

definition balance :: "(nat \<Rightarrow> nat) \<Rightarrow> nat \<Rightarrow> nat result" where
  "balance G backends = (if backends = 0 then Panic else Ok (G backends))"

text \<open>A balancer is its generator, seeded with the current fraction of a second; the other type is unreachable.\<close>

definition random_balancer_new :: "(nat \<Rightarrow> nat \<Rightarrow> nat) \<Rightarrow> nat \<Rightarrow> nat \<Rightarrow> nat" where
  "random_balancer_new seed_from_u64 subsec_nanos = seed_from_u64 subsec_nanos"

definition new_balancer ::
  "(nat \<Rightarrow> nat \<Rightarrow> nat) \<Rightarrow> nat \<Rightarrow> BackendLoadBalancerType option \<Rightarrow> (nat \<Rightarrow> nat) result" where
  "new_balancer seed_from_u64 subsec_nanos balancer_type_opt =
     (case balancer_type_opt of
        Some balancer_type \<Rightarrow>
          (case balancer_type of
             Random \<Rightarrow> Ok (random_balancer_new seed_from_u64 subsec_nanos)
           | _ \<Rightarrow> Panic)
      | None \<Rightarrow> Ok (random_balancer_new seed_from_u64 subsec_nanos))"

subsection \<open>The static router\<close>

record StaticRouter =
  rt_backend_addrs :: "BackendInstance list"

definition static_selector ::
  "(nat \<Rightarrow> nat) \<Rightarrow> StaticRouter \<Rightarrow> TenantKey \<Rightarrow> BackendLoadBalancerType \<Rightarrow> BackendInstance result" where
  "static_selector G router backend_location backend_selector =
     rbind (balance G (length (rt_backend_addrs router))) (\<lambda>selected_idx.
       unwrap_opt (list_get (rt_backend_addrs router) selected_idx))"

definition static_load_backends :: "StaticRouter \<Rightarrow> TenantKey option \<Rightarrow> BackendInstance list result" where
  "static_load_backends router backend_location = Ok (rt_backend_addrs router)"

text \<open>A callback that fails makes the static router panic: its result is unwrapped.\<close>

fun static_notify :: "(BackendInstance \<Rightarrow> ('s, unit) io) \<Rightarrow> BackendInstance list \<Rightarrow> ('s, unit) io" where
  "static_notify f [] s = (Ok (), s)"
| "static_notify f (backend # backends) s =
     (case f backend s of
        (Ok _, s1) \<Rightarrow> static_notify f backends s1
      | (Diverge, s1) \<Rightarrow> (Diverge, s1)
      | (_, s1) \<Rightarrow> (Panic, s1))"

subsection \<open>The router that follows the control plane\<close>

record SyncRouter =
  rt_be_discovery :: BackendDiscovery

definition sync_selector ::
  "(nat \<Rightarrow> nat) \<Rightarrow> SyncRouter \<Rightarrow> TenantKey \<Rightarrow> BackendLoadBalancerType \<Rightarrow> BackendInstance result" where
  "sync_selector G router tenant_key lb =
     (case dm_get (bd_tenants (rt_be_discovery router)) tenant_key of
        None \<Rightarrow> Err (IoError NotFound ''Tenant not found'')
      | Some cluster_list \<Rightarrow>
          if cluster_list = [] then Err (IoError NotFound ''No backends found'')
          else if length cluster_list = 1 then Ok (hd cluster_list)
          else
            (case lb of
               Random \<Rightarrow>
                 rbind (balance G (length cluster_list)) (\<lambda>selected_idx.
                   unwrap_opt (list_get cluster_list selected_idx))
             | P2C \<Rightarrow> Panic))"

definition sync_load_backends :: "SyncRouter \<Rightarrow> TenantKey option \<Rightarrow> BackendInstance list result" where
  "sync_load_backends router tenant_key =
     (let all_be_list = bd_tenants (rt_be_discovery router) in
      case tenant_key of
        Some tenant \<Rightarrow>
          (case dm_get all_be_list tenant of
             Some cluster_list \<Rightarrow> Ok cluster_list
           | None \<Rightarrow> Err (IoError NotFound ''No backends found''))
      | None \<Rightarrow> Ok (concat (map snd all_be_list)))"

text \<open>
  The values of the watch channel the router sees until the discovery is gone; a failing callback is
  logged only.
\<close>

fun sync_notify :: "(BackendInstance \<Rightarrow> ('s, unit) io) \<Rightarrow> BackendInstance list \<Rightarrow> ('s, unit) io" where
  "sync_notify f [] s =
     (Err (IoError NotFound ''The backend discovery service has been shutdown''), s)"
| "sync_notify f (db_instance # observed) s =
     (case f db_instance s of
        (Ok _, s1) \<Rightarrow> sync_notify f observed s1
      | (Err e, s1) \<Rightarrow> sync_notify f observed s1
      | (Panic, s1) \<Rightarrow> (Panic, s1)
      | (Diverge, s1) \<Rightarrow> (Diverge, s1))"

subsection \<open>Dispatch\<close>

datatype BackendRouterTrait = Static StaticRouter | Sync SyncRouter

fun is_static :: "BackendRouterTrait \<Rightarrow> bool" where
  "is_static (Static r) = True"
| "is_static (Sync r) = False"

fun selector ::
  "(nat \<Rightarrow> nat) \<Rightarrow> BackendRouterTrait \<Rightarrow> TenantKey \<Rightarrow> BackendLoadBalancerType \<Rightarrow> BackendInstance result" where
  "selector G (Static router) k lb = static_selector G router k lb"
| "selector G (Sync router) k lb = sync_selector G router k lb"

fun load_backends :: "BackendRouterTrait \<Rightarrow> TenantKey option \<Rightarrow> BackendInstance list result" where
  "load_backends (Static router) k = static_load_backends router k"
| "load_backends (Sync router) k = sync_load_backends router k"

text \<open>The bursts are the instances the discovery sends between two polls of the sync router.\<close>

fun status_change_notify ::
  "(BackendInstance \<Rightarrow> ('s, unit) io) \<Rightarrow> BackendInstance list list \<Rightarrow> BackendRouterTrait \<Rightarrow> ('s, unit) io" where
  "status_change_notify f bursts (Static router) = static_notify f (rt_backend_addrs router)"
| "status_change_notify f bursts (Sync router) =
     (let w = bd_db_instance (rt_be_discovery router) in sync_notify f (observe (wt_version w) w bursts))"

subsection \<open>The contract of a router\<close>

text \<open>
  A router only selects backends it lists for the tenant, and with the random balancer it selects one
  whenever it lists any.
\<close>

locale router_contract =
  fixes sel :: "'r \<Rightarrow> TenantKey \<Rightarrow> BackendLoadBalancerType \<Rightarrow> BackendInstance result"
    and load :: "'r \<Rightarrow> TenantKey option \<Rightarrow> BackendInstance list result"
  assumes sel_listed: "sel r k lb = Ok b \<Longrightarrow> \<exists>bs. load r (Some k) = Ok bs \<and> b \<in> set bs"
    and sel_some: "load r (Some k) = Ok bs \<Longrightarrow> bs \<noteq> [] \<Longrightarrow> \<exists>b. sel r k Random = Ok b"
begin

lemma sel_all:
  assumes "load r (Some k) = Ok bs" "list_all P bs" "sel r k lb = Ok b"
  shows "P b"
  using sel_listed [OF assms(3)] assms(1,2) by (auto simp: list_all_iff)

lemma sel_only:
  assumes "load r (Some k) = Ok [b]"
  shows "sel r k Random = Ok b"
  using sel_some [OF assms] sel_listed [of r k Random] assms by fastforce

lemma sel_none: "load r (Some k) = Ok [] \<Longrightarrow> sel r k lb \<noteq> Ok b"
  using sel_listed [of r k lb b] by auto

end

context rng_spec
begin

lemma balance_get:
  assumes "xs \<noteq> []"
  obtains x where "rbind (balance G (length xs)) (\<lambda>i. unwrap_opt (list_get xs i)) = Ok x" "x \<in> set xs"
  using assms gen_range [of "length xs"] by (simp add: balance_def list_get_def)

lemma balance_member:
  "rbind (balance G (length xs)) (\<lambda>i. unwrap_opt (list_get xs i)) = Ok x \<Longrightarrow> x \<in> set xs"
  by (auto simp: balance_def list_get_def split: if_splits)

end

sublocale rng_spec \<subseteq> static_router: router_contract "static_selector G" static_load_backends
proof
  fix r k lb b assume "static_selector G r k lb = Ok b"
  then show "\<exists>bs. static_load_backends r (Some k) = Ok bs \<and> b \<in> set bs"
    by (simp add: static_selector_def static_load_backends_def balance_member)
next
  fix r k bs assume "static_load_backends r (Some k) = Ok bs" "bs \<noteq> []"
  then show "\<exists>b. static_selector G r k Random = Ok b"
    using balance_get [of bs] by (auto simp: static_selector_def static_load_backends_def)
qed

sublocale rng_spec \<subseteq> sync_router: router_contract "sync_selector G" sync_load_backends
proof
  fix r k lb b assume "sync_selector G r k lb = Ok b"
  then show "\<exists>bs. sync_load_backends r (Some k) = Ok bs \<and> b \<in> set bs"
    by (auto simp: sync_selector_def sync_load_backends_def Let_def balance_member
        split: option.splits if_splits BackendLoadBalancerType.splits)
next
  fix r k bs assume "sync_load_backends r (Some k) = Ok bs" "bs \<noteq> []"
  then show "\<exists>b. sync_selector G r k Random = Ok b"
    using balance_get [of bs]
    by (auto simp: sync_selector_def sync_load_backends_def Let_def split: option.splits)
qed

sublocale rng_spec \<subseteq> any_router: router_contract "selector G" load_backends
proof
  fix r k lb b assume "selector G r k lb = Ok b"
  then show "\<exists>bs. load_backends r (Some k) = Ok bs \<and> b \<in> set bs"
    by (cases r) (simp_all add: static_router.sel_listed sync_router.sel_listed)
next
  fix r k bs assume "load_backends r (Some k) = Ok bs" "bs \<noteq> []"
  then show "\<exists>b. selector G r k Random = Ok b"
    by (cases r) (simp_all add: static_router.sel_some sync_router.sel_some)
qed

interpretation rng_ref: rng_spec "\<lambda>n. 0"
  by unfold_locales

end
