(* ===== verification/Crates.thy ===== *)
theory Crates
  imports Prelude
begin

text \<open>
  The third-party crates the code calls. Each crate is a record of the functions the source uses,
  an argument of every definition that calls it; a locale states the documented behaviour the
  properties rest on. The locales are interpreted on reference instances that implement the
  documented behaviour in full, so the hypotheses of the properties can hold.
\<close>

subsection \<open>winnow: parsers over byte slices\<close>

text \<open>
  \<open>winnow::error::ErrMode\<close> and \<open>IResult\<close>. The source distinguishes only \<open>ErrorKind::Eof\<close> from the
  other kinds. \<open>ParsePanic\<close> is a panic raised while a parser of the source runs.
\<close>

datatype winnow_kind = KindEof | KindOther nat

datatype err_mode = Incomplete | Backtrack winnow_kind | Cut winnow_kind

datatype 'o iresult = Done bytes 'o | ParseErr err_mode | ParsePanic

text \<open>The parsers \<open>p.parse_peek(i)\<close> on a complete input \<open>&[u8]\<close>.\<close>

record winnow =
  w_le_u8 :: "bytes \<Rightarrow> u8 iresult"
  w_le_u16 :: "bytes \<Rightarrow> u16 iresult"
  w_le_u24 :: "bytes \<Rightarrow> u32 iresult"
  w_le_u32 :: "bytes \<Rightarrow> u32 iresult"
  w_take :: "nat \<Rightarrow> bytes \<Rightarrow> bytes iresult"
  w_literal :: "bytes \<Rightarrow> bytes \<Rightarrow> bytes iresult"
  w_take_until1 :: "u8 \<Rightarrow> bytes \<Rightarrow> bytes iresult"

text \<open>The \<open>?\<close> operator on an \<open>IResult\<close>.\<close>

fun pbind :: "'a iresult \<Rightarrow> (bytes \<Rightarrow> 'a \<Rightarrow> 'b iresult) \<Rightarrow> 'b iresult" where
  "pbind (Done i a) f = f i a"
| "pbind (ParseErr e) f = ParseErr e"
| "pbind ParsePanic f = ParsePanic"

fun backtracks :: "'o iresult \<Rightarrow> bool" where
  "backtracks (ParseErr (Backtrack k)) = True"
| "backtracks _ = False"

lemma backtracksE [elim]:
  assumes "backtracks r"
  obtains k where "r = ParseErr (Backtrack k)"
  using assms by (cases r rule: backtracks.cases) auto

lemma backtracks_pbind [simp]: "backtracks r \<Longrightarrow> backtracks (pbind r f)"
  by (cases r rule: backtracks.cases) auto

text \<open>
  On a complete input a parser that needs more bytes than there are fails with a recoverable error
  (\<open>Backtrack\<close>); \<open>take_until(1.., t)\<close> needs at least one byte before the terminator, which stays in
  the input.
\<close>

locale winnow_spec =
  fixes W :: winnow
  assumes le_u8: "w_le_u8 W (b # i) = Done i b"
    and le_u8_short: "backtracks (w_le_u8 W [])"
    and le_u16: "2 \<le> length i \<Longrightarrow> w_le_u16 W i = Done (drop 2 i) (word_of_nat (le_val (take 2 i)))"
    and le_u16_short: "length i < 2 \<Longrightarrow> backtracks (w_le_u16 W i)"
    and le_u24: "3 \<le> length i \<Longrightarrow> w_le_u24 W i = Done (drop 3 i) (word_of_nat (le_val (take 3 i)))"
    and le_u24_short: "length i < 3 \<Longrightarrow> backtracks (w_le_u24 W i)"
    and le_u32: "4 \<le> length i \<Longrightarrow> w_le_u32 W i = Done (drop 4 i) (word_of_nat (le_val (take 4 i)))"
    and le_u32_short: "length i < 4 \<Longrightarrow> backtracks (w_le_u32 W i)"
    and take: "n \<le> length i \<Longrightarrow> w_take W n i = Done (drop n i) (take n i)"
    and take_short: "length i < n \<Longrightarrow> backtracks (w_take W n i)"
    and literal: "w_literal W t (t @ i) = Done i t"
    and literal_mismatch: "take (length t) i \<noteq> t \<Longrightarrow> backtracks (w_literal W t i)"
    and take_until1: "u \<noteq> [] \<Longrightarrow> c \<notin> set u \<Longrightarrow> w_take_until1 W c (u @ c # i) = Done (c # i) u"
    and take_until1_empty: "backtracks (w_take_until1 W c (c # i))"
    and take_until1_missing: "c \<notin> set i \<Longrightarrow> backtracks (w_take_until1 W c i)"

fun span_until :: "u8 \<Rightarrow> bytes \<Rightarrow> (bytes \<times> bytes) option" where
  "span_until c [] = None"
| "span_until c (b # bs) =
     (if b = c then Some ([], b # bs)
      else map_option (\<lambda>(u, r). (b # u, r)) (span_until c bs))"

definition winnow_ref :: winnow where
  "winnow_ref = \<lparr>
     w_le_u8 = (\<lambda>i. case i of [] \<Rightarrow> ParseErr (Backtrack (KindOther 0)) | b # r \<Rightarrow> Done r b),
     w_le_u16 = (\<lambda>i. if length i < 2 then ParseErr (Backtrack (KindOther 0))
                     else Done (drop 2 i) (word_of_nat (le_val (take 2 i)))),
     w_le_u24 = (\<lambda>i. if length i < 3 then ParseErr (Backtrack (KindOther 0))
                     else Done (drop 3 i) (word_of_nat (le_val (take 3 i)))),
     w_le_u32 = (\<lambda>i. if length i < 4 then ParseErr (Backtrack (KindOther 0))
                     else Done (drop 4 i) (word_of_nat (le_val (take 4 i)))),
     w_take = (\<lambda>n i. if length i < n then ParseErr (Backtrack (KindOther 0))
                     else Done (drop n i) (take n i)),
     w_literal = (\<lambda>t i. if take (length t) i = t then Done (drop (length t) i) t
                        else ParseErr (Backtrack (KindOther 1))),
     w_take_until1 = (\<lambda>c i. case span_until c i of
                        Some (u, r) \<Rightarrow> if u = [] then ParseErr (Backtrack (KindOther 2)) else Done r u
                      | None \<Rightarrow> ParseErr (Backtrack (KindOther 2)))\<rparr>"

lemma span_until_append: "c \<notin> set u \<Longrightarrow> span_until c (u @ c # i) = Some (u, c # i)"
  by (induction u) auto

lemma span_until_None: "c \<notin> set i \<Longrightarrow> span_until c i = None"
  by (induction i) auto

interpretation winnow_ref: winnow_spec winnow_ref
  by unfold_locales (auto simp: winnow_ref_def span_until_append span_until_None)

context winnow_spec
begin

text \<open>The rewrite rules the component proofs use: each primitive as one conditional equation.\<close>

lemmas prims = le_u8 le_u16 le_u24 le_u32 take literal take_until1

lemma literal_iff:
  "w_literal W t i = (if take (length t) i = t then Done (drop (length t) i) t else w_literal W t i)"
proof (cases "take (length t) i = t")
  case True
  then have "i = t @ drop (length t) i"
    using append_take_drop_id [of "length t" i] by simp
  with True show ?thesis using literal [of t "drop (length t) i"] by simp
qed simp

lemma le_u16_append: "length a = 2 \<Longrightarrow> w_le_u16 W (a @ i) = Done i (word_of_nat (le_val a))"
  by (simp add: le_u16)

lemma le_u32_append: "length a = 4 \<Longrightarrow> w_le_u32 W (a @ i) = Done i (word_of_nat (le_val a))"
  by (simp add: le_u32)

lemma take_append: "length a = n \<Longrightarrow> w_take W n (a @ i) = Done i a"
  by (simp add: take)

lemma le_u16_bytes: "w_le_u16 W (le_bytes 2 (unat x) @ i) = Done i x"
  by (subst le_u16_append) simp_all

lemma le_u32_bytes: "w_le_u32 W (le_bytes 4 (unat x) @ i) = Done i x"
  by (subst le_u32_append) simp_all

end

subsection \<open>winnow: parsers over partial input\<close>

text \<open>
  The parsers and combinators on \<open>Partial<&[u8]>\<close>, where running out of input is \<open>Incomplete\<close>.
  \<open>preceded\<close> is used at three output types; \<open>'c\<close> is the output of \<open>alt\<close>. \<open>Parser::map\<close> applies a
  function to the output.
\<close>

record 'c winnow_partial =
  p_le_u16 :: "bytes \<Rightarrow> u16 iresult"
  p_le_u32 :: "bytes \<Rightarrow> u32 iresult"
  p_take :: "nat \<Rightarrow> bytes \<Rightarrow> bytes iresult"
  p_literal :: "bytes \<Rightarrow> bytes \<Rightarrow> bytes iresult"
  p_rest :: "bytes \<Rightarrow> bytes iresult"
  p_preceded_bytes :: "(bytes \<Rightarrow> bytes iresult) \<Rightarrow> (bytes \<Rightarrow> bytes iresult) \<Rightarrow> bytes \<Rightarrow> bytes iresult"
  p_preceded_u32 :: "(bytes \<Rightarrow> bytes iresult) \<Rightarrow> (bytes \<Rightarrow> u32 iresult) \<Rightarrow> bytes \<Rightarrow> u32 iresult"
  p_preceded :: "(bytes \<Rightarrow> bytes iresult) \<Rightarrow> (bytes \<Rightarrow> 'c iresult) \<Rightarrow> bytes \<Rightarrow> 'c iresult"
  p_alt :: "(bytes \<Rightarrow> 'c iresult) list \<Rightarrow> bytes \<Rightarrow> 'c iresult"

definition p_map :: "('a \<Rightarrow> 'b) \<Rightarrow> (bytes \<Rightarrow> 'a iresult) \<Rightarrow> bytes \<Rightarrow> 'b iresult" where
  "p_map f p i = pbind (p i) (\<lambda>i a. Done i (f a))"

locale winnow_partial_spec =
  fixes P :: "'c winnow_partial"
  assumes p_le_u16: "2 \<le> length i \<Longrightarrow> p_le_u16 P i = Done (drop 2 i) (word_of_nat (le_val (take 2 i)))"
    and p_le_u16_short: "length i < 2 \<Longrightarrow> p_le_u16 P i = ParseErr Incomplete"
    and p_le_u32: "4 \<le> length i \<Longrightarrow> p_le_u32 P i = Done (drop 4 i) (word_of_nat (le_val (take 4 i)))"
    and p_le_u32_short: "length i < 4 \<Longrightarrow> p_le_u32 P i = ParseErr Incomplete"
    and p_take: "n \<le> length i \<Longrightarrow> p_take P n i = Done (drop n i) (take n i)"
    and p_take_short: "length i < n \<Longrightarrow> p_take P n i = ParseErr Incomplete"
    and p_literal: "p_literal P [b] (b # i) = Done i [b]"
    and p_literal_mismatch: "c \<noteq> b \<Longrightarrow> backtracks (p_literal P [b] (c # i))"
    and p_literal_short: "p_literal P [b] [] = ParseErr Incomplete"
    and p_rest: "p_rest P i = Done [] i"
    and p_preceded_bytes: "p_preceded_bytes P a r i = pbind (a i) (\<lambda>i _. r i)"
    and p_preceded_u32: "p_preceded_u32 P a u i = pbind (a i) (\<lambda>i _. u i)"
    and p_preceded: "p_preceded P a q i = pbind (a i) (\<lambda>i _. q i)"
    and p_alt_first: "\<not> backtracks (q i) \<Longrightarrow> p_alt P (q # qs) i = q i"
    and p_alt_next: "backtracks (q i) \<Longrightarrow> qs \<noteq> [] \<Longrightarrow> \<not> backtracks (p_alt P qs i) \<Longrightarrow>
      p_alt P (q # qs) i = p_alt P qs i"
    and p_alt_none: "qs \<noteq> [] \<Longrightarrow> \<forall>q \<in> set qs. backtracks (q i) \<Longrightarrow> backtracks (p_alt P qs i)"

fun alt_ref :: "(bytes \<Rightarrow> 'c iresult) list \<Rightarrow> bytes \<Rightarrow> 'c iresult" where
  "alt_ref [] i = ParseErr (Backtrack (KindOther 3))"
| "alt_ref (q # qs) i = (if backtracks (q i) then alt_ref qs i else q i)"

definition winnow_partial_ref :: "'c winnow_partial" where
  "winnow_partial_ref = \<lparr>
     p_le_u16 = (\<lambda>i. if length i < 2 then ParseErr Incomplete
                     else Done (drop 2 i) (word_of_nat (le_val (take 2 i)))),
     p_le_u32 = (\<lambda>i. if length i < 4 then ParseErr Incomplete
                     else Done (drop 4 i) (word_of_nat (le_val (take 4 i)))),
     p_take = (\<lambda>n i. if length i < n then ParseErr Incomplete else Done (drop n i) (take n i)),
     p_literal = (\<lambda>t i. if take (length t) i = t then Done (drop (length t) i) t
                        else if take (length i) t = i then ParseErr Incomplete
                        else ParseErr (Backtrack (KindOther 1))),
     p_rest = Done [],
     p_preceded_bytes = (\<lambda>a b i. pbind (a i) (\<lambda>i _. b i)),
     p_preceded_u32 = (\<lambda>a b i. pbind (a i) (\<lambda>i _. b i)),
     p_preceded = (\<lambda>a b i. pbind (a i) (\<lambda>i _. b i)),
     p_alt = alt_ref\<rparr>"

lemma alt_ref_none: "\<forall>q \<in> set qs. backtracks (q i) \<Longrightarrow> backtracks (alt_ref qs i)"
  by (induction qs) auto

interpretation winnow_partial_ref: winnow_partial_spec winnow_partial_ref
  by unfold_locales (auto simp: winnow_partial_ref_def alt_ref_none)

subsection \<open>byteorder: little-endian integers\<close>

text \<open>
  \<open>read_u16\<close> and \<open>read_u32\<close> panic on a slice that is too short; \<open>write_u24\<close> panics on a value that
  needs more than three bytes.
\<close>

record byteorder =
  bo_write_u16 :: "u16 \<Rightarrow> bytes"
  bo_write_u24 :: "u32 \<Rightarrow> bytes result"
  bo_write_u32 :: "u32 \<Rightarrow> bytes"
  bo_read_u16 :: "bytes \<Rightarrow> u16 result"
  bo_read_u32 :: "bytes \<Rightarrow> u32 result"

locale byteorder_spec =
  fixes B :: byteorder
  assumes write_u16: "bo_write_u16 B x = le_bytes 2 (unat x)"
    and write_u24: "unat y < 256 ^ 3 \<Longrightarrow> bo_write_u24 B y = Ok (le_bytes 3 (unat y))"
    and write_u24_big: "256 ^ 3 \<le> unat y \<Longrightarrow> bo_write_u24 B y = Panic"
    and write_u32: "bo_write_u32 B y = le_bytes 4 (unat y)"
    and read_u16: "2 \<le> length i \<Longrightarrow> bo_read_u16 B i = Ok (word_of_nat (le_val (take 2 i)))"
    and read_u16_short: "length i < 2 \<Longrightarrow> bo_read_u16 B i = Panic"
    and read_u32: "4 \<le> length i \<Longrightarrow> bo_read_u32 B i = Ok (word_of_nat (le_val (take 4 i)))"
    and read_u32_short: "length i < 4 \<Longrightarrow> bo_read_u32 B i = Panic"

definition byteorder_ref :: byteorder where
  "byteorder_ref = \<lparr>
     bo_write_u16 = (\<lambda>x. le_bytes 2 (unat x)),
     bo_write_u24 = (\<lambda>y. if unat y < 256 ^ 3 then Ok (le_bytes 3 (unat y)) else Panic),
     bo_write_u32 = (\<lambda>y. le_bytes 4 (unat y)),
     bo_read_u16 = (\<lambda>i. if length i < 2 then Panic else Ok (word_of_nat (le_val (take 2 i)))),
     bo_read_u32 = (\<lambda>i. if length i < 4 then Panic else Ok (word_of_nat (le_val (take 4 i))))\<rparr>"

interpretation byteorder_ref: byteorder_spec byteorder_ref
  by unfold_locales (simp_all add: byteorder_ref_def)

subsection \<open>mysql_common: flags and length-encoded integers\<close>

text \<open>The flags of \<open>CapabilityFlags\<close> and \<open>StatusFlags\<close> the source names.\<close>

datatype capability =
    CLIENT_LONG_PASSWORD
  | CLIENT_FOUND_ROWS
  | CLIENT_LONG_FLAG
  | CLIENT_CONNECT_WITH_DB
  | CLIENT_NO_SCHEMA
  | CLIENT_ODBC
  | CLIENT_LOCAL_FILES
  | CLIENT_IGNORE_SPACE
  | CLIENT_PROTOCOL_41
  | CLIENT_INTERACTIVE
  | CLIENT_SSL
  | CLIENT_IGNORE_SIGPIPE
  | CLIENT_TRANSACTIONS
  | CLIENT_RESERVED
  | CLIENT_SECURE_CONNECTION
  | CLIENT_MULTI_STATEMENTS
  | CLIENT_MULTI_RESULTS
  | CLIENT_PS_MULTI_RESULTS
  | CLIENT_PLUGIN_AUTH
  | CLIENT_CONNECT_ATTRS
  | CLIENT_PLUGIN_AUTH_LENENC_CLIENT_DATA
  | CLIENT_CAN_HANDLE_EXPIRED_PASSWORDS
  | CLIENT_SESSION_TRACK
  | CLIENT_DEPRECATE_EOF
  | CLIENT_OPTIONAL_RESULTSET_METADATA
  | CLIENT_REMEMBER_OPTIONS

datatype status_flag =
    SERVER_STATUS_AUTOCOMMIT
  | SERVER_MORE_RESULTS_EXISTS
  | SERVER_STATUS_CURSOR_EXISTS
  | SERVER_SESSION_STATE_CHANGED

text \<open>
  A value of a \<open>bitflags\<close> type is its bits. \<open>err_message\<close> is
  \<open>ErrPacket::deserialize(caps, buf)\<close> followed by \<open>server_error().message_ref()\<close>, \<open>None\<close> where
  \<open>deserialize\<close> fails.
\<close>

record mysql_common =
  cap_bits :: "capability \<Rightarrow> u32"
  cap_from_bits_truncate :: "u32 \<Rightarrow> u32"
  cap_contains :: "u32 \<Rightarrow> u32 \<Rightarrow> bool"
  status_bits :: "status_flag \<Rightarrow> u16"
  status_from_bits_truncate :: "u16 \<Rightarrow> u16"
  status_from_bits :: "u16 \<Rightarrow> u16 option"
  status_contains :: "u16 \<Rightarrow> u16 \<Rightarrow> bool"
  lenenc_int :: "u64 \<Rightarrow> bytes"
  lenenc_str :: "bytes \<Rightarrow> bytes"
  err_message :: "u32 \<Rightarrow> bytes \<Rightarrow> bytes option"

text \<open>The values the MySQL protocol documents for the flags.\<close>

fun cap_value :: "capability \<Rightarrow> u32" where
  "cap_value CLIENT_LONG_PASSWORD = 0x1"
| "cap_value CLIENT_FOUND_ROWS = 0x2"
| "cap_value CLIENT_LONG_FLAG = 0x4"
| "cap_value CLIENT_CONNECT_WITH_DB = 0x8"
| "cap_value CLIENT_NO_SCHEMA = 0x10"
| "cap_value CLIENT_ODBC = 0x40"
| "cap_value CLIENT_LOCAL_FILES = 0x80"
| "cap_value CLIENT_IGNORE_SPACE = 0x100"
| "cap_value CLIENT_PROTOCOL_41 = 0x200"
| "cap_value CLIENT_INTERACTIVE = 0x400"
| "cap_value CLIENT_SSL = 0x800"
| "cap_value CLIENT_IGNORE_SIGPIPE = 0x1000"
| "cap_value CLIENT_TRANSACTIONS = 0x2000"
| "cap_value CLIENT_RESERVED = 0x4000"
| "cap_value CLIENT_SECURE_CONNECTION = 0x8000"
| "cap_value CLIENT_MULTI_STATEMENTS = 0x10000"
| "cap_value CLIENT_MULTI_RESULTS = 0x20000"
| "cap_value CLIENT_PS_MULTI_RESULTS = 0x40000"
| "cap_value CLIENT_PLUGIN_AUTH = 0x80000"
| "cap_value CLIENT_CONNECT_ATTRS = 0x100000"
| "cap_value CLIENT_PLUGIN_AUTH_LENENC_CLIENT_DATA = 0x200000"
| "cap_value CLIENT_CAN_HANDLE_EXPIRED_PASSWORDS = 0x400000"
| "cap_value CLIENT_SESSION_TRACK = 0x800000"
| "cap_value CLIENT_DEPRECATE_EOF = 0x1000000"
| "cap_value CLIENT_OPTIONAL_RESULTSET_METADATA = 0x2000000"
| "cap_value CLIENT_REMEMBER_OPTIONS = 0x80000000"

fun status_value :: "status_flag \<Rightarrow> u16" where
  "status_value SERVER_STATUS_AUTOCOMMIT = 0x2"
| "status_value SERVER_MORE_RESULTS_EXISTS = 0x8"
| "status_value SERVER_STATUS_CURSOR_EXISTS = 0x40"
| "status_value SERVER_SESSION_STATE_CHANGED = 0x4000"

text \<open>The length-encoded integer of the MySQL protocol.\<close>

definition lenenc_doc :: "nat \<Rightarrow> bytes" where
  "lenenc_doc n =
     (if n < 251 then [word_of_nat n]
      else if n < 2 ^ 16 then 0xfc # le_bytes 2 n
      else if n < 2 ^ 24 then 0xfd # le_bytes 3 n
      else 0xfe # le_bytes 8 n)"

text \<open>
  What the code relies on: the numbers of the flags and the sets they form, the length-encoded values,
  and the layout of an error packet in protocol 4.1 (the code \<open>0xffff\<close> belongs to progress reports).
\<close>

locale mysql_common_spec =
  fixes M :: mysql_common
  assumes cap_bits: "cap_bits M c = cap_value c"
    and cap_contains: "cap_contains M a b \<longleftrightarrow> a AND b = b"
    and cap_truncate: "cap_from_bits_truncate M a AND cap_value c = a AND cap_value c"
    and status_bits: "status_bits M f = status_value f"
    and status_contains: "status_contains M s t \<longleftrightarrow> s AND t = t"
    and status_truncate: "status_from_bits_truncate M s AND status_value f = s AND status_value f"
    and status_from_bits: "status_from_bits M s = Some t \<Longrightarrow> t = s"
    and lenenc_int: "lenenc_int M x = lenenc_doc (unat x)"
    and lenenc_str: "length v < 2 ^ 64 \<Longrightarrow> lenenc_str M v = lenenc_doc (length v) @ v"
    and err_message: "cap_contains M caps (cap_bits M CLIENT_PROTOCOL_41) \<Longrightarrow> code < 0xffff \<Longrightarrow> length state = 5 \<Longrightarrow>
      err_message M caps (0xff # le_bytes 2 code @ ascii ''#'' @ state @ msg) = Some msg"

definition cap_known :: u32 where
  "cap_known = 0x83ffffff"

definition err_message_ref :: "bytes \<Rightarrow> bytes option" where
  "err_message_ref p =
     (if length p < 3 \<or> hd p \<noteq> 0xff then None
      else if take 1 (drop 3 p) = ascii ''#'' \<and> 9 \<le> length p then Some (drop 9 p)
      else Some (drop 3 p))"

definition mysql_common_ref :: mysql_common where
  "mysql_common_ref = \<lparr>
     cap_bits = cap_value,
     cap_from_bits_truncate = (\<lambda>a. a AND cap_known),
     cap_contains = (\<lambda>a b. a AND b = b),
     status_bits = status_value,
     status_from_bits_truncate = (\<lambda>s. s AND 0x7ffb),
     status_from_bits = (\<lambda>s. if s AND 0x7ffb = s then Some s else None),
     status_contains = (\<lambda>a b. a AND b = b),
     lenenc_int = (\<lambda>x. lenenc_doc (unat x)),
     lenenc_str = (\<lambda>v. lenenc_doc (length v) @ v),
     err_message = (\<lambda>caps p. err_message_ref p)\<rparr>"

lemma cap_known_value: "cap_known AND cap_value c = cap_value c"
  by (cases c) (simp_all add: cap_known_def)

lemma status_known_value: "0x7ffb AND status_value f = status_value f"
  by (cases f) simp_all

interpretation mysql_common_ref: mysql_common_spec mysql_common_ref
  by unfold_locales
    (auto simp: mysql_common_ref_def and.assoc cap_known_value status_known_value err_message_ref_def ascii_def
      numeral_2_eq_2 numeral_3_eq_3 split: if_splits)

text \<open>A capability test of the source: \<open>caps.contains(CapabilityFlags::X)\<close>.\<close>

abbreviation has_cap :: "mysql_common \<Rightarrow> u32 \<Rightarrow> capability \<Rightarrow> bool" where
  "has_cap M caps c \<equiv> cap_contains M caps (cap_bits M c)"

abbreviation has_status :: "mysql_common \<Rightarrow> u16 \<Rightarrow> status_flag \<Rightarrow> bool" where
  "has_status M s f \<equiv> status_contains M s (status_bits M f)"

context mysql_common_spec
begin

lemma has_cap_iff: "has_cap M caps c \<longleftrightarrow> caps AND cap_value c = cap_value c"
  by (simp add: cap_contains cap_bits)

lemma has_cap_truncate: "has_cap M (cap_from_bits_truncate M a) c \<longleftrightarrow> has_cap M a c"
  by (simp add: has_cap_iff cap_truncate)

lemma has_status_iff: "has_status M s f \<longleftrightarrow> s AND status_value f = status_value f"
  by (simp add: status_contains status_bits)

lemma has_status_truncate: "has_status M (status_from_bits_truncate M s) f \<longleftrightarrow> has_status M s f"
  by (simp add: has_status_iff status_truncate)

end

end
