(* ===== verification/Constants.thy ===== *)
theory Constants
  imports Crates
begin

text \<open>
  \<open>protocol/mysql/constants.rs\<close>: sizes of the wire protocol, authentication plugin names, packet
  headers, command codes and the command labels of the metrics.
\<close>

definition MAX_PAYLOAD_LEN :: nat where
  "MAX_PAYLOAD_LEN = 16777215"

definition PACKET_HEADER_LEN :: nat where
  "PACKET_HEADER_LEN = 4"

definition AUTH_PLUGIN_DATA_PART_1_LENGTH :: nat where
  "AUTH_PLUGIN_DATA_PART_1_LENGTH = 8"

definition SCRAMBLE_SIZE :: nat where
  "SCRAMBLE_SIZE = 20"

datatype AuthPluginName =
    AuthMySQlOldPassword
  | AuthCachingSha2Password
  | AuthSha256Password
  | AuthNativePassword
  | UnKnowPluginName

text \<open>The derived \<open>AsRef<str>\<close> of the plugin names (their \<open>strum\<close> attributes).\<close>

fun auth_plugin_as_ref :: "AuthPluginName \<Rightarrow> string" where
  "auth_plugin_as_ref AuthMySQlOldPassword = ''mysql_old_password''"
| "auth_plugin_as_ref AuthCachingSha2Password = ''caching_sha2_password''"
| "auth_plugin_as_ref AuthSha256Password = ''sha256_password''"
| "auth_plugin_as_ref AuthNativePassword = ''mysql_native_password''"
| "auth_plugin_as_ref UnKnowPluginName = ''auth_unknown_plugin''"

datatype HeaderInfo = OKHeader | ErrHeader | EOFHeader | LocalInFileHeader

text \<open>The discriminant, \<open>h as u8\<close>.\<close>

fun header_u8 :: "HeaderInfo \<Rightarrow> u8" where
  "header_u8 OKHeader = 0x00"
| "header_u8 ErrHeader = 0xff"
| "header_u8 EOFHeader = 0xfe"
| "header_u8 LocalInFileHeader = 0xfb"

datatype CommandCode =
    ComSleep
  | ComQuit
  | ComInitDB
  | ComQuery
  | ComFieldList
  | ComCreateDB
  | ComDropDB
  | ComRefresh
  | ComShutdown
  | ComStatistics
  | ComProcessInfo
  | ComConnect
  | ComProcessKill
  | ComDebug
  | ComPing
  | ComTime
  | ComDelayedInsert
  | ComChangeUser
  | ComBinlogDump
  | ComTableDump
  | ComConnectOut
  | ComRegisterSlave
  | ComStmtPrepare
  | ComStmtExecute
  | ComStmtSendLongData
  | ComStmtClose
  | ComStmtReset
  | ComSetOption
  | ComStmtFetch
  | ComDaemon
  | ComBinlogDumpGtid
  | ComResetConnection
  | ComEnd

text \<open>The discriminant, \<open>c as u8\<close>: the variants count up from zero.\<close>

fun command_code :: "CommandCode \<Rightarrow> u8" where
  "command_code ComSleep = 0"
| "command_code ComQuit = 1"
| "command_code ComInitDB = 2"
| "command_code ComQuery = 3"
| "command_code ComFieldList = 4"
| "command_code ComCreateDB = 5"
| "command_code ComDropDB = 6"
| "command_code ComRefresh = 7"
| "command_code ComShutdown = 8"
| "command_code ComStatistics = 9"
| "command_code ComProcessInfo = 10"
| "command_code ComConnect = 11"
| "command_code ComProcessKill = 12"
| "command_code ComDebug = 13"
| "command_code ComPing = 14"
| "command_code ComTime = 15"
| "command_code ComDelayedInsert = 16"
| "command_code ComChangeUser = 17"
| "command_code ComBinlogDump = 18"
| "command_code ComTableDump = 19"
| "command_code ComConnectOut = 20"
| "command_code ComRegisterSlave = 21"
| "command_code ComStmtPrepare = 22"
| "command_code ComStmtExecute = 23"
| "command_code ComStmtSendLongData = 24"
| "command_code ComStmtClose = 25"
| "command_code ComStmtReset = 26"
| "command_code ComSetOption = 27"
| "command_code ComStmtFetch = 28"
| "command_code ComDaemon = 29"
| "command_code ComBinlogDumpGtid = 30"
| "command_code ComResetConnection = 31"
| "command_code ComEnd = 32"

text \<open>The variants in declaration order.\<close>

definition command_codes :: "CommandCode list" where
  "command_codes =
     [ComSleep, ComQuit, ComInitDB, ComQuery, ComFieldList,
      ComCreateDB, ComDropDB, ComRefresh, ComShutdown, ComStatistics,
      ComProcessInfo, ComConnect, ComProcessKill, ComDebug, ComPing,
      ComTime, ComDelayedInsert, ComChangeUser, ComBinlogDump, ComTableDump,
      ComConnectOut, ComRegisterSlave, ComStmtPrepare, ComStmtExecute, ComStmtSendLongData,
      ComStmtClose, ComStmtReset, ComSetOption, ComStmtFetch, ComDaemon,
      ComBinlogDumpGtid, ComResetConnection, ComEnd]"

text \<open>The derived \<open>FromPrimitive::from_u8\<close>: the variant with that discriminant, if any.\<close>

definition command_from_u8 :: "u8 \<Rightarrow> CommandCode option" where
  "command_from_u8 b = map_of (map (\<lambda>c. (command_code c, c)) command_codes) b"

datatype SqlComInfo =
    SqlComSleep u8 string
  | SqlComQuit u8 string
  | SqlComInitDB u8 string
  | SqlComQuery u8 string
  | SqlComFieldList u8 string
  | SqlComCreateDB u8 string
  | SqlComDropDB u8 string
  | SqlComRefresh u8 string
  | SqlComShutdown u8 string
  | SqlComStatistics u8 string
  | SqlComProcessInfo u8 string
  | SqlComConnect u8 string
  | SqlComProcessKill u8 string
  | SqlComDebug u8 string
  | SqlComPing u8 string
  | SqlComTime u8 string
  | SqlComDelayedInsert u8 string
  | SqlComChangeUser u8 string
  | SqlComBinlogDump u8 string
  | SqlComTableDump u8 string
  | SqlComConnectOut u8 string
  | SqlComRegisterSlave u8 string
  | SqlComStmtPrepare u8 string
  | SqlComStmtExecute u8 string
  | SqlComStmtSendLongData u8 string
  | SqlComStmtClose u8 string
  | SqlComStmtReset u8 string
  | SqlComSetOption u8 string
  | SqlComStmtFetch u8 string
  | SqlComDaemon u8 string
  | SqlComBinlogDumpGtid u8 string
  | SqlComResetConnection u8 string
  | SqlComEnd u8 string

definition all_sql_com_list :: "(u8 \<times> string) list" where
  "all_sql_com_list =
     [(0, ''ComSleep''),
      (1, ''ComQuit''),
      (2, ''ComInitDB''),
      (3, ''ComQuery''),
      (4, ''ComFieldList''),
      (5, ''ComCreateDB''),
      (6, ''ComDropDB''),
      (7, ''ComRefresh''),
      (8, ''ComShutdown''),
      (9, ''ComStatistics''),
      (10, ''ComProcessInfo''),
      (11, ''ComConnect''),
      (12, ''ComProcessKill''),
      (13, ''ComDebug''),
      (14, ''ComPing''),
      (15, ''ComTime''),
      (16, ''ComDelayedInsert''),
      (17, ''ComChangeUser''),
      (18, ''ComBinlogDump''),
      (19, ''ComTableDump''),
      (20, ''ComConnectOut''),
      (21, ''ComRegisterSlave''),
      (22, ''ComStmtPrepare''),
      (23, ''ComStmtExecute''),
      (24, ''ComStmtSendLongData''),
      (25, ''ComStmtClose''),
      (26, ''ComStmtReset''),
      (27, ''ComSetOption''),
      (28, ''ComStmtFetch''),
      (29, ''ComDaemon''),
      (30, ''ComBinlogDumpGtid''),
      (31, ''ComResetConnection''),
      (32, ''ComEnd'')]"

definition all_sql_com :: "u8 \<Rightarrow> string option" where
  "all_sql_com b = map_of (all_sql_com_list) b"

fun com_as_ref :: "SqlComInfo \<Rightarrow> string" where
  "com_as_ref (SqlComSleep c s) = s"
| "com_as_ref (SqlComQuit c s) = s"
| "com_as_ref (SqlComInitDB c s) = s"
| "com_as_ref (SqlComQuery c s) = s"
| "com_as_ref (SqlComFieldList c s) = s"
| "com_as_ref (SqlComCreateDB c s) = s"
| "com_as_ref (SqlComDropDB c s) = s"
| "com_as_ref (SqlComRefresh c s) = s"
| "com_as_ref (SqlComShutdown c s) = s"
| "com_as_ref (SqlComStatistics c s) = s"
| "com_as_ref (SqlComProcessInfo c s) = s"
| "com_as_ref (SqlComConnect c s) = s"
| "com_as_ref (SqlComProcessKill c s) = s"
| "com_as_ref (SqlComDebug c s) = s"
| "com_as_ref (SqlComPing c s) = s"
| "com_as_ref (SqlComTime c s) = s"
| "com_as_ref (SqlComDelayedInsert c s) = s"
| "com_as_ref (SqlComChangeUser c s) = s"
| "com_as_ref (SqlComBinlogDump c s) = s"
| "com_as_ref (SqlComTableDump c s) = s"
| "com_as_ref (SqlComConnectOut c s) = s"
| "com_as_ref (SqlComRegisterSlave c s) = s"
| "com_as_ref (SqlComStmtPrepare c s) = s"
| "com_as_ref (SqlComStmtExecute c s) = s"
| "com_as_ref (SqlComStmtSendLongData c s) = s"
| "com_as_ref (SqlComStmtClose c s) = s"
| "com_as_ref (SqlComStmtReset c s) = s"
| "com_as_ref (SqlComSetOption c s) = s"
| "com_as_ref (SqlComStmtFetch c s) = s"
| "com_as_ref (SqlComDaemon c s) = s"
| "com_as_ref (SqlComBinlogDumpGtid c s) = s"
| "com_as_ref (SqlComResetConnection c s) = s"
| "com_as_ref (SqlComEnd c s) = s"

subsection \<open>Command codes\<close>

lemma command_from_u8_code: "command_from_u8 (command_code c) = Some c"
  by (cases c) (simp_all add: command_from_u8_def command_codes_def)

lemma command_code_lt: "unat (command_code c) < 33"
  by (cases c) simp_all

lemma command_from_u8_Some: "command_from_u8 b = Some c \<longleftrightarrow> b = command_code c"
proof
  assume "command_from_u8 b = Some c"
  then have "(b, c) \<in> set (map (\<lambda>c. (command_code c, c)) command_codes)"
    unfolding command_from_u8_def by (rule map_of_SomeD)
  then show "b = command_code c" by auto
qed (simp add: command_from_u8_code)

lemma all_sql_com_code: "\<exists>s. all_sql_com (command_code c) = Some s"
  by (cases c) (simp_all add: all_sql_com_def all_sql_com_list_def)

end
