(* ===== verification/Packet.thy ===== *)
theory Packet
  imports Constants
begin

text \<open>
  \<open>protocol/mysql/packet/mod.rs\<close>: the packet parser. A logical packet is a run of full frames
  (header \<open>ff ff ff\<close>, 16777215 payload bytes) followed by one shorter frame; \<open>packet\<close> reassembles
  it. The main results: \<open>packet\<close> inverts the framing of a payload, never succeeds on a proper prefix
  differently than on the whole (so feeding it a growing buffer is safe), and always consumes its
  input.
\<close>

subsection \<open>The parser\<close>

definition full_packet :: "winnow \<Rightarrow> bytes \<Rightarrow> (u8 \<times> bytes) iresult" where
  "full_packet W i =
     pbind (w_literal W [0xff, 0xff, 0xff] i) (\<lambda>i _.
     pbind (w_take W 1 i) (\<lambda>i seq.
     pbind (w_take W MAX_PAYLOAD_LEN i) (\<lambda>i bs.
     Done i (seq ! 0, bs))))"

definition one_packet :: "winnow \<Rightarrow> bytes \<Rightarrow> (u8 \<times> bytes) iresult" where
  "one_packet W i =
     pbind (w_le_u24 W i) (\<lambda>i len.
     pbind (w_take W 1 i) (\<lambda>i seq.
     pbind (w_take W (unat len) i) (\<lambda>i bs.
     Done i (seq ! 0, bs))))"

text \<open>
  The \<open>while let\<close> loop over full frames. Every full frame takes at least four bytes, so a bound of
  \<open>length i\<close> iterations is enough (lemma \<open>full_packets_fuel\<close> below).
\<close>

fun full_packets :: "winnow \<Rightarrow> nat \<Rightarrow> bytes \<Rightarrow> (u8 \<times> bytes) list \<times> bytes" where
  "full_packets W 0 i = ([], i)"
| "full_packets W (Suc n) i =
     (case full_packet W i of
        Done i' sp \<Rightarrow> (let (sps, r) = full_packets W n i' in (sp # sps, r))
      | _ \<Rightarrow> ([], i))"

text \<open>
  The loop that combines the frames: \<open>assert_eq!(seq, prev_seq + 1)\<close> panics on a gap, and the
  addition itself panics at 255 in a build with overflow checks.
\<close>

fun combine_seqs :: "bool \<Rightarrow> u8 option \<Rightarrow> (u8 \<times> bytes) list \<Rightarrow> bytes result" where
  "combine_seqs chk prev [] = Ok []"
| "combine_seqs chk prev ((s, p) # sps) =
     rbind (case prev of
              None \<Rightarrow> Ok ()
            | Some q \<Rightarrow> rbind (add_chk chk q 1) (\<lambda>q1. if s = q1 then Ok () else Panic)) (\<lambda>_.
     rbind (combine_seqs chk (Some s) sps) (\<lambda>rest. Ok (p @ rest)))"

definition packet :: "winnow \<Rightarrow> bool \<Rightarrow> bytes \<Rightarrow> (u8 \<times> bytes) iresult" where
  "packet W chk i =
     (let (sps, i1) = full_packets W (length i) i in
      pbind (one_packet W i1) (\<lambda>i2 (last_seq, last_p).
        (case combine_seqs chk None sps of
           Ok data \<Rightarrow> Done i2 (last_seq, data @ last_p)
         | _ \<Rightarrow> ParsePanic)))"

subsection \<open>Packet classification\<close>

definition is_eof_packet :: "bytes \<Rightarrow> bool" where
  "is_eof_packet p \<longleftrightarrow> p \<noteq> [] \<and> p ! 0 = header_u8 EOFHeader \<and> length p \<le> 5"

definition is_result_set_eof_packet :: "bytes \<Rightarrow> bool" where
  "is_result_set_eof_packet p \<longleftrightarrow>
     p \<noteq> [] \<and> p ! 0 = header_u8 EOFHeader \<and> 7 \<le> length p \<and> length p < 0xFFFFFF"

definition is_ok_packet :: "bytes \<Rightarrow> bool" where
  "is_ok_packet p \<longleftrightarrow> p \<noteq> [] \<and> p ! 0 = header_u8 OKHeader"

definition is_err_packet :: "bytes \<Rightarrow> bool" where
  "is_err_packet p \<longleftrightarrow> p \<noteq> [] \<and> p ! 0 = header_u8 ErrHeader"

definition is_local_in_file_packet :: "bytes \<Rightarrow> bool" where
  "is_local_in_file_packet p \<longleftrightarrow> p \<noteq> [] \<and> p ! 0 = header_u8 LocalInFileHeader"

lemmas packet_class_defs =
  is_eof_packet_def is_result_set_eof_packet_def is_ok_packet_def is_err_packet_def
  is_local_in_file_packet_def

text \<open>The classes exclude one another, so the order in which a forwarder tests them is immaterial.\<close>

lemma packet_class_disjoint:
  "\<not> (is_ok_packet p \<and> is_err_packet p)"
  "\<not> (is_ok_packet p \<and> is_eof_packet p)"
  "\<not> (is_err_packet p \<and> is_eof_packet p)"
  "\<not> (is_eof_packet p \<and> is_result_set_eof_packet p)"
  "\<not> (is_ok_packet p \<and> is_local_in_file_packet p)"
  "\<not> (is_err_packet p \<and> is_local_in_file_packet p)"
  "\<not> (is_err_packet p \<and> is_result_set_eof_packet p)"
  by (auto simp: packet_class_defs)

subsection \<open>Frames\<close>

text \<open>The wire form of one frame, and the wire form of a list of frames with consecutive numbers.\<close>

definition frame :: "u8 \<Rightarrow> bytes \<Rightarrow> bytes" where
  "frame s p = le_bytes 3 (length p) @ [s] @ p"

fun frames :: "u8 \<Rightarrow> bytes list \<Rightarrow> bytes" where
  "frames s [] = []"
| "frames s (p # ps) = frame s p @ frames (s + 1) ps"

lemma length_frame [simp]: "length (frame s p) = 4 + length p"
  by (simp add: frame_def)

lemma u24_header_full: "le_bytes 3 MAX_PAYLOAD_LEN = [0xff, 0xff, 0xff]"
  by (simp add: MAX_PAYLOAD_LEN_def numeral_3_eq_3)

lemma u24_header_short:
  assumes "n < MAX_PAYLOAD_LEN"
  shows "le_bytes 3 n \<noteq> [0xff, 0xff, 0xff]"
proof
  assume "le_bytes 3 n = [0xff, 0xff, 0xff]"
  then have "le_val (le_bytes 3 n) = le_val (le_bytes 3 MAX_PAYLOAD_LEN)"
    by (simp only: u24_header_full)
  moreover have "n < 256 ^ 3" "MAX_PAYLOAD_LEN < 256 ^ 3"
    using assms by (simp_all add: MAX_PAYLOAD_LEN_def)
  ultimately show False using assms by (simp add: le_val_le_bytes_small)
qed

lemma MAX_PAYLOAD_LEN_u24: "n \<le> MAX_PAYLOAD_LEN \<Longrightarrow> n < 256 ^ 3"
  by (simp add: MAX_PAYLOAD_LEN_def)

lemma MAX_PAYLOAD_LEN_pos [simp]: "0 < MAX_PAYLOAD_LEN"
  by (simp add: MAX_PAYLOAD_LEN_def)

text \<open>Does the input start with a complete full frame?\<close>

definition is_full :: "bytes \<Rightarrow> bool" where
  "is_full i \<longleftrightarrow> take 3 i = [0xff, 0xff, 0xff] \<and> 4 + MAX_PAYLOAD_LEN \<le> length i"

lemma is_full_frame: "length p = MAX_PAYLOAD_LEN \<Longrightarrow> is_full (frame s p @ r)"
  by (simp add: is_full_def frame_def u24_header_full)

lemma not_is_full_frame: "length p < MAX_PAYLOAD_LEN \<Longrightarrow> \<not> is_full (frame s p @ r)"
  using u24_header_short [of "length p"] by (simp add: is_full_def frame_def)

text \<open>The length field of a short frame, read off the input.\<close>

definition short_len :: "bytes \<Rightarrow> nat" where
  "short_len i = le_val (take 3 i)"

lemma short_len_u24: "short_len i < 2 ^ 24"
proof -
  have "256 ^ length (take 3 i) \<le> (256 :: nat) ^ 3"
    by (intro power_increasing) auto
  with le_val_bound [of "take 3 i"] show ?thesis by (simp add: short_len_def)
qed

lemma short_len_full:
  assumes "3 \<le> length i" "short_len i = MAX_PAYLOAD_LEN"
  shows "take 3 i = [0xff, 0xff, 0xff]"
proof -
  have "take 3 i = le_bytes 3 (le_val (take 3 i))"
    using assms(1) by (simp add: le_bytes_le_val)
  then show ?thesis using assms(2) by (simp add: short_len_def u24_header_full)
qed

lemma short_len_le: "short_len i \<le> MAX_PAYLOAD_LEN"
  using short_len_u24 [of i] by (simp add: MAX_PAYLOAD_LEN_def)

lemma take3_full_len: "take 3 i = [0xff, 0xff, 0xff] \<Longrightarrow> short_len i = MAX_PAYLOAD_LEN"
  by (simp add: short_len_def MAX_PAYLOAD_LEN_def)

context winnow_spec
begin

lemma pbind_cong: "r = Done i a \<Longrightarrow> pbind r f = f i a"
  by simp

lemma full_packet_full:
  assumes "is_full i"
  shows "full_packet W i = Done (drop (4 + MAX_PAYLOAD_LEN) i) (i ! 3, take MAX_PAYLOAD_LEN (drop 4 i))"
proof -
  have lit: "w_literal W [0xff, 0xff, 0xff] i = Done (drop 3 i) [0xff, 0xff, 0xff]"
    using assms by (subst literal_iff) (simp add: is_full_def numeral_3_eq_3)
  have len: "4 + MAX_PAYLOAD_LEN \<le> length i" using assms by (simp add: is_full_def)
  then show ?thesis
    by (simp add: full_packet_def lit take add.commute)
qed

lemma full_packet_frame:
  assumes "length p = MAX_PAYLOAD_LEN"
  shows "full_packet W (frame s p @ r) = Done r (s, p)"
proof -
  have f: "frame s p @ r = [0xff, 0xff, 0xff] @ s # p @ r"
    unfolding frame_def assms u24_header_full by simp
  show ?thesis
    unfolding full_packet_def f literal
    by (simp add: take assms)
qed

lemma full_packet_other:
  assumes "\<not> is_full i"
  shows "backtracks (full_packet W i)"
proof (cases "take 3 i = [0xff, 0xff, 0xff]")
  case True
  then have lit: "w_literal W [0xff, 0xff, 0xff] i = Done (drop 3 i) [0xff, 0xff, 0xff]"
    by (subst literal_iff) (simp add: numeral_3_eq_3)
  from True assms have len: "length i < 4 + MAX_PAYLOAD_LEN" by (simp add: is_full_def)
  show ?thesis
  proof (cases "4 \<le> length i")
    case True
    with len show ?thesis
      by (simp add: full_packet_def lit take take_short)
  next
    case False
    then show ?thesis by (simp add: full_packet_def lit take_short)
  qed
next
  case False
  then have "backtracks (w_literal W [0xff, 0xff, 0xff] i)"
    by (intro literal_mismatch) (simp add: numeral_3_eq_3)
  then show ?thesis by (simp add: full_packet_def)
qed

lemma one_packet_eq:
  "one_packet W i =
     (if 4 + short_len i \<le> length i
      then Done (drop (4 + short_len i) i) (i ! 3, take (short_len i) (drop 4 i))
      else one_packet W i)"
proof (cases "4 + short_len i \<le> length i")
  case True
  moreover have "unat (word_of_nat (le_val (take 3 i)) :: u32) = short_len i"
    using short_len_u24 [of i] by (simp add: short_len_def unat_of_nat)
  ultimately show ?thesis
    by (simp add: one_packet_def le_u24 take add.commute)
qed simp

lemma one_packet_short:
  assumes "length i < 4 + short_len i"
  shows "backtracks (one_packet W i)"
proof (cases "3 \<le> length i")
  case True
  have len: "unat (word_of_nat (le_val (take 3 i)) :: u32) = short_len i"
    using short_len_u24 [of i] by (simp add: short_len_def unat_of_nat)
  show ?thesis
  proof (cases "4 \<le> length i")
    case True
    with assms len \<open>3 \<le> length i\<close> show ?thesis
      by (simp add: one_packet_def le_u24 take take_short)
  next
    case False
    with \<open>3 \<le> length i\<close> show ?thesis
      by (simp add: one_packet_def le_u24 take_short)
  qed
next
  case False
  then show ?thesis by (simp add: one_packet_def le_u24_short)
qed

lemma one_packet_Done:
  "one_packet W i = Done r sp \<longleftrightarrow>
     4 + short_len i \<le> length i \<and> r = drop (4 + short_len i) i \<and>
     sp = (i ! 3, take (short_len i) (drop 4 i))"
proof (cases "4 + short_len i \<le> length i")
  case True
  then show ?thesis by (subst one_packet_eq) auto
next
  case False
  then have "backtracks (one_packet W i)" by (intro one_packet_short) simp
  with False show ?thesis by (auto elim!: backtracksE)
qed

lemma one_packet_frame:
  assumes "length p < 256 ^ 3"
  shows "one_packet W (frame s p @ r) = Done r (s, p)"
  using assms
  by (simp add: one_packet_Done short_len_def frame_def le_val_le_bytes_small nth_append)

subsubsection \<open>The loop over full frames\<close>

lemma full_packets_step:
  "is_full i \<Longrightarrow> full_packets W (Suc n) i =
     (let (sps, r) = full_packets W n (drop (4 + MAX_PAYLOAD_LEN) i)
      in ((i ! 3, take MAX_PAYLOAD_LEN (drop 4 i)) # sps, r))"
  by (simp add: full_packet_full)

lemma full_packets_stop: "\<not> is_full i \<Longrightarrow> full_packets W n i = ([], i)"
  using full_packet_other [of i] by (cases n) (auto elim!: backtracksE)

text \<open>The bound of the loop is enough: any larger bound gives the same frames.\<close>

lemma full_packets_fuel:
  "length i \<le> n \<Longrightarrow> length i \<le> m \<Longrightarrow> full_packets W n i = full_packets W m i"
proof (induction n arbitrary: i m)
  case 0
  then have "\<not> is_full i" by (simp add: is_full_def)
  then show ?case by (simp add: full_packets_stop)
next
  case (Suc n)
  show ?case
  proof (cases "is_full i")
    case True
    then have len: "4 + MAX_PAYLOAD_LEN \<le> length i" by (simp add: is_full_def)
    with Suc.prems obtain m' where m: "m = Suc m'" by (cases m) auto
    have "full_packets W n (drop (4 + MAX_PAYLOAD_LEN) i) =
        full_packets W m' (drop (4 + MAX_PAYLOAD_LEN) i)"
      using Suc.prems m by (intro Suc.IH) auto
    then show ?thesis using True by (simp only: m full_packets_step)
  next
    case False
    then show ?thesis by (metis full_packets_stop)
  qed
qed

lemma full_packets_suffix: "full_packets W n i = (sps, r) \<Longrightarrow> suffix r i"
proof (induction n arbitrary: i sps)
  case (Suc n)
  show ?case
  proof (cases "is_full i")
    case True
    with Suc.prems obtain sps' where "full_packets W n (drop (4 + MAX_PAYLOAD_LEN) i) = (sps', r)"
      unfolding full_packets_step [OF True] by (auto split: prod.splits)
    then have "suffix r (drop (4 + MAX_PAYLOAD_LEN) i)" by (rule Suc.IH)
    then show ?thesis using suffix_drop suffix_order.trans by blast
  next
    case False
    with Suc.prems show ?thesis unfolding full_packets_stop [OF False] by simp
  qed
qed simp

text \<open>
  More input after a completed parse does not change the frames that were found: the short frame
  that ended the run is not a full one, however many bytes follow it.
\<close>

lemma full_packets_append:
  assumes "full_packets W n i = (sps, r)" "length i \<le> n" "4 + short_len r \<le> length r"
    "length (i @ x) \<le> m"
  shows "full_packets W m (i @ x) = (sps, r @ x) \<and> \<not> is_full r"
  using assms
proof (induction n arbitrary: i sps m)
  case 0
  then show ?case by auto
next
  case (Suc n)
  show ?case
  proof (cases "is_full i")
    case True
    let ?d = "drop (4 + MAX_PAYLOAD_LEN)"
    have len: "4 + MAX_PAYLOAD_LEN \<le> length i" using True by (simp add: is_full_def)
    have full: "is_full (i @ x)" using True by (simp add: is_full_def)
    from Suc.prems(4) len obtain m' where m: "m = Suc m'" by (cases m) auto
    from Suc.prems(1) obtain sps' where
      rest: "full_packets W n (?d i) = (sps', r)"
      and sps: "sps = (i ! 3, take MAX_PAYLOAD_LEN (drop 4 i)) # sps'"
      unfolding full_packets_step [OF True] by (auto split: prod.splits)
    have "full_packets W m' (?d i @ x) = (sps', r @ x) \<and> \<not> is_full r"
      using rest Suc.prems len m by (intro Suc.IH) auto
    moreover have "?d (i @ x) = ?d i @ x" using len by simp
    ultimately show ?thesis
      using len unfolding m full_packets_step [OF full] sps by (simp add: nth_append)
  next
    case False
    with Suc.prems have r: "r = i" "sps = []"
      unfolding full_packets_stop [OF False] by simp_all
    have "take 3 i \<noteq> [0xff, 0xff, 0xff]"
    proof
      assume "take 3 i = [0xff, 0xff, 0xff]"
      with Suc.prems(3) r False show False by (simp add: is_full_def take3_full_len)
    qed
    moreover have "3 \<le> length i" using Suc.prems(3) r by simp
    ultimately have "\<not> is_full (i @ x)" by (simp add: is_full_def)
    then show ?thesis using r False by (simp add: full_packets_stop)
  qed
qed

subsubsection \<open>Reassembly\<close>

lemma packet_Done_iff:
  "packet W chk i = Done r (s, p) \<longleftrightarrow>
     (\<exists>sps i1 d q. full_packets W (length i) i = (sps, i1) \<and> one_packet W i1 = Done r (s, q) \<and>
        combine_seqs chk None sps = Ok d \<and> p = d @ q)"
proof (cases "full_packets W (length i) i")
  case (Pair sps i1)
  show ?thesis
  proof (cases "one_packet W i1")
    case (Done i2 sq)
    obtain s' q where "sq = (s', q)" by (cases sq)
    with Pair Done show ?thesis
      by (cases "combine_seqs chk None sps") (auto simp: packet_def)
  qed (auto simp: packet_def Pair)
qed

lemma packet_cases:
  obtains (done_) r s p where "packet W chk i = Done r (s, p)"
    | (panic) "packet W chk i = ParsePanic"
    | (more) "backtracks (packet W chk i)"
proof (cases "full_packets W (length i) i")
  case (Pair sps i1)
  show thesis
  proof (cases "4 + short_len i1 \<le> length i1")
    case True
    then have "one_packet W i1 =
        Done (drop (4 + short_len i1) i1) (i1 ! 3, take (short_len i1) (drop 4 i1))"
      by (simp add: one_packet_Done)
    with Pair that show thesis
      by (cases "combine_seqs chk None sps") (auto simp: packet_def)
  next
    case False
    then have "backtracks (one_packet W i1)" by (intro one_packet_short) simp
    with Pair that(3) show thesis by (simp add: packet_def)
  qed
qed

lemma packet_suffix:
  assumes "packet W chk i = Done r sp"
  shows "suffix r i \<and> length r + 4 \<le> length i"
proof -
  obtain s p where "sp = (s, p)" by (cases sp)
  with assms obtain sps i1 q where
    "full_packets W (length i) i = (sps, i1)" "one_packet W i1 = Done r (s, q)"
    by (auto simp: packet_Done_iff)
  then have "suffix i1 i" "r = drop (4 + short_len i1) i1" "4 + short_len i1 \<le> length i1"
    by (auto simp: full_packets_suffix one_packet_Done)
  then show ?thesis
    using suffix_length_le [of i1 i] suffix_drop [of "4 + short_len i1" i1]
      suffix_order.trans by (auto intro: suffix_order.trans)
qed

lemma packet_Nil: "backtracks (packet W chk [])"
proof -
  have "backtracks (one_packet W [])" by (rule one_packet_short) simp
  then show ?thesis by (simp add: packet_def)
qed

text \<open>
  A parse that completes on a prefix of the input completes in the same way on the whole input: the
  reader may call \<open>packet\<close> on whatever has arrived so far.
\<close>

lemma packet_append_aux:
  assumes "full_packets W (length i) i = (sps, i1)" "one_packet W i1 = Done r sq"
  shows "full_packets W (length (i @ x)) (i @ x) = (sps, i1 @ x) \<and> one_packet W (i1 @ x) = Done (r @ x) sq"
proof -
  have len: "4 + short_len i1 \<le> length i1" using assms(2) by (simp add: one_packet_Done)
  then have "short_len (i1 @ x) = short_len i1" by (simp add: short_len_def)
  then have "one_packet W (i1 @ x) = Done (r @ x) sq"
    using assms(2) len by (auto simp: one_packet_Done nth_append)
  with full_packets_append [OF assms(1) _ len, of x "length (i @ x)"] show ?thesis by simp
qed

lemma packet_append:
  assumes "packet W chk i = Done r sp"
  shows "packet W chk (i @ x) = Done (r @ x) sp"
proof -
  obtain s p where sp: "sp = (s, p)" by (cases sp)
  with assms obtain sps i1 d q where
    fp: "full_packets W (length i) i = (sps, i1)" "one_packet W i1 = Done r (s, q)"
    and c: "combine_seqs chk None sps = Ok d" "p = d @ q"
    by (auto simp: packet_Done_iff)
  from packet_append_aux [OF fp, of x] c show ?thesis by (auto simp: sp packet_Done_iff)
qed

lemma packet_append_panic:
  assumes "packet W chk i = ParsePanic"
  shows "packet W chk (i @ x) = ParsePanic"
proof (cases "full_packets W (length i) i")
  case (Pair sps i1)
  show ?thesis
  proof (cases "4 + short_len i1 \<le> length i1")
    case True
    then have one: "one_packet W i1 =
        Done (drop (4 + short_len i1) i1) (i1 ! 3, take (short_len i1) (drop 4 i1))"
      by (simp add: one_packet_Done)
    from packet_append_aux [OF Pair one, of x] assms Pair one show ?thesis
      by (cases "combine_seqs chk None sps") (auto simp: packet_def)
  next
    case False
    then have "backtracks (one_packet W i1)" by (intro one_packet_short) simp
    then have "backtracks (packet W chk i)" using Pair by (simp add: packet_def)
    with assms show ?thesis by simp
  qed
qed

text \<open>\<open>packet\<close> inverts the framing of a run of full frames and a short one.\<close>

lemma full_packets_frames:
  assumes "\<forall>p \<in> set ps. length p = MAX_PAYLOAD_LEN" "length q < MAX_PAYLOAD_LEN"
    "length (frames s (ps @ [q]) @ r) \<le> n"
  shows "full_packets W n (frames s (ps @ [q]) @ r) =
    (zip (map (\<lambda>k. s + word_of_nat k) [0..<length ps]) ps, frame (s + word_of_nat (length ps)) q @ r)"
  using assms
proof (induction ps arbitrary: s n)
  case Nil
  then show ?case by (simp add: full_packets_stop not_is_full_frame)
next
  case (Cons p ps)
  let ?rest = "frames (s + 1) (ps @ [q]) @ r"
  have len: "length p = MAX_PAYLOAD_LEN" using Cons.prems by simp
  have eq: "frames s ((p # ps) @ [q]) @ r = frame s p @ ?rest" by simp
  from Cons.prems(3) obtain m where n: "n = Suc m" by (cases n) auto
  have "full_packets W m ?rest =
      (zip (map (\<lambda>k. s + 1 + word_of_nat k) [0..<length ps]) ps,
       frame (s + 1 + word_of_nat (length ps)) q @ r)"
    using Cons.prems n by (intro Cons.IH) auto
  moreover have "full_packet W (frame s p @ ?rest) = Done ?rest (s, p)"
    by (rule full_packet_frame) (rule len)
  moreover have "map (\<lambda>k. s + word_of_nat k) [0..<length (p # ps)] =
      s # map (\<lambda>k. s + 1 + word_of_nat k) [0..<length ps]"
    by (simp add: map_upt_Suc add.assoc del: upt_Suc)
  ultimately show ?case unfolding eq n by (simp add: add.assoc)
qed

end

lemma unat_add_word_of_nat_u8:
  assumes "unat (s :: u8) + k < 256"
  shows "unat (s + word_of_nat k) = unat s + k"
  using assms by (simp add: unat_word_ariths unat_of_nat)

lemma combine_seqs_consecutive:
  assumes "\<not> chk \<or> unat s + length ps \<le> 256"
  shows "combine_seqs chk None (zip (map (\<lambda>k. s + word_of_nat k) [0..<length ps]) ps) = Ok (concat ps)"
proof -
  have gen: "combine_seqs chk (Some (s + word_of_nat k))
      (zip (map (\<lambda>j. s + word_of_nat j) [Suc k..<Suc k + length qs]) qs) = Ok (concat qs)"
    if "\<not> chk \<or> unat s + (Suc k + length qs) \<le> 256" for k and qs :: "bytes list"
    using that
  proof (induction qs arbitrary: k)
    case (Cons q qs)
    have "add_chk chk (s + word_of_nat k) 1 = Ok (s + word_of_nat (Suc k))"
    proof (cases chk)
      case True
      with Cons.prems have "unat s + k < 255" by simp
      then have "unat (s + word_of_nat k) = unat s + k" by (simp add: unat_add_word_of_nat_u8)
      with \<open>unat s + k < 255\<close> show ?thesis
        by (subst add_chk_no_overflow) (simp_all add: add.assoc add.commute)
    qed (simp add: add.assoc add.commute)
    moreover have "[Suc k..<Suc k + length (q # qs)] = Suc k # [Suc (Suc k)..<Suc (Suc k) + length qs]"
      by (simp add: upt_rec)
    moreover note Cons.IH [of "Suc k"] Cons.prems
    ultimately show ?case by (simp del: upt_Suc)
  qed simp
  show ?thesis
  proof (cases ps)
    case (Cons p qs)
    have "[0..<length (p # qs)] = 0 # [Suc 0..<Suc 0 + length qs]" by (simp add: upt_rec)
    moreover have "\<not> chk \<or> unat s + (Suc 0 + length qs) \<le> 256" using assms Cons by simp
    ultimately show ?thesis using Cons gen [of 0 qs] by (simp del: upt_Suc)
  qed simp
qed

context winnow_spec
begin

lemma packet_frames:
  assumes "\<forall>p \<in> set ps. length p = MAX_PAYLOAD_LEN" "length q < MAX_PAYLOAD_LEN"
    "\<not> chk \<or> unat s + length ps \<le> 256"
  shows "packet W chk (frames s (ps @ [q]) @ r) =
    Done r (s + word_of_nat (length ps), concat ps @ q)"
proof -
  have "length q < 256 ^ 3" using assms(2) MAX_PAYLOAD_LEN_u24 [of "length q"] by simp
  then have "one_packet W (frame (s + word_of_nat (length ps)) q @ r) =
      Done r (s + word_of_nat (length ps), q)"
    by (rule one_packet_frame)
  with full_packets_frames [OF assms(1,2), where s = s and r = r, OF order_refl]
    combine_seqs_consecutive [OF assms(3)]
  show ?thesis by (auto simp: packet_Done_iff)
qed

text \<open>A run of full frames with nothing after it is an unfinished packet.\<close>

lemma packet_full_only:
  assumes "\<forall>p \<in> set ps. length p = MAX_PAYLOAD_LEN"
  shows "backtracks (packet W chk (frames s ps))"
proof -
  have "snd (full_packets W n (frames s ps)) = []" if "length (frames s ps) \<le> n" for n
    using assms that
  proof (induction ps arbitrary: s n)
    case Nil
    then show ?case by (simp add: full_packets_stop is_full_def)
  next
    case (Cons p ps)
    then obtain m where n: "n = Suc m" by (cases n) auto
    have "full_packet W (frame s p @ frames (s + 1) ps) = Done (frames (s + 1) ps) (s, p)"
      using Cons.prems by (intro full_packet_frame) simp
    moreover have "snd (full_packets W m (frames (s + 1) ps)) = []"
      using Cons.prems n by (intro Cons.IH) auto
    ultimately show ?case by (auto simp: n split: prod.splits)
  qed
  then have "snd (full_packets W (length (frames s ps)) (frames s ps)) = []" by simp
  moreover have "backtracks (one_packet W [])" by (rule one_packet_short) simp
  ultimately show ?thesis by (auto simp: packet_def split: prod.splits)
qed

end

end
