(* ===== verification/PacketReader.thy ===== *)
theory PacketReader
  imports Packet
begin

text \<open>
  \<open>protocol/mysql/packet/packet_reader.rs\<close>: the buffered reader that turns a byte stream into
  packets. The stream behind it is a list of what successive reads find: bytes, an error, or a panic
  (of a reader it is stacked on); at the end of the list the peer has closed the connection. The main result is a refinement: however the
  bytes arrive, \<open>next_async\<close> returns the packet that \<open>packet\<close> finds in all the bytes still to come.
\<close>

datatype read_event = Data bytes | ReadFail io_kind | ReadPanic

type_synonym stream = "read_event list"

record packet_reader =
  rd_bytes :: bytes
  rd_start :: nat
  rd_remaining :: nat
  rd_r :: stream

definition PACKET_BUFFER_SIZE :: nat where
  "PACKET_BUFFER_SIZE = 4096"

definition PACKET_LARGE_BUFFER_SIZE :: nat where
  "PACKET_LARGE_BUFFER_SIZE = 1048576"

definition reader_new :: "stream \<Rightarrow> packet_reader" where
  "reader_new r = \<lparr>rd_bytes = [], rd_start = 0, rd_remaining = 0, rd_r = r\<rparr>"

text \<open>
  One read into a buffer of \<open>cap\<close> bytes: what is delivered and the stream that is left. Bytes that
  do not fit stay in the stream.
\<close>

fun stream_read :: "nat \<Rightarrow> stream \<Rightarrow> bytes result \<times> stream" where
  "stream_read cap [] = (Ok [], [])"
| "stream_read cap (ReadFail k # es) = (Err (IoError k ''read''), es)"
| "stream_read cap (Data bs # es) =
     (if length bs \<le> cap then (Ok bs, es)
      else (Ok (take cap bs), Data (drop cap bs) # es))"
| "stream_read cap (ReadPanic # es) = (Panic, es)"

fun stream_size :: "stream \<Rightarrow> nat" where
  "stream_size [] = 0"
| "stream_size (Data bs # es) = length bs + stream_size es"
| "stream_size (ReadFail k # es) = stream_size es"
| "stream_size (ReadPanic # es) = stream_size es"

lemma stream_read_size:
  "stream_read cap es = (Ok bs, es') \<Longrightarrow> stream_size es' + length bs = stream_size es"
  by (cases "(cap, es)" rule: stream_read.cases) (auto split: if_splits)

subsection \<open>next_async\<close>

text \<open>
  The second half of the loop body: \<open>drain(0..start)\<close>, growing the buffer when fewer than
  \<open>buffer_size\<close> bytes are free, reading behind the bytes already there. It returns the number of
  bytes read. A buffer shorter than the bytes it should hold would make the slice operations of the
  source panic.
\<close>

definition make_room :: "nat \<Rightarrow> packet_reader \<Rightarrow> packet_reader" where
  "make_room buffer_size r =
     (let bs = drop (rd_start r) (rd_bytes r); fin = rd_remaining r in
      r\<lparr>rd_bytes := (if length bs - fin < buffer_size
                     then resize (max buffer_size (fin * 2)) 0 bs else bs),
        rd_start := 0\<rparr>)"

definition read_more :: "nat \<Rightarrow> packet_reader \<Rightarrow> nat result \<times> packet_reader" where
  "read_more buffer_size r =
     (if length (drop (rd_start r) (rd_bytes r)) < rd_remaining r then (Panic, r)
      else
        let r1 = make_room buffer_size r; fin = rd_remaining r in
        case stream_read (length (rd_bytes r1) - fin) (rd_r r1) of
          (Ok bs, es) \<Rightarrow>
            (Ok (length bs),
             r1\<lparr>rd_bytes := take fin (rd_bytes r1) @ bs @ drop (fin + length bs) (rd_bytes r1),
                rd_remaining := fin + length bs, rd_r := es\<rparr>)
        | (Err e, es) \<Rightarrow> (Err e, r1\<lparr>rd_r := es\<rparr>)
        | (_, es) \<Rightarrow> (Panic, r1\<lparr>rd_r := es\<rparr>))"

lemma read_more_size:
  assumes "read_more b r = (Ok n, r')"
  shows "stream_size (rd_r r') + n = stream_size (rd_r r)"
proof -
  let ?r1 = "make_room b r"
  have "rd_r ?r1 = rd_r r" by (simp add: make_room_def Let_def)
  with assms show ?thesis
    by (auto simp: read_more_def Let_def split: if_splits prod.splits result.splits
        dest!: stream_read_size)
qed

text \<open>
  The loop: try to parse what is buffered, and read more when it is not yet a packet. A read of
  zero bytes is the end of the stream.
\<close>

function next_loop ::
  "winnow \<Rightarrow> bool \<Rightarrow> nat \<Rightarrow> packet_reader \<Rightarrow> (u8 \<times> bytes) option result \<times> packet_reader" where
  "next_loop W chk buffer_size r =
     (case (if rd_remaining r \<noteq> 0
            then packet W chk (take (rd_remaining r) (drop (rd_start r) (rd_bytes r)))
            else ParseErr Incomplete) of
        Done rest p \<Rightarrow>
          (Ok (Some p),
           if 0 < length rest
           then r\<lparr>rd_bytes := rest, rd_start := 0, rd_remaining := length rest\<rparr>
           else r\<lparr>rd_remaining := 0\<rparr>)
      | ParsePanic \<Rightarrow> (Panic, r)
      | ParseErr (Cut k) \<Rightarrow>
          (Err (IoError InvalidData ''''), r\<lparr>rd_bytes := take (rd_remaining r) (rd_bytes r)\<rparr>)
      | ParseErr _ \<Rightarrow>
          (case read_more buffer_size r of
             (Ok n, r2) \<Rightarrow>
               if n = 0
               then (let r3 = r2\<lparr>rd_bytes := take (rd_remaining r2) (rd_bytes r2)\<rparr> in
                     if rd_bytes r3 = [] then (Ok None, r3)
                     else (Err (IoError UnexpectedEof ''unhandled bytes''), r3))
               else next_loop W chk PACKET_LARGE_BUFFER_SIZE r2
           | (Err e, r2) \<Rightarrow> (Err e, r2)
           | (Panic, r2) \<Rightarrow> (Panic, r2)
           | (Diverge, r2) \<Rightarrow> (Diverge, r2)))"
  by pat_completeness auto
termination
  by (relation "measure (\<lambda>(W, chk, b, r). stream_size (rd_r r))") (auto dest!: read_more_size [OF sym])

declare next_loop.simps [simp del]

definition next_async ::
  "winnow \<Rightarrow> bool \<Rightarrow> packet_reader \<Rightarrow> (u8 \<times> bytes) option result \<times> packet_reader" where
  "next_async W chk r =
     (if length (rd_bytes r) < rd_remaining r then (Panic, r)
      else next_loop W chk PACKET_BUFFER_SIZE
             (r\<lparr>rd_start := length (rd_bytes r) - rd_remaining r\<rparr>))"

subsection \<open>next_read\<close>

text \<open>
  The blocking variant over \<open>std::io::Read\<close>: it keeps the consumed bytes in the buffer and grows the
  buffer to at least 4096 bytes before every read.
\<close>

definition read_more_sync :: "packet_reader \<Rightarrow> nat result \<times> packet_reader" where
  "read_more_sync r =
     (let bs = drop (rd_start r) (rd_bytes r); fin = length bs in
      case stream_read (max 4096 (fin * 2) - fin) (rd_r r) of
        (Ok got, es) \<Rightarrow>
          (Ok (length got),
           r\<lparr>rd_bytes := bs @ got, rd_start := 0, rd_remaining := fin + length got, rd_r := es\<rparr>)
      | (Err e, es) \<Rightarrow>
          (Err e, r\<lparr>rd_bytes := resize (max 4096 (fin * 2)) 0 bs, rd_start := 0, rd_r := es\<rparr>)
      | (_, es) \<Rightarrow> (Panic, r))"

lemma read_more_sync_size:
  assumes "read_more_sync r = (Ok n, r')"
  shows "stream_size (rd_r r') + n = stream_size (rd_r r)"
  using assms
  by (auto simp: read_more_sync_def Let_def split: prod.splits result.splits dest!: stream_read_size)

function next_read_loop ::
  "winnow \<Rightarrow> bool \<Rightarrow> packet_reader \<Rightarrow> (u8 \<times> bytes) option result \<times> packet_reader" where
  "next_read_loop W chk r =
     (case (if rd_remaining r \<noteq> 0 then packet W chk (drop (rd_start r) (rd_bytes r))
            else ParseErr Incomplete) of
        Done rest p \<Rightarrow> (Ok (Some p), r\<lparr>rd_remaining := length rest\<rparr>)
      | ParsePanic \<Rightarrow> (Panic, r)
      | ParseErr (Cut k) \<Rightarrow> (Err (IoError InvalidData ''''), r)
      | ParseErr _ \<Rightarrow>
          (case read_more_sync r of
             (Ok n, r2) \<Rightarrow>
               if n = 0
               then (if rd_bytes r2 = [] then (Ok None, r2)
                     else (Err (IoError UnexpectedEof ''unhandled bytes''), r2))
               else next_read_loop W chk r2
           | (Err e, r2) \<Rightarrow> (Err e, r2)
           | (Panic, r2) \<Rightarrow> (Panic, r2)
           | (Diverge, r2) \<Rightarrow> (Diverge, r2)))"
  by pat_completeness auto
termination
  by (relation "measure (\<lambda>(W, chk, r). stream_size (rd_r r))") (auto dest!: read_more_sync_size [OF sym])

declare next_read_loop.simps [simp del]

definition next_read ::
  "winnow \<Rightarrow> bool \<Rightarrow> packet_reader \<Rightarrow> (u8 \<times> bytes) option result \<times> packet_reader" where
  "next_read W chk r =
     (if length (rd_bytes r) < rd_remaining r then (Panic, r)
      else next_read_loop W chk (r\<lparr>rd_start := length (rd_bytes r) - rd_remaining r\<rparr>))"

subsection \<open>What the reader still has to deliver\<close>

text \<open>
  Between two calls the live bytes are the last \<open>rd_remaining\<close> of the buffer; inside the loop they
  are the \<open>rd_remaining\<close> bytes from \<open>rd_start\<close> on.
\<close>

definition reader_inv :: "packet_reader \<Rightarrow> bool" where
  "reader_inv r \<longleftrightarrow> rd_remaining r \<le> length (rd_bytes r)"

fun stream_bytes :: "stream \<Rightarrow> bytes" where
  "stream_bytes [] = []"
| "stream_bytes (Data bs # es) = bs @ stream_bytes es"
| "stream_bytes (ReadFail k # es) = []"
| "stream_bytes (ReadPanic # es) = []"

text \<open>A healthy stream: reads do not fail, and a read returns no bytes only at the end.\<close>

fun healthy :: "stream \<Rightarrow> bool" where
  "healthy [] = True"
| "healthy (Data bs # es) = (bs \<noteq> [] \<and> healthy es)"
| "healthy (ReadFail k # es) = False"
| "healthy (ReadPanic # es) = False"

definition pending :: "packet_reader \<Rightarrow> bytes" where
  "pending r = drop (length (rd_bytes r) - rd_remaining r) (rd_bytes r) @ stream_bytes (rd_r r)"

text \<open>The reader a component may rely on: buffer in range, stream healthy.\<close>

definition reader_ok :: "packet_reader \<Rightarrow> bool" where
  "reader_ok r \<longleftrightarrow> reader_inv r \<and> healthy (rd_r r)"

lemma reader_ok_new: "healthy es \<Longrightarrow> reader_ok (reader_new es)"
  by (simp add: reader_ok_def reader_inv_def reader_new_def)

lemma pending_new: "pending (reader_new es) = stream_bytes es"
  by (simp add: pending_def reader_new_def)

text \<open>The specification: what one call returns, and what is left, given all the bytes to come.\<close>

definition next_spec :: "(u8 \<times> bytes) iresult \<Rightarrow> bytes \<Rightarrow> (u8 \<times> bytes) option result \<times> bytes" where
  "next_spec parse all =
     (case parse of
        Done rest p \<Rightarrow> (Ok (Some p), rest)
      | ParsePanic \<Rightarrow> (Panic, all)
      | ParseErr e \<Rightarrow>
          if all = [] then (Ok None, [])
          else (Err (IoError UnexpectedEof ''unhandled bytes''), all))"

subsection \<open>Refinement\<close>

text \<open>One read from a healthy stream: some bytes, or none at the end of the stream.\<close>

lemma stream_read_healthy:
  assumes "healthy es" "0 < cap"
  obtains bs es' where "stream_read cap es = (Ok bs, es')" "healthy es'"
    "bs @ stream_bytes es' = stream_bytes es" "length bs \<le> cap" "bs = [] \<longleftrightarrow> es = []"
    "bs = [] \<Longrightarrow> es' = []"
  using assms
proof (cases "(cap, es)" rule: stream_read.cases)
  case (3 cap' bs es')
  with assms that show thesis
    by (cases "length bs \<le> cap") auto
qed (use assms that in auto)

lemma make_room_props:
  assumes "rd_start r + rd_remaining r \<le> length (rd_bytes r)" "0 < b"
  shows "rd_remaining r < length (rd_bytes (make_room b r))"
    and "take (rd_remaining r) (rd_bytes (make_room b r)) =
      take (rd_remaining r) (drop (rd_start r) (rd_bytes r))"
  using assms by (auto simp: make_room_def Let_def take_resize max_def)

text \<open>The bytes of the loop: buffered and live, then still in the stream.\<close>

definition loop_pending :: "packet_reader \<Rightarrow> bytes" where
  "loop_pending r = take (rd_remaining r) (drop (rd_start r) (rd_bytes r)) @ stream_bytes (rd_r r)"

definition loop_ok :: "packet_reader \<Rightarrow> bool" where
  "loop_ok r \<longleftrightarrow> rd_start r + rd_remaining r \<le> length (rd_bytes r) \<and> healthy (rd_r r)"

lemma read_more_healthy:
  assumes "loop_ok r" "0 < b"
  obtains n r2 where "read_more b r = (Ok n, r2)" "loop_ok r2" "rd_start r2 = 0"
    "loop_pending r2 = loop_pending r" "n = 0 \<longleftrightarrow> rd_r r = []" "n = 0 \<Longrightarrow> rd_r r2 = []"
proof -
  let ?r1 = "make_room b r" and ?fin = "rd_remaining r"
  have inv: "rd_start r + ?fin \<le> length (rd_bytes r)" "healthy (rd_r r)"
    using assms(1) by (auto simp: loop_ok_def)
  note room = make_room_props [OF inv(1) assms(2)]
  have r1: "rd_r ?r1 = rd_r r" "rd_start ?r1 = 0" by (simp_all add: make_room_def Let_def)
  obtain bs es' where sr: "stream_read (length (rd_bytes ?r1) - ?fin) (rd_r r) = (Ok bs, es')"
    and bs: "healthy es'" "bs @ stream_bytes es' = stream_bytes (rd_r r)"
      "length bs \<le> length (rd_bytes ?r1) - ?fin" "bs = [] \<longleftrightarrow> rd_r r = []" "bs = [] \<Longrightarrow> es' = []"
    using stream_read_healthy [OF inv(2), of "length (rd_bytes ?r1) - ?fin"] room(1) by auto
  let ?r2 = "?r1\<lparr>rd_bytes := take ?fin (rd_bytes ?r1) @ bs @ drop (?fin + length bs) (rd_bytes ?r1),
    rd_remaining := ?fin + length bs, rd_r := es'\<rparr>"
  have "read_more b r = (Ok (length bs), ?r2)"
    using inv(1) sr by (simp add: read_more_def Let_def r1)
  moreover have "loop_ok ?r2" using bs room(1) r1 by (simp add: loop_ok_def)
  moreover have "loop_pending ?r2 = loop_pending r"
    using bs(2) room r1 inv(1) by (simp add: loop_pending_def)
  ultimately show thesis using that [of "length bs" ?r2] bs r1 by simp
qed

lemma loop_pending_eof: "rd_r r = [] \<Longrightarrow> rd_start r = 0 \<Longrightarrow> loop_ok r \<Longrightarrow>
    take (rd_remaining r) (rd_bytes r) = loop_pending r"
  by (simp add: loop_pending_def)

context winnow_spec
begin

text \<open>
  What the loops find in their live bytes, with \<open>sb\<close> still to come: a packet, which more bytes do not
  change; a panic; or too little, which is an error of the parser if nothing is to come.
\<close>

lemma live_cases:
  assumes "rem = 0 \<longrightarrow> live = []"
  obtains (Done) rest p where "(if rem \<noteq> 0 then packet W chk live else ParseErr Incomplete) = Done rest p"
      "packet W chk live = Done rest p" "packet W chk (live @ sb) = Done (rest @ sb) p"
    | (Panic) "(if rem \<noteq> 0 then packet W chk live else ParseErr Incomplete) = ParsePanic"
      "packet W chk (live @ sb) = ParsePanic"
    | (More) e where "(if rem \<noteq> 0 then packet W chk live else ParseErr Incomplete) = ParseErr e"
      "\<forall>k. e \<noteq> Cut k" "sb = [] \<Longrightarrow> \<exists>e'. packet W chk (live @ sb) = ParseErr e'"
proof (cases "rem = 0")
  case True
  then show ?thesis using More [of Incomplete] assms packet_Nil [of chk] by (auto elim!: backtracksE)
next
  case False
  then show ?thesis
    by (cases chk live rule: packet_cases)
      (auto simp: packet_append packet_append_panic elim!: backtracksE intro: Done Panic More)
qed

text \<open>The loop meets the specification on the bytes it has and the bytes to come.\<close>

lemma next_loop_refines:
  assumes "loop_ok r" "0 < b"
  shows "\<exists>r'. next_loop W chk b r =
      (fst (next_spec (packet W chk (loop_pending r)) (loop_pending r)), r') \<and>
    (packet W chk (loop_pending r) \<noteq> ParsePanic \<longrightarrow>
      reader_ok r' \<and> pending r' = snd (next_spec (packet W chk (loop_pending r)) (loop_pending r)))"
  using assms
proof (induction "stream_size (rd_r r)" arbitrary: b r rule: less_induct)
  case less
  let ?live = "take (rd_remaining r) (drop (rd_start r) (rd_bytes r))" and ?sb = "stream_bytes (rd_r r)"
  let ?all = "loop_pending r"
  have all: "?all = ?live @ ?sb" by (simp add: loop_pending_def)
  have nil: "rd_remaining r = 0 \<longrightarrow> ?live = []" by simp
  show ?case
  proof (cases rule: live_cases [OF nil, of chk ?sb, case_names Done Panic More])
    case (Done rest p)
    then have "next_loop W chk b r = (Ok (Some p),
        if 0 < length rest then r\<lparr>rd_bytes := rest, rd_start := 0, rd_remaining := length rest\<rparr>
        else r\<lparr>rd_remaining := 0\<rparr>)"
      by (subst next_loop.simps) simp
    then show ?thesis
      using less.prems Done(3) all by (auto simp: next_spec_def reader_ok_def reader_inv_def pending_def loop_ok_def)
  next
    case Panic
    then have "next_loop W chk b r = (result.Panic, r)" by (subst next_loop.simps) simp
    then show ?thesis using Panic(2) all by (simp add: next_spec_def)
  next
    case (More e)
    obtain n r2 where rm: "read_more b r = (Ok n, r2)" and r2: "loop_ok r2" "rd_start r2 = 0"
      "loop_pending r2 = ?all" "n = 0 \<longleftrightarrow> rd_r r = []" "n = 0 \<Longrightarrow> rd_r r2 = []"
      using read_more_healthy [OF less.prems] by blast
    have step: "next_loop W chk b r =
        (if n = 0
         then (let r3 = r2\<lparr>rd_bytes := take (rd_remaining r2) (rd_bytes r2)\<rparr> in
               if rd_bytes r3 = [] then (Ok None, r3)
               else (Err (IoError UnexpectedEof ''unhandled bytes''), r3))
         else next_loop W chk PACKET_LARGE_BUFFER_SIZE r2)"
      using More(1,2) rm by (subst next_loop.simps) (cases e; simp)
    show ?thesis
    proof (cases "n = 0")
      case True
      with r2 have live: "take (rd_remaining r2) (rd_bytes r2) = ?all" by (simp add: loop_pending_eof)
      have "\<exists>e'. packet W chk ?all = ParseErr e'" using More(3) True r2 all by simp
      moreover have "length ?all = rd_remaining r2"
        using live r2(1,2) by (simp add: loop_ok_def flip: live)
      ultimately show ?thesis
        using True live r2 unfolding step
        by (auto simp: next_spec_def reader_ok_def reader_inv_def pending_def Let_def)
    next
      case False
      then have "stream_size (rd_r r2) < stream_size (rd_r r)"
        using read_more_size [OF rm] by simp
      from less.hyps [OF this r2(1), of PACKET_LARGE_BUFFER_SIZE] False r2(3) show ?thesis
        unfolding step by (simp add: PACKET_LARGE_BUFFER_SIZE_def)
    qed
  qed
qed

text \<open>
  \<open>next_async\<close> returns what the parser finds in all the bytes to come, and leaves exactly the rest
  pending. How the bytes were cut into reads plays no role.
\<close>

lemma next_async_refines:
  assumes "reader_ok r"
  shows "\<exists>r'. next_async W chk r =
      (fst (next_spec (packet W chk (pending r)) (pending r)), r') \<and>
    (packet W chk (pending r) \<noteq> ParsePanic \<longrightarrow>
      reader_ok r' \<and> pending r' = snd (next_spec (packet W chk (pending r)) (pending r)))"
proof -
  let ?r = "r\<lparr>rd_start := length (rd_bytes r) - rd_remaining r\<rparr>"
  have "loop_ok ?r" "loop_pending ?r = pending r" "\<not> length (rd_bytes r) < rd_remaining r"
    using assms by (auto simp: reader_ok_def reader_inv_def loop_ok_def loop_pending_def pending_def)
  with next_loop_refines [of ?r PACKET_BUFFER_SIZE chk] show ?thesis
    by (simp add: next_async_def PACKET_BUFFER_SIZE_def)
qed

end

subsection \<open>The blocking reader meets the same specification\<close>

definition sync_ok :: "packet_reader \<Rightarrow> bool" where
  "sync_ok r \<longleftrightarrow> rd_start r + rd_remaining r = length (rd_bytes r) \<and> healthy (rd_r r)"

definition sync_pending :: "packet_reader \<Rightarrow> bytes" where
  "sync_pending r = drop (rd_start r) (rd_bytes r) @ stream_bytes (rd_r r)"

lemma read_more_sync_healthy:
  assumes "sync_ok r"
  obtains n r2 where "read_more_sync r = (Ok n, r2)" "sync_ok r2" "rd_start r2 = 0"
    "sync_pending r2 = sync_pending r" "n = 0 \<longleftrightarrow> rd_r r = []" "n = 0 \<Longrightarrow> rd_r r2 = []"
proof -
  let ?bs = "drop (rd_start r) (rd_bytes r)"
  have "0 < max 4096 (n * 2) - n" for n :: nat by (auto simp: max_def)
  then have "0 < max 4096 (length ?bs * 2) - length ?bs" .
  moreover have "healthy (rd_r r)" using assms by (simp add: sync_ok_def)
  ultimately obtain got es' where
    sr: "stream_read (max 4096 (length ?bs * 2) - length ?bs) (rd_r r) = (Ok got, es')"
    and got: "healthy es'" "got @ stream_bytes es' = stream_bytes (rd_r r)"
      "got = [] \<longleftrightarrow> rd_r r = []" "got = [] \<Longrightarrow> es' = []"
    using stream_read_healthy by metis
  let ?r2 = "r\<lparr>rd_bytes := ?bs @ got, rd_start := 0, rd_remaining := length ?bs + length got, rd_r := es'\<rparr>"
  have "read_more_sync r = (Ok (length got), ?r2)"
    unfolding read_more_sync_def Let_def sr by simp
  then show thesis
    using that [of "length got" ?r2] got by (simp add: sync_ok_def sync_pending_def)
qed

context winnow_spec
begin

lemma next_read_loop_refines:
  assumes "sync_ok r"
  shows "\<exists>r'. next_read_loop W chk r =
      (fst (next_spec (packet W chk (sync_pending r)) (sync_pending r)), r') \<and>
    (packet W chk (sync_pending r) \<noteq> ParsePanic \<longrightarrow>
      reader_ok r' \<and> pending r' = snd (next_spec (packet W chk (sync_pending r)) (sync_pending r)))"
  using assms
proof (induction "stream_size (rd_r r)" arbitrary: r rule: less_induct)
  case less
  let ?live = "drop (rd_start r) (rd_bytes r)" and ?sb = "stream_bytes (rd_r r)" and ?all = "sync_pending r"
  have all: "?all = ?live @ ?sb" by (simp add: sync_pending_def)
  have nil: "rd_remaining r = 0 \<longrightarrow> ?live = []" using less.prems by (auto simp: sync_ok_def)
  show ?case
  proof (cases rule: live_cases [OF nil, of chk ?sb, case_names Done Panic More])
    case (Done rest p)
    then have "next_read_loop W chk r = (Ok (Some p), r\<lparr>rd_remaining := length rest\<rparr>)"
      by (subst next_read_loop.simps) simp
    moreover have "drop (length (rd_bytes r) - length rest) (rd_bytes r) = rest"
      "length rest \<le> length (rd_bytes r)"
      using packet_suffix [OF Done(2)] less.prems
      by (auto simp: suffix_def sync_ok_def drop_append)
        (metis append_eq_conv_conj append_take_drop_id length_append diff_add_inverse2 append.assoc)+
    ultimately show ?thesis
      using less.prems Done(3) all by (simp add: next_spec_def reader_ok_def reader_inv_def pending_def sync_ok_def)
  next
    case Panic
    then have "next_read_loop W chk r = (result.Panic, r)" by (subst next_read_loop.simps) simp
    then show ?thesis using Panic(2) all by (simp add: next_spec_def)
  next
    case (More e)
    obtain n r2 where rm: "read_more_sync r = (Ok n, r2)" and r2: "sync_ok r2" "rd_start r2 = 0"
      "sync_pending r2 = ?all" "n = 0 \<longleftrightarrow> rd_r r = []" "n = 0 \<Longrightarrow> rd_r r2 = []"
      using read_more_sync_healthy [OF less.prems] by blast
    have step: "next_read_loop W chk r =
        (if n = 0
         then (if rd_bytes r2 = [] then (Ok None, r2)
               else (Err (IoError UnexpectedEof ''unhandled bytes''), r2))
         else next_read_loop W chk r2)"
      using More(1,2) rm by (subst next_read_loop.simps) (cases e; simp)
    show ?thesis
    proof (cases "n = 0")
      case True
      with r2 have live: "rd_bytes r2 = ?all" by (simp add: sync_pending_def)
      have "\<exists>e'. packet W chk ?all = ParseErr e'" using More(3) True r2 all by simp
      then show ?thesis
        using True live r2 unfolding step
        by (auto simp: next_spec_def reader_ok_def reader_inv_def pending_def sync_ok_def)
    next
      case False
      then have "stream_size (rd_r r2) < stream_size (rd_r r)"
        using read_more_sync_size [OF rm] by simp
      from less.hyps [OF this r2(1)] False r2(3) show ?thesis unfolding step by simp
    qed
  qed
qed

lemma next_read_refines:
  assumes "reader_ok r"
  shows "\<exists>r'. next_read W chk r =
      (fst (next_spec (packet W chk (pending r)) (pending r)), r') \<and>
    (packet W chk (pending r) \<noteq> ParsePanic \<longrightarrow>
      reader_ok r' \<and> pending r' = snd (next_spec (packet W chk (pending r)) (pending r)))"
proof -
  let ?r = "r\<lparr>rd_start := length (rd_bytes r) - rd_remaining r\<rparr>"
  have "sync_ok ?r" "sync_pending ?r = pending r" "\<not> length (rd_bytes r) < rd_remaining r"
    using assms by (auto simp: reader_ok_def reader_inv_def sync_ok_def sync_pending_def pending_def)
  with next_read_loop_refines [of ?r chk] show ?thesis by (simp add: next_read_def)
qed

end

subsection \<open>The contract of a packet source\<close>

text \<open>
  What the callers of a reader rely on: given all the bytes to come, a call returns what the parser
  finds in them and leaves the rest. Both readers are packet sources.
\<close>

locale packet_source = winnow_spec W for W +
  fixes nxt :: "bool \<Rightarrow> packet_reader \<Rightarrow> (u8 \<times> bytes) option result \<times> packet_reader"
  assumes nxt_refines: "reader_ok r \<Longrightarrow> \<exists>r'. nxt chk r =
      (fst (next_spec (packet W chk (pending r)) (pending r)), r') \<and>
    (packet W chk (pending r) \<noteq> ParsePanic \<longrightarrow>
      reader_ok r' \<and> pending r' = snd (next_spec (packet W chk (pending r)) (pending r)))"
begin

lemma nxt_Done:
  assumes "reader_ok r" "packet W chk (pending r) = Done rest sp"
  obtains r' where "nxt chk r = (Ok (Some sp), r')" "reader_ok r'" "pending r' = rest"
  using nxt_refines [OF assms(1), of chk] assms(2) that by (auto simp: next_spec_def)

lemma nxt_eof:
  assumes "reader_ok r" "pending r = []"
  obtains r' where "nxt chk r = (Ok None, r')" "reader_ok r'" "pending r' = []"
  using nxt_refines [OF assms(1), of chk] assms(2) packet_Nil [of chk] that
  by (auto simp: next_spec_def elim!: backtracksE)

lemma nxt_unexpected_eof:
  assumes "reader_ok r" "backtracks (packet W chk (pending r))" "pending r \<noteq> []"
  obtains r' where "nxt chk r = (Err (IoError UnexpectedEof ''unhandled bytes''), r')"
    "reader_ok r'" "pending r' = pending r"
  using nxt_refines [OF assms(1), of chk] assms(2,3) that
  by (auto simp: next_spec_def elim!: backtracksE)

lemma nxt_panic:
  assumes "reader_ok r" "packet W chk (pending r) = ParsePanic"
  obtains r' where "nxt chk r = (Panic, r')"
  using nxt_refines [OF assms(1), of chk] assms(2) that by (auto simp: next_spec_def)

text \<open>Every call that does not panic keeps the reader usable, and never invents bytes.\<close>

lemma nxt_cases:
  assumes "reader_ok r"
  obtains (packet) s p r' where "nxt chk r = (Ok (Some (s, p)), r')" "reader_ok r'"
      "packet W chk (pending r) = Done (pending r') (s, p)"
    | (eof) r' where "nxt chk r = (Ok None, r')" "reader_ok r'" "pending r' = []" "pending r = []"
    | (truncated) r' where "nxt chk r = (Err (IoError UnexpectedEof ''unhandled bytes''), r')"
      "reader_ok r'" "pending r' = pending r" "pending r \<noteq> []"
    | (panic) r' where "nxt chk r = (Panic, r')"
proof (cases chk "pending r" rule: packet_cases)
  case (done_ rest s p)
  then show thesis
    using nxt_Done [OF assms done_] that(1) by metis
next
  case panic
  then show thesis using nxt_panic [OF assms panic] that(4) by metis
next
  case more
  show thesis
  proof (cases "pending r = []")
    case True
    then show thesis using nxt_eof [OF assms True] that(2) by metis
  next
    case False
    then show thesis using nxt_unexpected_eof [OF assms more False] that(3) by metis
  qed
qed

end

sublocale winnow_spec \<subseteq> async_source: packet_source W "next_async W"
  by unfold_locales (rule next_async_refines)

sublocale winnow_spec \<subseteq> blocking_source: packet_source W "next_read W"
  by unfold_locales (rule next_read_refines)

context winnow_spec
begin

lemmas next_async_Done = async_source.nxt_Done
lemmas next_async_eof = async_source.nxt_eof
lemmas next_async_unexpected_eof = async_source.nxt_unexpected_eof

end

subsection \<open>Reading through the reader\<close>

text \<open>
  \<open>PacketReader\<close> is itself an \<open>AsyncRead\<close> (the demo server stacks one reader on another): buffered
  bytes first, all at once; \<open>put_slice\<close> panics when they do not fit the caller's buffer.
\<close>

definition poll_read :: "nat \<Rightarrow> packet_reader \<Rightarrow> bytes result \<times> packet_reader" where
  "poll_read cap r =
     (if rd_remaining r \<noteq> 0 then
        (if length (drop (rd_start r) (rd_bytes r)) \<le> cap
         then (Ok (drop (rd_start r) (rd_bytes r)),
               r\<lparr>rd_bytes := [], rd_start := 0, rd_remaining := 0\<rparr>)
         else (Panic, r))
      else (let (res, es) = stream_read cap (rd_r r) in (res, r\<lparr>rd_r := es\<rparr>)))"

text \<open>
  The stream a new reader finds when it is stacked on a reader: its first read asks for
  \<open>PACKET_BUFFER_SIZE\<close> bytes.
\<close>

definition stacked_stream :: "packet_reader \<Rightarrow> stream" where
  "stacked_stream r =
     (if rd_remaining r \<noteq> 0 then
        (if length (drop (rd_start r) (rd_bytes r)) \<le> PACKET_BUFFER_SIZE
         then Data (drop (rd_start r) (rd_bytes r)) else ReadPanic) # rd_r r
      else rd_r r)"

lemma stacked_stream_read:
  assumes "poll_read PACKET_BUFFER_SIZE r = (res, r')"
  shows "fst (stream_read PACKET_BUFFER_SIZE (stacked_stream r)) = res"
    "rd_remaining r' = 0 \<Longrightarrow> snd (stream_read PACKET_BUFFER_SIZE (stacked_stream r)) = stacked_stream r'"
  using assms by (auto simp: poll_read_def stacked_stream_def split: if_splits prod.splits)

end
