(* ===== verification/PacketWriter.thy ===== *)
theory PacketWriter
  imports PacketReader
begin

text \<open>
  \<open>protocol/mysql/packet/packet_writer.rs\<close>: the writer that buffers a payload and sends it as
  numbered frames. The transport behind it is a sink: the bytes it has accepted, how many of them
  were flushed, and the answers it will give to the next calls (by default it accepts everything).
  The main results: the frames that reach the sink do not depend on partial writes, and \<open>packet\<close>
  reads back the payload, except when the payload is a non-empty multiple of the frame size.
\<close>

datatype write_event = Accept nat | WriteFail io_kind nat

record sink =
  sk_sent :: bytes
  sk_flushed :: nat
  sk_plan :: "write_event list"

definition sink_new :: "write_event list \<Rightarrow> sink" where
  "sink_new plan = \<lparr>sk_sent = [], sk_flushed = 0, sk_plan = plan\<rparr>"

text \<open>
  \<open>write_vectored\<close> may accept only the first bytes and says how many; \<open>write_all\<close> accepts everything
  or fails after a prefix; \<open>flush\<close> succeeds or fails.
\<close>

definition sink_write_vectored :: "bytes \<Rightarrow> sink \<Rightarrow> nat result \<times> sink" where
  "sink_write_vectored bs k =
     (case sk_plan k of
        [] \<Rightarrow> (Ok (length bs), k\<lparr>sk_sent := sk_sent k @ bs\<rparr>)
      | Accept n # es \<Rightarrow>
          (Ok (min n (length bs)), k\<lparr>sk_sent := sk_sent k @ take n bs, sk_plan := es\<rparr>)
      | WriteFail e n # es \<Rightarrow> (Err (IoError e ''write''), k\<lparr>sk_plan := es\<rparr>))"

definition sink_write_all :: "bytes \<Rightarrow> sink \<Rightarrow> unit result \<times> sink" where
  "sink_write_all bs k =
     (case sk_plan k of
        [] \<Rightarrow> (Ok (), k\<lparr>sk_sent := sk_sent k @ bs\<rparr>)
      | Accept n # es \<Rightarrow> (Ok (), k\<lparr>sk_sent := sk_sent k @ bs, sk_plan := es\<rparr>)
      | WriteFail e n # es \<Rightarrow>
          (Err (IoError e ''write''), k\<lparr>sk_sent := sk_sent k @ take n bs, sk_plan := es\<rparr>))"

definition sink_flush :: "sink \<Rightarrow> unit result \<times> sink" where
  "sink_flush k =
     (case sk_plan k of
        [] \<Rightarrow> (Ok (), k\<lparr>sk_flushed := length (sk_sent k)\<rparr>)
      | Accept n # es \<Rightarrow> (Ok (), k\<lparr>sk_flushed := length (sk_sent k), sk_plan := es\<rparr>)
      | WriteFail e n # es \<Rightarrow> (Err (IoError e ''flush''), k\<lparr>sk_plan := es\<rparr>))"

record packet_writer =
  wr_buf :: bytes
  wr_seq :: u8
  wr_inner :: sink

definition writer_new :: "sink \<Rightarrow> packet_writer" where
  "writer_new k = \<lparr>wr_buf = [], wr_seq = 0, wr_inner = k\<rparr>"

definition take_buffer :: "packet_writer \<Rightarrow> bytes \<times> packet_writer" where
  "take_buffer w = (wr_buf w, w\<lparr>wr_buf := []\<rparr>)"

definition set_seq :: "u8 \<Rightarrow> packet_writer \<Rightarrow> packet_writer" where
  "set_seq s w = w\<lparr>wr_seq := s\<rparr>"

definition increase_seq :: "packet_writer \<Rightarrow> packet_writer" where
  "increase_seq w = w\<lparr>wr_seq := wr_seq w + 1\<rparr>"

definition reset_seq :: "packet_writer \<Rightarrow> packet_writer" where
  "reset_seq w = w\<lparr>wr_seq := 0\<rparr>"

definition writer_seq :: "packet_writer \<Rightarrow> u8" where
  "writer_seq w = wr_seq w"

text \<open>\<open>poll_write\<close>, \<open>poll_flush\<close> and \<open>poll_shutdown\<close> act on the inner writer and leave the buffer alone.\<close>

definition poll_inner :: "(sink \<Rightarrow> 'a \<times> sink) \<Rightarrow> packet_writer \<Rightarrow> 'a \<times> packet_writer" where
  "poll_inner f w = (case f (wr_inner w) of (r, k) \<Rightarrow> (r, w\<lparr>wr_inner := k\<rparr>))"

text \<open>\<open>Write::flush\<close> does not touch the inner writer.\<close>

definition write_flush :: "packet_writer \<Rightarrow> unit result \<times> packet_writer" where
  "write_flush w = (Ok (), w)"

text \<open>\<open>Write::write\<close> (and hence \<open>write_all\<close>) on the writer appends to the buffer.\<close>

definition put :: "bytes \<Rightarrow> packet_writer \<Rightarrow> packet_writer" where
  "put bs w = w\<lparr>wr_buf := wr_buf w @ bs\<rparr>"

text \<open>
  The loop of \<open>end_packet\<close> over the chunks: header, sequence number, vectored write, and
  \<open>write_all\<close> for what the vectored write left over.
\<close>

fun write_chunks :: "byteorder \<Rightarrow> bytes list \<Rightarrow> packet_writer \<Rightarrow> unit result \<times> packet_writer" where
  "write_chunks B [] w = (Ok (), w)"
| "write_chunks B (c # cs) w =
     (case bo_write_u24 B (word_of_nat (length c)) of
        Ok len \<Rightarrow>
          (let header = len @ [wr_seq w]; w1 = increase_seq w in
           case sink_write_vectored (header @ c) (wr_inner w1) of
             (Ok written, k) \<Rightarrow>
               (if written \<noteq> PACKET_HEADER_LEN + length c
                then (case sink_write_all (drop written (header @ c)) k of
                        (Ok _, k') \<Rightarrow> write_chunks B cs (w1\<lparr>wr_inner := k'\<rparr>)
                      | (Err e, k') \<Rightarrow> (Err e, w1\<lparr>wr_inner := k'\<rparr>)
                      | (_, k') \<Rightarrow> (Panic, w1\<lparr>wr_inner := k'\<rparr>))
                else write_chunks B cs (w1\<lparr>wr_inner := k\<rparr>))
           | (Err e, k) \<Rightarrow> (Err e, w1\<lparr>wr_inner := k\<rparr>)
           | (_, k) \<Rightarrow> (Panic, w1\<lparr>wr_inner := k\<rparr>))
      | _ \<Rightarrow> (Panic, w))"

definition end_packet :: "byteorder \<Rightarrow> packet_writer \<Rightarrow> unit result \<times> packet_writer" where
  "end_packet B w =
     (if wr_buf w \<noteq> [] then
        (let (raw_packet, w1) = take_buffer w in
         write_chunks B (chunks MAX_PAYLOAD_LEN raw_packet) w1)
      else
        (case bo_write_u24 B 0 of
           Ok len \<Rightarrow>
             (case sink_write_vectored (len @ [wr_seq w]) (wr_inner w) of
                (Ok _, k) \<Rightarrow> (Ok (), w\<lparr>wr_inner := k\<rparr>)
              | (Err e, k) \<Rightarrow> (Err e, w\<lparr>wr_inner := k\<rparr>)
              | (_, k) \<Rightarrow> (Panic, w\<lparr>wr_inner := k\<rparr>))
         | _ \<Rightarrow> (Panic, w)))"

definition flush_all :: "packet_writer \<Rightarrow> unit result \<times> packet_writer" where
  "flush_all w = (let (res, k) = sink_flush (wr_inner w) in (res, w\<lparr>wr_inner := k\<rparr>))"

subsection \<open>What reaches the sink\<close>

text \<open>A sink whose writes never fail: it may still accept only part of a vectored write.\<close>

fun no_fail :: "write_event list \<Rightarrow> bool" where
  "no_fail [] = True"
| "no_fail (Accept n # es) = no_fail es"
| "no_fail (WriteFail e n # es) = False"

lemma no_fail_Cons: "no_fail (e # es) \<Longrightarrow> (\<exists>n. e = Accept n) \<and> no_fail es"
  by (cases e) auto

lemma PACKET_HEADER_LEN_4 [simp]: "PACKET_HEADER_LEN = 4"
  by (simp add: PACKET_HEADER_LEN_def)

text \<open>The frames of a payload, numbered from \<open>s\<close>; an empty payload is one empty frame.\<close>

definition wire :: "u8 \<Rightarrow> bytes \<Rightarrow> bytes" where
  "wire s p = (if p = [] then frame s [] else frames s (chunks MAX_PAYLOAD_LEN p))"

definition wire_count :: "bytes \<Rightarrow> nat" where
  "wire_count p = length (chunks MAX_PAYLOAD_LEN p)"

text \<open>
  One frame leaves the sink with all its bytes, whether or not the vectored write was cut short:
  the rest goes out with \<open>write_all\<close>.
\<close>

lemma sink_write_vectored_no_fail:
  assumes "no_fail (sk_plan k)"
  obtains n k' where "sink_write_vectored bs k = (Ok n, k')" "n \<le> length bs"
    "sk_sent k' = sk_sent k @ take n bs" "no_fail (sk_plan k')" "sk_flushed k' = sk_flushed k"
    "sk_plan k = [] \<Longrightarrow> n = length bs \<and> sk_plan k' = []"
proof (cases "sk_plan k")
  case Nil
  show thesis
    by (rule that [of "length bs" "snd (sink_write_vectored bs k)"])
      (simp_all add: sink_write_vectored_def Nil)
next
  case (Cons e es)
  then obtain n where "e = Accept n" "no_fail es" using assms no_fail_Cons [of e es] by auto
  with Cons show thesis
    by (intro that [of "min n (length bs)" "snd (sink_write_vectored bs k)"])
      (simp_all add: sink_write_vectored_def min_def)
qed

lemma sink_write_all_no_fail:
  assumes "no_fail (sk_plan k)"
  obtains k' where "sink_write_all bs k = (Ok (), k')" "sk_sent k' = sk_sent k @ bs"
    "no_fail (sk_plan k')" "sk_flushed k' = sk_flushed k" "sk_plan k = [] \<Longrightarrow> sk_plan k' = []"
proof (cases "sk_plan k")
  case Nil
  show thesis
    by (rule that [of "snd (sink_write_all bs k)"]) (simp_all add: sink_write_all_def Nil)
next
  case (Cons e es)
  then obtain n where "e = Accept n" "no_fail es" using assms no_fail_Cons [of e es] by auto
  with Cons show thesis
    by (intro that [of "snd (sink_write_all bs k)"]) (simp_all add: sink_write_all_def)
qed

context byteorder_spec
begin

lemma write_u24_len:
  assumes "n \<le> MAX_PAYLOAD_LEN"
  shows "bo_write_u24 B (word_of_nat n) = Ok (le_bytes 3 n)"
proof -
  have "unat (word_of_nat n :: u32) = n"
    using assms by (simp add: MAX_PAYLOAD_LEN_def unat_of_nat)
  then show ?thesis
    using write_u24 [of "word_of_nat n"] MAX_PAYLOAD_LEN_u24 [OF assms] by simp
qed

lemma write_chunks_sends:
  assumes "\<forall>c \<in> set cs. length c \<le> MAX_PAYLOAD_LEN" "no_fail (sk_plan (wr_inner w))"
  shows "\<exists>k'. write_chunks B cs w =
      (Ok (), w\<lparr>wr_seq := wr_seq w + word_of_nat (length cs), wr_inner := k'\<rparr>) \<and>
    sk_sent k' = sk_sent (wr_inner w) @ frames (wr_seq w) cs \<and> no_fail (sk_plan k') \<and>
    sk_flushed k' = sk_flushed (wr_inner w) \<and> (sk_plan (wr_inner w) = [] \<longrightarrow> sk_plan k' = [])"
  using assms
proof (induction cs arbitrary: w)
  case Nil
  then show ?case by (intro exI [of _ "wr_inner w"]) simp
next
  case (Cons c cs)
  let ?f = "frame (wr_seq w) c" and ?k = "wr_inner w"
  have len: "length c \<le> MAX_PAYLOAD_LEN" using Cons.prems by simp
  then have u24: "bo_write_u24 B (word_of_nat (length c)) = Ok (le_bytes 3 (length c))"
    by (rule write_u24_len)
  have hd: "le_bytes 3 (length c) @ wr_seq w # c = ?f" by (simp add: frame_def)
  obtain n k1 where v: "sink_write_vectored ?f ?k = (Ok n, k1)" "n \<le> length ?f"
    "sk_sent k1 = sk_sent ?k @ take n ?f" "no_fail (sk_plan k1)" "sk_flushed k1 = sk_flushed ?k"
    "sk_plan ?k = [] \<Longrightarrow> n = length ?f \<and> sk_plan k1 = []"
    using sink_write_vectored_no_fail [of ?k ?f] Cons.prems(2) by blast
  obtain k2 where a: "sink_write_all (drop n ?f) k1 = (Ok (), k2)" "sk_sent k2 = sk_sent k1 @ drop n ?f"
    "no_fail (sk_plan k2)" "sk_flushed k2 = sk_flushed k1" "sk_plan k1 = [] \<Longrightarrow> sk_plan k2 = []"
    using sink_write_all_no_fail [OF v(4)] by blast
  define k3 where "k3 = (if n = length ?f then k1 else k2)"
  have k3: "sk_sent k3 = sk_sent ?k @ ?f" "no_fail (sk_plan k3)" "sk_flushed k3 = sk_flushed ?k"
    "sk_plan ?k = [] \<Longrightarrow> sk_plan k3 = []"
    using v a by (auto simp: k3_def)
  let ?w1 = "increase_seq w\<lparr>wr_inner := k3\<rparr>"
  have "write_chunks B (c # cs) w = write_chunks B cs ?w1"
    using v(1) a(1) by (simp add: u24 hd increase_seq_def k3_def Let_def)
  moreover obtain k' where "write_chunks B cs ?w1 =
      (Ok (), ?w1\<lparr>wr_seq := wr_seq ?w1 + word_of_nat (length cs), wr_inner := k'\<rparr>)"
    "sk_sent k' = sk_sent k3 @ frames (wr_seq ?w1) cs" "no_fail (sk_plan k')"
    "sk_flushed k' = sk_flushed k3" "sk_plan k3 = [] \<longrightarrow> sk_plan k' = []"
    using Cons.IH [of ?w1] Cons.prems k3 by auto
  ultimately show ?case
    using k3 by (intro exI [of _ k']) (simp add: increase_seq_def add.assoc)
qed

text \<open>
  \<open>end_packet\<close> sends the frames of the buffered payload, however the sink cuts the vectored writes.
\<close>

lemma end_packet_sends:
  assumes "wr_buf w \<noteq> []" "no_fail (sk_plan (wr_inner w))"
  shows "\<exists>k'. end_packet B w =
      (Ok (), w\<lparr>wr_buf := [], wr_seq := wr_seq w + word_of_nat (wire_count (wr_buf w)), wr_inner := k'\<rparr>) \<and>
    sk_sent k' = sk_sent (wr_inner w) @ wire (wr_seq w) (wr_buf w) \<and> no_fail (sk_plan k') \<and>
    sk_flushed k' = sk_flushed (wr_inner w) \<and> (sk_plan (wr_inner w) = [] \<longrightarrow> sk_plan k' = [])"
proof -
  let ?cs = "chunks MAX_PAYLOAD_LEN (wr_buf w)" and ?w1 = "w\<lparr>wr_buf := []\<rparr>"
  have "\<forall>c \<in> set ?cs. length c \<le> MAX_PAYLOAD_LEN" using chunks_length by blast
  then obtain k' where "write_chunks B ?cs ?w1 =
      (Ok (), ?w1\<lparr>wr_seq := wr_seq ?w1 + word_of_nat (length ?cs), wr_inner := k'\<rparr>)"
    "sk_sent k' = sk_sent (wr_inner ?w1) @ frames (wr_seq ?w1) ?cs" "no_fail (sk_plan k')"
    "sk_flushed k' = sk_flushed (wr_inner ?w1)" "sk_plan (wr_inner ?w1) = [] \<longrightarrow> sk_plan k' = []"
    using write_chunks_sends [of ?cs ?w1] assms(2) by auto
  then show ?thesis
    using assms(1) by (intro exI [of _ k']) (simp add: end_packet_def take_buffer_def wire_def wire_count_def)
qed

text \<open>
  An empty payload is one frame of four bytes, and the sequence number stays. The number of bytes
  the vectored write accepted is ignored on this path.
\<close>

lemma end_packet_empty:
  assumes "wr_buf w = []" "sk_plan (wr_inner w) = []"
  shows "end_packet B w =
      (Ok (), w\<lparr>wr_inner := (wr_inner w)\<lparr>sk_sent := sk_sent (wr_inner w) @ wire (wr_seq w) []\<rparr>\<rparr>)"
proof -
  have "bo_write_u24 B 0 = Ok (le_bytes 3 0)" using write_u24_len [of 0] by simp
  with assms show ?thesis
    by (simp add: end_packet_def sink_write_vectored_def wire_def frame_def)
qed

lemma end_packet_empty_short_write:
  assumes "wr_buf w = []" "sk_plan (wr_inner w) = Accept n # es"
  shows "end_packet B w =
      (Ok (), w\<lparr>wr_inner := (wr_inner w)\<lparr>sk_sent := sk_sent (wr_inner w) @ take n (wire (wr_seq w) []),
        sk_plan := es\<rparr>\<rparr>)"
proof -
  have "bo_write_u24 B 0 = Ok (le_bytes 3 0)" using write_u24_len [of 0] by simp
  with assms show ?thesis
    by (simp add: end_packet_def sink_write_vectored_def wire_def frame_def)
qed

text \<open>On an open sink both cases read the same.\<close>

lemma end_packet_open:
  assumes "sk_plan (wr_inner w) = []"
  shows "\<exists>w'. end_packet B w = (Ok (), w') \<and> wr_buf w' = [] \<and> sk_plan (wr_inner w') = [] \<and>
    wr_seq w' = wr_seq w + word_of_nat (wire_count (wr_buf w)) \<and>
    sk_flushed (wr_inner w') = sk_flushed (wr_inner w) \<and>
    sk_sent (wr_inner w') = sk_sent (wr_inner w) @ wire (wr_seq w) (wr_buf w)"
proof (cases "wr_buf w = []")
  case True
  with end_packet_empty [OF True assms] assms show ?thesis by (simp add: wire_count_def)
next
  case False
  with end_packet_sends [OF False] assms show ?thesis by auto
qed

end

lemma flush_all_open:
  assumes "sk_plan (wr_inner w) = []"
  shows "flush_all w =
    (Ok (), w\<lparr>wr_inner := (wr_inner w)\<lparr>sk_flushed := length (sk_sent (wr_inner w))\<rparr>\<rparr>)"
  using assms by (simp add: flush_all_def sink_flush_def)

subsection \<open>Reading the frames back\<close>

context winnow_spec
begin

lemma packet_wire:
  assumes "p = [] \<or> length p mod MAX_PAYLOAD_LEN \<noteq> 0"
    and "\<not> chk \<or> unat s + length p div MAX_PAYLOAD_LEN \<le> 256"
  shows "packet W chk (wire s p @ r) = Done r (s + word_of_nat (length p div MAX_PAYLOAD_LEN), p)"
proof (cases "p = []")
  case True
  then show ?thesis
    using packet_frames [of "[]" "[]" chk s r] less_imp_le [OF unat_u8_lt [of s]]
    by (simp add: wire_def)
next
  case False
  with assms(1) obtain ps q where "chunks MAX_PAYLOAD_LEN p = ps @ [q]"
    "\<forall>c \<in> set ps. length c = MAX_PAYLOAD_LEN" "length q < MAX_PAYLOAD_LEN"
    "length ps = length p div MAX_PAYLOAD_LEN"
    using chunks_split [OF MAX_PAYLOAD_LEN_pos, of p] by blast
  moreover from this have "concat ps @ q = p"
    using concat_chunks [of MAX_PAYLOAD_LEN p] by simp
  ultimately show ?thesis
    using packet_frames [of ps q chk s r] assms(2) False by (simp add: wire_def)
qed

text \<open>A payload that fits one frame: no condition on the sequence number.\<close>

lemma packet_wire_small:
  assumes "length p < MAX_PAYLOAD_LEN"
  shows "packet W chk (wire s p @ r) = Done r (s, p)"
proof -
  have "p = [] \<or> length p mod MAX_PAYLOAD_LEN \<noteq> 0" using assms by auto
  moreover have "unat s + length p div MAX_PAYLOAD_LEN \<le> 256"
    using assms less_imp_le [OF unat_u8_lt [of s]] by simp
  ultimately show ?thesis using packet_wire [of p chk s r] assms by simp
qed

text \<open>
  A payload that is a non-empty multiple of the frame size ends in a full frame; the reader then
  waits for a frame that never comes.
\<close>

lemma packet_wire_exact:
  assumes "p \<noteq> []" "length p mod MAX_PAYLOAD_LEN = 0"
  shows "backtracks (packet W chk (wire s p))"
proof -
  have "\<forall>c \<in> set (chunks MAX_PAYLOAD_LEN p). length c = MAX_PAYLOAD_LEN"
    by (rule chunks_exact [OF MAX_PAYLOAD_LEN_pos assms(2)])
  then have "backtracks (packet W chk (frames s (chunks MAX_PAYLOAD_LEN p)))"
    by (rule packet_full_only)
  then show ?thesis using assms(1) by (simp add: wire_def)
qed

end

lemma wire_small: "length p < MAX_PAYLOAD_LEN \<Longrightarrow> wire s p = frame s p"
  by (simp add: wire_def chunks_short)

lemma wire_count_small: "p \<noteq> [] \<Longrightarrow> length p < MAX_PAYLOAD_LEN \<Longrightarrow> wire_count p = 1"
  by (simp add: wire_count_def chunks_short)

text \<open>The number of the first frame can be read off the bytes.\<close>

lemma wire_seq: "wire q p ! 3 = q"
proof (cases "chunks MAX_PAYLOAD_LEN p")
  case Nil
  then have "p = []" using concat_chunks [of MAX_PAYLOAD_LEN p] by (simp add: MAX_PAYLOAD_LEN_def)
  then show ?thesis by (simp add: wire_def frame_def nth_append)
qed (simp add: wire_def frame_def nth_append)

lemma wire_eq_iff: "wire q p = wire q' p \<longleftrightarrow> q = q'"
  using wire_seq [of q p] wire_seq [of q' p] by metis

end
