(* ===== verification/Pool.thy ===== *)
theory Pool
  imports Tenant PacketWriter
begin

text \<open>
  \<open>backend/pool/\<close>: pooled backend connections and the \<open>deadpool\<close> manager that creates, recycles and
  detaches them. The life cycle marker on a connection decides whether it may be used again.
\<close>

definition BACKEND_CLIENT_DEFAULT_IDLE :: nat where
  "BACKEND_CLIENT_DEFAULT_IDLE = 60 * 10"

record BackendPoolConfig =
  cfg_initial_size :: u32
  cfg_max_size :: u32
  cfg_time_to_idle :: nat

definition pool_config_default :: BackendPoolConfig where
  "pool_config_default =
     \<lparr>cfg_initial_size = 5, cfg_max_size = 50, cfg_time_to_idle = BACKEND_CLIENT_DEFAULT_IDLE\<rparr>"

text \<open>The two halves of the connection are held inside the record; \<open>pc_shut\<close> says that \<open>shutdown\<close> was called.\<close>

record PooledConn =
  pc_id :: rstr
  pc_reader :: packet_reader
  pc_writer :: packet_writer
  pc_life_cycle :: DbUserConnLifeCycle
  pc_shut :: bool

definition get_conn_life_cycle :: "PooledConn \<Rightarrow> DbUserConnLifeCycle" where
  "get_conn_life_cycle c = pc_life_cycle c"

definition update_conn_life_cycle :: "DbUserConnLifeCycle \<Rightarrow> PooledConn \<Rightarrow> PooledConn" where
  "update_conn_life_cycle conn_phase c = c\<lparr>pc_life_cycle := conn_phase\<rparr>"

definition conn_close :: "PooledConn \<Rightarrow> PooledConn" where
  "conn_close c = c\<lparr>pc_shut := True\<rparr>"

text \<open>
  \<open>BackendIO::new\<close>: \<open>tcp\<close> connects to an address and gives the two ends of the stream, or an error.
\<close>

record BackendIO =
  bio_reader :: packet_reader
  bio_writer :: packet_writer
  bio_addr :: rstr

definition backend_io_new :: "(rstr \<Rightarrow> (stream \<times> sink) result) \<Rightarrow> rstr \<Rightarrow> BackendIO result" where
  "backend_io_new tcp addr =
     rbind (tcp addr) (\<lambda>(r, w).
       Ok \<lparr>bio_reader = reader_new r, bio_writer = writer_new w, bio_addr = addr\<rparr>)"

definition backend_io_addr :: "BackendIO \<Rightarrow> rstr" where
  "backend_io_addr io = bio_addr io"

definition get_backend_client :: "BackendIO \<Rightarrow> packet_reader \<times> packet_writer" where
  "get_backend_client io = (bio_reader io, bio_writer io)"

record PooledConnMgr =
  pm_backend_addr :: BackendInstance

definition pooled_conn_mgr_new :: "BackendInstance \<Rightarrow> PooledConnMgr" where
  "pooled_conn_mgr_new backend_addr = \<lparr>pm_backend_addr = backend_addr\<rparr>"

definition get_addr :: "PooledConnMgr \<Rightarrow> rstr" where
  "get_addr m = bi_addr (pm_backend_addr m)"

definition get_backend_instance :: "PooledConnMgr \<Rightarrow> BackendInstance" where
  "get_backend_instance m = pm_backend_addr m"

text \<open>\<open>PooledConnMgr\<close>: \<open>create\<close> unwraps the connection attempt; \<open>nanoid\<close> is the drawn id.\<close>

definition mgr_create ::
  "(rstr \<Rightarrow> (stream \<times> sink) result) \<Rightarrow> rstr \<Rightarrow> PooledConnMgr \<Rightarrow> PooledConn result" where
  "mgr_create tcp nanoid m =
     (case backend_io_new tcp (get_addr m) of
        Ok io \<Rightarrow>
          (case get_backend_client io of
             (reader, writer) \<Rightarrow>
               Ok \<lparr>pc_id = nanoid, pc_reader = reader, pc_writer = writer, pc_life_cycle = life_cycle_default,
                   pc_shut = False\<rparr>)
      | _ \<Rightarrow> Panic)"

text \<open>
  \<open>recycle\<close>: a connection whose authentication failed is refused. A life cycle with a user and no
  phase would make \<open>unwrap\<close> panic.
\<close>

definition mgr_recycle :: "PooledConn \<Rightarrow> unit result" where
  "mgr_recycle c =
     (let conn_life_cycle = pc_life_cycle c in
      if life_cycle_is_none conn_life_cycle then Ok ()
      else
        rbind (unwrap_opt (lc_conn_phase conn_life_cycle)) (\<lambda>conn_phase.
          case conn_phase of
            PhaseConnection \<Rightarrow> Err (IoError PermissionDenied ''connection is illegal'')
          | _ \<Rightarrow> Ok ()))"

definition mgr_detach :: "PooledConn \<Rightarrow> PooledConn" where
  "mgr_detach c = conn_close c"

text \<open>The life cycles the proxy ever writes: the default, or a user together with a phase.\<close>

definition life_cycle_wf :: "DbUserConnLifeCycle \<Rightarrow> bool" where
  "life_cycle_wf lc \<longleftrightarrow> (lc_db_user lc = None \<longleftrightarrow> lc_conn_phase lc = None)"

lemma life_cycle_wf_new: "life_cycle_wf (new_conn_life_cycle u ph)"
  by (simp add: life_cycle_wf_def new_conn_life_cycle_def)

lemma life_cycle_wf_default: "life_cycle_wf life_cycle_default"
  by (simp add: life_cycle_wf_def life_cycle_default_def)

lemma mgr_recycle_eq:
  assumes "life_cycle_wf (pc_life_cycle c)"
  shows "mgr_recycle c =
    (if lc_conn_phase (pc_life_cycle c) = Some PhaseConnection
     then Err (IoError PermissionDenied ''connection is illegal'') else Ok ())"
  using assms
  by (auto simp: mgr_recycle_def life_cycle_wf_def life_cycle_is_none_def Let_def
      split: option.splits DbConnPhase.splits)

end
