(* ===== verification/Basic.thy ===== *)
theory Basic
  imports PacketWriter Utf8
begin

text \<open>
  \<open>protocol/mysql/basic.rs\<close>: length-encoded numbers, OK packets, the client's handshake response
  and the command packets. The parsers are shown to invert the encodings the MySQL protocol
  documents, flag combination by flag combination.
\<close>

subsection \<open>Data\<close>

datatype Command =
    Query bytes
  | ListFields bytes
  | Close u32
  | Prepare bytes
  | Init bytes
  | Execute u32 bytes
  | SendLongData u32 u16 bytes
  | Ping
  | Quit

record PacketIO =
  io_reader :: packet_reader
  io_writer :: packet_writer

definition packet_io_new :: "stream \<Rightarrow> sink \<Rightarrow> PacketIO" where
  "packet_io_new reader writer = \<lparr>io_reader = reader_new reader, io_writer = writer_new writer\<rparr>"

record OkPacket =
  ok_header :: u8
  ok_affected_rows :: u64
  ok_last_insert_id :: u64
  ok_status_flags :: u16
  ok_warnings :: u16
  ok_info :: rstr
  ok_session_state_info :: rstr

definition ok_packet_default :: OkPacket where
  "ok_packet_default = \<lparr>ok_header = 0, ok_affected_rows = 0, ok_last_insert_id = 0,
     ok_status_flags = 0, ok_warnings = 0, ok_info = [], ok_session_state_info = []\<rparr>"

record HandshakeResponse =
  hs_client_flag :: u32
  hs_max_packet_len :: u32
  hs_collation :: u16
  hs_tenant_key :: "bytes option"
  hs_username :: "bytes option"
  hs_auth_response :: bytes
  hs_auth_plugin :: bytes
  hs_database :: "bytes option"
  hs_connect_attributes :: "(rstr \<rightharpoonup> rstr) option"

subsection \<open>Length-encoded numbers and strings\<close>

definition read_length_encoded_number :: "winnow \<Rightarrow> bytes \<Rightarrow> u64 iresult" where
  "read_length_encoded_number W i =
     pbind (w_le_u8 W i) (\<lambda>i b.
       if b = 0xfb then Done i 0
       else if b = 0xfc then pbind (w_take W 2 i) (\<lambda>i v. Done i (word_of_nat (le_val v)))
       else if b = 0xfd then pbind (w_take W 3 i) (\<lambda>i v. Done i (word_of_nat (le_val v)))
       else if b = 0xfe then pbind (w_take W 8 i) (\<lambda>i v. Done i (word_of_nat (le_val v)))
       else Done i (ucast b))"

definition read_length_encoded_string :: "winnow \<Rightarrow> bytes \<Rightarrow> bytes iresult" where
  "read_length_encoded_string W i =
     pbind (read_length_encoded_number W i) (\<lambda>i len. w_take W (unat len) i)"

text \<open>\<open>&i[3..i.len()]\<close> panics on an input of fewer than three bytes.\<close>

definition eof_server_status :: "winnow \<Rightarrow> mysql_common \<Rightarrow> bytes \<Rightarrow> u16 iresult" where
  "eof_server_status W M i =
     (if length i < 3 then ParsePanic
      else pbind (w_le_u16 W (drop 3 i)) (\<lambda>i code. Done i (status_from_bits_truncate M code)))"

subsection \<open>OK packets\<close>

text \<open>\<open>std::str::from_utf8(v).unwrap_or("")\<close>.\<close>

definition utf8_or_empty :: "bytes \<Rightarrow> rstr" where
  "utf8_or_empty v = (case utf8_decode v of Some s \<Rightarrow> s | None \<Rightarrow> [])"

definition ok_packet :: "winnow \<Rightarrow> mysql_common \<Rightarrow> bytes \<Rightarrow> u32 \<Rightarrow> OkPacket iresult" where
  "ok_packet W M i capabilities =
     pbind (w_le_u8 W i) (\<lambda>i header.
     pbind (read_length_encoded_number W i) (\<lambda>i affected_rows.
     pbind (read_length_encoded_number W i) (\<lambda>i last_insert_id.
     pbind (w_le_u16 W i) (\<lambda>i status_flags.
     pbind (w_le_u16 W i) (\<lambda>i warnings.
     pbind
       (if i \<noteq> [] \<and> has_cap M capabilities CLIENT_SESSION_TRACK then
          pbind (read_length_encoded_number W i) (\<lambda>i1 info_size.
          pbind (w_take W (unat info_size) i1) (\<lambda>i2 info.
          pbind
            (if has_status M status_flags SERVER_SESSION_STATE_CHANGED then
               pbind (read_length_encoded_number W i2) (\<lambda>i3 s_t_size.
               pbind (w_take W (unat s_t_size) i3) (\<lambda>_ ssi. Done i (utf8_or_empty ssi)))
             else Done i [])
            (\<lambda>_ ssi. Done i (utf8_or_empty info, ssi))))
        else Done i ([], []))
       (\<lambda>_ (info, session_state_info).
          Done i \<lparr>ok_header = header, ok_affected_rows = affected_rows,
                  ok_last_insert_id = last_insert_id, ok_status_flags = status_flags,
                  ok_warnings = warnings, ok_info = info,
                  ok_session_state_info = session_state_info\<rparr>))))))"

subsection \<open>The client's handshake response\<close>

text \<open>A zero-terminated string that must not be empty: \<open>take_until(1.., "\0")\<close> then \<open>literal("\0")\<close>.\<close>

definition cstr :: "winnow \<Rightarrow> bytes \<Rightarrow> bytes iresult" where
  "cstr W i = pbind (w_take_until1 W 0 i) (\<lambda>i v. pbind (w_literal W [0] i) (\<lambda>i _. Done i v))"

definition parse_username :: "winnow \<Rightarrow> mysql_common \<Rightarrow> u32 \<Rightarrow> bool \<Rightarrow> bytes \<Rightarrow> bytes option iresult" where
  "parse_username W M capabilities is_after_tls i =
     (if is_after_tls \<or> \<not> has_cap M capabilities CLIENT_SSL
      then pbind (cstr W i) (\<lambda>i user. Done i (Some user))
      else Done i None)"

definition parse_auth_response :: "winnow \<Rightarrow> mysql_common \<Rightarrow> u32 \<Rightarrow> bytes \<Rightarrow> bytes iresult" where
  "parse_auth_response W M capabilities i =
     (if has_cap M capabilities CLIENT_PLUGIN_AUTH_LENENC_CLIENT_DATA then
        pbind (read_length_encoded_number W i) (\<lambda>i size. w_take W (unat size) i)
      else if has_cap M capabilities CLIENT_SECURE_CONNECTION then
        pbind (w_le_u8 W i) (\<lambda>i size. w_take W (unat size) i)
      else w_take_until1 W 0 i)"

definition parse_db :: "winnow \<Rightarrow> mysql_common \<Rightarrow> u32 \<Rightarrow> bytes \<Rightarrow> bytes option iresult" where
  "parse_db W M capabilities i =
     (if has_cap M capabilities CLIENT_CONNECT_WITH_DB \<and> i \<noteq> []
      then pbind (cstr W i) (\<lambda>i db. Done i (Some db))
      else Done i None)"

definition parse_auth_plugin :: "winnow \<Rightarrow> mysql_common \<Rightarrow> u32 \<Rightarrow> bytes \<Rightarrow> bytes iresult" where
  "parse_auth_plugin W M capabilities i =
     (if has_cap M capabilities CLIENT_PLUGIN_AUTH \<and> i \<noteq> [] then cstr W i else Done i [])"

text \<open>
  The attribute loop. Every attribute takes at least two bytes, so \<open>length input\<close> iterations are
  enough (lemma \<open>attrs_loop_fuel\<close>).
\<close>

fun attrs_loop :: "winnow \<Rightarrow> nat \<Rightarrow> bytes \<Rightarrow> (rstr \<rightharpoonup> rstr) \<Rightarrow> (rstr \<rightharpoonup> rstr) iresult" where
  "attrs_loop W 0 input m = (if input = [] then Done [] m else ParsePanic)"
| "attrs_loop W (Suc n) input m =
     (if input = [] then Done [] m
      else
        pbind (read_length_encoded_string W input) (\<lambda>remaining k.
        pbind (read_length_encoded_string W remaining) (\<lambda>remaining v.
          (case (utf8_decode k, utf8_decode v) of
             (Some ks, Some vs) \<Rightarrow> attrs_loop W n remaining (m(ks \<mapsto> vs))
           | _ \<Rightarrow> ParsePanic))))"

definition parse_connect_attributes ::
  "winnow \<Rightarrow> mysql_common \<Rightarrow> u32 \<Rightarrow> bytes \<Rightarrow> (rstr \<rightharpoonup> rstr) option iresult" where
  "parse_connect_attributes W M capabilities i =
     (if has_cap M capabilities CLIENT_CONNECT_ATTRS \<and> i \<noteq> [] then
        pbind (read_length_encoded_number W i) (\<lambda>i data_len.
        pbind (w_take W (unat data_len) i) (\<lambda>i data.
        pbind (attrs_loop W (length data) data Map.empty) (\<lambda>_ attrs. Done i (Some attrs))))
      else Done i None)"

text \<open>The 4.1 response: a short one that asks for TLS, or the full one.\<close>

definition handshake_response_41 ::
  "winnow \<Rightarrow> mysql_common \<Rightarrow> u16 \<Rightarrow> bool \<Rightarrow> bytes \<Rightarrow> HandshakeResponse iresult" where
  "handshake_response_41 W M capability_flags is_after_tls i =
     pbind (w_le_u16 W i) (\<lambda>i cap2.
       let cap = push_bit 16 (ucast cap2) OR ucast capability_flags;
           capabilities = cap_from_bits_truncate M cap in
       pbind (w_le_u32 W i) (\<lambda>i max_packet_len.
       pbind (w_take W 1 i) (\<lambda>i collation.
       pbind (w_take W 23 i) (\<lambda>i _.
         if \<not> is_after_tls \<and> has_cap M capabilities CLIENT_SSL then
           Done i \<lparr>hs_client_flag = capabilities, hs_max_packet_len = max_packet_len,
                   hs_collation = ucast (collation ! 0), hs_tenant_key = None, hs_username = None,
                   hs_auth_response = [], hs_auth_plugin = [], hs_database = None,
                   hs_connect_attributes = None\<rparr>
         else
           pbind (parse_username W M capabilities is_after_tls i) (\<lambda>i username.
           pbind (parse_auth_response W M capabilities i) (\<lambda>i auth_response.
           pbind (parse_db W M capabilities i) (\<lambda>i db.
           pbind (parse_auth_plugin W M capabilities i) (\<lambda>i auth_plugin.
           pbind (parse_connect_attributes W M capabilities i) (\<lambda>i connect_attributes.
             Done i \<lparr>hs_client_flag = capabilities, hs_max_packet_len = max_packet_len,
                     hs_collation = ucast (collation ! 0), hs_tenant_key = None,
                     hs_username = username, hs_auth_response = auth_response,
                     hs_auth_plugin = auth_plugin, hs_database = db,
                     hs_connect_attributes = connect_attributes\<rparr>)))))))))"

text \<open>
  The pre-4.1 response. In the branch without a database the source binds the remaining input to the
  empty slice and the authentication data to the whole rest.
\<close>

definition handshake_response_320 ::
  "winnow \<Rightarrow> mysql_common \<Rightarrow> u32 \<Rightarrow> bytes \<Rightarrow> HandshakeResponse iresult" where
  "handshake_response_320 W M capabilities i =
     pbind (w_le_u16 W i) (\<lambda>i v1.
     pbind (w_le_u8 W i) (\<lambda>i v2.
       let max_packet_len = push_bit 16 (ucast v2) OR ucast v1 in
       pbind (cstr W i) (\<lambda>i username.
       pbind
         (if has_cap M capabilities CLIENT_CONNECT_WITH_DB then
            pbind (w_literal W [0] i) (\<lambda>i auth_response.
            pbind (w_literal W [0] i) (\<lambda>i _.
            pbind (w_literal W [0] i) (\<lambda>i db.
            pbind (w_literal W [0] i) (\<lambda>i _.
            Done i (auth_response, Some db)))))
          else Done [] (i, None))
         (\<lambda>i (auth_response, db).
            Done i \<lparr>hs_client_flag = capabilities, hs_max_packet_len = max_packet_len,
                    hs_collation = 0, hs_tenant_key = None, hs_username = Some username,
                    hs_auth_response = auth_response, hs_auth_plugin = [], hs_database = db,
                    hs_connect_attributes = None\<rparr>))))"

definition client_handshake_response ::
  "winnow \<Rightarrow> mysql_common \<Rightarrow> bytes \<Rightarrow> bool \<Rightarrow> HandshakeResponse iresult" where
  "client_handshake_response W M i is_after_tls =
     pbind (w_le_u16 W i) (\<lambda>i capability_flags.
       let capabilities = cap_from_bits_truncate M (ucast capability_flags) in
       if has_cap M capabilities CLIENT_PROTOCOL_41
       then handshake_response_41 W M capability_flags is_after_tls i
       else handshake_response_320 W M capabilities i)"

subsection \<open>Methods of the handshake response\<close>

text \<open>\<open>from_utf8(..).unwrap()\<close> panics on bytes that are not UTF-8.\<close>

definition full_tenant_name :: "HandshakeResponse \<Rightarrow> rstr result" where
  "full_tenant_name h =
     rbind (case hs_tenant_key h of Some k \<Rightarrow> unwrap_opt (utf8_decode k) | None \<Rightarrow> Ok (lit ''NONE''))
       (\<lambda>tenant.
     rbind (case hs_username h of Some u \<Rightarrow> unwrap_opt (utf8_decode u) | None \<Rightarrow> Ok (lit ''NONE''))
       (\<lambda>user. Ok (tenant @ lit ''.'' @ user)))"

definition db_user_string :: "HandshakeResponse \<Rightarrow> rstr" where
  "db_user_string h =
     (case hs_username h of Some username \<Rightarrow> utf8_lossy username | None \<Rightarrow> lit ''_NONE'')"

text \<open>
  \<open>PROXY_SYNC_ROUTER=true\<close> makes the part of the user name before its last dot the tenant key;
  \<open>sync_router\<close> is that environment variable's test.
\<close>

definition change_tenant_if_need :: "bool \<Rightarrow> HandshakeResponse \<Rightarrow> HandshakeResponse" where
  "change_tenant_if_need sync_router h =
     (if sync_router then
        (case hs_username h of
           Some conn_user \<Rightarrow>
             (case rposition 0x2e conn_user of
                Some pos \<Rightarrow>
                  h\<lparr>hs_tenant_key := Some (take pos conn_user),
                    hs_username := Some (drop (pos + 1) conn_user)\<rparr>
              | None \<Rightarrow> h)
         | None \<Rightarrow> h)
      else h)"

subsection \<open>Command packets\<close>

definition send_long_data :: "Command winnow_partial \<Rightarrow> bytes \<Rightarrow> Command iresult" where
  "send_long_data P i =
     pbind (p_le_u32 P i) (\<lambda>remaining stmt.
     pbind (p_le_u16 P remaining) (\<lambda>remaining param.
     Done remaining (SendLongData stmt param remaining)))"

definition execute :: "Command winnow_partial \<Rightarrow> bytes \<Rightarrow> Command iresult" where
  "execute P i =
     pbind (p_le_u32 P i) (\<lambda>remaining stmt.
     pbind (p_take P 1 remaining) (\<lambda>remaining _.
     pbind (p_le_u32 P remaining) (\<lambda>remaining _.
     Done remaining (Execute stmt remaining))))"

definition from_packet :: "Command winnow_partial \<Rightarrow> bytes \<Rightarrow> Command iresult" where
  "from_packet P pkt =
     p_alt P
       [p_map Query (p_preceded_bytes P (p_literal P [command_code ComQuery]) (p_rest P)),
        p_map ListFields (p_preceded_bytes P (p_literal P [command_code ComFieldList]) (p_rest P)),
        p_map Init (p_preceded_bytes P (p_literal P [command_code ComInitDB]) (p_rest P)),
        p_map Prepare (p_preceded_bytes P (p_literal P [command_code ComStmtPrepare]) (p_rest P)),
        p_preceded P (p_literal P [command_code ComStmtExecute]) (execute P),
        p_preceded P (p_literal P [command_code ComStmtSendLongData]) (send_long_data P),
        p_map Close (p_preceded_u32 P (p_literal P [command_code ComStmtClose]) (p_le_u32 P)),
        p_map (\<lambda>_. Quit) (p_literal P [command_code ComQuit]),
        p_map (\<lambda>_. Ping) (p_literal P [command_code ComPing])]
       pkt"

subsection \<open>The encodings the MySQL protocol documents\<close>

text \<open>A connection attribute: key and value are length-encoded strings.\<close>

definition attr_ok :: "rstr \<Rightarrow> bool" where
  "attr_ok s \<longleftrightarrow> list_all is_scalar s \<and> length (utf8_encode s) < 2 ^ 64"

definition lenenc_bytes :: "bytes \<Rightarrow> bytes" where
  "lenenc_bytes v = lenenc_doc (length v) @ v"

definition attrs_doc :: "(rstr \<times> rstr) list \<Rightarrow> bytes" where
  "attrs_doc attrs = concat (map (\<lambda>(k, v). lenenc_bytes (utf8_encode k) @ lenenc_bytes (utf8_encode v)) attrs)"

text \<open>
  \<open>HandshakeResponse41\<close> as a client sends it, for a client that sends its authentication data with
  a length (\<open>CLIENT_PLUGIN_AUTH_LENENC_CLIENT_DATA\<close> or \<open>CLIENT_SECURE_CONNECTION\<close>). Each optional
  field is present exactly when its capability is set.
\<close>

record client_hello =
  ch_caps :: u32
  ch_max_packet_len :: u32
  ch_collation :: u8
  ch_username :: bytes
  ch_auth :: bytes
  ch_db :: bytes
  ch_plugin :: bytes
  ch_attrs :: "(rstr \<times> rstr) list"

definition cap_set :: "u32 \<Rightarrow> capability \<Rightarrow> bool" where
  "cap_set caps c \<longleftrightarrow> caps AND cap_value c = cap_value c"

definition hello_head :: "client_hello \<Rightarrow> bytes" where
  "hello_head h =
     le_bytes 2 (unat (ucast (ch_caps h) :: u16)) @
     le_bytes 2 (unat (ucast (drop_bit 16 (ch_caps h)) :: u16)) @
     le_bytes 4 (unat (ch_max_packet_len h)) @ [ch_collation h] @ replicate 23 0"

definition hello_body :: "client_hello \<Rightarrow> bytes" where
  "hello_body h =
     ch_username h @ [0] @
     (if cap_set (ch_caps h) CLIENT_PLUGIN_AUTH_LENENC_CLIENT_DATA then lenenc_bytes (ch_auth h)
      else word_of_nat (length (ch_auth h)) # ch_auth h) @
     (if cap_set (ch_caps h) CLIENT_CONNECT_WITH_DB then ch_db h @ [0] else []) @
     (if cap_set (ch_caps h) CLIENT_PLUGIN_AUTH then ch_plugin h @ [0] else []) @
     (if cap_set (ch_caps h) CLIENT_CONNECT_ATTRS then lenenc_bytes (attrs_doc (ch_attrs h)) else [])"

definition cstr_ok :: "bytes \<Rightarrow> bool" where
  "cstr_ok v \<longleftrightarrow> v \<noteq> [] \<and> 0 \<notin> set v"

definition hello_ok :: "client_hello \<Rightarrow> bool" where
  "hello_ok h \<longleftrightarrow>
     cap_set (ch_caps h) CLIENT_PROTOCOL_41 \<and>
     cstr_ok (ch_username h) \<and>
     (cap_set (ch_caps h) CLIENT_PLUGIN_AUTH_LENENC_CLIENT_DATA \<and> length (ch_auth h) < 2 ^ 64 \<or>
      cap_set (ch_caps h) CLIENT_SECURE_CONNECTION \<and> length (ch_auth h) < 256) \<and>
     (cap_set (ch_caps h) CLIENT_CONNECT_WITH_DB \<longrightarrow> cstr_ok (ch_db h)) \<and>
     (cap_set (ch_caps h) CLIENT_PLUGIN_AUTH \<longrightarrow> cstr_ok (ch_plugin h)) \<and>
     (cap_set (ch_caps h) CLIENT_CONNECT_ATTRS \<longrightarrow>
        list_all (\<lambda>(k, v). attr_ok k \<and> attr_ok v) (ch_attrs h) \<and>
        length (attrs_doc (ch_attrs h)) < 2 ^ 64)"

text \<open>The response the server should see.\<close>

definition hello_response :: "mysql_common \<Rightarrow> client_hello \<Rightarrow> HandshakeResponse" where
  "hello_response M h =
     \<lparr>hs_client_flag = cap_from_bits_truncate M (ch_caps h),
      hs_max_packet_len = ch_max_packet_len h, hs_collation = ucast (ch_collation h),
      hs_tenant_key = None, hs_username = Some (ch_username h), hs_auth_response = ch_auth h,
      hs_auth_plugin = (if cap_set (ch_caps h) CLIENT_PLUGIN_AUTH then ch_plugin h else []),
      hs_database = (if cap_set (ch_caps h) CLIENT_CONNECT_WITH_DB then Some (ch_db h) else None),
      hs_connect_attributes =
        (if cap_set (ch_caps h) CLIENT_CONNECT_ATTRS then Some (map_of (rev (ch_attrs h))) else None)\<rparr>"

definition tls_request :: "mysql_common \<Rightarrow> client_hello \<Rightarrow> HandshakeResponse" where
  "tls_request M h =
     \<lparr>hs_client_flag = cap_from_bits_truncate M (ch_caps h),
      hs_max_packet_len = ch_max_packet_len h, hs_collation = ucast (ch_collation h),
      hs_tenant_key = None, hs_username = None, hs_auth_response = [], hs_auth_plugin = [],
      hs_database = None, hs_connect_attributes = None\<rparr>"

subsection \<open>The parsers invert the documented encodings\<close>

context winnow_spec
begin

lemma read_length_encoded_number_doc:
  assumes "n < 2 ^ 64"
  shows "read_length_encoded_number W (lenenc_doc n @ i) = Done i (word_of_nat n)"
proof -
  have t: "w_take W k (le_bytes k n @ i) = Done i (le_bytes k n)" for k
    by (rule take_append) simp
  have v: "le_val (le_bytes k n) = n" if "n < 256 ^ k" for k
    using that by (rule le_val_le_bytes_small)
  consider "n < 251" | "251 \<le> n" "n < 2 ^ 16" | "2 ^ 16 \<le> n" "n < 2 ^ 24" | "2 ^ 24 \<le> n"
    by linarith
  then show ?thesis
  proof cases
    case 1
    have ne: "word_of_nat n \<noteq> (c :: u8)" if "251 \<le> unat c" for c
    proof
      assume "word_of_nat n = c"
      then have "unat c = n" using 1 unat_word_of_nat_u8 [of n] by simp
      with 1 that show False by simp
    qed
    have "(ucast (word_of_nat n :: u8) :: u64) = word_of_nat n"
      using 1 by (simp add: unsigned_of_nat take_bit_nat_eq_self)
    with 1 ne show ?thesis
      by (simp add: read_length_encoded_number_def lenenc_doc_def le_u8)
  next
    case 2
    then show ?thesis
      using t [of 2] v [of 2] by (simp add: read_length_encoded_number_def lenenc_doc_def le_u8)
  next
    case 3
    then show ?thesis
      using t [of 3] v [of 3] by (simp add: read_length_encoded_number_def lenenc_doc_def le_u8)
  next
    case 4
    then show ?thesis
      using t [of 8] v [of 8] assms
      by (simp add: read_length_encoded_number_def lenenc_doc_def le_u8)
  qed
qed

lemma read_length_encoded_number_null: "read_length_encoded_number W (0xfb # i) = Done i 0"
  by (simp add: read_length_encoded_number_def le_u8)

lemma read_length_encoded_string_doc:
  assumes "length v < 2 ^ 64"
  shows "read_length_encoded_string W (lenenc_doc (length v) @ v @ i) = Done i v"
  using assms
  by (simp add: read_length_encoded_string_def read_length_encoded_number_doc take_append
      unat_of_nat)

lemma cstr_doc: "u \<noteq> [] \<Longrightarrow> 0 \<notin> set u \<Longrightarrow> cstr W (u @ 0 # i) = Done i u"
  using literal [of "[0]" i] by (simp add: cstr_def take_until1)

lemma cstr_empty: "backtracks (cstr W (0 # i))"
  by (simp add: cstr_def take_until1_empty)

lemma cstr_unterminated: "0 \<notin> set i \<Longrightarrow> backtracks (cstr W i)"
  by (simp add: cstr_def take_until1_missing)

text \<open>What a successful primitive tells about its input.\<close>

lemma le_u8_Done: "w_le_u8 W i = Done r b \<longleftrightarrow> i = b # r"
proof (cases i)
  case Nil
  then show ?thesis using le_u8_short by (auto elim!: backtracksE)
qed (auto simp: le_u8)

lemma take_Done: "w_take W n i = Done r v \<longleftrightarrow> n \<le> length i \<and> r = drop n i \<and> v = List.take n i"
proof (cases "n \<le> length i")
  case False
  then show ?thesis using take_short [of i n] by (auto elim!: backtracksE)
qed (auto simp: take)

lemma pbind_Done: "pbind p f = Done r v \<longleftrightarrow> (\<exists>i a. p = Done i a \<and> f i a = Done r v)"
  by (cases p) auto

lemma read_length_encoded_number_shorter:
  "read_length_encoded_number W i = Done r x \<Longrightarrow> length r < length i"
  by (auto simp: read_length_encoded_number_def pbind_Done le_u8_Done take_Done split: if_splits)

lemma read_length_encoded_string_shorter:
  "read_length_encoded_string W i = Done r v \<Longrightarrow> length r < length i"
  by (auto simp: read_length_encoded_string_def pbind_Done take_Done
      dest!: read_length_encoded_number_shorter)

lemma attrs_loop_Nil [simp]: "attrs_loop W n [] m = Done [] m"
  by (cases n) simp_all

lemma attrs_loop_fuel:
  assumes "length input \<le> n" "length input \<le> n'"
  shows "attrs_loop W n input m = attrs_loop W n' input m"
  using assms
proof (induction n arbitrary: n' input m)
  case (Suc n)
  show ?case
  proof (cases "input = []")
    case False
    then obtain k where n': "n' = Suc k" using Suc.prems by (cases n') auto
    have "attrs_loop W n v m' = attrs_loop W k v m'"
      if "read_length_encoded_string W input = Done u a" "read_length_encoded_string W u = Done v b"
      for u a v b m'
      using that [THEN read_length_encoded_string_shorter] Suc.prems n' by (intro Suc.IH) auto
    with False n' show ?thesis
      by (cases "read_length_encoded_string W input";
          cases "read_length_encoded_string W (case read_length_encoded_string W input of Done u a \<Rightarrow> u)")
        (auto split: option.splits)
  qed simp
qed simp

lemma attrs_loop_doc:
  assumes "list_all (\<lambda>(k, v). attr_ok k \<and> attr_ok v) attrs" "length (attrs_doc attrs) \<le> n"
  shows "attrs_loop W n (attrs_doc attrs) m = Done [] (m ++ map_of (rev attrs))"
  using assms
proof (induction attrs arbitrary: n m)
  case Nil
  then show ?case by (simp add: attrs_doc_def)
next
  case (Cons a attrs)
  obtain k v where a: "a = (k, v)" by (cases a)
  let ?k = "utf8_encode k" and ?v = "utf8_encode v"
  have doc: "attrs_doc (a # attrs) =
      lenenc_doc (length ?k) @ ?k @ lenenc_doc (length ?v) @ ?v @ attrs_doc attrs"
    by (simp add: attrs_doc_def lenenc_bytes_def a)
  have len: "0 < length (lenenc_doc j)" for j by (simp add: lenenc_doc_def)
  then obtain n' where n: "n = Suc n'" using Cons.prems(2) unfolding doc by (cases n) auto
  have rest: "length (attrs_doc attrs) \<le> n'"
    using Cons.prems(2) len [of "length ?k"] unfolding doc n length_append by linarith
  have ok: "length ?k < 2 ^ 64" "length ?v < 2 ^ 64" "utf8_decode ?k = Some k" "utf8_decode ?v = Some v"
    using Cons.prems(1) by (simp_all add: a attr_ok_def utf8_decode_encode)
  have "attrs_loop W n (attrs_doc (a # attrs)) m = attrs_loop W n' (attrs_doc attrs) (m(k \<mapsto> v))"
    unfolding n doc using ok len [of "length ?k"] by (simp add: read_length_encoded_string_doc)
  then show ?case
    using Cons.IH [OF _ rest] Cons.prems(1) by (simp add: a map_add_def fun_eq_iff split: option.splits)
qed

end

subsection \<open>Capability words\<close>

lemma caps_recombine:
  "push_bit 16 (ucast (ucast (drop_bit 16 caps) :: u16)) OR ucast (ucast caps :: u16) = (caps :: u32)"
  by (rule bit_word_eqI)
    (auto simp: bit_simps bit_or_iff bit_push_bit_iff bit_ucast_iff bit_drop_bit_eq)

lemma caps_low_half:
  assumes "take_bit 16 v = (v :: u32)"
  shows "ucast (ucast caps :: u16) AND v = caps AND v"
proof -
  have "ucast (ucast caps :: u16) = take_bit 16 caps"
    by (rule bit_word_eqI) (auto simp: bit_simps)
  then show ?thesis using assms by (metis take_bit_and and.assoc and.commute take_bit_eq_mask)
qed

locale codec_spec = winnow_spec W + mysql_common_spec M for W M
begin

lemma has_cap_set: "has_cap M (cap_from_bits_truncate M caps) c \<longleftrightarrow> cap_set caps c"
  by (simp add: has_cap_iff cap_truncate cap_set_def)

lemma protocol_41_low:
  "has_cap M (cap_from_bits_truncate M (ucast (ucast caps :: u16))) CLIENT_PROTOCOL_41 \<longleftrightarrow>
     cap_set caps CLIENT_PROTOCOL_41"
  unfolding has_cap_set cap_set_def using caps_low_half [of "cap_value CLIENT_PROTOCOL_41" caps] by simp

text \<open>The fixed part: capabilities, packet size, collation and the reserved bytes.\<close>

lemma handshake_head:
  assumes "cap_set (ch_caps h) CLIENT_PROTOCOL_41"
  shows "client_handshake_response W M (hello_head h @ i) after_tls =
    (if \<not> after_tls \<and> cap_set (ch_caps h) CLIENT_SSL then Done i (tls_request M h)
     else
       pbind (parse_username W M (cap_from_bits_truncate M (ch_caps h)) after_tls i) (\<lambda>i username.
       pbind (parse_auth_response W M (cap_from_bits_truncate M (ch_caps h)) i) (\<lambda>i auth_response.
       pbind (parse_db W M (cap_from_bits_truncate M (ch_caps h)) i) (\<lambda>i db.
       pbind (parse_auth_plugin W M (cap_from_bits_truncate M (ch_caps h)) i) (\<lambda>i auth_plugin.
       pbind (parse_connect_attributes W M (cap_from_bits_truncate M (ch_caps h)) i)
         (\<lambda>i connect_attributes.
         Done i \<lparr>hs_client_flag = cap_from_bits_truncate M (ch_caps h),
                 hs_max_packet_len = ch_max_packet_len h, hs_collation = ucast (ch_collation h),
                 hs_tenant_key = None, hs_username = username, hs_auth_response = auth_response,
                 hs_auth_plugin = auth_plugin, hs_database = db,
                 hs_connect_attributes = connect_attributes\<rparr>))))))"
proof -
  have t1: "w_take W 1 (ch_collation h # r) = Done r [ch_collation h]" for r
    using take_append [of "[ch_collation h]" 1 r] by simp
  have t23: "w_take W 23 (replicate 23 0 @ i) = Done i (replicate 23 0)"
    by (rule take_append) simp
  have p41: "cap_set (ucast (ucast (ch_caps h) :: u16)) CLIENT_PROTOCOL_41"
    using assms protocol_41_low [of "ch_caps h"] by (simp only: has_cap_set)
  show ?thesis
    by (simp only: client_handshake_response_def hello_head_def append_assoc append_Cons append_Nil
        le_u16_bytes pbind.simps Let_def p41 if_True handshake_response_41_def le_u32_bytes t1 t23
        caps_recombine has_cap_set nth_Cons_0 tls_request_def)
qed

lemma parse_username_hello:
  assumes "cstr_ok u" "after_tls \<or> \<not> cap_set caps CLIENT_SSL"
  shows "parse_username W M (cap_from_bits_truncate M caps) after_tls (u @ 0 # i) = Done i (Some u)"
  using assms by (simp add: parse_username_def has_cap_set cstr_doc cstr_ok_def del: not_imp)

lemma parse_auth_response_hello:
  assumes "cap_set caps CLIENT_PLUGIN_AUTH_LENENC_CLIENT_DATA \<and> length a < 2 ^ 64 \<or>
      cap_set caps CLIENT_SECURE_CONNECTION \<and> length a < 256"
  shows "parse_auth_response W M (cap_from_bits_truncate M caps)
    ((if cap_set caps CLIENT_PLUGIN_AUTH_LENENC_CLIENT_DATA then lenenc_bytes a
      else word_of_nat (length a) # a) @ i) = Done i a"
proof (cases "cap_set caps CLIENT_PLUGIN_AUTH_LENENC_CLIENT_DATA")
  case True
  moreover from this assms have "length a < 2 ^ 64" by auto
  moreover from this have "unat (word_of_nat (length a) :: u64) = length a" by (simp add: unat_of_nat)
  ultimately show ?thesis
    by (simp add: parse_auth_response_def has_cap_set lenenc_bytes_def read_length_encoded_number_doc
        take_append)
next
  case False
  with assms show ?thesis
    by (simp add: parse_auth_response_def has_cap_set le_u8 take_append)
qed

lemma parse_db_hello:
  assumes "cap_set caps CLIENT_CONNECT_WITH_DB \<longrightarrow> cstr_ok d"
  shows "parse_db W M (cap_from_bits_truncate M caps)
    ((if cap_set caps CLIENT_CONNECT_WITH_DB then d @ [0] else []) @ i) =
    Done i (if cap_set caps CLIENT_CONNECT_WITH_DB then Some d else None)"
  using assms by (simp add: parse_db_def has_cap_set cstr_doc cstr_ok_def)

lemma parse_auth_plugin_hello:
  assumes "cap_set caps CLIENT_PLUGIN_AUTH \<longrightarrow> cstr_ok p"
  shows "parse_auth_plugin W M (cap_from_bits_truncate M caps)
    ((if cap_set caps CLIENT_PLUGIN_AUTH then p @ [0] else []) @ i) =
    Done i (if cap_set caps CLIENT_PLUGIN_AUTH then p else [])"
  using assms by (simp add: parse_auth_plugin_def has_cap_set cstr_doc cstr_ok_def)

lemma parse_connect_attributes_hello:
  assumes "cap_set caps CLIENT_CONNECT_ATTRS \<longrightarrow>
      list_all (\<lambda>(k, v). attr_ok k \<and> attr_ok v) attrs \<and> length (attrs_doc attrs) < 2 ^ 64"
  shows "parse_connect_attributes W M (cap_from_bits_truncate M caps)
    ((if cap_set caps CLIENT_CONNECT_ATTRS then lenenc_bytes (attrs_doc attrs) else []) @ i) =
    Done i (if cap_set caps CLIENT_CONNECT_ATTRS then Some (map_of (rev attrs)) else None)"
proof (cases "cap_set caps CLIENT_CONNECT_ATTRS")
  case True
  let ?d = "attrs_doc attrs"
  have ok: "list_all (\<lambda>(k, v). attr_ok k \<and> attr_ok v) attrs" "length ?d < 2 ^ 64"
    using assms True by auto
  then have "unat (word_of_nat (length ?d) :: u64) = length ?d" by (simp add: unat_of_nat)
  moreover have "lenenc_doc (length ?d) \<noteq> []" by (simp add: lenenc_doc_def)
  ultimately show ?thesis
    using True ok attrs_loop_doc [of attrs "length ?d" Map.empty]
    by (simp add: parse_connect_attributes_def has_cap_set lenenc_bytes_def
        read_length_encoded_number_doc take_append)
qed (simp add: parse_connect_attributes_def has_cap_set)

lemma handshake_round_trip:
  assumes "hello_ok h" "after_tls \<or> \<not> cap_set (ch_caps h) CLIENT_SSL"
  shows "client_handshake_response W M (hello_head h @ hello_body h @ r) after_tls =
    Done r (hello_response M h)"
proof -
  have p41: "cap_set (ch_caps h) CLIENT_PROTOCOL_41" using assms(1) by (simp add: hello_ok_def)
  have ssl: "(\<not> after_tls \<and> cap_set (ch_caps h) CLIENT_SSL) = False" using assms(2) by auto
  note ok = assms(1) [unfolded hello_ok_def]
  note parts = ok [THEN conjunct2, THEN conjunct1] ok [THEN conjunct2, THEN conjunct2, THEN conjunct1]
    ok [THEN conjunct2, THEN conjunct2, THEN conjunct2, THEN conjunct1]
    ok [THEN conjunct2, THEN conjunct2, THEN conjunct2, THEN conjunct2, THEN conjunct1]
    ok [THEN conjunct2, THEN conjunct2, THEN conjunct2, THEN conjunct2, THEN conjunct2]
  show ?thesis
    unfolding handshake_head [OF p41] ssl if_False hello_body_def append_assoc append_Cons append_Nil
    by (simp only: parse_username_hello [OF parts(1) assms(2)] parse_auth_response_hello [OF parts(2)]
        parse_db_hello [OF parts(3)] parse_auth_plugin_hello [OF parts(4)]
        parse_connect_attributes_hello [OF parts(5)] pbind.simps hello_response_def)
qed

lemma handshake_tls_request:
  assumes "cap_set (ch_caps h) CLIENT_PROTOCOL_41" "cap_set (ch_caps h) CLIENT_SSL"
  shows "client_handshake_response W M (hello_head h @ r) False = Done r (tls_request M h)"
  using assms by (simp add: handshake_head)

text \<open>A client without a user name is refused: the source needs at least one byte before the zero.\<close>

lemma handshake_empty_username:
  assumes "cap_set (ch_caps h) CLIENT_PROTOCOL_41" "after_tls \<or> \<not> cap_set (ch_caps h) CLIENT_SSL"
  shows "backtracks (client_handshake_response W M (hello_head h @ 0 # i) after_tls)"
proof -
  have ssl: "(\<not> after_tls \<and> cap_set (ch_caps h) CLIENT_SSL) = False" using assms(2) by auto
  have "backtracks (parse_username W M (cap_from_bits_truncate M (ch_caps h)) after_tls (0 # i))"
    using assms(2) cstr_empty [of i]
    by (simp add: parse_username_def has_cap_set del: not_imp)
  then show ?thesis unfolding handshake_head [OF assms(1)] ssl if_False by simp
qed

text \<open>
  Without a length the source leaves the terminator of the authentication data in the input, so a
  database name behind it cannot be read.
\<close>

lemma handshake_terminated_auth:
  assumes "cap_set (ch_caps h) CLIENT_PROTOCOL_41" "after_tls \<or> \<not> cap_set (ch_caps h) CLIENT_SSL"
    "\<not> cap_set (ch_caps h) CLIENT_PLUGIN_AUTH_LENENC_CLIENT_DATA"
    "\<not> cap_set (ch_caps h) CLIENT_SECURE_CONNECTION" "cap_set (ch_caps h) CLIENT_CONNECT_WITH_DB"
    "cstr_ok u" "cstr_ok a"
  shows "backtracks (client_handshake_response W M (hello_head h @ u @ 0 # a @ 0 # i) after_tls)"
proof -
  have ssl: "(\<not> after_tls \<and> cap_set (ch_caps h) CLIENT_SSL) = False" using assms(2) by auto
  have "parse_auth_response W M (cap_from_bits_truncate M (ch_caps h)) (a @ 0 # i) = Done (0 # i) a"
    using assms(3,4,7) by (simp add: parse_auth_response_def has_cap_set take_until1 cstr_ok_def)
  moreover have "backtracks (parse_db W M (cap_from_bits_truncate M (ch_caps h)) (0 # i))"
    using assms(5) cstr_empty [of i] by (simp add: parse_db_def has_cap_set)
  ultimately show ?thesis
    unfolding handshake_head [OF assms(1)] ssl if_False
    by (simp add: parse_username_hello [OF assms(6,2)])
qed

end

interpretation codec_ref: codec_spec winnow_ref mysql_common_ref
  by unfold_locales

subsection \<open>Tenant and user name\<close>

lemma change_tenant_split:
  assumes "hs_username h = Some (t @ 0x2e # u)" "0x2e \<notin> set u"
  shows "change_tenant_if_need True h = h\<lparr>hs_tenant_key := Some t, hs_username := Some u\<rparr>"
proof -
  have "rposition 0x2e (t @ 0x2e # u) = Some (length t)"
    using assms(2) by (simp add: rposition_Some)
  with assms(1) show ?thesis by (simp add: change_tenant_if_need_def)
qed

lemma change_tenant_no_dot:
  "hs_username h = Some n \<Longrightarrow> 0x2e \<notin> set n \<Longrightarrow> change_tenant_if_need b h = h"
  using rposition_None [of "0x2e" n] by (simp add: change_tenant_if_need_def)

lemma change_tenant_static: "change_tenant_if_need False h = h"
  by (simp add: change_tenant_if_need_def)

text \<open>The user name split back together is the name the client sent.\<close>

lemma change_tenant_full_name:
  assumes "hs_tenant_key h = None" "hs_username h = Some (utf8_encode n)" "list_all is_scalar n"
    "n = t @ 0x2e # u" "0x2e \<notin> set u"
  shows "full_tenant_name (change_tenant_if_need True h) = Ok n"
proof -
  have sc: "list_all is_scalar t" "list_all is_scalar u" using assms(3,4) by auto
  have enc: "utf8_encode n = utf8_encode t @ 0x2e # utf8_encode u"
    using assms(4) by (simp add: utf8_encode_def utf8_char_def)
  have "0x2e \<notin> set (utf8_encode u)" using sc(2) assms(5) by (rule utf8_no_ascii [of _ "0x2e", simplified])
  then have "change_tenant_if_need True h =
      h\<lparr>hs_tenant_key := Some (utf8_encode t), hs_username := Some (utf8_encode u)\<rparr>"
    using change_tenant_split [of h "utf8_encode t" "utf8_encode u"] assms(2) enc by simp
  then show ?thesis
    using sc assms(4) by (simp add: full_tenant_name_def utf8_decode_encode lit_def)
qed

subsection \<open>Commands\<close>

text \<open>What a client sends for a command; \<open>flags\<close> and \<open>iters\<close> of an execute are not kept.\<close>

fun command_doc :: "u8 \<Rightarrow> u32 \<Rightarrow> Command \<Rightarrow> bytes" where
  "command_doc flags iters (Query q) = 0x03 # q"
| "command_doc flags iters (ListFields q) = 0x04 # q"
| "command_doc flags iters (Init q) = 0x02 # q"
| "command_doc flags iters (Prepare q) = 0x16 # q"
| "command_doc flags iters (Execute stmt params) =
     0x17 # le_bytes 4 (unat stmt) @ [flags] @ le_bytes 4 (unat iters) @ params"
| "command_doc flags iters (SendLongData stmt param d) =
     0x18 # le_bytes 4 (unat stmt) @ le_bytes 2 (unat param) @ d"
| "command_doc flags iters (Close stmt) = 0x19 # le_bytes 4 (unat stmt)"
| "command_doc flags iters Quit = [0x01]"
| "command_doc flags iters Ping = [0x0e]"

definition known_commands :: "u8 list" where
  "known_commands = [0x03, 0x04, 0x02, 0x16, 0x17, 0x18, 0x19, 0x01, 0x0e]"

context winnow_partial_spec
begin

lemma p_le_u32_bytes: "p_le_u32 P (le_bytes 4 (unat x) @ i) = Done i x"
  by (subst p_le_u32) simp_all

lemma p_le_u16_bytes: "p_le_u16 P (le_bytes 2 (unat x) @ i) = Done i x"
  by (subst p_le_u16) simp_all

lemma p_map_mismatch: "backtracks (q i) \<Longrightarrow> backtracks (p_map f q i)"
  by (simp add: p_map_def)

lemma alternative_mismatch:
  assumes "c \<noteq> b"
  shows "backtracks (p_map f (p_preceded_bytes P (p_literal P [b]) q1) (c # i))"
    "backtracks (p_map g (p_preceded_u32 P (p_literal P [b]) q2) (c # i))"
    "backtracks (p_preceded P (p_literal P [b]) q3 (c # i))"
    "backtracks (p_map h (p_literal P [b]) (c # i))"
  using p_literal_mismatch [OF assms, of i]
  by (simp_all add: p_map_mismatch p_preceded_bytes p_preceded_u32 p_preceded)

lemma alternative_match:
  "p_map f (p_preceded_bytes P (p_literal P [b]) (p_rest P)) (b # i) = Done [] (f i)"
  "p_map g (p_preceded_u32 P (p_literal P [b]) q2) (b # i) = p_map g q2 i"
  "p_preceded P (p_literal P [b]) q3 (b # i) = q3 i"
  "p_map h (p_literal P [b]) (b # i) = Done i (h [b])"
  by (simp_all add: p_map_def p_preceded_bytes p_preceded_u32 p_preceded p_literal p_rest)

end

locale command_spec = winnow_partial_spec P for P :: "Command winnow_partial"
begin

lemma from_packet_round_trip: "\<exists>r. from_packet P (command_doc flags iters c) = Done r c"
proof -
  have close: "p_map Close (p_le_u32 P) (le_bytes 4 (unat n)) = Done [] (Close n)" for n
    using p_le_u32_bytes [of n "[]"] by (simp add: p_map_def)
  have byte: "p_take P (Suc 0) (b # i) = Done i [b]" for b i using p_take [of 1 "b # i"] by simp
  note alternatives = p_alt_first p_alt_next alternative_match alternative_mismatch
  show ?thesis
    by (cases c) (simp_all add: from_packet_def alternatives close byte execute_def send_long_data_def
        p_le_u32_bytes p_le_u16_bytes)
qed

lemma from_packet_unknown:
  assumes "c \<notin> set known_commands"
  shows "backtracks (from_packet P (c # i))"
proof -
  have "c \<noteq> b" if "b \<in> set known_commands" for b using assms that by auto
  then show ?thesis
    unfolding from_packet_def
    by (intro p_alt_none) (auto simp: known_commands_def intro: alternative_mismatch)
qed

lemma from_packet_empty: "from_packet P [] = ParseErr Incomplete"
proof -
  have "p_map Query (p_preceded_bytes P (p_literal P [command_code ComQuery]) (p_rest P)) [] =
      ParseErr Incomplete"
    by (simp add: p_map_def p_preceded_bytes p_literal_short)
  then show ?thesis unfolding from_packet_def by (subst p_alt_first) simp_all
qed

end

interpretation command_ref: command_spec winnow_partial_ref
  by unfold_locales

end
