(* ===== verification/BackendMgr.thy ===== *)
theory BackendMgr
  imports Router Pool Basic
begin

text \<open>
  \<open>backend/backend_mgr.rs\<close>: the connection pools, one per backend instance, and the pool a client is
  connected to. A pool (\<open>deadpool::Pool\<close>) is a type parameter; \<open>build\<close> makes one for an instance and a
  maximal size, or fails. Closed pools are logged, since their clones may still be in use.
\<close>

subsection \<open>State\<close>

record BackendManagerOptions =
  opt_tls :: bool
  opt_pool_size :: u16
  opt_static_router :: bool
  opt_balance_type :: BackendLoadBalancerType
  opt_pool_config :: BackendPoolConfig

definition manager_options_default :: BackendManagerOptions where
  "manager_options_default =
     \<lparr>opt_tls = False, opt_pool_size = 100, opt_static_router = True, opt_balance_type = Random,
      opt_pool_config = pool_config_default\<rparr>"

record 'p BackendMgr =
  bm_options :: BackendManagerOptions
  bm_router :: BackendRouterTrait
  bm_pools :: "(BackendInstance, 'p) dashmap"
  bm_closed :: "'p list"

definition backend_mgr_new :: "BackendRouterTrait \<Rightarrow> BackendManagerOptions \<Rightarrow> 'p BackendMgr" where
  "backend_mgr_new router options = \<lparr>bm_options = options, bm_router = router, bm_pools = [], bm_closed = []\<rparr>"

text \<open>The process-wide manager: made by the first call, shared by the later ones.\<close>

definition get_or_init_backend_mgr ::
  "'p BackendMgr option \<Rightarrow> BackendRouterTrait \<Rightarrow> BackendManagerOptions \<Rightarrow> 'p BackendMgr" where
  "get_or_init_backend_mgr once router mgr_options =
     (case once of Some m \<Rightarrow> m | None \<Rightarrow> backend_mgr_new router mgr_options)"

subsection \<open>Operations\<close>

definition max_size :: "'p BackendMgr \<Rightarrow> nat" where
  "max_size m = unat (cfg_max_size (opt_pool_config (bm_options m)))"

definition init_backend_pool ::
  "(BackendInstance \<Rightarrow> nat \<Rightarrow> 'p option) \<Rightarrow> BackendInstance \<Rightarrow> ('p BackendMgr, unit) io" where
  "init_backend_pool build inst m =
     (case bi_status inst of
        Ready \<Rightarrow>
          (case build inst (max_size m) of
             Some inner_pool \<Rightarrow> (Ok (), m\<lparr>bm_pools := dm_insert inst inner_pool (bm_pools m)\<rparr>)
           | None \<Rightarrow> (Err (IoError ConnectionRefused ''build''), m))
      | Offline \<Rightarrow>
          (Ok (), m\<lparr>bm_closed :=
                      (case dm_get (bm_pools m) inst of Some p \<Rightarrow> p # bm_closed m | None \<Rightarrow> bm_closed m),
                    bm_pools := dm_remove inst (bm_pools m)\<rparr>)
      | _ \<Rightarrow> (Ok (), m))"

definition prepare_backend_conn_pool ::
  "(BackendInstance \<Rightarrow> nat \<Rightarrow> 'p option) \<Rightarrow> BackendInstance list list \<Rightarrow> ('p BackendMgr, unit) io" where
  "prepare_backend_conn_pool build bursts m =
     status_change_notify (init_backend_pool build) bursts (bm_router m) m"

definition tenant_of :: "hex \<Rightarrow> bool \<Rightarrow> HandshakeResponse \<Rightarrow> TenantKey result" where
  "tenant_of H chk h =
     (case hs_tenant_key h of
        Some tenant_encode_key \<Rightarrow>
          rbind (unwrap_opt (utf8_decode tenant_encode_key)) (decode_tenant_key H chk)
      | None \<Rightarrow> Ok test_tenant_key)"

definition connect_to_backend ::
  "hex \<Rightarrow> (nat \<Rightarrow> nat) \<Rightarrow> bool \<Rightarrow> HandshakeResponse \<Rightarrow> 'p BackendMgr \<Rightarrow> 'p result" where
  "connect_to_backend H G chk h m =
     rbind (tenant_of H chk h) (\<lambda>tenant.
     rbind (selector G (bm_router m) tenant (opt_balance_type (bm_options m))) (\<lambda>backend_addr.
       case dm_get (bm_pools m) backend_addr of
         Some pool \<Rightarrow> Ok pool
       | None \<Rightarrow> Err (IoError NotConnected ''no backend_addr found'')))"

definition tenant_status :: "TenantKey \<Rightarrow> 'p BackendMgr \<Rightarrow> ServiceStatus" where
  "tenant_status tenant m =
     (case find (\<lambda>be. cn_cluster_name (bi_cluster be) = tk_cluster_name tenant \<and>
                      cn_namespace (bi_cluster be) = tk_namespace tenant) (map fst (bm_pools m)) of
        Some be \<Rightarrow> bi_status be
      | None \<Rightarrow> UnKnowStatus)"

subsection \<open>Invariant\<close>

text \<open>Pools are keyed by instances in state \<open>Ready\<close>: the status is part of the key.\<close>

definition mgr_wf :: "'p BackendMgr \<Rightarrow> bool" where
  "mgr_wf m \<longleftrightarrow> dm_wf (bm_pools m) \<and> list_all (\<lambda>(inst, p). bi_status inst = Ready) (bm_pools m)"

lemma mgr_wf_iff:
  "mgr_wf m \<longleftrightarrow> dm_wf (bm_pools m) \<and> (\<forall>inst p. dm_get (bm_pools m) inst = Some p \<longrightarrow> bi_status inst = Ready)"
  unfolding mgr_wf_def list_all_iff by (metis (mono_tags, lifting) case_prod_beta dm_mem prod.collapse prod.sel)

lemma mgr_wf_new: "mgr_wf (backend_mgr_new router options)"
  by (simp add: mgr_wf_def backend_mgr_new_def)

lemma init_backend_pool_wf:
  assumes "mgr_wf m" "init_backend_pool build inst m = (res, m')"
  shows "mgr_wf m'"
  using assms
  by (auto simp: init_backend_pool_def mgr_wf_iff split: ServiceStatus.splits option.splits if_splits)

text \<open>
  The manager after some instances have been handled: what the connections find while the pools are
  being prepared, and when the preparation is over.
\<close>

definition pools_after ::
  "(BackendInstance \<Rightarrow> nat \<Rightarrow> 'p option) \<Rightarrow> BackendInstance list \<Rightarrow> 'p BackendMgr \<Rightarrow> 'p BackendMgr" where
  "pools_after build insts m = foldl (\<lambda>m inst. snd (init_backend_pool build inst m)) m insts"

lemma pools_after_wf: "mgr_wf m \<Longrightarrow> mgr_wf (pools_after build insts m)"
  unfolding pools_after_def
proof (induction insts arbitrary: m)
  case (Cons inst insts)
  then show ?case using init_backend_pool_wf [OF Cons.prems surjective_pairing] by simp
qed simp

lemma pools_after_Cons: "pools_after build (inst # insts) m = pools_after build insts (snd (init_backend_pool build inst m))"
  by (simp add: pools_after_def)

lemma notify_pools:
  "(\<exists>n. snd (static_notify (init_backend_pool build) insts m) = pools_after build (take n insts) m) \<and>
   (\<exists>n. snd (sync_notify (init_backend_pool build) insts m) = pools_after build (take n insts) m)"
proof (induction insts arbitrary: m)
  case (Cons inst insts)
  obtain r m1 where h: "init_backend_pool build inst m = (r, m1)" by (rule prod.exhaust)
  have one: "m1 = pools_after build (take 1 (inst # insts)) m" by (simp add: pools_after_def h)
  have more: "pools_after build (take n insts) m1 = pools_after build (take (Suc n) (inst # insts)) m" for n
    by (simp add: pools_after_Cons h)
  from Cons.IH [of m1] obtain i j where "snd (static_notify (init_backend_pool build) insts m1) = pools_after build (take i insts) m1"
    "snd (sync_notify (init_backend_pool build) insts m1) = pools_after build (take j insts) m1" by blast
  then show ?case unfolding more
    by (intro conjI; cases r) (use one in \<open>auto simp: h simp del: take_Suc_Cons\<close>)
qed (simp add: pools_after_def)

lemma prepare_pools: "\<exists>insts. snd (prepare_backend_conn_pool build bursts m) = pools_after build insts m"
  using notify_pools by (cases "bm_router m") (auto simp: prepare_backend_conn_pool_def Let_def, blast+)

lemma offline_keeps_pools:
  assumes "mgr_wf m" "bi_status inst = Offline"
  shows "fst (init_backend_pool build inst m) = Ok ()"
    "dm_get (bm_pools (snd (init_backend_pool build inst m))) = dm_get (bm_pools m)"
    "bm_closed (snd (init_backend_pool build inst m)) = bm_closed m"
proof -
  have "dm_get (bm_pools m) inst = None"
    using assms by (metis ServiceStatus.distinct(11) mgr_wf_iff not_Some_eq)
  then show "fst (init_backend_pool build inst m) = Ok ()"
    "dm_get (bm_pools (snd (init_backend_pool build inst m))) = dm_get (bm_pools m)"
    "bm_closed (snd (init_backend_pool build inst m)) = bm_closed m"
    using assms(2) by (auto simp: init_backend_pool_def)
qed

lemma tenant_status_values:
  assumes "mgr_wf m"
  shows "tenant_status k m =
    (if \<exists>inst \<in> dom (dm_get (bm_pools m)). cn_cluster_name (bi_cluster inst) = tk_cluster_name k \<and>
        cn_namespace (bi_cluster inst) = tk_namespace k
     then Ready else UnKnowStatus)"
proof (cases "find (\<lambda>be. cn_cluster_name (bi_cluster be) = tk_cluster_name k \<and>
    cn_namespace (bi_cluster be) = tk_namespace k) (map fst (bm_pools m))")
  case None
  then have "\<not> (\<exists>inst \<in> fst ` set (bm_pools m). cn_cluster_name (bi_cluster inst) = tk_cluster_name k \<and>
      cn_namespace (bi_cluster inst) = tk_namespace k)"
    by (simp add: find_None_iff)
  then show ?thesis using None by (simp add: tenant_status_def dom_map_of_conv_image_fst)
next
  case (Some inst)
  then have m: "inst \<in> fst ` set (bm_pools m)" "cn_cluster_name (bi_cluster inst) = tk_cluster_name k"
    "cn_namespace (bi_cluster inst) = tk_namespace k"
    by (auto simp: find_Some_iff)
  then have "bi_status inst = Ready" using assms by (auto simp: mgr_wf_def list_all_iff)
  then show ?thesis using Some m by (auto simp: tenant_status_def dom_map_of_conv_image_fst)
qed

subsection \<open>Connecting\<close>

lemma connect_to_backend_Ok:
  "connect_to_backend H G chk h m = Ok pool \<longleftrightarrow>
     (\<exists>k inst. tenant_of H chk h = Ok k \<and> selector G (bm_router m) k (opt_balance_type (bm_options m)) = Ok inst \<and>
        dm_get (bm_pools m) inst = Some pool)"
proof -
  have "(case dm_get (bm_pools m) inst of Some p \<Rightarrow> Ok p | None \<Rightarrow> Err e) = Ok pool \<longleftrightarrow>
      dm_get (bm_pools m) inst = Some pool" for inst e
    by (simp split: option.split)
  then show ?thesis by (simp add: connect_to_backend_def rbind_Ok_iff)
qed

lemma connect_not_ready:
  assumes "mgr_wf m" "tenant_of H chk h = Ok k"
    "selector G (bm_router m) k (opt_balance_type (bm_options m)) = Ok inst" "bi_status inst \<noteq> Ready"
  shows "connect_to_backend H G chk h m = Err (IoError NotConnected ''no backend_addr found'')"
proof -
  have "dm_get (bm_pools m) inst = None" using assms(1,4) by (auto simp: mgr_wf_iff)
  then show ?thesis using assms by (simp add: connect_to_backend_def)
qed

context rng_spec
begin

lemma connect_listed:
  assumes "connect_to_backend H G chk h m = Ok pool"
  obtains k bs inst where "tenant_of H chk h = Ok k" "load_backends (bm_router m) (Some k) = Ok bs"
    "inst \<in> set bs" "dm_get (bm_pools m) inst = Some pool"
  using assms any_router.sel_listed unfolding connect_to_backend_Ok by blast

end

text \<open>The static router: one pool per configured backend.\<close>

definition prepared ::
  "(BackendInstance \<Rightarrow> nat \<Rightarrow> 'p option) \<Rightarrow> BackendInstance list \<Rightarrow> 'p BackendMgr \<Rightarrow> 'p BackendMgr \<Rightarrow> bool" where
  "prepared build bs m m' \<longleftrightarrow> bm_options m' = bm_options m \<and> bm_router m' = bm_router m \<and> bm_closed m' = bm_closed m \<and>
     (\<forall>b. dm_get (bm_pools m') b = (if b \<in> set bs then build b (max_size m) else dm_get (bm_pools m) b))"

lemma static_notify_pools:
  "\<forall>b \<in> set bs. bi_status b = Ready \<and> build b (max_size m) \<noteq> None \<Longrightarrow>
   \<exists>m'. static_notify (init_backend_pool build) bs m = (Ok (), m') \<and> prepared build bs m m'"
proof (induction bs arbitrary: m)
  case (Cons b bs)
  then obtain p where p: "build b (max_size m) = Some p" "bi_status b = Ready" by auto
  let ?m = "m\<lparr>bm_pools := dm_insert b p (bm_pools m)\<rparr>"
  have size: "max_size ?m = max_size m" by (simp add: max_size_def)
  have "\<forall>b \<in> set bs. bi_status b = Ready \<and> build b (max_size ?m) \<noteq> None" using Cons.prems size by simp
  from Cons.IH [OF this] obtain m' where
    m': "static_notify (init_backend_pool build) bs ?m = (Ok (), m')" "prepared build bs ?m m'"
    by blast
  have "init_backend_pool build b m = (Ok (), ?m)" using p by (simp add: init_backend_pool_def)
  moreover have "prepared build (b # bs) m m'" using m'(2) p(1) size by (simp add: prepared_def)
  ultimately show ?case using m'(1) by simp
qed (simp add: prepared_def)

context rng_spec
begin

lemma static_connects:
  assumes "bm_router m = Static \<lparr>rt_backend_addrs = bs\<rparr>" "bs \<noteq> []" "opt_balance_type (bm_options m) = Random"
    "\<forall>b \<in> set bs. bi_status b = Ready \<and> build b (max_size m) \<noteq> None" "tenant_of H chk h = Ok k"
  obtains m' b pool where "prepare_backend_conn_pool build bursts m = (Ok (), m')" "b \<in> set bs"
    "build b (max_size m) = Some pool" "connect_to_backend H G chk h m' = Ok pool"
proof -
  obtain m' where m': "static_notify (init_backend_pool build) bs m = (Ok (), m')" "prepared build bs m m'"
    using static_notify_pools [of bs build m] assms(4) by blast
  have load: "load_backends (bm_router m) (Some k) = Ok bs" by (simp add: assms(1) static_load_backends_def)
  obtain b where b: "selector G (bm_router m) k Random = Ok b" "b \<in> set bs"
    using any_router.sel_some [OF load assms(2)] any_router.sel_listed [of "bm_router m" k Random] load by auto
  obtain pool where pool: "build b (max_size m) = Some pool" using assms(4) b(2) by auto
  then have "connect_to_backend H G chk h m' = Ok pool"
    using m'(2) b assms(3,5) by (simp add: connect_to_backend_def prepared_def)
  then show thesis using that m'(1) b(2) pool assms(1) by (simp add: prepare_backend_conn_pool_def)
qed

end

text \<open>
  The router learns of changes through a watch channel, which keeps the latest value only: of the
  instances announced between two looks at the channel, the manager acts on the last one.
\<close>

lemma instance_changes_coalesce:
  assumes "bm_router m = Sync r"
  shows "prepare_backend_conn_pool build bursts m =
    sync_notify (init_backend_pool build) (map last (filter (\<lambda>burst. burst \<noteq> []) bursts)) m"
  using assms by (simp add: prepare_backend_conn_pool_def observe_last Let_def)

end
