(* ===== verification/Config.thy ===== *)
theory Config
  imports BackendMgr
begin

text \<open>
  \<open>server/proxy_cli_args.rs\<close>, \<open>new_backend_router\<close> of \<open>backend/router/mod.rs\<close>, \<open>SyncRouter::new\<close>,
  \<open>start_backend_discovery\<close> of \<open>backend/mod.rs\<close> and the part of \<open>main\<close> that builds the backend manager
  from the command line. The command line itself is parsed by \<open>clap\<close>: its result, the record of
  arguments, is the input. The environment is a function from names to values, and \<open>str::to_lowercase\<close>
  with its Unicode tables is a parameter that is fixed on ASCII strings.
\<close>

subsection \<open>Arguments\<close>

record ControlPlaneArgs =
  cpa_enable_cp :: bool
  cpa_cp_target_addr :: "rstr option"

datatype BackendConfigArgs =
    BackendArg rstr
  | ClusterArg rstr "rstr option"

record ProxyServerArgs =
  pa_works :: nat
  pa_port :: u16
  pa_http_port :: u16
  pa_tls :: bool
  pa_enable_metrics :: bool
  pa_enable_rest :: bool
  pa_router :: "rstr option"
  pa_balance :: "rstr option"
  pa_log_level :: "rstr option"
  pa_cp_addr :: "rstr option"
  pa_curr_node :: "rstr option"
  pa_namespace :: "rstr option"
  pa_backend :: "BackendConfigArgs option"
  pa_cp_args :: ControlPlaneArgs

definition cp_listen_addr :: "ControlPlaneArgs \<Rightarrow> rstr option" where
  "cp_listen_addr a =
     (if cpa_enable_cp a then
        (case cpa_cp_target_addr a of Some addr \<Rightarrow> Some addr | None \<Rightarrow> Some (lit ''0.0.0.0:19001''))
      else None)"

text \<open>An option, else a variable of the environment, else a constant.\<close>

definition get_namespace :: "(string \<Rightarrow> rstr option) \<Rightarrow> ProxyServerArgs \<Rightarrow> rstr" where
  "get_namespace env a =
     (case pa_namespace a of
        Some namespace \<Rightarrow> namespace
      | None \<Rightarrow> (case env ''MY_NAMESPACE'' of Some namespace \<Rightarrow> namespace | None \<Rightarrow> lit ''default''))"

definition get_node_id :: "(string \<Rightarrow> rstr option) \<Rightarrow> ProxyServerArgs \<Rightarrow> rstr" where
  "get_node_id env a =
     (case pa_curr_node a of
        Some node_id \<Rightarrow> node_id
      | None \<Rightarrow> (case env ''MY_POD_NAME'' of Some node_id \<Rightarrow> node_id | None \<Rightarrow> lit ''local_node''))"

subsection \<open>Strings\<close>

definition to_ascii_lowercase :: "nat \<Rightarrow> nat" where
  "to_ascii_lowercase c = (if 65 \<le> c \<and> c \<le> 90 then c + 32 else c)"

definition eq_ignore_ascii_case :: "rstr \<Rightarrow> rstr \<Rightarrow> bool" where
  "eq_ignore_ascii_case s t \<longleftrightarrow> map to_ascii_lowercase s = map to_ascii_lowercase t"

locale lowercase_spec =
  fixes L :: "rstr \<Rightarrow> rstr"
  assumes lower_ascii: "list_all (\<lambda>c. c < 128) s \<Longrightarrow> L s = map to_ascii_lowercase s"

interpretation lowercase_ref: lowercase_spec "map to_ascii_lowercase"
  by unfold_locales simp

text \<open>\<open>str::split\<close> on one character: one piece more than there are separators.\<close>

fun split_char :: "nat \<Rightarrow> rstr \<Rightarrow> rstr list" where
  "split_char c [] = [[]]"
| "split_char c (x # xs) =
     (case split_char c xs of
        [] \<Rightarrow> []
      | p # ps \<Rightarrow> if x = c then [] # p # ps else (x # p) # ps)"

subsection \<open>Routers and balancers\<close>

datatype BackendRouterType = StaticType | SyncWithCp

definition router_from_str :: "rstr \<Rightarrow> BackendRouterType option" where
  "router_from_str s =
     (if s = lit ''static'' then Some StaticType
      else if s = lit ''sync-with-cp'' then Some SyncWithCp else None)"

definition balancer_from_str :: "rstr \<Rightarrow> BackendLoadBalancerType option" where
  "balancer_from_str s =
     (if s = lit ''random'' then Some Random else if s = lit ''p2c'' then Some P2C else None)"

definition balancer_type :: "(rstr \<Rightarrow> rstr) \<Rightarrow> ProxyServerArgs \<Rightarrow> rstr" where
  "balancer_type L a =
     (case pa_balance a of Some bal \<Rightarrow> L bal | None \<Rightarrow> L (lit ''random''))"

definition router_type :: "ProxyServerArgs \<Rightarrow> BackendRouterType option result" where
  "router_type a =
     (case pa_router a of
        Some router_str \<Rightarrow> rbind (unwrap_opt (router_from_str router_str)) (\<lambda>router. Ok (Some router))
      | None \<Rightarrow> Ok None)"

definition new_backend_opts :: "(rstr \<Rightarrow> rstr) \<Rightarrow> ProxyServerArgs \<Rightarrow> BackendManagerOptions result" where
  "new_backend_opts L a =
     (let static_router =
        (case pa_router a of Some router \<Rightarrow> eq_ignore_ascii_case router (lit ''static'') | None \<Rightarrow> True) in
      rbind (unwrap_opt (balancer_from_str (balancer_type L a))) (\<lambda>balance_type.
        Ok (manager_options_default\<lparr>opt_static_router := static_router, opt_balance_type := balance_type\<rparr>)))"

definition location_default :: DBLocation where
  "location_default = \<lparr>loc_region = [], loc_available_zone = [], loc_namespace = [], loc_node_name = []\<rparr>"

definition cluster_default :: ClusterName where
  "cluster_default = \<lparr>cn_namespace = [], cn_cluster_name = []\<rparr>"

definition TEST_BACKEND_ADDRS :: "BackendInstance list" where
  "TEST_BACKEND_ADDRS =
     [\<lparr>bi_location = \<lparr>loc_region = lit ''_NONE_'', loc_available_zone = lit ''_NONE_'',
         loc_namespace = lit ''_NONE_'', loc_node_name = lit ''_NONE_''\<rparr>,
       bi_addr = lit ''127.0.0.1:3315'', bi_status = Ready, bi_cluster = cluster_default\<rparr>]"

definition backend_at :: "rstr \<Rightarrow> BackendInstance" where
  "backend_at addr =
     \<lparr>bi_location = location_default, bi_addr = addr, bi_status = Ready, bi_cluster = cluster_default\<rparr>"

definition static_backend_list :: "ProxyServerArgs \<Rightarrow> BackendInstance list" where
  "static_backend_list a =
     (case pa_backend a of
        Some (BackendArg addrs) \<Rightarrow> map backend_at (split_char 44 addrs)
      | Some (ClusterArg namespace cluster_name) \<Rightarrow> TEST_BACKEND_ADDRS
      | None \<Rightarrow> TEST_BACKEND_ADDRS)"

subsection \<open>Start-up\<close>

text \<open>
  The discovery that the sync router shares with its background task, as it is when the router is
  made; the task then runs \<open>discover_with_retry\<close> on it. Making the resolver of the task panics when the
  address is no URI.
\<close>

definition start_backend_discovery ::
  "(rstr \<Rightarrow> rstr option option) \<Rightarrow> rstr \<Rightarrow> rstr \<Rightarrow> rstr \<Rightarrow> (BackendDiscovery \<times> 'c CpResolver) result" where
  "start_backend_discovery uri curr_node namespace topology_srv_addr =
     rbind (cp_resolver_new uri topology_srv_addr None) (\<lambda>cp_srv_resolver.
       Ok (get_backend_discovery None curr_node namespace, cp_srv_resolver))"

definition sync_router_new ::
  "(rstr \<Rightarrow> rstr option option) \<Rightarrow> (string \<Rightarrow> rstr option) \<Rightarrow> ProxyServerArgs \<Rightarrow> (SyncRouter \<times> 'c CpResolver) result" where
  "sync_router_new uri env a =
     rbind (unwrap_opt (pa_cp_addr a)) (\<lambda>topology_srv_addr.
     rbind (start_backend_discovery uri (get_node_id env a) (get_namespace env a) topology_srv_addr)
       (\<lambda>(d, r). Ok (\<lparr>rt_be_discovery = d\<rparr>, r)))"

definition new_backend_router ::
  "(rstr \<Rightarrow> rstr option option) \<Rightarrow> (string \<Rightarrow> rstr option) \<Rightarrow> ProxyServerArgs \<Rightarrow>
   (BackendRouterTrait \<times> 'c CpResolver option) result" where
  "new_backend_router uri env a =
     rbind (router_type a) (\<lambda>be_router.
       case be_router of
         Some SyncWithCp \<Rightarrow> rbind (sync_router_new uri env a) (\<lambda>(router, r). Ok (Sync router, Some r))
       | _ \<Rightarrow> Ok (Static \<lparr>rt_backend_addrs = static_backend_list a\<rparr>, None))"

text \<open>The backend manager \<open>main\<close> makes; the flag says whether user names carry a tenant.\<close>

definition startup ::
  "(rstr \<Rightarrow> rstr) \<Rightarrow> (rstr \<Rightarrow> rstr option option) \<Rightarrow> (string \<Rightarrow> rstr option) \<Rightarrow> ProxyServerArgs \<Rightarrow>
   ('p BackendMgr \<times> bool \<times> 'c CpResolver option) result" where
  "startup L uri env a =
     rbind (new_backend_opts L a) (\<lambda>backend_options.
     rbind (new_backend_router uri env a) (\<lambda>(router, r).
       Ok (backend_mgr_new router backend_options, \<not> is_static router, r)))"

subsection \<open>Lists of addresses\<close>

fun join_char :: "nat \<Rightarrow> rstr list \<Rightarrow> rstr" where
  "join_char c [] = []"
| "join_char c [p] = p"
| "join_char c (p # q # ps) = p @ c # join_char c (q # ps)"

lemma split_char_not_Nil [simp]: "split_char c xs \<noteq> []"
  by (induction xs) (auto split: list.split)

lemma split_char_no_sep: "c \<notin> set p \<Longrightarrow> split_char c p = [p]"
  by (induction p) auto

lemma split_char_app:
  assumes "c \<notin> set p"
  shows "split_char c (p @ c # xs) = p # split_char c xs"
  using assms
proof (induction p)
  case Nil
  then show ?case by (cases "split_char c xs") simp_all
qed simp

lemma split_join:
  "ps \<noteq> [] \<Longrightarrow> list_all (\<lambda>p. c \<notin> set p) ps \<Longrightarrow> split_char c (join_char c ps) = ps"
  by (induction c ps rule: join_char.induct) (simp_all add: split_char_no_sep split_char_app)

lemma join_split: "join_char c (split_char c xs) = xs"
proof (induction xs)
  case (Cons x xs)
  obtain p ps where p: "split_char c xs = p # ps" by (cases "split_char c xs") auto
  with Cons.IH show ?case by (cases ps) auto
qed simp

lemma static_backend_list_ready: "\<forall>b \<in> set (static_backend_list a). bi_status b = Ready"
  by (auto simp: static_backend_list_def TEST_BACKEND_ADDRS_def backend_at_def
      split: option.split BackendConfigArgs.split)

lemma static_backend_list_not_Nil: "static_backend_list a \<noteq> []"
  by (simp add: static_backend_list_def TEST_BACKEND_ADDRS_def split: option.split BackendConfigArgs.split)

subsection \<open>What start-up gives\<close>

lemma lower_lit_random: "lowercase_spec L \<Longrightarrow> L (lit ''random'') = lit ''random''"
  by (subst lowercase_spec.lower_ascii) (simp_all add: lit_def to_ascii_lowercase_def)

lemma startup_default:
  assumes "lowercase_spec L" "pa_router a = None" "pa_balance a = None"
  shows "startup L uri env a = Ok (backend_mgr_new (Static \<lparr>rt_backend_addrs = static_backend_list a\<rparr>)
      manager_options_default, False, None)"
  using assms lower_lit_random [OF assms(1)]
  by (simp add: startup_def new_backend_opts_def new_backend_router_def router_type_def balancer_type_def
      balancer_from_str_def manager_options_default_def)

lemma router_type_cases:
  "router_type a =
     (if pa_router a = None then Ok None
      else if pa_router a = Some (lit ''static'') then Ok (Some StaticType)
      else if pa_router a = Some (lit ''sync-with-cp'') then Ok (Some SyncWithCp) else Panic)"
  by (auto simp: router_type_def router_from_str_def split: option.split)

lemma new_backend_router_Ok:
  assumes "new_backend_router uri env a = Ok (router, r)"
  shows "router =
    (if pa_router a = Some (lit ''sync-with-cp'')
     then Sync \<lparr>rt_be_discovery = discovery_new (get_node_id env a) (get_namespace env a)\<rparr>
     else Static \<lparr>rt_backend_addrs = static_backend_list a\<rparr>)"
proof -
  have ne: "lit ''sync-with-cp'' \<noteq> lit ''static''" by (simp add: lit_def)
  show ?thesis
  proof (cases "pa_router a = Some (lit ''sync-with-cp'')")
    case True
    then have "router_type a = Ok (Some SyncWithCp)" using ne by (simp add: router_type_cases)
    then show ?thesis using assms True
      by (auto simp: new_backend_router_def sync_router_new_def start_backend_discovery_def get_backend_discovery_def
          rbind_Ok_iff)
  next
    case False
    then have "router_type a = Ok None \<or> router_type a = Ok (Some StaticType) \<or> router_type a = Panic"
      by (simp add: router_type_cases)
    then show ?thesis using assms False by (auto simp: new_backend_router_def)
  qed
qed

lemma startup_Ok:
  assumes "startup L uri env a = Ok (m, sync, r)"
  shows "mgr_wf m" "sync \<longleftrightarrow> pa_router a = Some (lit ''sync-with-cp'')"
    "bm_router m =
      (if sync then Sync \<lparr>rt_be_discovery = discovery_new (get_node_id env a) (get_namespace env a)\<rparr>
       else Static \<lparr>rt_backend_addrs = static_backend_list a\<rparr>)"
proof -
  obtain opts router where o: "new_backend_router uri env a = Ok (router, r)"
    "m = backend_mgr_new router opts" "sync \<longleftrightarrow> \<not> is_static router"
    using assms by (auto simp: startup_def rbind_Ok_iff)
  show "mgr_wf m" by (simp add: o(2) mgr_wf_new)
  show "sync \<longleftrightarrow> pa_router a = Some (lit ''sync-with-cp'')"
    using o(3) new_backend_router_Ok [OF o(1)] by simp
  then show "bm_router m =
      (if sync then Sync \<lparr>rt_be_discovery = discovery_new (get_node_id env a) (get_namespace env a)\<rparr>
       else Static \<lparr>rt_backend_addrs = static_backend_list a\<rparr>)"
    using o(2) new_backend_router_Ok [OF o(1)] by (simp add: backend_mgr_new_def)
qed

text \<open>
  The option \<open>--router\<close> is compared in two ways: a spelling of \<open>static\<close> with capital letters counts as
  static for the options of the manager, but no router can be made for it.
\<close>

lemma router_case_panics:
  assumes "pa_router a = Some s" "router_from_str s = None"
  shows "new_backend_router uri env a = Panic"
  using assms by (simp add: new_backend_router_def router_type_def)

end
