(* ===== verification/Rest.thy ===== *)
theory Rest
  imports BackendMgr
begin

text \<open>
  \<open>web_service/src/proxy_handler.rs\<close> and the state of \<open>http_server.rs\<close>: the two endpoints for tenants.
  Extracting the arguments from the request and rendering the answer as JSON is the work of \<open>axum\<close>.
\<close>

record 'a ApiResponse =
  api_code :: nat
  api_message :: rstr
  api_data :: 'a

record 'p HaentglProxyRestState =
  rest_backend_mgr :: "'p BackendMgr"

definition rest_state_new :: "'p BackendMgr \<Rightarrow> 'p HaentglProxyRestState" where
  "rest_state_new backend_mgr = \<lparr>rest_backend_mgr = backend_mgr\<rparr>"

definition backend_mgr_ref :: "'p HaentglProxyRestState \<Rightarrow> 'p BackendMgr" where
  "backend_mgr_ref s = rest_backend_mgr s"

text \<open>The discovery the REST service uses: the process-wide one, made on its first use.\<close>

definition backend_discovery_ref :: "(string \<Rightarrow> rstr option) \<Rightarrow> BackendDiscovery option \<Rightarrow> BackendDiscovery" where
  "backend_discovery_ref env once =
     (let my_node = (case env ''NODE_ID'' of Some node_id \<Rightarrow> node_id | None \<Rightarrow> lit ''local_node'');
          namespace = (case env ''MY_NAMESPACE'' of Some namespace \<Rightarrow> namespace | None \<Rightarrow> lit ''default'') in
      get_backend_discovery once my_node namespace)"

definition add_tenant ::
  "(string \<Rightarrow> rstr option) \<Rightarrow> TenantKey \<Rightarrow> BackendDiscovery option \<Rightarrow> rstr ApiResponse \<times> BackendDiscovery" where
  "add_tenant env payload once =
     (let be_discovery = backend_discovery_ref env once;
          resp = \<lparr>api_code = 201, api_message = lit ''success'', api_data = []\<rparr> in
      case subscribe_for payload be_discovery of
        (Ok _, d) \<Rightarrow> (resp, d)
      | (_, d) \<Rightarrow> (resp\<lparr>api_code := 500, api_message := lit ''failed to add tenant''\<rparr>, d))"

definition tenant_status_handler ::
  "rstr \<Rightarrow> rstr \<Rightarrow> rstr \<Rightarrow> rstr \<Rightarrow> 'p HaentglProxyRestState \<Rightarrow> string ApiResponse" where
  "tenant_status_handler region az namespace cluster s =
     (let tenant_key = \<lparr>tk_region = region, tk_available_zone = az, tk_namespace = namespace,
                        tk_cluster_name = cluster\<rparr>;
          service_status = tenant_status tenant_key (backend_mgr_ref s) in
      \<lparr>api_code = 200, api_message = lit ''success'', api_data = status_as_str_name service_status\<rparr>)"

text \<open>
  A tenant that is added is accepted, and the request stream asks the control plane for it when it has
  been polled empty; the discovery's own table of tenants stays as it is.
\<close>

lemma add_tenant_accepted:
  assumes "add_tenant env k (Some d) = (resp, d')"
  shows "api_code resp = 201" "bd_tenants d' = bd_tenants d"
    "subscribe_request (bd_node_id d) (bd_namespace d) k \<in>
      set (bd_requests ((send_stream ^^ length (bd_tenant_keys d')) d'))"
    "discovered d \<Longrightarrow> discovered d'"
  using assms disc_subscribe [of d k "Ok ()"]
  by (auto simp: add_tenant_def backend_discovery_ref_def get_backend_discovery_def subscribe_for_def polled_empty Let_def)

lemma tenant_status_answers:
  assumes "mgr_wf m"
  shows "status_from_str_name (api_data (tenant_status_handler region az namespace cluster (rest_state_new m))) \<in> {Some Ready, Some UnKnowStatus}"
  using tenant_status_values [OF assms] by (simp add: tenant_status_handler_def backend_mgr_ref_def rest_state_new_def status_names Let_def status_from_str_name_def)

end
