(* ===== verification/Floats.thy ===== *)
theory Floats
  imports Complex_Main Prelude
begin

text \<open>
  The floating-point values of the metrics and of the system utilities. A finite value is a rational
  number, and every operation rounds its exact result to \<open>p\<close> significant bits, to nearest with ties to
  even, as IEEE 754 prescribes: \<open>p\<close> is 24 for \<open>f32\<close> and 53 for \<open>f64\<close>. The exponent range is left out: the
  values here are quotients and sums of 64-bit counts, far from overflow and from the subnormals.
  Negative zero is zero.
\<close>

subsection \<open>Rounding\<close>

fun bit_count :: "nat \<Rightarrow> nat" where
  "bit_count n = (if n = 0 then 0 else Suc (bit_count (n div 2)))"

declare bit_count.simps [simp del]

text \<open>The exponent of a positive number: the largest power of two that is not above it.\<close>

definition ilog2 :: "rat \<Rightarrow> int" where
  "ilog2 x =
     (if 1 \<le> x then int (bit_count (nat \<lfloor>x\<rfloor>)) - 1
      else - int (bit_count (nat (\<lceil>1 / x\<rceil> - 1))))"

definition half_even :: "rat \<Rightarrow> int" where
  "half_even y =
     (let f = \<lfloor>y\<rfloor>; r = y - of_int f in
      if r < 1 / 2 \<or> (r = 1 / 2 \<and> even f) then f else f + 1)"

definition fround :: "nat \<Rightarrow> rat \<Rightarrow> rat" where
  "fround p x =
     (if x = 0 then 0
      else let ulp = 2 powi (ilog2 \<bar>x\<bar> - int p + 1) in sgn x * (of_int (half_even (\<bar>x\<bar> / ulp)) * ulp))"

subsection \<open>Operations\<close>

datatype fval = Fin rat | Infinity | NegInfinity | NaN

definition f32_of_usize :: "nat \<Rightarrow> rat" where
  "f32_of_usize n = fround 24 (of_nat n)"

text \<open>Division of numbers that are not negative.\<close>

definition f32_div :: "rat \<Rightarrow> rat \<Rightarrow> fval" where
  "f32_div a b = (if b = 0 then (if a = 0 then NaN else Infinity) else Fin (fround 24 (a / b)))"

definition f64_of_int :: "int \<Rightarrow> rat" where
  "f64_of_int n = fround 53 (of_int n)"

definition f64_add :: "rat \<Rightarrow> rat \<Rightarrow> rat" where
  "f64_add a b = fround 53 (a + b)"

definition f64_sub :: "rat \<Rightarrow> rat \<Rightarrow> rat" where
  "f64_sub a b = fround 53 (a - b)"

definition f64_mul :: "rat \<Rightarrow> rat \<Rightarrow> rat" where
  "f64_mul a b = fround 53 (a * b)"

fun fval_add :: "fval \<Rightarrow> fval \<Rightarrow> fval" where
  "fval_add (Fin a) (Fin b) = Fin (f64_add a b)"
| "fval_add NaN y = NaN"
| "fval_add x NaN = NaN"
| "fval_add Infinity NegInfinity = NaN"
| "fval_add NegInfinity Infinity = NaN"
| "fval_add Infinity y = Infinity"
| "fval_add x Infinity = Infinity"
| "fval_add NegInfinity y = NegInfinity"
| "fval_add x NegInfinity = NegInfinity"

fun fval_minus :: "fval \<Rightarrow> fval" where
  "fval_minus (Fin a) = Fin (- a)"
| "fval_minus Infinity = NegInfinity"
| "fval_minus NegInfinity = Infinity"
| "fval_minus NaN = NaN"

definition fval_sub :: "fval \<Rightarrow> fval \<Rightarrow> fval" where
  "fval_sub x y = fval_add x (fval_minus y)"

text \<open>The cast \<open>as usize\<close> truncates and saturates.\<close>

definition usize_of_f64 :: "rat \<Rightarrow> nat" where
  "usize_of_f64 x = min (nat \<lfloor>x\<rfloor>) (2 ^ 64 - 1)"

subsection \<open>The exponent\<close>

lemma bit_count_upper: "n < 2 ^ bit_count n"
proof (induction n rule: bit_count.induct)
  case (1 n)
  show ?case
  proof (cases "n = 0")
    case False
    then have "n div 2 < 2 ^ bit_count (n div 2)" using 1 by simp
    then have "n < 2 * 2 ^ bit_count (n div 2)" by simp
    then show ?thesis using False by (simp add: bit_count.simps [of n])
  qed (simp add: bit_count.simps)
qed

lemma bit_count_lower: "0 < n \<Longrightarrow> 2 ^ bit_count n \<le> 2 * n"
proof (induction n rule: bit_count.induct)
  case (1 n)
  show ?case
  proof (cases "n div 2 = 0")
    case True
    then have "n = 1" using 1(2) by simp
    then show ?thesis by (simp add: bit_count.simps)
  next
    case False
    then have "2 ^ bit_count (n div 2) \<le> 2 * (n div 2)" using 1 by simp
    also have "\<dots> \<le> n" by simp
    finally show ?thesis using 1(2) by (simp add: bit_count.simps [of n])
  qed
qed

lemma ilog2_bounds:
  assumes "0 < x"
  shows "2 powi ilog2 x \<le> x" "x < 2 powi (ilog2 x + 1)"
proof -
  have *: "2 powi ilog2 x \<le> x \<and> x < 2 powi (ilog2 x + 1)"
  proof (cases "1 \<le> x")
    case True
    let ?n = "nat \<lfloor>x\<rfloor>"
    have n: "0 < ?n" "of_nat ?n \<le> x" "x < of_nat ?n + 1"
      using True by (auto simp: of_nat_nat) linarith
    have "bit_count ?n = Suc (bit_count ?n - 1)" using n(1) by (simp add: bit_count.simps [of ?n])
    then obtain k where k: "bit_count ?n = Suc k" by blast
    have "2 ^ Suc k \<le> 2 * ?n" "?n < 2 ^ Suc k"
      using bit_count_lower [OF n(1)] bit_count_upper [of ?n] by (simp_all only: k)
    then have "2 ^ k \<le> ?n" "?n + 1 \<le> 2 ^ Suc k" by simp_all
    then have "(of_nat (2 ^ k) :: rat) \<le> of_nat ?n" "of_nat (?n + 1) \<le> (of_nat (2 ^ Suc k) :: rat)"
      by (simp_all only: of_nat_le_iff)
    then have "(2 ^ k :: rat) \<le> of_nat ?n" "of_nat ?n + 1 \<le> (2 ^ Suc k :: rat)"
      by (simp_all only: of_nat_power of_nat_numeral of_nat_add of_nat_1)
    then have "2 ^ k \<le> x" "x < 2 ^ Suc k" using n by linarith+
    then show ?thesis using True by (simp add: ilog2_def k power_int_add)
  next
    case False
    let ?n = "nat (\<lceil>1 / x\<rceil> - 1)" and ?k = "bit_count (nat (\<lceil>1 / x\<rceil> - 1))"
    have c: "1 < 1 / x" using False assms by simp
    then have n: "0 < ?n" "of_nat ?n < 1 / x" "1 / x \<le> of_nat ?n + 1"
      by (auto simp: of_nat_nat) linarith+
    have "?n + 1 \<le> 2 ^ ?k" "2 ^ ?k \<le> 2 * ?n" using bit_count_upper [of ?n] bit_count_lower [OF n(1)] by linarith+
    then have "(of_nat (?n + 1) :: rat) \<le> of_nat (2 ^ ?k)" "(of_nat (2 ^ ?k) :: rat) \<le> of_nat (2 * ?n)"
      by (simp_all only: of_nat_le_iff)
    then have "(of_nat ?n + 1 :: rat) \<le> 2 ^ ?k" "(2 ^ ?k :: rat) \<le> 2 * of_nat ?n"
      by (simp_all only: of_nat_power of_nat_numeral of_nat_add of_nat_1 of_nat_mult)
    then have b: "1 / x \<le> 2 ^ ?k" "2 ^ ?k < 2 * (1 / x)" using n by linarith+
    have "1 / 2 ^ ?k \<le> x" "x < 2 * (1 / 2 ^ ?k)" using b assms by (simp_all add: field_simps)
    then show ?thesis using False by (simp add: ilog2_def power_int_minus power_int_diff divide_inverse)
  qed
  then show "2 powi ilog2 x \<le> x" "x < 2 powi (ilog2 x + 1)" by simp_all
qed

subsection \<open>Accuracy\<close>

lemma half_even_near: "\<bar>of_int (half_even y) - y\<bar> \<le> 1 / 2"
proof -
  have "of_int \<lfloor>y\<rfloor> \<le> y" "y < of_int \<lfloor>y\<rfloor> + 1" by (simp, linarith)
  then show ?thesis by (auto simp: half_even_def Let_def)
qed

lemma half_even_int [simp]: "half_even (of_int n) = n"
  by (simp add: half_even_def)

lemma fround_0 [simp]: "fround p 0 = 0"
  by (simp add: fround_def)

lemma fround_error: "\<bar>fround p x - x\<bar> \<le> \<bar>x\<bar> / 2 ^ p"
proof (cases "x = 0")
  case False
  define ulp :: rat where "ulp = 2 powi (ilog2 \<bar>x\<bar> - int p + 1)"
  let ?m = "of_int (half_even (\<bar>x\<bar> / ulp)) :: rat"
  have pos: "0 < ulp" by (simp add: ulp_def)
  have ulp: "ulp = 2 * (2 powi ilog2 \<bar>x\<bar> / 2 ^ p)"
    by (simp add: ulp_def power_int_add power_int_diff)
  have "fround p x - x = sgn x * (?m * ulp - \<bar>x\<bar>)"
    using False by (simp add: fround_def Let_def flip: ulp_def) (simp add: right_diff_distrib sgn_mult_abs)
  also have "\<dots> = sgn x * ((?m - \<bar>x\<bar> / ulp) * ulp)" using pos by (simp add: field_simps)
  finally have "\<bar>fround p x - x\<bar> = \<bar>?m - \<bar>x\<bar> / ulp\<bar> * ulp" using False pos by (simp add: abs_mult)
  also have "\<dots> \<le> 1 / 2 * ulp" by (rule mult_right_mono [OF half_even_near]) (use pos in simp)
  also have "\<dots> \<le> \<bar>x\<bar> / 2 ^ p"
    using ilog2_bounds(1) [of "\<bar>x\<bar>"] False by (simp add: ulp divide_right_mono)
  finally show ?thesis .
qed simp

text \<open>Integers of at most \<open>p\<close> bits are exact.\<close>

lemma fround_int:
  assumes "\<bar>n\<bar> < 2 ^ p"
  shows "fround p (of_int n) = of_int n"
proof (cases "n = 0")
  case False
  let ?x = "\<bar>of_int n\<bar> :: rat"
  have x: "0 < ?x" "?x < 2 powi int p"
    using False assms by (simp_all flip: of_int_abs)
  then have "2 powi ilog2 ?x < (2 powi int p :: rat)" using ilog2_bounds(1) [of ?x] by linarith
  then have "ilog2 ?x < int p" using power_int_increasing [of "int p" "ilog2 ?x" "2 :: rat"] by force
  then have "ilog2 ?x - int p + 1 = - int (nat (int p - 1 - ilog2 ?x))" by simp
  then obtain k where k: "ilog2 ?x - int p + 1 = - int k" by blast
  have "?x / 2 powi (- int k) = of_int (\<bar>n\<bar> * 2 ^ k)"
    by (simp add: power_int_minus divide_inverse)
  then have "half_even (?x / 2 powi (- int k)) = \<bar>n\<bar> * 2 ^ k" by (simp only: half_even_int)
  then have "fround p (of_int n) = sgn (of_int n) * (of_int (\<bar>n\<bar> * 2 ^ k) * 2 powi (- int k))"
    using False by (simp add: fround_def k)
  also have "\<dots> = sgn (of_int n) * \<bar>of_int n\<bar>" by (simp add: power_int_minus)
  finally show ?thesis by (simp only: sgn_mult_abs)
qed simp

lemma fround_nat: "n < 2 ^ p \<Longrightarrow> fround p (of_nat n) = of_nat n"
  using fround_int [of "int n" p] by (simp del: of_nat_power add: of_nat_less_numeral_power_cancel_iff)

lemma f64_add_int:
  "\<bar>a + b\<bar> < 2 ^ 53 \<Longrightarrow> f64_add (of_int a) (of_int b) = of_int (a + b)"
  using fround_int [of "a + b" 53] by (simp add: f64_add_def)

lemma f64_sub_int:
  "\<bar>a - b\<bar> < 2 ^ 53 \<Longrightarrow> f64_sub (of_int a) (of_int b) = of_int (a - b)"
  using fround_int [of "a - b" 53] by (simp add: f64_sub_def)

lemma fval_add_int:
  "\<bar>a + b\<bar> < 2 ^ 53 \<Longrightarrow> fval_add (Fin (of_int a)) (Fin (of_int b)) = Fin (of_int (a + b))"
  by (simp only: fval_add.simps f64_add_int)

lemma fval_sub_int:
  assumes "\<bar>a - b\<bar> < 2 ^ 53"
  shows "fval_sub (Fin (of_int a)) (Fin (of_int b)) = Fin (of_int (a - b))"
  using fval_add_int [of a "- b"] assms by (simp add: fval_sub_def)

lemma f64_of_int_exact: "\<bar>n\<bar> < 2 ^ 53 \<Longrightarrow> f64_of_int n = of_int n"
  using fround_int [of n 53] by (simp add: f64_of_int_def)

text \<open>
  A quotient of two counts, each rounded to \<open>f32\<close>, is the quotient of the counts up to a relative error
  of \<open>2 ^ -22\<close>, and it is exact when it is an integer and the counts have at most 24 bits.
\<close>

lemma abs_within:
  fixes x y u :: rat
  assumes "\<bar>x - y\<bar> \<le> y * u"
  shows "y * (1 - u) \<le> x" "x \<le> y * (1 + u)"
  using assms by (simp_all add: right_diff_distrib distrib_left abs_le_iff)

lemma f32_div_error:
  assumes "0 < b"
  obtains v where "f32_div (f32_of_usize a) (f32_of_usize b) = Fin v"
    "\<bar>v - of_nat a / of_nat b\<bar> \<le> of_nat a / of_nat b / 2 ^ 22"
proof -
  let ?u = "1 / 2 ^ 24 :: rat" and ?a = "of_nat a :: rat" and ?b = "of_nat b :: rat"
  define a' where "a' = f32_of_usize a"
  define b' where "b' = f32_of_usize b"
  define v where "v = fround 24 (a' / b')"
  have b0: "1 \<le> ?b" using assms by simp
  have ea: "\<bar>a' - ?a\<bar> \<le> ?a * ?u" and eb: "\<bar>b' - ?b\<bar> \<le> ?b * ?u"
    using fround_error [of 24 ?a] fround_error [of 24 ?b] by (simp_all add: a'_def b'_def f32_of_usize_def)
  have b': "?b * (1 - ?u) \<le> b'" "b' \<le> ?b * (1 + ?u)" using abs_within [OF eb] .
  have a': "?a * (1 - ?u) \<le> a'" "a' \<le> ?a * (1 + ?u)" using abs_within [OF ea] .
  have bpos: "0 < b'" using b'(1) b0 by (simp add: field_simps)
  have "f32_div a' b' = Fin v" using bpos by (simp add: f32_div_def v_def)
  moreover have "\<bar>v - ?a / ?b\<bar> \<le> ?a / ?b / 2 ^ 22"
  proof -
    define q where "q = ?a / ?b"
    have q: "?a = q * ?b" "0 \<le> q" using b0 by (simp_all add: q_def)
    have lo: "q * (1 - ?u) / (1 + ?u) \<le> a' / b'"
    proof -
      have "q * (1 - ?u) / (1 + ?u) * b' \<le> q * (1 - ?u) / (1 + ?u) * (?b * (1 + ?u))"
        by (rule mult_left_mono [OF b'(2)]) (use q(2) in simp)
      also have "\<dots> = ?a * (1 - ?u)" by (simp add: q(1))
      also have "\<dots> \<le> a'" by (rule a'(1))
      finally show ?thesis using bpos by (simp add: pos_le_divide_eq)
    qed
    have hi: "a' / b' \<le> q * (1 + ?u) / (1 - ?u)"
    proof -
      have "a' \<le> ?a * (1 + ?u)" by (rule a'(2))
      also have "\<dots> = q * (1 + ?u) / (1 - ?u) * (?b * (1 - ?u))" by (simp add: q(1))
      also have "\<dots> \<le> q * (1 + ?u) / (1 - ?u) * b'"
        by (rule mult_left_mono [OF b'(1)]) (use q(2) in simp)
      finally show ?thesis using bpos by (simp add: pos_divide_le_eq)
    qed
    have nn: "0 \<le> a' / b'" using a'(1) bpos by simp
    have "\<bar>v - a' / b'\<bar> \<le> a' / b' * ?u" using fround_error [of 24 "a' / b'"] nn by (simp add: v_def)
    from abs_within [OF this] have "a' / b' * (1 - ?u) \<le> v" "v \<le> a' / b' * (1 + ?u)" .
    moreover have "q * (1 - ?u) / (1 + ?u) * (1 - ?u) \<le> a' / b' * (1 - ?u)"
      by (rule mult_right_mono [OF lo]) simp
    moreover have "a' / b' * (1 + ?u) \<le> q * (1 + ?u) / (1 - ?u) * (1 + ?u)"
      by (rule mult_right_mono [OF hi]) simp
    moreover have "q - q / 2 ^ 22 \<le> q * (1 - ?u) / (1 + ?u) * (1 - ?u)"
      "q * (1 + ?u) / (1 - ?u) * (1 + ?u) \<le> q + q / 2 ^ 22"
      using q(2) by (simp_all add: field_simps)
    ultimately have "q - q / 2 ^ 22 \<le> v" "v \<le> q + q / 2 ^ 22" by linarith+
    then have "\<bar>v - q\<bar> \<le> q / 2 ^ 22" unfolding abs_le_iff by linarith
    then show ?thesis by (simp only: q_def)
  qed
  ultimately show thesis using that by (simp add: a'_def b'_def)
qed

lemma f32_div_exact:
  assumes "0 < b" "k * b < 2 ^ 24" "b < 2 ^ 24" 
  shows "f32_div (f32_of_usize (k * b)) (f32_of_usize b) = Fin (of_nat k)"
proof -
  have "k \<le> k * b" using assms(1) by simp
  then have k: "k < 2 ^ 24" using assms(2) by linarith
  have "f32_of_usize (k * b) = of_nat (k * b)" "f32_of_usize b = of_nat b"
    unfolding f32_of_usize_def by (rule fround_nat, fact)+
  then show ?thesis using assms(1) fround_nat [OF k] by (simp add: f32_div_def)
qed

end
