(* ===== verification/SysUtils.thy ===== *)
theory SysUtils
  imports Floats Utf8
begin

text \<open>
  \<open>common/src/sys_utils.rs\<close>: the name of the host and the number of processors, with the limits a
  control group puts on them. The host is a value the functions read: the environment, the texts of
  the files, the kinds of the paths and what the C library and the scheduler report. The numbers in
  the files are read with \<open>str::parse\<close>, and the limits are \<open>f32\<close> quotients.
\<close>

subsection \<open>Strings of the standard library\<close>

text \<open>The characters with the Unicode property \<open>White_Space\<close>.\<close>

definition is_whitespace :: "nat \<Rightarrow> bool" where
  "is_whitespace c \<longleftrightarrow>
     (9 \<le> c \<and> c \<le> 13) \<or> c = 32 \<or> c = 133 \<or> c = 160 \<or> c = 5760 \<or> (8192 \<le> c \<and> c \<le> 8202) \<or>
     c = 8232 \<or> c = 8233 \<or> c = 8239 \<or> c = 8287 \<or> c = 12288"

definition trim :: "rstr \<Rightarrow> rstr" where
  "trim s = rev (dropWhile is_whitespace (rev (dropWhile is_whitespace s)))"

fun ws_pieces :: "rstr \<Rightarrow> rstr \<Rightarrow> rstr list" where
  "ws_pieces cur [] = [rev cur]"
| "ws_pieces cur (c # cs) = (if is_whitespace c then rev cur # ws_pieces [] cs else ws_pieces (c # cur) cs)"

definition split_whitespace :: "rstr \<Rightarrow> rstr list" where
  "split_whitespace s = filter (\<lambda>p. p \<noteq> []) (ws_pieces [] s)"

text \<open>\<open>parse::<usize>\<close>: an optional plus sign, at least one digit, no overflow.\<close>

fun parse_digits :: "nat \<Rightarrow> rstr \<Rightarrow> nat option" where
  "parse_digits acc [] = Some acc"
| "parse_digits acc (c # cs) =
     (if 48 \<le> c \<and> c \<le> 57 \<and> acc * 10 + (c - 48) < 2 ^ 64 then parse_digits (acc * 10 + (c - 48)) cs else None)"

definition parse_usize :: "rstr \<Rightarrow> nat option" where
  "parse_usize s =
     (let ds = (case s of c # r \<Rightarrow> if c = 43 then r else s | [] \<Rightarrow> s) in
      if ds = [] then None else parse_digits 0 ds)"

subsection \<open>The host\<close>

record host =
  h_os :: string
  h_env :: "string \<Rightarrow> rstr option"
  h_read :: "string \<Rightarrow> io_error + rstr"
  h_is_dir :: "string \<Rightarrow> bool"
  h_exists :: "string \<Rightarrow> bool"
  h_host_name_max :: nat
  h_gethostname :: "nat \<Rightarrow> bytes option"
  h_parallelism :: "nat option"

text \<open>\<open>read_to_string\<close>: an error covers a missing file and one that is not UTF-8.\<close>

definition read_to_string :: "host \<Rightarrow> string \<Rightarrow> rstr result" where
  "read_to_string h path = (case h_read h path of Inr content \<Rightarrow> Ok content | Inl e \<Rightarrow> Err e)"

definition V1_CPU_QUOTA_PATH :: string where
  "V1_CPU_QUOTA_PATH = ''/sys/fs/cgroup/cpu/cpu.cfs_quota_us''"

definition V1_CPU_PERIOD_PATH :: string where
  "V1_CPU_PERIOD_PATH = ''/sys/fs/cgroup/cpu/cpu.cfs_period_us''"

definition V2_CPU_LIMIT_PATH :: string where
  "V2_CPU_LIMIT_PATH = ''/sys/fs/cgroup/cpu.max''"

definition CGROUP_ROOT_HIERARCYHY :: string where
  "CGROUP_ROOT_HIERARCYHY = ''/sys/fs/cgroup''"

definition CGROUP_V2_CONTROLLER_LIST_PATH :: string where
  "CGROUP_V2_CONTROLLER_LIST_PATH = ''/sys/fs/cgroup/cgroup.controllers''"

datatype CollectResource = Cpu | Memory

datatype CGroupVersion = V1 | V2

definition parse_controller_enable_file_for_cgroup_v2 :: "host \<Rightarrow> string \<Rightarrow> string \<Rightarrow> bool" where
  "parse_controller_enable_file_for_cgroup_v2 h file_path collect_name =
     (case read_to_string h file_path of
        Ok controller_string \<Rightarrow> list_ex (\<lambda>controller. controller = lit collect_name) (split_whitespace controller_string)
      | _ \<Rightarrow> False)"

definition invalid_data :: "string \<Rightarrow> 'a option \<Rightarrow> 'a result" where
  "invalid_data msg x = (case x of Some a \<Rightarrow> Ok a | None \<Rightarrow> Err (IoError InvalidData msg))"

definition read_file_usize :: "host \<Rightarrow> string \<Rightarrow> nat result" where
  "read_file_usize h file_path =
     rbind (read_to_string h file_path) (\<lambda>content. invalid_data ''failed to parse'' (parse_usize (trim content)))"

definition is_linux :: "host \<Rightarrow> bool" where
  "is_linux h \<longleftrightarrow> h_os h = ''linux''"

text \<open>
  \<open>gethostname\<close> fills a buffer of one byte more than the longest name; \<open>into_string().unwrap()\<close> panics
  on a name that is not UTF-8.
\<close>

definition hostname :: "host \<Rightarrow> rstr result" where
  "hostname h =
     (case h_env h ''SQL_PROXY_POD_NAME'' of
        Some name \<Rightarrow> Ok name
      | None \<Rightarrow>
          (case h_gethostname h (h_host_name_max h + 1) of
             None \<Rightarrow> Ok (lit ''_NONE_HOSTNAME'')
           | Some buffer \<Rightarrow> unwrap_opt (utf8_decode (takeWhile (\<lambda>b. b \<noteq> 0) buffer))))"

definition has_cgroup :: "host \<Rightarrow> bool" where
  "has_cgroup h \<longleftrightarrow> h_is_dir h CGROUP_ROOT_HIERARCYHY"

definition is_container :: "host \<Rightarrow> bool" where
  "is_container h \<longleftrightarrow>
     h_env h ''SQL_PROXY_CONTAINER'' \<noteq> None \<or> h_exists h ''/.dockerenv'' \<or>
     h_exists h ''/var/run/secrets/kubernetes.io''"

definition cgroup_version :: "host \<Rightarrow> CGroupVersion" where
  "cgroup_version h = (if h_exists h CGROUP_V2_CONTROLLER_LIST_PATH then V2 else V1)"

definition controller_activated :: "host \<Rightarrow> CollectResource \<Rightarrow> CGroupVersion \<Rightarrow> bool" where
  "controller_activated h collect_resource version =
     (let controller_name = (case collect_resource of Cpu \<Rightarrow> ''cpu'' | Memory \<Rightarrow> ''memory'') in
      case version of
        V1 \<Rightarrow> h_is_dir h (CGROUP_ROOT_HIERARCYHY @ ''/'' @ controller_name)
      | V2 \<Rightarrow> parse_controller_enable_file_for_cgroup_v2 h CGROUP_V2_CONTROLLER_LIST_PATH controller_name)"

subsection \<open>Processors\<close>

definition sys_cpu :: "host \<Rightarrow> fval result" where
  "sys_cpu h = rbind (unwrap_opt (h_parallelism h)) (\<lambda>n. Ok (Fin (f32_of_usize n)))"

definition get_container_cpu_limit_v2 :: "host \<Rightarrow> string \<Rightarrow> fval \<Rightarrow> fval result" where
  "get_container_cpu_limit_v2 h limit_path max_value =
     rbind (read_to_string h limit_path) (\<lambda>cpu_limit_string.
       case split_whitespace cpu_limit_string of
         quota # period # _ \<Rightarrow>
           if quota = lit ''max'' then Ok max_value
           else
             rbind (invalid_data ''failed to parse'' (parse_usize quota)) (\<lambda>cpu_quota.
             rbind (invalid_data ''failed to parse'' (parse_usize period)) (\<lambda>cpu_period.
               Ok (f32_div (f32_of_usize cpu_quota) (f32_of_usize cpu_period))))
       | _ \<Rightarrow> Err (IoError InvalidData ''Invalid format in Cgroup CPU interface file''))"

definition get_container_cpu_limit_v1 :: "host \<Rightarrow> string \<Rightarrow> string \<Rightarrow> fval \<Rightarrow> fval result" where
  "get_container_cpu_limit_v1 h quota_path period_path max_value =
     rbind (read_to_string h quota_path) (\<lambda>content.
       if trim content = lit ''max'' then Ok max_value
       else
         rbind (invalid_data ''not a number'' (parse_usize (trim content))) (\<lambda>cpu_quota.
         rbind (read_file_usize h period_path) (\<lambda>cpu_period.
           Ok (f32_div (f32_of_usize cpu_quota) (f32_of_usize cpu_period)))))"

definition get_container_cpu :: "host \<Rightarrow> CGroupVersion \<Rightarrow> fval result" where
  "get_container_cpu h version =
     rbind (sys_cpu h) (\<lambda>max_cpu.
       case version of
         V1 \<Rightarrow> get_container_cpu_limit_v1 h V1_CPU_QUOTA_PATH V1_CPU_PERIOD_PATH max_cpu
       | V2 \<Rightarrow> get_container_cpu_limit_v2 h V2_CPU_LIMIT_PATH max_cpu)"

definition get_total_cpu :: "host \<Rightarrow> fval result" where
  "get_total_cpu h =
     (if is_linux h \<or> is_container h \<or> has_cgroup h then sys_cpu h
      else
        let version = cgroup_version h in
        if \<not> controller_activated h Cpu version then sys_cpu h
        else (case get_container_cpu h version of Err e \<Rightarrow> sys_cpu h | r \<Rightarrow> r))"

subsection \<open>Reading numbers\<close>

lemma digits_chars: "list_all (\<lambda>c. 48 \<le> c \<and> c \<le> 57) (digits n)"
proof (induction n rule: digits.induct)
  case (1 n)
  have "n mod 10 \<le> 9" by linarith
  then show ?case using 1 by (subst digits.simps) simp
qed

lemma digits_not_Nil [simp]: "digits n \<noteq> []"
  by (subst digits.simps) simp

lemma parse_digits_append:
  "parse_digits acc (xs @ ys) = Option.bind (parse_digits acc xs) (\<lambda>v. parse_digits v ys)"
proof (induction xs arbitrary: acc)
  case (Cons c xs)
  show ?case
    by (cases "48 \<le> c \<and> c \<le> 57 \<and> acc * 10 + (c - 48) < 2 ^ 64")
      (simp_all only: append_Cons parse_digits.simps Cons.IH if_True if_False Option.bind.simps simp_thms)
qed simp

lemma parse_digits_digits: "n < 2 ^ 64 \<Longrightarrow> parse_digits 0 (digits n) = Some n"
proof (induction n rule: digits.induct)
  case (1 n)
  show ?case
  proof (cases "n < 10")
    case True
    then show ?thesis by (subst digits.simps) simp
  next
    case False
    have "n div 10 < 2 ^ 64" by (rule le_less_trans [OF div_le_dividend 1(2)])
    then have "parse_digits 0 (digits (n div 10)) = Some (n div 10)" by (rule 1(1) [OF False])
    moreover have "parse_digits (n div 10) [48 + n mod 10] = Some n"
      using 1(2) by (simp only: parse_digits.simps) simp
    ultimately show ?thesis using False
      by (subst digits.simps) (simp only: if_False parse_digits_append Option.bind.bind_lunit)
  qed
qed

lemma parse_usize_digits: "n < 2 ^ 64 \<Longrightarrow> parse_usize (digits n) = Some n"
proof -
  assume n: "n < 2 ^ 64"
  obtain c cs where d: "digits n = c # cs" by (cases "digits n") simp_all
  then have "c \<noteq> 43" using digits_chars [of n] by auto
  then show ?thesis using parse_digits_digits [OF n] by (simp add: parse_usize_def d del: parse_digits.simps)
qed

lemma parse_digits_bound: "acc < 2 ^ 64 \<Longrightarrow> parse_digits acc s = Some n \<Longrightarrow> n < 2 ^ 64"
  by (induction acc s rule: parse_digits.induct) (auto split: if_splits)

lemma parse_usize_bound: "parse_usize s = Some n \<Longrightarrow> n < 2 ^ 64"
  using parse_digits_bound [of 0] by (auto simp: parse_usize_def Let_def split: if_splits)

lemma digits_no_whitespace: "list_all (\<lambda>c. \<not> is_whitespace c) (digits n)"
  using digits_chars [of n] by (auto simp: list_all_iff is_whitespace_def)

lemma trim_line:
  assumes "list_all (\<lambda>c. \<not> is_whitespace c) w"
  shows "trim (w @ [10]) = w"
proof -
  have *: "dropWhile is_whitespace v = v" if "set v \<subseteq> set w" for v
    using that assms by (cases v) (auto simp: list_all_iff)
  show ?thesis
  proof (cases w)
    case (Cons c cs)
    then have "dropWhile is_whitespace (w @ [10]) = w @ [10]" using assms by simp
    then show ?thesis using * [of "rev w"] by (simp add: trim_def is_whitespace_def [of 10])
  qed (simp add: trim_def is_whitespace_def)
qed

lemma ws_pieces_word:
  "list_all (\<lambda>c. \<not> is_whitespace c) w \<Longrightarrow> ws_pieces cur (w @ r) = ws_pieces (rev w @ cur) r"
  by (induction w arbitrary: cur) simp_all

lemma split_whitespace_words:
  assumes "list_all (\<lambda>c. \<not> is_whitespace c) v" "list_all (\<lambda>c. \<not> is_whitespace c) w" "v \<noteq> []" "w \<noteq> []"
  shows "split_whitespace (v @ 32 # w @ [10]) = [v, w]"
  using assms ws_pieces_word [of v "[]" "32 # w @ [10]"] ws_pieces_word [of w "[]" "[10]"]
  by (simp add: split_whitespace_def is_whitespace_def [of 32] is_whitespace_def [of 10])

lemma digits_not_max: "digits n \<noteq> lit ''max''"
  using digits_chars [of n] by (auto simp: lit_def)

lemmas digits_text = digits_no_whitespace digits_not_max parse_usize_digits trim_line split_whitespace_words

subsection \<open>The host name\<close>

text \<open>The name the C library puts before a NUL byte is the name of the host.\<close>

lemma hostname_gethostname:
  assumes "h_env h ''SQL_PROXY_POD_NAME'' = None" "list_all is_scalar name" "0 \<notin> set name"
    and "h_gethostname h (h_host_name_max h + 1) = Some (utf8_encode name @ 0 # rest)"
  shows "hostname h = Ok name"
proof -
  have "0 \<notin> set (utf8_encode name)" using utf8_no_ascii [OF assms(2,3)] by simp
  then have "takeWhile (\<lambda>b. b \<noteq> 0) (utf8_encode name @ 0 # rest) = utf8_encode name"
    by (subst takeWhile_append2) auto
  then show ?thesis using assms by (simp add: hostname_def utf8_decode_encode)
qed

subsection \<open>Processors of a control group\<close>

text \<open>
  The two versions of the interface give the same limit: a quota and a period, written as the kernel
  writes them.
\<close>

lemma container_cpu_v2:
  assumes "h_parallelism h = Some n" "quota < 2 ^ 64" "period < 2 ^ 64"
    and "read_to_string h V2_CPU_LIMIT_PATH = Ok (digits quota @ 32 # digits period @ [10])"
  shows "get_container_cpu h V2 = Ok (f32_div (f32_of_usize quota) (f32_of_usize period))"
  using assms by (simp add: get_container_cpu_def get_container_cpu_limit_v2_def sys_cpu_def invalid_data_def digits_text)

lemma container_cpu_v1:
  assumes "h_parallelism h = Some n" "quota < 2 ^ 64" "period < 2 ^ 64"
    and "read_to_string h V1_CPU_QUOTA_PATH = Ok (digits quota @ [10])"
    and "read_to_string h V1_CPU_PERIOD_PATH = Ok (digits period @ [10])"
  shows "get_container_cpu h V1 = Ok (f32_div (f32_of_usize quota) (f32_of_usize period))"
  using assms by (simp add: get_container_cpu_def get_container_cpu_limit_v1_def read_file_usize_def sys_cpu_def
      invalid_data_def digits_text)

text \<open>Without a limit the number of processors is used; version 1 writes \<open>-1\<close>, which is refused.\<close>

lemma container_cpu_max:
  assumes "h_parallelism h = Some n" "read_to_string h V2_CPU_LIMIT_PATH = Ok (lit ''max'' @ 32 # digits period @ [10])"
  shows "get_container_cpu h V2 = sys_cpu h"
proof -
  have "list_all (\<lambda>c. \<not> is_whitespace c) (lit ''max'')" by (simp add: lit_def is_whitespace_def)
  then have "split_whitespace (lit ''max'' @ 32 # digits period @ [10]) = [lit ''max'', digits period]"
    by (rule split_whitespace_words) (simp_all add: digits_no_whitespace lit_def)
  then show ?thesis
    using assms by (simp add: get_container_cpu_def get_container_cpu_limit_v2_def sys_cpu_def)
qed

lemma container_cpu_v1_unlimited:
  assumes "h_parallelism h = Some n" "read_to_string h V1_CPU_QUOTA_PATH = Ok (lit ''-1'' @ [10])"
  shows "get_container_cpu h V1 = Err (IoError InvalidData ''not a number'')"
proof -
  have "trim (lit ''-1'' @ [10]) = lit ''-1''"
    by (rule trim_line) (simp add: lit_def is_whitespace_def)
  moreover have "parse_usize (lit ''-1'') = None" by (simp add: parse_usize_def lit_def)
  ultimately show ?thesis using assms
    by (simp add: get_container_cpu_def get_container_cpu_limit_v1_def sys_cpu_def invalid_data_def lit_def)
qed

text \<open>
  The limit is used on no host that has one: \<open>get_total_cpu\<close> returns the number of processors wherever
  the operating system is Linux or the hierarchy of control groups is mounted.
\<close>

definition host_consistent :: "host \<Rightarrow> bool" where
  "host_consistent h \<longleftrightarrow>
     (\<forall>path \<in> {V1_CPU_QUOTA_PATH, V1_CPU_PERIOD_PATH, V2_CPU_LIMIT_PATH, CGROUP_V2_CONTROLLER_LIST_PATH}.
        is_ok (read_to_string h path) \<longrightarrow> h_is_dir h CGROUP_ROOT_HIERARCYHY)"

lemma read_to_string_cases: "is_ok (read_to_string h path) \<or> (\<exists>e. read_to_string h path = Err e)"
  by (simp add: read_to_string_def split: sum.split)

lemma cgroup_limits_unused:
  assumes "host_consistent h"
  shows "get_total_cpu h = sys_cpu h"
proof (cases "has_cgroup h")
  case False
  then have err: "\<exists>e. read_to_string h path = Err e"
    if "path \<in> {V1_CPU_QUOTA_PATH, V1_CPU_PERIOD_PATH, V2_CPU_LIMIT_PATH, CGROUP_V2_CONTROLLER_LIST_PATH}" for path
    using assms that read_to_string_cases [of h path] by (auto simp: host_consistent_def has_cgroup_def)
  obtain e1 e2 where "read_to_string h V1_CPU_QUOTA_PATH = Err e1" "read_to_string h V2_CPU_LIMIT_PATH = Err e2"
    using err by blast
  then have "get_container_cpu h version = (case sys_cpu h of Ok n \<Rightarrow> Err (if version = V1 then e1 else e2) | r \<Rightarrow> r)"
    for version
    by (cases version; cases "h_parallelism h")
      (simp_all add: get_container_cpu_def get_container_cpu_limit_v1_def get_container_cpu_limit_v2_def sys_cpu_def)
  then show ?thesis
    by (cases "h_parallelism h") (simp_all add: get_total_cpu_def sys_cpu_def Let_def)
qed (simp add: get_total_cpu_def)

end
