(* ===== verification/Metrics.thy ===== *)
theory Metrics
  imports SysUtils Constants Concurrent
begin

text \<open>
  \<open>common/src/metrics\<close>: the metrics of the proxy, the global recorder, gauges and timers, and the
  collector of the figures of the process. The \<open>metrics\<close> crates that keep the values are a parameter, a
  record of operations on a recorder of unknown type; what the code relies on is the locale
  \<open>metrics_spec\<close>. Until a recorder is installed the macros of the crate do nothing.
\<close>

subsection \<open>Definitions of metrics\<close>

datatype MetricType = Gauge | Counter | Histogram

type_synonym labels = "(string \<times> rstr) list"
type_synonym metric_key = "string \<times> labels"

definition PROCESS_MEM_RSS_SIZE :: string where
  "PROCESS_MEM_RSS_SIZE = ''proxy_process_mem_rss_bytes''"

definition PROCESS_VIRTUAL_MEM_SIZE :: string where
  "PROCESS_VIRTUAL_MEM_SIZE = ''proxy_process_mem_virtual_bytes''"

definition CPU_CORE_NUM :: string where
  "CPU_CORE_NUM = ''proxy_process_cpu_core_num''"

definition CPU_TOTAL :: string where
  "CPU_TOTAL = ''proxy_process_cpu_seconds_total''"

definition PROXY_MAX_CONN :: string where
  "PROXY_MAX_CONN = ''proxy_max_connections''"

definition PROXY_CURR_CONN :: string where
  "PROXY_CURR_CONN = ''proxy_curr_connections''"

definition PROXY_COM_LATENCY :: string where
  "PROXY_COM_LATENCY = ''proxy_com_latency''"

lemmas metric_names = PROCESS_MEM_RSS_SIZE_def PROCESS_VIRTUAL_MEM_SIZE_def CPU_CORE_NUM_def CPU_TOTAL_def
  PROXY_MAX_CONN_def PROXY_CURR_CONN_def PROXY_COM_LATENCY_def

text \<open>The variants carry the name, the description, the name again as a \<open>KeyName\<close>, and the type.\<close>

datatype MetricsConsts =
    ProcessRssMemSize string string string MetricType
  | ProcessVirtralMemSize string string string MetricType
  | CpuCoreNum string string string MetricType
  | CpuTotal string string string MetricType
  | ProxyMaxConnections string string string MetricType
  | ProxyCurrentConnections string string string MetricType
  | ProxyComLatency string string string MetricType

definition rss_mem_size :: MetricsConsts where
  "rss_mem_size = ProcessRssMemSize PROCESS_MEM_RSS_SIZE ''Process resident memory size in bytes'' PROCESS_MEM_RSS_SIZE Gauge"

definition virtual_mem_size :: MetricsConsts where
  "virtual_mem_size =
     ProcessVirtralMemSize PROCESS_VIRTUAL_MEM_SIZE ''Process virtual memory size in bytes'' PROCESS_VIRTUAL_MEM_SIZE Gauge"

definition cpu_core_num :: MetricsConsts where
  "cpu_core_num = CpuCoreNum CPU_CORE_NUM ''cpu core num.'' CPU_CORE_NUM Gauge"

definition cpu_total :: MetricsConsts where
  "cpu_total = CpuTotal CPU_TOTAL ''total user and system cpu time spend in seconds.'' CPU_TOTAL Gauge"

definition max_connections :: MetricsConsts where
  "max_connections =
     ProxyMaxConnections PROXY_MAX_CONN ''The max number of connections allowed by the Proxy.'' PROXY_MAX_CONN Gauge"

definition current_connections :: MetricsConsts where
  "current_connections =
     ProxyCurrentConnections PROXY_CURR_CONN ''The current connection count by the Proxy.'' PROXY_CURR_CONN Gauge"

definition com_latncy :: MetricsConsts where
  "com_latncy = ProxyComLatency PROXY_COM_LATENCY ''Latency of command execution.'' PROXY_COM_LATENCY Histogram"

definition list_all_metrics :: "MetricsConsts list" where
  "list_all_metrics =
     [rss_mem_size, virtual_mem_size, cpu_core_num, cpu_total, max_connections, current_connections, com_latncy]"

fun get_metrics_pair :: "MetricsConsts \<Rightarrow> string \<times> string \<times> string \<times> MetricType" where
  "get_metrics_pair (ProcessRssMemSize name desc key_name metrics_type) = (name, desc, key_name, metrics_type)"
| "get_metrics_pair (ProcessVirtralMemSize name desc key_name metrics_type) = (name, desc, key_name, metrics_type)"
| "get_metrics_pair (CpuCoreNum name desc key_name metrics_type) = (name, desc, key_name, metrics_type)"
| "get_metrics_pair (CpuTotal name desc key_name metrics_type) = (name, desc, key_name, metrics_type)"
| "get_metrics_pair (ProxyMaxConnections name desc key_name metrics_type) = (name, desc, key_name, metrics_type)"
| "get_metrics_pair (ProxyCurrentConnections name desc key_name metrics_type) = (name, desc, key_name, metrics_type)"
| "get_metrics_pair (ProxyComLatency name desc key_name metrics_type) = (name, desc, key_name, metrics_type)"

definition get_name :: "MetricsConsts \<Rightarrow> string" where
  "get_name m = fst (get_metrics_pair m)"

definition DEFAULT_BUCKETS :: "rat list" where
  "DEFAULT_BUCKETS =
     [100, 200, 400, 600, 800, 1000, 2000, 4000, 6000, 8000, 10000, 20000, 40000, 60000, 80000, 100000,
      200000, 400000, 600000, 800000, 1000000, 2000000, 4000000, 6000000, 8000000, 10000000]"

definition DEFAULT_QUANTILES :: "rat list" where
  "DEFAULT_QUANTILES = map (fround 53) [0, 1/2, 7/10, 8/10, 9/10, 95/100, 99/100, 999/1000, 1]"

subsection \<open>The crates\<close>

record 'r metrics_crate =
  mc_build :: "rat list \<Rightarrow> rat list \<Rightarrow> 'r option"
  mc_describe :: "MetricType \<Rightarrow> string \<Rightarrow> string \<Rightarrow> 'r \<Rightarrow> 'r"
  mc_gauge :: "'r \<Rightarrow> metric_key \<Rightarrow> fval"
  mc_set :: "metric_key \<Rightarrow> fval \<Rightarrow> 'r \<Rightarrow> 'r"
  mc_increment :: "metric_key \<Rightarrow> fval \<Rightarrow> 'r \<Rightarrow> 'r"
  mc_decrement :: "metric_key \<Rightarrow> fval \<Rightarrow> 'r \<Rightarrow> 'r"
  mc_record :: "metric_key \<Rightarrow> rat \<Rightarrow> 'r \<Rightarrow> 'r"
  mc_samples :: "'r \<Rightarrow> metric_key \<Rightarrow> rat list"

text \<open>
  Building a recorder fails only for an empty list of buckets or of quantiles. A gauge starts at zero,
  and an update changes the gauge or the histogram of its own key only.
\<close>

locale metrics_spec =
  fixes C :: "'r metrics_crate"
  assumes build: "quantiles \<noteq> [] \<Longrightarrow> buckets \<noteq> [] \<Longrightarrow> \<exists>r. mc_build C quantiles buckets = Some r"
    and build_gauge: "mc_build C quantiles buckets = Some r \<Longrightarrow> mc_gauge C r k = Fin 0"
    and build_samples: "mc_build C quantiles buckets = Some r \<Longrightarrow> mc_samples C r k = []"
    and gauge_describe: "mc_gauge C (mc_describe C t name desc r) = mc_gauge C r"
    and gauge_set: "mc_gauge C (mc_set C k v r) = (mc_gauge C r)(k := v)"
    and gauge_increment: "mc_gauge C (mc_increment C k v r) = (mc_gauge C r)(k := fval_add (mc_gauge C r k) v)"
    and gauge_decrement: "mc_gauge C (mc_decrement C k v r) = (mc_gauge C r)(k := fval_sub (mc_gauge C r k) v)"
    and gauge_record: "mc_gauge C (mc_record C k x r) = mc_gauge C r"
    and samples_describe: "mc_samples C (mc_describe C t name desc r) = mc_samples C r"
    and samples_set: "mc_samples C (mc_set C k v r) = mc_samples C r"
    and samples_increment: "mc_samples C (mc_increment C k v r) = mc_samples C r"
    and samples_decrement: "mc_samples C (mc_decrement C k v r) = mc_samples C r"
    and samples_record: "mc_samples C (mc_record C k x r) = (mc_samples C r)(k := mc_samples C r k @ [x])"
begin

lemmas gauge_laws = gauge_describe gauge_set gauge_increment gauge_decrement gauge_record

lemmas samples_laws = samples_describe samples_set samples_increment samples_decrement samples_record

end

text \<open>A recorder of two tables that meets the contract.\<close>

definition metrics_ref :: "((metric_key \<Rightarrow> fval) \<times> (metric_key \<Rightarrow> rat list)) metrics_crate" where
  "metrics_ref =
     \<lparr>mc_build = (\<lambda>quantiles buckets.
        if quantiles = [] \<or> buckets = [] then None else Some (\<lambda>_. Fin 0, \<lambda>_. [])),
      mc_describe = (\<lambda>t name desc r. r),
      mc_gauge = fst,
      mc_set = (\<lambda>k v (g, h). (g(k := v), h)),
      mc_increment = (\<lambda>k v (g, h). (g(k := fval_add (g k) v), h)),
      mc_decrement = (\<lambda>k v (g, h). (g(k := fval_sub (g k) v), h)),
      mc_record = (\<lambda>k x (g, h). (g, h(k := h k @ [x]))),
      mc_samples = snd\<rparr>"

interpretation metrics_ref: metrics_spec metrics_ref
  by unfold_locales (auto simp: metrics_ref_def split: if_splits)

subsection \<open>The global recorder\<close>

text \<open>
  The handle of the exporter shows the recorder it was made from: the installed one, or one that
  could not be installed because another was there before.
\<close>

datatype 'r handle = Attached | Detached 'r

datatype once = NotRun | Ran | Poisoned

record 'r metrics_ctx =
  mx_once :: once
  mx_recorder :: "'r option"
  mx_handle :: "'r handle option"

definition metrics_ctx_new :: "'r metrics_ctx" where
  "metrics_ctx_new = \<lparr>mx_once = NotRun, mx_recorder = None, mx_handle = None\<rparr>"

definition with_recorder :: "('r \<Rightarrow> 'r) \<Rightarrow> 'r metrics_ctx \<Rightarrow> 'r metrics_ctx" where
  "with_recorder f c = c\<lparr>mx_recorder := map_option f (mx_recorder c)\<rparr>"

definition describe_and_register_metrics ::
  "'r metrics_crate \<Rightarrow> MetricType \<Rightarrow> string \<Rightarrow> string \<Rightarrow> labels \<Rightarrow> 'r metrics_ctx \<Rightarrow> 'r metrics_ctx" where
  "describe_and_register_metrics C metric_type name desc _ = with_recorder (mc_describe C metric_type name desc)"

definition common_labels :: "host \<Rightarrow> labels result" where
  "common_labels h = rbind (hostname h) (\<lambda>name. Ok [(''node_name'', name)])"

definition init_process_metrics :: "'r metrics_crate \<Rightarrow> host \<Rightarrow> ('r metrics_ctx, unit) io" where
  "init_process_metrics C h =
     bind_io (fail_io (common_labels h)) (\<lambda>common c.
       (Ok (), fold (\<lambda>m. case get_metrics_pair m of (name, desc, _, metric_type) \<Rightarrow>
            describe_and_register_metrics C metric_type name desc common)
          [cpu_total, virtual_mem_size, cpu_core_num, rss_mem_size] c))"

definition init_metrics :: "'r metrics_crate \<Rightarrow> host \<Rightarrow> ('r metrics_ctx, unit) io" where
  "init_metrics C h c =
     (case mc_build C DEFAULT_QUANTILES DEFAULT_BUCKETS of
        None \<Rightarrow> (Panic, c)
      | Some recorder \<Rightarrow>
          (case mx_recorder c of
             None \<Rightarrow> init_process_metrics C h (c\<lparr>mx_recorder := Some recorder, mx_handle := Some Attached\<rparr>)
           | Some _ \<Rightarrow> (Ok (), c\<lparr>mx_handle := Some (Detached recorder)\<rparr>)))"

text \<open>\<open>Once::call_once\<close>: a panic of the initialisation poisons it.\<close>

definition init_metrics_context :: "'r metrics_crate \<Rightarrow> host \<Rightarrow> ('r metrics_ctx, unit) io" where
  "init_metrics_context C h c =
     (case mx_once c of
        Ran \<Rightarrow> (Ok (), c)
      | Poisoned \<Rightarrow> (Panic, c)
      | NotRun \<Rightarrow>
          (case init_metrics C h c of
             (Ok _, c') \<Rightarrow> (Ok (), c'\<lparr>mx_once := Ran\<rparr>)
           | (_, c') \<Rightarrow> (Panic, c'\<lparr>mx_once := Poisoned\<rparr>)))"

definition try_handle :: "'r metrics_ctx \<Rightarrow> 'r option" where
  "try_handle c =
     (case mx_handle c of
        None \<Rightarrow> None
      | Some Attached \<Rightarrow> mx_recorder c
      | Some (Detached r) \<Rightarrow> Some r)"

subsection \<open>Gauges and timers\<close>

definition metric_key_of :: "string \<Rightarrow> labels option \<Rightarrow> metric_key" where
  "metric_key_of name ls = (name, case ls of Some l \<Rightarrow> l | None \<Rightarrow> [])"

definition gauge :: "'r metrics_crate \<Rightarrow> string \<Rightarrow> fval \<Rightarrow> labels option \<Rightarrow> 'r metrics_ctx \<Rightarrow> 'r metrics_ctx" where
  "gauge C name val ls = with_recorder (mc_set C (metric_key_of name ls) val)"

definition gauge_inc :: "'r metrics_crate \<Rightarrow> string \<Rightarrow> fval \<Rightarrow> labels option \<Rightarrow> 'r metrics_ctx \<Rightarrow> 'r metrics_ctx" where
  "gauge_inc C name val ls = with_recorder (mc_increment C (metric_key_of name ls) val)"

definition gauge_dec :: "'r metrics_crate \<Rightarrow> string \<Rightarrow> fval \<Rightarrow> labels option \<Rightarrow> 'r metrics_ctx \<Rightarrow> 'r metrics_ctx" where
  "gauge_dec C name val ls = with_recorder (mc_decrement C (metric_key_of name ls) val)"

text \<open>
  A timer keeps the histogram it was made for; a histogram that is made while no recorder is
  installed records nothing.
\<close>

record MetricsTimer =
  mt_start :: nat
  mt_histogram :: "metric_key option"
  mt_observed :: bool

definition histogram :: "metric_key \<Rightarrow> 'r metrics_ctx \<Rightarrow> metric_key option" where
  "histogram k c = (if mx_recorder c = None then None else Some k)"

definition from_histogram :: "nat \<Rightarrow> metric_key option \<Rightarrow> MetricsTimer" where
  "from_histogram now k = \<lparr>mt_start = now, mt_histogram = k, mt_observed = False\<rparr>"

definition timer_new :: "nat \<Rightarrow> string \<Rightarrow> 'r metrics_ctx \<Rightarrow> MetricsTimer" where
  "timer_new now name c = \<lparr>mt_start = now, mt_histogram = histogram (name, []) c, mt_observed = False\<rparr>"

definition new_with_labels :: "nat \<Rightarrow> string \<Rightarrow> labels \<Rightarrow> 'r metrics_ctx \<Rightarrow> MetricsTimer" where
  "new_with_labels now name ls c = \<lparr>mt_start = now, mt_histogram = histogram (name, ls) c, mt_observed = False\<rparr>"

definition timer_elapsed :: "nat \<Rightarrow> MetricsTimer \<Rightarrow> nat" where
  "timer_elapsed now t = now - mt_start t"

definition timer_drop :: "'r metrics_crate \<Rightarrow> nat \<Rightarrow> MetricsTimer \<Rightarrow> 'r metrics_ctx \<Rightarrow> 'r metrics_ctx" where
  "timer_drop C now t c =
     (case mt_histogram t of
        Some k \<Rightarrow> if \<not> mt_observed t then with_recorder (mc_record C k (f64_of_int (int (timer_elapsed now t)))) c else c
      | None \<Rightarrow> c)"

definition discard :: "'r metrics_crate \<Rightarrow> nat \<Rightarrow> MetricsTimer \<Rightarrow> 'r metrics_ctx \<Rightarrow> 'r metrics_ctx" where
  "discard C now t = timer_drop C now (t\<lparr>mt_observed := True\<rparr>)"

subsection \<open>Figures of the process\<close>

text \<open>\<open>ShutdownMessage\<close> of \<open>common/src/lib.rs\<close>; the text of a cancellation is not used.\<close>

datatype ShutdownMessage = ShutdownInit | Cancel rstr

datatype GaugeValue = Absolute rat | Increment rat | Decrement rat

text \<open>A gauge that was registered while no recorder was installed is \<open>None\<close>.\<close>

record ProcessRecorder =
  pr_mem_rss :: "metric_key option"
  pr_mem_virtual_size :: "metric_key option"
  pr_cpu_total :: "metric_key option"
  pr_cpu_core_num :: "metric_key option"
  pr_cpu_total_value :: GaugeValue

definition register_process_metric ::
  "'r metrics_crate \<Rightarrow> MetricsConsts \<Rightarrow> labels \<Rightarrow> 'r metrics_ctx \<Rightarrow> metric_key option \<times> 'r metrics_ctx" where
  "register_process_metric C m ls c =
     (case get_metrics_pair m of (name, desc, _, _) \<Rightarrow>
        (if mx_recorder c = None then None else Some (name, ls), with_recorder (mc_describe C Gauge name desc) c))"

definition process_recorder_new ::
  "'r metrics_crate \<Rightarrow> labels \<Rightarrow> 'r metrics_ctx \<Rightarrow> ProcessRecorder \<times> 'r metrics_ctx" where
  "process_recorder_new C ls c0 =
     (let (mem_rss, c1) = register_process_metric C rss_mem_size ls c0;
          (mem_virtual_size, c2) = register_process_metric C virtual_mem_size ls c1;
          (total, c3) = register_process_metric C cpu_total ls c2;
          (core_num, c4) = register_process_metric C cpu_core_num ls c3 in
      (\<lparr>pr_mem_rss = mem_rss, pr_mem_virtual_size = mem_virtual_size, pr_cpu_total = total,
        pr_cpu_core_num = core_num, pr_cpu_total_value = Absolute 0\<rparr>, c4))"

record proc_stat =
  ps_vsize :: u64
  ps_rss :: u64
  ps_utime :: u64
  ps_stime :: u64

definition on_gauge :: "(metric_key \<Rightarrow> 'r \<Rightarrow> 'r) \<Rightarrow> metric_key option \<Rightarrow> ('r metrics_ctx, unit) io" where
  "on_gauge f k c = (Ok (), case k of Some k' \<Rightarrow> with_recorder (f k') c | None \<Rightarrow> c)"

text \<open>
  \<open>collect\<close> on Linux. \<open>stat\<close> is \<open>None\<close> when the figures cannot be read. The product with the page size and
  the sum of the times overflow as machine integers do; \<open>chk\<close> is a build with overflow checks. The
  method takes \<open>&self\<close>: \<open>update_value\<close> only computes a number, which is dropped, and
  \<open>cpu_total_value\<close> stays what it is.
\<close>

definition mul_i64 :: "bool \<Rightarrow> int \<Rightarrow> int \<Rightarrow> int result" where
  "mul_i64 chk a b =
     (if - (2 ^ 63) \<le> a * b \<and> a * b < 2 ^ 63 then Ok (a * b)
      else if chk then Panic else Ok (sint (word_of_int (a * b) :: u64)))"

definition collect ::
  "'r metrics_crate \<Rightarrow> bool \<Rightarrow> host \<Rightarrow> int \<Rightarrow> u64 \<Rightarrow> ProcessRecorder \<Rightarrow> proc_stat option \<Rightarrow> ('r metrics_ctx, unit) io" where
  "collect C chk h page_size clock_tick p stat =
     (case stat of
        None \<Rightarrow> return_io ()
      | Some st \<Rightarrow>
          bind_io (on_gauge (\<lambda>k. mc_set C k (Fin (f64_of_int (uint (ps_vsize st))))) (pr_mem_virtual_size p)) (\<lambda>_.
          bind_io (fail_io (mul_i64 chk (sint (ps_rss st)) page_size)) (\<lambda>rss.
          bind_io (on_gauge (\<lambda>k. mc_set C k (Fin (f64_of_int rss))) (pr_mem_rss p)) (\<lambda>_.
          bind_io (fail_io (rbind (add_chk chk (ps_utime st) (ps_stime st)) (\<lambda>ticks.
            if clock_tick = 0 then Panic else Ok (ticks div clock_tick)))) (\<lambda>total.
          let past = (case pr_cpu_total_value p of Absolute f \<Rightarrow> f | _ \<Rightarrow> 0) in
          bind_io (on_gauge (\<lambda>k. mc_increment C k (Fin (f64_sub (f64_of_int (uint total)) past))) (pr_cpu_total p)) (\<lambda>_.
          bind_io (fail_io (get_total_cpu h)) (\<lambda>cpus.
            on_gauge (\<lambda>k. mc_set C k cpus) (pr_cpu_core_num p))))))))"

text \<open>
  \<open>collect\<close> on macOS. The tick of the clock is 1 when the time base cannot be read; its fraction is
  divided as an integer.
\<close>

record task_info =
  ti_resident_size :: u64
  ti_virtual_size :: u64
  ti_total_user :: u64
  ti_total_system :: u64

definition collect_macos ::
  "'r metrics_crate \<Rightarrow> bool \<Rightarrow> host \<Rightarrow> (u32 \<times> u32) option \<Rightarrow> ProcessRecorder \<Rightarrow> task_info option \<Rightarrow> ('r metrics_ctx, unit) io" where
  "collect_macos C chk h timebase p info =
     bind_io (fail_io (case timebase of
         None \<Rightarrow> Ok 1
       | Some (numer, denom) \<Rightarrow> if denom = 0 then Panic else Ok (f64_of_int (uint (numer div denom))))) (\<lambda>clock_tick.
     case info of
       None \<Rightarrow> return_io ()
     | Some i \<Rightarrow>
         bind_io (on_gauge (\<lambda>k. mc_set C k (Fin (f64_of_int (uint (ti_resident_size i))))) (pr_mem_rss p)) (\<lambda>_.
         bind_io (on_gauge (\<lambda>k. mc_set C k (Fin (f64_of_int (uint (ti_virtual_size i))))) (pr_mem_virtual_size p)) (\<lambda>_.
         bind_io (fail_io (add_chk chk (ti_total_user i) (ti_total_system i))) (\<lambda>ticks.
         let total = fround 53 (f64_mul (f64_of_int (uint ticks)) clock_tick / 1000000000) in
         bind_io (on_gauge (\<lambda>k. mc_increment C k (Fin total)) (pr_cpu_total p)) (\<lambda>_.
         bind_io (fail_io (get_total_cpu h)) (\<lambda>cpus.
           on_gauge (\<lambda>k. mc_set C k cpus) (pr_cpu_core_num p)))))))"

text \<open>
  \<open>tokio::select!\<close> over two branches: they are polled in a random order, a branch that is not ready is
  \<open>None\<close>, and the task waits when neither is ready.
\<close>

definition select2 :: "bool \<Rightarrow> 'a option \<Rightarrow> 'a option \<Rightarrow> 'a option" where
  "select2 first_first a b =
     (if first_first then (case a of Some x \<Rightarrow> Some x | None \<Rightarrow> b)
      else (case b of Some x \<Rightarrow> Some x | None \<Rightarrow> a))"

text \<open>
  One iteration of \<open>start_auto_collect\<close>. The first branch asks a clone of the receiver whether there is a
  new message, without waiting, and panics when the sender is gone. The clone is never marked as
  seen; the message is read from the receiver itself.
\<close>

datatype wake = StopBranch bool | TickBranch

record poll =
  pl_stop_first :: bool
  pl_sender_alive :: bool
  pl_has_changed :: bool
  pl_message :: ShutdownMessage
  pl_tick :: bool
  pl_stat :: "proc_stat option"

datatype loop_state = Running | Waiting | Stopped | Panicked

definition auto_collect_step ::
  "'r metrics_crate \<Rightarrow> bool \<Rightarrow> host \<Rightarrow> int \<Rightarrow> u64 \<Rightarrow> ProcessRecorder \<Rightarrow> poll \<Rightarrow> 'r metrics_ctx \<Rightarrow> loop_state \<times> 'r metrics_ctx" where
  "auto_collect_step C chk h page_size clock_tick p pl c =
     (case select2 (pl_stop_first pl) (Some (StopBranch (pl_has_changed pl))) (if pl_tick pl then Some TickBranch else None) of
        None \<Rightarrow> (Waiting, c)
      | Some TickBranch \<Rightarrow>
          (case collect C chk h page_size clock_tick p (pl_stat pl) c of
             (Ok _, c') \<Rightarrow> (Running, c')
           | (_, c') \<Rightarrow> (Panicked, c'))
      | Some (StopBranch rs) \<Rightarrow>
          if \<not> pl_sender_alive pl then (Panicked, c)
          else if rs then (case pl_message pl of Cancel _ \<Rightarrow> (Stopped, c) | ShutdownInit \<Rightarrow> (Running, c))
          else (Running, c))"

fun start_auto_collect ::
  "'r metrics_crate \<Rightarrow> bool \<Rightarrow> host \<Rightarrow> int \<Rightarrow> u64 \<Rightarrow> ProcessRecorder \<Rightarrow> poll list \<Rightarrow> 'r metrics_ctx \<Rightarrow> loop_state \<times> 'r metrics_ctx" where
  "start_auto_collect C chk h page_size clock_tick p [] c = (Running, c)"
| "start_auto_collect C chk h page_size clock_tick p (pl # pls) c =
     (case auto_collect_step C chk h page_size clock_tick p pl c of
        (Running, c') \<Rightarrow> start_auto_collect C chk h page_size clock_tick p pls c'
      | (st, c') \<Rightarrow> (st, c'))"

subsection \<open>Names and builders\<close>

lemma metric_names_distinct: "distinct (map get_name list_all_metrics)"
  by (simp add: list_all_metrics_def get_name_def rss_mem_size_def virtual_mem_size_def cpu_core_num_def
      cpu_total_def max_connections_def current_connections_def com_latncy_def metric_names)

lemma get_metrics_pair_key: "m \<in> set list_all_metrics \<Longrightarrow> get_metrics_pair m = (name, desc, key_name, t) \<Longrightarrow> key_name = name"
  by (auto simp: list_all_metrics_def rss_mem_size_def virtual_mem_size_def cpu_core_num_def
      cpu_total_def max_connections_def current_connections_def com_latncy_def)

lemma buckets_increase: "sorted_wrt (<) DEFAULT_BUCKETS"
  by (simp add: DEFAULT_BUCKETS_def)

lemma with_recorder_Some [simp]: "mx_recorder c = Some r \<Longrightarrow> mx_recorder (with_recorder f c) = Some (f r)"
  by (simp add: with_recorder_def)

lemma with_recorder_None [simp]: "mx_recorder c = None \<Longrightarrow> mx_recorder (with_recorder f c) = None"
  by (simp add: with_recorder_def)

lemma with_recorder_once [simp]:
  "mx_once (with_recorder f c) = mx_once c" "mx_handle (with_recorder f c) = mx_handle c"
  by (simp_all add: with_recorder_def)

context metrics_spec
begin

text \<open>Initialising the metrics installs a recorder with empty gauges, which the handle shows.\<close>

lemma init_installs:
  assumes "mx_once c = NotRun" "mx_recorder c = None" "hostname h = Ok name"
  obtains c' r where "init_metrics_context C h c = (Ok (), c')" "mx_recorder c' = Some r" "try_handle c' = Some r"
    "mx_once c' = Ran" "\<And>k. mc_gauge C r k = Fin 0" "\<And>k. mc_samples C r k = []"
proof -
  have "DEFAULT_QUANTILES \<noteq> []" "DEFAULT_BUCKETS \<noteq> []"
    by (simp_all add: DEFAULT_QUANTILES_def DEFAULT_BUCKETS_def)
  then obtain r where r: "mc_build C DEFAULT_QUANTILES DEFAULT_BUCKETS = Some r" using build by blast
  let ?c = "c\<lparr>mx_recorder := Some r, mx_handle := Some Attached\<rparr>"
  let ?d = "\<lambda>m. describe_and_register_metrics C (snd (snd (snd (get_metrics_pair m)))) (get_name m)
    (fst (snd (get_metrics_pair m))) [(''node_name'', name)]"
  define c' where "c' = (fold ?d [cpu_total, virtual_mem_size, cpu_core_num, rss_mem_size] ?c)\<lparr>mx_once := Ran\<rparr>"
  have "init_metrics_context C h c = (Ok (), c')"
    using assms r by (simp add: init_metrics_context_def init_metrics_def init_process_metrics_def common_labels_def
        bind_io_def fail_io_def c'_def get_name_def split: prod.split)
  moreover obtain r' where "mx_recorder c' = Some r'" "mc_gauge C r' = mc_gauge C r" "mc_samples C r' = mc_samples C r"
    "mx_handle c' = Some Attached"
    by (simp add: c'_def describe_and_register_metrics_def gauge_describe samples_describe)
  ultimately show thesis
    using that [of c' r'] build_gauge [OF r] build_samples [OF r] by (simp add: try_handle_def c'_def)
qed

lemma gauge_dec_value:
  assumes "mx_recorder c = Some r" "mc_gauge C r (metric_key_of name ls) = Fin (of_int n)" "\<bar>n - 1\<bar> < 2 ^ 53"
  obtains r' where "mx_recorder (gauge_dec C name (Fin 1) ls c) = Some r'"
    "mc_gauge C r' = (mc_gauge C r)(metric_key_of name ls := Fin (of_int (n - 1)))" "mc_samples C r' = mc_samples C r"
  using that [of "mc_decrement C (metric_key_of name ls) (Fin 1) r"] assms fval_sub_int [of n 1]
  by (simp add: gauge_dec_def gauge_laws samples_laws)

text \<open>A timer records its time once, unless it is discarded.\<close>

lemma timer_drop_records:
  assumes "mx_recorder c = Some r"
  obtains r' where "mx_recorder (timer_drop C now (new_with_labels start name ls c) c) = Some r'"
    "mc_samples C r' = (mc_samples C r)((name, ls) := mc_samples C r (name, ls) @ [f64_of_int (int (now - start))])"
    "mc_gauge C r' = mc_gauge C r"
  using that [of "mc_record C (name, ls) (f64_of_int (int (now - start))) r"] assms
  by (simp add: timer_drop_def new_with_labels_def histogram_def timer_elapsed_def samples_record gauge_record)

lemma discard_records_nothing: "discard C now t c = c"
  by (simp add: discard_def timer_drop_def split: option.split)

end

subsection \<open>The collector\<close>

text \<open>A recorder that was made while the metrics are installed, with the labels \<open>ls\<close>.\<close>

definition process_recorder :: "labels \<Rightarrow> ProcessRecorder" where
  "process_recorder ls =
     \<lparr>pr_mem_rss = Some (PROCESS_MEM_RSS_SIZE, ls), pr_mem_virtual_size = Some (PROCESS_VIRTUAL_MEM_SIZE, ls),
      pr_cpu_total = Some (CPU_TOTAL, ls), pr_cpu_core_num = Some (CPU_CORE_NUM, ls), pr_cpu_total_value = Absolute 0\<rparr>"

lemma process_recorder_registered:
  assumes "mx_recorder c = Some r"
  shows "fst (process_recorder_new C ls c) = process_recorder ls"
  using assms by (simp add: process_recorder_new_def register_process_metric_def process_recorder_def
      rss_mem_size_def virtual_mem_size_def cpu_core_num_def cpu_total_def with_recorder_def)

lemma process_recorder_gauges:
  assumes "metrics_spec C" "mx_recorder c = Some r" "process_recorder_new C ls c = (p, c')"
  obtains r' where "mx_recorder c' = Some r'" "mc_gauge C r' = mc_gauge C r" "p = process_recorder ls"
proof -
  have "p = process_recorder ls" using process_recorder_registered [OF assms(2), of C ls] assms(3) by simp
  moreover have "\<exists>r'. mx_recorder c' = Some r' \<and> mc_gauge C r' = mc_gauge C r"
    using assms(2,3) metrics_spec.gauge_describe [OF assms(1)]
    by (auto simp: process_recorder_new_def register_process_metric_def Let_def with_recorder_def split: prod.splits)
  ultimately show thesis using that by blast
qed

definition cpu_seconds :: "u64 \<Rightarrow> proc_stat \<Rightarrow> int" where
  "cpu_seconds clock_tick st = uint ((ps_utime st + ps_stime st) div clock_tick)"

lemma collect_gauges:
  assumes "metrics_spec C" "mx_recorder c = Some r"
    and "collect C chk h page_size clock_tick (process_recorder ls) (Some st) c = (Ok (), c')"
  obtains r' rss cpus where "mx_recorder c' = Some r'" "get_total_cpu h = Ok cpus"
    "mc_gauge C r' = (mc_gauge C r)
       ((PROCESS_VIRTUAL_MEM_SIZE, ls) := Fin (f64_of_int (uint (ps_vsize st))),
        (PROCESS_MEM_RSS_SIZE, ls) := Fin (f64_of_int rss),
        (CPU_TOTAL, ls) := fval_add (mc_gauge C r (CPU_TOTAL, ls)) (Fin (f64_sub (f64_of_int (cpu_seconds clock_tick st)) 0)),
        (CPU_CORE_NUM, ls) := cpus)"
proof -
  note laws = metrics_spec.gauge_laws [OF assms(1)]
  obtain rss where rss: "mul_i64 chk (sint (ps_rss st)) page_size = Ok rss"
    using assms(3) by (auto simp: collect_def process_recorder_def bind_io_def fail_io_def on_gauge_def Let_def
        split: result.splits)
  have add: "add_chk chk (ps_utime st) (ps_stime st) = Ok (ps_utime st + ps_stime st)" and tick: "clock_tick \<noteq> 0"
    using assms(3) add_chk_cases [of chk "ps_utime st" "ps_stime st"]
    by (auto simp: collect_def process_recorder_def bind_io_def fail_io_def on_gauge_def Let_def rss
        split: result.splits if_splits)
  obtain cpus where cpus: "get_total_cpu h = Ok cpus"
    using assms(3) tick by (auto simp: collect_def process_recorder_def bind_io_def fail_io_def on_gauge_def Let_def rss add
        split: result.splits)
  have "mx_recorder c' = Some (mc_set C (CPU_CORE_NUM, ls) cpus
      (mc_increment C (CPU_TOTAL, ls) (Fin (f64_sub (f64_of_int (cpu_seconds clock_tick st)) 0))
      (mc_set C (PROCESS_MEM_RSS_SIZE, ls) (Fin (f64_of_int rss))
      (mc_set C (PROCESS_VIRTUAL_MEM_SIZE, ls) (Fin (f64_of_int (uint (ps_vsize st)))) r))))"
    using assms(2,3) tick
    by (auto simp: collect_def process_recorder_def bind_io_def fail_io_def on_gauge_def Let_def rss add cpus
        with_recorder_def cpu_seconds_def)
  then show thesis using that [of _ cpus rss] cpus by (simp add: laws metric_names)
qed

text \<open>
  The processor time of the gauge is the sum of everything that was ever read: each reading is the
  total since the start of the process, and each is added to the last.
\<close>

lemma collect_adds_total:
  assumes "metrics_spec C" "mx_recorder c = Some r" "mc_gauge C r (CPU_TOTAL, ls) = Fin (of_int n)"
    and "collect C chk h page_size clock_tick (process_recorder ls) (Some st) c = (Ok (), c')"
    and "0 \<le> n" "n + cpu_seconds clock_tick st < 2 ^ 53"
  obtains r' where "mx_recorder c' = Some r'" "mc_gauge C r' (CPU_TOTAL, ls) = Fin (of_int (n + cpu_seconds clock_tick st))"
proof -
  let ?s = "cpu_seconds clock_tick st"
  have s: "0 \<le> ?s" by (simp add: cpu_seconds_def)
  then have "f64_sub (f64_of_int ?s) 0 = of_int ?s"
    using f64_of_int_exact [of ?s] f64_sub_int [of ?s 0] assms(5,6) by simp
  moreover have "fval_add (Fin (of_int n)) (Fin (of_int ?s)) = Fin (of_int (n + ?s))"
    by (rule fval_add_int) (use s assms(5,6) in simp)
  moreover obtain r' cpus where "mx_recorder c' = Some r'"
    "mc_gauge C r' (CPU_TOTAL, ls) = fval_add (mc_gauge C r (CPU_TOTAL, ls)) (Fin (f64_sub (f64_of_int ?s) 0))"
  proof (rule collect_gauges [OF assms(1,2,4)])
    fix r' rss cpus
    assume r': "mx_recorder c' = Some r'"
      and g: "mc_gauge C r' = (mc_gauge C r)
       ((PROCESS_VIRTUAL_MEM_SIZE, ls) := Fin (f64_of_int (uint (ps_vsize st))),
        (PROCESS_MEM_RSS_SIZE, ls) := Fin (f64_of_int rss),
        (CPU_TOTAL, ls) := fval_add (mc_gauge C r (CPU_TOTAL, ls)) (Fin (f64_sub (f64_of_int ?s) 0)),
        (CPU_CORE_NUM, ls) := cpus)"
    have "CPU_CORE_NUM \<noteq> CPU_TOTAL" by (simp add: metric_names)
    then have "mc_gauge C r' (CPU_TOTAL, ls) = fval_add (mc_gauge C r (CPU_TOTAL, ls)) (Fin (f64_sub (f64_of_int ?s) 0))"
      unfolding g by simp
    with r' show ?thesis by (rule that)
  qed
  ultimately show thesis using assms(3) that by simp
qed

text \<open>The readings of the iterations in which the timer fires and is polled first.\<close>

definition readings :: "poll list \<Rightarrow> proc_stat list" where
  "readings pls = List.map_filter pl_stat (filter (\<lambda>pl. \<not> pl_stop_first pl \<and> pl_tick pl) pls)"

lemma readings_simps:
  "readings [] = []"
  "readings (pl # pls) =
     (if \<not> pl_stop_first pl \<and> pl_tick pl then (case pl_stat pl of Some st \<Rightarrow> st # readings pls | None \<Rightarrow> readings pls)
      else readings pls)"
  by (simp_all add: readings_def map_filter_simps split: option.split)

lemma auto_collect_step_cases:
  "auto_collect_step C chk h page_size clock_tick p pl c =
     (if \<not> pl_stop_first pl \<and> pl_tick pl then
        (case collect C chk h page_size clock_tick p (pl_stat pl) c of
           (Ok _, c') \<Rightarrow> (Running, c') | (_, c') \<Rightarrow> (Panicked, c'))
      else if \<not> pl_sender_alive pl then (Panicked, c)
      else if pl_has_changed pl \<and> pl_message pl \<noteq> ShutdownInit then (Stopped, c) else (Running, c))"
  by (simp add: auto_collect_step_def select2_def split: ShutdownMessage.split)

lemma auto_collect_accumulates:
  assumes "metrics_spec C" "mx_recorder c = Some r" "mc_gauge C r (CPU_TOTAL, ls) = Fin (of_int n)" "0 \<le> n"
    and "start_auto_collect C chk h page_size clock_tick (process_recorder ls) pls c = (Running, c')"
    and "n + sum_list (map (cpu_seconds clock_tick) (readings pls)) < 2 ^ 53"
  shows "\<exists>r'. mx_recorder c' = Some r' \<and>
    mc_gauge C r' (CPU_TOTAL, ls) = Fin (of_int (n + sum_list (map (cpu_seconds clock_tick) (readings pls))))"
  using assms(2-)
proof (induction pls arbitrary: c r n)
  case (Cons pl pls)
  let ?step = "auto_collect_step C chk h page_size clock_tick (process_recorder ls) pl c"
  obtain c1 where st: "?step = (Running, c1)"
    and rest: "start_auto_collect C chk h page_size clock_tick (process_recorder ls) pls c1 = (Running, c')"
    using Cons.prems(4) by (auto split: prod.splits loop_state.splits)
  show ?case
  proof (cases "\<not> pl_stop_first pl \<and> pl_tick pl \<and> pl_stat pl \<noteq> None")
    case True
    then obtain s where s: "pl_stat pl = Some s" by auto
    have nonneg: "0 \<le> cpu_seconds clock_tick s" "0 \<le> sum_list (map (cpu_seconds clock_tick) (readings pls))"
      by (auto simp: cpu_seconds_def intro!: sum_list_nonneg)
    have "collect C chk h page_size clock_tick (process_recorder ls) (Some s) c = (Ok (), c1)"
      using st True s by (auto simp: auto_collect_step_cases split: prod.splits result.splits)
    moreover have "n + cpu_seconds clock_tick s < 2 ^ 53"
      using Cons.prems(5) True s nonneg by (simp add: readings_simps)
    ultimately obtain r1 where "mx_recorder c1 = Some r1" "mc_gauge C r1 (CPU_TOTAL, ls) = Fin (of_int (n + cpu_seconds clock_tick s))"
      using collect_adds_total [OF assms(1) Cons.prems(1,2) _ Cons.prems(3)] by blast
    moreover have "readings (pl # pls) = s # readings pls" using True s by (simp add: readings_simps)
    ultimately show ?thesis
      using Cons.IH [of c1 r1 "n + cpu_seconds clock_tick s", OF _ _ _ rest] Cons.prems(3,5) nonneg(1)
      by (simp add: add.assoc)
  next
    case False
    then have "c1 = c" using st
      by (auto simp: auto_collect_step_cases collect_def return_io_def split: if_splits prod.splits)
    moreover have "readings (pl # pls) = readings pls" using False by (auto simp: readings_simps)
    ultimately show ?thesis using Cons.IH [OF Cons.prems(1-3) _ ] rest Cons.prems(5) by simp
  qed
qed (simp add: readings_simps)

text \<open>
  The first branch of the \<open>select!\<close> is always ready, so the task never waits: it goes round as fast as it
  is run, whether or not a tick is due. A cancellation ends it the next time that branch is polled.
\<close>

lemma auto_collect_never_waits:
  "fst (start_auto_collect C chk h page_size clock_tick p pls c) \<noteq> Waiting"
proof (induction pls arbitrary: c)
  case (Cons pl pls)
  have "fst (auto_collect_step C chk h page_size clock_tick p pl c) \<noteq> Waiting"
    by (auto simp: auto_collect_step_cases split: prod.split result.split)
  then show ?case using Cons.IH by (auto split: prod.split loop_state.split)
qed simp

lemma auto_collect_cancelled:
  assumes "pl_sender_alive pl" "pl_has_changed pl" "pl_message pl = Cancel m" "pl_stop_first pl \<or> \<not> pl_tick pl"
  shows "start_auto_collect C chk h page_size clock_tick p (pl # pls) c = (Stopped, c)"
  using assms by (auto simp: auto_collect_step_cases)

end
