(* ===== verification/Profiling.thy ===== *)
theory Profiling
  imports Metrics
begin

text \<open>
  \<open>common/src/profiling\<close>: the processor profiler (\<open>prof.rs\<close>), a flag and the sampling threads that watch
  it, and the heap profiler (\<open>head_profiler.rs\<close>). What \<open>pprof\<close>, \<open>jemalloc\<close> and the file system answer is
  an input of the operations. The threads run concurrently with the requests: the system is a step
  relation whose steps are the calls of \<open>start\<close> and \<open>stop\<close> and the moves of the threads.
\<close>

abbreviation anyhow :: "string \<Rightarrow> 'a result" where
  "anyhow msg \<equiv> Err (IoError (OtherIo 0) msg)"

subsection \<open>The processor profiler\<close>

text \<open>A sampling thread is about to read the flag, or takes a sample.\<close>

datatype sampler = Checking | Sampling

record Prof =
  pf_starting :: bool
  pf_threads :: "sampler list"

definition prof_default :: Prof where
  "prof_default = \<lparr>pf_starting = False, pf_threads = []\<rparr>"

text \<open>\<open>compare_exchange\<close>: the old value, as a success or as a failure, and the new one.\<close>

definition compare_exchange :: "bool \<Rightarrow> bool \<Rightarrow> bool \<Rightarrow> (bool + bool) \<times> bool" where
  "compare_exchange current new v = (if v = current then (Inr v, new) else (Inl v, v))"

text \<open>
  \<open>dir\<close> tells whether the directory of the profiles can be made. The thread is taken to be spawned; the
  code does not look at the result of spawning it.
\<close>

definition prof_sample :: "bool \<Rightarrow> Prof \<Rightarrow> unit result \<times> Prof" where
  "prof_sample dir s =
     (if dir then (Ok (), s\<lparr>pf_threads := pf_threads s @ [Checking]\<rparr>)
      else (anyhow ''ProxySrv CpuProfiler. Failed to create profile_path dir'', s))"

definition prof_start :: "bool \<Rightarrow> Prof \<Rightarrow> bool result \<times> Prof" where
  "prof_start dir s =
     (case compare_exchange False True (pf_starting s) of
        (Inr rs, v) \<Rightarrow>
          (if \<not> rs then
             (case prof_sample dir (s\<lparr>pf_starting := v\<rparr>) of
                (Ok _, s') \<Rightarrow> (Ok True, s')
              | (_, s') \<Rightarrow> (anyhow ''ProxySrv CpuProfiler start start profiler error'', s'))
           else (Ok False, s\<lparr>pf_starting := v\<rparr>))
      | (Inl _, v) \<Rightarrow> (Ok False, s\<lparr>pf_starting := v\<rparr>))"

definition prof_stop :: "Prof \<Rightarrow> bool result \<times> Prof" where
  "prof_stop s =
     (case compare_exchange True False (pf_starting s) of
        (Inr r, v) \<Rightarrow> (Ok r, s\<lparr>pf_starting := v\<rparr>)
      | (Inl _, v) \<Rightarrow> (Ok False, s\<lparr>pf_starting := v\<rparr>))"

text \<open>
  One move of a sampling thread: it reads the flag and leaves the loop or starts a sample, and it
  finishes a sample, or panics in one (\<open>unwrap\<close> of the guard, of the file and of the graph).
\<close>

definition sampler_step :: "bool \<Rightarrow> bool \<Rightarrow> sampler \<Rightarrow> sampler option" where
  "sampler_step starting panics t =
     (case t of
        Checking \<Rightarrow> if starting then (if panics then None else Some Sampling) else None
      | Sampling \<Rightarrow> if panics then None else Some Checking)"

definition replace_at :: "nat \<Rightarrow> 'a option \<Rightarrow> 'a list \<Rightarrow> 'a list" where
  "replace_at i x xs = take i xs @ (case x of Some y \<Rightarrow> [y] | None \<Rightarrow> []) @ drop (Suc i) xs"

datatype prof_event = Start bool "bool result" | Stop "bool result" | Move nat bool

inductive prof_step :: "Prof \<Rightarrow> prof_event \<Rightarrow> Prof \<Rightarrow> bool" where
  do_start: "prof_start dir s = (res, s') \<Longrightarrow> prof_step s (Start dir res) s'"
| do_stop: "prof_stop s = (res, s') \<Longrightarrow> prof_step s (Stop res) s'"
| do_move: "i < length (pf_threads s) \<Longrightarrow>
    prof_step s (Move i panics)
      (s\<lparr>pf_threads := replace_at i (sampler_step (pf_starting s) panics (pf_threads s ! i)) (pf_threads s)\<rparr>)"

inductive_cases start_stepE: "prof_step s (Start dir res) s'"
inductive_cases stop_stepE: "prof_step s (Stop res) s'"
inductive_cases move_stepE: "prof_step s (Move i panics) s'"

inductive prof_run :: "Prof \<Rightarrow> prof_event list \<Rightarrow> Prof \<Rightarrow> bool" where
  run_refl: "prof_run s [] s"
| run_step: "prof_step s e s' \<Longrightarrow> prof_run s' es s'' \<Longrightarrow> prof_run s (e # es) s''"

subsection \<open>Runs of the processor profiler\<close>

lemma prof_start_cases:
  "prof_start dir s =
     (if pf_starting s then (Ok False, s)
      else if dir then (Ok True, s\<lparr>pf_starting := True, pf_threads := pf_threads s @ [Checking]\<rparr>)
      else (anyhow ''ProxySrv CpuProfiler start start profiler error'', s\<lparr>pf_starting := True\<rparr>))"
  by (simp add: prof_start_def prof_sample_def compare_exchange_def)

lemma prof_stop_eq: "prof_stop s = (Ok (pf_starting s), s\<lparr>pf_starting := False\<rparr>)"
  by (simp add: prof_stop_def compare_exchange_def)

lemma length_replace_at:
  "i < length xs \<Longrightarrow> length (replace_at i x xs) = (case x of Some _ \<Rightarrow> length xs | None \<Rightarrow> length xs - 1)"
  by (simp add: replace_at_def split: option.split)

definition starts :: "prof_event list \<Rightarrow> nat" where
  "starts es = length (filter (\<lambda>e. \<exists>dir. e = Start dir (Ok True)) es)"

definition stops :: "prof_event list \<Rightarrow> nat" where
  "stops es = length (filter (\<lambda>e. e = Stop (Ok True)) es)"

definition moves :: "prof_event list \<Rightarrow> nat" where
  "moves es = length (filter (\<lambda>e. \<exists>i panics. e = Move i panics) es)"

text \<open>
  No more threads run than were started, and the starts and the stops that were answered with \<open>true\<close>
  take turns: the flag tells which of the two comes next.
\<close>

lemma prof_run_threads:
  "prof_run s es s' \<Longrightarrow> length (pf_threads s') \<le> length (pf_threads s) + starts es"
proof (induction rule: prof_run.induct)
  case (run_step s e s' es s'')
  have "length (pf_threads s') \<le> length (pf_threads s) + starts [e]"
    using run_step.hyps(1)
    by cases (auto simp: prof_start_cases prof_stop_eq starts_def length_replace_at split: if_splits option.split)
  moreover have "starts (e # es) = starts [e] + starts es" by (simp add: starts_def)
  ultimately show ?case using run_step.IH by simp
qed simp

lemma prof_run_turns:
  "prof_run s es s' \<Longrightarrow>
   starts es + (if pf_starting s then 1 else 0) \<le> stops es + (if pf_starting s' then 1 else 0)"
proof (induction rule: prof_run.induct)
  case (run_step s e s' es s'')
  have "starts [e] + (if pf_starting s then 1 else 0) \<le> stops [e] + (if pf_starting s' then 1 else 0)"
    using run_step.hyps(1)
    by cases (auto simp: prof_start_cases prof_stop_eq starts_def stops_def split: if_splits)
  moreover have "starts (e # es) = starts [e] + starts es" "stops (e # es) = stops [e] + stops es"
    by (simp_all add: starts_def stops_def)
  ultimately show ?case using run_step.IH by simp
qed (simp add: starts_def stops_def)

text \<open>
  After a stop, and while nobody starts the profiler again, no thread begins a sample, and every thread
  leaves its loop: each move uses up one of at most two steps a thread has left.
\<close>

definition sampler_steps :: "sampler \<Rightarrow> nat" where
  "sampler_steps t = (case t of Checking \<Rightarrow> 1 | Sampling \<Rightarrow> 2)"

definition sampling :: "Prof \<Rightarrow> nat" where
  "sampling s = length (filter (\<lambda>t. t = Sampling) (pf_threads s))"

lemma replace_at_steps:
  assumes "i < length xs" "case x of Some y \<Rightarrow> sampler_steps y < sampler_steps (xs ! i) | None \<Rightarrow> True"
  shows "sum_list (map sampler_steps (replace_at i x xs)) < sum_list (map sampler_steps xs)"
proof -
  have "sum_list (map sampler_steps xs) =
      sum_list (map sampler_steps (take i xs)) + sampler_steps (xs ! i) + sum_list (map sampler_steps (drop (Suc i) xs))"
    by (subst id_take_nth_drop [OF assms(1)]) simp
  moreover have "0 < sampler_steps (xs ! i)" by (simp add: sampler_steps_def split: sampler.split)
  ultimately show ?thesis using assms(2) by (auto simp: replace_at_def split: option.splits)
qed

lemma replace_at_filter:
  assumes "i < length xs" "\<And>y. x = Some y \<Longrightarrow> \<not> P y"
  shows "length (filter P (replace_at i x xs)) \<le> length (filter P xs)"
proof -
  have "length (filter P xs) =
      length (filter P (take i xs)) + length (filter P [xs ! i]) + length (filter P (drop (Suc i) xs))"
    by (subst id_take_nth_drop [OF assms(1)]) simp
  then show ?thesis using assms(2) by (auto simp: replace_at_def split: option.split)
qed

lemma sampler_step_stopped:
  "case sampler_step False panics t of Some y \<Rightarrow> sampler_steps y < sampler_steps t | None \<Rightarrow> True"
  "sampler_step False panics t \<noteq> Some Sampling"
  by (cases t; simp add: sampler_step_def sampler_steps_def)+

lemma stopped_step:
  assumes "prof_step s e s'" "\<not> pf_starting s" "\<nexists>dir r. e = Start dir r"
  shows "\<not> pf_starting s' \<and> sampling s' \<le> sampling s \<and>
    moves [e] + sum_list (map sampler_steps (pf_threads s')) \<le> sum_list (map sampler_steps (pf_threads s))"
  using assms(1)
proof cases
  case (do_move i panics)
  then show ?thesis
    using assms(2) replace_at_steps [OF do_move(3) sampler_step_stopped(1) [of "pf_threads s ! i" panics]]
      replace_at_filter [OF do_move(3), of "sampler_step False panics (pf_threads s ! i)" "\<lambda>t. t = Sampling"]
      sampler_step_stopped(2) [of panics "pf_threads s ! i"]
    by (auto simp: sampling_def moves_def Suc_le_eq)
qed (use assms in \<open>auto simp: prof_stop_eq sampling_def moves_def\<close>)

lemma prof_run_drains:
  "prof_run s es s' \<Longrightarrow> \<not> pf_starting s \<Longrightarrow> list_all (\<lambda>e. \<nexists>dir r. e = Start dir r) es \<Longrightarrow>
   sampling s' \<le> sampling s \<and>
   moves es + sum_list (map sampler_steps (pf_threads s')) \<le> sum_list (map sampler_steps (pf_threads s))"
proof (induction rule: prof_run.induct)
  case (run_step s e s' es s'')
  have "moves (e # es) = moves [e] + moves es" by (simp add: moves_def)
  then show ?case using stopped_step [OF run_step.hyps(1)] run_step.IH run_step.prems by fastforce
qed (simp add: moves_def)

lemma sum_sampler_steps: "length ts \<le> sum_list (map sampler_steps ts)" "sum_list (map sampler_steps ts) \<le> 2 * length ts"
  by (induction ts) (auto simp: sampler_steps_def split: sampler.split)

lemma stop_drains:
  assumes "prof_run s (Stop r # es) s'" "list_all (\<lambda>e. \<nexists>dir r. e = Start dir r) es"
  shows "sampling s' \<le> sampling s" "moves es + length (pf_threads s') \<le> 2 * length (pf_threads s)"
proof -
  obtain s1 where "prof_step s (Stop r) s1" and run: "prof_run s1 es s'"
    using assms(1) by (auto elim: prof_run.cases)
  then have s1: "s1 = s\<lparr>pf_starting := False\<rparr>" by (auto elim!: stop_stepE simp: prof_stop_eq)
  have d: "sampling s' \<le> sampling s1 \<and>
      moves es + sum_list (map sampler_steps (pf_threads s')) \<le> sum_list (map sampler_steps (pf_threads s1))"
    using prof_run_drains [OF run _ assms(2)] s1 by simp
  then show "sampling s' \<le> sampling s" by (simp add: s1 sampling_def)
  show "moves es + length (pf_threads s') \<le> 2 * length (pf_threads s)"
    using d sum_sampler_steps(1) [of "pf_threads s'"] sum_sampler_steps(2) [of "pf_threads s"] by (simp add: s1)
qed

text \<open>
  A start that cannot make its directory leaves the flag up: until somebody stops the profiler, which
  never ran, every later start is refused.
\<close>

lemma failed_start_sticks:
  assumes "prof_step prof_default (Start False res) s" "prof_run s es s'"
    and "list_all (\<lambda>e. \<nexists>r. e = Stop r) es"
  shows "pf_threads s' = []" "pf_starting s'" "prof_start dir s' = (Ok False, s')"
proof -
  have s: "pf_threads s = []" "pf_starting s"
    using assms(1) by (auto elim!: start_stepE simp: prof_default_def prof_start_cases)
  have "pf_threads s' = [] \<and> pf_starting s'"
    using assms(2,3) s
  proof (induction rule: prof_run.induct)
    case (run_step s e s' es s'')
    have "pf_threads s' = [] \<and> pf_starting s'"
      using run_step.hyps(1) run_step.prems by cases (auto simp: prof_start_cases)
    then show ?case using run_step.IH run_step.prems by simp
  qed simp
  then show "pf_threads s' = []" "pf_starting s'" "prof_start dir s' = (Ok False, s')"
    by (simp_all add: prof_start_cases)
qed

text \<open>
  A thread that is taking a sample does not see a stop that is followed by a start: two threads then
  sample at the same time.
\<close>

lemma two_samplers:
  "prof_run prof_default
     [Start True (Ok True), Move 0 False, Stop (Ok True), Start True (Ok True), Move 1 False]
     \<lparr>pf_starting = True, pf_threads = [Sampling, Sampling]\<rparr>"
proof -
  have 1: "prof_step prof_default (Start True (Ok True)) \<lparr>pf_starting = True, pf_threads = [Checking]\<rparr>"
    by (rule do_start) (simp add: prof_start_cases prof_default_def)
  have 2: "prof_step \<lparr>pf_starting = True, pf_threads = [Checking]\<rparr> (Move 0 False)
      \<lparr>pf_starting = True, pf_threads = [Sampling]\<rparr>"
    using do_move [of 0 "\<lparr>pf_starting = True, pf_threads = [Checking]\<rparr>" False]
    by (simp add: replace_at_def sampler_step_def)
  have 3: "prof_step \<lparr>pf_starting = True, pf_threads = [Sampling]\<rparr> (Stop (Ok True))
      \<lparr>pf_starting = False, pf_threads = [Sampling]\<rparr>"
    by (rule do_stop) (simp add: prof_stop_eq)
  have 4: "prof_step \<lparr>pf_starting = False, pf_threads = [Sampling]\<rparr> (Start True (Ok True))
      \<lparr>pf_starting = True, pf_threads = [Sampling, Checking]\<rparr>"
    by (rule do_start) (simp add: prof_start_cases)
  have 5: "prof_step \<lparr>pf_starting = True, pf_threads = [Sampling, Checking]\<rparr> (Move 1 False)
      \<lparr>pf_starting = True, pf_threads = [Sampling, Sampling]\<rparr>"
    using do_move [of 1 "\<lparr>pf_starting = True, pf_threads = [Sampling, Checking]\<rparr>" False]
    by (simp add: replace_at_def sampler_step_def)
  show ?thesis
    by (rule run_step [OF 1 run_step [OF 2 run_step [OF 3 run_step [OF 4 run_step [OF 5 run_refl]]]]])
qed

subsection \<open>The heap profiler\<close>

record HeapProfileOpts =
  ho_auto_profile :: bool
  ho_tick :: "nat option"
  ho_profile_dir :: rstr
  ho_threshold :: rat

definition heap_opts_default :: HeapProfileOpts where
  "heap_opts_default =
     \<lparr>ho_auto_profile = False, ho_tick = None, ho_profile_dir = lit ''/tmp/sql_proxy_heap'',
      ho_threshold = fround 24 (7 / 10)\<rparr>"

record HeapProfiler =
  hp_profile_opts :: HeapProfileOpts
  hp_state :: "bool watch"
  hp_seen :: nat

text \<open>
  \<open>opt_rs\<close> is the value of \<open>opt.prof\<close> of the allocator, or the failure to read it; \<open>dir_rs\<close> the result of
  making the directory; \<open>mibs\<close> whether the names of the statistics can be resolved.
\<close>

definition new_with_opts :: "bool result \<Rightarrow> unit result \<Rightarrow> bool \<Rightarrow> HeapProfileOpts \<Rightarrow> HeapProfiler result" where
  "new_with_opts opt_rs dir_rs mibs profile_opts =
     (let opt_prof = (case opt_rs of Ok b \<Rightarrow> b | _ \<Rightarrow> False) in
      if opt_prof
      then anyhow ''opt.prof != ON please start the sql-proxy with proper MALLOC ENV. e.g. MALLOC_CONF=prof:true''
      else
        rbind dir_rs (\<lambda>_.
          if \<not> mibs then Panic
          else Ok \<lparr>hp_profile_opts = profile_opts, hp_state = watch_channel False, hp_seen = 0\<rparr>))"

text \<open>\<open>Path::join\<close> with a relative path that is not empty.\<close>

definition path_join :: "rstr \<Rightarrow> rstr \<Rightarrow> rstr" where
  "path_join dir file = (if dir = [] \<or> last dir = 47 then dir @ file else dir @ 47 # file)"

text \<open>
  \<open>now\<close> is the formatted time, \<open>write\<close> what the allocator answers to the name of the file. The result is
  the directory and, beside it, the file that was written.
\<close>

definition dump_profile :: "rstr \<Rightarrow> (rstr \<Rightarrow> unit result) \<Rightarrow> HeapProfiler \<Rightarrow> (rstr \<times> rstr) result" where
  "dump_profile now wr p =
     (let dir = ho_profile_dir (hp_profile_opts p);
          file_path = path_join dir (now @ lit ''.sql_proxy'') in
      if 0 \<in> set file_path then Panic
      else rbind (wr file_path) (\<lambda>_. Ok (dir, file_path)))"

definition change_auto_profile_state :: "bool \<Rightarrow> bool \<Rightarrow> HeapProfiler \<Rightarrow> bool \<times> HeapProfiler" where
  "change_auto_profile_state current new p =
     (case compare_exchange current new (ho_auto_profile (hp_profile_opts p)) of
        (rs, v) \<Rightarrow>
          (let cas_rs = (case rs of Inr r \<Rightarrow> r | Inl _ \<Rightarrow> False) in
           (cas_rs = current, p\<lparr>hp_profile_opts := (hp_profile_opts p)\<lparr>ho_auto_profile := v\<rparr>\<rparr>)))"

text \<open>The profiler owns a receiver of its channel, so that sending cannot fail.\<close>

definition stop_auto_profile :: "HeapProfiler \<Rightarrow> HeapProfiler" where
  "stop_auto_profile p =
     (case change_auto_profile_state True False p of
        (changed, p') \<Rightarrow> if changed then p'\<lparr>hp_state := watch_send True (hp_state p')\<rparr> else p')"

definition threshold_dump_heap :: "nat \<Rightarrow> HeapProfileOpts \<Rightarrow> nat" where
  "threshold_dump_heap total_memory_size opts =
     usize_of_f64 (f64_mul (f64_of_int (int total_memory_size)) (ho_threshold opts))"

text \<open>
  The interval and the threshold of the task that \<open>start_auto_profile\<close> spawns, or \<open>None\<close> when it warns
  that the profiler runs already.
\<close>

definition start_auto_profile :: "nat \<Rightarrow> HeapProfiler \<Rightarrow> (nat \<times> nat) option \<times> HeapProfiler" where
  "start_auto_profile total_memory_size p =
     (case change_auto_profile_state False True p of
        (rs, p') \<Rightarrow>
          (if rs then
             (Some (case ho_tick (hp_profile_opts p') of Some tick \<Rightarrow> tick | None \<Rightarrow> 3,
                    threshold_dump_heap total_memory_size (hp_profile_opts p')), p')
           else (None, p')))"

text \<open>
  One iteration of the task: woken by its timer or by the channel, with the value of the channel, or
  with an error when the sender is gone. \<open>alloc\<close> is what the allocator reports, \<open>None\<close> when the epoch does
  not advance or the statistic cannot be read.
\<close>

datatype heap_wake = HeapTick | HeapChanged "bool option"

record heap_poll =
  hq_wake :: heap_wake
  hq_alloc :: "nat option"
  hq_now :: rstr

definition heap_alloc :: "nat \<Rightarrow> heap_poll \<Rightarrow> nat" where
  "heap_alloc prev q = (case hq_alloc q of Some n \<Rightarrow> n | None \<Rightarrow> prev)"

fun heap_loop :: "(rstr \<Rightarrow> unit result) \<Rightarrow> HeapProfiler \<Rightarrow> nat \<Rightarrow> nat \<Rightarrow> heap_poll list \<Rightarrow> loop_state \<times> rstr list" where
  "heap_loop wr p threshold prev [] = (Running, [])"
| "heap_loop wr p threshold prev (q # qs) =
     (if hq_wake q = HeapChanged (Some True) then (Stopped, [])
      else
        let alloc = heap_alloc prev q in
        if threshold < alloc \<and> prev \<le> threshold then
          (case dump_profile (hq_now q) wr p of
             Ok (_, file) \<Rightarrow> (case heap_loop wr p threshold alloc qs of (st, files) \<Rightarrow> (st, file # files))
           | _ \<Rightarrow> (Panicked, []))
        else heap_loop wr p threshold alloc qs)"

text \<open>
  \<open>heap_analysis\<close>: the collapsed stacks are written to a file when the tool succeeds. \<open>exe\<close> and \<open>cwd\<close> are the
  paths of the program and of the working directory, \<open>cmd\<close> runs the tool and gives its success and its
  output, \<open>wr\<close> writes a file.
\<close>

definition heap_analysis ::
  "rstr result \<Rightarrow> rstr result \<Rightarrow> (rstr \<Rightarrow> rstr list \<Rightarrow> (bool \<times> bytes) result) \<Rightarrow> (string \<Rightarrow> bytes \<Rightarrow> unit result) \<Rightarrow>
   rstr \<Rightarrow> unit result" where
  "heap_analysis exe cwd cmd wr heap_file_path =
     rbind exe (\<lambda>executable_path.
     rbind cwd (\<lambda>dir.
     let jeprof_path = path_join dir (lit ''jeprof'') in
     rbind (cmd jeprof_path [lit ''--collapsed'', executable_path, heap_file_path]) (\<lambda>(success, stdout).
       if success then wr ''collapsed'' stdout else anyhow ''jeprof exit with an error.'')))"

subsection \<open>What the heap profiler does\<close>

text \<open>
  The profiler can be made exactly when profiling is off in the allocator: the test is the wrong way
  round, as its message says.
\<close>

lemma new_with_opts_iff:
  assumes "dir_rs = Ok ()" "mibs"
  shows "is_ok (new_with_opts (Ok opt_prof) dir_rs mibs opts) \<longleftrightarrow> \<not> opt_prof"
  using assms by (simp add: new_with_opts_def)

text \<open>A start of the automatic profile is never refused: a failed exchange counts as the value \<open>false\<close>.\<close>

lemma change_auto_profile_state_start: "fst (change_auto_profile_state False True p) = True"
  by (simp add: change_auto_profile_state_def compare_exchange_def)

lemma change_auto_profile_state_stop:
  "fst (change_auto_profile_state True False p) = ho_auto_profile (hp_profile_opts p)"
  by (simp add: change_auto_profile_state_def compare_exchange_def)

lemma start_auto_profile_always: "fst (start_auto_profile n p) \<noteq> None"
  using change_auto_profile_state_start [of p] by (simp add: start_auto_profile_def case_prod_beta)

text \<open>The default threshold is seven tenths of the memory, up to rounding.\<close>

lemma default_threshold: "ho_threshold heap_opts_default = 11744051 / 2 ^ 24"
proof -
  have "bit_count 1 = 1" by (simp add: bit_count.simps)
  moreover have "\<lceil>10 / 7 :: rat\<rceil> = 2" by (simp add: ceiling_unique)
  ultimately have "ilog2 (7 / 10) = - 1" by (simp add: ilog2_def)
  moreover have "half_even (7 / 10 * 2 ^ 24) = 11744051"
  proof -
    have "\<lfloor>7 / 10 * 2 ^ 24 :: rat\<rfloor> = 11744051" by (simp add: floor_unique)
    then show ?thesis by (simp add: half_even_def)
  qed
  ultimately show ?thesis by (simp add: heap_opts_default_def fround_def power_int_minus)
qed

text \<open>The readings of the task: a failed one repeats the last.\<close>

fun heap_readings :: "nat \<Rightarrow> heap_poll list \<Rightarrow> (nat \<times> nat \<times> rstr) list" where
  "heap_readings prev [] = []"
| "heap_readings prev (q # qs) =
     (if hq_wake q = HeapChanged (Some True) then []
      else (prev, heap_alloc prev q, hq_now q) # heap_readings (heap_alloc prev q) qs)"

text \<open>
  While every dump succeeds, the task writes one file for each reading that goes above the threshold,
  and for no other, until it is told to stop.
\<close>

lemma heap_loop_dumps:
  assumes "\<And>f. wr f = Ok ()" "0 \<notin> set (ho_profile_dir (hp_profile_opts p))"
    and "\<forall>q \<in> set qs. 0 \<notin> set (hq_now q)"
  shows "snd (heap_loop wr p threshold prev qs) =
      map (\<lambda>(_, _, now). path_join (ho_profile_dir (hp_profile_opts p)) (now @ lit ''.sql_proxy''))
        (filter (\<lambda>(a, b, _). a \<le> threshold \<and> threshold < b) (heap_readings prev qs))"
    "fst (heap_loop wr p threshold prev qs) =
      (if \<exists>q \<in> set qs. hq_wake q = HeapChanged (Some True) then Stopped else Running)"
proof -
  have dump: "dump_profile now wr p = Ok (ho_profile_dir (hp_profile_opts p),
      path_join (ho_profile_dir (hp_profile_opts p)) (now @ lit ''.sql_proxy''))" if "0 \<notin> set now" for now
    using assms(1,2) that by (auto simp: dump_profile_def Let_def path_join_def lit_def)
  show "snd (heap_loop wr p threshold prev qs) =
      map (\<lambda>(_, _, now). path_join (ho_profile_dir (hp_profile_opts p)) (now @ lit ''.sql_proxy''))
        (filter (\<lambda>(a, b, _). a \<le> threshold \<and> threshold < b) (heap_readings prev qs))"
    using assms(3) by (induction qs arbitrary: prev) (auto simp: dump Let_def case_prod_beta)
  show "fst (heap_loop wr p threshold prev qs) =
      (if \<exists>q \<in> set qs. hq_wake q = HeapChanged (Some True) then Stopped else Running)"
    using assms(3) by (induction qs arbitrary: prev) (auto simp: dump Let_def case_prod_beta)
qed

end
