(* ===== verification/Endpoints.thy ===== *)
theory Endpoints
  imports Rest Profiling
begin

text \<open>
  \<open>web_service/src/metrics_handler.rs\<close> and the rest of \<open>http_server.rs\<close>: the endpoints for the metrics and
  the profiles, and the table of the routes. The query of a request is a map from names to values; the
  file system, the walk over a directory and the text of the exporter are inputs.
\<close>

subsection \<open>Answers\<close>

datatype body =
    JsonFiles "rstr list"
  | JsonMap "(rstr \<times> rstr) list"
  | PlainText rstr
  | RawBytes bytes
  | NoBody

record response =
  rs_status :: nat
  rs_content_type :: "string option"
  rs_body :: body

abbreviation http_ok :: nat where "http_ok \<equiv> 200"
abbreviation bad_request :: nat where "bad_request \<equiv> 400"
abbreviation internal_server_error :: nat where "internal_server_error \<equiv> 500"

definition http_answer :: "nat \<Rightarrow> string \<Rightarrow> body \<Rightarrow> response" where
  "http_answer status content_type b = \<lparr>rs_status = status, rs_content_type = Some content_type, rs_body = b\<rparr>"

definition json_map :: "(rstr \<times> rstr) list \<Rightarrow> response" where
  "json_map kvs = http_answer http_ok ''application/json'' (JsonMap kvs)"

type_synonym params = "string \<Rightarrow> rstr option"

definition bool_to_string :: "bool \<Rightarrow> rstr" where
  "bool_to_string b = (if b then lit ''true'' else lit ''false'')"

text \<open>\<open>to_string\<close> of the result of a profiler; an error shows its message.\<close>

fun result_to_string :: "bool result \<Rightarrow> rstr" where
  "result_to_string (Ok b) = bool_to_string b"
| "result_to_string (Err (IoError k msg)) = lit msg"
| "result_to_string _ = []"

subsection \<open>Metrics and profiles\<close>

definition render :: "('r \<Rightarrow> rstr) \<Rightarrow> 'r metrics_ctx \<Rightarrow> rstr" where
  "render show_recorder c =
     (case try_handle c of
        Some r \<Rightarrow> show_recorder r
      | None \<Rightarrow> lit ''Please initialize the prometheus context first.'')"

text \<open>
  An entry of the walk over a directory: whether its metadata can be read, whether it is a directory,
  and its name, which a root has not. Entries that could not be visited are left out before.
\<close>

record dir_entry =
  de_metadata :: bool
  de_is_dir :: bool
  de_file_name :: "bytes option"

definition cpu_profile_name :: "rstr \<Rightarrow> bool" where
  "cpu_profile_name name \<longleftrightarrow> take 7 name = lit ''mp_cpu_''"

fun profile_files :: "dir_entry list \<Rightarrow> rstr list result" where
  "profile_files [] = Ok []"
| "profile_files (f # fs) =
     (if \<not> de_metadata f then Panic
      else if de_is_dir f then profile_files fs
      else (case de_file_name f of
              None \<Rightarrow> profile_files fs
            | Some file_name \<Rightarrow>
                rbind (unwrap_opt (utf8_decode file_name)) (\<lambda>name.
                rbind (profile_files fs) (\<lambda>names.
                  Ok (if cpu_profile_name name then name # names else names)))))"

definition list_cpu_profile :: "(rstr \<Rightarrow> dir_entry list) \<Rightarrow> params \<Rightarrow> response result" where
  "list_cpu_profile walk params =
     (case params ''profile_path'' of
        Some profile_path \<Rightarrow>
          rbind (profile_files (walk profile_path)) (\<lambda>files.
            Ok (http_answer http_ok ''application/json'' (JsonFiles files)))
      | None \<Rightarrow>
          Ok (http_answer bad_request ''application/json''
            (PlainText (lit ''Please set query string. For example list_cpu_profile?profile_path=XXX ''))))"

definition stop_cpu_prof :: "Prof \<Rightarrow> response \<times> Prof" where
  "stop_cpu_prof cpu_prof =
     (case prof_stop cpu_prof of
        (stop_rs, cpu_prof') \<Rightarrow> (json_map [(lit ''cpu_prof_stop'', result_to_string stop_rs)], cpu_prof'))"

text \<open>The duration and the directory a start asks for; \<open>parse\<close> of a \<open>u64\<close> is that of a \<open>usize\<close>.\<close>

definition prof_duration :: "params \<Rightarrow> nat" where
  "prof_duration params =
     (case parse_usize (case params ''duration'' of Some d \<Rightarrow> d | None \<Rightarrow> lit ''60'') of
        Some n \<Rightarrow> n
      | None \<Rightarrow> 60)"

definition prof_path :: "params \<Rightarrow> rstr" where
  "prof_path params = (case params ''profile_path'' of Some p \<Rightarrow> p | None \<Rightarrow> lit ''/tmp/sql_proxy_cpu_prof/'')"

definition start_cpu_prof :: "(rstr \<Rightarrow> bool) \<Rightarrow> params \<Rightarrow> Prof \<Rightarrow> response \<times> Prof" where
  "start_cpu_prof mkdir params cpu_prof =
     (case prof_start (mkdir (prof_path params)) cpu_prof of
        (start_rs, cpu_prof') \<Rightarrow> (json_map [(lit ''cpu_prof_start'', result_to_string start_rs)], cpu_prof'))"

text \<open>
  What a file gives: it is missing, it cannot be opened, its metadata or its bytes cannot be read, or
  its bytes. The messages show the path between quotes.
\<close>

datatype file_view = Missing | Unopenable | Unreadable | Content bytes

definition print_cpu_prof :: "(rstr \<Rightarrow> file_view) \<Rightarrow> (rstr \<Rightarrow> rstr) \<Rightarrow> params \<Rightarrow> response result" where
  "print_cpu_prof view debug params =
     (case params ''profile_file'' of
        None \<Rightarrow>
          Ok (http_answer bad_request ''application/json''
            (PlainText (lit ''Please set query string. For example print_cpu_prof?profile_path=XXX '')))
      | Some path \<Rightarrow>
          (case view path of
             Missing \<Rightarrow> Ok (http_answer bad_request ''application/json'' (PlainText (debug path @ lit '' not exists.'')))
           | Unopenable \<Rightarrow>
               Ok (http_answer internal_server_error ''application/json''
                 (PlainText (lit ''Failed to open '' @ debug path @ lit '' '')))
           | Unreadable \<Rightarrow> Panic
           | Content file_buf \<Rightarrow> Ok (http_answer http_ok ''image/svg+xml'' (RawBytes file_buf))))"

text \<open>The result of the analysis is dropped.\<close>

definition heap_analysis_handler :: "(rstr \<Rightarrow> unit result) \<Rightarrow> rstr \<Rightarrow> response result" where
  "heap_analysis_handler analyse dump_path =
     (case analyse dump_path of
        Panic \<Rightarrow> Panic
      | Diverge \<Rightarrow> Diverge
      | _ \<Rightarrow> Ok \<lparr>rs_status = http_ok, rs_content_type = None, rs_body = NoBody\<rparr>)"

text \<open>The process-wide profiler of the CPU: made on its first use.\<close>

definition cpu_profile :: "Prof option \<Rightarrow> Prof" where
  "cpu_profile cell = (case cell of Some p \<Rightarrow> p | None \<Rightarrow> prof_default)"

text \<open>\<open>OnceLock::get_or_try_init\<close>: a failure leaves the cell empty.\<close>

definition memory_profile :: "HeapProfiler result \<Rightarrow> HeapProfiler option \<Rightarrow> HeapProfiler result \<times> HeapProfiler option" where
  "memory_profile fresh cell =
     (case cell of
        Some p \<Rightarrow> (Ok p, Some p)
      | None \<Rightarrow> (case fresh of Ok p \<Rightarrow> (Ok p, Some p) | e \<Rightarrow> (e, None)))"

fun error_text :: "io_error \<Rightarrow> rstr" where
  "error_text (IoError k msg) = lit msg"

definition dump_mem_profile ::
  "bool result \<Rightarrow> unit result \<Rightarrow> bool \<Rightarrow> rstr \<Rightarrow> (rstr \<Rightarrow> unit result) \<Rightarrow> HeapProfiler option \<Rightarrow>
   response result \<times> HeapProfiler option" where
  "dump_mem_profile opt_rs dir_rs mibs now wr cell =
     (case memory_profile (new_with_opts opt_rs dir_rs mibs heap_opts_default) cell of
        (Ok mem_prof, cell') \<Rightarrow>
          (case dump_profile now wr mem_prof of
             Ok (dir, _) \<Rightarrow> (Ok (json_map [(lit ''mem_heap_dump'', dir)]), cell')
           | Err err \<Rightarrow> (Ok (json_map [(lit ''mem_heap_dump_err'', error_text err)]), cell')
           | Panic \<Rightarrow> (Panic, cell')
           | Diverge \<Rightarrow> (Diverge, cell'))
      | (Err err, cell') \<Rightarrow> (Ok (json_map [(lit ''mem_heap_dump_err'', error_text err)]), cell')
      | (Panic, cell') \<Rightarrow> (Panic, cell')
      | (Diverge, cell') \<Rightarrow> (Diverge, cell'))"

subsection \<open>Routes\<close>

datatype verb = GET | POST

datatype endpoint =
    Greeting | DumpMemProfile | HeapAnalysis | StartCpuProf | StopCpuProf | ListCpuProfile | PrintCpuProf
  | AddTenant | TenantStatus | MetricsGet

definition route_metrics :: "(string \<times> verb \<times> endpoint) list" where
  "route_metrics = [(''/metrics'', GET, MetricsGet)]"

definition routes :: "bool \<Rightarrow> (string \<times> verb \<times> endpoint) list" where
  "routes enable_metric =
     [(''/'', GET, Greeting),
      (''/mem_dump'', GET, DumpMemProfile),
      (''/mem_prof_analysis/:dump_path'', GET, HeapAnalysis),
      (''/start_cpu_prof'', GET, StartCpuProf),
      (''/stop_cpu_prof'', GET, StopCpuProf),
      (''/list_cpu_profile'', GET, ListCpuProfile),
      (''/print_cpu_prof'', GET, PrintCpuProf),
      (''/tenant'', POST, AddTenant),
      (''/tenant/:region/:az/:namespace/:cluster/status'', GET, TenantStatus)] @
     (if enable_metric then route_metrics else [])"

text \<open>
  \<open>start_server\<close>: the routes it serves once its listener is bound. \<open>bound\<close> holds the ports that are
  listened on; binding one of them again fails, and the failure is unwrapped.
\<close>

definition start_server :: "u16 \<Rightarrow> bool \<Rightarrow> (u16 list, (string \<times> verb \<times> endpoint) list) io" where
  "start_server port enable_metric bound =
     (if port \<in> set bound then (Panic, bound) else (Ok (routes enable_metric), port # bound))"

subsection \<open>What the endpoints answer\<close>

lemma routes_distinct: "distinct (map fst (routes enable_metric))"
  by (simp add: routes_def route_metrics_def)

lemma metrics_routed: "MetricsGet \<in> snd ` snd ` set (routes enable_metric) \<longleftrightarrow> enable_metric"
  by (cases enable_metric) (simp_all add: routes_def route_metrics_def)

text \<open>The answer to a start, by the state of the profiler, and to a stop.\<close>

lemma start_cpu_prof_answers:
  "start_cpu_prof mkdir params p =
     (if pf_starting p then (json_map [(lit ''cpu_prof_start'', lit ''false'')], p)
      else if mkdir (prof_path params)
      then (json_map [(lit ''cpu_prof_start'', lit ''true'')], p\<lparr>pf_starting := True, pf_threads := pf_threads p @ [Checking]\<rparr>)
      else (json_map [(lit ''cpu_prof_start'', lit ''ProxySrv CpuProfiler start start profiler error'')],
            p\<lparr>pf_starting := True\<rparr>))"
  by (simp add: start_cpu_prof_def prof_start_cases bool_to_string_def)

lemma stop_cpu_prof_answers:
  "stop_cpu_prof p = (json_map [(lit ''cpu_prof_stop'', bool_to_string (pf_starting p))], p\<lparr>pf_starting := False\<rparr>)"
  by (simp add: stop_cpu_prof_def prof_stop_eq)

lemma prof_duration_bound: "prof_duration params < 2 ^ 64"
  using parse_usize_bound by (simp add: prof_duration_def split: option.split)

text \<open>The list of profiles has the files a sampling thread wrote, in the order of the walk.\<close>

lemma cpu_profile_name_written: "cpu_profile_name (lit ''mp_cpu_'' @ time @ lit ''.svg'')"
  by (simp add: cpu_profile_name_def lit_def)

lemma profile_files_listed:
  assumes "list_all (\<lambda>(d, name). list_all is_scalar name) es"
  shows "profile_files (map (\<lambda>(d, name). \<lparr>de_metadata = True, de_is_dir = d, de_file_name = Some (utf8_encode name)\<rparr>) es) =
    Ok (filter cpu_profile_name (map snd (filter (\<lambda>(d, name). \<not> d) es)))"
  using assms by (induction es) (auto simp: utf8_decode_encode)

text \<open>
  With heap profiling switched on in the allocator no dump can be asked for: every request is
  answered with the advice to switch it on.
\<close>

lemma mem_dump_refused:
  "dump_mem_profile (Ok True) dir_rs mibs now wr None =
     (Ok (json_map [(lit ''mem_heap_dump_err'',
        lit ''opt.prof != ON please start the sql-proxy with proper MALLOC ENV. e.g. MALLOC_CONF=prof:true'')]), None)"
  by (simp add: dump_mem_profile_def memory_profile_def new_with_opts_def)

lemma mem_dump_taken:
  assumes "opt_rs = Ok False \<or> (\<exists>e. opt_rs = Err e)" "0 \<notin> set now" "\<And>f. wr f = Ok ()"
  shows "\<exists>p. dump_mem_profile opt_rs (Ok ()) True now wr None =
     (Ok (json_map [(lit ''mem_heap_dump'', lit ''/tmp/sql_proxy_heap'')]), Some p)"
  using assms by (auto simp: dump_mem_profile_def memory_profile_def new_with_opts_def dump_profile_def
      heap_opts_default_def path_join_def lit_def Let_def)

text \<open>Two servers on one port: the second to start panics, whatever the first serves.\<close>

lemma start_server_twice:
  assumes "port \<notin> set bound" "start_server port m1 bound = (r1, bound1)" "start_server port m2 bound1 = (r2, bound2)"
  shows "r1 = Ok (routes m1)" "r2 = Panic" "bound2 = port # bound"
  using assms by (auto simp: start_server_def split: if_splits)

end
