(* ===== verification/ErrorCodes.thy ===== *)
theory ErrorCodes
  imports Prelude "HOL-Library.Multiset"
begin

text \<open>
  \<open>protocol/mysql/error_codes.rs\<close>: the 886 server errors, \<open>From<u16>\<close> and \<open>sqlstate\<close>. The enum is
  \<open>repr(u16)\<close>, so a value of \<open>ErrorKind\<close> is its discriminant, and every variant is a constant. The
  three hand-written tables of the source are lists here; the theorems say that they fit together.
\<close>

type_synonym ErrorKind = nat

named_theorems error_kind_defs \<open>the discriminants\<close>


definition ER_HASHCHK :: nat where [error_kind_defs]: "ER_HASHCHK = 1000"
definition ER_NISAMCHK :: nat where [error_kind_defs]: "ER_NISAMCHK = 1001"
definition ER_NO :: nat where [error_kind_defs]: "ER_NO = 1002"
definition ER_YES :: nat where [error_kind_defs]: "ER_YES = 1003"
definition ER_CANT_CREATE_FILE :: nat where [error_kind_defs]: "ER_CANT_CREATE_FILE = 1004"
definition ER_CANT_CREATE_TABLE :: nat where [error_kind_defs]: "ER_CANT_CREATE_TABLE = 1005"
definition ER_CANT_CREATE_DB :: nat where [error_kind_defs]: "ER_CANT_CREATE_DB = 1006"
definition ER_DB_CREATE_EXISTS :: nat where [error_kind_defs]: "ER_DB_CREATE_EXISTS = 1007"
definition ER_DB_DROP_EXISTS :: nat where [error_kind_defs]: "ER_DB_DROP_EXISTS = 1008"
definition ER_DB_DROP_DELETE :: nat where [error_kind_defs]: "ER_DB_DROP_DELETE = 1009"
definition ER_DB_DROP_RMDIR :: nat where [error_kind_defs]: "ER_DB_DROP_RMDIR = 1010"
definition ER_CANT_DELETE_FILE :: nat where [error_kind_defs]: "ER_CANT_DELETE_FILE = 1011"
definition ER_CANT_FIND_SYSTEM_REC :: nat where [error_kind_defs]: "ER_CANT_FIND_SYSTEM_REC = 1012"
definition ER_CANT_GET_STAT :: nat where [error_kind_defs]: "ER_CANT_GET_STAT = 1013"
definition ER_CANT_GET_WD :: nat where [error_kind_defs]: "ER_CANT_GET_WD = 1014"
definition ER_CANT_LOCK :: nat where [error_kind_defs]: "ER_CANT_LOCK = 1015"
definition ER_CANT_OPEN_FILE :: nat where [error_kind_defs]: "ER_CANT_OPEN_FILE = 1016"
definition ER_FILE_NOT_FOUND :: nat where [error_kind_defs]: "ER_FILE_NOT_FOUND = 1017"
definition ER_CANT_READ_DIR :: nat where [error_kind_defs]: "ER_CANT_READ_DIR = 1018"
definition ER_CANT_SET_WD :: nat where [error_kind_defs]: "ER_CANT_SET_WD = 1019"
definition ER_CHECKREAD :: nat where [error_kind_defs]: "ER_CHECKREAD = 1020"
definition ER_DISK_FULL :: nat where [error_kind_defs]: "ER_DISK_FULL = 1021"
definition ER_DUP_KEY :: nat where [error_kind_defs]: "ER_DUP_KEY = 1022"
definition ER_ERROR_ON_CLOSE :: nat where [error_kind_defs]: "ER_ERROR_ON_CLOSE = 1023"
definition ER_ERROR_ON_READ :: nat where [error_kind_defs]: "ER_ERROR_ON_READ = 1024"
definition ER_ERROR_ON_RENAME :: nat where [error_kind_defs]: "ER_ERROR_ON_RENAME = 1025"
definition ER_ERROR_ON_WRITE :: nat where [error_kind_defs]: "ER_ERROR_ON_WRITE = 1026"
definition ER_FILE_USED :: nat where [error_kind_defs]: "ER_FILE_USED = 1027"
definition ER_FILSORT_ABORT :: nat where [error_kind_defs]: "ER_FILSORT_ABORT = 1028"
definition ER_FORM_NOT_FOUND :: nat where [error_kind_defs]: "ER_FORM_NOT_FOUND = 1029"
definition ER_GET_ERRN :: nat where [error_kind_defs]: "ER_GET_ERRN = 1030"
definition ER_ILLEGAL_HA :: nat where [error_kind_defs]: "ER_ILLEGAL_HA = 1031"
definition ER_KEY_NOT_FOUND :: nat where [error_kind_defs]: "ER_KEY_NOT_FOUND = 1032"
definition ER_NOT_FORM_FILE :: nat where [error_kind_defs]: "ER_NOT_FORM_FILE = 1033"
definition ER_NOT_KEYFILE :: nat where [error_kind_defs]: "ER_NOT_KEYFILE = 1034"
definition ER_OLD_KEYFILE :: nat where [error_kind_defs]: "ER_OLD_KEYFILE = 1035"
definition ER_OPEN_AS_READONLY :: nat where [error_kind_defs]: "ER_OPEN_AS_READONLY = 1036"
definition ER_OUTOFMEMORY :: nat where [error_kind_defs]: "ER_OUTOFMEMORY = 1037"
definition ER_OUT_OF_SORTMEMORY :: nat where [error_kind_defs]: "ER_OUT_OF_SORTMEMORY = 1038"
definition ER_UNEXPECTED_EOF :: nat where [error_kind_defs]: "ER_UNEXPECTED_EOF = 1039"
definition ER_CON_COUNT_ERROR :: nat where [error_kind_defs]: "ER_CON_COUNT_ERROR = 1040"
definition ER_OUT_OF_RESOURCES :: nat where [error_kind_defs]: "ER_OUT_OF_RESOURCES = 1041"
definition ER_BAD_HOST_ERROR :: nat where [error_kind_defs]: "ER_BAD_HOST_ERROR = 1042"
definition ER_HANDSHAKE_ERROR :: nat where [error_kind_defs]: "ER_HANDSHAKE_ERROR = 1043"
definition ER_DBACCESS_DENIED_ERROR :: nat where [error_kind_defs]: "ER_DBACCESS_DENIED_ERROR = 1044"
definition ER_ACCESS_DENIED_ERROR :: nat where [error_kind_defs]: "ER_ACCESS_DENIED_ERROR = 1045"
definition ER_NO_DB_ERROR :: nat where [error_kind_defs]: "ER_NO_DB_ERROR = 1046"
definition ER_UNKNOWN_COM_ERROR :: nat where [error_kind_defs]: "ER_UNKNOWN_COM_ERROR = 1047"
definition ER_BAD_NULL_ERROR :: nat where [error_kind_defs]: "ER_BAD_NULL_ERROR = 1048"
definition ER_BAD_DB_ERROR :: nat where [error_kind_defs]: "ER_BAD_DB_ERROR = 1049"
definition ER_TABLE_EXISTS_ERROR :: nat where [error_kind_defs]: "ER_TABLE_EXISTS_ERROR = 1050"
definition ER_BAD_TABLE_ERROR :: nat where [error_kind_defs]: "ER_BAD_TABLE_ERROR = 1051"
definition ER_NON_UNIQ_ERROR :: nat where [error_kind_defs]: "ER_NON_UNIQ_ERROR = 1052"
definition ER_SERVER_SHUTDOWN :: nat where [error_kind_defs]: "ER_SERVER_SHUTDOWN = 1053"
definition ER_BAD_FIELD_ERROR :: nat where [error_kind_defs]: "ER_BAD_FIELD_ERROR = 1054"
definition ER_WRONG_FIELD_WITH_GROUP :: nat where [error_kind_defs]: "ER_WRONG_FIELD_WITH_GROUP = 1055"
definition ER_WRONG_GROUP_FIELD :: nat where [error_kind_defs]: "ER_WRONG_GROUP_FIELD = 1056"
definition ER_WRONG_SUM_SELECT :: nat where [error_kind_defs]: "ER_WRONG_SUM_SELECT = 1057"
definition ER_WRONG_VALUE_COUNT :: nat where [error_kind_defs]: "ER_WRONG_VALUE_COUNT = 1058"
definition ER_TOO_LONG_IDENT :: nat where [error_kind_defs]: "ER_TOO_LONG_IDENT = 1059"
definition ER_DUP_FIELDNAME :: nat where [error_kind_defs]: "ER_DUP_FIELDNAME = 1060"
definition ER_DUP_KEYNAME :: nat where [error_kind_defs]: "ER_DUP_KEYNAME = 1061"
definition ER_DUP_ENTRY :: nat where [error_kind_defs]: "ER_DUP_ENTRY = 1062"
definition ER_WRONG_FIELD_SPEC :: nat where [error_kind_defs]: "ER_WRONG_FIELD_SPEC = 1063"
definition ER_PARSE_ERROR :: nat where [error_kind_defs]: "ER_PARSE_ERROR = 1064"
definition ER_EMPTY_QUERY :: nat where [error_kind_defs]: "ER_EMPTY_QUERY = 1065"
definition ER_NONUNIQ_TABLE :: nat where [error_kind_defs]: "ER_NONUNIQ_TABLE = 1066"
definition ER_INVALID_DEFAULT :: nat where [error_kind_defs]: "ER_INVALID_DEFAULT = 1067"
definition ER_MULTIPLE_PRI_KEY :: nat where [error_kind_defs]: "ER_MULTIPLE_PRI_KEY = 1068"
definition ER_TOO_MANY_KEYS :: nat where [error_kind_defs]: "ER_TOO_MANY_KEYS = 1069"
definition ER_TOO_MANY_KEY_PARTS :: nat where [error_kind_defs]: "ER_TOO_MANY_KEY_PARTS = 1070"
definition ER_TOO_LONG_KEY :: nat where [error_kind_defs]: "ER_TOO_LONG_KEY = 1071"
definition ER_KEY_COLUMN_DOES_NOT_EXITS :: nat where [error_kind_defs]: "ER_KEY_COLUMN_DOES_NOT_EXITS = 1072"
definition ER_BLOB_USED_AS_KEY :: nat where [error_kind_defs]: "ER_BLOB_USED_AS_KEY = 1073"
definition ER_TOO_BIG_FIELDLENGTH :: nat where [error_kind_defs]: "ER_TOO_BIG_FIELDLENGTH = 1074"
definition ER_WRONG_AUTO_KEY :: nat where [error_kind_defs]: "ER_WRONG_AUTO_KEY = 1075"
definition ER_READY :: nat where [error_kind_defs]: "ER_READY = 1076"
definition ER_NORMAL_SHUTDOWN :: nat where [error_kind_defs]: "ER_NORMAL_SHUTDOWN = 1077"
definition ER_GOT_SIGNAL :: nat where [error_kind_defs]: "ER_GOT_SIGNAL = 1078"
definition ER_SHUTDOWN_COMPLETE :: nat where [error_kind_defs]: "ER_SHUTDOWN_COMPLETE = 1079"
definition ER_FORCING_CLOSE :: nat where [error_kind_defs]: "ER_FORCING_CLOSE = 1080"
definition ER_IPSOCK_ERROR :: nat where [error_kind_defs]: "ER_IPSOCK_ERROR = 1081"
definition ER_NO_SUCH_INDEX :: nat where [error_kind_defs]: "ER_NO_SUCH_INDEX = 1082"
definition ER_WRONG_FIELD_TERMINATORS :: nat where [error_kind_defs]: "ER_WRONG_FIELD_TERMINATORS = 1083"
definition ER_BLOBS_AND_NO_TERMINATED :: nat where [error_kind_defs]: "ER_BLOBS_AND_NO_TERMINATED = 1084"
definition ER_TEXTFILE_NOT_READABLE :: nat where [error_kind_defs]: "ER_TEXTFILE_NOT_READABLE = 1085"
definition ER_FILE_EXISTS_ERROR :: nat where [error_kind_defs]: "ER_FILE_EXISTS_ERROR = 1086"
definition ER_LOAD_INF :: nat where [error_kind_defs]: "ER_LOAD_INF = 1087"
definition ER_ALTER_INF :: nat where [error_kind_defs]: "ER_ALTER_INF = 1088"
definition ER_WRONG_SUB_KEY :: nat where [error_kind_defs]: "ER_WRONG_SUB_KEY = 1089"
definition ER_CANT_REMOVE_ALL_FIELDS :: nat where [error_kind_defs]: "ER_CANT_REMOVE_ALL_FIELDS = 1090"
definition ER_CANT_DROP_FIELD_OR_KEY :: nat where [error_kind_defs]: "ER_CANT_DROP_FIELD_OR_KEY = 1091"
definition ER_INSERT_INF :: nat where [error_kind_defs]: "ER_INSERT_INF = 1092"
definition ER_UPDATE_TABLE_USED :: nat where [error_kind_defs]: "ER_UPDATE_TABLE_USED = 1093"
definition ER_NO_SUCH_THREAD :: nat where [error_kind_defs]: "ER_NO_SUCH_THREAD = 1094"
definition ER_KILL_DENIED_ERROR :: nat where [error_kind_defs]: "ER_KILL_DENIED_ERROR = 1095"
definition ER_NO_TABLES_USED :: nat where [error_kind_defs]: "ER_NO_TABLES_USED = 1096"
definition ER_TOO_BIG_SET :: nat where [error_kind_defs]: "ER_TOO_BIG_SET = 1097"
definition ER_NO_UNIQUE_LOGFILE :: nat where [error_kind_defs]: "ER_NO_UNIQUE_LOGFILE = 1098"
definition ER_TABLE_NOT_LOCKED_FOR_WRITE :: nat where [error_kind_defs]: "ER_TABLE_NOT_LOCKED_FOR_WRITE = 1099"
definition ER_TABLE_NOT_LOCKED :: nat where [error_kind_defs]: "ER_TABLE_NOT_LOCKED = 1100"
definition ER_BLOB_CANT_HAVE_DEFAULT :: nat where [error_kind_defs]: "ER_BLOB_CANT_HAVE_DEFAULT = 1101"
definition ER_WRONG_DB_NAME :: nat where [error_kind_defs]: "ER_WRONG_DB_NAME = 1102"
definition ER_WRONG_TABLE_NAME :: nat where [error_kind_defs]: "ER_WRONG_TABLE_NAME = 1103"
definition ER_TOO_BIG_SELECT :: nat where [error_kind_defs]: "ER_TOO_BIG_SELECT = 1104"
definition ER_UNKNOWN_ERROR :: nat where [error_kind_defs]: "ER_UNKNOWN_ERROR = 1105"
definition ER_UNKNOWN_PROCEDURE :: nat where [error_kind_defs]: "ER_UNKNOWN_PROCEDURE = 1106"
definition ER_WRONG_PARAMCOUNT_TO_PROCEDURE :: nat where [error_kind_defs]: "ER_WRONG_PARAMCOUNT_TO_PROCEDURE = 1107"
definition ER_WRONG_PARAMETERS_TO_PROCEDURE :: nat where [error_kind_defs]: "ER_WRONG_PARAMETERS_TO_PROCEDURE = 1108"
definition ER_UNKNOWN_TABLE :: nat where [error_kind_defs]: "ER_UNKNOWN_TABLE = 1109"
definition ER_FIELD_SPECIFIED_TWICE :: nat where [error_kind_defs]: "ER_FIELD_SPECIFIED_TWICE = 1110"
definition ER_INVALID_GROUP_FUNC_USE :: nat where [error_kind_defs]: "ER_INVALID_GROUP_FUNC_USE = 1111"
definition ER_UNSUPPORTED_EXTENSION :: nat where [error_kind_defs]: "ER_UNSUPPORTED_EXTENSION = 1112"
definition ER_TABLE_MUST_HAVE_COLUMNS :: nat where [error_kind_defs]: "ER_TABLE_MUST_HAVE_COLUMNS = 1113"
definition ER_RECORD_FILE_FULL :: nat where [error_kind_defs]: "ER_RECORD_FILE_FULL = 1114"
definition ER_UNKNOWN_CHARACTER_SET :: nat where [error_kind_defs]: "ER_UNKNOWN_CHARACTER_SET = 1115"
definition ER_TOO_MANY_TABLES :: nat where [error_kind_defs]: "ER_TOO_MANY_TABLES = 1116"
definition ER_TOO_MANY_FIELDS :: nat where [error_kind_defs]: "ER_TOO_MANY_FIELDS = 1117"
definition ER_TOO_BIG_ROWSIZE :: nat where [error_kind_defs]: "ER_TOO_BIG_ROWSIZE = 1118"
definition ER_STACK_OVERRUN :: nat where [error_kind_defs]: "ER_STACK_OVERRUN = 1119"
definition ER_WRONG_OUTER_JOIN :: nat where [error_kind_defs]: "ER_WRONG_OUTER_JOIN = 1120"
definition ER_NULL_COLUMN_IN_INDEX :: nat where [error_kind_defs]: "ER_NULL_COLUMN_IN_INDEX = 1121"
definition ER_CANT_FIND_UDF :: nat where [error_kind_defs]: "ER_CANT_FIND_UDF = 1122"
definition ER_CANT_INITIALIZE_UDF :: nat where [error_kind_defs]: "ER_CANT_INITIALIZE_UDF = 1123"
definition ER_UDF_NO_PATHS :: nat where [error_kind_defs]: "ER_UDF_NO_PATHS = 1124"
definition ER_UDF_EXISTS :: nat where [error_kind_defs]: "ER_UDF_EXISTS = 1125"
definition ER_CANT_OPEN_LIBRARY :: nat where [error_kind_defs]: "ER_CANT_OPEN_LIBRARY = 1126"
definition ER_CANT_FIND_DL_ENTRY :: nat where [error_kind_defs]: "ER_CANT_FIND_DL_ENTRY = 1127"
definition ER_FUNCTION_NOT_DEFINED :: nat where [error_kind_defs]: "ER_FUNCTION_NOT_DEFINED = 1128"
definition ER_HOST_IS_BLOCKED :: nat where [error_kind_defs]: "ER_HOST_IS_BLOCKED = 1129"
definition ER_HOST_NOT_PRIVILEGED :: nat where [error_kind_defs]: "ER_HOST_NOT_PRIVILEGED = 1130"
definition ER_PASSWORD_ANONYMOUS_USER :: nat where [error_kind_defs]: "ER_PASSWORD_ANONYMOUS_USER = 1131"
definition ER_PASSWORD_NOT_ALLOWED :: nat where [error_kind_defs]: "ER_PASSWORD_NOT_ALLOWED = 1132"
definition ER_PASSWORD_NO_MATCH :: nat where [error_kind_defs]: "ER_PASSWORD_NO_MATCH = 1133"
definition ER_UPDATE_INF :: nat where [error_kind_defs]: "ER_UPDATE_INF = 1134"
definition ER_CANT_CREATE_THREAD :: nat where [error_kind_defs]: "ER_CANT_CREATE_THREAD = 1135"
definition ER_WRONG_VALUE_COUNT_ON_ROW :: nat where [error_kind_defs]: "ER_WRONG_VALUE_COUNT_ON_ROW = 1136"
definition ER_CANT_REOPEN_TABLE :: nat where [error_kind_defs]: "ER_CANT_REOPEN_TABLE = 1137"
definition ER_INVALID_USE_OF_NULL :: nat where [error_kind_defs]: "ER_INVALID_USE_OF_NULL = 1138"
definition ER_REGEXP_ERROR :: nat where [error_kind_defs]: "ER_REGEXP_ERROR = 1139"
definition ER_MIX_OF_GROUP_FUNC_AND_FIELDS :: nat where [error_kind_defs]: "ER_MIX_OF_GROUP_FUNC_AND_FIELDS = 1140"
definition ER_NONEXISTING_GRANT :: nat where [error_kind_defs]: "ER_NONEXISTING_GRANT = 1141"
definition ER_TABLEACCESS_DENIED_ERROR :: nat where [error_kind_defs]: "ER_TABLEACCESS_DENIED_ERROR = 1142"
definition ER_COLUMNACCESS_DENIED_ERROR :: nat where [error_kind_defs]: "ER_COLUMNACCESS_DENIED_ERROR = 1143"
definition ER_ILLEGAL_GRANT_FOR_TABLE :: nat where [error_kind_defs]: "ER_ILLEGAL_GRANT_FOR_TABLE = 1144"
definition ER_GRANT_WRONG_HOST_OR_USER :: nat where [error_kind_defs]: "ER_GRANT_WRONG_HOST_OR_USER = 1145"
definition ER_NO_SUCH_TABLE :: nat where [error_kind_defs]: "ER_NO_SUCH_TABLE = 1146"
definition ER_NONEXISTING_TABLE_GRANT :: nat where [error_kind_defs]: "ER_NONEXISTING_TABLE_GRANT = 1147"
definition ER_NOT_ALLOWED_COMMAND :: nat where [error_kind_defs]: "ER_NOT_ALLOWED_COMMAND = 1148"
definition ER_SYNTAX_ERROR :: nat where [error_kind_defs]: "ER_SYNTAX_ERROR = 1149"
definition ER_DELAYED_CANT_CHANGE_LOCK :: nat where [error_kind_defs]: "ER_DELAYED_CANT_CHANGE_LOCK = 1150"
definition ER_TOO_MANY_DELAYED_THREADS :: nat where [error_kind_defs]: "ER_TOO_MANY_DELAYED_THREADS = 1151"
definition ER_ABORTING_CONNECTION :: nat where [error_kind_defs]: "ER_ABORTING_CONNECTION = 1152"
definition ER_NET_PACKET_TOO_LARGE :: nat where [error_kind_defs]: "ER_NET_PACKET_TOO_LARGE = 1153"
definition ER_NET_READ_ERROR_FROM_PIPE :: nat where [error_kind_defs]: "ER_NET_READ_ERROR_FROM_PIPE = 1154"
definition ER_NET_FCNTL_ERROR :: nat where [error_kind_defs]: "ER_NET_FCNTL_ERROR = 1155"
definition ER_NET_PACKETS_OUT_OF_ORDER :: nat where [error_kind_defs]: "ER_NET_PACKETS_OUT_OF_ORDER = 1156"
definition ER_NET_UNCOMPRESS_ERROR :: nat where [error_kind_defs]: "ER_NET_UNCOMPRESS_ERROR = 1157"
definition ER_NET_READ_ERROR :: nat where [error_kind_defs]: "ER_NET_READ_ERROR = 1158"
definition ER_NET_READ_INTERRUPTED :: nat where [error_kind_defs]: "ER_NET_READ_INTERRUPTED = 1159"
definition ER_NET_ERROR_ON_WRITE :: nat where [error_kind_defs]: "ER_NET_ERROR_ON_WRITE = 1160"
definition ER_NET_WRITE_INTERRUPTED :: nat where [error_kind_defs]: "ER_NET_WRITE_INTERRUPTED = 1161"
definition ER_TOO_LONG_STRING :: nat where [error_kind_defs]: "ER_TOO_LONG_STRING = 1162"
definition ER_TABLE_CANT_HANDLE_BLOB :: nat where [error_kind_defs]: "ER_TABLE_CANT_HANDLE_BLOB = 1163"
definition ER_TABLE_CANT_HANDLE_AUTO_INCREMENT :: nat where [error_kind_defs]: "ER_TABLE_CANT_HANDLE_AUTO_INCREMENT = 1164"
definition ER_DELAYED_INSERT_TABLE_LOCKED :: nat where [error_kind_defs]: "ER_DELAYED_INSERT_TABLE_LOCKED = 1165"
definition ER_WRONG_COLUMN_NAME :: nat where [error_kind_defs]: "ER_WRONG_COLUMN_NAME = 1166"
definition ER_WRONG_KEY_COLUMN :: nat where [error_kind_defs]: "ER_WRONG_KEY_COLUMN = 1167"
definition ER_WRONG_MRG_TABLE :: nat where [error_kind_defs]: "ER_WRONG_MRG_TABLE = 1168"
definition ER_DUP_UNIQUE :: nat where [error_kind_defs]: "ER_DUP_UNIQUE = 1169"
definition ER_BLOB_KEY_WITHOUT_LENGTH :: nat where [error_kind_defs]: "ER_BLOB_KEY_WITHOUT_LENGTH = 1170"
definition ER_PRIMARY_CANT_HAVE_NULL :: nat where [error_kind_defs]: "ER_PRIMARY_CANT_HAVE_NULL = 1171"
definition ER_TOO_MANY_ROWS :: nat where [error_kind_defs]: "ER_TOO_MANY_ROWS = 1172"
definition ER_REQUIRES_PRIMARY_KEY :: nat where [error_kind_defs]: "ER_REQUIRES_PRIMARY_KEY = 1173"
definition ER_NO_RAID_COMPILED :: nat where [error_kind_defs]: "ER_NO_RAID_COMPILED = 1174"
definition ER_UPDATE_WITHOUT_KEY_IN_SAFE_MODE :: nat where [error_kind_defs]: "ER_UPDATE_WITHOUT_KEY_IN_SAFE_MODE = 1175"
definition ER_KEY_DOES_NOT_EXITS :: nat where [error_kind_defs]: "ER_KEY_DOES_NOT_EXITS = 1176"
definition ER_CHECK_NO_SUCH_TABLE :: nat where [error_kind_defs]: "ER_CHECK_NO_SUCH_TABLE = 1177"
definition ER_CHECK_NOT_IMPLEMENTED :: nat where [error_kind_defs]: "ER_CHECK_NOT_IMPLEMENTED = 1178"
definition ER_CANT_DO_THIS_DURING_AN_TRANSACTION :: nat where [error_kind_defs]: "ER_CANT_DO_THIS_DURING_AN_TRANSACTION = 1179"
definition ER_ERROR_DURING_COMMIT :: nat where [error_kind_defs]: "ER_ERROR_DURING_COMMIT = 1180"
definition ER_ERROR_DURING_ROLLBACK :: nat where [error_kind_defs]: "ER_ERROR_DURING_ROLLBACK = 1181"
definition ER_ERROR_DURING_FLUSH_LOGS :: nat where [error_kind_defs]: "ER_ERROR_DURING_FLUSH_LOGS = 1182"
definition ER_ERROR_DURING_CHECKPOINT :: nat where [error_kind_defs]: "ER_ERROR_DURING_CHECKPOINT = 1183"
definition ER_NEW_ABORTING_CONNECTION :: nat where [error_kind_defs]: "ER_NEW_ABORTING_CONNECTION = 1184"
definition ER_DUMP_NOT_IMPLEMENTED :: nat where [error_kind_defs]: "ER_DUMP_NOT_IMPLEMENTED = 1185"
definition ER_FLUSH_MASTER_BINLOG_CLOSED :: nat where [error_kind_defs]: "ER_FLUSH_MASTER_BINLOG_CLOSED = 1186"
definition ER_INDEX_REBUILD :: nat where [error_kind_defs]: "ER_INDEX_REBUILD = 1187"
definition ER_MASTER :: nat where [error_kind_defs]: "ER_MASTER = 1188"
definition ER_MASTER_NET_READ :: nat where [error_kind_defs]: "ER_MASTER_NET_READ = 1189"
definition ER_MASTER_NET_WRITE :: nat where [error_kind_defs]: "ER_MASTER_NET_WRITE = 1190"
definition ER_FT_MATCHING_KEY_NOT_FOUND :: nat where [error_kind_defs]: "ER_FT_MATCHING_KEY_NOT_FOUND = 1191"
definition ER_LOCK_OR_ACTIVE_TRANSACTION :: nat where [error_kind_defs]: "ER_LOCK_OR_ACTIVE_TRANSACTION = 1192"
definition ER_UNKNOWN_SYSTEM_VARIABLE :: nat where [error_kind_defs]: "ER_UNKNOWN_SYSTEM_VARIABLE = 1193"
definition ER_CRASHED_ON_USAGE :: nat where [error_kind_defs]: "ER_CRASHED_ON_USAGE = 1194"
definition ER_CRASHED_ON_REPAIR :: nat where [error_kind_defs]: "ER_CRASHED_ON_REPAIR = 1195"
definition ER_WARNING_NOT_COMPLETE_ROLLBACK :: nat where [error_kind_defs]: "ER_WARNING_NOT_COMPLETE_ROLLBACK = 1196"
definition ER_TRANS_CACHE_FULL :: nat where [error_kind_defs]: "ER_TRANS_CACHE_FULL = 1197"
definition ER_SLAVE_MUST_STOP :: nat where [error_kind_defs]: "ER_SLAVE_MUST_STOP = 1198"
definition ER_SLAVE_NOT_RUNNING :: nat where [error_kind_defs]: "ER_SLAVE_NOT_RUNNING = 1199"
definition ER_BAD_SLAVE :: nat where [error_kind_defs]: "ER_BAD_SLAVE = 1200"
definition ER_MASTER_INF :: nat where [error_kind_defs]: "ER_MASTER_INF = 1201"
definition ER_SLAVE_THREAD :: nat where [error_kind_defs]: "ER_SLAVE_THREAD = 1202"
definition ER_TOO_MANY_USER_CONNECTIONS :: nat where [error_kind_defs]: "ER_TOO_MANY_USER_CONNECTIONS = 1203"
definition ER_SET_CONSTANTS_ONLY :: nat where [error_kind_defs]: "ER_SET_CONSTANTS_ONLY = 1204"
definition ER_LOCK_WAIT_TIMEOUT :: nat where [error_kind_defs]: "ER_LOCK_WAIT_TIMEOUT = 1205"
definition ER_LOCK_TABLE_FULL :: nat where [error_kind_defs]: "ER_LOCK_TABLE_FULL = 1206"
definition ER_READ_ONLY_TRANSACTION :: nat where [error_kind_defs]: "ER_READ_ONLY_TRANSACTION = 1207"
definition ER_DROP_DB_WITH_READ_LOCK :: nat where [error_kind_defs]: "ER_DROP_DB_WITH_READ_LOCK = 1208"
definition ER_CREATE_DB_WITH_READ_LOCK :: nat where [error_kind_defs]: "ER_CREATE_DB_WITH_READ_LOCK = 1209"
definition ER_WRONG_ARGUMENTS :: nat where [error_kind_defs]: "ER_WRONG_ARGUMENTS = 1210"
definition ER_NO_PERMISSION_TO_CREATE_USER :: nat where [error_kind_defs]: "ER_NO_PERMISSION_TO_CREATE_USER = 1211"
definition ER_UNION_TABLES_IN_DIFFERENT_DIR :: nat where [error_kind_defs]: "ER_UNION_TABLES_IN_DIFFERENT_DIR = 1212"
definition ER_LOCK_DEADLOCK :: nat where [error_kind_defs]: "ER_LOCK_DEADLOCK = 1213"
definition ER_TABLE_CANT_HANDLE_FT :: nat where [error_kind_defs]: "ER_TABLE_CANT_HANDLE_FT = 1214"
definition ER_CANNOT_ADD_FOREIGN :: nat where [error_kind_defs]: "ER_CANNOT_ADD_FOREIGN = 1215"
definition ER_NO_REFERENCED_ROW :: nat where [error_kind_defs]: "ER_NO_REFERENCED_ROW = 1216"
definition ER_ROW_IS_REFERENCED :: nat where [error_kind_defs]: "ER_ROW_IS_REFERENCED = 1217"
definition ER_CONNECT_TO_MASTER :: nat where [error_kind_defs]: "ER_CONNECT_TO_MASTER = 1218"
definition ER_QUERY_ON_MASTER :: nat where [error_kind_defs]: "ER_QUERY_ON_MASTER = 1219"
definition ER_ERROR_WHEN_EXECUTING_COMMAND :: nat where [error_kind_defs]: "ER_ERROR_WHEN_EXECUTING_COMMAND = 1220"
definition ER_WRONG_USAGE :: nat where [error_kind_defs]: "ER_WRONG_USAGE = 1221"
definition ER_WRONG_NUMBER_OF_COLUMNS_IN_SELECT :: nat where [error_kind_defs]: "ER_WRONG_NUMBER_OF_COLUMNS_IN_SELECT = 1222"
definition ER_CANT_UPDATE_WITH_READLOCK :: nat where [error_kind_defs]: "ER_CANT_UPDATE_WITH_READLOCK = 1223"
definition ER_MIXING_NOT_ALLOWED :: nat where [error_kind_defs]: "ER_MIXING_NOT_ALLOWED = 1224"
definition ER_DUP_ARGUMENT :: nat where [error_kind_defs]: "ER_DUP_ARGUMENT = 1225"
definition ER_USER_LIMIT_REACHED :: nat where [error_kind_defs]: "ER_USER_LIMIT_REACHED = 1226"
definition ER_SPECIFIC_ACCESS_DENIED_ERROR :: nat where [error_kind_defs]: "ER_SPECIFIC_ACCESS_DENIED_ERROR = 1227"
definition ER_LOCAL_VARIABLE :: nat where [error_kind_defs]: "ER_LOCAL_VARIABLE = 1228"
definition ER_GLOBAL_VARIABLE :: nat where [error_kind_defs]: "ER_GLOBAL_VARIABLE = 1229"
definition ER_NO_DEFAULT :: nat where [error_kind_defs]: "ER_NO_DEFAULT = 1230"
definition ER_WRONG_VALUE_FOR_VAR :: nat where [error_kind_defs]: "ER_WRONG_VALUE_FOR_VAR = 1231"
definition ER_WRONG_TYPE_FOR_VAR :: nat where [error_kind_defs]: "ER_WRONG_TYPE_FOR_VAR = 1232"
definition ER_VAR_CANT_BE_READ :: nat where [error_kind_defs]: "ER_VAR_CANT_BE_READ = 1233"
definition ER_CANT_USE_OPTION_HERE :: nat where [error_kind_defs]: "ER_CANT_USE_OPTION_HERE = 1234"
definition ER_NOT_SUPPORTED_YET :: nat where [error_kind_defs]: "ER_NOT_SUPPORTED_YET = 1235"
definition ER_MASTER_FATAL_ERROR_READING_BINLOG :: nat where [error_kind_defs]: "ER_MASTER_FATAL_ERROR_READING_BINLOG = 1236"
definition ER_SLAVE_IGNORED_TABLE :: nat where [error_kind_defs]: "ER_SLAVE_IGNORED_TABLE = 1237"
definition ER_INCORRECT_GLOBAL_LOCAL_VAR :: nat where [error_kind_defs]: "ER_INCORRECT_GLOBAL_LOCAL_VAR = 1238"
definition ER_WRONG_FK_DEF :: nat where [error_kind_defs]: "ER_WRONG_FK_DEF = 1239"
definition ER_KEY_REF_DO_NOT_MATCH_TABLE_REF :: nat where [error_kind_defs]: "ER_KEY_REF_DO_NOT_MATCH_TABLE_REF = 1240"
definition ER_OPERAND_COLUMNS :: nat where [error_kind_defs]: "ER_OPERAND_COLUMNS = 1241"
definition ER_SUBQUERY_NO_1_ROW :: nat where [error_kind_defs]: "ER_SUBQUERY_NO_1_ROW = 1242"
definition ER_UNKNOWN_STMT_HANDLER :: nat where [error_kind_defs]: "ER_UNKNOWN_STMT_HANDLER = 1243"
definition ER_CORRUPT_HELP_DB :: nat where [error_kind_defs]: "ER_CORRUPT_HELP_DB = 1244"
definition ER_CYCLIC_REFERENCE :: nat where [error_kind_defs]: "ER_CYCLIC_REFERENCE = 1245"
definition ER_AUTO_CONVERT :: nat where [error_kind_defs]: "ER_AUTO_CONVERT = 1246"
definition ER_ILLEGAL_REFERENCE :: nat where [error_kind_defs]: "ER_ILLEGAL_REFERENCE = 1247"
definition ER_DERIVED_MUST_HAVE_ALIAS :: nat where [error_kind_defs]: "ER_DERIVED_MUST_HAVE_ALIAS = 1248"
definition ER_SELECT_REDUCED :: nat where [error_kind_defs]: "ER_SELECT_REDUCED = 1249"
definition ER_TABLENAME_NOT_ALLOWED_HERE :: nat where [error_kind_defs]: "ER_TABLENAME_NOT_ALLOWED_HERE = 1250"
definition ER_NOT_SUPPORTED_AUTH_MODE :: nat where [error_kind_defs]: "ER_NOT_SUPPORTED_AUTH_MODE = 1251"
definition ER_SPATIAL_CANT_HAVE_NULL :: nat where [error_kind_defs]: "ER_SPATIAL_CANT_HAVE_NULL = 1252"
definition ER_COLLATION_CHARSET_MISMATCH :: nat where [error_kind_defs]: "ER_COLLATION_CHARSET_MISMATCH = 1253"
definition ER_SLAVE_WAS_RUNNING :: nat where [error_kind_defs]: "ER_SLAVE_WAS_RUNNING = 1254"
definition ER_SLAVE_WAS_NOT_RUNNING :: nat where [error_kind_defs]: "ER_SLAVE_WAS_NOT_RUNNING = 1255"
definition ER_TOO_BIG_FOR_UNCOMPRESS :: nat where [error_kind_defs]: "ER_TOO_BIG_FOR_UNCOMPRESS = 1256"
definition ER_ZLIB_Z_MEM_ERROR :: nat where [error_kind_defs]: "ER_ZLIB_Z_MEM_ERROR = 1257"
definition ER_ZLIB_Z_BUF_ERROR :: nat where [error_kind_defs]: "ER_ZLIB_Z_BUF_ERROR = 1258"
definition ER_ZLIB_Z_DATA_ERROR :: nat where [error_kind_defs]: "ER_ZLIB_Z_DATA_ERROR = 1259"
definition ER_CUT_VALUE_GROUP_CONCAT :: nat where [error_kind_defs]: "ER_CUT_VALUE_GROUP_CONCAT = 1260"
definition ER_WARN_TOO_FEW_RECORDS :: nat where [error_kind_defs]: "ER_WARN_TOO_FEW_RECORDS = 1261"
definition ER_WARN_TOO_MANY_RECORDS :: nat where [error_kind_defs]: "ER_WARN_TOO_MANY_RECORDS = 1262"
definition ER_WARN_NULL_TO_NOTNULL :: nat where [error_kind_defs]: "ER_WARN_NULL_TO_NOTNULL = 1263"
definition ER_WARN_DATA_OUT_OF_RANGE :: nat where [error_kind_defs]: "ER_WARN_DATA_OUT_OF_RANGE = 1264"
definition WARN_DATA_TRUNCATED :: nat where [error_kind_defs]: "WARN_DATA_TRUNCATED = 1265"
definition ER_WARN_USING_OTHER_HANDLER :: nat where [error_kind_defs]: "ER_WARN_USING_OTHER_HANDLER = 1266"
definition ER_CANT_AGGREGATE_2COLLATIONS :: nat where [error_kind_defs]: "ER_CANT_AGGREGATE_2COLLATIONS = 1267"
definition ER_DROP_USER :: nat where [error_kind_defs]: "ER_DROP_USER = 1268"
definition ER_REVOKE_GRANTS :: nat where [error_kind_defs]: "ER_REVOKE_GRANTS = 1269"
definition ER_CANT_AGGREGATE_3COLLATIONS :: nat where [error_kind_defs]: "ER_CANT_AGGREGATE_3COLLATIONS = 1270"
definition ER_CANT_AGGREGATE_NCOLLATIONS :: nat where [error_kind_defs]: "ER_CANT_AGGREGATE_NCOLLATIONS = 1271"
definition ER_VARIABLE_IS_NOT_STRUCT :: nat where [error_kind_defs]: "ER_VARIABLE_IS_NOT_STRUCT = 1272"
definition ER_UNKNOWN_COLLATION :: nat where [error_kind_defs]: "ER_UNKNOWN_COLLATION = 1273"
definition ER_SLAVE_IGNORED_SSL_PARAMS :: nat where [error_kind_defs]: "ER_SLAVE_IGNORED_SSL_PARAMS = 1274"
definition ER_SERVER_IS_IN_SECURE_AUTH_MODE :: nat where [error_kind_defs]: "ER_SERVER_IS_IN_SECURE_AUTH_MODE = 1275"
definition ER_WARN_FIELD_RESOLVED :: nat where [error_kind_defs]: "ER_WARN_FIELD_RESOLVED = 1276"
definition ER_BAD_SLAVE_UNTIL_COND :: nat where [error_kind_defs]: "ER_BAD_SLAVE_UNTIL_COND = 1277"
definition ER_MISSING_SKIP_SLAVE :: nat where [error_kind_defs]: "ER_MISSING_SKIP_SLAVE = 1278"
definition ER_UNTIL_COND_IGNORED :: nat where [error_kind_defs]: "ER_UNTIL_COND_IGNORED = 1279"
definition ER_WRONG_NAME_FOR_INDEX :: nat where [error_kind_defs]: "ER_WRONG_NAME_FOR_INDEX = 1280"
definition ER_WRONG_NAME_FOR_CATALOG :: nat where [error_kind_defs]: "ER_WRONG_NAME_FOR_CATALOG = 1281"
definition ER_WARN_QC_RESIZE :: nat where [error_kind_defs]: "ER_WARN_QC_RESIZE = 1282"
definition ER_BAD_FT_COLUMN :: nat where [error_kind_defs]: "ER_BAD_FT_COLUMN = 1283"
definition ER_UNKNOWN_KEY_CACHE :: nat where [error_kind_defs]: "ER_UNKNOWN_KEY_CACHE = 1284"
definition ER_WARN_HOSTNAME_WONT_WORK :: nat where [error_kind_defs]: "ER_WARN_HOSTNAME_WONT_WORK = 1285"
definition ER_UNKNOWN_STORAGE_ENGINE :: nat where [error_kind_defs]: "ER_UNKNOWN_STORAGE_ENGINE = 1286"
definition ER_WARN_DEPRECATED_SYNTAX :: nat where [error_kind_defs]: "ER_WARN_DEPRECATED_SYNTAX = 1287"
definition ER_NON_UPDATABLE_TABLE :: nat where [error_kind_defs]: "ER_NON_UPDATABLE_TABLE = 1288"
definition ER_FEATURE_DISABLED :: nat where [error_kind_defs]: "ER_FEATURE_DISABLED = 1289"
definition ER_OPTION_PREVENTS_STATEMENT :: nat where [error_kind_defs]: "ER_OPTION_PREVENTS_STATEMENT = 1290"
definition ER_DUPLICATED_VALUE_IN_TYPE :: nat where [error_kind_defs]: "ER_DUPLICATED_VALUE_IN_TYPE = 1291"
definition ER_TRUNCATED_WRONG_VALUE :: nat where [error_kind_defs]: "ER_TRUNCATED_WRONG_VALUE = 1292"
definition ER_TOO_MUCH_AUTO_TIMESTAMP_COLS :: nat where [error_kind_defs]: "ER_TOO_MUCH_AUTO_TIMESTAMP_COLS = 1293"
definition ER_INVALID_ON_UPDATE :: nat where [error_kind_defs]: "ER_INVALID_ON_UPDATE = 1294"
definition ER_UNSUPPORTED_PS :: nat where [error_kind_defs]: "ER_UNSUPPORTED_PS = 1295"
definition ER_GET_ERRMSG :: nat where [error_kind_defs]: "ER_GET_ERRMSG = 1296"
definition ER_GET_TEMPORARY_ERRMSG :: nat where [error_kind_defs]: "ER_GET_TEMPORARY_ERRMSG = 1297"
definition ER_UNKNOWN_TIME_ZONE :: nat where [error_kind_defs]: "ER_UNKNOWN_TIME_ZONE = 1298"
definition ER_WARN_INVALID_TIMESTAMP :: nat where [error_kind_defs]: "ER_WARN_INVALID_TIMESTAMP = 1299"
definition ER_INVALID_CHARACTER_STRING :: nat where [error_kind_defs]: "ER_INVALID_CHARACTER_STRING = 1300"
definition ER_WARN_ALLOWED_PACKET_OVERFLOWED :: nat where [error_kind_defs]: "ER_WARN_ALLOWED_PACKET_OVERFLOWED = 1301"
definition ER_CONFLICTING_DECLARATIONS :: nat where [error_kind_defs]: "ER_CONFLICTING_DECLARATIONS = 1302"
definition ER_SP_NO_RECURSIVE_CREATE :: nat where [error_kind_defs]: "ER_SP_NO_RECURSIVE_CREATE = 1303"
definition ER_SP_ALREADY_EXISTS :: nat where [error_kind_defs]: "ER_SP_ALREADY_EXISTS = 1304"
definition ER_SP_DOES_NOT_EXIST :: nat where [error_kind_defs]: "ER_SP_DOES_NOT_EXIST = 1305"
definition ER_SP_DROP_FAILED :: nat where [error_kind_defs]: "ER_SP_DROP_FAILED = 1306"
definition ER_SP_STORE_FAILED :: nat where [error_kind_defs]: "ER_SP_STORE_FAILED = 1307"
definition ER_SP_LILABEL_MISMATCH :: nat where [error_kind_defs]: "ER_SP_LILABEL_MISMATCH = 1308"
definition ER_SP_LABEL_REDEFINE :: nat where [error_kind_defs]: "ER_SP_LABEL_REDEFINE = 1309"
definition ER_SP_LABEL_MISMATCH :: nat where [error_kind_defs]: "ER_SP_LABEL_MISMATCH = 1310"
definition ER_SP_UNINIT_VAR :: nat where [error_kind_defs]: "ER_SP_UNINIT_VAR = 1311"
definition ER_SP_BADSELECT :: nat where [error_kind_defs]: "ER_SP_BADSELECT = 1312"
definition ER_SP_BADRETURN :: nat where [error_kind_defs]: "ER_SP_BADRETURN = 1313"
definition ER_SP_BADSTATEMENT :: nat where [error_kind_defs]: "ER_SP_BADSTATEMENT = 1314"
definition ER_UPDATE_LOG_DEPRECATED_IGNORED :: nat where [error_kind_defs]: "ER_UPDATE_LOG_DEPRECATED_IGNORED = 1315"
definition ER_UPDATE_LOG_DEPRECATED_TRANSLATED :: nat where [error_kind_defs]: "ER_UPDATE_LOG_DEPRECATED_TRANSLATED = 1316"
definition ER_QUERY_INTERRUPTED :: nat where [error_kind_defs]: "ER_QUERY_INTERRUPTED = 1317"
definition ER_SP_WRONG_NO_OF_ARGS :: nat where [error_kind_defs]: "ER_SP_WRONG_NO_OF_ARGS = 1318"
definition ER_SP_COND_MISMATCH :: nat where [error_kind_defs]: "ER_SP_COND_MISMATCH = 1319"
definition ER_SP_NORETURN :: nat where [error_kind_defs]: "ER_SP_NORETURN = 1320"
definition ER_SP_NORETURNEND :: nat where [error_kind_defs]: "ER_SP_NORETURNEND = 1321"
definition ER_SP_BAD_CURSOR_QUERY :: nat where [error_kind_defs]: "ER_SP_BAD_CURSOR_QUERY = 1322"
definition ER_SP_BAD_CURSOR_SELECT :: nat where [error_kind_defs]: "ER_SP_BAD_CURSOR_SELECT = 1323"
definition ER_SP_CURSOR_MISMATCH :: nat where [error_kind_defs]: "ER_SP_CURSOR_MISMATCH = 1324"
definition ER_SP_CURSOR_ALREADY_OPEN :: nat where [error_kind_defs]: "ER_SP_CURSOR_ALREADY_OPEN = 1325"
definition ER_SP_CURSOR_NOT_OPEN :: nat where [error_kind_defs]: "ER_SP_CURSOR_NOT_OPEN = 1326"
definition ER_SP_UNDECLARED_VAR :: nat where [error_kind_defs]: "ER_SP_UNDECLARED_VAR = 1327"
definition ER_SP_WRONG_NO_OF_FETCH_ARGS :: nat where [error_kind_defs]: "ER_SP_WRONG_NO_OF_FETCH_ARGS = 1328"
definition ER_SP_FETCH_NO_DATA :: nat where [error_kind_defs]: "ER_SP_FETCH_NO_DATA = 1329"
definition ER_SP_DUP_PARAM :: nat where [error_kind_defs]: "ER_SP_DUP_PARAM = 1330"
definition ER_SP_DUP_VAR :: nat where [error_kind_defs]: "ER_SP_DUP_VAR = 1331"
definition ER_SP_DUP_COND :: nat where [error_kind_defs]: "ER_SP_DUP_COND = 1332"
definition ER_SP_DUP_CURS :: nat where [error_kind_defs]: "ER_SP_DUP_CURS = 1333"
definition ER_SP_CANT_ALTER :: nat where [error_kind_defs]: "ER_SP_CANT_ALTER = 1334"
definition ER_SP_SUBSELECT_NYI :: nat where [error_kind_defs]: "ER_SP_SUBSELECT_NYI = 1335"
definition ER_STMT_NOT_ALLOWED_IN_SF_OR_TRG :: nat where [error_kind_defs]: "ER_STMT_NOT_ALLOWED_IN_SF_OR_TRG = 1336"
definition ER_SP_VARCOND_AFTER_CURSHNDLR :: nat where [error_kind_defs]: "ER_SP_VARCOND_AFTER_CURSHNDLR = 1337"
definition ER_SP_CURSOR_AFTER_HANDLER :: nat where [error_kind_defs]: "ER_SP_CURSOR_AFTER_HANDLER = 1338"
definition ER_SP_CASE_NOT_FOUND :: nat where [error_kind_defs]: "ER_SP_CASE_NOT_FOUND = 1339"
definition ER_FPARSER_TOO_BIG_FILE :: nat where [error_kind_defs]: "ER_FPARSER_TOO_BIG_FILE = 1340"
definition ER_FPARSER_BAD_HEADER :: nat where [error_kind_defs]: "ER_FPARSER_BAD_HEADER = 1341"
definition ER_FPARSER_EOF_IN_COMMENT :: nat where [error_kind_defs]: "ER_FPARSER_EOF_IN_COMMENT = 1342"
definition ER_FPARSER_ERROR_IN_PARAMETER :: nat where [error_kind_defs]: "ER_FPARSER_ERROR_IN_PARAMETER = 1343"
definition ER_FPARSER_EOF_IN_UNKNOWN_PARAMETER :: nat where [error_kind_defs]: "ER_FPARSER_EOF_IN_UNKNOWN_PARAMETER = 1344"
definition ER_VIEW_NO_EXPLAIN :: nat where [error_kind_defs]: "ER_VIEW_NO_EXPLAIN = 1345"
definition ER_FRM_UNKNOWN_TYPE :: nat where [error_kind_defs]: "ER_FRM_UNKNOWN_TYPE = 1346"
definition ER_WRONG_OBJECT :: nat where [error_kind_defs]: "ER_WRONG_OBJECT = 1347"
definition ER_NONUPDATEABLE_COLUMN :: nat where [error_kind_defs]: "ER_NONUPDATEABLE_COLUMN = 1348"
definition ER_VIEW_SELECT_DERIVED :: nat where [error_kind_defs]: "ER_VIEW_SELECT_DERIVED = 1349"
definition ER_VIEW_SELECT_CLAUSE :: nat where [error_kind_defs]: "ER_VIEW_SELECT_CLAUSE = 1350"
definition ER_VIEW_SELECT_VARIABLE :: nat where [error_kind_defs]: "ER_VIEW_SELECT_VARIABLE = 1351"
definition ER_VIEW_SELECT_TMPTABLE :: nat where [error_kind_defs]: "ER_VIEW_SELECT_TMPTABLE = 1352"
definition ER_VIEW_WRONG_LIST :: nat where [error_kind_defs]: "ER_VIEW_WRONG_LIST = 1353"
definition ER_WARN_VIEW_MERGE :: nat where [error_kind_defs]: "ER_WARN_VIEW_MERGE = 1354"
definition ER_WARN_VIEW_WITHOUT_KEY :: nat where [error_kind_defs]: "ER_WARN_VIEW_WITHOUT_KEY = 1355"
definition ER_VIEW_INVALID :: nat where [error_kind_defs]: "ER_VIEW_INVALID = 1356"
definition ER_SP_NO_DROP_SP :: nat where [error_kind_defs]: "ER_SP_NO_DROP_SP = 1357"
definition ER_SP_GOTO_IN_HNDLR :: nat where [error_kind_defs]: "ER_SP_GOTO_IN_HNDLR = 1358"
definition ER_TRG_ALREADY_EXISTS :: nat where [error_kind_defs]: "ER_TRG_ALREADY_EXISTS = 1359"
definition ER_TRG_DOES_NOT_EXIST :: nat where [error_kind_defs]: "ER_TRG_DOES_NOT_EXIST = 1360"
definition ER_TRG_ON_VIEW_OR_TEMP_TABLE :: nat where [error_kind_defs]: "ER_TRG_ON_VIEW_OR_TEMP_TABLE = 1361"
definition ER_TRG_CANT_CHANGE_ROW :: nat where [error_kind_defs]: "ER_TRG_CANT_CHANGE_ROW = 1362"
definition ER_TRG_NO_SUCH_ROW_IN_TRG :: nat where [error_kind_defs]: "ER_TRG_NO_SUCH_ROW_IN_TRG = 1363"
definition ER_NO_DEFAULT_FOR_FIELD :: nat where [error_kind_defs]: "ER_NO_DEFAULT_FOR_FIELD = 1364"
definition ER_DIVISION_BY_ZER :: nat where [error_kind_defs]: "ER_DIVISION_BY_ZER = 1365"
definition ER_TRUNCATED_WRONG_VALUE_FOR_FIELD :: nat where [error_kind_defs]: "ER_TRUNCATED_WRONG_VALUE_FOR_FIELD = 1366"
definition ER_ILLEGAL_VALUE_FOR_TYPE :: nat where [error_kind_defs]: "ER_ILLEGAL_VALUE_FOR_TYPE = 1367"
definition ER_VIEW_NONUPD_CHECK :: nat where [error_kind_defs]: "ER_VIEW_NONUPD_CHECK = 1368"
definition ER_VIEW_CHECK_FAILED :: nat where [error_kind_defs]: "ER_VIEW_CHECK_FAILED = 1369"
definition ER_PROCACCESS_DENIED_ERROR :: nat where [error_kind_defs]: "ER_PROCACCESS_DENIED_ERROR = 1370"
definition ER_RELAY_LOG_FAIL :: nat where [error_kind_defs]: "ER_RELAY_LOG_FAIL = 1371"
definition ER_PASSWD_LENGTH :: nat where [error_kind_defs]: "ER_PASSWD_LENGTH = 1372"
definition ER_UNKNOWN_TARGET_BINLOG :: nat where [error_kind_defs]: "ER_UNKNOWN_TARGET_BINLOG = 1373"
definition ER_IO_ERR_LOG_INDEX_READ :: nat where [error_kind_defs]: "ER_IO_ERR_LOG_INDEX_READ = 1374"
definition ER_BINLOG_PURGE_PROHIBITED :: nat where [error_kind_defs]: "ER_BINLOG_PURGE_PROHIBITED = 1375"
definition ER_FSEEK_FAIL :: nat where [error_kind_defs]: "ER_FSEEK_FAIL = 1376"
definition ER_BINLOG_PURGE_FATAL_ERR :: nat where [error_kind_defs]: "ER_BINLOG_PURGE_FATAL_ERR = 1377"
definition ER_LOG_IN_USE :: nat where [error_kind_defs]: "ER_LOG_IN_USE = 1378"
definition ER_LOG_PURGE_UNKNOWN_ERR :: nat where [error_kind_defs]: "ER_LOG_PURGE_UNKNOWN_ERR = 1379"
definition ER_RELAY_LOG_INIT :: nat where [error_kind_defs]: "ER_RELAY_LOG_INIT = 1380"
definition ER_NO_BINARY_LOGGING :: nat where [error_kind_defs]: "ER_NO_BINARY_LOGGING = 1381"
definition ER_RESERVED_SYNTAX :: nat where [error_kind_defs]: "ER_RESERVED_SYNTAX = 1382"
definition ER_WSAS_FAILED :: nat where [error_kind_defs]: "ER_WSAS_FAILED = 1383"
definition ER_DIFF_GROUPS_PROC :: nat where [error_kind_defs]: "ER_DIFF_GROUPS_PROC = 1384"
definition ER_NO_GROUP_FOR_PROC :: nat where [error_kind_defs]: "ER_NO_GROUP_FOR_PROC = 1385"
definition ER_ORDER_WITH_PROC :: nat where [error_kind_defs]: "ER_ORDER_WITH_PROC = 1386"
definition ER_LOGGING_PROHIBIT_CHANGING_OF :: nat where [error_kind_defs]: "ER_LOGGING_PROHIBIT_CHANGING_OF = 1387"
definition ER_NO_FILE_MAPPING :: nat where [error_kind_defs]: "ER_NO_FILE_MAPPING = 1388"
definition ER_WRONG_MAGIC :: nat where [error_kind_defs]: "ER_WRONG_MAGIC = 1389"
definition ER_PS_MANY_PARAM :: nat where [error_kind_defs]: "ER_PS_MANY_PARAM = 1390"
definition ER_KEY_PART_0 :: nat where [error_kind_defs]: "ER_KEY_PART_0 = 1391"
definition ER_VIEW_CHECKSUM :: nat where [error_kind_defs]: "ER_VIEW_CHECKSUM = 1392"
definition ER_VIEW_MULTIUPDATE :: nat where [error_kind_defs]: "ER_VIEW_MULTIUPDATE = 1393"
definition ER_VIEW_NO_INSERT_FIELD_LIST :: nat where [error_kind_defs]: "ER_VIEW_NO_INSERT_FIELD_LIST = 1394"
definition ER_VIEW_DELETE_MERGE_VIEW :: nat where [error_kind_defs]: "ER_VIEW_DELETE_MERGE_VIEW = 1395"
definition ER_CANNOT_USER :: nat where [error_kind_defs]: "ER_CANNOT_USER = 1396"
definition ER_XAER_NOTA :: nat where [error_kind_defs]: "ER_XAER_NOTA = 1397"
definition ER_XAER_INVAL :: nat where [error_kind_defs]: "ER_XAER_INVAL = 1398"
definition ER_XAER_RMFAIL :: nat where [error_kind_defs]: "ER_XAER_RMFAIL = 1399"
definition ER_XAER_OUTSIDE :: nat where [error_kind_defs]: "ER_XAER_OUTSIDE = 1400"
definition ER_XAER_RMERR :: nat where [error_kind_defs]: "ER_XAER_RMERR = 1401"
definition ER_XA_RBROLLBACK :: nat where [error_kind_defs]: "ER_XA_RBROLLBACK = 1402"
definition ER_NONEXISTING_PROC_GRANT :: nat where [error_kind_defs]: "ER_NONEXISTING_PROC_GRANT = 1403"
definition ER_PROC_AUTO_GRANT_FAIL :: nat where [error_kind_defs]: "ER_PROC_AUTO_GRANT_FAIL = 1404"
definition ER_PROC_AUTO_REVOKE_FAIL :: nat where [error_kind_defs]: "ER_PROC_AUTO_REVOKE_FAIL = 1405"
definition ER_DATA_TOO_LONG :: nat where [error_kind_defs]: "ER_DATA_TOO_LONG = 1406"
definition ER_SP_BAD_SQLSTATE :: nat where [error_kind_defs]: "ER_SP_BAD_SQLSTATE = 1407"
definition ER_STARTUP :: nat where [error_kind_defs]: "ER_STARTUP = 1408"
definition ER_LOAD_FROM_FIXED_SIZE_ROWS_TO_VAR :: nat where [error_kind_defs]: "ER_LOAD_FROM_FIXED_SIZE_ROWS_TO_VAR = 1409"
definition ER_CANT_CREATE_USER_WITH_GRANT :: nat where [error_kind_defs]: "ER_CANT_CREATE_USER_WITH_GRANT = 1410"
definition ER_WRONG_VALUE_FOR_TYPE :: nat where [error_kind_defs]: "ER_WRONG_VALUE_FOR_TYPE = 1411"
definition ER_TABLE_DEF_CHANGED :: nat where [error_kind_defs]: "ER_TABLE_DEF_CHANGED = 1412"
definition ER_SP_DUP_HANDLER :: nat where [error_kind_defs]: "ER_SP_DUP_HANDLER = 1413"
definition ER_SP_NOT_VAR_ARG :: nat where [error_kind_defs]: "ER_SP_NOT_VAR_ARG = 1414"
definition ER_SP_NO_RETSET :: nat where [error_kind_defs]: "ER_SP_NO_RETSET = 1415"
definition ER_CANT_CREATE_GEOMETRY_OBJECT :: nat where [error_kind_defs]: "ER_CANT_CREATE_GEOMETRY_OBJECT = 1416"
definition ER_FAILED_ROUTINE_BREAK_BINLOG :: nat where [error_kind_defs]: "ER_FAILED_ROUTINE_BREAK_BINLOG = 1417"
definition ER_BINLOG_UNSAFE_ROUTINE :: nat where [error_kind_defs]: "ER_BINLOG_UNSAFE_ROUTINE = 1418"
definition ER_BINLOG_CREATE_ROUTINE_NEED_SUPER :: nat where [error_kind_defs]: "ER_BINLOG_CREATE_ROUTINE_NEED_SUPER = 1419"
definition ER_EXEC_STMT_WITH_OPEN_CURSOR :: nat where [error_kind_defs]: "ER_EXEC_STMT_WITH_OPEN_CURSOR = 1420"
definition ER_STMT_HAS_NO_OPEN_CURSOR :: nat where [error_kind_defs]: "ER_STMT_HAS_NO_OPEN_CURSOR = 1421"
definition ER_COMMIT_NOT_ALLOWED_IN_SF_OR_TRG :: nat where [error_kind_defs]: "ER_COMMIT_NOT_ALLOWED_IN_SF_OR_TRG = 1422"
definition ER_NO_DEFAULT_FOR_VIEW_FIELD :: nat where [error_kind_defs]: "ER_NO_DEFAULT_FOR_VIEW_FIELD = 1423"
definition ER_SP_NO_RECURSION :: nat where [error_kind_defs]: "ER_SP_NO_RECURSION = 1424"
definition ER_TOO_BIG_SCALE :: nat where [error_kind_defs]: "ER_TOO_BIG_SCALE = 1425"
definition ER_TOO_BIG_PRECISION :: nat where [error_kind_defs]: "ER_TOO_BIG_PRECISION = 1426"
definition ER_M_BIGGER_THAN_D :: nat where [error_kind_defs]: "ER_M_BIGGER_THAN_D = 1427"
definition ER_WRONG_LOCK_OF_SYSTEM_TABLE :: nat where [error_kind_defs]: "ER_WRONG_LOCK_OF_SYSTEM_TABLE = 1428"
definition ER_CONNECT_TO_FOREIGN_DATA_SOURCE :: nat where [error_kind_defs]: "ER_CONNECT_TO_FOREIGN_DATA_SOURCE = 1429"
definition ER_QUERY_ON_FOREIGN_DATA_SOURCE :: nat where [error_kind_defs]: "ER_QUERY_ON_FOREIGN_DATA_SOURCE = 1430"
definition ER_FOREIGN_DATA_SOURCE_DOESNT_EXIST :: nat where [error_kind_defs]: "ER_FOREIGN_DATA_SOURCE_DOESNT_EXIST = 1431"
definition ER_FOREIGN_DATA_STRING_INVALID_CANT_CREATE :: nat where [error_kind_defs]: "ER_FOREIGN_DATA_STRING_INVALID_CANT_CREATE = 1432"
definition ER_FOREIGN_DATA_STRING_INVALID :: nat where [error_kind_defs]: "ER_FOREIGN_DATA_STRING_INVALID = 1433"
definition ER_CANT_CREATE_FEDERATED_TABLE :: nat where [error_kind_defs]: "ER_CANT_CREATE_FEDERATED_TABLE = 1434"
definition ER_TRG_IN_WRONG_SCHEMA :: nat where [error_kind_defs]: "ER_TRG_IN_WRONG_SCHEMA = 1435"
definition ER_STACK_OVERRUN_NEED_MORE :: nat where [error_kind_defs]: "ER_STACK_OVERRUN_NEED_MORE = 1436"
definition ER_TOO_LONG_BODY :: nat where [error_kind_defs]: "ER_TOO_LONG_BODY = 1437"
definition ER_WARN_CANT_DROP_DEFAULT_KEYCACHE :: nat where [error_kind_defs]: "ER_WARN_CANT_DROP_DEFAULT_KEYCACHE = 1438"
definition ER_TOO_BIG_DISPLAYWIDTH :: nat where [error_kind_defs]: "ER_TOO_BIG_DISPLAYWIDTH = 1439"
definition ER_XAER_DUPID :: nat where [error_kind_defs]: "ER_XAER_DUPID = 1440"
definition ER_DATETIME_FUNCTION_OVERFLOW :: nat where [error_kind_defs]: "ER_DATETIME_FUNCTION_OVERFLOW = 1441"
definition ER_CANT_UPDATE_USED_TABLE_IN_SF_OR_TRG :: nat where [error_kind_defs]: "ER_CANT_UPDATE_USED_TABLE_IN_SF_OR_TRG = 1442"
definition ER_VIEW_PREVENT_UPDATE :: nat where [error_kind_defs]: "ER_VIEW_PREVENT_UPDATE = 1443"
definition ER_PS_NO_RECURSION :: nat where [error_kind_defs]: "ER_PS_NO_RECURSION = 1444"
definition ER_SP_CANT_SET_AUTOCOMMIT :: nat where [error_kind_defs]: "ER_SP_CANT_SET_AUTOCOMMIT = 1445"
definition ER_MALFORMED_DEFINER :: nat where [error_kind_defs]: "ER_MALFORMED_DEFINER = 1446"
definition ER_VIEW_FRM_NO_USER :: nat where [error_kind_defs]: "ER_VIEW_FRM_NO_USER = 1447"
definition ER_VIEW_OTHER_USER :: nat where [error_kind_defs]: "ER_VIEW_OTHER_USER = 1448"
definition ER_NO_SUCH_USER :: nat where [error_kind_defs]: "ER_NO_SUCH_USER = 1449"
definition ER_FORBID_SCHEMA_CHANGE :: nat where [error_kind_defs]: "ER_FORBID_SCHEMA_CHANGE = 1450"
definition ER_ROW_IS_REFERENCED_2 :: nat where [error_kind_defs]: "ER_ROW_IS_REFERENCED_2 = 1451"
definition ER_NO_REFERENCED_ROW_2 :: nat where [error_kind_defs]: "ER_NO_REFERENCED_ROW_2 = 1452"
definition ER_SP_BAD_VAR_SHADOW :: nat where [error_kind_defs]: "ER_SP_BAD_VAR_SHADOW = 1453"
definition ER_TRG_NO_DEFINER :: nat where [error_kind_defs]: "ER_TRG_NO_DEFINER = 1454"
definition ER_OLD_FILE_FORMAT :: nat where [error_kind_defs]: "ER_OLD_FILE_FORMAT = 1455"
definition ER_SP_RECURSION_LIMIT :: nat where [error_kind_defs]: "ER_SP_RECURSION_LIMIT = 1456"
definition ER_SP_PROC_TABLE_CORRUPT :: nat where [error_kind_defs]: "ER_SP_PROC_TABLE_CORRUPT = 1457"
definition ER_SP_WRONG_NAME :: nat where [error_kind_defs]: "ER_SP_WRONG_NAME = 1458"
definition ER_TABLE_NEEDS_UPGRADE :: nat where [error_kind_defs]: "ER_TABLE_NEEDS_UPGRADE = 1459"
definition ER_SP_NO_AGGREGATE :: nat where [error_kind_defs]: "ER_SP_NO_AGGREGATE = 1460"
definition ER_MAX_PREPARED_STMT_COUNT_REACHED :: nat where [error_kind_defs]: "ER_MAX_PREPARED_STMT_COUNT_REACHED = 1461"
definition ER_VIEW_RECURSIVE :: nat where [error_kind_defs]: "ER_VIEW_RECURSIVE = 1462"
definition ER_NON_GROUPING_FIELD_USED :: nat where [error_kind_defs]: "ER_NON_GROUPING_FIELD_USED = 1463"
definition ER_TABLE_CANT_HANDLE_SPKEYS :: nat where [error_kind_defs]: "ER_TABLE_CANT_HANDLE_SPKEYS = 1464"
definition ER_NO_TRIGGERS_ON_SYSTEM_SCHEMA :: nat where [error_kind_defs]: "ER_NO_TRIGGERS_ON_SYSTEM_SCHEMA = 1465"
definition ER_REMOVED_SPACES :: nat where [error_kind_defs]: "ER_REMOVED_SPACES = 1466"
definition ER_AUTOINC_READ_FAILED :: nat where [error_kind_defs]: "ER_AUTOINC_READ_FAILED = 1467"
definition ER_USERNAME :: nat where [error_kind_defs]: "ER_USERNAME = 1468"
definition ER_HOSTNAME :: nat where [error_kind_defs]: "ER_HOSTNAME = 1469"
definition ER_WRONG_STRING_LENGTH :: nat where [error_kind_defs]: "ER_WRONG_STRING_LENGTH = 1470"
definition ER_NON_INSERTABLE_TABLE :: nat where [error_kind_defs]: "ER_NON_INSERTABLE_TABLE = 1471"
definition ER_ADMIN_WRONG_MRG_TABLE :: nat where [error_kind_defs]: "ER_ADMIN_WRONG_MRG_TABLE = 1472"
definition ER_TOO_HIGH_LEVEL_OF_NESTING_FOR_SELECT :: nat where [error_kind_defs]: "ER_TOO_HIGH_LEVEL_OF_NESTING_FOR_SELECT = 1473"
definition ER_NAME_BECOMES_EMPTY :: nat where [error_kind_defs]: "ER_NAME_BECOMES_EMPTY = 1474"
definition ER_AMBIGUOUS_FIELD_TERM :: nat where [error_kind_defs]: "ER_AMBIGUOUS_FIELD_TERM = 1475"
definition ER_FOREIGN_SERVER_EXISTS :: nat where [error_kind_defs]: "ER_FOREIGN_SERVER_EXISTS = 1476"
definition ER_FOREIGN_SERVER_DOESNT_EXIST :: nat where [error_kind_defs]: "ER_FOREIGN_SERVER_DOESNT_EXIST = 1477"
definition ER_ILLEGAL_HA_CREATE_OPTION :: nat where [error_kind_defs]: "ER_ILLEGAL_HA_CREATE_OPTION = 1478"
definition ER_PARTITION_REQUIRES_VALUES_ERROR :: nat where [error_kind_defs]: "ER_PARTITION_REQUIRES_VALUES_ERROR = 1479"
definition ER_PARTITION_WRONG_VALUES_ERROR :: nat where [error_kind_defs]: "ER_PARTITION_WRONG_VALUES_ERROR = 1480"
definition ER_PARTITION_MAXVALUE_ERROR :: nat where [error_kind_defs]: "ER_PARTITION_MAXVALUE_ERROR = 1481"
definition ER_PARTITION_SUBPARTITION_ERROR :: nat where [error_kind_defs]: "ER_PARTITION_SUBPARTITION_ERROR = 1482"
definition ER_PARTITION_SUBPART_MIX_ERROR :: nat where [error_kind_defs]: "ER_PARTITION_SUBPART_MIX_ERROR = 1483"
definition ER_PARTITION_WRONG_NO_PART_ERROR :: nat where [error_kind_defs]: "ER_PARTITION_WRONG_NO_PART_ERROR = 1484"
definition ER_PARTITION_WRONG_NO_SUBPART_ERROR :: nat where [error_kind_defs]: "ER_PARTITION_WRONG_NO_SUBPART_ERROR = 1485"
definition ER_WRONG_EXPR_IN_PARTITION_FUNC_ERROR :: nat where [error_kind_defs]: "ER_WRONG_EXPR_IN_PARTITION_FUNC_ERROR = 1486"
definition ER_NO_CONST_EXPR_IN_RANGE_OR_LIST_ERROR :: nat where [error_kind_defs]: "ER_NO_CONST_EXPR_IN_RANGE_OR_LIST_ERROR = 1487"
definition ER_FIELD_NOT_FOUND_PART_ERROR :: nat where [error_kind_defs]: "ER_FIELD_NOT_FOUND_PART_ERROR = 1488"
definition ER_LIST_OF_FIELDS_ONLY_IN_HASH_ERROR :: nat where [error_kind_defs]: "ER_LIST_OF_FIELDS_ONLY_IN_HASH_ERROR = 1489"
definition ER_INCONSISTENT_PARTITION_INFO_ERROR :: nat where [error_kind_defs]: "ER_INCONSISTENT_PARTITION_INFO_ERROR = 1490"
definition ER_PARTITION_FUNC_NOT_ALLOWED_ERROR :: nat where [error_kind_defs]: "ER_PARTITION_FUNC_NOT_ALLOWED_ERROR = 1491"
definition ER_PARTITIONS_MUST_BE_DEFINED_ERROR :: nat where [error_kind_defs]: "ER_PARTITIONS_MUST_BE_DEFINED_ERROR = 1492"
definition ER_RANGE_NOT_INCREASING_ERROR :: nat where [error_kind_defs]: "ER_RANGE_NOT_INCREASING_ERROR = 1493"
definition ER_INCONSISTENT_TYPE_OF_FUNCTIONS_ERROR :: nat where [error_kind_defs]: "ER_INCONSISTENT_TYPE_OF_FUNCTIONS_ERROR = 1494"
definition ER_MULTIPLE_DEF_CONST_IN_LIST_PART_ERROR :: nat where [error_kind_defs]: "ER_MULTIPLE_DEF_CONST_IN_LIST_PART_ERROR = 1495"
definition ER_PARTITION_ENTRY_ERROR :: nat where [error_kind_defs]: "ER_PARTITION_ENTRY_ERROR = 1496"
definition ER_MIX_HANDLER_ERROR :: nat where [error_kind_defs]: "ER_MIX_HANDLER_ERROR = 1497"
definition ER_PARTITION_NOT_DEFINED_ERROR :: nat where [error_kind_defs]: "ER_PARTITION_NOT_DEFINED_ERROR = 1498"
definition ER_TOO_MANY_PARTITIONS_ERROR :: nat where [error_kind_defs]: "ER_TOO_MANY_PARTITIONS_ERROR = 1499"
definition ER_SUBPARTITION_ERROR :: nat where [error_kind_defs]: "ER_SUBPARTITION_ERROR = 1500"
definition ER_CANT_CREATE_HANDLER_FILE :: nat where [error_kind_defs]: "ER_CANT_CREATE_HANDLER_FILE = 1501"
definition ER_BLOB_FIELD_IN_PART_FUNC_ERROR :: nat where [error_kind_defs]: "ER_BLOB_FIELD_IN_PART_FUNC_ERROR = 1502"
definition ER_UNIQUE_KEY_NEED_ALL_FIELDS_IN_PF :: nat where [error_kind_defs]: "ER_UNIQUE_KEY_NEED_ALL_FIELDS_IN_PF = 1503"
definition ER_NO_PARTS_ERROR :: nat where [error_kind_defs]: "ER_NO_PARTS_ERROR = 1504"
definition ER_PARTITION_MGMT_ON_NONPARTITIONED :: nat where [error_kind_defs]: "ER_PARTITION_MGMT_ON_NONPARTITIONED = 1505"
definition ER_FOREIGN_KEY_ON_PARTITIONED :: nat where [error_kind_defs]: "ER_FOREIGN_KEY_ON_PARTITIONED = 1506"
definition ER_DROP_PARTITION_NON_EXISTENT :: nat where [error_kind_defs]: "ER_DROP_PARTITION_NON_EXISTENT = 1507"
definition ER_DROP_LAST_PARTITION :: nat where [error_kind_defs]: "ER_DROP_LAST_PARTITION = 1508"
definition ER_COALESCE_ONLY_ON_HASH_PARTITION :: nat where [error_kind_defs]: "ER_COALESCE_ONLY_ON_HASH_PARTITION = 1509"
definition ER_REORG_HASH_ONLY_ON_SAME_N :: nat where [error_kind_defs]: "ER_REORG_HASH_ONLY_ON_SAME_N = 1510"
definition ER_REORG_NO_PARAM_ERROR :: nat where [error_kind_defs]: "ER_REORG_NO_PARAM_ERROR = 1511"
definition ER_ONLY_ON_RANGE_LIST_PARTITION :: nat where [error_kind_defs]: "ER_ONLY_ON_RANGE_LIST_PARTITION = 1512"
definition ER_ADD_PARTITION_SUBPART_ERROR :: nat where [error_kind_defs]: "ER_ADD_PARTITION_SUBPART_ERROR = 1513"
definition ER_ADD_PARTITION_NO_NEW_PARTITION :: nat where [error_kind_defs]: "ER_ADD_PARTITION_NO_NEW_PARTITION = 1514"
definition ER_COALESCE_PARTITION_NO_PARTITION :: nat where [error_kind_defs]: "ER_COALESCE_PARTITION_NO_PARTITION = 1515"
definition ER_REORG_PARTITION_NOT_EXIST :: nat where [error_kind_defs]: "ER_REORG_PARTITION_NOT_EXIST = 1516"
definition ER_SAME_NAME_PARTITION :: nat where [error_kind_defs]: "ER_SAME_NAME_PARTITION = 1517"
definition ER_NO_BINLOG_ERROR :: nat where [error_kind_defs]: "ER_NO_BINLOG_ERROR = 1518"
definition ER_CONSECUTIVE_REORG_PARTITIONS :: nat where [error_kind_defs]: "ER_CONSECUTIVE_REORG_PARTITIONS = 1519"
definition ER_REORG_OUTSIDE_RANGE :: nat where [error_kind_defs]: "ER_REORG_OUTSIDE_RANGE = 1520"
definition ER_PARTITION_FUNCTION_FAILURE :: nat where [error_kind_defs]: "ER_PARTITION_FUNCTION_FAILURE = 1521"
definition ER_PART_STATE_ERROR :: nat where [error_kind_defs]: "ER_PART_STATE_ERROR = 1522"
definition ER_LIMITED_PART_RANGE :: nat where [error_kind_defs]: "ER_LIMITED_PART_RANGE = 1523"
definition ER_PLUGIN_IS_NOT_LOADED :: nat where [error_kind_defs]: "ER_PLUGIN_IS_NOT_LOADED = 1524"
definition ER_WRONG_VALUE :: nat where [error_kind_defs]: "ER_WRONG_VALUE = 1525"
definition ER_NO_PARTITION_FOR_GIVEN_VALUE :: nat where [error_kind_defs]: "ER_NO_PARTITION_FOR_GIVEN_VALUE = 1526"
definition ER_FILEGROUP_OPTION_ONLY_ONCE :: nat where [error_kind_defs]: "ER_FILEGROUP_OPTION_ONLY_ONCE = 1527"
definition ER_CREATE_FILEGROUP_FAILED :: nat where [error_kind_defs]: "ER_CREATE_FILEGROUP_FAILED = 1528"
definition ER_DROP_FILEGROUP_FAILED :: nat where [error_kind_defs]: "ER_DROP_FILEGROUP_FAILED = 1529"
definition ER_TABLESPACE_AUTO_EXTEND_ERROR :: nat where [error_kind_defs]: "ER_TABLESPACE_AUTO_EXTEND_ERROR = 1530"
definition ER_WRONG_SIZE_NUMBER :: nat where [error_kind_defs]: "ER_WRONG_SIZE_NUMBER = 1531"
definition ER_SIZE_OVERFLOW_ERROR :: nat where [error_kind_defs]: "ER_SIZE_OVERFLOW_ERROR = 1532"
definition ER_ALTER_FILEGROUP_FAILED :: nat where [error_kind_defs]: "ER_ALTER_FILEGROUP_FAILED = 1533"
definition ER_BINLOG_ROW_LOGGING_FAILED :: nat where [error_kind_defs]: "ER_BINLOG_ROW_LOGGING_FAILED = 1534"
definition ER_BINLOG_ROW_WRONG_TABLE_DEF :: nat where [error_kind_defs]: "ER_BINLOG_ROW_WRONG_TABLE_DEF = 1535"
definition ER_BINLOG_ROW_RBR_TO_SBR :: nat where [error_kind_defs]: "ER_BINLOG_ROW_RBR_TO_SBR = 1536"
definition ER_EVENT_ALREADY_EXISTS :: nat where [error_kind_defs]: "ER_EVENT_ALREADY_EXISTS = 1537"
definition ER_EVENT_STORE_FAILED :: nat where [error_kind_defs]: "ER_EVENT_STORE_FAILED = 1538"
definition ER_EVENT_DOES_NOT_EXIST :: nat where [error_kind_defs]: "ER_EVENT_DOES_NOT_EXIST = 1539"
definition ER_EVENT_CANT_ALTER :: nat where [error_kind_defs]: "ER_EVENT_CANT_ALTER = 1540"
definition ER_EVENT_DROP_FAILED :: nat where [error_kind_defs]: "ER_EVENT_DROP_FAILED = 1541"
definition ER_EVENT_INTERVAL_NOT_POSITIVE_OR_TOO_BIG :: nat where [error_kind_defs]: "ER_EVENT_INTERVAL_NOT_POSITIVE_OR_TOO_BIG = 1542"
definition ER_EVENT_ENDS_BEFORE_STARTS :: nat where [error_kind_defs]: "ER_EVENT_ENDS_BEFORE_STARTS = 1543"
definition ER_EVENT_EXEC_TIME_IN_THE_PAST :: nat where [error_kind_defs]: "ER_EVENT_EXEC_TIME_IN_THE_PAST = 1544"
definition ER_EVENT_OPEN_TABLE_FAILED :: nat where [error_kind_defs]: "ER_EVENT_OPEN_TABLE_FAILED = 1545"
definition ER_EVENT_NEITHER_M_EXPR_NOR_M_AT :: nat where [error_kind_defs]: "ER_EVENT_NEITHER_M_EXPR_NOR_M_AT = 1546"
definition ER_COL_COUNT_DOESNT_MATCH_CORRUPTED :: nat where [error_kind_defs]: "ER_COL_COUNT_DOESNT_MATCH_CORRUPTED = 1547"
definition ER_CANNOT_LOAD_FROM_TABLE :: nat where [error_kind_defs]: "ER_CANNOT_LOAD_FROM_TABLE = 1548"
definition ER_EVENT_CANNOT_DELETE :: nat where [error_kind_defs]: "ER_EVENT_CANNOT_DELETE = 1549"
definition ER_EVENT_COMPILE_ERROR :: nat where [error_kind_defs]: "ER_EVENT_COMPILE_ERROR = 1550"
definition ER_EVENT_SAME_NAME :: nat where [error_kind_defs]: "ER_EVENT_SAME_NAME = 1551"
definition ER_EVENT_DATA_TOO_LONG :: nat where [error_kind_defs]: "ER_EVENT_DATA_TOO_LONG = 1552"
definition ER_DROP_INDEX_FK :: nat where [error_kind_defs]: "ER_DROP_INDEX_FK = 1553"
definition ER_WARN_DEPRECATED_SYNTAX_WITH_VER :: nat where [error_kind_defs]: "ER_WARN_DEPRECATED_SYNTAX_WITH_VER = 1554"
definition ER_CANT_WRITE_LOCK_LOG_TABLE :: nat where [error_kind_defs]: "ER_CANT_WRITE_LOCK_LOG_TABLE = 1555"
definition ER_CANT_LOCK_LOG_TABLE :: nat where [error_kind_defs]: "ER_CANT_LOCK_LOG_TABLE = 1556"
definition ER_FOREIGN_DUPLICATE_KEY :: nat where [error_kind_defs]: "ER_FOREIGN_DUPLICATE_KEY = 1557"
definition ER_COL_COUNT_DOESNT_MATCH_PLEASE_UPDATE :: nat where [error_kind_defs]: "ER_COL_COUNT_DOESNT_MATCH_PLEASE_UPDATE = 1558"
definition ER_TEMP_TABLE_PREVENTS_SWITCH_OUT_OF_RBR :: nat where [error_kind_defs]: "ER_TEMP_TABLE_PREVENTS_SWITCH_OUT_OF_RBR = 1559"
definition ER_STORED_FUNCTION_PREVENTS_SWITCH_BINLOG_FORMAT :: nat where [error_kind_defs]: "ER_STORED_FUNCTION_PREVENTS_SWITCH_BINLOG_FORMAT = 1560"
definition ER_NDB_CANT_SWITCH_BINLOG_FORMAT :: nat where [error_kind_defs]: "ER_NDB_CANT_SWITCH_BINLOG_FORMAT = 1561"
definition ER_PARTITION_NO_TEMPORARY :: nat where [error_kind_defs]: "ER_PARTITION_NO_TEMPORARY = 1562"
definition ER_PARTITION_CONST_DOMAIN_ERROR :: nat where [error_kind_defs]: "ER_PARTITION_CONST_DOMAIN_ERROR = 1563"
definition ER_PARTITION_FUNCTION_IS_NOT_ALLOWED :: nat where [error_kind_defs]: "ER_PARTITION_FUNCTION_IS_NOT_ALLOWED = 1564"
definition ER_DDL_LOG_ERROR :: nat where [error_kind_defs]: "ER_DDL_LOG_ERROR = 1565"
definition ER_NULL_IN_VALUES_LESS_THAN :: nat where [error_kind_defs]: "ER_NULL_IN_VALUES_LESS_THAN = 1566"
definition ER_WRONG_PARTITION_NAME :: nat where [error_kind_defs]: "ER_WRONG_PARTITION_NAME = 1567"
definition ER_CANT_CHANGE_TX_ISOLATION :: nat where [error_kind_defs]: "ER_CANT_CHANGE_TX_ISOLATION = 1568"
definition ER_DUP_ENTRY_AUTOINCREMENT_CASE :: nat where [error_kind_defs]: "ER_DUP_ENTRY_AUTOINCREMENT_CASE = 1569"
definition ER_EVENT_MODIFY_QUEUE_ERROR :: nat where [error_kind_defs]: "ER_EVENT_MODIFY_QUEUE_ERROR = 1570"
definition ER_EVENT_SET_VAR_ERROR :: nat where [error_kind_defs]: "ER_EVENT_SET_VAR_ERROR = 1571"
definition ER_PARTITION_MERGE_ERROR :: nat where [error_kind_defs]: "ER_PARTITION_MERGE_ERROR = 1572"
definition ER_CANT_ACTIVATE_LOG :: nat where [error_kind_defs]: "ER_CANT_ACTIVATE_LOG = 1573"
definition ER_RBR_NOT_AVAILABLE :: nat where [error_kind_defs]: "ER_RBR_NOT_AVAILABLE = 1574"
definition ER_BASE64_DECODE_ERROR :: nat where [error_kind_defs]: "ER_BASE64_DECODE_ERROR = 1575"
definition ER_EVENT_RECURSION_FORBIDDEN :: nat where [error_kind_defs]: "ER_EVENT_RECURSION_FORBIDDEN = 1576"
definition ER_EVENTS_DB_ERROR :: nat where [error_kind_defs]: "ER_EVENTS_DB_ERROR = 1577"
definition ER_ONLY_INTEGERS_ALLOWED :: nat where [error_kind_defs]: "ER_ONLY_INTEGERS_ALLOWED = 1578"
definition ER_UNSUPORTED_LOG_ENGINE :: nat where [error_kind_defs]: "ER_UNSUPORTED_LOG_ENGINE = 1579"
definition ER_BAD_LOG_STATEMENT :: nat where [error_kind_defs]: "ER_BAD_LOG_STATEMENT = 1580"
definition ER_CANT_RENAME_LOG_TABLE :: nat where [error_kind_defs]: "ER_CANT_RENAME_LOG_TABLE = 1581"
definition ER_WRONG_PARAMCOUNT_TO_NATIVE_FCT :: nat where [error_kind_defs]: "ER_WRONG_PARAMCOUNT_TO_NATIVE_FCT = 1582"
definition ER_WRONG_PARAMETERS_TO_NATIVE_FCT :: nat where [error_kind_defs]: "ER_WRONG_PARAMETERS_TO_NATIVE_FCT = 1583"
definition ER_WRONG_PARAMETERS_TO_STORED_FCT :: nat where [error_kind_defs]: "ER_WRONG_PARAMETERS_TO_STORED_FCT = 1584"
definition ER_NATIVE_FCT_NAME_COLLISION :: nat where [error_kind_defs]: "ER_NATIVE_FCT_NAME_COLLISION = 1585"
definition ER_DUP_ENTRY_WITH_KEY_NAME :: nat where [error_kind_defs]: "ER_DUP_ENTRY_WITH_KEY_NAME = 1586"
definition ER_BINLOG_PURGE_EMFILE :: nat where [error_kind_defs]: "ER_BINLOG_PURGE_EMFILE = 1587"
definition ER_EVENT_CANNOT_CREATE_IN_THE_PAST :: nat where [error_kind_defs]: "ER_EVENT_CANNOT_CREATE_IN_THE_PAST = 1588"
definition ER_EVENT_CANNOT_ALTER_IN_THE_PAST :: nat where [error_kind_defs]: "ER_EVENT_CANNOT_ALTER_IN_THE_PAST = 1589"
definition ER_SLAVE_INCIDENT :: nat where [error_kind_defs]: "ER_SLAVE_INCIDENT = 1590"
definition ER_NO_PARTITION_FOR_GIVEN_VALUE_SILENT :: nat where [error_kind_defs]: "ER_NO_PARTITION_FOR_GIVEN_VALUE_SILENT = 1591"
definition ER_BINLOG_UNSAFE_STATEMENT :: nat where [error_kind_defs]: "ER_BINLOG_UNSAFE_STATEMENT = 1592"
definition ER_SLAVE_FATAL_ERROR :: nat where [error_kind_defs]: "ER_SLAVE_FATAL_ERROR = 1593"
definition ER_SLAVE_RELAY_LOG_READ_FAILURE :: nat where [error_kind_defs]: "ER_SLAVE_RELAY_LOG_READ_FAILURE = 1594"
definition ER_SLAVE_RELAY_LOG_WRITE_FAILURE :: nat where [error_kind_defs]: "ER_SLAVE_RELAY_LOG_WRITE_FAILURE = 1595"
definition ER_SLAVE_CREATE_EVENT_FAILURE :: nat where [error_kind_defs]: "ER_SLAVE_CREATE_EVENT_FAILURE = 1596"
definition ER_SLAVE_MASTER_COM_FAILURE :: nat where [error_kind_defs]: "ER_SLAVE_MASTER_COM_FAILURE = 1597"
definition ER_BINLOG_LOGGING_IMPOSSIBLE :: nat where [error_kind_defs]: "ER_BINLOG_LOGGING_IMPOSSIBLE = 1598"
definition ER_VIEW_NO_CREATION_CTX :: nat where [error_kind_defs]: "ER_VIEW_NO_CREATION_CTX = 1599"
definition ER_VIEW_INVALID_CREATION_CTX :: nat where [error_kind_defs]: "ER_VIEW_INVALID_CREATION_CTX = 1600"
definition ER_SR_INVALID_CREATION_CTX :: nat where [error_kind_defs]: "ER_SR_INVALID_CREATION_CTX = 1601"
definition ER_TRG_CORRUPTED_FILE :: nat where [error_kind_defs]: "ER_TRG_CORRUPTED_FILE = 1602"
definition ER_TRG_NO_CREATION_CTX :: nat where [error_kind_defs]: "ER_TRG_NO_CREATION_CTX = 1603"
definition ER_TRG_INVALID_CREATION_CTX :: nat where [error_kind_defs]: "ER_TRG_INVALID_CREATION_CTX = 1604"
definition ER_EVENT_INVALID_CREATION_CTX :: nat where [error_kind_defs]: "ER_EVENT_INVALID_CREATION_CTX = 1605"
definition ER_TRG_CANT_OPEN_TABLE :: nat where [error_kind_defs]: "ER_TRG_CANT_OPEN_TABLE = 1606"
definition ER_CANT_CREATE_SROUTINE :: nat where [error_kind_defs]: "ER_CANT_CREATE_SROUTINE = 1607"
definition ER_UNUSED_11 :: nat where [error_kind_defs]: "ER_UNUSED_11 = 1608"
definition ER_NO_FORMAT_DESCRIPTION_EVENT_BEFORE_BINLOG_STATEMENT :: nat where [error_kind_defs]: "ER_NO_FORMAT_DESCRIPTION_EVENT_BEFORE_BINLOG_STATEMENT = 1609"
definition ER_SLAVE_CORRUPT_EVENT :: nat where [error_kind_defs]: "ER_SLAVE_CORRUPT_EVENT = 1610"
definition ER_LOAD_DATA_INVALID_COLUMN :: nat where [error_kind_defs]: "ER_LOAD_DATA_INVALID_COLUMN = 1611"
definition ER_LOG_PURGE_NO_FILE :: nat where [error_kind_defs]: "ER_LOG_PURGE_NO_FILE = 1612"
definition ER_XA_RBTIMEOUT :: nat where [error_kind_defs]: "ER_XA_RBTIMEOUT = 1613"
definition ER_XA_RBDEADLOCK :: nat where [error_kind_defs]: "ER_XA_RBDEADLOCK = 1614"
definition ER_NEED_REPREPARE :: nat where [error_kind_defs]: "ER_NEED_REPREPARE = 1615"
definition ER_DELAYED_NOT_SUPPORTED :: nat where [error_kind_defs]: "ER_DELAYED_NOT_SUPPORTED = 1616"
definition WARN_NO_MASTER_INF :: nat where [error_kind_defs]: "WARN_NO_MASTER_INF = 1617"
definition WARN_OPTION_IGNORED :: nat where [error_kind_defs]: "WARN_OPTION_IGNORED = 1618"
definition WARN_PLUGIN_DELETE_BUILTIN :: nat where [error_kind_defs]: "WARN_PLUGIN_DELETE_BUILTIN = 1619"
definition WARN_PLUGIN_BUSY :: nat where [error_kind_defs]: "WARN_PLUGIN_BUSY = 1620"
definition ER_VARIABLE_IS_READONLY :: nat where [error_kind_defs]: "ER_VARIABLE_IS_READONLY = 1621"
definition ER_WARN_ENGINE_TRANSACTION_ROLLBACK :: nat where [error_kind_defs]: "ER_WARN_ENGINE_TRANSACTION_ROLLBACK = 1622"
definition ER_SLAVE_HEARTBEAT_FAILURE :: nat where [error_kind_defs]: "ER_SLAVE_HEARTBEAT_FAILURE = 1623"
definition ER_SLAVE_HEARTBEAT_VALUE_OUT_OF_RANGE :: nat where [error_kind_defs]: "ER_SLAVE_HEARTBEAT_VALUE_OUT_OF_RANGE = 1624"
definition ER_NDB_REPLICATION_SCHEMA_ERROR :: nat where [error_kind_defs]: "ER_NDB_REPLICATION_SCHEMA_ERROR = 1625"
definition ER_CONFLICT_FN_PARSE_ERROR :: nat where [error_kind_defs]: "ER_CONFLICT_FN_PARSE_ERROR = 1626"
definition ER_EXCEPTIONS_WRITE_ERROR :: nat where [error_kind_defs]: "ER_EXCEPTIONS_WRITE_ERROR = 1627"
definition ER_TOO_LONG_TABLE_COMMENT :: nat where [error_kind_defs]: "ER_TOO_LONG_TABLE_COMMENT = 1628"
definition ER_TOO_LONG_FIELD_COMMENT :: nat where [error_kind_defs]: "ER_TOO_LONG_FIELD_COMMENT = 1629"
definition ER_FUNC_INEXISTENT_NAME_COLLISION :: nat where [error_kind_defs]: "ER_FUNC_INEXISTENT_NAME_COLLISION = 1630"
definition ER_DATABASE_NAME :: nat where [error_kind_defs]: "ER_DATABASE_NAME = 1631"
definition ER_TABLE_NAME :: nat where [error_kind_defs]: "ER_TABLE_NAME = 1632"
definition ER_PARTITION_NAME :: nat where [error_kind_defs]: "ER_PARTITION_NAME = 1633"
definition ER_SUBPARTITION_NAME :: nat where [error_kind_defs]: "ER_SUBPARTITION_NAME = 1634"
definition ER_TEMPORARY_NAME :: nat where [error_kind_defs]: "ER_TEMPORARY_NAME = 1635"
definition ER_RENAMED_NAME :: nat where [error_kind_defs]: "ER_RENAMED_NAME = 1636"
definition ER_TOO_MANY_CONCURRENT_TRXS :: nat where [error_kind_defs]: "ER_TOO_MANY_CONCURRENT_TRXS = 1637"
definition WARN_NON_ASCII_SEPARATOR_NOT_IMPLEMENTED :: nat where [error_kind_defs]: "WARN_NON_ASCII_SEPARATOR_NOT_IMPLEMENTED = 1638"
definition ER_DEBUG_SYNC_TIMEOUT :: nat where [error_kind_defs]: "ER_DEBUG_SYNC_TIMEOUT = 1639"
definition ER_DEBUG_SYNC_HIT_LIMIT :: nat where [error_kind_defs]: "ER_DEBUG_SYNC_HIT_LIMIT = 1640"
definition ER_DUP_SIGNAL_SET :: nat where [error_kind_defs]: "ER_DUP_SIGNAL_SET = 1641"
definition ER_SIGNAL_WARN :: nat where [error_kind_defs]: "ER_SIGNAL_WARN = 1642"
definition ER_SIGNAL_NOT_FOUND :: nat where [error_kind_defs]: "ER_SIGNAL_NOT_FOUND = 1643"
definition ER_SIGNAL_EXCEPTION :: nat where [error_kind_defs]: "ER_SIGNAL_EXCEPTION = 1644"
definition ER_RESIGNAL_WITHOUT_ACTIVE_HANDLER :: nat where [error_kind_defs]: "ER_RESIGNAL_WITHOUT_ACTIVE_HANDLER = 1645"
definition ER_SIGNAL_BAD_CONDITION_TYPE :: nat where [error_kind_defs]: "ER_SIGNAL_BAD_CONDITION_TYPE = 1646"
definition WARN_COND_ITEM_TRUNCATED :: nat where [error_kind_defs]: "WARN_COND_ITEM_TRUNCATED = 1647"
definition ER_COND_ITEM_TOO_LONG :: nat where [error_kind_defs]: "ER_COND_ITEM_TOO_LONG = 1648"
definition ER_UNKNOWN_LOCALE :: nat where [error_kind_defs]: "ER_UNKNOWN_LOCALE = 1649"
definition ER_SLAVE_IGNORE_SERVER_IDS :: nat where [error_kind_defs]: "ER_SLAVE_IGNORE_SERVER_IDS = 1650"
definition ER_QUERY_CACHE_DISABLED :: nat where [error_kind_defs]: "ER_QUERY_CACHE_DISABLED = 1651"
definition ER_SAME_NAME_PARTITION_FIELD :: nat where [error_kind_defs]: "ER_SAME_NAME_PARTITION_FIELD = 1652"
definition ER_PARTITION_COLUMN_LIST_ERROR :: nat where [error_kind_defs]: "ER_PARTITION_COLUMN_LIST_ERROR = 1653"
definition ER_WRONG_TYPE_COLUMN_VALUE_ERROR :: nat where [error_kind_defs]: "ER_WRONG_TYPE_COLUMN_VALUE_ERROR = 1654"
definition ER_TOO_MANY_PARTITION_FUNC_FIELDS_ERROR :: nat where [error_kind_defs]: "ER_TOO_MANY_PARTITION_FUNC_FIELDS_ERROR = 1655"
definition ER_MAXVALUE_IN_VALUES_IN :: nat where [error_kind_defs]: "ER_MAXVALUE_IN_VALUES_IN = 1656"
definition ER_TOO_MANY_VALUES_ERROR :: nat where [error_kind_defs]: "ER_TOO_MANY_VALUES_ERROR = 1657"
definition ER_ROW_SINGLE_PARTITION_FIELD_ERROR :: nat where [error_kind_defs]: "ER_ROW_SINGLE_PARTITION_FIELD_ERROR = 1658"
definition ER_FIELD_TYPE_NOT_ALLOWED_AS_PARTITION_FIELD :: nat where [error_kind_defs]: "ER_FIELD_TYPE_NOT_ALLOWED_AS_PARTITION_FIELD = 1659"
definition ER_PARTITION_FIELDS_TOO_LONG :: nat where [error_kind_defs]: "ER_PARTITION_FIELDS_TOO_LONG = 1660"
definition ER_BINLOG_ROW_ENGINE_AND_STMT_ENGINE :: nat where [error_kind_defs]: "ER_BINLOG_ROW_ENGINE_AND_STMT_ENGINE = 1661"
definition ER_BINLOG_ROW_MODE_AND_STMT_ENGINE :: nat where [error_kind_defs]: "ER_BINLOG_ROW_MODE_AND_STMT_ENGINE = 1662"
definition ER_BINLOG_UNSAFE_AND_STMT_ENGINE :: nat where [error_kind_defs]: "ER_BINLOG_UNSAFE_AND_STMT_ENGINE = 1663"
definition ER_BINLOG_ROW_INJECTION_AND_STMT_ENGINE :: nat where [error_kind_defs]: "ER_BINLOG_ROW_INJECTION_AND_STMT_ENGINE = 1664"
definition ER_BINLOG_STMT_MODE_AND_ROW_ENGINE :: nat where [error_kind_defs]: "ER_BINLOG_STMT_MODE_AND_ROW_ENGINE = 1665"
definition ER_BINLOG_ROW_INJECTION_AND_STMT_MODE :: nat where [error_kind_defs]: "ER_BINLOG_ROW_INJECTION_AND_STMT_MODE = 1666"
definition ER_BINLOG_MULTIPLE_ENGINES_AND_SELF_LOGGING_ENGINE :: nat where [error_kind_defs]: "ER_BINLOG_MULTIPLE_ENGINES_AND_SELF_LOGGING_ENGINE = 1667"
definition ER_BINLOG_UNSAFE_LIMIT :: nat where [error_kind_defs]: "ER_BINLOG_UNSAFE_LIMIT = 1668"
definition ER_BINLOG_UNSAFE_INSERT_DELAYED :: nat where [error_kind_defs]: "ER_BINLOG_UNSAFE_INSERT_DELAYED = 1669"
definition ER_BINLOG_UNSAFE_SYSTEM_TABLE :: nat where [error_kind_defs]: "ER_BINLOG_UNSAFE_SYSTEM_TABLE = 1670"
definition ER_BINLOG_UNSAFE_AUTOINC_COLUMNS :: nat where [error_kind_defs]: "ER_BINLOG_UNSAFE_AUTOINC_COLUMNS = 1671"
definition ER_BINLOG_UNSAFE_UDF :: nat where [error_kind_defs]: "ER_BINLOG_UNSAFE_UDF = 1672"
definition ER_BINLOG_UNSAFE_SYSTEM_VARIABLE :: nat where [error_kind_defs]: "ER_BINLOG_UNSAFE_SYSTEM_VARIABLE = 1673"
definition ER_BINLOG_UNSAFE_SYSTEM_FUNCTION :: nat where [error_kind_defs]: "ER_BINLOG_UNSAFE_SYSTEM_FUNCTION = 1674"
definition ER_BINLOG_UNSAFE_NONTRANS_AFTER_TRANS :: nat where [error_kind_defs]: "ER_BINLOG_UNSAFE_NONTRANS_AFTER_TRANS = 1675"
definition ER_MESSAGE_AND_STATEMENT :: nat where [error_kind_defs]: "ER_MESSAGE_AND_STATEMENT = 1676"
definition ER_SLAVE_CONVERSION_FAILED :: nat where [error_kind_defs]: "ER_SLAVE_CONVERSION_FAILED = 1677"
definition ER_SLAVE_CANT_CREATE_CONVERSION :: nat where [error_kind_defs]: "ER_SLAVE_CANT_CREATE_CONVERSION = 1678"
definition ER_INSIDE_TRANSACTION_PREVENTS_SWITCH_BINLOG_FORMAT :: nat where [error_kind_defs]: "ER_INSIDE_TRANSACTION_PREVENTS_SWITCH_BINLOG_FORMAT = 1679"
definition ER_PATH_LENGTH :: nat where [error_kind_defs]: "ER_PATH_LENGTH = 1680"
definition ER_WARN_DEPRECATED_SYNTAX_NO_REPLACEMENT :: nat where [error_kind_defs]: "ER_WARN_DEPRECATED_SYNTAX_NO_REPLACEMENT = 1681"
definition ER_WRONG_NATIVE_TABLE_STRUCTURE :: nat where [error_kind_defs]: "ER_WRONG_NATIVE_TABLE_STRUCTURE = 1682"
definition ER_WRONG_PERFSCHEMA_USAGE :: nat where [error_kind_defs]: "ER_WRONG_PERFSCHEMA_USAGE = 1683"
definition ER_WARN_I_S_SKIPPED_TABLE :: nat where [error_kind_defs]: "ER_WARN_I_S_SKIPPED_TABLE = 1684"
definition ER_INSIDE_TRANSACTION_PREVENTS_SWITCH_BINLOG_DIRECT :: nat where [error_kind_defs]: "ER_INSIDE_TRANSACTION_PREVENTS_SWITCH_BINLOG_DIRECT = 1685"
definition ER_STORED_FUNCTION_PREVENTS_SWITCH_BINLOG_DIRECT :: nat where [error_kind_defs]: "ER_STORED_FUNCTION_PREVENTS_SWITCH_BINLOG_DIRECT = 1686"
definition ER_SPATIAL_MUST_HAVE_GEOM_COL :: nat where [error_kind_defs]: "ER_SPATIAL_MUST_HAVE_GEOM_COL = 1687"
definition ER_TOO_LONG_INDEX_COMMENT :: nat where [error_kind_defs]: "ER_TOO_LONG_INDEX_COMMENT = 1688"
definition ER_LOCK_ABORTED :: nat where [error_kind_defs]: "ER_LOCK_ABORTED = 1689"
definition ER_DATA_OUT_OF_RANGE :: nat where [error_kind_defs]: "ER_DATA_OUT_OF_RANGE = 1690"
definition ER_WRONG_SPVAR_TYPE_IN_LIMIT :: nat where [error_kind_defs]: "ER_WRONG_SPVAR_TYPE_IN_LIMIT = 1691"
definition ER_BINLOG_UNSAFE_MULTIPLE_ENGINES_AND_SELF_LOGGING_ENGINE :: nat where [error_kind_defs]: "ER_BINLOG_UNSAFE_MULTIPLE_ENGINES_AND_SELF_LOGGING_ENGINE = 1692"
definition ER_BINLOG_UNSAFE_MIXED_STATEMENT :: nat where [error_kind_defs]: "ER_BINLOG_UNSAFE_MIXED_STATEMENT = 1693"
definition ER_INSIDE_TRANSACTION_PREVENTS_SWITCH_SQL_LOG_BIN :: nat where [error_kind_defs]: "ER_INSIDE_TRANSACTION_PREVENTS_SWITCH_SQL_LOG_BIN = 1694"
definition ER_STORED_FUNCTION_PREVENTS_SWITCH_SQL_LOG_BIN :: nat where [error_kind_defs]: "ER_STORED_FUNCTION_PREVENTS_SWITCH_SQL_LOG_BIN = 1695"
definition ER_FAILED_READ_FROM_PAR_FILE :: nat where [error_kind_defs]: "ER_FAILED_READ_FROM_PAR_FILE = 1696"
definition ER_VALUES_IS_NOT_INT_TYPE_ERROR :: nat where [error_kind_defs]: "ER_VALUES_IS_NOT_INT_TYPE_ERROR = 1697"
definition ER_ACCESS_DENIED_NO_PASSWORD_ERROR :: nat where [error_kind_defs]: "ER_ACCESS_DENIED_NO_PASSWORD_ERROR = 1698"
definition ER_SET_PASSWORD_AUTH_PLUGIN :: nat where [error_kind_defs]: "ER_SET_PASSWORD_AUTH_PLUGIN = 1699"
definition ER_GRANT_PLUGIN_USER_EXISTS :: nat where [error_kind_defs]: "ER_GRANT_PLUGIN_USER_EXISTS = 1700"
definition ER_TRUNCATE_ILLEGAL_FK :: nat where [error_kind_defs]: "ER_TRUNCATE_ILLEGAL_FK = 1701"
definition ER_PLUGIN_IS_PERMANENT :: nat where [error_kind_defs]: "ER_PLUGIN_IS_PERMANENT = 1702"
definition ER_SLAVE_HEARTBEAT_VALUE_OUT_OF_RANGE_MIN :: nat where [error_kind_defs]: "ER_SLAVE_HEARTBEAT_VALUE_OUT_OF_RANGE_MIN = 1703"
definition ER_SLAVE_HEARTBEAT_VALUE_OUT_OF_RANGE_MAX :: nat where [error_kind_defs]: "ER_SLAVE_HEARTBEAT_VALUE_OUT_OF_RANGE_MAX = 1704"
definition ER_STMT_CACHE_FULL :: nat where [error_kind_defs]: "ER_STMT_CACHE_FULL = 1705"
definition ER_MULTI_UPDATE_KEY_CONFLICT :: nat where [error_kind_defs]: "ER_MULTI_UPDATE_KEY_CONFLICT = 1706"
definition ER_TABLE_NEEDS_REBUILD :: nat where [error_kind_defs]: "ER_TABLE_NEEDS_REBUILD = 1707"
definition WARN_OPTION_BELOW_LIMIT :: nat where [error_kind_defs]: "WARN_OPTION_BELOW_LIMIT = 1708"
definition ER_INDEX_COLUMN_TOO_LONG :: nat where [error_kind_defs]: "ER_INDEX_COLUMN_TOO_LONG = 1709"
definition ER_ERROR_IN_TRIGGER_BODY :: nat where [error_kind_defs]: "ER_ERROR_IN_TRIGGER_BODY = 1710"
definition ER_ERROR_IN_UNKNOWN_TRIGGER_BODY :: nat where [error_kind_defs]: "ER_ERROR_IN_UNKNOWN_TRIGGER_BODY = 1711"
definition ER_INDEX_CORRUPT :: nat where [error_kind_defs]: "ER_INDEX_CORRUPT = 1712"
definition ER_UNDO_RECORD_TOO_BIG :: nat where [error_kind_defs]: "ER_UNDO_RECORD_TOO_BIG = 1713"
definition ER_BINLOG_UNSAFE_INSERT_IGNORE_SELECT :: nat where [error_kind_defs]: "ER_BINLOG_UNSAFE_INSERT_IGNORE_SELECT = 1714"
definition ER_BINLOG_UNSAFE_INSERT_SELECT_UPDATE :: nat where [error_kind_defs]: "ER_BINLOG_UNSAFE_INSERT_SELECT_UPDATE = 1715"
definition ER_BINLOG_UNSAFE_REPLACE_SELECT :: nat where [error_kind_defs]: "ER_BINLOG_UNSAFE_REPLACE_SELECT = 1716"
definition ER_BINLOG_UNSAFE_CREATE_IGNORE_SELECT :: nat where [error_kind_defs]: "ER_BINLOG_UNSAFE_CREATE_IGNORE_SELECT = 1717"
definition ER_BINLOG_UNSAFE_CREATE_REPLACE_SELECT :: nat where [error_kind_defs]: "ER_BINLOG_UNSAFE_CREATE_REPLACE_SELECT = 1718"
definition ER_BINLOG_UNSAFE_UPDATE_IGNORE :: nat where [error_kind_defs]: "ER_BINLOG_UNSAFE_UPDATE_IGNORE = 1719"
definition ER_PLUGIN_NO_UNINSTALL :: nat where [error_kind_defs]: "ER_PLUGIN_NO_UNINSTALL = 1720"
definition ER_PLUGIN_NO_INSTALL :: nat where [error_kind_defs]: "ER_PLUGIN_NO_INSTALL = 1721"
definition ER_BINLOG_UNSAFE_WRITE_AUTOINC_SELECT :: nat where [error_kind_defs]: "ER_BINLOG_UNSAFE_WRITE_AUTOINC_SELECT = 1722"
definition ER_BINLOG_UNSAFE_CREATE_SELECT_AUTOINC :: nat where [error_kind_defs]: "ER_BINLOG_UNSAFE_CREATE_SELECT_AUTOINC = 1723"
definition ER_BINLOG_UNSAFE_INSERT_TWO_KEYS :: nat where [error_kind_defs]: "ER_BINLOG_UNSAFE_INSERT_TWO_KEYS = 1724"
definition ER_TABLE_IN_FK_CHECK :: nat where [error_kind_defs]: "ER_TABLE_IN_FK_CHECK = 1725"
definition ER_UNSUPPORTED_ENGINE :: nat where [error_kind_defs]: "ER_UNSUPPORTED_ENGINE = 1726"
definition ER_BINLOG_UNSAFE_AUTOINC_NOT_FIRST :: nat where [error_kind_defs]: "ER_BINLOG_UNSAFE_AUTOINC_NOT_FIRST = 1727"
definition ER_CANNOT_LOAD_FROM_TABLE_V2 :: nat where [error_kind_defs]: "ER_CANNOT_LOAD_FROM_TABLE_V2 = 1728"
definition ER_MASTER_DELAY_VALUE_OUT_OF_RANGE :: nat where [error_kind_defs]: "ER_MASTER_DELAY_VALUE_OUT_OF_RANGE = 1729"
definition ER_ONLY_FD_AND_RBR_EVENTS_ALLOWED_IN_BINLOG_STATEMENT :: nat where [error_kind_defs]: "ER_ONLY_FD_AND_RBR_EVENTS_ALLOWED_IN_BINLOG_STATEMENT = 1730"
definition ER_PARTITION_EXCHANGE_DIFFERENT_OPTION :: nat where [error_kind_defs]: "ER_PARTITION_EXCHANGE_DIFFERENT_OPTION = 1731"
definition ER_PARTITION_EXCHANGE_PART_TABLE :: nat where [error_kind_defs]: "ER_PARTITION_EXCHANGE_PART_TABLE = 1732"
definition ER_PARTITION_EXCHANGE_TEMP_TABLE :: nat where [error_kind_defs]: "ER_PARTITION_EXCHANGE_TEMP_TABLE = 1733"
definition ER_PARTITION_INSTEAD_OF_SUBPARTITION :: nat where [error_kind_defs]: "ER_PARTITION_INSTEAD_OF_SUBPARTITION = 1734"
definition ER_UNKNOWN_PARTITION :: nat where [error_kind_defs]: "ER_UNKNOWN_PARTITION = 1735"
definition ER_TABLES_DIFFERENT_METADATA :: nat where [error_kind_defs]: "ER_TABLES_DIFFERENT_METADATA = 1736"
definition ER_ROW_DOES_NOT_MATCH_PARTITION :: nat where [error_kind_defs]: "ER_ROW_DOES_NOT_MATCH_PARTITION = 1737"
definition ER_BINLOG_CACHE_SIZE_GREATER_THAN_MAX :: nat where [error_kind_defs]: "ER_BINLOG_CACHE_SIZE_GREATER_THAN_MAX = 1738"
definition ER_WARN_INDEX_NOT_APPLICABLE :: nat where [error_kind_defs]: "ER_WARN_INDEX_NOT_APPLICABLE = 1739"
definition ER_PARTITION_EXCHANGE_FOREIGN_KEY :: nat where [error_kind_defs]: "ER_PARTITION_EXCHANGE_FOREIGN_KEY = 1740"
definition ER_NO_SUCH_KEY_VALUE :: nat where [error_kind_defs]: "ER_NO_SUCH_KEY_VALUE = 1741"
definition ER_RPL_INFO_DATA_TOO_LONG :: nat where [error_kind_defs]: "ER_RPL_INFO_DATA_TOO_LONG = 1742"
definition ER_NETWORK_READ_EVENT_CHECKSUM_FAILURE :: nat where [error_kind_defs]: "ER_NETWORK_READ_EVENT_CHECKSUM_FAILURE = 1743"
definition ER_BINLOG_READ_EVENT_CHECKSUM_FAILURE :: nat where [error_kind_defs]: "ER_BINLOG_READ_EVENT_CHECKSUM_FAILURE = 1744"
definition ER_BINLOG_STMT_CACHE_SIZE_GREATER_THAN_MAX :: nat where [error_kind_defs]: "ER_BINLOG_STMT_CACHE_SIZE_GREATER_THAN_MAX = 1745"
definition ER_CANT_UPDATE_TABLE_IN_CREATE_TABLE_SELECT :: nat where [error_kind_defs]: "ER_CANT_UPDATE_TABLE_IN_CREATE_TABLE_SELECT = 1746"
definition ER_PARTITION_CLAUSE_ON_NONPARTITIONED :: nat where [error_kind_defs]: "ER_PARTITION_CLAUSE_ON_NONPARTITIONED = 1747"
definition ER_ROW_DOES_NOT_MATCH_GIVEN_PARTITION_SET :: nat where [error_kind_defs]: "ER_ROW_DOES_NOT_MATCH_GIVEN_PARTITION_SET = 1748"
definition ER_NO_SUCH_PARTITION_UNUSED :: nat where [error_kind_defs]: "ER_NO_SUCH_PARTITION_UNUSED = 1749"
definition ER_CHANGE_RPL_INFO_REPOSITORY_FAILURE :: nat where [error_kind_defs]: "ER_CHANGE_RPL_INFO_REPOSITORY_FAILURE = 1750"
definition ER_WARNING_NOT_COMPLETE_ROLLBACK_WITH_CREATED_TEMP_TABLE :: nat where [error_kind_defs]: "ER_WARNING_NOT_COMPLETE_ROLLBACK_WITH_CREATED_TEMP_TABLE = 1751"
definition ER_WARNING_NOT_COMPLETE_ROLLBACK_WITH_DROPPED_TEMP_TABLE :: nat where [error_kind_defs]: "ER_WARNING_NOT_COMPLETE_ROLLBACK_WITH_DROPPED_TEMP_TABLE = 1752"
definition ER_MTS_FEATURE_IS_NOT_SUPPORTED :: nat where [error_kind_defs]: "ER_MTS_FEATURE_IS_NOT_SUPPORTED = 1753"
definition ER_MTS_UPDATED_DBS_GREATER_MAX :: nat where [error_kind_defs]: "ER_MTS_UPDATED_DBS_GREATER_MAX = 1754"
definition ER_MTS_CANT_PARALLEL :: nat where [error_kind_defs]: "ER_MTS_CANT_PARALLEL = 1755"
definition ER_MTS_INCONSISTENT_DATA :: nat where [error_kind_defs]: "ER_MTS_INCONSISTENT_DATA = 1756"
definition ER_FULLTEXT_NOT_SUPPORTED_WITH_PARTITIONING :: nat where [error_kind_defs]: "ER_FULLTEXT_NOT_SUPPORTED_WITH_PARTITIONING = 1757"
definition ER_DA_INVALID_CONDITION_NUMBER :: nat where [error_kind_defs]: "ER_DA_INVALID_CONDITION_NUMBER = 1758"
definition ER_INSECURE_PLAIN_TEXT :: nat where [error_kind_defs]: "ER_INSECURE_PLAIN_TEXT = 1759"
definition ER_INSECURE_CHANGE_MASTER :: nat where [error_kind_defs]: "ER_INSECURE_CHANGE_MASTER = 1760"
definition ER_FOREIGN_DUPLICATE_KEY_WITH_CHILD_INFO :: nat where [error_kind_defs]: "ER_FOREIGN_DUPLICATE_KEY_WITH_CHILD_INFO = 1761"
definition ER_FOREIGN_DUPLICATE_KEY_WITHOUT_CHILD_INFO :: nat where [error_kind_defs]: "ER_FOREIGN_DUPLICATE_KEY_WITHOUT_CHILD_INFO = 1762"
definition ER_SQLTHREAD_WITH_SECURE_SLAVE :: nat where [error_kind_defs]: "ER_SQLTHREAD_WITH_SECURE_SLAVE = 1763"
definition ER_TABLE_HAS_NO_FT :: nat where [error_kind_defs]: "ER_TABLE_HAS_NO_FT = 1764"
definition ER_VARIABLE_NOT_SETTABLE_IN_SF_OR_TRIGGER :: nat where [error_kind_defs]: "ER_VARIABLE_NOT_SETTABLE_IN_SF_OR_TRIGGER = 1765"
definition ER_VARIABLE_NOT_SETTABLE_IN_TRANSACTION :: nat where [error_kind_defs]: "ER_VARIABLE_NOT_SETTABLE_IN_TRANSACTION = 1766"
definition ER_GTID_NEXT_IS_NOT_IN_GTID_NEXT_LIST :: nat where [error_kind_defs]: "ER_GTID_NEXT_IS_NOT_IN_GTID_NEXT_LIST = 1767"
definition ER_CANT_CHANGE_GTID_NEXT_IN_TRANSACTION_WHEN_GTID_NEXT_LIST_IS_NULL :: nat where [error_kind_defs]: "ER_CANT_CHANGE_GTID_NEXT_IN_TRANSACTION_WHEN_GTID_NEXT_LIST_IS_NULL = 1768"
definition ER_SET_STATEMENT_CANNOT_INVOKE_FUNCTION :: nat where [error_kind_defs]: "ER_SET_STATEMENT_CANNOT_INVOKE_FUNCTION = 1769"
definition ER_GTID_NEXT_CANT_BE_AUTOMATIC_IF_GTID_NEXT_LIST_IS_NON_NULL :: nat where [error_kind_defs]: "ER_GTID_NEXT_CANT_BE_AUTOMATIC_IF_GTID_NEXT_LIST_IS_NON_NULL = 1770"
definition ER_SKIPPING_LOGGED_TRANSACTION :: nat where [error_kind_defs]: "ER_SKIPPING_LOGGED_TRANSACTION = 1771"
definition ER_MALFORMED_GTID_SET_SPECIFICATION :: nat where [error_kind_defs]: "ER_MALFORMED_GTID_SET_SPECIFICATION = 1772"
definition ER_MALFORMED_GTID_SET_ENCODING :: nat where [error_kind_defs]: "ER_MALFORMED_GTID_SET_ENCODING = 1773"
definition ER_MALFORMED_GTID_SPECIFICATION :: nat where [error_kind_defs]: "ER_MALFORMED_GTID_SPECIFICATION = 1774"
definition ER_GNO_EXHAUSTED :: nat where [error_kind_defs]: "ER_GNO_EXHAUSTED = 1775"
definition ER_BAD_SLAVE_AUTO_POSITION :: nat where [error_kind_defs]: "ER_BAD_SLAVE_AUTO_POSITION = 1776"
definition ER_AUTO_POSITION_REQUIRES_GTID_MODE_ON :: nat where [error_kind_defs]: "ER_AUTO_POSITION_REQUIRES_GTID_MODE_ON = 1777"
definition ER_CANT_DO_IMPLICIT_COMMIT_IN_TRX_WHEN_GTID_NEXT_IS_SET :: nat where [error_kind_defs]: "ER_CANT_DO_IMPLICIT_COMMIT_IN_TRX_WHEN_GTID_NEXT_IS_SET = 1778"
definition ER_GTID_MODE_2_OR_3_REQUIRES_DISABLE_GTID_UNSAFE_STATEMENTS_ON :: nat where [error_kind_defs]: "ER_GTID_MODE_2_OR_3_REQUIRES_DISABLE_GTID_UNSAFE_STATEMENTS_ON = 1779"
definition ER_GTID_MODE_REQUIRES_BINLOG :: nat where [error_kind_defs]: "ER_GTID_MODE_REQUIRES_BINLOG = 1780"
definition ER_CANT_SET_GTID_NEXT_TO_GTID_WHEN_GTID_MODE_IS_OFF :: nat where [error_kind_defs]: "ER_CANT_SET_GTID_NEXT_TO_GTID_WHEN_GTID_MODE_IS_OFF = 1781"
definition ER_CANT_SET_GTID_NEXT_TO_ANONYMOUS_WHEN_GTID_MODE_IS_ON :: nat where [error_kind_defs]: "ER_CANT_SET_GTID_NEXT_TO_ANONYMOUS_WHEN_GTID_MODE_IS_ON = 1782"
definition ER_CANT_SET_GTID_NEXT_LIST_TO_NON_NULL_WHEN_GTID_MODE_IS_OFF :: nat where [error_kind_defs]: "ER_CANT_SET_GTID_NEXT_LIST_TO_NON_NULL_WHEN_GTID_MODE_IS_OFF = 1783"
definition ER_FOUND_GTID_EVENT_WHEN_GTID_MODE_IS_OFF :: nat where [error_kind_defs]: "ER_FOUND_GTID_EVENT_WHEN_GTID_MODE_IS_OFF = 1784"
definition ER_GTID_UNSAFE_NON_TRANSACTIONAL_TABLE :: nat where [error_kind_defs]: "ER_GTID_UNSAFE_NON_TRANSACTIONAL_TABLE = 1785"
definition ER_GTID_UNSAFE_CREATE_SELECT :: nat where [error_kind_defs]: "ER_GTID_UNSAFE_CREATE_SELECT = 1786"
definition ER_GTID_UNSAFE_CREATE_DROP_TEMPORARY_TABLE_IN_TRANSACTION :: nat where [error_kind_defs]: "ER_GTID_UNSAFE_CREATE_DROP_TEMPORARY_TABLE_IN_TRANSACTION = 1787"
definition ER_GTID_MODE_CAN_ONLY_CHANGE_ONE_STEP_AT_A_TIME :: nat where [error_kind_defs]: "ER_GTID_MODE_CAN_ONLY_CHANGE_ONE_STEP_AT_A_TIME = 1788"
definition ER_MASTER_HAS_PURGED_REQUIRED_GTIDS :: nat where [error_kind_defs]: "ER_MASTER_HAS_PURGED_REQUIRED_GTIDS = 1789"
definition ER_CANT_SET_GTID_NEXT_WHEN_OWNING_GTID :: nat where [error_kind_defs]: "ER_CANT_SET_GTID_NEXT_WHEN_OWNING_GTID = 1790"
definition ER_UNKNOWN_EXPLAIN_FORMAT :: nat where [error_kind_defs]: "ER_UNKNOWN_EXPLAIN_FORMAT = 1791"
definition ER_CANT_EXECUTE_IN_READ_ONLY_TRANSACTION :: nat where [error_kind_defs]: "ER_CANT_EXECUTE_IN_READ_ONLY_TRANSACTION = 1792"
definition ER_TOO_LONG_TABLE_PARTITION_COMMENT :: nat where [error_kind_defs]: "ER_TOO_LONG_TABLE_PARTITION_COMMENT = 1793"
definition ER_SLAVE_CONFIGURATION :: nat where [error_kind_defs]: "ER_SLAVE_CONFIGURATION = 1794"
definition ER_INNODB_FT_LIMIT :: nat where [error_kind_defs]: "ER_INNODB_FT_LIMIT = 1795"
definition ER_INNODB_NO_FT_TEMP_TABLE :: nat where [error_kind_defs]: "ER_INNODB_NO_FT_TEMP_TABLE = 1796"
definition ER_INNODB_FT_WRONG_DOCID_COLUMN :: nat where [error_kind_defs]: "ER_INNODB_FT_WRONG_DOCID_COLUMN = 1797"
definition ER_INNODB_FT_WRONG_DOCID_INDEX :: nat where [error_kind_defs]: "ER_INNODB_FT_WRONG_DOCID_INDEX = 1798"
definition ER_INNODB_ONLINE_LOG_TOO_BIG :: nat where [error_kind_defs]: "ER_INNODB_ONLINE_LOG_TOO_BIG = 1799"
definition ER_UNKNOWN_ALTER_ALGORITHM :: nat where [error_kind_defs]: "ER_UNKNOWN_ALTER_ALGORITHM = 1800"
definition ER_UNKNOWN_ALTER_LOCK :: nat where [error_kind_defs]: "ER_UNKNOWN_ALTER_LOCK = 1801"
definition ER_MTS_CHANGE_MASTER_CANT_RUN_WITH_GAPS :: nat where [error_kind_defs]: "ER_MTS_CHANGE_MASTER_CANT_RUN_WITH_GAPS = 1802"
definition ER_MTS_RECOVERY_FAILURE :: nat where [error_kind_defs]: "ER_MTS_RECOVERY_FAILURE = 1803"
definition ER_MTS_RESET_WORKERS :: nat where [error_kind_defs]: "ER_MTS_RESET_WORKERS = 1804"
definition ER_COL_COUNT_DOESNT_MATCH_CORRUPTED_V2 :: nat where [error_kind_defs]: "ER_COL_COUNT_DOESNT_MATCH_CORRUPTED_V2 = 1805"
definition ER_SLAVE_SILENT_RETRY_TRANSACTION :: nat where [error_kind_defs]: "ER_SLAVE_SILENT_RETRY_TRANSACTION = 1806"
definition ER_DISCARD_FK_CHECKS_RUNNING :: nat where [error_kind_defs]: "ER_DISCARD_FK_CHECKS_RUNNING = 1807"
definition ER_TABLE_SCHEMA_MISMATCH :: nat where [error_kind_defs]: "ER_TABLE_SCHEMA_MISMATCH = 1808"
definition ER_TABLE_IN_SYSTEM_TABLESPACE :: nat where [error_kind_defs]: "ER_TABLE_IN_SYSTEM_TABLESPACE = 1809"
definition ER_IO_READ_ERROR :: nat where [error_kind_defs]: "ER_IO_READ_ERROR = 1810"
definition ER_IO_WRITE_ERROR :: nat where [error_kind_defs]: "ER_IO_WRITE_ERROR = 1811"
definition ER_TABLESPACE_MISSING :: nat where [error_kind_defs]: "ER_TABLESPACE_MISSING = 1812"
definition ER_TABLESPACE_EXISTS :: nat where [error_kind_defs]: "ER_TABLESPACE_EXISTS = 1813"
definition ER_TABLESPACE_DISCARDED :: nat where [error_kind_defs]: "ER_TABLESPACE_DISCARDED = 1814"
definition ER_INTERNAL_ERROR :: nat where [error_kind_defs]: "ER_INTERNAL_ERROR = 1815"
definition ER_INNODB_IMPORT_ERROR :: nat where [error_kind_defs]: "ER_INNODB_IMPORT_ERROR = 1816"
definition ER_INNODB_INDEX_CORRUPT :: nat where [error_kind_defs]: "ER_INNODB_INDEX_CORRUPT = 1817"
definition ER_INVALID_YEAR_COLUMN_LENGTH :: nat where [error_kind_defs]: "ER_INVALID_YEAR_COLUMN_LENGTH = 1818"
definition ER_NOT_VALID_PASSWORD :: nat where [error_kind_defs]: "ER_NOT_VALID_PASSWORD = 1819"
definition ER_MUST_CHANGE_PASSWORD :: nat where [error_kind_defs]: "ER_MUST_CHANGE_PASSWORD = 1820"
definition ER_FK_NO_INDEX_CHILD :: nat where [error_kind_defs]: "ER_FK_NO_INDEX_CHILD = 1821"
definition ER_FK_NO_INDEX_PARENT :: nat where [error_kind_defs]: "ER_FK_NO_INDEX_PARENT = 1822"
definition ER_FK_FAIL_ADD_SYSTEM :: nat where [error_kind_defs]: "ER_FK_FAIL_ADD_SYSTEM = 1823"
definition ER_FK_CANNOT_OPEN_PARENT :: nat where [error_kind_defs]: "ER_FK_CANNOT_OPEN_PARENT = 1824"
definition ER_FK_INCORRECT_OPTION :: nat where [error_kind_defs]: "ER_FK_INCORRECT_OPTION = 1825"
definition ER_FK_DUP_NAME :: nat where [error_kind_defs]: "ER_FK_DUP_NAME = 1826"
definition ER_PASSWORD_FORMAT :: nat where [error_kind_defs]: "ER_PASSWORD_FORMAT = 1827"
definition ER_FK_COLUMN_CANNOT_DROP :: nat where [error_kind_defs]: "ER_FK_COLUMN_CANNOT_DROP = 1828"
definition ER_FK_COLUMN_CANNOT_DROP_CHILD :: nat where [error_kind_defs]: "ER_FK_COLUMN_CANNOT_DROP_CHILD = 1829"
definition ER_FK_COLUMN_NOT_NULL :: nat where [error_kind_defs]: "ER_FK_COLUMN_NOT_NULL = 1830"
definition ER_DUP_INDEX :: nat where [error_kind_defs]: "ER_DUP_INDEX = 1831"
definition ER_FK_COLUMN_CANNOT_CHANGE :: nat where [error_kind_defs]: "ER_FK_COLUMN_CANNOT_CHANGE = 1832"
definition ER_FK_COLUMN_CANNOT_CHANGE_CHILD :: nat where [error_kind_defs]: "ER_FK_COLUMN_CANNOT_CHANGE_CHILD = 1833"
definition ER_FK_CANNOT_DELETE_PARENT :: nat where [error_kind_defs]: "ER_FK_CANNOT_DELETE_PARENT = 1834"
definition ER_MALFORMED_PACKET :: nat where [error_kind_defs]: "ER_MALFORMED_PACKET = 1835"
definition ER_READ_ONLY_MODE :: nat where [error_kind_defs]: "ER_READ_ONLY_MODE = 1836"
definition ER_GTID_NEXT_TYPE_UNDEFINED_GROUP :: nat where [error_kind_defs]: "ER_GTID_NEXT_TYPE_UNDEFINED_GROUP = 1837"
definition ER_VARIABLE_NOT_SETTABLE_IN_SP :: nat where [error_kind_defs]: "ER_VARIABLE_NOT_SETTABLE_IN_SP = 1838"
definition ER_CANT_SET_GTID_PURGED_WHEN_GTID_MODE_IS_OFF :: nat where [error_kind_defs]: "ER_CANT_SET_GTID_PURGED_WHEN_GTID_MODE_IS_OFF = 1839"
definition ER_CANT_SET_GTID_PURGED_WHEN_GTID_EXECUTED_IS_NOT_EMPTY :: nat where [error_kind_defs]: "ER_CANT_SET_GTID_PURGED_WHEN_GTID_EXECUTED_IS_NOT_EMPTY = 1840"
definition ER_CANT_SET_GTID_PURGED_WHEN_OWNED_GTIDS_IS_NOT_EMPTY :: nat where [error_kind_defs]: "ER_CANT_SET_GTID_PURGED_WHEN_OWNED_GTIDS_IS_NOT_EMPTY = 1841"
definition ER_GTID_PURGED_WAS_CHANGED :: nat where [error_kind_defs]: "ER_GTID_PURGED_WAS_CHANGED = 1842"
definition ER_GTID_EXECUTED_WAS_CHANGED :: nat where [error_kind_defs]: "ER_GTID_EXECUTED_WAS_CHANGED = 1843"
definition ER_BINLOG_STMT_MODE_AND_NO_REPL_TABLES :: nat where [error_kind_defs]: "ER_BINLOG_STMT_MODE_AND_NO_REPL_TABLES = 1844"
definition ER_ALTER_OPERATION_NOT_SUPPORTED :: nat where [error_kind_defs]: "ER_ALTER_OPERATION_NOT_SUPPORTED = 1845"
definition ER_ALTER_OPERATION_NOT_SUPPORTED_REASON :: nat where [error_kind_defs]: "ER_ALTER_OPERATION_NOT_SUPPORTED_REASON = 1846"
definition ER_ALTER_OPERATION_NOT_SUPPORTED_REASON_COPY :: nat where [error_kind_defs]: "ER_ALTER_OPERATION_NOT_SUPPORTED_REASON_COPY = 1847"
definition ER_ALTER_OPERATION_NOT_SUPPORTED_REASON_PARTITION :: nat where [error_kind_defs]: "ER_ALTER_OPERATION_NOT_SUPPORTED_REASON_PARTITION = 1848"
definition ER_ALTER_OPERATION_NOT_SUPPORTED_REASON_FK_RENAME :: nat where [error_kind_defs]: "ER_ALTER_OPERATION_NOT_SUPPORTED_REASON_FK_RENAME = 1849"
definition ER_ALTER_OPERATION_NOT_SUPPORTED_REASON_COLUMN_TYPE :: nat where [error_kind_defs]: "ER_ALTER_OPERATION_NOT_SUPPORTED_REASON_COLUMN_TYPE = 1850"
definition ER_ALTER_OPERATION_NOT_SUPPORTED_REASON_FK_CHECK :: nat where [error_kind_defs]: "ER_ALTER_OPERATION_NOT_SUPPORTED_REASON_FK_CHECK = 1851"
definition ER_ALTER_OPERATION_NOT_SUPPORTED_REASON_IGNORE :: nat where [error_kind_defs]: "ER_ALTER_OPERATION_NOT_SUPPORTED_REASON_IGNORE = 1852"
definition ER_ALTER_OPERATION_NOT_SUPPORTED_REASON_NOPK :: nat where [error_kind_defs]: "ER_ALTER_OPERATION_NOT_SUPPORTED_REASON_NOPK = 1853"
definition ER_ALTER_OPERATION_NOT_SUPPORTED_REASON_AUTOINC :: nat where [error_kind_defs]: "ER_ALTER_OPERATION_NOT_SUPPORTED_REASON_AUTOINC = 1854"
definition ER_ALTER_OPERATION_NOT_SUPPORTED_REASON_HIDDEN_FTS :: nat where [error_kind_defs]: "ER_ALTER_OPERATION_NOT_SUPPORTED_REASON_HIDDEN_FTS = 1855"
definition ER_ALTER_OPERATION_NOT_SUPPORTED_REASON_CHANGE_FTS :: nat where [error_kind_defs]: "ER_ALTER_OPERATION_NOT_SUPPORTED_REASON_CHANGE_FTS = 1856"
definition ER_ALTER_OPERATION_NOT_SUPPORTED_REASON_FTS :: nat where [error_kind_defs]: "ER_ALTER_OPERATION_NOT_SUPPORTED_REASON_FTS = 1857"
definition ER_SQL_SLAVE_SKIP_COUNTER_NOT_SETTABLE_IN_GTID_MODE :: nat where [error_kind_defs]: "ER_SQL_SLAVE_SKIP_COUNTER_NOT_SETTABLE_IN_GTID_MODE = 1858"
definition ER_DUP_UNKNOWN_IN_INDEX :: nat where [error_kind_defs]: "ER_DUP_UNKNOWN_IN_INDEX = 1859"
definition ER_IDENT_CAUSES_TOO_LONG_PATH :: nat where [error_kind_defs]: "ER_IDENT_CAUSES_TOO_LONG_PATH = 1860"
definition ER_ALTER_OPERATION_NOT_SUPPORTED_REASON_NOT_NULL :: nat where [error_kind_defs]: "ER_ALTER_OPERATION_NOT_SUPPORTED_REASON_NOT_NULL = 1861"
definition ER_MUST_CHANGE_PASSWORD_LOGIN :: nat where [error_kind_defs]: "ER_MUST_CHANGE_PASSWORD_LOGIN = 1862"
definition ER_ROW_IN_WRONG_PARTITION :: nat where [error_kind_defs]: "ER_ROW_IN_WRONG_PARTITION = 1863"
definition ER_MTS_EVENT_BIGGER_PENDING_JOBS_SIZE_MAX :: nat where [error_kind_defs]: "ER_MTS_EVENT_BIGGER_PENDING_JOBS_SIZE_MAX = 1864"
definition ER_INNODB_NO_FT_USES_PARSER :: nat where [error_kind_defs]: "ER_INNODB_NO_FT_USES_PARSER = 1865"
definition ER_BINLOG_LOGICAL_CORRUPTION :: nat where [error_kind_defs]: "ER_BINLOG_LOGICAL_CORRUPTION = 1866"
definition ER_WARN_PURGE_LOG_IN_USE :: nat where [error_kind_defs]: "ER_WARN_PURGE_LOG_IN_USE = 1867"
definition ER_WARN_PURGE_LOG_IS_ACTIVE :: nat where [error_kind_defs]: "ER_WARN_PURGE_LOG_IS_ACTIVE = 1868"
definition ER_AUTO_INCREMENT_CONFLICT :: nat where [error_kind_defs]: "ER_AUTO_INCREMENT_CONFLICT = 1869"
definition WARN_ON_BLOCKHOLE_IN_RBR :: nat where [error_kind_defs]: "WARN_ON_BLOCKHOLE_IN_RBR = 1870"
definition ER_SLAVE_MI_INIT_REPOSITORY :: nat where [error_kind_defs]: "ER_SLAVE_MI_INIT_REPOSITORY = 1871"
definition ER_SLAVE_RLI_INIT_REPOSITORY :: nat where [error_kind_defs]: "ER_SLAVE_RLI_INIT_REPOSITORY = 1872"
definition ER_ACCESS_DENIED_CHANGE_USER_ERROR :: nat where [error_kind_defs]: "ER_ACCESS_DENIED_CHANGE_USER_ERROR = 1873"
definition ER_INNODB_READ_ONLY :: nat where [error_kind_defs]: "ER_INNODB_READ_ONLY = 1874"
definition ER_STOP_SLAVE_SQL_THREAD_TIMEOUT :: nat where [error_kind_defs]: "ER_STOP_SLAVE_SQL_THREAD_TIMEOUT = 1875"
definition ER_STOP_SLAVE_IO_THREAD_TIMEOUT :: nat where [error_kind_defs]: "ER_STOP_SLAVE_IO_THREAD_TIMEOUT = 1876"
definition ER_TABLE_CORRUPT :: nat where [error_kind_defs]: "ER_TABLE_CORRUPT = 1877"
definition ER_TEMP_FILE_WRITE_FAILURE :: nat where [error_kind_defs]: "ER_TEMP_FILE_WRITE_FAILURE = 1878"
definition ER_INNODB_FT_AUX_NOT_HEX_ID :: nat where [error_kind_defs]: "ER_INNODB_FT_AUX_NOT_HEX_ID = 1879"
definition ER_OLD_TEMPORALS_UPGRADED :: nat where [error_kind_defs]: "ER_OLD_TEMPORALS_UPGRADED = 1880"
definition ER_INNODB_FORCED_RECOVERY :: nat where [error_kind_defs]: "ER_INNODB_FORCED_RECOVERY = 1881"
definition ER_AES_INVALID_IV :: nat where [error_kind_defs]: "ER_AES_INVALID_IV = 1882"
definition ER_PLUGIN_CANNOT_BE_UNINSTALLED :: nat where [error_kind_defs]: "ER_PLUGIN_CANNOT_BE_UNINSTALLED = 1883"
definition ER_GTID_UNSAFE_BINLOG_SPLITTABLE_STATEMENT_AND_GTID_GROUP :: nat where [error_kind_defs]: "ER_GTID_UNSAFE_BINLOG_SPLITTABLE_STATEMENT_AND_GTID_GROUP = 1884"
definition ER_SLAVE_HAS_MORE_GTIDS_THAN_MASTER :: nat where [error_kind_defs]: "ER_SLAVE_HAS_MORE_GTIDS_THAN_MASTER = 1885"

text \<open>The variants in declaration order, in pieces of seventy.\<close>

definition error_kinds_1 :: "ErrorKind list" where
  "error_kinds_1 =
     [ER_HASHCHK, ER_NISAMCHK, ER_NO, ER_YES, ER_CANT_CREATE_FILE, ER_CANT_CREATE_TABLE,
      ER_CANT_CREATE_DB, ER_DB_CREATE_EXISTS, ER_DB_DROP_EXISTS, ER_DB_DROP_DELETE,
      ER_DB_DROP_RMDIR, ER_CANT_DELETE_FILE, ER_CANT_FIND_SYSTEM_REC, ER_CANT_GET_STAT,
      ER_CANT_GET_WD, ER_CANT_LOCK, ER_CANT_OPEN_FILE, ER_FILE_NOT_FOUND, ER_CANT_READ_DIR,
      ER_CANT_SET_WD, ER_CHECKREAD, ER_DISK_FULL, ER_DUP_KEY, ER_ERROR_ON_CLOSE, ER_ERROR_ON_READ,
      ER_ERROR_ON_RENAME, ER_ERROR_ON_WRITE, ER_FILE_USED, ER_FILSORT_ABORT, ER_FORM_NOT_FOUND,
      ER_GET_ERRN, ER_ILLEGAL_HA, ER_KEY_NOT_FOUND, ER_NOT_FORM_FILE, ER_NOT_KEYFILE,
      ER_OLD_KEYFILE, ER_OPEN_AS_READONLY, ER_OUTOFMEMORY, ER_OUT_OF_SORTMEMORY,
      ER_UNEXPECTED_EOF, ER_CON_COUNT_ERROR, ER_OUT_OF_RESOURCES, ER_BAD_HOST_ERROR,
      ER_HANDSHAKE_ERROR, ER_DBACCESS_DENIED_ERROR, ER_ACCESS_DENIED_ERROR, ER_NO_DB_ERROR,
      ER_UNKNOWN_COM_ERROR, ER_BAD_NULL_ERROR, ER_BAD_DB_ERROR, ER_TABLE_EXISTS_ERROR,
      ER_BAD_TABLE_ERROR, ER_NON_UNIQ_ERROR, ER_SERVER_SHUTDOWN, ER_BAD_FIELD_ERROR,
      ER_WRONG_FIELD_WITH_GROUP, ER_WRONG_GROUP_FIELD, ER_WRONG_SUM_SELECT, ER_WRONG_VALUE_COUNT,
      ER_TOO_LONG_IDENT, ER_DUP_FIELDNAME, ER_DUP_KEYNAME, ER_DUP_ENTRY, ER_WRONG_FIELD_SPEC,
      ER_PARSE_ERROR, ER_EMPTY_QUERY, ER_NONUNIQ_TABLE, ER_INVALID_DEFAULT, ER_MULTIPLE_PRI_KEY,
      ER_TOO_MANY_KEYS]"

definition error_kinds_2 :: "ErrorKind list" where
  "error_kinds_2 =
     [ER_TOO_MANY_KEY_PARTS, ER_TOO_LONG_KEY, ER_KEY_COLUMN_DOES_NOT_EXITS, ER_BLOB_USED_AS_KEY,
      ER_TOO_BIG_FIELDLENGTH, ER_WRONG_AUTO_KEY, ER_READY, ER_NORMAL_SHUTDOWN, ER_GOT_SIGNAL,
      ER_SHUTDOWN_COMPLETE, ER_FORCING_CLOSE, ER_IPSOCK_ERROR, ER_NO_SUCH_INDEX,
      ER_WRONG_FIELD_TERMINATORS, ER_BLOBS_AND_NO_TERMINATED, ER_TEXTFILE_NOT_READABLE,
      ER_FILE_EXISTS_ERROR, ER_LOAD_INF, ER_ALTER_INF, ER_WRONG_SUB_KEY,
      ER_CANT_REMOVE_ALL_FIELDS, ER_CANT_DROP_FIELD_OR_KEY, ER_INSERT_INF, ER_UPDATE_TABLE_USED,
      ER_NO_SUCH_THREAD, ER_KILL_DENIED_ERROR, ER_NO_TABLES_USED, ER_TOO_BIG_SET,
      ER_NO_UNIQUE_LOGFILE, ER_TABLE_NOT_LOCKED_FOR_WRITE, ER_TABLE_NOT_LOCKED,
      ER_BLOB_CANT_HAVE_DEFAULT, ER_WRONG_DB_NAME, ER_WRONG_TABLE_NAME, ER_TOO_BIG_SELECT,
      ER_UNKNOWN_ERROR, ER_UNKNOWN_PROCEDURE, ER_WRONG_PARAMCOUNT_TO_PROCEDURE,
      ER_WRONG_PARAMETERS_TO_PROCEDURE, ER_UNKNOWN_TABLE, ER_FIELD_SPECIFIED_TWICE,
      ER_INVALID_GROUP_FUNC_USE, ER_UNSUPPORTED_EXTENSION, ER_TABLE_MUST_HAVE_COLUMNS,
      ER_RECORD_FILE_FULL, ER_UNKNOWN_CHARACTER_SET, ER_TOO_MANY_TABLES, ER_TOO_MANY_FIELDS,
      ER_TOO_BIG_ROWSIZE, ER_STACK_OVERRUN, ER_WRONG_OUTER_JOIN, ER_NULL_COLUMN_IN_INDEX,
      ER_CANT_FIND_UDF, ER_CANT_INITIALIZE_UDF, ER_UDF_NO_PATHS, ER_UDF_EXISTS,
      ER_CANT_OPEN_LIBRARY, ER_CANT_FIND_DL_ENTRY, ER_FUNCTION_NOT_DEFINED, ER_HOST_IS_BLOCKED,
      ER_HOST_NOT_PRIVILEGED, ER_PASSWORD_ANONYMOUS_USER, ER_PASSWORD_NOT_ALLOWED,
      ER_PASSWORD_NO_MATCH, ER_UPDATE_INF, ER_CANT_CREATE_THREAD, ER_WRONG_VALUE_COUNT_ON_ROW,
      ER_CANT_REOPEN_TABLE, ER_INVALID_USE_OF_NULL, ER_REGEXP_ERROR]"

definition error_kinds_3 :: "ErrorKind list" where
  "error_kinds_3 =
     [ER_MIX_OF_GROUP_FUNC_AND_FIELDS, ER_NONEXISTING_GRANT, ER_TABLEACCESS_DENIED_ERROR,
      ER_COLUMNACCESS_DENIED_ERROR, ER_ILLEGAL_GRANT_FOR_TABLE, ER_GRANT_WRONG_HOST_OR_USER,
      ER_NO_SUCH_TABLE, ER_NONEXISTING_TABLE_GRANT, ER_NOT_ALLOWED_COMMAND, ER_SYNTAX_ERROR,
      ER_DELAYED_CANT_CHANGE_LOCK, ER_TOO_MANY_DELAYED_THREADS, ER_ABORTING_CONNECTION,
      ER_NET_PACKET_TOO_LARGE, ER_NET_READ_ERROR_FROM_PIPE, ER_NET_FCNTL_ERROR,
      ER_NET_PACKETS_OUT_OF_ORDER, ER_NET_UNCOMPRESS_ERROR, ER_NET_READ_ERROR,
      ER_NET_READ_INTERRUPTED, ER_NET_ERROR_ON_WRITE, ER_NET_WRITE_INTERRUPTED,
      ER_TOO_LONG_STRING, ER_TABLE_CANT_HANDLE_BLOB, ER_TABLE_CANT_HANDLE_AUTO_INCREMENT,
      ER_DELAYED_INSERT_TABLE_LOCKED, ER_WRONG_COLUMN_NAME, ER_WRONG_KEY_COLUMN,
      ER_WRONG_MRG_TABLE, ER_DUP_UNIQUE, ER_BLOB_KEY_WITHOUT_LENGTH, ER_PRIMARY_CANT_HAVE_NULL,
      ER_TOO_MANY_ROWS, ER_REQUIRES_PRIMARY_KEY, ER_NO_RAID_COMPILED,
      ER_UPDATE_WITHOUT_KEY_IN_SAFE_MODE, ER_KEY_DOES_NOT_EXITS, ER_CHECK_NO_SUCH_TABLE,
      ER_CHECK_NOT_IMPLEMENTED, ER_CANT_DO_THIS_DURING_AN_TRANSACTION, ER_ERROR_DURING_COMMIT,
      ER_ERROR_DURING_ROLLBACK, ER_ERROR_DURING_FLUSH_LOGS, ER_ERROR_DURING_CHECKPOINT,
      ER_NEW_ABORTING_CONNECTION, ER_DUMP_NOT_IMPLEMENTED, ER_FLUSH_MASTER_BINLOG_CLOSED,
      ER_INDEX_REBUILD, ER_MASTER, ER_MASTER_NET_READ, ER_MASTER_NET_WRITE,
      ER_FT_MATCHING_KEY_NOT_FOUND, ER_LOCK_OR_ACTIVE_TRANSACTION, ER_UNKNOWN_SYSTEM_VARIABLE,
      ER_CRASHED_ON_USAGE, ER_CRASHED_ON_REPAIR, ER_WARNING_NOT_COMPLETE_ROLLBACK,
      ER_TRANS_CACHE_FULL, ER_SLAVE_MUST_STOP, ER_SLAVE_NOT_RUNNING, ER_BAD_SLAVE, ER_MASTER_INF,
      ER_SLAVE_THREAD, ER_TOO_MANY_USER_CONNECTIONS, ER_SET_CONSTANTS_ONLY, ER_LOCK_WAIT_TIMEOUT,
      ER_LOCK_TABLE_FULL, ER_READ_ONLY_TRANSACTION, ER_DROP_DB_WITH_READ_LOCK,
      ER_CREATE_DB_WITH_READ_LOCK]"

definition error_kinds_4 :: "ErrorKind list" where
  "error_kinds_4 =
     [ER_WRONG_ARGUMENTS, ER_NO_PERMISSION_TO_CREATE_USER, ER_UNION_TABLES_IN_DIFFERENT_DIR,
      ER_LOCK_DEADLOCK, ER_TABLE_CANT_HANDLE_FT, ER_CANNOT_ADD_FOREIGN, ER_NO_REFERENCED_ROW,
      ER_ROW_IS_REFERENCED, ER_CONNECT_TO_MASTER, ER_QUERY_ON_MASTER,
      ER_ERROR_WHEN_EXECUTING_COMMAND, ER_WRONG_USAGE, ER_WRONG_NUMBER_OF_COLUMNS_IN_SELECT,
      ER_CANT_UPDATE_WITH_READLOCK, ER_MIXING_NOT_ALLOWED, ER_DUP_ARGUMENT, ER_USER_LIMIT_REACHED,
      ER_SPECIFIC_ACCESS_DENIED_ERROR, ER_LOCAL_VARIABLE, ER_GLOBAL_VARIABLE, ER_NO_DEFAULT,
      ER_WRONG_VALUE_FOR_VAR, ER_WRONG_TYPE_FOR_VAR, ER_VAR_CANT_BE_READ, ER_CANT_USE_OPTION_HERE,
      ER_NOT_SUPPORTED_YET, ER_MASTER_FATAL_ERROR_READING_BINLOG, ER_SLAVE_IGNORED_TABLE,
      ER_INCORRECT_GLOBAL_LOCAL_VAR, ER_WRONG_FK_DEF, ER_KEY_REF_DO_NOT_MATCH_TABLE_REF,
      ER_OPERAND_COLUMNS, ER_SUBQUERY_NO_1_ROW, ER_UNKNOWN_STMT_HANDLER, ER_CORRUPT_HELP_DB,
      ER_CYCLIC_REFERENCE, ER_AUTO_CONVERT, ER_ILLEGAL_REFERENCE, ER_DERIVED_MUST_HAVE_ALIAS,
      ER_SELECT_REDUCED, ER_TABLENAME_NOT_ALLOWED_HERE, ER_NOT_SUPPORTED_AUTH_MODE,
      ER_SPATIAL_CANT_HAVE_NULL, ER_COLLATION_CHARSET_MISMATCH, ER_SLAVE_WAS_RUNNING,
      ER_SLAVE_WAS_NOT_RUNNING, ER_TOO_BIG_FOR_UNCOMPRESS, ER_ZLIB_Z_MEM_ERROR,
      ER_ZLIB_Z_BUF_ERROR, ER_ZLIB_Z_DATA_ERROR, ER_CUT_VALUE_GROUP_CONCAT,
      ER_WARN_TOO_FEW_RECORDS, ER_WARN_TOO_MANY_RECORDS, ER_WARN_NULL_TO_NOTNULL,
      ER_WARN_DATA_OUT_OF_RANGE, WARN_DATA_TRUNCATED, ER_WARN_USING_OTHER_HANDLER,
      ER_CANT_AGGREGATE_2COLLATIONS, ER_DROP_USER, ER_REVOKE_GRANTS,
      ER_CANT_AGGREGATE_3COLLATIONS, ER_CANT_AGGREGATE_NCOLLATIONS, ER_VARIABLE_IS_NOT_STRUCT,
      ER_UNKNOWN_COLLATION, ER_SLAVE_IGNORED_SSL_PARAMS, ER_SERVER_IS_IN_SECURE_AUTH_MODE,
      ER_WARN_FIELD_RESOLVED, ER_BAD_SLAVE_UNTIL_COND, ER_MISSING_SKIP_SLAVE,
      ER_UNTIL_COND_IGNORED]"

definition error_kinds_5 :: "ErrorKind list" where
  "error_kinds_5 =
     [ER_WRONG_NAME_FOR_INDEX, ER_WRONG_NAME_FOR_CATALOG, ER_WARN_QC_RESIZE, ER_BAD_FT_COLUMN,
      ER_UNKNOWN_KEY_CACHE, ER_WARN_HOSTNAME_WONT_WORK, ER_UNKNOWN_STORAGE_ENGINE,
      ER_WARN_DEPRECATED_SYNTAX, ER_NON_UPDATABLE_TABLE, ER_FEATURE_DISABLED,
      ER_OPTION_PREVENTS_STATEMENT, ER_DUPLICATED_VALUE_IN_TYPE, ER_TRUNCATED_WRONG_VALUE,
      ER_TOO_MUCH_AUTO_TIMESTAMP_COLS, ER_INVALID_ON_UPDATE, ER_UNSUPPORTED_PS, ER_GET_ERRMSG,
      ER_GET_TEMPORARY_ERRMSG, ER_UNKNOWN_TIME_ZONE, ER_WARN_INVALID_TIMESTAMP,
      ER_INVALID_CHARACTER_STRING, ER_WARN_ALLOWED_PACKET_OVERFLOWED, ER_CONFLICTING_DECLARATIONS,
      ER_SP_NO_RECURSIVE_CREATE, ER_SP_ALREADY_EXISTS, ER_SP_DOES_NOT_EXIST, ER_SP_DROP_FAILED,
      ER_SP_STORE_FAILED, ER_SP_LILABEL_MISMATCH, ER_SP_LABEL_REDEFINE, ER_SP_LABEL_MISMATCH,
      ER_SP_UNINIT_VAR, ER_SP_BADSELECT, ER_SP_BADRETURN, ER_SP_BADSTATEMENT,
      ER_UPDATE_LOG_DEPRECATED_IGNORED, ER_UPDATE_LOG_DEPRECATED_TRANSLATED, ER_QUERY_INTERRUPTED,
      ER_SP_WRONG_NO_OF_ARGS, ER_SP_COND_MISMATCH, ER_SP_NORETURN, ER_SP_NORETURNEND,
      ER_SP_BAD_CURSOR_QUERY, ER_SP_BAD_CURSOR_SELECT, ER_SP_CURSOR_MISMATCH,
      ER_SP_CURSOR_ALREADY_OPEN, ER_SP_CURSOR_NOT_OPEN, ER_SP_UNDECLARED_VAR,
      ER_SP_WRONG_NO_OF_FETCH_ARGS, ER_SP_FETCH_NO_DATA, ER_SP_DUP_PARAM, ER_SP_DUP_VAR,
      ER_SP_DUP_COND, ER_SP_DUP_CURS, ER_SP_CANT_ALTER, ER_SP_SUBSELECT_NYI,
      ER_STMT_NOT_ALLOWED_IN_SF_OR_TRG, ER_SP_VARCOND_AFTER_CURSHNDLR, ER_SP_CURSOR_AFTER_HANDLER,
      ER_SP_CASE_NOT_FOUND, ER_FPARSER_TOO_BIG_FILE, ER_FPARSER_BAD_HEADER,
      ER_FPARSER_EOF_IN_COMMENT, ER_FPARSER_ERROR_IN_PARAMETER,
      ER_FPARSER_EOF_IN_UNKNOWN_PARAMETER, ER_VIEW_NO_EXPLAIN, ER_FRM_UNKNOWN_TYPE,
      ER_WRONG_OBJECT, ER_NONUPDATEABLE_COLUMN, ER_VIEW_SELECT_DERIVED]"

definition error_kinds_6 :: "ErrorKind list" where
  "error_kinds_6 =
     [ER_VIEW_SELECT_CLAUSE, ER_VIEW_SELECT_VARIABLE, ER_VIEW_SELECT_TMPTABLE, ER_VIEW_WRONG_LIST,
      ER_WARN_VIEW_MERGE, ER_WARN_VIEW_WITHOUT_KEY, ER_VIEW_INVALID, ER_SP_NO_DROP_SP,
      ER_SP_GOTO_IN_HNDLR, ER_TRG_ALREADY_EXISTS, ER_TRG_DOES_NOT_EXIST,
      ER_TRG_ON_VIEW_OR_TEMP_TABLE, ER_TRG_CANT_CHANGE_ROW, ER_TRG_NO_SUCH_ROW_IN_TRG,
      ER_NO_DEFAULT_FOR_FIELD, ER_DIVISION_BY_ZER, ER_TRUNCATED_WRONG_VALUE_FOR_FIELD,
      ER_ILLEGAL_VALUE_FOR_TYPE, ER_VIEW_NONUPD_CHECK, ER_VIEW_CHECK_FAILED,
      ER_PROCACCESS_DENIED_ERROR, ER_RELAY_LOG_FAIL, ER_PASSWD_LENGTH, ER_UNKNOWN_TARGET_BINLOG,
      ER_IO_ERR_LOG_INDEX_READ, ER_BINLOG_PURGE_PROHIBITED, ER_FSEEK_FAIL,
      ER_BINLOG_PURGE_FATAL_ERR, ER_LOG_IN_USE, ER_LOG_PURGE_UNKNOWN_ERR, ER_RELAY_LOG_INIT,
      ER_NO_BINARY_LOGGING, ER_RESERVED_SYNTAX, ER_WSAS_FAILED, ER_DIFF_GROUPS_PROC,
      ER_NO_GROUP_FOR_PROC, ER_ORDER_WITH_PROC, ER_LOGGING_PROHIBIT_CHANGING_OF,
      ER_NO_FILE_MAPPING, ER_WRONG_MAGIC, ER_PS_MANY_PARAM, ER_KEY_PART_0, ER_VIEW_CHECKSUM,
      ER_VIEW_MULTIUPDATE, ER_VIEW_NO_INSERT_FIELD_LIST, ER_VIEW_DELETE_MERGE_VIEW,
      ER_CANNOT_USER, ER_XAER_NOTA, ER_XAER_INVAL, ER_XAER_RMFAIL, ER_XAER_OUTSIDE, ER_XAER_RMERR,
      ER_XA_RBROLLBACK, ER_NONEXISTING_PROC_GRANT, ER_PROC_AUTO_GRANT_FAIL,
      ER_PROC_AUTO_REVOKE_FAIL, ER_DATA_TOO_LONG, ER_SP_BAD_SQLSTATE, ER_STARTUP,
      ER_LOAD_FROM_FIXED_SIZE_ROWS_TO_VAR, ER_CANT_CREATE_USER_WITH_GRANT,
      ER_WRONG_VALUE_FOR_TYPE, ER_TABLE_DEF_CHANGED, ER_SP_DUP_HANDLER, ER_SP_NOT_VAR_ARG,
      ER_SP_NO_RETSET, ER_CANT_CREATE_GEOMETRY_OBJECT, ER_FAILED_ROUTINE_BREAK_BINLOG,
      ER_BINLOG_UNSAFE_ROUTINE, ER_BINLOG_CREATE_ROUTINE_NEED_SUPER]"

definition error_kinds_7 :: "ErrorKind list" where
  "error_kinds_7 =
     [ER_EXEC_STMT_WITH_OPEN_CURSOR, ER_STMT_HAS_NO_OPEN_CURSOR,
      ER_COMMIT_NOT_ALLOWED_IN_SF_OR_TRG, ER_NO_DEFAULT_FOR_VIEW_FIELD, ER_SP_NO_RECURSION,
      ER_TOO_BIG_SCALE, ER_TOO_BIG_PRECISION, ER_M_BIGGER_THAN_D, ER_WRONG_LOCK_OF_SYSTEM_TABLE,
      ER_CONNECT_TO_FOREIGN_DATA_SOURCE, ER_QUERY_ON_FOREIGN_DATA_SOURCE,
      ER_FOREIGN_DATA_SOURCE_DOESNT_EXIST, ER_FOREIGN_DATA_STRING_INVALID_CANT_CREATE,
      ER_FOREIGN_DATA_STRING_INVALID, ER_CANT_CREATE_FEDERATED_TABLE, ER_TRG_IN_WRONG_SCHEMA,
      ER_STACK_OVERRUN_NEED_MORE, ER_TOO_LONG_BODY, ER_WARN_CANT_DROP_DEFAULT_KEYCACHE,
      ER_TOO_BIG_DISPLAYWIDTH, ER_XAER_DUPID, ER_DATETIME_FUNCTION_OVERFLOW,
      ER_CANT_UPDATE_USED_TABLE_IN_SF_OR_TRG, ER_VIEW_PREVENT_UPDATE, ER_PS_NO_RECURSION,
      ER_SP_CANT_SET_AUTOCOMMIT, ER_MALFORMED_DEFINER, ER_VIEW_FRM_NO_USER, ER_VIEW_OTHER_USER,
      ER_NO_SUCH_USER, ER_FORBID_SCHEMA_CHANGE, ER_ROW_IS_REFERENCED_2, ER_NO_REFERENCED_ROW_2,
      ER_SP_BAD_VAR_SHADOW, ER_TRG_NO_DEFINER, ER_OLD_FILE_FORMAT, ER_SP_RECURSION_LIMIT,
      ER_SP_PROC_TABLE_CORRUPT, ER_SP_WRONG_NAME, ER_TABLE_NEEDS_UPGRADE, ER_SP_NO_AGGREGATE,
      ER_MAX_PREPARED_STMT_COUNT_REACHED, ER_VIEW_RECURSIVE, ER_NON_GROUPING_FIELD_USED,
      ER_TABLE_CANT_HANDLE_SPKEYS, ER_NO_TRIGGERS_ON_SYSTEM_SCHEMA, ER_REMOVED_SPACES,
      ER_AUTOINC_READ_FAILED, ER_USERNAME, ER_HOSTNAME, ER_WRONG_STRING_LENGTH,
      ER_NON_INSERTABLE_TABLE, ER_ADMIN_WRONG_MRG_TABLE, ER_TOO_HIGH_LEVEL_OF_NESTING_FOR_SELECT,
      ER_NAME_BECOMES_EMPTY, ER_AMBIGUOUS_FIELD_TERM, ER_FOREIGN_SERVER_EXISTS,
      ER_FOREIGN_SERVER_DOESNT_EXIST, ER_ILLEGAL_HA_CREATE_OPTION,
      ER_PARTITION_REQUIRES_VALUES_ERROR, ER_PARTITION_WRONG_VALUES_ERROR,
      ER_PARTITION_MAXVALUE_ERROR, ER_PARTITION_SUBPARTITION_ERROR,
      ER_PARTITION_SUBPART_MIX_ERROR, ER_PARTITION_WRONG_NO_PART_ERROR,
      ER_PARTITION_WRONG_NO_SUBPART_ERROR, ER_WRONG_EXPR_IN_PARTITION_FUNC_ERROR,
      ER_NO_CONST_EXPR_IN_RANGE_OR_LIST_ERROR, ER_FIELD_NOT_FOUND_PART_ERROR,
      ER_LIST_OF_FIELDS_ONLY_IN_HASH_ERROR]"

definition error_kinds_8 :: "ErrorKind list" where
  "error_kinds_8 =
     [ER_INCONSISTENT_PARTITION_INFO_ERROR, ER_PARTITION_FUNC_NOT_ALLOWED_ERROR,
      ER_PARTITIONS_MUST_BE_DEFINED_ERROR, ER_RANGE_NOT_INCREASING_ERROR,
      ER_INCONSISTENT_TYPE_OF_FUNCTIONS_ERROR, ER_MULTIPLE_DEF_CONST_IN_LIST_PART_ERROR,
      ER_PARTITION_ENTRY_ERROR, ER_MIX_HANDLER_ERROR, ER_PARTITION_NOT_DEFINED_ERROR,
      ER_TOO_MANY_PARTITIONS_ERROR, ER_SUBPARTITION_ERROR, ER_CANT_CREATE_HANDLER_FILE,
      ER_BLOB_FIELD_IN_PART_FUNC_ERROR, ER_UNIQUE_KEY_NEED_ALL_FIELDS_IN_PF, ER_NO_PARTS_ERROR,
      ER_PARTITION_MGMT_ON_NONPARTITIONED, ER_FOREIGN_KEY_ON_PARTITIONED,
      ER_DROP_PARTITION_NON_EXISTENT, ER_DROP_LAST_PARTITION, ER_COALESCE_ONLY_ON_HASH_PARTITION,
      ER_REORG_HASH_ONLY_ON_SAME_N, ER_REORG_NO_PARAM_ERROR, ER_ONLY_ON_RANGE_LIST_PARTITION,
      ER_ADD_PARTITION_SUBPART_ERROR, ER_ADD_PARTITION_NO_NEW_PARTITION,
      ER_COALESCE_PARTITION_NO_PARTITION, ER_REORG_PARTITION_NOT_EXIST, ER_SAME_NAME_PARTITION,
      ER_NO_BINLOG_ERROR, ER_CONSECUTIVE_REORG_PARTITIONS, ER_REORG_OUTSIDE_RANGE,
      ER_PARTITION_FUNCTION_FAILURE, ER_PART_STATE_ERROR, ER_LIMITED_PART_RANGE,
      ER_PLUGIN_IS_NOT_LOADED, ER_WRONG_VALUE, ER_NO_PARTITION_FOR_GIVEN_VALUE,
      ER_FILEGROUP_OPTION_ONLY_ONCE, ER_CREATE_FILEGROUP_FAILED, ER_DROP_FILEGROUP_FAILED,
      ER_TABLESPACE_AUTO_EXTEND_ERROR, ER_WRONG_SIZE_NUMBER, ER_SIZE_OVERFLOW_ERROR,
      ER_ALTER_FILEGROUP_FAILED, ER_BINLOG_ROW_LOGGING_FAILED, ER_BINLOG_ROW_WRONG_TABLE_DEF,
      ER_BINLOG_ROW_RBR_TO_SBR, ER_EVENT_ALREADY_EXISTS, ER_EVENT_STORE_FAILED,
      ER_EVENT_DOES_NOT_EXIST, ER_EVENT_CANT_ALTER, ER_EVENT_DROP_FAILED,
      ER_EVENT_INTERVAL_NOT_POSITIVE_OR_TOO_BIG, ER_EVENT_ENDS_BEFORE_STARTS,
      ER_EVENT_EXEC_TIME_IN_THE_PAST, ER_EVENT_OPEN_TABLE_FAILED,
      ER_EVENT_NEITHER_M_EXPR_NOR_M_AT, ER_COL_COUNT_DOESNT_MATCH_CORRUPTED,
      ER_CANNOT_LOAD_FROM_TABLE, ER_EVENT_CANNOT_DELETE, ER_EVENT_COMPILE_ERROR,
      ER_EVENT_SAME_NAME, ER_EVENT_DATA_TOO_LONG, ER_DROP_INDEX_FK,
      ER_WARN_DEPRECATED_SYNTAX_WITH_VER, ER_CANT_WRITE_LOCK_LOG_TABLE, ER_CANT_LOCK_LOG_TABLE,
      ER_FOREIGN_DUPLICATE_KEY, ER_COL_COUNT_DOESNT_MATCH_PLEASE_UPDATE,
      ER_TEMP_TABLE_PREVENTS_SWITCH_OUT_OF_RBR]"

definition error_kinds_9 :: "ErrorKind list" where
  "error_kinds_9 =
     [ER_STORED_FUNCTION_PREVENTS_SWITCH_BINLOG_FORMAT, ER_NDB_CANT_SWITCH_BINLOG_FORMAT,
      ER_PARTITION_NO_TEMPORARY, ER_PARTITION_CONST_DOMAIN_ERROR,
      ER_PARTITION_FUNCTION_IS_NOT_ALLOWED, ER_DDL_LOG_ERROR, ER_NULL_IN_VALUES_LESS_THAN,
      ER_WRONG_PARTITION_NAME, ER_CANT_CHANGE_TX_ISOLATION, ER_DUP_ENTRY_AUTOINCREMENT_CASE,
      ER_EVENT_MODIFY_QUEUE_ERROR, ER_EVENT_SET_VAR_ERROR, ER_PARTITION_MERGE_ERROR,
      ER_CANT_ACTIVATE_LOG, ER_RBR_NOT_AVAILABLE, ER_BASE64_DECODE_ERROR,
      ER_EVENT_RECURSION_FORBIDDEN, ER_EVENTS_DB_ERROR, ER_ONLY_INTEGERS_ALLOWED,
      ER_UNSUPORTED_LOG_ENGINE, ER_BAD_LOG_STATEMENT, ER_CANT_RENAME_LOG_TABLE,
      ER_WRONG_PARAMCOUNT_TO_NATIVE_FCT, ER_WRONG_PARAMETERS_TO_NATIVE_FCT,
      ER_WRONG_PARAMETERS_TO_STORED_FCT, ER_NATIVE_FCT_NAME_COLLISION, ER_DUP_ENTRY_WITH_KEY_NAME,
      ER_BINLOG_PURGE_EMFILE, ER_EVENT_CANNOT_CREATE_IN_THE_PAST,
      ER_EVENT_CANNOT_ALTER_IN_THE_PAST, ER_SLAVE_INCIDENT,
      ER_NO_PARTITION_FOR_GIVEN_VALUE_SILENT, ER_BINLOG_UNSAFE_STATEMENT, ER_SLAVE_FATAL_ERROR,
      ER_SLAVE_RELAY_LOG_READ_FAILURE, ER_SLAVE_RELAY_LOG_WRITE_FAILURE,
      ER_SLAVE_CREATE_EVENT_FAILURE, ER_SLAVE_MASTER_COM_FAILURE, ER_BINLOG_LOGGING_IMPOSSIBLE,
      ER_VIEW_NO_CREATION_CTX, ER_VIEW_INVALID_CREATION_CTX, ER_SR_INVALID_CREATION_CTX,
      ER_TRG_CORRUPTED_FILE, ER_TRG_NO_CREATION_CTX, ER_TRG_INVALID_CREATION_CTX,
      ER_EVENT_INVALID_CREATION_CTX, ER_TRG_CANT_OPEN_TABLE, ER_CANT_CREATE_SROUTINE,
      ER_UNUSED_11, ER_NO_FORMAT_DESCRIPTION_EVENT_BEFORE_BINLOG_STATEMENT,
      ER_SLAVE_CORRUPT_EVENT, ER_LOAD_DATA_INVALID_COLUMN, ER_LOG_PURGE_NO_FILE, ER_XA_RBTIMEOUT,
      ER_XA_RBDEADLOCK, ER_NEED_REPREPARE, ER_DELAYED_NOT_SUPPORTED, WARN_NO_MASTER_INF,
      WARN_OPTION_IGNORED, WARN_PLUGIN_DELETE_BUILTIN, WARN_PLUGIN_BUSY, ER_VARIABLE_IS_READONLY,
      ER_WARN_ENGINE_TRANSACTION_ROLLBACK, ER_SLAVE_HEARTBEAT_FAILURE,
      ER_SLAVE_HEARTBEAT_VALUE_OUT_OF_RANGE, ER_NDB_REPLICATION_SCHEMA_ERROR,
      ER_CONFLICT_FN_PARSE_ERROR, ER_EXCEPTIONS_WRITE_ERROR, ER_TOO_LONG_TABLE_COMMENT,
      ER_TOO_LONG_FIELD_COMMENT]"

definition error_kinds_10 :: "ErrorKind list" where
  "error_kinds_10 =
     [ER_FUNC_INEXISTENT_NAME_COLLISION, ER_DATABASE_NAME, ER_TABLE_NAME, ER_PARTITION_NAME,
      ER_SUBPARTITION_NAME, ER_TEMPORARY_NAME, ER_RENAMED_NAME, ER_TOO_MANY_CONCURRENT_TRXS,
      WARN_NON_ASCII_SEPARATOR_NOT_IMPLEMENTED, ER_DEBUG_SYNC_TIMEOUT, ER_DEBUG_SYNC_HIT_LIMIT,
      ER_DUP_SIGNAL_SET, ER_SIGNAL_WARN, ER_SIGNAL_NOT_FOUND, ER_SIGNAL_EXCEPTION,
      ER_RESIGNAL_WITHOUT_ACTIVE_HANDLER, ER_SIGNAL_BAD_CONDITION_TYPE, WARN_COND_ITEM_TRUNCATED,
      ER_COND_ITEM_TOO_LONG, ER_UNKNOWN_LOCALE, ER_SLAVE_IGNORE_SERVER_IDS,
      ER_QUERY_CACHE_DISABLED, ER_SAME_NAME_PARTITION_FIELD, ER_PARTITION_COLUMN_LIST_ERROR,
      ER_WRONG_TYPE_COLUMN_VALUE_ERROR, ER_TOO_MANY_PARTITION_FUNC_FIELDS_ERROR,
      ER_MAXVALUE_IN_VALUES_IN, ER_TOO_MANY_VALUES_ERROR, ER_ROW_SINGLE_PARTITION_FIELD_ERROR,
      ER_FIELD_TYPE_NOT_ALLOWED_AS_PARTITION_FIELD, ER_PARTITION_FIELDS_TOO_LONG,
      ER_BINLOG_ROW_ENGINE_AND_STMT_ENGINE, ER_BINLOG_ROW_MODE_AND_STMT_ENGINE,
      ER_BINLOG_UNSAFE_AND_STMT_ENGINE, ER_BINLOG_ROW_INJECTION_AND_STMT_ENGINE,
      ER_BINLOG_STMT_MODE_AND_ROW_ENGINE, ER_BINLOG_ROW_INJECTION_AND_STMT_MODE,
      ER_BINLOG_MULTIPLE_ENGINES_AND_SELF_LOGGING_ENGINE, ER_BINLOG_UNSAFE_LIMIT,
      ER_BINLOG_UNSAFE_INSERT_DELAYED, ER_BINLOG_UNSAFE_SYSTEM_TABLE,
      ER_BINLOG_UNSAFE_AUTOINC_COLUMNS, ER_BINLOG_UNSAFE_UDF, ER_BINLOG_UNSAFE_SYSTEM_VARIABLE,
      ER_BINLOG_UNSAFE_SYSTEM_FUNCTION, ER_BINLOG_UNSAFE_NONTRANS_AFTER_TRANS,
      ER_MESSAGE_AND_STATEMENT, ER_SLAVE_CONVERSION_FAILED, ER_SLAVE_CANT_CREATE_CONVERSION,
      ER_INSIDE_TRANSACTION_PREVENTS_SWITCH_BINLOG_FORMAT, ER_PATH_LENGTH,
      ER_WARN_DEPRECATED_SYNTAX_NO_REPLACEMENT, ER_WRONG_NATIVE_TABLE_STRUCTURE,
      ER_WRONG_PERFSCHEMA_USAGE, ER_WARN_I_S_SKIPPED_TABLE,
      ER_INSIDE_TRANSACTION_PREVENTS_SWITCH_BINLOG_DIRECT,
      ER_STORED_FUNCTION_PREVENTS_SWITCH_BINLOG_DIRECT, ER_SPATIAL_MUST_HAVE_GEOM_COL,
      ER_TOO_LONG_INDEX_COMMENT, ER_LOCK_ABORTED, ER_DATA_OUT_OF_RANGE,
      ER_WRONG_SPVAR_TYPE_IN_LIMIT, ER_BINLOG_UNSAFE_MULTIPLE_ENGINES_AND_SELF_LOGGING_ENGINE,
      ER_BINLOG_UNSAFE_MIXED_STATEMENT, ER_INSIDE_TRANSACTION_PREVENTS_SWITCH_SQL_LOG_BIN,
      ER_STORED_FUNCTION_PREVENTS_SWITCH_SQL_LOG_BIN, ER_FAILED_READ_FROM_PAR_FILE,
      ER_VALUES_IS_NOT_INT_TYPE_ERROR, ER_ACCESS_DENIED_NO_PASSWORD_ERROR,
      ER_SET_PASSWORD_AUTH_PLUGIN]"

definition error_kinds_11 :: "ErrorKind list" where
  "error_kinds_11 =
     [ER_GRANT_PLUGIN_USER_EXISTS, ER_TRUNCATE_ILLEGAL_FK, ER_PLUGIN_IS_PERMANENT,
      ER_SLAVE_HEARTBEAT_VALUE_OUT_OF_RANGE_MIN, ER_SLAVE_HEARTBEAT_VALUE_OUT_OF_RANGE_MAX,
      ER_STMT_CACHE_FULL, ER_MULTI_UPDATE_KEY_CONFLICT, ER_TABLE_NEEDS_REBUILD,
      WARN_OPTION_BELOW_LIMIT, ER_INDEX_COLUMN_TOO_LONG, ER_ERROR_IN_TRIGGER_BODY,
      ER_ERROR_IN_UNKNOWN_TRIGGER_BODY, ER_INDEX_CORRUPT, ER_UNDO_RECORD_TOO_BIG,
      ER_BINLOG_UNSAFE_INSERT_IGNORE_SELECT, ER_BINLOG_UNSAFE_INSERT_SELECT_UPDATE,
      ER_BINLOG_UNSAFE_REPLACE_SELECT, ER_BINLOG_UNSAFE_CREATE_IGNORE_SELECT,
      ER_BINLOG_UNSAFE_CREATE_REPLACE_SELECT, ER_BINLOG_UNSAFE_UPDATE_IGNORE,
      ER_PLUGIN_NO_UNINSTALL, ER_PLUGIN_NO_INSTALL, ER_BINLOG_UNSAFE_WRITE_AUTOINC_SELECT,
      ER_BINLOG_UNSAFE_CREATE_SELECT_AUTOINC, ER_BINLOG_UNSAFE_INSERT_TWO_KEYS,
      ER_TABLE_IN_FK_CHECK, ER_UNSUPPORTED_ENGINE, ER_BINLOG_UNSAFE_AUTOINC_NOT_FIRST,
      ER_CANNOT_LOAD_FROM_TABLE_V2, ER_MASTER_DELAY_VALUE_OUT_OF_RANGE,
      ER_ONLY_FD_AND_RBR_EVENTS_ALLOWED_IN_BINLOG_STATEMENT,
      ER_PARTITION_EXCHANGE_DIFFERENT_OPTION, ER_PARTITION_EXCHANGE_PART_TABLE,
      ER_PARTITION_EXCHANGE_TEMP_TABLE, ER_PARTITION_INSTEAD_OF_SUBPARTITION,
      ER_UNKNOWN_PARTITION, ER_TABLES_DIFFERENT_METADATA, ER_ROW_DOES_NOT_MATCH_PARTITION,
      ER_BINLOG_CACHE_SIZE_GREATER_THAN_MAX, ER_WARN_INDEX_NOT_APPLICABLE,
      ER_PARTITION_EXCHANGE_FOREIGN_KEY, ER_NO_SUCH_KEY_VALUE, ER_RPL_INFO_DATA_TOO_LONG,
      ER_NETWORK_READ_EVENT_CHECKSUM_FAILURE, ER_BINLOG_READ_EVENT_CHECKSUM_FAILURE,
      ER_BINLOG_STMT_CACHE_SIZE_GREATER_THAN_MAX, ER_CANT_UPDATE_TABLE_IN_CREATE_TABLE_SELECT,
      ER_PARTITION_CLAUSE_ON_NONPARTITIONED, ER_ROW_DOES_NOT_MATCH_GIVEN_PARTITION_SET,
      ER_NO_SUCH_PARTITION_UNUSED, ER_CHANGE_RPL_INFO_REPOSITORY_FAILURE,
      ER_WARNING_NOT_COMPLETE_ROLLBACK_WITH_CREATED_TEMP_TABLE,
      ER_WARNING_NOT_COMPLETE_ROLLBACK_WITH_DROPPED_TEMP_TABLE, ER_MTS_FEATURE_IS_NOT_SUPPORTED,
      ER_MTS_UPDATED_DBS_GREATER_MAX, ER_MTS_CANT_PARALLEL, ER_MTS_INCONSISTENT_DATA,
      ER_FULLTEXT_NOT_SUPPORTED_WITH_PARTITIONING, ER_DA_INVALID_CONDITION_NUMBER,
      ER_INSECURE_PLAIN_TEXT, ER_INSECURE_CHANGE_MASTER, ER_FOREIGN_DUPLICATE_KEY_WITH_CHILD_INFO,
      ER_FOREIGN_DUPLICATE_KEY_WITHOUT_CHILD_INFO, ER_SQLTHREAD_WITH_SECURE_SLAVE,
      ER_TABLE_HAS_NO_FT, ER_VARIABLE_NOT_SETTABLE_IN_SF_OR_TRIGGER,
      ER_VARIABLE_NOT_SETTABLE_IN_TRANSACTION, ER_GTID_NEXT_IS_NOT_IN_GTID_NEXT_LIST,
      ER_CANT_CHANGE_GTID_NEXT_IN_TRANSACTION_WHEN_GTID_NEXT_LIST_IS_NULL,
      ER_SET_STATEMENT_CANNOT_INVOKE_FUNCTION]"

definition error_kinds_12 :: "ErrorKind list" where
  "error_kinds_12 =
     [ER_GTID_NEXT_CANT_BE_AUTOMATIC_IF_GTID_NEXT_LIST_IS_NON_NULL,
      ER_SKIPPING_LOGGED_TRANSACTION, ER_MALFORMED_GTID_SET_SPECIFICATION,
      ER_MALFORMED_GTID_SET_ENCODING, ER_MALFORMED_GTID_SPECIFICATION, ER_GNO_EXHAUSTED,
      ER_BAD_SLAVE_AUTO_POSITION, ER_AUTO_POSITION_REQUIRES_GTID_MODE_ON,
      ER_CANT_DO_IMPLICIT_COMMIT_IN_TRX_WHEN_GTID_NEXT_IS_SET,
      ER_GTID_MODE_2_OR_3_REQUIRES_DISABLE_GTID_UNSAFE_STATEMENTS_ON,
      ER_GTID_MODE_REQUIRES_BINLOG, ER_CANT_SET_GTID_NEXT_TO_GTID_WHEN_GTID_MODE_IS_OFF,
      ER_CANT_SET_GTID_NEXT_TO_ANONYMOUS_WHEN_GTID_MODE_IS_ON,
      ER_CANT_SET_GTID_NEXT_LIST_TO_NON_NULL_WHEN_GTID_MODE_IS_OFF,
      ER_FOUND_GTID_EVENT_WHEN_GTID_MODE_IS_OFF, ER_GTID_UNSAFE_NON_TRANSACTIONAL_TABLE,
      ER_GTID_UNSAFE_CREATE_SELECT, ER_GTID_UNSAFE_CREATE_DROP_TEMPORARY_TABLE_IN_TRANSACTION,
      ER_GTID_MODE_CAN_ONLY_CHANGE_ONE_STEP_AT_A_TIME, ER_MASTER_HAS_PURGED_REQUIRED_GTIDS,
      ER_CANT_SET_GTID_NEXT_WHEN_OWNING_GTID, ER_UNKNOWN_EXPLAIN_FORMAT,
      ER_CANT_EXECUTE_IN_READ_ONLY_TRANSACTION, ER_TOO_LONG_TABLE_PARTITION_COMMENT,
      ER_SLAVE_CONFIGURATION, ER_INNODB_FT_LIMIT, ER_INNODB_NO_FT_TEMP_TABLE,
      ER_INNODB_FT_WRONG_DOCID_COLUMN, ER_INNODB_FT_WRONG_DOCID_INDEX,
      ER_INNODB_ONLINE_LOG_TOO_BIG, ER_UNKNOWN_ALTER_ALGORITHM, ER_UNKNOWN_ALTER_LOCK,
      ER_MTS_CHANGE_MASTER_CANT_RUN_WITH_GAPS, ER_MTS_RECOVERY_FAILURE, ER_MTS_RESET_WORKERS,
      ER_COL_COUNT_DOESNT_MATCH_CORRUPTED_V2, ER_SLAVE_SILENT_RETRY_TRANSACTION,
      ER_DISCARD_FK_CHECKS_RUNNING, ER_TABLE_SCHEMA_MISMATCH, ER_TABLE_IN_SYSTEM_TABLESPACE,
      ER_IO_READ_ERROR, ER_IO_WRITE_ERROR, ER_TABLESPACE_MISSING, ER_TABLESPACE_EXISTS,
      ER_TABLESPACE_DISCARDED, ER_INTERNAL_ERROR, ER_INNODB_IMPORT_ERROR, ER_INNODB_INDEX_CORRUPT,
      ER_INVALID_YEAR_COLUMN_LENGTH, ER_NOT_VALID_PASSWORD, ER_MUST_CHANGE_PASSWORD,
      ER_FK_NO_INDEX_CHILD, ER_FK_NO_INDEX_PARENT, ER_FK_FAIL_ADD_SYSTEM,
      ER_FK_CANNOT_OPEN_PARENT, ER_FK_INCORRECT_OPTION, ER_FK_DUP_NAME, ER_PASSWORD_FORMAT,
      ER_FK_COLUMN_CANNOT_DROP, ER_FK_COLUMN_CANNOT_DROP_CHILD, ER_FK_COLUMN_NOT_NULL,
      ER_DUP_INDEX, ER_FK_COLUMN_CANNOT_CHANGE, ER_FK_COLUMN_CANNOT_CHANGE_CHILD,
      ER_FK_CANNOT_DELETE_PARENT, ER_MALFORMED_PACKET, ER_READ_ONLY_MODE,
      ER_GTID_NEXT_TYPE_UNDEFINED_GROUP, ER_VARIABLE_NOT_SETTABLE_IN_SP,
      ER_CANT_SET_GTID_PURGED_WHEN_GTID_MODE_IS_OFF]"

definition error_kinds_13 :: "ErrorKind list" where
  "error_kinds_13 =
     [ER_CANT_SET_GTID_PURGED_WHEN_GTID_EXECUTED_IS_NOT_EMPTY,
      ER_CANT_SET_GTID_PURGED_WHEN_OWNED_GTIDS_IS_NOT_EMPTY, ER_GTID_PURGED_WAS_CHANGED,
      ER_GTID_EXECUTED_WAS_CHANGED, ER_BINLOG_STMT_MODE_AND_NO_REPL_TABLES,
      ER_ALTER_OPERATION_NOT_SUPPORTED, ER_ALTER_OPERATION_NOT_SUPPORTED_REASON,
      ER_ALTER_OPERATION_NOT_SUPPORTED_REASON_COPY,
      ER_ALTER_OPERATION_NOT_SUPPORTED_REASON_PARTITION,
      ER_ALTER_OPERATION_NOT_SUPPORTED_REASON_FK_RENAME,
      ER_ALTER_OPERATION_NOT_SUPPORTED_REASON_COLUMN_TYPE,
      ER_ALTER_OPERATION_NOT_SUPPORTED_REASON_FK_CHECK,
      ER_ALTER_OPERATION_NOT_SUPPORTED_REASON_IGNORE,
      ER_ALTER_OPERATION_NOT_SUPPORTED_REASON_NOPK,
      ER_ALTER_OPERATION_NOT_SUPPORTED_REASON_AUTOINC,
      ER_ALTER_OPERATION_NOT_SUPPORTED_REASON_HIDDEN_FTS,
      ER_ALTER_OPERATION_NOT_SUPPORTED_REASON_CHANGE_FTS,
      ER_ALTER_OPERATION_NOT_SUPPORTED_REASON_FTS,
      ER_SQL_SLAVE_SKIP_COUNTER_NOT_SETTABLE_IN_GTID_MODE, ER_DUP_UNKNOWN_IN_INDEX,
      ER_IDENT_CAUSES_TOO_LONG_PATH, ER_ALTER_OPERATION_NOT_SUPPORTED_REASON_NOT_NULL,
      ER_MUST_CHANGE_PASSWORD_LOGIN, ER_ROW_IN_WRONG_PARTITION,
      ER_MTS_EVENT_BIGGER_PENDING_JOBS_SIZE_MAX, ER_INNODB_NO_FT_USES_PARSER,
      ER_BINLOG_LOGICAL_CORRUPTION, ER_WARN_PURGE_LOG_IN_USE, ER_WARN_PURGE_LOG_IS_ACTIVE,
      ER_AUTO_INCREMENT_CONFLICT, WARN_ON_BLOCKHOLE_IN_RBR, ER_SLAVE_MI_INIT_REPOSITORY,
      ER_SLAVE_RLI_INIT_REPOSITORY, ER_ACCESS_DENIED_CHANGE_USER_ERROR, ER_INNODB_READ_ONLY,
      ER_STOP_SLAVE_SQL_THREAD_TIMEOUT, ER_STOP_SLAVE_IO_THREAD_TIMEOUT, ER_TABLE_CORRUPT,
      ER_TEMP_FILE_WRITE_FAILURE, ER_INNODB_FT_AUX_NOT_HEX_ID, ER_OLD_TEMPORALS_UPGRADED,
      ER_INNODB_FORCED_RECOVERY, ER_AES_INVALID_IV, ER_PLUGIN_CANNOT_BE_UNINSTALLED,
      ER_GTID_UNSAFE_BINLOG_SPLITTABLE_STATEMENT_AND_GTID_GROUP,
      ER_SLAVE_HAS_MORE_GTIDS_THAN_MASTER]"

definition error_kinds :: "ErrorKind list" where
  "error_kinds =
     error_kinds_1 @ error_kinds_2 @ error_kinds_3 @ error_kinds_4 @
     error_kinds_5 @ error_kinds_6 @ error_kinds_7 @ error_kinds_8 @
     error_kinds_9 @ error_kinds_10 @ error_kinds_11 @ error_kinds_12 @
     error_kinds_13"

subsection \<open>\<open>From<u16>\<close>\<close>

text \<open>The arms of the match, in pieces; an unknown number panics.\<close>

definition from_arms_1 :: "(nat \<times> ErrorKind) list" where
  "from_arms_1 =
     [(1000, ER_HASHCHK), (1001, ER_NISAMCHK), (1002, ER_NO), (1003, ER_YES),
      (1004, ER_CANT_CREATE_FILE), (1005, ER_CANT_CREATE_TABLE), (1006, ER_CANT_CREATE_DB),
      (1007, ER_DB_CREATE_EXISTS), (1008, ER_DB_DROP_EXISTS), (1009, ER_DB_DROP_DELETE),
      (1010, ER_DB_DROP_RMDIR), (1011, ER_CANT_DELETE_FILE), (1012, ER_CANT_FIND_SYSTEM_REC),
      (1013, ER_CANT_GET_STAT), (1014, ER_CANT_GET_WD), (1015, ER_CANT_LOCK),
      (1016, ER_CANT_OPEN_FILE), (1017, ER_FILE_NOT_FOUND), (1018, ER_CANT_READ_DIR),
      (1019, ER_CANT_SET_WD), (1020, ER_CHECKREAD), (1021, ER_DISK_FULL), (1022, ER_DUP_KEY),
      (1023, ER_ERROR_ON_CLOSE), (1024, ER_ERROR_ON_READ), (1025, ER_ERROR_ON_RENAME),
      (1026, ER_ERROR_ON_WRITE), (1027, ER_FILE_USED), (1028, ER_FILSORT_ABORT),
      (1029, ER_FORM_NOT_FOUND), (1030, ER_GET_ERRN), (1031, ER_ILLEGAL_HA),
      (1032, ER_KEY_NOT_FOUND), (1033, ER_NOT_FORM_FILE), (1034, ER_NOT_KEYFILE),
      (1035, ER_OLD_KEYFILE), (1036, ER_OPEN_AS_READONLY), (1037, ER_OUTOFMEMORY),
      (1038, ER_OUT_OF_SORTMEMORY), (1039, ER_UNEXPECTED_EOF), (1040, ER_CON_COUNT_ERROR),
      (1041, ER_OUT_OF_RESOURCES), (1042, ER_BAD_HOST_ERROR), (1043, ER_HANDSHAKE_ERROR),
      (1044, ER_DBACCESS_DENIED_ERROR), (1045, ER_ACCESS_DENIED_ERROR), (1046, ER_NO_DB_ERROR),
      (1047, ER_UNKNOWN_COM_ERROR), (1048, ER_BAD_NULL_ERROR), (1049, ER_BAD_DB_ERROR),
      (1050, ER_TABLE_EXISTS_ERROR), (1051, ER_BAD_TABLE_ERROR), (1052, ER_NON_UNIQ_ERROR),
      (1053, ER_SERVER_SHUTDOWN), (1054, ER_BAD_FIELD_ERROR), (1055, ER_WRONG_FIELD_WITH_GROUP),
      (1056, ER_WRONG_GROUP_FIELD), (1057, ER_WRONG_SUM_SELECT), (1058, ER_WRONG_VALUE_COUNT),
      (1059, ER_TOO_LONG_IDENT), (1060, ER_DUP_FIELDNAME), (1061, ER_DUP_KEYNAME),
      (1062, ER_DUP_ENTRY), (1063, ER_WRONG_FIELD_SPEC), (1064, ER_PARSE_ERROR),
      (1065, ER_EMPTY_QUERY), (1066, ER_NONUNIQ_TABLE), (1067, ER_INVALID_DEFAULT),
      (1068, ER_MULTIPLE_PRI_KEY), (1069, ER_TOO_MANY_KEYS), (1070, ER_TOO_MANY_KEY_PARTS),
      (1071, ER_TOO_LONG_KEY), (1072, ER_KEY_COLUMN_DOES_NOT_EXITS), (1073, ER_BLOB_USED_AS_KEY),
      (1074, ER_TOO_BIG_FIELDLENGTH), (1075, ER_WRONG_AUTO_KEY), (1076, ER_READY),
      (1077, ER_NORMAL_SHUTDOWN), (1078, ER_GOT_SIGNAL), (1079, ER_SHUTDOWN_COMPLETE),
      (1080, ER_FORCING_CLOSE), (1081, ER_IPSOCK_ERROR), (1082, ER_NO_SUCH_INDEX),
      (1083, ER_WRONG_FIELD_TERMINATORS), (1084, ER_BLOBS_AND_NO_TERMINATED),
      (1085, ER_TEXTFILE_NOT_READABLE), (1086, ER_FILE_EXISTS_ERROR), (1087, ER_LOAD_INF),
      (1088, ER_ALTER_INF), (1089, ER_WRONG_SUB_KEY), (1090, ER_CANT_REMOVE_ALL_FIELDS),
      (1091, ER_CANT_DROP_FIELD_OR_KEY), (1092, ER_INSERT_INF), (1093, ER_UPDATE_TABLE_USED),
      (1094, ER_NO_SUCH_THREAD), (1095, ER_KILL_DENIED_ERROR), (1096, ER_NO_TABLES_USED),
      (1097, ER_TOO_BIG_SET), (1098, ER_NO_UNIQUE_LOGFILE), (1099, ER_TABLE_NOT_LOCKED_FOR_WRITE),
      (1100, ER_TABLE_NOT_LOCKED), (1101, ER_BLOB_CANT_HAVE_DEFAULT), (1102, ER_WRONG_DB_NAME),
      (1103, ER_WRONG_TABLE_NAME), (1104, ER_TOO_BIG_SELECT), (1105, ER_UNKNOWN_ERROR),
      (1106, ER_UNKNOWN_PROCEDURE), (1107, ER_WRONG_PARAMCOUNT_TO_PROCEDURE),
      (1108, ER_WRONG_PARAMETERS_TO_PROCEDURE), (1109, ER_UNKNOWN_TABLE),
      (1110, ER_FIELD_SPECIFIED_TWICE), (1111, ER_INVALID_GROUP_FUNC_USE),
      (1112, ER_UNSUPPORTED_EXTENSION), (1113, ER_TABLE_MUST_HAVE_COLUMNS),
      (1114, ER_RECORD_FILE_FULL), (1115, ER_UNKNOWN_CHARACTER_SET), (1116, ER_TOO_MANY_TABLES),
      (1117, ER_TOO_MANY_FIELDS), (1118, ER_TOO_BIG_ROWSIZE), (1119, ER_STACK_OVERRUN),
      (1120, ER_WRONG_OUTER_JOIN), (1121, ER_NULL_COLUMN_IN_INDEX), (1122, ER_CANT_FIND_UDF),
      (1123, ER_CANT_INITIALIZE_UDF), (1124, ER_UDF_NO_PATHS), (1125, ER_UDF_EXISTS),
      (1126, ER_CANT_OPEN_LIBRARY), (1127, ER_CANT_FIND_DL_ENTRY),
      (1128, ER_FUNCTION_NOT_DEFINED), (1129, ER_HOST_IS_BLOCKED), (1130, ER_HOST_NOT_PRIVILEGED),
      (1131, ER_PASSWORD_ANONYMOUS_USER), (1132, ER_PASSWORD_NOT_ALLOWED),
      (1133, ER_PASSWORD_NO_MATCH), (1134, ER_UPDATE_INF), (1135, ER_CANT_CREATE_THREAD),
      (1136, ER_WRONG_VALUE_COUNT_ON_ROW), (1137, ER_CANT_REOPEN_TABLE),
      (1138, ER_INVALID_USE_OF_NULL), (1139, ER_REGEXP_ERROR)]"

definition from_arms_2 :: "(nat \<times> ErrorKind) list" where
  "from_arms_2 =
     [(1140, ER_MIX_OF_GROUP_FUNC_AND_FIELDS), (1141, ER_NONEXISTING_GRANT),
      (1142, ER_TABLEACCESS_DENIED_ERROR), (1143, ER_COLUMNACCESS_DENIED_ERROR),
      (1144, ER_ILLEGAL_GRANT_FOR_TABLE), (1145, ER_GRANT_WRONG_HOST_OR_USER),
      (1146, ER_NO_SUCH_TABLE), (1147, ER_NONEXISTING_TABLE_GRANT),
      (1148, ER_NOT_ALLOWED_COMMAND), (1149, ER_SYNTAX_ERROR),
      (1150, ER_DELAYED_CANT_CHANGE_LOCK), (1151, ER_TOO_MANY_DELAYED_THREADS),
      (1152, ER_ABORTING_CONNECTION), (1153, ER_NET_PACKET_TOO_LARGE),
      (1154, ER_NET_READ_ERROR_FROM_PIPE), (1155, ER_NET_FCNTL_ERROR),
      (1156, ER_NET_PACKETS_OUT_OF_ORDER), (1157, ER_NET_UNCOMPRESS_ERROR),
      (1158, ER_NET_READ_ERROR), (1159, ER_NET_READ_INTERRUPTED), (1160, ER_NET_ERROR_ON_WRITE),
      (1161, ER_NET_WRITE_INTERRUPTED), (1162, ER_TOO_LONG_STRING),
      (1163, ER_TABLE_CANT_HANDLE_BLOB), (1164, ER_TABLE_CANT_HANDLE_AUTO_INCREMENT),
      (1165, ER_DELAYED_INSERT_TABLE_LOCKED), (1166, ER_WRONG_COLUMN_NAME),
      (1167, ER_WRONG_KEY_COLUMN), (1168, ER_WRONG_MRG_TABLE), (1169, ER_DUP_UNIQUE),
      (1170, ER_BLOB_KEY_WITHOUT_LENGTH), (1171, ER_PRIMARY_CANT_HAVE_NULL),
      (1172, ER_TOO_MANY_ROWS), (1173, ER_REQUIRES_PRIMARY_KEY), (1174, ER_NO_RAID_COMPILED),
      (1175, ER_UPDATE_WITHOUT_KEY_IN_SAFE_MODE), (1176, ER_KEY_DOES_NOT_EXITS),
      (1177, ER_CHECK_NO_SUCH_TABLE), (1178, ER_CHECK_NOT_IMPLEMENTED),
      (1179, ER_CANT_DO_THIS_DURING_AN_TRANSACTION), (1180, ER_ERROR_DURING_COMMIT),
      (1181, ER_ERROR_DURING_ROLLBACK), (1182, ER_ERROR_DURING_FLUSH_LOGS),
      (1183, ER_ERROR_DURING_CHECKPOINT), (1184, ER_NEW_ABORTING_CONNECTION),
      (1185, ER_DUMP_NOT_IMPLEMENTED), (1186, ER_FLUSH_MASTER_BINLOG_CLOSED),
      (1187, ER_INDEX_REBUILD), (1188, ER_MASTER), (1189, ER_MASTER_NET_READ),
      (1190, ER_MASTER_NET_WRITE), (1191, ER_FT_MATCHING_KEY_NOT_FOUND),
      (1192, ER_LOCK_OR_ACTIVE_TRANSACTION), (1193, ER_UNKNOWN_SYSTEM_VARIABLE),
      (1194, ER_CRASHED_ON_USAGE), (1195, ER_CRASHED_ON_REPAIR),
      (1196, ER_WARNING_NOT_COMPLETE_ROLLBACK), (1197, ER_TRANS_CACHE_FULL),
      (1198, ER_SLAVE_MUST_STOP), (1199, ER_SLAVE_NOT_RUNNING), (1200, ER_BAD_SLAVE),
      (1201, ER_MASTER_INF), (1202, ER_SLAVE_THREAD), (1203, ER_TOO_MANY_USER_CONNECTIONS),
      (1204, ER_SET_CONSTANTS_ONLY), (1205, ER_LOCK_WAIT_TIMEOUT), (1206, ER_LOCK_TABLE_FULL),
      (1207, ER_READ_ONLY_TRANSACTION), (1208, ER_DROP_DB_WITH_READ_LOCK),
      (1209, ER_CREATE_DB_WITH_READ_LOCK), (1210, ER_WRONG_ARGUMENTS),
      (1211, ER_NO_PERMISSION_TO_CREATE_USER), (1212, ER_UNION_TABLES_IN_DIFFERENT_DIR),
      (1213, ER_LOCK_DEADLOCK), (1214, ER_TABLE_CANT_HANDLE_FT), (1215, ER_CANNOT_ADD_FOREIGN),
      (1216, ER_NO_REFERENCED_ROW), (1217, ER_ROW_IS_REFERENCED), (1218, ER_CONNECT_TO_MASTER),
      (1219, ER_QUERY_ON_MASTER), (1220, ER_ERROR_WHEN_EXECUTING_COMMAND), (1221, ER_WRONG_USAGE),
      (1222, ER_WRONG_NUMBER_OF_COLUMNS_IN_SELECT), (1223, ER_CANT_UPDATE_WITH_READLOCK),
      (1224, ER_MIXING_NOT_ALLOWED), (1225, ER_DUP_ARGUMENT), (1226, ER_USER_LIMIT_REACHED),
      (1227, ER_SPECIFIC_ACCESS_DENIED_ERROR), (1228, ER_LOCAL_VARIABLE),
      (1229, ER_GLOBAL_VARIABLE), (1230, ER_NO_DEFAULT), (1231, ER_WRONG_VALUE_FOR_VAR),
      (1232, ER_WRONG_TYPE_FOR_VAR), (1233, ER_VAR_CANT_BE_READ), (1234, ER_CANT_USE_OPTION_HERE),
      (1235, ER_NOT_SUPPORTED_YET), (1236, ER_MASTER_FATAL_ERROR_READING_BINLOG),
      (1237, ER_SLAVE_IGNORED_TABLE), (1238, ER_INCORRECT_GLOBAL_LOCAL_VAR),
      (1239, ER_WRONG_FK_DEF), (1240, ER_KEY_REF_DO_NOT_MATCH_TABLE_REF),
      (1241, ER_OPERAND_COLUMNS), (1242, ER_SUBQUERY_NO_1_ROW), (1243, ER_UNKNOWN_STMT_HANDLER),
      (1244, ER_CORRUPT_HELP_DB), (1245, ER_CYCLIC_REFERENCE), (1246, ER_AUTO_CONVERT),
      (1247, ER_ILLEGAL_REFERENCE), (1248, ER_DERIVED_MUST_HAVE_ALIAS), (1249, ER_SELECT_REDUCED),
      (1250, ER_TABLENAME_NOT_ALLOWED_HERE), (1251, ER_NOT_SUPPORTED_AUTH_MODE),
      (1252, ER_SPATIAL_CANT_HAVE_NULL), (1253, ER_COLLATION_CHARSET_MISMATCH),
      (1254, ER_SLAVE_WAS_RUNNING), (1255, ER_SLAVE_WAS_NOT_RUNNING),
      (1256, ER_TOO_BIG_FOR_UNCOMPRESS), (1257, ER_ZLIB_Z_MEM_ERROR), (1258, ER_ZLIB_Z_BUF_ERROR),
      (1259, ER_ZLIB_Z_DATA_ERROR), (1260, ER_CUT_VALUE_GROUP_CONCAT),
      (1261, ER_WARN_TOO_FEW_RECORDS), (1262, ER_WARN_TOO_MANY_RECORDS),
      (1263, ER_WARN_NULL_TO_NOTNULL), (1264, ER_WARN_DATA_OUT_OF_RANGE),
      (1265, WARN_DATA_TRUNCATED), (1266, ER_WARN_USING_OTHER_HANDLER),
      (1267, ER_CANT_AGGREGATE_2COLLATIONS), (1268, ER_DROP_USER), (1269, ER_REVOKE_GRANTS),
      (1270, ER_CANT_AGGREGATE_3COLLATIONS), (1271, ER_CANT_AGGREGATE_NCOLLATIONS),
      (1272, ER_VARIABLE_IS_NOT_STRUCT), (1273, ER_UNKNOWN_COLLATION),
      (1274, ER_SLAVE_IGNORED_SSL_PARAMS), (1275, ER_SERVER_IS_IN_SECURE_AUTH_MODE),
      (1276, ER_WARN_FIELD_RESOLVED), (1277, ER_BAD_SLAVE_UNTIL_COND),
      (1278, ER_MISSING_SKIP_SLAVE), (1279, ER_UNTIL_COND_IGNORED)]"

definition from_arms_3 :: "(nat \<times> ErrorKind) list" where
  "from_arms_3 =
     [(1280, ER_WRONG_NAME_FOR_INDEX), (1281, ER_WRONG_NAME_FOR_CATALOG),
      (1282, ER_WARN_QC_RESIZE), (1283, ER_BAD_FT_COLUMN), (1284, ER_UNKNOWN_KEY_CACHE),
      (1285, ER_WARN_HOSTNAME_WONT_WORK), (1286, ER_UNKNOWN_STORAGE_ENGINE),
      (1287, ER_WARN_DEPRECATED_SYNTAX), (1288, ER_NON_UPDATABLE_TABLE),
      (1289, ER_FEATURE_DISABLED), (1290, ER_OPTION_PREVENTS_STATEMENT),
      (1291, ER_DUPLICATED_VALUE_IN_TYPE), (1292, ER_TRUNCATED_WRONG_VALUE),
      (1293, ER_TOO_MUCH_AUTO_TIMESTAMP_COLS), (1294, ER_INVALID_ON_UPDATE),
      (1295, ER_UNSUPPORTED_PS), (1296, ER_GET_ERRMSG), (1297, ER_GET_TEMPORARY_ERRMSG),
      (1298, ER_UNKNOWN_TIME_ZONE), (1299, ER_WARN_INVALID_TIMESTAMP),
      (1300, ER_INVALID_CHARACTER_STRING), (1301, ER_WARN_ALLOWED_PACKET_OVERFLOWED),
      (1302, ER_CONFLICTING_DECLARATIONS), (1303, ER_SP_NO_RECURSIVE_CREATE),
      (1304, ER_SP_ALREADY_EXISTS), (1305, ER_SP_DOES_NOT_EXIST), (1306, ER_SP_DROP_FAILED),
      (1307, ER_SP_STORE_FAILED), (1308, ER_SP_LILABEL_MISMATCH), (1309, ER_SP_LABEL_REDEFINE),
      (1310, ER_SP_LABEL_MISMATCH), (1311, ER_SP_UNINIT_VAR), (1312, ER_SP_BADSELECT),
      (1313, ER_SP_BADRETURN), (1314, ER_SP_BADSTATEMENT),
      (1315, ER_UPDATE_LOG_DEPRECATED_IGNORED), (1316, ER_UPDATE_LOG_DEPRECATED_TRANSLATED),
      (1317, ER_QUERY_INTERRUPTED), (1318, ER_SP_WRONG_NO_OF_ARGS), (1319, ER_SP_COND_MISMATCH),
      (1320, ER_SP_NORETURN), (1321, ER_SP_NORETURNEND), (1322, ER_SP_BAD_CURSOR_QUERY),
      (1323, ER_SP_BAD_CURSOR_SELECT), (1324, ER_SP_CURSOR_MISMATCH),
      (1325, ER_SP_CURSOR_ALREADY_OPEN), (1326, ER_SP_CURSOR_NOT_OPEN),
      (1327, ER_SP_UNDECLARED_VAR), (1328, ER_SP_WRONG_NO_OF_FETCH_ARGS),
      (1329, ER_SP_FETCH_NO_DATA), (1330, ER_SP_DUP_PARAM), (1331, ER_SP_DUP_VAR),
      (1332, ER_SP_DUP_COND), (1333, ER_SP_DUP_CURS), (1334, ER_SP_CANT_ALTER),
      (1335, ER_SP_SUBSELECT_NYI), (1336, ER_STMT_NOT_ALLOWED_IN_SF_OR_TRG),
      (1337, ER_SP_VARCOND_AFTER_CURSHNDLR), (1338, ER_SP_CURSOR_AFTER_HANDLER),
      (1339, ER_SP_CASE_NOT_FOUND), (1340, ER_FPARSER_TOO_BIG_FILE),
      (1341, ER_FPARSER_BAD_HEADER), (1342, ER_FPARSER_EOF_IN_COMMENT),
      (1343, ER_FPARSER_ERROR_IN_PARAMETER), (1344, ER_FPARSER_EOF_IN_UNKNOWN_PARAMETER),
      (1345, ER_VIEW_NO_EXPLAIN), (1346, ER_FRM_UNKNOWN_TYPE), (1347, ER_WRONG_OBJECT),
      (1348, ER_NONUPDATEABLE_COLUMN), (1349, ER_VIEW_SELECT_DERIVED),
      (1350, ER_VIEW_SELECT_CLAUSE), (1351, ER_VIEW_SELECT_VARIABLE),
      (1352, ER_VIEW_SELECT_TMPTABLE), (1353, ER_VIEW_WRONG_LIST), (1354, ER_WARN_VIEW_MERGE),
      (1355, ER_WARN_VIEW_WITHOUT_KEY), (1356, ER_VIEW_INVALID), (1357, ER_SP_NO_DROP_SP),
      (1358, ER_SP_GOTO_IN_HNDLR), (1359, ER_TRG_ALREADY_EXISTS), (1360, ER_TRG_DOES_NOT_EXIST),
      (1361, ER_TRG_ON_VIEW_OR_TEMP_TABLE), (1362, ER_TRG_CANT_CHANGE_ROW),
      (1363, ER_TRG_NO_SUCH_ROW_IN_TRG), (1364, ER_NO_DEFAULT_FOR_FIELD),
      (1365, ER_DIVISION_BY_ZER), (1366, ER_TRUNCATED_WRONG_VALUE_FOR_FIELD),
      (1367, ER_ILLEGAL_VALUE_FOR_TYPE), (1368, ER_VIEW_NONUPD_CHECK),
      (1369, ER_VIEW_CHECK_FAILED), (1370, ER_PROCACCESS_DENIED_ERROR), (1371, ER_RELAY_LOG_FAIL),
      (1372, ER_PASSWD_LENGTH), (1373, ER_UNKNOWN_TARGET_BINLOG),
      (1374, ER_IO_ERR_LOG_INDEX_READ), (1375, ER_BINLOG_PURGE_PROHIBITED), (1376, ER_FSEEK_FAIL),
      (1377, ER_BINLOG_PURGE_FATAL_ERR), (1378, ER_LOG_IN_USE), (1379, ER_LOG_PURGE_UNKNOWN_ERR),
      (1380, ER_RELAY_LOG_INIT), (1381, ER_NO_BINARY_LOGGING), (1382, ER_RESERVED_SYNTAX),
      (1383, ER_WSAS_FAILED), (1384, ER_DIFF_GROUPS_PROC), (1385, ER_NO_GROUP_FOR_PROC),
      (1386, ER_ORDER_WITH_PROC), (1387, ER_LOGGING_PROHIBIT_CHANGING_OF),
      (1388, ER_NO_FILE_MAPPING), (1389, ER_WRONG_MAGIC), (1390, ER_PS_MANY_PARAM),
      (1391, ER_KEY_PART_0), (1392, ER_VIEW_CHECKSUM), (1393, ER_VIEW_MULTIUPDATE),
      (1394, ER_VIEW_NO_INSERT_FIELD_LIST), (1395, ER_VIEW_DELETE_MERGE_VIEW),
      (1396, ER_CANNOT_USER), (1397, ER_XAER_NOTA), (1398, ER_XAER_INVAL), (1399, ER_XAER_RMFAIL),
      (1400, ER_XAER_OUTSIDE), (1401, ER_XAER_RMERR), (1402, ER_XA_RBROLLBACK),
      (1403, ER_NONEXISTING_PROC_GRANT), (1404, ER_PROC_AUTO_GRANT_FAIL),
      (1405, ER_PROC_AUTO_REVOKE_FAIL), (1406, ER_DATA_TOO_LONG), (1407, ER_SP_BAD_SQLSTATE),
      (1408, ER_STARTUP), (1409, ER_LOAD_FROM_FIXED_SIZE_ROWS_TO_VAR),
      (1410, ER_CANT_CREATE_USER_WITH_GRANT), (1411, ER_WRONG_VALUE_FOR_TYPE),
      (1412, ER_TABLE_DEF_CHANGED), (1413, ER_SP_DUP_HANDLER), (1414, ER_SP_NOT_VAR_ARG),
      (1415, ER_SP_NO_RETSET), (1416, ER_CANT_CREATE_GEOMETRY_OBJECT),
      (1417, ER_FAILED_ROUTINE_BREAK_BINLOG), (1418, ER_BINLOG_UNSAFE_ROUTINE),
      (1419, ER_BINLOG_CREATE_ROUTINE_NEED_SUPER)]"

definition from_arms_4 :: "(nat \<times> ErrorKind) list" where
  "from_arms_4 =
     [(1420, ER_EXEC_STMT_WITH_OPEN_CURSOR), (1421, ER_STMT_HAS_NO_OPEN_CURSOR),
      (1422, ER_COMMIT_NOT_ALLOWED_IN_SF_OR_TRG), (1423, ER_NO_DEFAULT_FOR_VIEW_FIELD),
      (1424, ER_SP_NO_RECURSION), (1425, ER_TOO_BIG_SCALE), (1426, ER_TOO_BIG_PRECISION),
      (1427, ER_M_BIGGER_THAN_D), (1428, ER_WRONG_LOCK_OF_SYSTEM_TABLE),
      (1429, ER_CONNECT_TO_FOREIGN_DATA_SOURCE), (1430, ER_QUERY_ON_FOREIGN_DATA_SOURCE),
      (1431, ER_FOREIGN_DATA_SOURCE_DOESNT_EXIST),
      (1432, ER_FOREIGN_DATA_STRING_INVALID_CANT_CREATE), (1433, ER_FOREIGN_DATA_STRING_INVALID),
      (1434, ER_CANT_CREATE_FEDERATED_TABLE), (1435, ER_TRG_IN_WRONG_SCHEMA),
      (1436, ER_STACK_OVERRUN_NEED_MORE), (1437, ER_TOO_LONG_BODY),
      (1438, ER_WARN_CANT_DROP_DEFAULT_KEYCACHE), (1439, ER_TOO_BIG_DISPLAYWIDTH),
      (1440, ER_XAER_DUPID), (1441, ER_DATETIME_FUNCTION_OVERFLOW),
      (1442, ER_CANT_UPDATE_USED_TABLE_IN_SF_OR_TRG), (1443, ER_VIEW_PREVENT_UPDATE),
      (1444, ER_PS_NO_RECURSION), (1445, ER_SP_CANT_SET_AUTOCOMMIT), (1446, ER_MALFORMED_DEFINER),
      (1447, ER_VIEW_FRM_NO_USER), (1448, ER_VIEW_OTHER_USER), (1449, ER_NO_SUCH_USER),
      (1450, ER_FORBID_SCHEMA_CHANGE), (1451, ER_ROW_IS_REFERENCED_2),
      (1452, ER_NO_REFERENCED_ROW_2), (1453, ER_SP_BAD_VAR_SHADOW), (1454, ER_TRG_NO_DEFINER),
      (1455, ER_OLD_FILE_FORMAT), (1456, ER_SP_RECURSION_LIMIT), (1457, ER_SP_PROC_TABLE_CORRUPT),
      (1458, ER_SP_WRONG_NAME), (1459, ER_TABLE_NEEDS_UPGRADE), (1460, ER_SP_NO_AGGREGATE),
      (1461, ER_MAX_PREPARED_STMT_COUNT_REACHED), (1462, ER_VIEW_RECURSIVE),
      (1463, ER_NON_GROUPING_FIELD_USED), (1464, ER_TABLE_CANT_HANDLE_SPKEYS),
      (1465, ER_NO_TRIGGERS_ON_SYSTEM_SCHEMA), (1466, ER_REMOVED_SPACES),
      (1467, ER_AUTOINC_READ_FAILED), (1468, ER_USERNAME), (1469, ER_HOSTNAME),
      (1470, ER_WRONG_STRING_LENGTH), (1471, ER_NON_INSERTABLE_TABLE),
      (1472, ER_ADMIN_WRONG_MRG_TABLE), (1473, ER_TOO_HIGH_LEVEL_OF_NESTING_FOR_SELECT),
      (1474, ER_NAME_BECOMES_EMPTY), (1475, ER_AMBIGUOUS_FIELD_TERM),
      (1476, ER_FOREIGN_SERVER_EXISTS), (1477, ER_FOREIGN_SERVER_DOESNT_EXIST),
      (1478, ER_ILLEGAL_HA_CREATE_OPTION), (1479, ER_PARTITION_REQUIRES_VALUES_ERROR),
      (1480, ER_PARTITION_WRONG_VALUES_ERROR), (1481, ER_PARTITION_MAXVALUE_ERROR),
      (1482, ER_PARTITION_SUBPARTITION_ERROR), (1483, ER_PARTITION_SUBPART_MIX_ERROR),
      (1484, ER_PARTITION_WRONG_NO_PART_ERROR), (1485, ER_PARTITION_WRONG_NO_SUBPART_ERROR),
      (1486, ER_WRONG_EXPR_IN_PARTITION_FUNC_ERROR),
      (1487, ER_NO_CONST_EXPR_IN_RANGE_OR_LIST_ERROR), (1488, ER_FIELD_NOT_FOUND_PART_ERROR),
      (1489, ER_LIST_OF_FIELDS_ONLY_IN_HASH_ERROR), (1490, ER_INCONSISTENT_PARTITION_INFO_ERROR),
      (1491, ER_PARTITION_FUNC_NOT_ALLOWED_ERROR), (1492, ER_PARTITIONS_MUST_BE_DEFINED_ERROR),
      (1493, ER_RANGE_NOT_INCREASING_ERROR), (1494, ER_INCONSISTENT_TYPE_OF_FUNCTIONS_ERROR),
      (1495, ER_MULTIPLE_DEF_CONST_IN_LIST_PART_ERROR), (1496, ER_PARTITION_ENTRY_ERROR),
      (1497, ER_MIX_HANDLER_ERROR), (1498, ER_PARTITION_NOT_DEFINED_ERROR),
      (1499, ER_TOO_MANY_PARTITIONS_ERROR), (1500, ER_SUBPARTITION_ERROR),
      (1501, ER_CANT_CREATE_HANDLER_FILE), (1502, ER_BLOB_FIELD_IN_PART_FUNC_ERROR),
      (1503, ER_UNIQUE_KEY_NEED_ALL_FIELDS_IN_PF), (1504, ER_NO_PARTS_ERROR),
      (1505, ER_PARTITION_MGMT_ON_NONPARTITIONED), (1506, ER_FOREIGN_KEY_ON_PARTITIONED),
      (1507, ER_DROP_PARTITION_NON_EXISTENT), (1508, ER_DROP_LAST_PARTITION),
      (1509, ER_COALESCE_ONLY_ON_HASH_PARTITION), (1510, ER_REORG_HASH_ONLY_ON_SAME_N),
      (1511, ER_REORG_NO_PARAM_ERROR), (1512, ER_ONLY_ON_RANGE_LIST_PARTITION),
      (1513, ER_ADD_PARTITION_SUBPART_ERROR), (1514, ER_ADD_PARTITION_NO_NEW_PARTITION),
      (1515, ER_COALESCE_PARTITION_NO_PARTITION), (1516, ER_REORG_PARTITION_NOT_EXIST),
      (1517, ER_SAME_NAME_PARTITION), (1518, ER_NO_BINLOG_ERROR),
      (1519, ER_CONSECUTIVE_REORG_PARTITIONS), (1520, ER_REORG_OUTSIDE_RANGE),
      (1521, ER_PARTITION_FUNCTION_FAILURE), (1522, ER_PART_STATE_ERROR),
      (1523, ER_LIMITED_PART_RANGE), (1524, ER_PLUGIN_IS_NOT_LOADED), (1525, ER_WRONG_VALUE),
      (1526, ER_NO_PARTITION_FOR_GIVEN_VALUE), (1527, ER_FILEGROUP_OPTION_ONLY_ONCE),
      (1528, ER_CREATE_FILEGROUP_FAILED), (1529, ER_DROP_FILEGROUP_FAILED),
      (1530, ER_TABLESPACE_AUTO_EXTEND_ERROR), (1531, ER_WRONG_SIZE_NUMBER),
      (1532, ER_SIZE_OVERFLOW_ERROR), (1533, ER_ALTER_FILEGROUP_FAILED),
      (1534, ER_BINLOG_ROW_LOGGING_FAILED), (1535, ER_BINLOG_ROW_WRONG_TABLE_DEF),
      (1536, ER_BINLOG_ROW_RBR_TO_SBR), (1537, ER_EVENT_ALREADY_EXISTS),
      (1538, ER_EVENT_STORE_FAILED), (1539, ER_EVENT_DOES_NOT_EXIST), (1540, ER_EVENT_CANT_ALTER),
      (1541, ER_EVENT_DROP_FAILED), (1542, ER_EVENT_INTERVAL_NOT_POSITIVE_OR_TOO_BIG),
      (1543, ER_EVENT_ENDS_BEFORE_STARTS), (1544, ER_EVENT_EXEC_TIME_IN_THE_PAST),
      (1545, ER_EVENT_OPEN_TABLE_FAILED), (1546, ER_EVENT_NEITHER_M_EXPR_NOR_M_AT),
      (1547, ER_COL_COUNT_DOESNT_MATCH_CORRUPTED), (1548, ER_CANNOT_LOAD_FROM_TABLE),
      (1549, ER_EVENT_CANNOT_DELETE), (1550, ER_EVENT_COMPILE_ERROR), (1551, ER_EVENT_SAME_NAME),
      (1552, ER_EVENT_DATA_TOO_LONG), (1553, ER_DROP_INDEX_FK),
      (1554, ER_WARN_DEPRECATED_SYNTAX_WITH_VER), (1555, ER_CANT_WRITE_LOCK_LOG_TABLE),
      (1556, ER_CANT_LOCK_LOG_TABLE), (1557, ER_FOREIGN_DUPLICATE_KEY),
      (1558, ER_COL_COUNT_DOESNT_MATCH_PLEASE_UPDATE),
      (1559, ER_TEMP_TABLE_PREVENTS_SWITCH_OUT_OF_RBR)]"

definition from_arms_5 :: "(nat \<times> ErrorKind) list" where
  "from_arms_5 =
     [(1560, ER_STORED_FUNCTION_PREVENTS_SWITCH_BINLOG_FORMAT),
      (1561, ER_NDB_CANT_SWITCH_BINLOG_FORMAT), (1562, ER_PARTITION_NO_TEMPORARY),
      (1563, ER_PARTITION_CONST_DOMAIN_ERROR), (1564, ER_PARTITION_FUNCTION_IS_NOT_ALLOWED),
      (1565, ER_DDL_LOG_ERROR), (1566, ER_NULL_IN_VALUES_LESS_THAN),
      (1567, ER_WRONG_PARTITION_NAME), (1568, ER_CANT_CHANGE_TX_ISOLATION),
      (1569, ER_DUP_ENTRY_AUTOINCREMENT_CASE), (1570, ER_EVENT_MODIFY_QUEUE_ERROR),
      (1571, ER_EVENT_SET_VAR_ERROR), (1572, ER_PARTITION_MERGE_ERROR),
      (1573, ER_CANT_ACTIVATE_LOG), (1574, ER_RBR_NOT_AVAILABLE), (1575, ER_BASE64_DECODE_ERROR),
      (1576, ER_EVENT_RECURSION_FORBIDDEN), (1577, ER_EVENTS_DB_ERROR),
      (1578, ER_ONLY_INTEGERS_ALLOWED), (1579, ER_UNSUPORTED_LOG_ENGINE),
      (1580, ER_BAD_LOG_STATEMENT), (1581, ER_CANT_RENAME_LOG_TABLE),
      (1582, ER_WRONG_PARAMCOUNT_TO_NATIVE_FCT), (1583, ER_WRONG_PARAMETERS_TO_NATIVE_FCT),
      (1584, ER_WRONG_PARAMETERS_TO_STORED_FCT), (1585, ER_NATIVE_FCT_NAME_COLLISION),
      (1586, ER_DUP_ENTRY_WITH_KEY_NAME), (1587, ER_BINLOG_PURGE_EMFILE),
      (1588, ER_EVENT_CANNOT_CREATE_IN_THE_PAST), (1589, ER_EVENT_CANNOT_ALTER_IN_THE_PAST),
      (1590, ER_SLAVE_INCIDENT), (1591, ER_NO_PARTITION_FOR_GIVEN_VALUE_SILENT),
      (1592, ER_BINLOG_UNSAFE_STATEMENT), (1593, ER_SLAVE_FATAL_ERROR),
      (1594, ER_SLAVE_RELAY_LOG_READ_FAILURE), (1595, ER_SLAVE_RELAY_LOG_WRITE_FAILURE),
      (1596, ER_SLAVE_CREATE_EVENT_FAILURE), (1597, ER_SLAVE_MASTER_COM_FAILURE),
      (1598, ER_BINLOG_LOGGING_IMPOSSIBLE), (1599, ER_VIEW_NO_CREATION_CTX),
      (1600, ER_VIEW_INVALID_CREATION_CTX), (1601, ER_SR_INVALID_CREATION_CTX),
      (1602, ER_TRG_CORRUPTED_FILE), (1603, ER_TRG_NO_CREATION_CTX),
      (1604, ER_TRG_INVALID_CREATION_CTX), (1605, ER_EVENT_INVALID_CREATION_CTX),
      (1606, ER_TRG_CANT_OPEN_TABLE), (1607, ER_CANT_CREATE_SROUTINE), (1608, ER_UNUSED_11),
      (1609, ER_NO_FORMAT_DESCRIPTION_EVENT_BEFORE_BINLOG_STATEMENT),
      (1610, ER_SLAVE_CORRUPT_EVENT), (1611, ER_LOAD_DATA_INVALID_COLUMN),
      (1612, ER_LOG_PURGE_NO_FILE), (1613, ER_XA_RBTIMEOUT), (1614, ER_XA_RBDEADLOCK),
      (1615, ER_NEED_REPREPARE), (1616, ER_DELAYED_NOT_SUPPORTED), (1617, WARN_NO_MASTER_INF),
      (1618, WARN_OPTION_IGNORED), (1619, WARN_PLUGIN_DELETE_BUILTIN), (1620, WARN_PLUGIN_BUSY),
      (1621, ER_VARIABLE_IS_READONLY), (1622, ER_WARN_ENGINE_TRANSACTION_ROLLBACK),
      (1623, ER_SLAVE_HEARTBEAT_FAILURE), (1624, ER_SLAVE_HEARTBEAT_VALUE_OUT_OF_RANGE),
      (1625, ER_NDB_REPLICATION_SCHEMA_ERROR), (1626, ER_CONFLICT_FN_PARSE_ERROR),
      (1627, ER_EXCEPTIONS_WRITE_ERROR), (1628, ER_TOO_LONG_TABLE_COMMENT),
      (1629, ER_TOO_LONG_FIELD_COMMENT), (1630, ER_FUNC_INEXISTENT_NAME_COLLISION),
      (1631, ER_DATABASE_NAME), (1632, ER_TABLE_NAME), (1633, ER_PARTITION_NAME),
      (1634, ER_SUBPARTITION_NAME), (1635, ER_TEMPORARY_NAME), (1636, ER_RENAMED_NAME),
      (1637, ER_TOO_MANY_CONCURRENT_TRXS), (1638, WARN_NON_ASCII_SEPARATOR_NOT_IMPLEMENTED),
      (1639, ER_DEBUG_SYNC_TIMEOUT), (1640, ER_DEBUG_SYNC_HIT_LIMIT), (1641, ER_DUP_SIGNAL_SET),
      (1642, ER_SIGNAL_WARN), (1643, ER_SIGNAL_NOT_FOUND), (1644, ER_SIGNAL_EXCEPTION),
      (1645, ER_RESIGNAL_WITHOUT_ACTIVE_HANDLER), (1646, ER_SIGNAL_BAD_CONDITION_TYPE),
      (1647, WARN_COND_ITEM_TRUNCATED), (1648, ER_COND_ITEM_TOO_LONG), (1649, ER_UNKNOWN_LOCALE),
      (1650, ER_SLAVE_IGNORE_SERVER_IDS), (1651, ER_QUERY_CACHE_DISABLED),
      (1652, ER_SAME_NAME_PARTITION_FIELD), (1653, ER_PARTITION_COLUMN_LIST_ERROR),
      (1654, ER_WRONG_TYPE_COLUMN_VALUE_ERROR), (1655, ER_TOO_MANY_PARTITION_FUNC_FIELDS_ERROR),
      (1656, ER_MAXVALUE_IN_VALUES_IN), (1657, ER_TOO_MANY_VALUES_ERROR),
      (1658, ER_ROW_SINGLE_PARTITION_FIELD_ERROR),
      (1659, ER_FIELD_TYPE_NOT_ALLOWED_AS_PARTITION_FIELD), (1660, ER_PARTITION_FIELDS_TOO_LONG),
      (1661, ER_BINLOG_ROW_ENGINE_AND_STMT_ENGINE), (1662, ER_BINLOG_ROW_MODE_AND_STMT_ENGINE),
      (1663, ER_BINLOG_UNSAFE_AND_STMT_ENGINE), (1664, ER_BINLOG_ROW_INJECTION_AND_STMT_ENGINE),
      (1665, ER_BINLOG_STMT_MODE_AND_ROW_ENGINE), (1666, ER_BINLOG_ROW_INJECTION_AND_STMT_MODE),
      (1667, ER_BINLOG_MULTIPLE_ENGINES_AND_SELF_LOGGING_ENGINE), (1668, ER_BINLOG_UNSAFE_LIMIT),
      (1669, ER_BINLOG_UNSAFE_INSERT_DELAYED), (1670, ER_BINLOG_UNSAFE_SYSTEM_TABLE),
      (1671, ER_BINLOG_UNSAFE_AUTOINC_COLUMNS), (1672, ER_BINLOG_UNSAFE_UDF),
      (1673, ER_BINLOG_UNSAFE_SYSTEM_VARIABLE), (1674, ER_BINLOG_UNSAFE_SYSTEM_FUNCTION),
      (1675, ER_BINLOG_UNSAFE_NONTRANS_AFTER_TRANS), (1676, ER_MESSAGE_AND_STATEMENT),
      (1677, ER_SLAVE_CONVERSION_FAILED), (1678, ER_SLAVE_CANT_CREATE_CONVERSION),
      (1679, ER_INSIDE_TRANSACTION_PREVENTS_SWITCH_BINLOG_FORMAT), (1680, ER_PATH_LENGTH),
      (1681, ER_WARN_DEPRECATED_SYNTAX_NO_REPLACEMENT), (1682, ER_WRONG_NATIVE_TABLE_STRUCTURE),
      (1683, ER_WRONG_PERFSCHEMA_USAGE), (1684, ER_WARN_I_S_SKIPPED_TABLE),
      (1685, ER_INSIDE_TRANSACTION_PREVENTS_SWITCH_BINLOG_DIRECT),
      (1686, ER_STORED_FUNCTION_PREVENTS_SWITCH_BINLOG_DIRECT),
      (1687, ER_SPATIAL_MUST_HAVE_GEOM_COL), (1688, ER_TOO_LONG_INDEX_COMMENT),
      (1689, ER_LOCK_ABORTED), (1690, ER_DATA_OUT_OF_RANGE), (1691, ER_WRONG_SPVAR_TYPE_IN_LIMIT),
      (1692, ER_BINLOG_UNSAFE_MULTIPLE_ENGINES_AND_SELF_LOGGING_ENGINE),
      (1693, ER_BINLOG_UNSAFE_MIXED_STATEMENT),
      (1694, ER_INSIDE_TRANSACTION_PREVENTS_SWITCH_SQL_LOG_BIN),
      (1695, ER_STORED_FUNCTION_PREVENTS_SWITCH_SQL_LOG_BIN),
      (1696, ER_FAILED_READ_FROM_PAR_FILE), (1697, ER_VALUES_IS_NOT_INT_TYPE_ERROR),
      (1698, ER_ACCESS_DENIED_NO_PASSWORD_ERROR), (1699, ER_SET_PASSWORD_AUTH_PLUGIN)]"

definition from_arms_6 :: "(nat \<times> ErrorKind) list" where
  "from_arms_6 =
     [(1700, ER_GRANT_PLUGIN_USER_EXISTS), (1701, ER_TRUNCATE_ILLEGAL_FK),
      (1702, ER_PLUGIN_IS_PERMANENT), (1703, ER_SLAVE_HEARTBEAT_VALUE_OUT_OF_RANGE_MIN),
      (1704, ER_SLAVE_HEARTBEAT_VALUE_OUT_OF_RANGE_MAX), (1705, ER_STMT_CACHE_FULL),
      (1706, ER_MULTI_UPDATE_KEY_CONFLICT), (1707, ER_TABLE_NEEDS_REBUILD),
      (1708, WARN_OPTION_BELOW_LIMIT), (1709, ER_INDEX_COLUMN_TOO_LONG),
      (1710, ER_ERROR_IN_TRIGGER_BODY), (1711, ER_ERROR_IN_UNKNOWN_TRIGGER_BODY),
      (1712, ER_INDEX_CORRUPT), (1713, ER_UNDO_RECORD_TOO_BIG),
      (1714, ER_BINLOG_UNSAFE_INSERT_IGNORE_SELECT),
      (1715, ER_BINLOG_UNSAFE_INSERT_SELECT_UPDATE), (1716, ER_BINLOG_UNSAFE_REPLACE_SELECT),
      (1717, ER_BINLOG_UNSAFE_CREATE_IGNORE_SELECT),
      (1718, ER_BINLOG_UNSAFE_CREATE_REPLACE_SELECT), (1719, ER_BINLOG_UNSAFE_UPDATE_IGNORE),
      (1720, ER_PLUGIN_NO_UNINSTALL), (1721, ER_PLUGIN_NO_INSTALL),
      (1722, ER_BINLOG_UNSAFE_WRITE_AUTOINC_SELECT),
      (1723, ER_BINLOG_UNSAFE_CREATE_SELECT_AUTOINC), (1724, ER_BINLOG_UNSAFE_INSERT_TWO_KEYS),
      (1725, ER_TABLE_IN_FK_CHECK), (1726, ER_UNSUPPORTED_ENGINE),
      (1727, ER_BINLOG_UNSAFE_AUTOINC_NOT_FIRST), (1728, ER_CANNOT_LOAD_FROM_TABLE_V2),
      (1729, ER_MASTER_DELAY_VALUE_OUT_OF_RANGE),
      (1730, ER_ONLY_FD_AND_RBR_EVENTS_ALLOWED_IN_BINLOG_STATEMENT),
      (1731, ER_PARTITION_EXCHANGE_DIFFERENT_OPTION), (1732, ER_PARTITION_EXCHANGE_PART_TABLE),
      (1733, ER_PARTITION_EXCHANGE_TEMP_TABLE), (1734, ER_PARTITION_INSTEAD_OF_SUBPARTITION),
      (1735, ER_UNKNOWN_PARTITION), (1736, ER_TABLES_DIFFERENT_METADATA),
      (1737, ER_ROW_DOES_NOT_MATCH_PARTITION), (1738, ER_BINLOG_CACHE_SIZE_GREATER_THAN_MAX),
      (1739, ER_WARN_INDEX_NOT_APPLICABLE), (1740, ER_PARTITION_EXCHANGE_FOREIGN_KEY),
      (1741, ER_NO_SUCH_KEY_VALUE), (1742, ER_RPL_INFO_DATA_TOO_LONG),
      (1743, ER_NETWORK_READ_EVENT_CHECKSUM_FAILURE),
      (1744, ER_BINLOG_READ_EVENT_CHECKSUM_FAILURE),
      (1745, ER_BINLOG_STMT_CACHE_SIZE_GREATER_THAN_MAX),
      (1746, ER_CANT_UPDATE_TABLE_IN_CREATE_TABLE_SELECT),
      (1747, ER_PARTITION_CLAUSE_ON_NONPARTITIONED),
      (1748, ER_ROW_DOES_NOT_MATCH_GIVEN_PARTITION_SET), (1749, ER_NO_SUCH_PARTITION_UNUSED),
      (1750, ER_CHANGE_RPL_INFO_REPOSITORY_FAILURE),
      (1751, ER_WARNING_NOT_COMPLETE_ROLLBACK_WITH_CREATED_TEMP_TABLE),
      (1752, ER_WARNING_NOT_COMPLETE_ROLLBACK_WITH_DROPPED_TEMP_TABLE),
      (1753, ER_MTS_FEATURE_IS_NOT_SUPPORTED), (1754, ER_MTS_UPDATED_DBS_GREATER_MAX),
      (1755, ER_MTS_CANT_PARALLEL), (1756, ER_MTS_INCONSISTENT_DATA),
      (1757, ER_FULLTEXT_NOT_SUPPORTED_WITH_PARTITIONING), (1758, ER_DA_INVALID_CONDITION_NUMBER),
      (1759, ER_INSECURE_PLAIN_TEXT), (1760, ER_INSECURE_CHANGE_MASTER),
      (1761, ER_FOREIGN_DUPLICATE_KEY_WITH_CHILD_INFO),
      (1762, ER_FOREIGN_DUPLICATE_KEY_WITHOUT_CHILD_INFO), (1763, ER_SQLTHREAD_WITH_SECURE_SLAVE),
      (1764, ER_TABLE_HAS_NO_FT), (1765, ER_VARIABLE_NOT_SETTABLE_IN_SF_OR_TRIGGER),
      (1766, ER_VARIABLE_NOT_SETTABLE_IN_TRANSACTION),
      (1767, ER_GTID_NEXT_IS_NOT_IN_GTID_NEXT_LIST),
      (1768, ER_CANT_CHANGE_GTID_NEXT_IN_TRANSACTION_WHEN_GTID_NEXT_LIST_IS_NULL),
      (1769, ER_SET_STATEMENT_CANNOT_INVOKE_FUNCTION),
      (1770, ER_GTID_NEXT_CANT_BE_AUTOMATIC_IF_GTID_NEXT_LIST_IS_NON_NULL),
      (1771, ER_SKIPPING_LOGGED_TRANSACTION), (1772, ER_MALFORMED_GTID_SET_SPECIFICATION),
      (1773, ER_MALFORMED_GTID_SET_ENCODING), (1774, ER_MALFORMED_GTID_SPECIFICATION),
      (1775, ER_GNO_EXHAUSTED), (1776, ER_BAD_SLAVE_AUTO_POSITION),
      (1777, ER_AUTO_POSITION_REQUIRES_GTID_MODE_ON),
      (1778, ER_CANT_DO_IMPLICIT_COMMIT_IN_TRX_WHEN_GTID_NEXT_IS_SET),
      (1779, ER_GTID_MODE_2_OR_3_REQUIRES_DISABLE_GTID_UNSAFE_STATEMENTS_ON),
      (1780, ER_GTID_MODE_REQUIRES_BINLOG),
      (1781, ER_CANT_SET_GTID_NEXT_TO_GTID_WHEN_GTID_MODE_IS_OFF),
      (1782, ER_CANT_SET_GTID_NEXT_TO_ANONYMOUS_WHEN_GTID_MODE_IS_ON),
      (1783, ER_CANT_SET_GTID_NEXT_LIST_TO_NON_NULL_WHEN_GTID_MODE_IS_OFF),
      (1784, ER_FOUND_GTID_EVENT_WHEN_GTID_MODE_IS_OFF),
      (1785, ER_GTID_UNSAFE_NON_TRANSACTIONAL_TABLE), (1786, ER_GTID_UNSAFE_CREATE_SELECT),
      (1787, ER_GTID_UNSAFE_CREATE_DROP_TEMPORARY_TABLE_IN_TRANSACTION),
      (1788, ER_GTID_MODE_CAN_ONLY_CHANGE_ONE_STEP_AT_A_TIME),
      (1789, ER_MASTER_HAS_PURGED_REQUIRED_GTIDS), (1790, ER_CANT_SET_GTID_NEXT_WHEN_OWNING_GTID),
      (1791, ER_UNKNOWN_EXPLAIN_FORMAT), (1792, ER_CANT_EXECUTE_IN_READ_ONLY_TRANSACTION),
      (1793, ER_TOO_LONG_TABLE_PARTITION_COMMENT), (1794, ER_SLAVE_CONFIGURATION),
      (1795, ER_INNODB_FT_LIMIT), (1796, ER_INNODB_NO_FT_TEMP_TABLE),
      (1797, ER_INNODB_FT_WRONG_DOCID_COLUMN), (1798, ER_INNODB_FT_WRONG_DOCID_INDEX),
      (1799, ER_INNODB_ONLINE_LOG_TOO_BIG), (1800, ER_UNKNOWN_ALTER_ALGORITHM),
      (1801, ER_UNKNOWN_ALTER_LOCK), (1802, ER_MTS_CHANGE_MASTER_CANT_RUN_WITH_GAPS),
      (1803, ER_MTS_RECOVERY_FAILURE), (1804, ER_MTS_RESET_WORKERS),
      (1805, ER_COL_COUNT_DOESNT_MATCH_CORRUPTED_V2), (1806, ER_SLAVE_SILENT_RETRY_TRANSACTION),
      (1807, ER_DISCARD_FK_CHECKS_RUNNING), (1808, ER_TABLE_SCHEMA_MISMATCH),
      (1809, ER_TABLE_IN_SYSTEM_TABLESPACE), (1810, ER_IO_READ_ERROR), (1811, ER_IO_WRITE_ERROR),
      (1812, ER_TABLESPACE_MISSING), (1813, ER_TABLESPACE_EXISTS),
      (1814, ER_TABLESPACE_DISCARDED), (1815, ER_INTERNAL_ERROR), (1816, ER_INNODB_IMPORT_ERROR),
      (1817, ER_INNODB_INDEX_CORRUPT), (1818, ER_INVALID_YEAR_COLUMN_LENGTH),
      (1819, ER_NOT_VALID_PASSWORD), (1820, ER_MUST_CHANGE_PASSWORD),
      (1821, ER_FK_NO_INDEX_CHILD), (1822, ER_FK_NO_INDEX_PARENT), (1823, ER_FK_FAIL_ADD_SYSTEM),
      (1824, ER_FK_CANNOT_OPEN_PARENT), (1825, ER_FK_INCORRECT_OPTION), (1826, ER_FK_DUP_NAME),
      (1827, ER_PASSWORD_FORMAT), (1828, ER_FK_COLUMN_CANNOT_DROP),
      (1829, ER_FK_COLUMN_CANNOT_DROP_CHILD), (1830, ER_FK_COLUMN_NOT_NULL), (1831, ER_DUP_INDEX),
      (1832, ER_FK_COLUMN_CANNOT_CHANGE), (1833, ER_FK_COLUMN_CANNOT_CHANGE_CHILD),
      (1834, ER_FK_CANNOT_DELETE_PARENT), (1835, ER_MALFORMED_PACKET), (1836, ER_READ_ONLY_MODE),
      (1837, ER_GTID_NEXT_TYPE_UNDEFINED_GROUP), (1838, ER_VARIABLE_NOT_SETTABLE_IN_SP),
      (1839, ER_CANT_SET_GTID_PURGED_WHEN_GTID_MODE_IS_OFF)]"

definition from_arms_7 :: "(nat \<times> ErrorKind) list" where
  "from_arms_7 =
     [(1840, ER_CANT_SET_GTID_PURGED_WHEN_GTID_EXECUTED_IS_NOT_EMPTY),
      (1841, ER_CANT_SET_GTID_PURGED_WHEN_OWNED_GTIDS_IS_NOT_EMPTY),
      (1842, ER_GTID_PURGED_WAS_CHANGED), (1843, ER_GTID_EXECUTED_WAS_CHANGED),
      (1844, ER_BINLOG_STMT_MODE_AND_NO_REPL_TABLES), (1845, ER_ALTER_OPERATION_NOT_SUPPORTED),
      (1846, ER_ALTER_OPERATION_NOT_SUPPORTED_REASON),
      (1847, ER_ALTER_OPERATION_NOT_SUPPORTED_REASON_COPY),
      (1848, ER_ALTER_OPERATION_NOT_SUPPORTED_REASON_PARTITION),
      (1849, ER_ALTER_OPERATION_NOT_SUPPORTED_REASON_FK_RENAME),
      (1850, ER_ALTER_OPERATION_NOT_SUPPORTED_REASON_COLUMN_TYPE),
      (1851, ER_ALTER_OPERATION_NOT_SUPPORTED_REASON_FK_CHECK),
      (1852, ER_ALTER_OPERATION_NOT_SUPPORTED_REASON_IGNORE),
      (1853, ER_ALTER_OPERATION_NOT_SUPPORTED_REASON_NOPK),
      (1854, ER_ALTER_OPERATION_NOT_SUPPORTED_REASON_AUTOINC),
      (1855, ER_ALTER_OPERATION_NOT_SUPPORTED_REASON_HIDDEN_FTS),
      (1856, ER_ALTER_OPERATION_NOT_SUPPORTED_REASON_CHANGE_FTS),
      (1857, ER_ALTER_OPERATION_NOT_SUPPORTED_REASON_FTS),
      (1858, ER_SQL_SLAVE_SKIP_COUNTER_NOT_SETTABLE_IN_GTID_MODE),
      (1859, ER_DUP_UNKNOWN_IN_INDEX), (1860, ER_IDENT_CAUSES_TOO_LONG_PATH),
      (1861, ER_ALTER_OPERATION_NOT_SUPPORTED_REASON_NOT_NULL),
      (1862, ER_MUST_CHANGE_PASSWORD_LOGIN), (1863, ER_ROW_IN_WRONG_PARTITION),
      (1864, ER_MTS_EVENT_BIGGER_PENDING_JOBS_SIZE_MAX), (1865, ER_INNODB_NO_FT_USES_PARSER),
      (1866, ER_BINLOG_LOGICAL_CORRUPTION), (1867, ER_WARN_PURGE_LOG_IN_USE),
      (1868, ER_WARN_PURGE_LOG_IS_ACTIVE), (1869, ER_AUTO_INCREMENT_CONFLICT),
      (1870, WARN_ON_BLOCKHOLE_IN_RBR), (1871, ER_SLAVE_MI_INIT_REPOSITORY),
      (1872, ER_SLAVE_RLI_INIT_REPOSITORY), (1873, ER_ACCESS_DENIED_CHANGE_USER_ERROR),
      (1874, ER_INNODB_READ_ONLY), (1875, ER_STOP_SLAVE_SQL_THREAD_TIMEOUT),
      (1876, ER_STOP_SLAVE_IO_THREAD_TIMEOUT), (1877, ER_TABLE_CORRUPT),
      (1878, ER_TEMP_FILE_WRITE_FAILURE), (1879, ER_INNODB_FT_AUX_NOT_HEX_ID),
      (1880, ER_OLD_TEMPORALS_UPGRADED), (1881, ER_INNODB_FORCED_RECOVERY),
      (1882, ER_AES_INVALID_IV), (1883, ER_PLUGIN_CANNOT_BE_UNINSTALLED),
      (1884, ER_GTID_UNSAFE_BINLOG_SPLITTABLE_STATEMENT_AND_GTID_GROUP),
      (1885, ER_SLAVE_HAS_MORE_GTIDS_THAN_MASTER)]"

definition from_arms :: "(nat \<times> ErrorKind) list" where
  "from_arms = from_arms_1 @ from_arms_2 @ from_arms_3 @ from_arms_4 @ from_arms_5 @ from_arms_6 @ from_arms_7"

definition error_kind_from :: "u16 \<Rightarrow> ErrorKind result" where
  "error_kind_from x = unwrap_opt (map_of from_arms (unat x))"

subsection \<open>SQLSTATE\<close>

text \<open>The arms of \<open>sqlstate\<close> in source order; the \<open>HY000\<close> arm in pieces.\<close>

definition hy000_1 :: "ErrorKind list" where
  "hy000_1 =
     [ER_HASHCHK, ER_NISAMCHK, ER_NO, ER_YES, ER_CANT_CREATE_FILE, ER_CANT_CREATE_TABLE,
      ER_CANT_CREATE_DB, ER_DB_CREATE_EXISTS, ER_DB_DROP_EXISTS, ER_DB_DROP_DELETE,
      ER_DB_DROP_RMDIR, ER_CANT_DELETE_FILE, ER_CANT_FIND_SYSTEM_REC, ER_CANT_GET_STAT,
      ER_CANT_GET_WD, ER_CANT_LOCK, ER_CANT_OPEN_FILE, ER_FILE_NOT_FOUND, ER_CANT_READ_DIR,
      ER_CANT_SET_WD, ER_CHECKREAD, ER_DISK_FULL, ER_ERROR_ON_CLOSE, ER_ERROR_ON_READ,
      ER_ERROR_ON_RENAME, ER_ERROR_ON_WRITE, ER_FILE_USED, ER_FILSORT_ABORT, ER_FORM_NOT_FOUND,
      ER_GET_ERRN, ER_ILLEGAL_HA, ER_KEY_NOT_FOUND, ER_NOT_FORM_FILE, ER_NOT_KEYFILE,
      ER_OLD_KEYFILE, ER_OPEN_AS_READONLY, ER_UNEXPECTED_EOF, ER_OUT_OF_RESOURCES, ER_READY,
      ER_NORMAL_SHUTDOWN, ER_GOT_SIGNAL, ER_SHUTDOWN_COMPLETE, ER_TEXTFILE_NOT_READABLE,
      ER_FILE_EXISTS_ERROR, ER_LOAD_INF, ER_ALTER_INF, ER_WRONG_SUB_KEY, ER_INSERT_INF,
      ER_UPDATE_TABLE_USED, ER_NO_SUCH_THREAD, ER_KILL_DENIED_ERROR, ER_NO_TABLES_USED,
      ER_TOO_BIG_SET, ER_NO_UNIQUE_LOGFILE, ER_TABLE_NOT_LOCKED_FOR_WRITE, ER_TABLE_NOT_LOCKED,
      ER_UNKNOWN_ERROR, ER_WRONG_PARAMETERS_TO_PROCEDURE, ER_INVALID_GROUP_FUNC_USE,
      ER_RECORD_FILE_FULL, ER_TOO_MANY_TABLES, ER_TOO_MANY_FIELDS, ER_STACK_OVERRUN,
      ER_CANT_FIND_UDF, ER_CANT_INITIALIZE_UDF, ER_UDF_NO_PATHS, ER_UDF_EXISTS,
      ER_CANT_OPEN_LIBRARY, ER_CANT_FIND_DL_ENTRY, ER_FUNCTION_NOT_DEFINED, ER_HOST_IS_BLOCKED,
      ER_HOST_NOT_PRIVILEGED, ER_UPDATE_INF, ER_CANT_CREATE_THREAD, ER_CANT_REOPEN_TABLE,
      ER_DELAYED_CANT_CHANGE_LOCK, ER_TOO_MANY_DELAYED_THREADS, ER_DELAYED_INSERT_TABLE_LOCKED,
      ER_WRONG_MRG_TABLE, ER_NO_RAID_COMPILED, ER_UPDATE_WITHOUT_KEY_IN_SAFE_MODE,
      ER_ERROR_DURING_COMMIT, ER_ERROR_DURING_ROLLBACK, ER_ERROR_DURING_FLUSH_LOGS,
      ER_ERROR_DURING_CHECKPOINT, ER_DUMP_NOT_IMPLEMENTED, ER_FLUSH_MASTER_BINLOG_CLOSED,
      ER_INDEX_REBUILD, ER_MASTER, ER_FT_MATCHING_KEY_NOT_FOUND, ER_LOCK_OR_ACTIVE_TRANSACTION,
      ER_UNKNOWN_SYSTEM_VARIABLE, ER_CRASHED_ON_USAGE, ER_CRASHED_ON_REPAIR,
      ER_WARNING_NOT_COMPLETE_ROLLBACK, ER_TRANS_CACHE_FULL, ER_SLAVE_MUST_STOP,
      ER_SLAVE_NOT_RUNNING, ER_BAD_SLAVE, ER_MASTER_INF, ER_SLAVE_THREAD, ER_SET_CONSTANTS_ONLY,
      ER_LOCK_WAIT_TIMEOUT, ER_LOCK_TABLE_FULL, ER_DROP_DB_WITH_READ_LOCK,
      ER_CREATE_DB_WITH_READ_LOCK, ER_WRONG_ARGUMENTS, ER_UNION_TABLES_IN_DIFFERENT_DIR,
      ER_TABLE_CANT_HANDLE_FT, ER_CANNOT_ADD_FOREIGN, ER_QUERY_ON_MASTER,
      ER_ERROR_WHEN_EXECUTING_COMMAND, ER_WRONG_USAGE, ER_CANT_UPDATE_WITH_READLOCK,
      ER_MIXING_NOT_ALLOWED, ER_DUP_ARGUMENT, ER_LOCAL_VARIABLE, ER_GLOBAL_VARIABLE,
      ER_VAR_CANT_BE_READ, ER_MASTER_FATAL_ERROR_READING_BINLOG, ER_SLAVE_IGNORED_TABLE,
      ER_INCORRECT_GLOBAL_LOCAL_VAR, ER_KEY_REF_DO_NOT_MATCH_TABLE_REF, ER_UNKNOWN_STMT_HANDLER,
      ER_CORRUPT_HELP_DB, ER_CYCLIC_REFERENCE, ER_AUTO_CONVERT, ER_SLAVE_WAS_RUNNING,
      ER_SLAVE_WAS_NOT_RUNNING, ER_TOO_BIG_FOR_UNCOMPRESS, ER_ZLIB_Z_MEM_ERROR,
      ER_ZLIB_Z_BUF_ERROR, ER_ZLIB_Z_DATA_ERROR, ER_CUT_VALUE_GROUP_CONCAT,
      ER_WARN_USING_OTHER_HANDLER, ER_CANT_AGGREGATE_2COLLATIONS, ER_DROP_USER, ER_REVOKE_GRANTS,
      ER_CANT_AGGREGATE_3COLLATIONS, ER_CANT_AGGREGATE_NCOLLATIONS]"

definition hy000_2 :: "ErrorKind list" where
  "hy000_2 =
     [ER_VARIABLE_IS_NOT_STRUCT, ER_UNKNOWN_COLLATION, ER_SLAVE_IGNORED_SSL_PARAMS,
      ER_SERVER_IS_IN_SECURE_AUTH_MODE, ER_WARN_FIELD_RESOLVED, ER_BAD_SLAVE_UNTIL_COND,
      ER_MISSING_SKIP_SLAVE, ER_UNTIL_COND_IGNORED, ER_WARN_QC_RESIZE, ER_BAD_FT_COLUMN,
      ER_UNKNOWN_KEY_CACHE, ER_WARN_HOSTNAME_WONT_WORK, ER_WARN_DEPRECATED_SYNTAX,
      ER_NON_UPDATABLE_TABLE, ER_FEATURE_DISABLED, ER_OPTION_PREVENTS_STATEMENT,
      ER_DUPLICATED_VALUE_IN_TYPE, ER_TOO_MUCH_AUTO_TIMESTAMP_COLS, ER_INVALID_ON_UPDATE,
      ER_UNSUPPORTED_PS, ER_GET_ERRMSG, ER_GET_TEMPORARY_ERRMSG, ER_UNKNOWN_TIME_ZONE,
      ER_WARN_INVALID_TIMESTAMP, ER_INVALID_CHARACTER_STRING, ER_WARN_ALLOWED_PACKET_OVERFLOWED,
      ER_CONFLICTING_DECLARATIONS, ER_SP_DROP_FAILED, ER_SP_STORE_FAILED,
      ER_SP_WRONG_NO_OF_FETCH_ARGS, ER_SP_CANT_ALTER, ER_FPARSER_TOO_BIG_FILE,
      ER_FPARSER_BAD_HEADER, ER_FPARSER_EOF_IN_COMMENT, ER_FPARSER_ERROR_IN_PARAMETER,
      ER_FPARSER_EOF_IN_UNKNOWN_PARAMETER, ER_VIEW_NO_EXPLAIN, ER_FRM_UNKNOWN_TYPE,
      ER_WRONG_OBJECT, ER_NONUPDATEABLE_COLUMN, ER_VIEW_SELECT_DERIVED, ER_VIEW_SELECT_CLAUSE,
      ER_VIEW_SELECT_VARIABLE, ER_VIEW_SELECT_TMPTABLE, ER_VIEW_WRONG_LIST, ER_WARN_VIEW_MERGE,
      ER_WARN_VIEW_WITHOUT_KEY, ER_VIEW_INVALID, ER_SP_NO_DROP_SP, ER_SP_GOTO_IN_HNDLR,
      ER_TRG_ALREADY_EXISTS, ER_TRG_DOES_NOT_EXIST, ER_TRG_ON_VIEW_OR_TEMP_TABLE,
      ER_TRG_CANT_CHANGE_ROW, ER_TRG_NO_SUCH_ROW_IN_TRG, ER_NO_DEFAULT_FOR_FIELD,
      ER_TRUNCATED_WRONG_VALUE_FOR_FIELD, ER_VIEW_NONUPD_CHECK, ER_VIEW_CHECK_FAILED,
      ER_RELAY_LOG_FAIL, ER_PASSWD_LENGTH, ER_UNKNOWN_TARGET_BINLOG, ER_IO_ERR_LOG_INDEX_READ,
      ER_BINLOG_PURGE_PROHIBITED, ER_FSEEK_FAIL, ER_BINLOG_PURGE_FATAL_ERR, ER_LOG_IN_USE,
      ER_LOG_PURGE_UNKNOWN_ERR, ER_RELAY_LOG_INIT, ER_NO_BINARY_LOGGING, ER_RESERVED_SYNTAX,
      ER_WSAS_FAILED, ER_DIFF_GROUPS_PROC, ER_NO_GROUP_FOR_PROC, ER_ORDER_WITH_PROC,
      ER_LOGGING_PROHIBIT_CHANGING_OF, ER_NO_FILE_MAPPING, ER_WRONG_MAGIC, ER_PS_MANY_PARAM,
      ER_KEY_PART_0, ER_VIEW_CHECKSUM, ER_VIEW_MULTIUPDATE, ER_VIEW_NO_INSERT_FIELD_LIST,
      ER_VIEW_DELETE_MERGE_VIEW, ER_CANNOT_USER, ER_PROC_AUTO_GRANT_FAIL,
      ER_PROC_AUTO_REVOKE_FAIL, ER_STARTUP, ER_LOAD_FROM_FIXED_SIZE_ROWS_TO_VAR,
      ER_WRONG_VALUE_FOR_TYPE, ER_TABLE_DEF_CHANGED, ER_FAILED_ROUTINE_BREAK_BINLOG,
      ER_BINLOG_UNSAFE_ROUTINE, ER_BINLOG_CREATE_ROUTINE_NEED_SUPER,
      ER_EXEC_STMT_WITH_OPEN_CURSOR, ER_STMT_HAS_NO_OPEN_CURSOR,
      ER_COMMIT_NOT_ALLOWED_IN_SF_OR_TRG, ER_NO_DEFAULT_FOR_VIEW_FIELD, ER_SP_NO_RECURSION,
      ER_WRONG_LOCK_OF_SYSTEM_TABLE, ER_CONNECT_TO_FOREIGN_DATA_SOURCE,
      ER_QUERY_ON_FOREIGN_DATA_SOURCE, ER_FOREIGN_DATA_SOURCE_DOESNT_EXIST,
      ER_FOREIGN_DATA_STRING_INVALID_CANT_CREATE, ER_FOREIGN_DATA_STRING_INVALID,
      ER_CANT_CREATE_FEDERATED_TABLE, ER_TRG_IN_WRONG_SCHEMA, ER_STACK_OVERRUN_NEED_MORE,
      ER_WARN_CANT_DROP_DEFAULT_KEYCACHE, ER_CANT_UPDATE_USED_TABLE_IN_SF_OR_TRG,
      ER_VIEW_PREVENT_UPDATE, ER_PS_NO_RECURSION, ER_SP_CANT_SET_AUTOCOMMIT, ER_MALFORMED_DEFINER,
      ER_VIEW_FRM_NO_USER, ER_VIEW_OTHER_USER, ER_NO_SUCH_USER, ER_FORBID_SCHEMA_CHANGE,
      ER_TRG_NO_DEFINER, ER_OLD_FILE_FORMAT, ER_SP_RECURSION_LIMIT, ER_SP_PROC_TABLE_CORRUPT,
      ER_TABLE_NEEDS_UPGRADE, ER_VIEW_RECURSIVE, ER_TABLE_CANT_HANDLE_SPKEYS,
      ER_NO_TRIGGERS_ON_SYSTEM_SCHEMA, ER_REMOVED_SPACES, ER_AUTOINC_READ_FAILED, ER_USERNAME,
      ER_HOSTNAME, ER_WRONG_STRING_LENGTH, ER_NON_INSERTABLE_TABLE, ER_ADMIN_WRONG_MRG_TABLE,
      ER_TOO_HIGH_LEVEL_OF_NESTING_FOR_SELECT, ER_NAME_BECOMES_EMPTY, ER_AMBIGUOUS_FIELD_TERM,
      ER_FOREIGN_SERVER_EXISTS, ER_FOREIGN_SERVER_DOESNT_EXIST, ER_ILLEGAL_HA_CREATE_OPTION,
      ER_PARTITION_REQUIRES_VALUES_ERROR]"

definition hy000_3 :: "ErrorKind list" where
  "hy000_3 =
     [ER_PARTITION_WRONG_VALUES_ERROR, ER_PARTITION_MAXVALUE_ERROR,
      ER_PARTITION_SUBPARTITION_ERROR, ER_PARTITION_SUBPART_MIX_ERROR,
      ER_PARTITION_WRONG_NO_PART_ERROR, ER_PARTITION_WRONG_NO_SUBPART_ERROR,
      ER_WRONG_EXPR_IN_PARTITION_FUNC_ERROR, ER_NO_CONST_EXPR_IN_RANGE_OR_LIST_ERROR,
      ER_FIELD_NOT_FOUND_PART_ERROR, ER_LIST_OF_FIELDS_ONLY_IN_HASH_ERROR,
      ER_INCONSISTENT_PARTITION_INFO_ERROR, ER_PARTITION_FUNC_NOT_ALLOWED_ERROR,
      ER_PARTITIONS_MUST_BE_DEFINED_ERROR, ER_RANGE_NOT_INCREASING_ERROR,
      ER_INCONSISTENT_TYPE_OF_FUNCTIONS_ERROR, ER_MULTIPLE_DEF_CONST_IN_LIST_PART_ERROR,
      ER_PARTITION_ENTRY_ERROR, ER_MIX_HANDLER_ERROR, ER_PARTITION_NOT_DEFINED_ERROR,
      ER_TOO_MANY_PARTITIONS_ERROR, ER_SUBPARTITION_ERROR, ER_CANT_CREATE_HANDLER_FILE,
      ER_BLOB_FIELD_IN_PART_FUNC_ERROR, ER_UNIQUE_KEY_NEED_ALL_FIELDS_IN_PF, ER_NO_PARTS_ERROR,
      ER_PARTITION_MGMT_ON_NONPARTITIONED, ER_FOREIGN_KEY_ON_PARTITIONED,
      ER_DROP_PARTITION_NON_EXISTENT, ER_DROP_LAST_PARTITION, ER_COALESCE_ONLY_ON_HASH_PARTITION,
      ER_REORG_HASH_ONLY_ON_SAME_N, ER_REORG_NO_PARAM_ERROR, ER_ONLY_ON_RANGE_LIST_PARTITION,
      ER_ADD_PARTITION_SUBPART_ERROR, ER_ADD_PARTITION_NO_NEW_PARTITION,
      ER_COALESCE_PARTITION_NO_PARTITION, ER_REORG_PARTITION_NOT_EXIST, ER_SAME_NAME_PARTITION,
      ER_NO_BINLOG_ERROR, ER_CONSECUTIVE_REORG_PARTITIONS, ER_REORG_OUTSIDE_RANGE,
      ER_PARTITION_FUNCTION_FAILURE, ER_PART_STATE_ERROR, ER_LIMITED_PART_RANGE,
      ER_PLUGIN_IS_NOT_LOADED, ER_WRONG_VALUE, ER_NO_PARTITION_FOR_GIVEN_VALUE,
      ER_FILEGROUP_OPTION_ONLY_ONCE, ER_CREATE_FILEGROUP_FAILED, ER_DROP_FILEGROUP_FAILED,
      ER_TABLESPACE_AUTO_EXTEND_ERROR, ER_WRONG_SIZE_NUMBER, ER_SIZE_OVERFLOW_ERROR,
      ER_ALTER_FILEGROUP_FAILED, ER_BINLOG_ROW_LOGGING_FAILED, ER_BINLOG_ROW_WRONG_TABLE_DEF,
      ER_BINLOG_ROW_RBR_TO_SBR, ER_EVENT_ALREADY_EXISTS, ER_EVENT_STORE_FAILED,
      ER_EVENT_DOES_NOT_EXIST, ER_EVENT_CANT_ALTER, ER_EVENT_DROP_FAILED,
      ER_EVENT_INTERVAL_NOT_POSITIVE_OR_TOO_BIG, ER_EVENT_ENDS_BEFORE_STARTS,
      ER_EVENT_EXEC_TIME_IN_THE_PAST, ER_EVENT_OPEN_TABLE_FAILED,
      ER_EVENT_NEITHER_M_EXPR_NOR_M_AT, ER_COL_COUNT_DOESNT_MATCH_CORRUPTED,
      ER_CANNOT_LOAD_FROM_TABLE, ER_EVENT_CANNOT_DELETE, ER_EVENT_COMPILE_ERROR,
      ER_EVENT_SAME_NAME, ER_EVENT_DATA_TOO_LONG, ER_DROP_INDEX_FK,
      ER_WARN_DEPRECATED_SYNTAX_WITH_VER, ER_CANT_WRITE_LOCK_LOG_TABLE, ER_CANT_LOCK_LOG_TABLE,
      ER_COL_COUNT_DOESNT_MATCH_PLEASE_UPDATE, ER_TEMP_TABLE_PREVENTS_SWITCH_OUT_OF_RBR,
      ER_STORED_FUNCTION_PREVENTS_SWITCH_BINLOG_FORMAT, ER_NDB_CANT_SWITCH_BINLOG_FORMAT,
      ER_PARTITION_NO_TEMPORARY, ER_PARTITION_CONST_DOMAIN_ERROR,
      ER_PARTITION_FUNCTION_IS_NOT_ALLOWED, ER_DDL_LOG_ERROR, ER_NULL_IN_VALUES_LESS_THAN,
      ER_WRONG_PARTITION_NAME, ER_DUP_ENTRY_AUTOINCREMENT_CASE, ER_EVENT_MODIFY_QUEUE_ERROR,
      ER_EVENT_SET_VAR_ERROR, ER_PARTITION_MERGE_ERROR, ER_CANT_ACTIVATE_LOG,
      ER_RBR_NOT_AVAILABLE, ER_BASE64_DECODE_ERROR, ER_EVENT_RECURSION_FORBIDDEN,
      ER_EVENTS_DB_ERROR, ER_ONLY_INTEGERS_ALLOWED, ER_UNSUPORTED_LOG_ENGINE,
      ER_BAD_LOG_STATEMENT, ER_CANT_RENAME_LOG_TABLE, ER_NATIVE_FCT_NAME_COLLISION,
      ER_BINLOG_PURGE_EMFILE, ER_EVENT_CANNOT_CREATE_IN_THE_PAST,
      ER_EVENT_CANNOT_ALTER_IN_THE_PAST, ER_SLAVE_INCIDENT,
      ER_NO_PARTITION_FOR_GIVEN_VALUE_SILENT, ER_BINLOG_UNSAFE_STATEMENT, ER_SLAVE_FATAL_ERROR,
      ER_SLAVE_RELAY_LOG_READ_FAILURE, ER_SLAVE_RELAY_LOG_WRITE_FAILURE,
      ER_SLAVE_CREATE_EVENT_FAILURE, ER_SLAVE_MASTER_COM_FAILURE, ER_BINLOG_LOGGING_IMPOSSIBLE,
      ER_VIEW_NO_CREATION_CTX, ER_VIEW_INVALID_CREATION_CTX, ER_SR_INVALID_CREATION_CTX,
      ER_TRG_CORRUPTED_FILE, ER_TRG_NO_CREATION_CTX, ER_TRG_INVALID_CREATION_CTX,
      ER_EVENT_INVALID_CREATION_CTX, ER_TRG_CANT_OPEN_TABLE, ER_CANT_CREATE_SROUTINE,
      ER_UNUSED_11, ER_NO_FORMAT_DESCRIPTION_EVENT_BEFORE_BINLOG_STATEMENT,
      ER_SLAVE_CORRUPT_EVENT, ER_LOAD_DATA_INVALID_COLUMN, ER_LOG_PURGE_NO_FILE,
      ER_NEED_REPREPARE, ER_DELAYED_NOT_SUPPORTED, WARN_NO_MASTER_INF, WARN_OPTION_IGNORED,
      WARN_PLUGIN_DELETE_BUILTIN, WARN_PLUGIN_BUSY, ER_VARIABLE_IS_READONLY,
      ER_WARN_ENGINE_TRANSACTION_ROLLBACK, ER_SLAVE_HEARTBEAT_FAILURE,
      ER_SLAVE_HEARTBEAT_VALUE_OUT_OF_RANGE, ER_NDB_REPLICATION_SCHEMA_ERROR,
      ER_CONFLICT_FN_PARSE_ERROR, ER_EXCEPTIONS_WRITE_ERROR]"

definition hy000_4 :: "ErrorKind list" where
  "hy000_4 =
     [ER_TOO_LONG_TABLE_COMMENT, ER_TOO_LONG_FIELD_COMMENT, ER_DATABASE_NAME, ER_TABLE_NAME,
      ER_PARTITION_NAME, ER_SUBPARTITION_NAME, ER_TEMPORARY_NAME, ER_RENAMED_NAME,
      ER_TOO_MANY_CONCURRENT_TRXS, WARN_NON_ASCII_SEPARATOR_NOT_IMPLEMENTED,
      ER_DEBUG_SYNC_TIMEOUT, ER_DEBUG_SYNC_HIT_LIMIT, ER_SIGNAL_EXCEPTION,
      ER_SIGNAL_BAD_CONDITION_TYPE, WARN_COND_ITEM_TRUNCATED, ER_COND_ITEM_TOO_LONG,
      ER_UNKNOWN_LOCALE, ER_SLAVE_IGNORE_SERVER_IDS, ER_QUERY_CACHE_DISABLED,
      ER_SAME_NAME_PARTITION_FIELD, ER_PARTITION_COLUMN_LIST_ERROR,
      ER_WRONG_TYPE_COLUMN_VALUE_ERROR, ER_TOO_MANY_PARTITION_FUNC_FIELDS_ERROR,
      ER_MAXVALUE_IN_VALUES_IN, ER_TOO_MANY_VALUES_ERROR, ER_ROW_SINGLE_PARTITION_FIELD_ERROR,
      ER_FIELD_TYPE_NOT_ALLOWED_AS_PARTITION_FIELD, ER_PARTITION_FIELDS_TOO_LONG,
      ER_BINLOG_ROW_ENGINE_AND_STMT_ENGINE, ER_BINLOG_ROW_MODE_AND_STMT_ENGINE,
      ER_BINLOG_UNSAFE_AND_STMT_ENGINE, ER_BINLOG_ROW_INJECTION_AND_STMT_ENGINE,
      ER_BINLOG_STMT_MODE_AND_ROW_ENGINE, ER_BINLOG_ROW_INJECTION_AND_STMT_MODE,
      ER_BINLOG_MULTIPLE_ENGINES_AND_SELF_LOGGING_ENGINE, ER_BINLOG_UNSAFE_LIMIT,
      ER_BINLOG_UNSAFE_INSERT_DELAYED, ER_BINLOG_UNSAFE_SYSTEM_TABLE,
      ER_BINLOG_UNSAFE_AUTOINC_COLUMNS, ER_BINLOG_UNSAFE_UDF, ER_BINLOG_UNSAFE_SYSTEM_VARIABLE,
      ER_BINLOG_UNSAFE_SYSTEM_FUNCTION, ER_BINLOG_UNSAFE_NONTRANS_AFTER_TRANS,
      ER_MESSAGE_AND_STATEMENT, ER_SLAVE_CONVERSION_FAILED, ER_SLAVE_CANT_CREATE_CONVERSION,
      ER_INSIDE_TRANSACTION_PREVENTS_SWITCH_BINLOG_FORMAT, ER_PATH_LENGTH,
      ER_WARN_DEPRECATED_SYNTAX_NO_REPLACEMENT, ER_WRONG_NATIVE_TABLE_STRUCTURE,
      ER_WRONG_PERFSCHEMA_USAGE, ER_WARN_I_S_SKIPPED_TABLE,
      ER_INSIDE_TRANSACTION_PREVENTS_SWITCH_BINLOG_DIRECT,
      ER_STORED_FUNCTION_PREVENTS_SWITCH_BINLOG_DIRECT, ER_TOO_LONG_INDEX_COMMENT,
      ER_LOCK_ABORTED, ER_WRONG_SPVAR_TYPE_IN_LIMIT,
      ER_BINLOG_UNSAFE_MULTIPLE_ENGINES_AND_SELF_LOGGING_ENGINE, ER_BINLOG_UNSAFE_MIXED_STATEMENT,
      ER_INSIDE_TRANSACTION_PREVENTS_SWITCH_SQL_LOG_BIN,
      ER_STORED_FUNCTION_PREVENTS_SWITCH_SQL_LOG_BIN, ER_FAILED_READ_FROM_PAR_FILE,
      ER_VALUES_IS_NOT_INT_TYPE_ERROR, ER_SET_PASSWORD_AUTH_PLUGIN, ER_GRANT_PLUGIN_USER_EXISTS,
      ER_PLUGIN_IS_PERMANENT, ER_SLAVE_HEARTBEAT_VALUE_OUT_OF_RANGE_MIN,
      ER_SLAVE_HEARTBEAT_VALUE_OUT_OF_RANGE_MAX, ER_STMT_CACHE_FULL, ER_MULTI_UPDATE_KEY_CONFLICT,
      ER_TABLE_NEEDS_REBUILD, WARN_OPTION_BELOW_LIMIT, ER_INDEX_COLUMN_TOO_LONG,
      ER_ERROR_IN_TRIGGER_BODY, ER_ERROR_IN_UNKNOWN_TRIGGER_BODY, ER_INDEX_CORRUPT,
      ER_UNDO_RECORD_TOO_BIG, ER_BINLOG_UNSAFE_INSERT_IGNORE_SELECT,
      ER_BINLOG_UNSAFE_INSERT_SELECT_UPDATE, ER_BINLOG_UNSAFE_REPLACE_SELECT,
      ER_BINLOG_UNSAFE_CREATE_IGNORE_SELECT, ER_BINLOG_UNSAFE_CREATE_REPLACE_SELECT,
      ER_BINLOG_UNSAFE_UPDATE_IGNORE, ER_PLUGIN_NO_UNINSTALL, ER_PLUGIN_NO_INSTALL,
      ER_BINLOG_UNSAFE_WRITE_AUTOINC_SELECT, ER_BINLOG_UNSAFE_CREATE_SELECT_AUTOINC,
      ER_BINLOG_UNSAFE_INSERT_TWO_KEYS, ER_TABLE_IN_FK_CHECK, ER_UNSUPPORTED_ENGINE,
      ER_BINLOG_UNSAFE_AUTOINC_NOT_FIRST, ER_CANNOT_LOAD_FROM_TABLE_V2,
      ER_MASTER_DELAY_VALUE_OUT_OF_RANGE, ER_ONLY_FD_AND_RBR_EVENTS_ALLOWED_IN_BINLOG_STATEMENT,
      ER_PARTITION_EXCHANGE_DIFFERENT_OPTION, ER_PARTITION_EXCHANGE_PART_TABLE,
      ER_PARTITION_EXCHANGE_TEMP_TABLE, ER_PARTITION_INSTEAD_OF_SUBPARTITION,
      ER_UNKNOWN_PARTITION, ER_TABLES_DIFFERENT_METADATA, ER_ROW_DOES_NOT_MATCH_PARTITION,
      ER_BINLOG_CACHE_SIZE_GREATER_THAN_MAX, ER_WARN_INDEX_NOT_APPLICABLE,
      ER_PARTITION_EXCHANGE_FOREIGN_KEY, ER_NO_SUCH_KEY_VALUE, ER_RPL_INFO_DATA_TOO_LONG,
      ER_NETWORK_READ_EVENT_CHECKSUM_FAILURE, ER_BINLOG_READ_EVENT_CHECKSUM_FAILURE,
      ER_BINLOG_STMT_CACHE_SIZE_GREATER_THAN_MAX, ER_CANT_UPDATE_TABLE_IN_CREATE_TABLE_SELECT,
      ER_PARTITION_CLAUSE_ON_NONPARTITIONED, ER_ROW_DOES_NOT_MATCH_GIVEN_PARTITION_SET,
      ER_NO_SUCH_PARTITION_UNUSED, ER_CHANGE_RPL_INFO_REPOSITORY_FAILURE,
      ER_WARNING_NOT_COMPLETE_ROLLBACK_WITH_CREATED_TEMP_TABLE,
      ER_WARNING_NOT_COMPLETE_ROLLBACK_WITH_DROPPED_TEMP_TABLE, ER_MTS_FEATURE_IS_NOT_SUPPORTED,
      ER_MTS_UPDATED_DBS_GREATER_MAX, ER_MTS_CANT_PARALLEL, ER_MTS_INCONSISTENT_DATA,
      ER_FULLTEXT_NOT_SUPPORTED_WITH_PARTITIONING, ER_INSECURE_PLAIN_TEXT,
      ER_INSECURE_CHANGE_MASTER, ER_SQLTHREAD_WITH_SECURE_SLAVE, ER_TABLE_HAS_NO_FT,
      ER_VARIABLE_NOT_SETTABLE_IN_SF_OR_TRIGGER, ER_VARIABLE_NOT_SETTABLE_IN_TRANSACTION,
      ER_GTID_NEXT_IS_NOT_IN_GTID_NEXT_LIST,
      ER_CANT_CHANGE_GTID_NEXT_IN_TRANSACTION_WHEN_GTID_NEXT_LIST_IS_NULL,
      ER_SET_STATEMENT_CANNOT_INVOKE_FUNCTION,
      ER_GTID_NEXT_CANT_BE_AUTOMATIC_IF_GTID_NEXT_LIST_IS_NON_NULL,
      ER_SKIPPING_LOGGED_TRANSACTION, ER_MALFORMED_GTID_SET_SPECIFICATION,
      ER_MALFORMED_GTID_SET_ENCODING, ER_MALFORMED_GTID_SPECIFICATION, ER_GNO_EXHAUSTED,
      ER_BAD_SLAVE_AUTO_POSITION, ER_AUTO_POSITION_REQUIRES_GTID_MODE_ON,
      ER_CANT_DO_IMPLICIT_COMMIT_IN_TRX_WHEN_GTID_NEXT_IS_SET,
      ER_GTID_MODE_2_OR_3_REQUIRES_DISABLE_GTID_UNSAFE_STATEMENTS_ON]"

definition hy000_5 :: "ErrorKind list" where
  "hy000_5 =
     [ER_GTID_MODE_REQUIRES_BINLOG, ER_CANT_SET_GTID_NEXT_TO_GTID_WHEN_GTID_MODE_IS_OFF,
      ER_CANT_SET_GTID_NEXT_TO_ANONYMOUS_WHEN_GTID_MODE_IS_ON,
      ER_CANT_SET_GTID_NEXT_LIST_TO_NON_NULL_WHEN_GTID_MODE_IS_OFF,
      ER_FOUND_GTID_EVENT_WHEN_GTID_MODE_IS_OFF, ER_GTID_UNSAFE_NON_TRANSACTIONAL_TABLE,
      ER_GTID_UNSAFE_CREATE_SELECT, ER_GTID_UNSAFE_CREATE_DROP_TEMPORARY_TABLE_IN_TRANSACTION,
      ER_GTID_MODE_CAN_ONLY_CHANGE_ONE_STEP_AT_A_TIME, ER_MASTER_HAS_PURGED_REQUIRED_GTIDS,
      ER_CANT_SET_GTID_NEXT_WHEN_OWNING_GTID, ER_UNKNOWN_EXPLAIN_FORMAT,
      ER_TOO_LONG_TABLE_PARTITION_COMMENT, ER_SLAVE_CONFIGURATION, ER_INNODB_FT_LIMIT,
      ER_INNODB_NO_FT_TEMP_TABLE, ER_INNODB_FT_WRONG_DOCID_COLUMN, ER_INNODB_FT_WRONG_DOCID_INDEX,
      ER_INNODB_ONLINE_LOG_TOO_BIG, ER_UNKNOWN_ALTER_ALGORITHM, ER_UNKNOWN_ALTER_LOCK,
      ER_MTS_CHANGE_MASTER_CANT_RUN_WITH_GAPS, ER_MTS_RECOVERY_FAILURE, ER_MTS_RESET_WORKERS,
      ER_COL_COUNT_DOESNT_MATCH_CORRUPTED_V2, ER_SLAVE_SILENT_RETRY_TRANSACTION,
      ER_DISCARD_FK_CHECKS_RUNNING, ER_TABLE_SCHEMA_MISMATCH, ER_TABLE_IN_SYSTEM_TABLESPACE,
      ER_IO_READ_ERROR, ER_IO_WRITE_ERROR, ER_TABLESPACE_MISSING, ER_TABLESPACE_EXISTS,
      ER_TABLESPACE_DISCARDED, ER_INTERNAL_ERROR, ER_INNODB_IMPORT_ERROR, ER_INNODB_INDEX_CORRUPT,
      ER_INVALID_YEAR_COLUMN_LENGTH, ER_NOT_VALID_PASSWORD, ER_MUST_CHANGE_PASSWORD,
      ER_FK_NO_INDEX_CHILD, ER_FK_NO_INDEX_PARENT, ER_FK_FAIL_ADD_SYSTEM,
      ER_FK_CANNOT_OPEN_PARENT, ER_FK_INCORRECT_OPTION, ER_FK_DUP_NAME, ER_PASSWORD_FORMAT,
      ER_FK_COLUMN_CANNOT_DROP, ER_FK_COLUMN_CANNOT_DROP_CHILD, ER_FK_COLUMN_NOT_NULL,
      ER_DUP_INDEX, ER_FK_COLUMN_CANNOT_CHANGE, ER_FK_COLUMN_CANNOT_CHANGE_CHILD,
      ER_FK_CANNOT_DELETE_PARENT, ER_MALFORMED_PACKET, ER_READ_ONLY_MODE,
      ER_GTID_NEXT_TYPE_UNDEFINED_GROUP, ER_VARIABLE_NOT_SETTABLE_IN_SP,
      ER_CANT_SET_GTID_PURGED_WHEN_GTID_MODE_IS_OFF,
      ER_CANT_SET_GTID_PURGED_WHEN_GTID_EXECUTED_IS_NOT_EMPTY,
      ER_CANT_SET_GTID_PURGED_WHEN_OWNED_GTIDS_IS_NOT_EMPTY, ER_GTID_PURGED_WAS_CHANGED,
      ER_GTID_EXECUTED_WAS_CHANGED, ER_BINLOG_STMT_MODE_AND_NO_REPL_TABLES,
      ER_ALTER_OPERATION_NOT_SUPPORTED_REASON_COPY,
      ER_ALTER_OPERATION_NOT_SUPPORTED_REASON_PARTITION,
      ER_ALTER_OPERATION_NOT_SUPPORTED_REASON_FK_RENAME,
      ER_ALTER_OPERATION_NOT_SUPPORTED_REASON_COLUMN_TYPE,
      ER_ALTER_OPERATION_NOT_SUPPORTED_REASON_FK_CHECK,
      ER_ALTER_OPERATION_NOT_SUPPORTED_REASON_IGNORE,
      ER_ALTER_OPERATION_NOT_SUPPORTED_REASON_NOPK,
      ER_ALTER_OPERATION_NOT_SUPPORTED_REASON_AUTOINC,
      ER_ALTER_OPERATION_NOT_SUPPORTED_REASON_HIDDEN_FTS,
      ER_ALTER_OPERATION_NOT_SUPPORTED_REASON_CHANGE_FTS,
      ER_ALTER_OPERATION_NOT_SUPPORTED_REASON_FTS,
      ER_SQL_SLAVE_SKIP_COUNTER_NOT_SETTABLE_IN_GTID_MODE, ER_IDENT_CAUSES_TOO_LONG_PATH,
      ER_ALTER_OPERATION_NOT_SUPPORTED_REASON_NOT_NULL, ER_MUST_CHANGE_PASSWORD_LOGIN,
      ER_ROW_IN_WRONG_PARTITION, ER_MTS_EVENT_BIGGER_PENDING_JOBS_SIZE_MAX,
      ER_INNODB_NO_FT_USES_PARSER, ER_BINLOG_LOGICAL_CORRUPTION, ER_WARN_PURGE_LOG_IN_USE,
      ER_WARN_PURGE_LOG_IS_ACTIVE, ER_AUTO_INCREMENT_CONFLICT, WARN_ON_BLOCKHOLE_IN_RBR,
      ER_SLAVE_MI_INIT_REPOSITORY, ER_SLAVE_RLI_INIT_REPOSITORY, ER_INNODB_READ_ONLY,
      ER_STOP_SLAVE_SQL_THREAD_TIMEOUT, ER_STOP_SLAVE_IO_THREAD_TIMEOUT, ER_TABLE_CORRUPT,
      ER_TEMP_FILE_WRITE_FAILURE, ER_INNODB_FT_AUX_NOT_HEX_ID, ER_OLD_TEMPORALS_UPGRADED,
      ER_INNODB_FORCED_RECOVERY, ER_AES_INVALID_IV, ER_PLUGIN_CANNOT_BE_UNINSTALLED,
      ER_GTID_UNSAFE_BINLOG_SPLITTABLE_STATEMENT_AND_GTID_GROUP,
      ER_SLAVE_HAS_MORE_GTIDS_THAN_MASTER]"

definition sqlstate_arms_1 :: "(ErrorKind list \<times> string) list" where
  "sqlstate_arms_1 =
     [([ER_BAD_HOST_ERROR, ER_HANDSHAKE_ERROR, ER_UNKNOWN_COM_ERROR, ER_SERVER_SHUTDOWN,
        ER_FORCING_CLOSE, ER_IPSOCK_ERROR, ER_ABORTING_CONNECTION, ER_NET_PACKET_TOO_LARGE,
        ER_NET_READ_ERROR_FROM_PIPE, ER_NET_FCNTL_ERROR, ER_NET_PACKETS_OUT_OF_ORDER,
        ER_NET_UNCOMPRESS_ERROR, ER_NET_READ_ERROR, ER_NET_READ_INTERRUPTED,
        ER_NET_ERROR_ON_WRITE, ER_NET_WRITE_INTERRUPTED, ER_NEW_ABORTING_CONNECTION,
        ER_MASTER_NET_READ, ER_MASTER_NET_WRITE, ER_CONNECT_TO_MASTER], ''08S01''),
      ([ER_NO_DB_ERROR], ''3D000''),
      ([ER_DA_INVALID_CONDITION_NUMBER], ''35000''),
      ([ER_TABLE_EXISTS_ERROR], ''42S01''),
      ([ER_SP_FETCH_NO_DATA, ER_SIGNAL_NOT_FOUND], ''02000''),
      ([ER_BAD_TABLE_ERROR, ER_UNKNOWN_TABLE, ER_NO_SUCH_TABLE], ''42S02''),
      ([ER_TRUNCATED_WRONG_VALUE, ER_ILLEGAL_VALUE_FOR_TYPE], ''22007''),
      ([ER_XA_RBTIMEOUT], ''XA106''),
      ([ER_XAER_DUPID], ''XAE08''),
      ([ER_XA_RBDEADLOCK], ''XA102''),
      ([ER_XAER_OUTSIDE], ''XAE09''),
      ([ER_DATETIME_FUNCTION_OVERFLOW], ''22008''),
      ([ER_WARN_DATA_OUT_OF_RANGE, ER_CANT_CREATE_GEOMETRY_OBJECT,
        ER_DATA_OUT_OF_RANGE], ''22003''),
      ([ER_CANT_DO_THIS_DURING_AN_TRANSACTION, ER_READ_ONLY_TRANSACTION], ''25000''),
      ([ER_OUTOFMEMORY, ER_OUT_OF_SORTMEMORY], ''HY001''),
      ([ER_SP_NO_RECURSIVE_CREATE], ''2F003''),
      ([ER_DUP_KEY, ER_BAD_NULL_ERROR, ER_NON_UNIQ_ERROR, ER_DUP_ENTRY, ER_DUP_UNIQUE,
        ER_NO_REFERENCED_ROW, ER_ROW_IS_REFERENCED, ER_ROW_IS_REFERENCED_2,
        ER_NO_REFERENCED_ROW_2, ER_FOREIGN_DUPLICATE_KEY, ER_DUP_ENTRY_WITH_KEY_NAME,
        ER_FOREIGN_DUPLICATE_KEY_WITH_CHILD_INFO, ER_FOREIGN_DUPLICATE_KEY_WITHOUT_CHILD_INFO,
        ER_DUP_UNKNOWN_IN_INDEX], ''23000''),
      ([ER_DUP_FIELDNAME], ''42S21''),
      ([ER_SELECT_REDUCED, ER_WARN_TOO_FEW_RECORDS, ER_WARN_TOO_MANY_RECORDS,
        WARN_DATA_TRUNCATED, ER_SP_UNINIT_VAR, ER_SIGNAL_WARN], ''01000''),
      ([ER_XAER_RMERR], ''XAE03''),
      ([ER_XAER_RMFAIL], ''XAE07''),
      ([ER_NO_SUCH_INDEX], ''42S12''),
      ([ER_CANT_EXECUTE_IN_READ_ONLY_TRANSACTION], ''25006''),
      ([ER_SP_BADSELECT, ER_SP_BADSTATEMENT, ER_SP_SUBSELECT_NYI,
        ER_STMT_NOT_ALLOWED_IN_SF_OR_TRG, ER_SP_NO_RETSET, ER_ALTER_OPERATION_NOT_SUPPORTED,
        ER_ALTER_OPERATION_NOT_SUPPORTED_REASON], ''0A000''),
      ([ER_WRONG_VALUE_COUNT, ER_WRONG_VALUE_COUNT_ON_ROW], ''21S01''),
      ([ER_ACCESS_DENIED_ERROR, ER_ACCESS_DENIED_NO_PASSWORD_ERROR,
        ER_ACCESS_DENIED_CHANGE_USER_ERROR], ''28000''),
      ([ER_SP_CURSOR_ALREADY_OPEN, ER_SP_CURSOR_NOT_OPEN], ''24000''),
      ([ER_QUERY_INTERRUPTED], ''70100''),
      ([ER_SP_NORETURNEND], ''2F005''),
      ([ER_CON_COUNT_ERROR, ER_NOT_SUPPORTED_AUTH_MODE], ''08004'')]"

definition sqlstate_arms_2 :: "(ErrorKind list \<times> string) list" where
  "sqlstate_arms_2 =
     [([ER_DBACCESS_DENIED_ERROR, ER_BAD_DB_ERROR, ER_WRONG_FIELD_WITH_GROUP,
        ER_WRONG_GROUP_FIELD, ER_WRONG_SUM_SELECT, ER_TOO_LONG_IDENT, ER_DUP_KEYNAME,
        ER_WRONG_FIELD_SPEC, ER_PARSE_ERROR, ER_EMPTY_QUERY, ER_NONUNIQ_TABLE,
        ER_INVALID_DEFAULT, ER_MULTIPLE_PRI_KEY, ER_TOO_MANY_KEYS, ER_TOO_MANY_KEY_PARTS,
        ER_TOO_LONG_KEY, ER_KEY_COLUMN_DOES_NOT_EXITS, ER_BLOB_USED_AS_KEY,
        ER_TOO_BIG_FIELDLENGTH, ER_WRONG_AUTO_KEY, ER_WRONG_FIELD_TERMINATORS,
        ER_BLOBS_AND_NO_TERMINATED, ER_CANT_REMOVE_ALL_FIELDS, ER_CANT_DROP_FIELD_OR_KEY,
        ER_BLOB_CANT_HAVE_DEFAULT, ER_WRONG_DB_NAME, ER_WRONG_TABLE_NAME, ER_TOO_BIG_SELECT,
        ER_UNKNOWN_PROCEDURE, ER_WRONG_PARAMCOUNT_TO_PROCEDURE, ER_FIELD_SPECIFIED_TWICE,
        ER_UNSUPPORTED_EXTENSION, ER_TABLE_MUST_HAVE_COLUMNS, ER_UNKNOWN_CHARACTER_SET,
        ER_TOO_BIG_ROWSIZE, ER_WRONG_OUTER_JOIN, ER_NULL_COLUMN_IN_INDEX,
        ER_PASSWORD_ANONYMOUS_USER, ER_PASSWORD_NOT_ALLOWED, ER_PASSWORD_NO_MATCH,
        ER_REGEXP_ERROR, ER_MIX_OF_GROUP_FUNC_AND_FIELDS, ER_NONEXISTING_GRANT,
        ER_TABLEACCESS_DENIED_ERROR, ER_COLUMNACCESS_DENIED_ERROR, ER_ILLEGAL_GRANT_FOR_TABLE,
        ER_GRANT_WRONG_HOST_OR_USER, ER_NONEXISTING_TABLE_GRANT, ER_NOT_ALLOWED_COMMAND,
        ER_SYNTAX_ERROR, ER_TOO_LONG_STRING, ER_TABLE_CANT_HANDLE_BLOB,
        ER_TABLE_CANT_HANDLE_AUTO_INCREMENT, ER_WRONG_COLUMN_NAME, ER_WRONG_KEY_COLUMN,
        ER_BLOB_KEY_WITHOUT_LENGTH, ER_PRIMARY_CANT_HAVE_NULL, ER_TOO_MANY_ROWS,
        ER_REQUIRES_PRIMARY_KEY, ER_KEY_DOES_NOT_EXITS, ER_CHECK_NO_SUCH_TABLE,
        ER_CHECK_NOT_IMPLEMENTED, ER_TOO_MANY_USER_CONNECTIONS,
        ER_NO_PERMISSION_TO_CREATE_USER, ER_USER_LIMIT_REACHED,
        ER_SPECIFIC_ACCESS_DENIED_ERROR, ER_NO_DEFAULT, ER_WRONG_VALUE_FOR_VAR,
        ER_WRONG_TYPE_FOR_VAR, ER_CANT_USE_OPTION_HERE, ER_NOT_SUPPORTED_YET, ER_WRONG_FK_DEF,
        ER_DERIVED_MUST_HAVE_ALIAS, ER_TABLENAME_NOT_ALLOWED_HERE, ER_SPATIAL_CANT_HAVE_NULL,
        ER_COLLATION_CHARSET_MISMATCH, ER_WRONG_NAME_FOR_INDEX, ER_WRONG_NAME_FOR_CATALOG,
        ER_UNKNOWN_STORAGE_ENGINE, ER_SP_ALREADY_EXISTS, ER_SP_DOES_NOT_EXIST,
        ER_SP_LILABEL_MISMATCH, ER_SP_LABEL_REDEFINE, ER_SP_LABEL_MISMATCH, ER_SP_BADRETURN,
        ER_UPDATE_LOG_DEPRECATED_IGNORED, ER_UPDATE_LOG_DEPRECATED_TRANSLATED,
        ER_SP_WRONG_NO_OF_ARGS, ER_SP_COND_MISMATCH, ER_SP_NORETURN, ER_SP_BAD_CURSOR_QUERY,
        ER_SP_BAD_CURSOR_SELECT, ER_SP_CURSOR_MISMATCH, ER_SP_UNDECLARED_VAR, ER_SP_DUP_PARAM,
        ER_SP_DUP_VAR, ER_SP_DUP_COND, ER_SP_DUP_CURS, ER_SP_VARCOND_AFTER_CURSHNDLR,
        ER_SP_CURSOR_AFTER_HANDLER, ER_PROCACCESS_DENIED_ERROR, ER_NONEXISTING_PROC_GRANT,
        ER_SP_BAD_SQLSTATE, ER_CANT_CREATE_USER_WITH_GRANT, ER_SP_DUP_HANDLER,
        ER_SP_NOT_VAR_ARG, ER_TOO_BIG_SCALE, ER_TOO_BIG_PRECISION, ER_M_BIGGER_THAN_D,
        ER_TOO_LONG_BODY, ER_TOO_BIG_DISPLAYWIDTH, ER_SP_BAD_VAR_SHADOW, ER_SP_WRONG_NAME,
        ER_SP_NO_AGGREGATE, ER_MAX_PREPARED_STMT_COUNT_REACHED, ER_NON_GROUPING_FIELD_USED,
        ER_WRONG_PARAMCOUNT_TO_NATIVE_FCT, ER_WRONG_PARAMETERS_TO_NATIVE_FCT,
        ER_WRONG_PARAMETERS_TO_STORED_FCT, ER_FUNC_INEXISTENT_NAME_COLLISION,
        ER_DUP_SIGNAL_SET, ER_SPATIAL_MUST_HAVE_GEOM_COL, ER_TRUNCATE_ILLEGAL_FK], ''42000''),
      ([ER_RESIGNAL_WITHOUT_ACTIVE_HANDLER], ''0K000''),
      ([ER_CANT_CHANGE_TX_ISOLATION], ''25001''),
      ([ER_INVALID_USE_OF_NULL, ER_WARN_NULL_TO_NOTNULL], ''22004''),
      ([ER_SP_CASE_NOT_FOUND], ''20000''),
      ([ER_DIVISION_BY_ZER], ''22012''),
      ([ER_BAD_FIELD_ERROR, ER_ILLEGAL_REFERENCE], ''42S22''),
      ([ER_XAER_INVAL], ''XAE05'')]"

definition sqlstate_arms_3 :: "(ErrorKind list \<times> string) list" where
  "sqlstate_arms_3 =
     [([ER_XAER_NOTA], ''XAE04''),
      ([ER_XA_RBROLLBACK], ''XA100''),
      ([ER_DATA_TOO_LONG], ''22001''),
      ([ER_LOCK_DEADLOCK], ''40001''),
      ([ER_WRONG_NUMBER_OF_COLUMNS_IN_SELECT, ER_OPERAND_COLUMNS,
        ER_SUBQUERY_NO_1_ROW], ''21000'')]"

definition sqlstate_arms :: "(ErrorKind list \<times> string) list" where
  "sqlstate_arms =
     sqlstate_arms_1 @ sqlstate_arms_2 @
     (hy000_1 @ hy000_2 @ hy000_3 @ hy000_4 @ hy000_5, ''HY000'') #
     sqlstate_arms_3"

text \<open>The compiler takes the first arm whose pattern matches.\<close>

definition sqlstate :: "ErrorKind \<Rightarrow> string option" where
  "sqlstate k = map_option snd (find (\<lambda>arm. k \<in> set (fst arm)) sqlstate_arms)"

subsection \<open>The discriminants\<close>

lemma error_kinds_pieces:
  "error_kinds_1 = [1000..<1070]" "error_kinds_2 = [1070..<1140]" "error_kinds_3 = [1140..<1210]"
  "error_kinds_4 = [1210..<1280]" "error_kinds_5 = [1280..<1350]" "error_kinds_6 = [1350..<1420]"
  "error_kinds_7 = [1420..<1490]" "error_kinds_8 = [1490..<1560]" "error_kinds_9 = [1560..<1630]"
  "error_kinds_10 = [1630..<1700]" "error_kinds_11 = [1700..<1770]" "error_kinds_12 = [1770..<1840]"
  "error_kinds_13 = [1840..<1886]"
  unfolding error_kinds_1_def error_kinds_2_def error_kinds_3_def error_kinds_4_def
    error_kinds_5_def error_kinds_6_def error_kinds_7_def error_kinds_8_def error_kinds_9_def
    error_kinds_10_def error_kinds_11_def error_kinds_12_def error_kinds_13_def
  by (simp_all only: error_kind_defs) (simp_all add: upt_rec_numeral)

lemma upt_join: "i \<le> j \<Longrightarrow> j \<le> k \<Longrightarrow> [i..<j] @ [j..<k] = [i..<k]"
  using upt_add_eq_append [of i j "k - j"] by simp

lemma error_kinds_upt: "error_kinds = [1000..<1886]"
  unfolding error_kinds_def error_kinds_pieces append_assoc
  by (simp add: upt_join del: upt_rec_numeral)

text \<open>
  \<open>From<u16>\<close> inverts the cast \<open>k as u16\<close>: every arm maps a number to the variant with that
  discriminant.
\<close>

lemma from_arms_pieces:
  "from_arms_1 = map (\<lambda>k. (k, k)) [1000..<1140]" "from_arms_2 = map (\<lambda>k. (k, k)) [1140..<1280]"
  "from_arms_3 = map (\<lambda>k. (k, k)) [1280..<1420]" "from_arms_4 = map (\<lambda>k. (k, k)) [1420..<1560]"
  "from_arms_5 = map (\<lambda>k. (k, k)) [1560..<1700]" "from_arms_6 = map (\<lambda>k. (k, k)) [1700..<1840]"
  "from_arms_7 = map (\<lambda>k. (k, k)) [1840..<1886]"
  unfolding from_arms_1_def from_arms_2_def from_arms_3_def from_arms_4_def from_arms_5_def
    from_arms_6_def from_arms_7_def
  by (simp_all only: error_kind_defs) (simp_all add: upt_rec_numeral)

lemma from_arms_upt: "from_arms = map (\<lambda>k. (k, k)) [1000..<1886]"
  unfolding from_arms_def from_arms_pieces append_assoc map_append [symmetric]
  by (simp add: upt_join del: upt_rec_numeral)

lemma error_kind_from_Ok:
  "error_kind_from x = Ok k \<longleftrightarrow> k = unat x \<and> k \<in> set error_kinds"
  by (auto simp: error_kind_from_def from_arms_upt error_kinds_upt map_of_map_restrict restrict_map_def
      simp del: upt_rec_numeral split: if_splits)

lemma error_kind_from_Panic:
  "error_kind_from x = Panic \<longleftrightarrow> unat x \<notin> set error_kinds"
  by (auto simp: error_kind_from_def from_arms_upt error_kinds_upt map_of_map_restrict restrict_map_def
      simp del: upt_rec_numeral split: if_splits)

subsection \<open>The match of \<open>sqlstate\<close> is exhaustive and has no overlapping arms\<close>

text \<open>
  An arm lists its variants in ascending order, so it is a short list of ranges; merging the ranges
  of all arms gives one contiguous range.
\<close>

type_synonym ranges = "(nat \<times> nat) list"

definition expand :: "ranges \<Rightarrow> nat list" where
  "expand rs = concat (map (\<lambda>(a, b). [a..<b]) rs)"

fun merge :: "ranges \<Rightarrow> ranges \<Rightarrow> ranges" where
  "merge [] ys = ys"
| "merge (x # xs) [] = x # xs"
| "merge (x # xs) (y # ys) =
     (if fst x \<le> fst y then x # merge xs (y # ys) else y # merge (x # xs) ys)"

fun merge_adj :: "ranges list \<Rightarrow> ranges list" where
  "merge_adj (x # y # zs) = merge x y # merge_adj zs"
| "merge_adj xs = xs"

fun contiguous :: "nat \<Rightarrow> ranges \<Rightarrow> nat \<Rightarrow> bool" where
  "contiguous a [] c = (a = c)"
| "contiguous a ((x, y) # rs) c = (x = a \<and> a \<le> y \<and> y \<le> c \<and> contiguous y rs c)"

lemma mset_merge: "mset (merge xs ys) = mset xs + mset ys"
  by (induction xs ys rule: merge.induct) auto

lemma mset_merge_adj: "mset (concat (merge_adj xs)) = mset (concat xs)"
  by (induction xs rule: merge_adj.induct) (auto simp: mset_merge)

lemma expand_append: "expand (xs @ ys) = expand xs @ expand ys"
  by (simp add: expand_def)

lemma expand_concat: "expand (concat rss) = concat (map expand rss)"
  by (induction rss) (auto simp: expand_def)

lemma mset_expand: "mset xs = mset ys \<Longrightarrow> mset (expand xs) = mset (expand ys)"
  by (simp add: expand_def mset_concat flip: sum_mset_sum_list)

lemma contiguous_expand: "contiguous a rs c \<Longrightarrow> expand rs = [a..<c]"
proof (induction a rs c rule: contiguous.induct)
  case (2 a x y rs c)
  then show ?case by (simp add: expand_def upt_join)
qed (simp add: expand_def)

definition arm_ranges_1 :: "ranges list" where
  "arm_ranges_1 =
     [[(1042, 1044), (1047, 1048), (1053, 1054), (1080, 1082), (1152, 1162), (1184, 1185),
      (1189, 1191), (1218, 1219)], [(1046, 1047)], [(1758, 1759)], [(1050, 1051)],
      [(1329, 1330), (1643, 1644)], [(1051, 1052), (1109, 1110), (1146, 1147)], [(1292, 1293),
      (1367, 1368)], [(1613, 1614)], [(1440, 1441)], [(1614, 1615)], [(1400, 1401)],
      [(1441, 1442)], [(1264, 1265), (1416, 1417), (1690, 1691)], [(1179, 1180), (1207, 1208)],
      [(1037, 1039)], [(1303, 1304)], [(1022, 1023), (1048, 1049), (1052, 1053), (1062, 1063),
      (1169, 1170), (1216, 1218), (1451, 1453), (1557, 1558), (1586, 1587), (1761, 1763),
      (1859, 1860)], [(1060, 1061)], [(1249, 1250), (1261, 1263), (1265, 1266), (1311, 1312),
      (1642, 1643)], [(1401, 1402)], [(1399, 1400)], [(1082, 1083)], [(1792, 1793)],
      [(1312, 1313), (1314, 1315), (1335, 1337), (1415, 1416), (1845, 1847)], [(1058, 1059),
      (1136, 1137)], [(1045, 1046), (1698, 1699), (1873, 1874)], [(1325, 1327)], [(1317, 1318)],
      [(1321, 1322)], [(1040, 1041), (1251, 1252)]]"

definition arm_ranges_2 :: "ranges list" where
  "arm_ranges_2 =
     [[(1044, 1045), (1049, 1050), (1055, 1058), (1059, 1060), (1061, 1062), (1063, 1076),
      (1083, 1085), (1090, 1092), (1101, 1105), (1106, 1108), (1110, 1111), (1112, 1114),
      (1115, 1116), (1118, 1119), (1120, 1122), (1131, 1134), (1139, 1146), (1147, 1150),
      (1162, 1165), (1166, 1168), (1170, 1174), (1176, 1179), (1203, 1204), (1211, 1212),
      (1226, 1228), (1230, 1233), (1234, 1236), (1239, 1240), (1248, 1249), (1250, 1251),
      (1252, 1254), (1280, 1282), (1286, 1287), (1304, 1306), (1308, 1311), (1313, 1314),
      (1315, 1317), (1318, 1321), (1322, 1325), (1327, 1328), (1330, 1334), (1337, 1339),
      (1370, 1371), (1403, 1404), (1407, 1408), (1410, 1411), (1413, 1415), (1425, 1428),
      (1437, 1438), (1439, 1440), (1453, 1454), (1458, 1459), (1460, 1462), (1463, 1464),
      (1582, 1585), (1630, 1631), (1641, 1642), (1687, 1688), (1701, 1702)], [(1645, 1646)],
      [(1568, 1569)], [(1138, 1139), (1263, 1264)], [(1339, 1340)], [(1365, 1366)],
      [(1054, 1055), (1247, 1248)], [(1398, 1399)]]"

definition arm_ranges_3 :: "ranges list" where
  "arm_ranges_3 =
     [[(1397, 1398)], [(1402, 1403)], [(1406, 1407)], [(1213, 1214)], [(1222, 1223),
      (1241, 1243)]]"

definition hy000_ranges_1 :: "ranges" where
  "hy000_ranges_1 =
     [(1000, 1022), (1023, 1037), (1039, 1040), (1041, 1042), (1076, 1080), (1085, 1090),
      (1092, 1101), (1105, 1106), (1108, 1109), (1111, 1112), (1114, 1115), (1116, 1118),
      (1119, 1120), (1122, 1131), (1134, 1136), (1137, 1138), (1150, 1152), (1165, 1166),
      (1168, 1169), (1174, 1176), (1180, 1184), (1185, 1189), (1191, 1203), (1204, 1207),
      (1208, 1211), (1212, 1213), (1214, 1216), (1219, 1222), (1223, 1226), (1228, 1230),
      (1233, 1234), (1236, 1239), (1240, 1241), (1243, 1247), (1254, 1261), (1266, 1272)]"

definition hy000_ranges_2 :: "ranges" where
  "hy000_ranges_2 =
     [(1272, 1280), (1282, 1286), (1287, 1292), (1293, 1303), (1306, 1308), (1328, 1329),
      (1334, 1335), (1340, 1365), (1366, 1367), (1368, 1370), (1371, 1397), (1404, 1406),
      (1408, 1410), (1411, 1413), (1417, 1425), (1428, 1437), (1438, 1439), (1442, 1451),
      (1454, 1458), (1459, 1460), (1462, 1463), (1464, 1480)]"

definition hy000_ranges_3 :: "ranges" where
  "hy000_ranges_3 =
     [(1480, 1557), (1558, 1568), (1569, 1582), (1585, 1586), (1587, 1613), (1615, 1628)]"

definition hy000_ranges_4 :: "ranges" where
  "hy000_ranges_4 =
     [(1628, 1630), (1631, 1641), (1644, 1645), (1646, 1687), (1688, 1690), (1691, 1698),
      (1699, 1701), (1702, 1758), (1759, 1761), (1763, 1780)]"

definition hy000_ranges_5 :: "ranges" where
  "hy000_ranges_5 =
     [(1780, 1792), (1793, 1845), (1847, 1859), (1860, 1873), (1874, 1886)]"

lemma sqlstate_arms_ranges_1: "map fst sqlstate_arms_1 = map expand arm_ranges_1"
  unfolding sqlstate_arms_1_def arm_ranges_1_def error_kind_defs by (simp add: expand_def)

lemma sqlstate_arms_ranges_2: "map fst sqlstate_arms_2 = map expand arm_ranges_2"
  unfolding sqlstate_arms_2_def arm_ranges_2_def error_kind_defs by (simp add: expand_def)

lemma sqlstate_arms_ranges_3: "map fst sqlstate_arms_3 = map expand arm_ranges_3"
  unfolding sqlstate_arms_3_def arm_ranges_3_def error_kind_defs by (simp add: expand_def)

lemma hy000_ranges_pieces:
  "hy000_1 = expand hy000_ranges_1" "hy000_2 = expand hy000_ranges_2"
  "hy000_3 = expand hy000_ranges_3" "hy000_4 = expand hy000_ranges_4"
  "hy000_5 = expand hy000_ranges_5"
  unfolding hy000_1_def hy000_2_def hy000_3_def hy000_4_def hy000_5_def error_kind_defs
    hy000_ranges_1_def hy000_ranges_2_def hy000_ranges_3_def hy000_ranges_4_def hy000_ranges_5_def
  by (simp_all add: expand_def)

definition arm_ranges :: "ranges list" where
  "arm_ranges =
     arm_ranges_1 @ arm_ranges_2 @
     (hy000_ranges_1 @ hy000_ranges_2 @ hy000_ranges_3 @ hy000_ranges_4 @ hy000_ranges_5) #
     arm_ranges_3"

lemma sqlstate_arms_ranges: "map fst sqlstate_arms = map expand arm_ranges"
  unfolding sqlstate_arms_def arm_ranges_def hy000_ranges_pieces
  by (simp add: sqlstate_arms_ranges_1 sqlstate_arms_ranges_2 sqlstate_arms_ranges_3 expand_append)

lemma merged_ranges:
  "\<exists>rs. merge_adj (merge_adj (merge_adj (merge_adj (merge_adj (merge_adj arm_ranges))))) = [rs] \<and>
     contiguous 1000 rs 1886"
  unfolding arm_ranges_def arm_ranges_1_def arm_ranges_2_def arm_ranges_3_def
    hy000_ranges_1_def hy000_ranges_2_def hy000_ranges_3_def hy000_ranges_4_def hy000_ranges_5_def
  by simp

lemma mset_arms: "mset (concat (map fst sqlstate_arms)) = mset error_kinds"
proof -
  obtain rs where rs:
    "merge_adj (merge_adj (merge_adj (merge_adj (merge_adj (merge_adj arm_ranges))))) = [rs]"
    "contiguous 1000 rs 1886"
    using merged_ranges by blast
  then have "mset rs = mset (concat arm_ranges)"
    using mset_merge_adj by (metis append_Nil2 concat.simps)
  moreover have "concat (map fst sqlstate_arms) = expand (concat arm_ranges)"
    unfolding sqlstate_arms_ranges by (rule expand_concat [symmetric])
  ultimately show ?thesis
    using mset_expand contiguous_expand [OF rs(2)] by (metis error_kinds_upt)
qed

lemma find_unique_arm:
  assumes "distinct (concat (map fst arms))" "(ks, s) \<in> set arms" "k \<in> set ks"
  shows "find (\<lambda>arm. k \<in> set (fst arm)) arms = Some (ks, s)"
  using assms
proof (induction arms)
  case (Cons a arms)
  show ?case
  proof (cases "k \<in> set (fst a)")
    case True
    then have "(ks, s) \<notin> set arms" using Cons.prems by force
    with True Cons.prems show ?thesis by auto
  next
    case False
    then have "(ks, s) \<in> set arms" using Cons.prems by auto
    with Cons False show ?thesis by simp
  qed
qed simp

lemma distinct_arms: "distinct (concat (map fst sqlstate_arms))"
  using mset_eq_imp_distinct_iff [OF mset_arms] by (simp add: error_kinds_upt del: upt_rec_numeral)

lemma set_arms: "(\<Union>arm \<in> set sqlstate_arms. set (fst arm)) = set error_kinds"
  using mset_eq_setD [OF mset_arms] by simp

lemma sqlstate_arm:
  "(ks, s) \<in> set sqlstate_arms \<Longrightarrow> k \<in> set ks \<Longrightarrow> sqlstate k = Some s"
  by (simp add: sqlstate_def find_unique_arm [OF distinct_arms])

definition is_state_char :: "char \<Rightarrow> bool" where
  "is_state_char c \<longleftrightarrow> c \<in> set ''0123456789ABCDEFGHIJKLMNOPQRSTUVWXYZ''"

lemma states_well_formed:
  "list_all (\<lambda>(ks, s). length s = 5 \<and> list_all is_state_char s) sqlstate_arms"
  unfolding sqlstate_arms_def sqlstate_arms_1_def sqlstate_arms_2_def sqlstate_arms_3_def
  by (simp add: is_state_char_def)

lemma sqlstate_total:
  assumes "k \<in> set error_kinds"
  shows "\<exists>s. sqlstate k = Some s \<and> length s = 5 \<and> list_all is_state_char s"
proof -
  from assms obtain ks s where arm: "(ks, s) \<in> set sqlstate_arms" "k \<in> set ks"
    unfolding set_arms [symmetric] by auto
  with states_well_formed have "length s = 5 \<and> list_all is_state_char s"
    by (auto simp: list_all_iff)
  with sqlstate_arm [OF arm] show ?thesis by blast
qed

end
