(* ===== verification/Charset.thy ===== *)
theory Charset
  imports Prelude
begin

text \<open>
  \<open>protocol/mysql/charset.rs\<close>: the collation and character set tables. A table of the source is a
  hash map filled by a sequence of \<open>insert\<close>s, here a list of pairs inserted in order. The theorems
  say that the two collation tables are inverse to each other and relate the character set tables
  to them.
\<close>

definition insert_all :: "('k \<times> 'v) list \<Rightarrow> 'k \<rightharpoonup> 'v" where
  "insert_all kvs = foldl (\<lambda>m (k, v). m(k \<mapsto> v)) Map.empty kvs"

definition DEFAULT_COLLATION_ID :: u8 where
  "DEFAULT_COLLATION_ID = 46"

definition LATIN1DEFAULT_COLLATION_ID :: u8 where
  "LATIN1DEFAULT_COLLATION_ID = 47"

definition ASCII_DEFAULT_COLLATION_ID :: u8 where
  "ASCII_DEFAULT_COLLATION_ID = 65"

definition UTF8DEFAULT_COLLATION_ID :: u8 where
  "UTF8DEFAULT_COLLATION_ID = 83"

definition UTF8MB4_DEFAULT_COLLATION_ID :: u8 where
  "UTF8MB4_DEFAULT_COLLATION_ID = 46"

definition BINARY_DEFAULT_COLLATION_ID :: u8 where
  "BINARY_DEFAULT_COLLATION_ID = 63"

definition UTF8_MB4_GENERAL_CI :: u8 where
  "UTF8_MB4_GENERAL_CI = 45"


subsection \<open>Collations\<close>

definition collations_1 :: "(u8 \<times> string) list" where
  "collations_1 =
     [(1, ''big5_chinese_ci''),
      (2, ''latin2_czech_cs''),
      (3, ''dec8_swedish_ci''),
      (4, ''cp850_general_ci''),
      (5, ''latin1_german1_ci''),
      (6, ''hp8_english_ci''),
      (7, ''koi8r_general_ci''),
      (8, ''latin1_swedish_ci''),
      (9, ''latin2_general_ci''),
      (10, ''swe7_swedish_ci''),
      (11, ''ascii_general_ci''),
      (12, ''ujis_japanese_ci''),
      (13, ''sjis_japanese_ci''),
      (14, ''cp1251_bulgarian_ci''),
      (15, ''latin1_danish_ci''),
      (16, ''hebrew_general_ci''),
      (18, ''tis620_thai_ci''),
      (19, ''euckr_korean_ci''),
      (20, ''latin7_estonian_cs''),
      (21, ''latin2_hungarian_ci''),
      (22, ''koi8u_general_ci''),
      (23, ''cp1251_ukrainian_ci''),
      (24, ''gb2312_chinese_ci''),
      (25, ''greek_general_ci''),
      (26, ''cp1250_general_ci''),
      (27, ''latin2_croatian_ci''),
      (28, ''gbk_chinese_ci''),
      (29, ''cp1257_lithuanian_ci''),
      (30, ''latin5_turkish_ci''),
      (31, ''latin1_german2_ci''),
      (32, ''armscii8_general_ci''),
      (33, ''utf8_general_ci''),
      (34, ''cp1250_czech_cs''),
      (35, ''ucs2_general_ci''),
      (36, ''cp866_general_ci''),
      (37, ''keybcs2_general_ci''),
      (38, ''macce_general_ci''),
      (39, ''macroman_general_ci''),
      (40, ''cp852_general_ci''),
      (41, ''latin7_general_ci''),
      (42, ''latin7_general_cs''),
      (43, ''macce_bin''),
      (44, ''cp1250_croatian_ci''),
      (45, ''utf8mb4_general_ci''),
      (46, ''utf8mb4_bin''),
      (47, ''latin1_bin''),
      (48, ''latin1_general_ci''),
      (49, ''latin1_general_cs''),
      (50, ''cp1251_bin''),
      (51, ''cp1251_general_ci''),
      (52, ''cp1251_general_cs''),
      (53, ''macroman_bin''),
      (54, ''utf16_general_ci''),
      (55, ''utf16_bin''),
      (56, ''utf16le_general_ci''),
      (57, ''cp1256_general_ci''),
      (58, ''cp1257_bin''),
      (59, ''cp1257_general_ci''),
      (60, ''utf32_general_ci''),
      (61, ''utf32_bin''),
      (62, ''utf16le_bin''),
      (63, ''binary''),
      (64, ''armscii8_bin''),
      (65, ''ascii_bin''),
      (66, ''cp1250_bin''),
      (67, ''cp1256_bin''),
      (68, ''cp866_bin''),
      (69, ''dec8_bin''),
      (70, ''greek_bin''),
      (71, ''hebrew_bin''),
      (72, ''hp8_bin''),
      (73, ''keybcs2_bin''),
      (74, ''koi8r_bin''),
      (75, ''koi8u_bin''),
      (77, ''latin2_bin''),
      (78, ''latin5_bin''),
      (79, ''latin7_bin''),
      (80, ''cp850_bin''),
      (81, ''cp852_bin''),
      (82, ''swe7_bin''),
      (83, ''utf8_bin''),
      (84, ''big5_bin''),
      (85, ''euckr_bin''),
      (86, ''gb2312_bin''),
      (87, ''gbk_bin''),
      (88, ''sjis_bin''),
      (89, ''tis620_bin''),
      (90, ''ucs2_bin''),
      (91, ''ujis_bin''),
      (92, ''geostd8_general_ci''),
      (93, ''geostd8_bin''),
      (94, ''latin1_spanish_ci''),
      (95, ''cp932_japanese_ci''),
      (96, ''cp932_bin''),
      (97, ''eucjpms_japanese_ci''),
      (98, ''eucjpms_bin''),
      (99, ''cp1250_polish_ci''),
      (101, ''utf16_unicode_ci''),
      (102, ''utf16_icelandic_ci''),
      (103, ''utf16_latvian_ci''),
      (104, ''utf16_romanian_ci''),
      (105, ''utf16_slovenian_ci''),
      (106, ''utf16_polish_ci''),
      (107, ''utf16_estonian_ci''),
      (108, ''utf16_spanish_ci''),
      (109, ''utf16_swedish_ci''),
      (110, ''utf16_turkish_ci''),
      (111, ''utf16_czech_ci''),
      (112, ''utf16_danish_ci''),
      (113, ''utf16_lithuanian_ci'')]"

definition collations_2 :: "(u8 \<times> string) list" where
  "collations_2 =
     [(114, ''utf16_slovak_ci''),
      (115, ''utf16_spanish2_ci''),
      (116, ''utf16_roman_ci''),
      (117, ''utf16_persian_ci''),
      (118, ''utf16_esperanto_ci''),
      (119, ''utf16_hungarian_ci''),
      (120, ''utf16_sinhala_ci''),
      (121, ''utf16_german2_ci''),
      (122, ''utf16_croatian_ci''),
      (123, ''utf16_unicode_520_ci''),
      (124, ''utf16_vietnamese_ci''),
      (128, ''ucs2_unicode_ci''),
      (129, ''ucs2_icelandic_ci''),
      (130, ''ucs2_latvian_ci''),
      (131, ''ucs2_romanian_ci''),
      (132, ''ucs2_slovenian_ci''),
      (133, ''ucs2_polish_ci''),
      (134, ''ucs2_estonian_ci''),
      (135, ''ucs2_spanish_ci''),
      (136, ''ucs2_swedish_ci''),
      (137, ''ucs2_turkish_ci''),
      (138, ''ucs2_czech_ci''),
      (139, ''ucs2_danish_ci''),
      (140, ''ucs2_lithuanian_ci''),
      (141, ''ucs2_slovak_ci''),
      (142, ''ucs2_spanish2_ci''),
      (143, ''ucs2_roman_ci''),
      (144, ''ucs2_persian_ci''),
      (145, ''ucs2_esperanto_ci''),
      (146, ''ucs2_hungarian_ci''),
      (147, ''ucs2_sinhala_ci''),
      (148, ''ucs2_german2_ci''),
      (149, ''ucs2_croatian_ci''),
      (150, ''ucs2_unicode_520_ci''),
      (151, ''ucs2_vietnamese_ci''),
      (159, ''ucs2_general_mysql500_ci''),
      (160, ''utf32_unicode_ci''),
      (161, ''utf32_icelandic_ci''),
      (162, ''utf32_latvian_ci''),
      (163, ''utf32_romanian_ci''),
      (164, ''utf32_slovenian_ci''),
      (165, ''utf32_polish_ci''),
      (166, ''utf32_estonian_ci''),
      (167, ''utf32_spanish_ci''),
      (168, ''utf32_swedish_ci''),
      (169, ''utf32_turkish_ci''),
      (170, ''utf32_czech_ci''),
      (171, ''utf32_danish_ci''),
      (172, ''utf32_lithuanian_ci''),
      (173, ''utf32_slovak_ci''),
      (174, ''utf32_spanish2_ci''),
      (175, ''utf32_roman_ci''),
      (176, ''utf32_persian_ci''),
      (177, ''utf32_esperanto_ci''),
      (178, ''utf32_hungarian_ci''),
      (179, ''utf32_sinhala_ci''),
      (180, ''utf32_german2_ci''),
      (181, ''utf32_croatian_ci''),
      (182, ''utf32_unicode_520_ci''),
      (183, ''utf32_vietnamese_ci''),
      (192, ''utf8_unicode_ci''),
      (193, ''utf8_icelandic_ci''),
      (194, ''utf8_latvian_ci''),
      (195, ''utf8_romanian_ci''),
      (196, ''utf8_slovenian_ci''),
      (197, ''utf8_polish_ci''),
      (198, ''utf8_estonian_ci''),
      (199, ''utf8_spanish_ci''),
      (200, ''utf8_swedish_ci''),
      (201, ''utf8_turkish_ci''),
      (202, ''utf8_czech_ci''),
      (203, ''utf8_danish_ci''),
      (204, ''utf8_lithuanian_ci''),
      (205, ''utf8_slovak_ci''),
      (206, ''utf8_spanish2_ci''),
      (207, ''utf8_roman_ci''),
      (208, ''utf8_persian_ci''),
      (209, ''utf8_esperanto_ci''),
      (210, ''utf8_hungarian_ci''),
      (211, ''utf8_sinhala_ci''),
      (212, ''utf8_german2_ci''),
      (213, ''utf8_croatian_ci''),
      (214, ''utf8_unicode_520_ci''),
      (215, ''utf8_vietnamese_ci''),
      (223, ''utf8_general_mysql500_ci''),
      (224, ''utf8mb4_unicode_ci''),
      (225, ''utf8mb4_icelandic_ci''),
      (226, ''utf8mb4_latvian_ci''),
      (227, ''utf8mb4_romanian_ci''),
      (228, ''utf8mb4_slovenian_ci''),
      (229, ''utf8mb4_polish_ci''),
      (230, ''utf8mb4_estonian_ci''),
      (231, ''utf8mb4_spanish_ci''),
      (232, ''utf8mb4_swedish_ci''),
      (233, ''utf8mb4_turkish_ci''),
      (234, ''utf8mb4_czech_ci''),
      (235, ''utf8mb4_danish_ci''),
      (236, ''utf8mb4_lithuanian_ci''),
      (237, ''utf8mb4_slovak_ci''),
      (238, ''utf8mb4_spanish2_ci''),
      (239, ''utf8mb4_roman_ci''),
      (240, ''utf8mb4_persian_ci''),
      (241, ''utf8mb4_esperanto_ci''),
      (242, ''utf8mb4_hungarian_ci''),
      (243, ''utf8mb4_sinhala_ci''),
      (244, ''utf8mb4_german2_ci''),
      (245, ''utf8mb4_croatian_ci''),
      (246, ''utf8mb4_unicode_520_ci''),
      (247, ''utf8mb4_vietnamese_ci''),
      (255, ''utf8mb4_0900_ai_ci'')]"

definition collations :: "u8 \<rightharpoonup> string" where
  "collations = insert_all (collations_1 @ collations_2)"

definition collation_names_1 :: "(string \<times> u8) list" where
  "collation_names_1 =
     [(''big5_chinese_ci'', 1),
      (''latin2_czech_cs'', 2),
      (''dec8_swedish_ci'', 3),
      (''cp850_general_ci'', 4),
      (''latin1_german1_ci'', 5),
      (''hp8_english_ci'', 6),
      (''koi8r_general_ci'', 7),
      (''latin1_swedish_ci'', 8),
      (''latin2_general_ci'', 9),
      (''swe7_swedish_ci'', 10),
      (''ascii_general_ci'', 11),
      (''ujis_japanese_ci'', 12),
      (''sjis_japanese_ci'', 13),
      (''cp1251_bulgarian_ci'', 14),
      (''latin1_danish_ci'', 15),
      (''hebrew_general_ci'', 16),
      (''tis620_thai_ci'', 18),
      (''euckr_korean_ci'', 19),
      (''latin7_estonian_cs'', 20),
      (''latin2_hungarian_ci'', 21),
      (''koi8u_general_ci'', 22),
      (''cp1251_ukrainian_ci'', 23),
      (''gb2312_chinese_ci'', 24),
      (''greek_general_ci'', 25),
      (''cp1250_general_ci'', 26),
      (''latin2_croatian_ci'', 27),
      (''gbk_chinese_ci'', 28),
      (''cp1257_lithuanian_ci'', 29),
      (''latin5_turkish_ci'', 30),
      (''latin1_german2_ci'', 31),
      (''armscii8_general_ci'', 32),
      (''utf8_general_ci'', 33),
      (''cp1250_czech_cs'', 34),
      (''ucs2_general_ci'', 35),
      (''cp866_general_ci'', 36),
      (''keybcs2_general_ci'', 37),
      (''macce_general_ci'', 38),
      (''macroman_general_ci'', 39),
      (''cp852_general_ci'', 40),
      (''latin7_general_ci'', 41),
      (''latin7_general_cs'', 42),
      (''macce_bin'', 43),
      (''cp1250_croatian_ci'', 44),
      (''utf8mb4_general_ci'', 45),
      (''utf8mb4_bin'', 46),
      (''latin1_bin'', 47),
      (''latin1_general_ci'', 48),
      (''latin1_general_cs'', 49),
      (''cp1251_bin'', 50),
      (''cp1251_general_ci'', 51),
      (''cp1251_general_cs'', 52),
      (''macroman_bin'', 53),
      (''utf16_general_ci'', 54),
      (''utf16_bin'', 55),
      (''utf16le_general_ci'', 56),
      (''cp1256_general_ci'', 57),
      (''cp1257_bin'', 58),
      (''cp1257_general_ci'', 59),
      (''utf32_general_ci'', 60),
      (''utf32_bin'', 61),
      (''utf16le_bin'', 62),
      (''binary'', 63),
      (''armscii8_bin'', 64),
      (''ascii_bin'', 65),
      (''cp1250_bin'', 66),
      (''cp1256_bin'', 67),
      (''cp866_bin'', 68),
      (''dec8_bin'', 69),
      (''greek_bin'', 70),
      (''hebrew_bin'', 71),
      (''hp8_bin'', 72),
      (''keybcs2_bin'', 73),
      (''koi8r_bin'', 74),
      (''koi8u_bin'', 75),
      (''latin2_bin'', 77),
      (''latin5_bin'', 78),
      (''latin7_bin'', 79),
      (''cp850_bin'', 80),
      (''cp852_bin'', 81),
      (''swe7_bin'', 82),
      (''utf8_bin'', 83),
      (''big5_bin'', 84),
      (''euckr_bin'', 85),
      (''gb2312_bin'', 86),
      (''gbk_bin'', 87),
      (''sjis_bin'', 88),
      (''tis620_bin'', 89),
      (''ucs2_bin'', 90),
      (''ujis_bin'', 91),
      (''geostd8_general_ci'', 92),
      (''geostd8_bin'', 93),
      (''latin1_spanish_ci'', 94),
      (''cp932_japanese_ci'', 95),
      (''cp932_bin'', 96),
      (''eucjpms_japanese_ci'', 97),
      (''eucjpms_bin'', 98),
      (''cp1250_polish_ci'', 99),
      (''utf16_unicode_ci'', 101),
      (''utf16_icelandic_ci'', 102),
      (''utf16_latvian_ci'', 103),
      (''utf16_romanian_ci'', 104),
      (''utf16_slovenian_ci'', 105),
      (''utf16_polish_ci'', 106),
      (''utf16_estonian_ci'', 107),
      (''utf16_spanish_ci'', 108),
      (''utf16_swedish_ci'', 109),
      (''utf16_turkish_ci'', 110),
      (''utf16_czech_ci'', 111),
      (''utf16_danish_ci'', 112),
      (''utf16_lithuanian_ci'', 113)]"

definition collation_names_2 :: "(string \<times> u8) list" where
  "collation_names_2 =
     [(''utf16_slovak_ci'', 114),
      (''utf16_spanish2_ci'', 115),
      (''utf16_roman_ci'', 116),
      (''utf16_persian_ci'', 117),
      (''utf16_esperanto_ci'', 118),
      (''utf16_hungarian_ci'', 119),
      (''utf16_sinhala_ci'', 120),
      (''utf16_german2_ci'', 121),
      (''utf16_croatian_ci'', 122),
      (''utf16_unicode_520_ci'', 123),
      (''utf16_vietnamese_ci'', 124),
      (''ucs2_unicode_ci'', 128),
      (''ucs2_icelandic_ci'', 129),
      (''ucs2_latvian_ci'', 130),
      (''ucs2_romanian_ci'', 131),
      (''ucs2_slovenian_ci'', 132),
      (''ucs2_polish_ci'', 133),
      (''ucs2_estonian_ci'', 134),
      (''ucs2_spanish_ci'', 135),
      (''ucs2_swedish_ci'', 136),
      (''ucs2_turkish_ci'', 137),
      (''ucs2_czech_ci'', 138),
      (''ucs2_danish_ci'', 139),
      (''ucs2_lithuanian_ci'', 140),
      (''ucs2_slovak_ci'', 141),
      (''ucs2_spanish2_ci'', 142),
      (''ucs2_roman_ci'', 143),
      (''ucs2_persian_ci'', 144),
      (''ucs2_esperanto_ci'', 145),
      (''ucs2_hungarian_ci'', 146),
      (''ucs2_sinhala_ci'', 147),
      (''ucs2_german2_ci'', 148),
      (''ucs2_croatian_ci'', 149),
      (''ucs2_unicode_520_ci'', 150),
      (''ucs2_vietnamese_ci'', 151),
      (''ucs2_general_mysql500_ci'', 159),
      (''utf32_unicode_ci'', 160),
      (''utf32_icelandic_ci'', 161),
      (''utf32_latvian_ci'', 162),
      (''utf32_romanian_ci'', 163),
      (''utf32_slovenian_ci'', 164),
      (''utf32_polish_ci'', 165),
      (''utf32_estonian_ci'', 166),
      (''utf32_spanish_ci'', 167),
      (''utf32_swedish_ci'', 168),
      (''utf32_turkish_ci'', 169),
      (''utf32_czech_ci'', 170),
      (''utf32_danish_ci'', 171),
      (''utf32_lithuanian_ci'', 172),
      (''utf32_slovak_ci'', 173),
      (''utf32_spanish2_ci'', 174),
      (''utf32_roman_ci'', 175),
      (''utf32_persian_ci'', 176),
      (''utf32_esperanto_ci'', 177),
      (''utf32_hungarian_ci'', 178),
      (''utf32_sinhala_ci'', 179),
      (''utf32_german2_ci'', 180),
      (''utf32_croatian_ci'', 181),
      (''utf32_unicode_520_ci'', 182),
      (''utf32_vietnamese_ci'', 183),
      (''utf8_unicode_ci'', 192),
      (''utf8_icelandic_ci'', 193),
      (''utf8_latvian_ci'', 194),
      (''utf8_romanian_ci'', 195),
      (''utf8_slovenian_ci'', 196),
      (''utf8_polish_ci'', 197),
      (''utf8_estonian_ci'', 198),
      (''utf8_spanish_ci'', 199),
      (''utf8_swedish_ci'', 200),
      (''utf8_turkish_ci'', 201),
      (''utf8_czech_ci'', 202),
      (''utf8_danish_ci'', 203),
      (''utf8_lithuanian_ci'', 204),
      (''utf8_slovak_ci'', 205),
      (''utf8_spanish2_ci'', 206),
      (''utf8_roman_ci'', 207),
      (''utf8_persian_ci'', 208),
      (''utf8_esperanto_ci'', 209),
      (''utf8_hungarian_ci'', 210),
      (''utf8_sinhala_ci'', 211),
      (''utf8_german2_ci'', 212),
      (''utf8_croatian_ci'', 213),
      (''utf8_unicode_520_ci'', 214),
      (''utf8_vietnamese_ci'', 215),
      (''utf8_general_mysql500_ci'', 223),
      (''utf8mb4_unicode_ci'', 224),
      (''utf8mb4_icelandic_ci'', 225),
      (''utf8mb4_latvian_ci'', 226),
      (''utf8mb4_romanian_ci'', 227),
      (''utf8mb4_slovenian_ci'', 228),
      (''utf8mb4_polish_ci'', 229),
      (''utf8mb4_estonian_ci'', 230),
      (''utf8mb4_spanish_ci'', 231),
      (''utf8mb4_swedish_ci'', 232),
      (''utf8mb4_turkish_ci'', 233),
      (''utf8mb4_czech_ci'', 234),
      (''utf8mb4_danish_ci'', 235),
      (''utf8mb4_lithuanian_ci'', 236),
      (''utf8mb4_slovak_ci'', 237),
      (''utf8mb4_spanish2_ci'', 238),
      (''utf8mb4_roman_ci'', 239),
      (''utf8mb4_persian_ci'', 240),
      (''utf8mb4_esperanto_ci'', 241),
      (''utf8mb4_hungarian_ci'', 242),
      (''utf8mb4_sinhala_ci'', 243),
      (''utf8mb4_german2_ci'', 244),
      (''utf8mb4_croatian_ci'', 245),
      (''utf8mb4_unicode_520_ci'', 246),
      (''utf8mb4_vietnamese_ci'', 247),
      (''utf8mb4_0900_ai_ci'', 255)]"

definition collation_names :: "string \<rightharpoonup> u8" where
  "collation_names = insert_all (collation_names_1 @ collation_names_2)"

subsection \<open>Character sets\<close>

definition charsets_list :: "(string \<times> string) list" where
  "charsets_list =
     [(''big5'', ''big5_chinese_ci''),
      (''dec8'', ''dec8_swedish_ci''),
      (''cp850'', ''cp850_general_ci''),
      (''hp8'', ''hp8_english_ci''),
      (''koi8r'', ''koi8r_general_ci)''),
      (''latin1'', ''latin1_swedish_ci''),
      (''latin2'', ''latin2_general_ci)''),
      (''swe7'', ''swe7_swedish_ci)''),
      (''ascii'', ''ascii_general_ci)''),
      (''ujis'', ''ujis_japanese_ci''),
      (''sjis'', ''sjis_japanese_ci''),
      (''hebrew'', ''hebrew_general_ci''),
      (''tis620'', ''tis620_thai_ci''),
      (''euckr'', ''euckr_korean_ci''),
      (''koi8u'', ''koi8u_general_ci''),
      (''gb2312'', ''gb2312_chinese_ci''),
      (''greek'', ''greek_general_ci''),
      (''cp1250'', ''cp1250_general_ci''),
      (''gbk'', ''gbk_chinese_ci''),
      (''latin5'', ''latin5_turkish_ci''),
      (''armscii8'', ''armscii8_general_ci''),
      (''utf8'', ''utf8_general_ci''),
      (''ucs2'', ''ucs2_general_ci''),
      (''cp866'', ''cp866_general_ci''),
      (''keybcs2'', ''keybcs2_general_ci''),
      (''macce'', ''macce_general_ci''),
      (''macroman'', ''macroman_general_ci''),
      (''cp852'', ''cp852_general_ci''),
      (''latin7'', ''latin7_general_ci''),
      (''utf8mb4'', ''utf8mb4_general_ci''),
      (''cp1251'', ''cp1251_general_ci''),
      (''utf16'', ''utf16_general_ci''),
      (''utf16le'', ''utf16le_general_ci''),
      (''cp1256'', ''cp1256_general_ci''),
      (''cp1257'', ''cp1257_general_ci''),
      (''utf32'', ''utf32_general_ci''),
      (''binary'', ''binary''),
      (''geostd8'', ''geostd8_general_ci''),
      (''cp932'', ''cp932_japanese_ci''),
      (''eucjpms'', ''eucjpms_japanese_ci'')]"

definition charsets :: "string \<rightharpoonup> string" where
  "charsets = insert_all charsets_list"

definition charset_ids_list :: "(string \<times> u16) list" where
  "charset_ids_list =
     [(''big5'', 1),
      (''dec8'', 3),
      (''cp850'', 4),
      (''hp8'', 6),
      (''koi8r'', 7),
      (''latin1'', 8),
      (''latin2'', 9),
      (''swe7'', 10),
      (''ascii'', 11),
      (''ujis'', 12),
      (''sjis'', 13),
      (''hebrew'', 16),
      (''tis620'', 18),
      (''euckr'', 19),
      (''koi8u'', 22),
      (''gb2312'', 24),
      (''greek'', 25),
      (''cp1250'', 26),
      (''gbk'', 28),
      (''latin5'', 30),
      (''armscii8'', 32),
      (''utf8'', 33),
      (''ucs2'', 35),
      (''cp866'', 36),
      (''keybcs2'', 37),
      (''macce'', 38),
      (''macroman'', 39),
      (''cp852'', 40),
      (''latin7'', 41),
      (''utf8mb4'', 45),
      (''cp1251'', 51),
      (''utf16'', 54),
      (''utf16le'', 56),
      (''cp1256'', 57),
      (''cp1257'', 59),
      (''utf32'', 60),
      (''binary'', 63),
      (''geostd8'', 92),
      (''cp932'', 95),
      (''eucjpms'', 97)]"

definition charset_ids :: "string \<rightharpoonup> u16" where
  "charset_ids = insert_all charset_ids_list"

text \<open>
  \<open>get_charset_id\<close>: the fast path for the common names, then the table; an unknown name and an id
  that does not fit a \<open>u8\<close> panic.
\<close>

definition get_charset_id :: "string \<Rightarrow> u8 result" where
  "get_charset_id charset_name =
     (if charset_name = ''utf8mb4'' then Ok DEFAULT_COLLATION_ID
      else if charset_name = ''binary'' then Ok BINARY_DEFAULT_COLLATION_ID
      else if charset_name = ''utf8'' then Ok UTF8DEFAULT_COLLATION_ID
      else if charset_name = ''ascii'' then Ok ASCII_DEFAULT_COLLATION_ID
      else if charset_name = ''latin1'' then Ok LATIN1DEFAULT_COLLATION_ID
      else rbind (unwrap_opt (charset_ids charset_name))
             (\<lambda>id. if unat id < 256 then Ok (ucast id) else Panic))"

subsection \<open>The collation tables are inverse to each other\<close>

lemma insert_all_map_of: "distinct (map fst kvs) \<Longrightarrow> insert_all kvs = map_of kvs"
proof -
  have "foldl (\<lambda>m (k, v). m(k \<mapsto> v)) m kvs = m ++ map_of (rev kvs)" for m :: "'a \<rightharpoonup> 'b"
    by (induction kvs arbitrary: m) (auto simp: map_add_def fun_eq_iff split: option.splits)
  then have "insert_all kvs = map_of (rev kvs)" by (simp add: insert_all_def)
  moreover assume "distinct (map fst kvs)"
  ultimately show ?thesis by (metis distinct_rev map_of_inject_set rev_map set_rev)
qed

lemma collation_names_swap:
  "collation_names_1 @ collation_names_2 = map prod.swap (collations_1 @ collations_2)"
  unfolding collation_names_1_def collation_names_2_def collations_1_def collations_2_def by simp

text \<open>
  The 220 ids ascend; the names are told apart by a polynomial fingerprint, which is cheaper to
  compare than the strings.
\<close>

fun ascending :: "nat \<Rightarrow> nat list \<Rightarrow> bool" where
  "ascending n [] = True"
| "ascending n (x # xs) = (n \<le> x \<and> ascending (Suc x) xs)"

lemma ascending_distinct: "ascending n xs \<Longrightarrow> distinct xs \<and> (\<forall>x \<in> set xs. n \<le> x)"
  by (induction n xs rule: ascending.induct) fastforce+

definition fingerprint :: "string \<Rightarrow> nat" where
  "fingerprint s = foldl (\<lambda>a c. 5 * a + of_char c) 0 s"

lemma collation_ids_ascending: "ascending 0 (map (unat \<circ> fst) (collations_1 @ collations_2))"
  unfolding collations_1_def collations_2_def by simp

lemma collation_ids_distinct: "distinct (map fst (collations_1 @ collations_2))"
  using ascending_distinct [OF collation_ids_ascending] by (metis distinct_map map_map)

lemma collation_fingerprints:
  "distinct (map (fingerprint \<circ> snd) (collations_1 @ collations_2))"
  unfolding collations_1_def collations_2_def by (simp add: fingerprint_def)

lemma collation_names_distinct: "distinct (map snd (collations_1 @ collations_2))"
  using collation_fingerprints by (metis distinct_map map_map)

lemma collations_Some:
  "collations i = Some name \<longleftrightarrow> (i, name) \<in> set (collations_1 @ collations_2)"
  unfolding collations_def insert_all_map_of [OF collation_ids_distinct]
  by (rule map_of_eq_Some_iff [OF collation_ids_distinct])

lemma collation_names_Some:
  "collation_names name = Some i \<longleftrightarrow> (i, name) \<in> set (collations_1 @ collations_2)"
proof -
  have d: "distinct (map fst (collation_names_1 @ collation_names_2))"
    unfolding collation_names_swap map_map using collation_names_distinct by (simp add: comp_def)
  show ?thesis
    unfolding collation_names_def insert_all_map_of [OF d] map_of_eq_Some_iff [OF d]
    unfolding collation_names_swap by (force simp: prod.swap_def)
qed

lemma collations_inverse: "collations i = Some name \<longleftrightarrow> collation_names name = Some i"
  by (simp only: collations_Some collation_names_Some)

subsection \<open>Character sets\<close>

lemma charset_keys: "map fst charset_ids_list = map fst charsets_list"
  unfolding charset_ids_list_def charsets_list_def by simp

lemma charset_ids_ascending: "ascending 0 (map (unat \<circ> snd) charset_ids_list)"
  unfolding charset_ids_list_def by simp

lemma charset_keys_distinct: "distinct (map fst charset_ids_list)"
proof -
  have "distinct (map (fingerprint \<circ> fst) charset_ids_list)"
    unfolding charset_ids_list_def by (simp add: fingerprint_def)
  then show ?thesis by (metis distinct_map map_map)
qed

lemma charset_ids_map_of: "charset_ids = map_of charset_ids_list"
  unfolding charset_ids_def by (rule insert_all_map_of [OF charset_keys_distinct])

lemma charsets_map_of: "charsets = map_of charsets_list"
  unfolding charsets_def
  by (rule insert_all_map_of) (metis charset_keys charset_keys_distinct)

text \<open>
  Four collation names of \<open>charsets\<close> end in a stray parenthesis and name no collation; the other
  thirty-six are the collation whose id \<open>charset_ids\<close> gives.
\<close>

definition misspelt :: "string list" where
  "misspelt = [''koi8r'', ''latin2'', ''swe7'', ''ascii'']"

definition repaired :: "string \<times> string \<Rightarrow> string" where
  "repaired = (\<lambda>(cs, name). if cs \<in> set misspelt then butlast name else name)"

lemma charset_table_check:
  "subseq (zip (map (ucast \<circ> snd) charset_ids_list) (map repaired charsets_list)) collations_1"
  unfolding charset_ids_list_def charsets_list_def collations_1_def misspelt_def repaired_def
  by simp

lemma charset_misspelt_check:
  "list_all (\<lambda>(cs, name). cs \<in> set misspelt \<longrightarrow> last name = CHR '')'') charsets_list"
  unfolding charsets_list_def misspelt_def by simp

lemma collation_names_no_paren:
  "list_all (\<lambda>(i, name). last name \<noteq> CHR '')'') (collations_1 @ collations_2)"
  unfolding collations_1_def collations_2_def by simp

lemma paren_no_collation:
  assumes "last name = CHR '')''"
  shows "collation_names name = None"
proof (cases "collation_names name")
  case (Some i)
  then have "(i, name) \<in> set (collations_1 @ collations_2)" by (simp only: collation_names_Some)
  with collation_names_no_paren have "last name \<noteq> CHR '')''"
    by (force simp: list_all_iff)
  with assms show ?thesis by contradiction
qed

lemma subseq_member: "subseq xs ys \<Longrightarrow> x \<in> set xs \<Longrightarrow> x \<in> set ys"
  by (erule list_emb_set) auto

lemma charset_entry:
  assumes "charset_ids cs = Some i"
  obtains name where "charsets cs = Some name" "(cs, name) \<in> set charsets_list"
    "(ucast i, repaired (cs, name)) \<in> set (collations_1 @ collations_2)"
proof -
  let ?n = "length charset_ids_list"
  have len: "length charsets_list = ?n" using charset_keys by (metis length_map)
  from assms obtain j where j: "j < ?n" "charset_ids_list ! j = (cs, i)"
    unfolding charset_ids_map_of using map_of_SomeD by (metis in_set_conv_nth)
  obtain name where name: "charsets_list ! j = (cs, name)"
    using charset_keys j len by (metis fst_conv nth_map surj_pair)
  then have mem: "(cs, name) \<in> set charsets_list" using j len by (metis nth_mem)
  have "distinct (map fst charsets_list)" by (metis charset_keys charset_keys_distinct)
  with mem have "charsets cs = Some name" unfolding charsets_map_of by (metis map_of_eq_Some_iff)
  moreover have "(ucast i, repaired (cs, name)) \<in>
      set (zip (map (ucast \<circ> snd) charset_ids_list) (map repaired charsets_list))"
    using j name len by (auto simp: in_set_zip intro!: exI [of _ j])
  then have "(ucast i, repaired (cs, name)) \<in> set collations_1"
    by (rule subseq_member [OF charset_table_check])
  ultimately show thesis using that mem by auto
qed

lemma charset_tables:
  assumes "charset_ids cs = Some i"
  shows "\<exists>name. charsets cs = Some name \<and>
    (if cs \<in> set misspelt
     then collation_names name = None \<and> collation_names (butlast name) = Some (ucast i)
     else collation_names name = Some (ucast i))"
proof -
  obtain name where name: "charsets cs = Some name" "(cs, name) \<in> set charsets_list"
    "(ucast i, repaired (cs, name)) \<in> set (collations_1 @ collations_2)"
    by (rule charset_entry [OF assms])
  show ?thesis
  proof (cases "cs \<in> set misspelt")
    case True
    then have "last name = CHR '')''"
      using charset_misspelt_check name(2) by (auto simp: list_all_iff)
    then have "collation_names name = None" by (rule paren_no_collation)
    with True name show ?thesis by (auto simp: repaired_def collation_names_Some)
  next
    case False
    with name show ?thesis by (auto simp: repaired_def collation_names_Some)
  qed
qed

text \<open>
  \<open>get_charset_id\<close> answers exactly for the known names, with the id of \<open>charset_ids\<close> except on the
  fast path, whose five constants are the ids of the binary collations.
\<close>

definition fast_path :: "(string \<times> u8) list" where
  "fast_path = [(''utf8mb4'', 46), (''binary'', 63), (''utf8'', 83), (''ascii'', 65), (''latin1'', 47)]"

lemmas fast_path_ids = DEFAULT_COLLATION_ID_def BINARY_DEFAULT_COLLATION_ID_def
  UTF8DEFAULT_COLLATION_ID_def ASCII_DEFAULT_COLLATION_ID_def LATIN1DEFAULT_COLLATION_ID_def

lemma get_charset_id_eq:
  "get_charset_id cs =
     (case map_of fast_path cs of
        Some i \<Rightarrow> Ok i
      | None \<Rightarrow> (case charset_ids cs of Some i \<Rightarrow> Ok (ucast i) | None \<Rightarrow> Panic))"
proof -
  have "list_all (\<lambda>(cs, i). unat i < 256) charset_ids_list"
    unfolding charset_ids_list_def by simp
  then have "charset_ids cs = Some i \<Longrightarrow> unat i < 256" for i
    unfolding charset_ids_map_of list_all_iff using map_of_SomeD by fastforce
  then show ?thesis
    by (cases "charset_ids cs") (simp_all add: get_charset_id_def fast_path_def fast_path_ids)
qed

lemma fast_path_known: "list_all (\<lambda>(cs, i). cs \<in> dom charset_ids) fast_path"
  unfolding charset_ids_map_of dom_map_of_conv_image_fst charset_ids_list_def fast_path_def by simp

lemma fast_path_collations:
  "subseq [(46, ''utf8mb4_bin''), (47, ''latin1_bin''), (63, ''binary''), (65, ''ascii_bin''),
     (83, ''utf8_bin'')] collations_1"
  unfolding collations_1_def by simp

lemma fast_path_bin:
  "list_all (\<lambda>(cs, i). collation_names (if cs = ''binary'' then cs else cs @ ''_bin'') = Some i) fast_path"
  using subseq_member [OF fast_path_collations]
  unfolding collation_names_Some fast_path_def by simp

end
