(* ===== verification/Writers.thy ===== *)
theory Writers
  imports Basic ErrorCodes Charset
begin

text \<open>
  \<open>protocol/mysql/packet/writers.rs\<close> with \<open>default_capabilities\<close> of \<open>server/mod.rs\<close>: the packets the
  proxy itself composes. A writer function appends its fields to the packet buffer and ends the
  packet; the lemmas give the payload each one sends, whatever the sink does with the vectored
  writes, and that the parsers of \<open>Basic\<close> read the payloads back.
\<close>

subsection \<open>Data\<close>

text \<open>The column types and flags are numbers of \<open>mysql_common\<close>.\<close>

record Column =
  col_table :: rstr
  col_column :: rstr
  col_type :: u8
  col_flags :: u16

definition CONN_ID :: u32 where
  "CONN_ID = word_of_nat (le_val [0x08, 0x00, 0x00, 0x00])"

definition default_capabilities :: "mysql_common \<Rightarrow> u32" where
  "default_capabilities M =
     foldl (OR) 0 (map (cap_bits M)
       [CLIENT_CAN_HANDLE_EXPIRED_PASSWORDS, CLIENT_CONNECT_ATTRS, CLIENT_CONNECT_WITH_DB,
        CLIENT_DEPRECATE_EOF, CLIENT_FOUND_ROWS, CLIENT_IGNORE_SIGPIPE, CLIENT_IGNORE_SPACE,
        CLIENT_INTERACTIVE, CLIENT_LOCAL_FILES, CLIENT_LONG_FLAG, CLIENT_LONG_PASSWORD,
        CLIENT_MULTI_RESULTS, CLIENT_MULTI_STATEMENTS, CLIENT_NO_SCHEMA, CLIENT_ODBC,
        CLIENT_OPTIONAL_RESULTSET_METADATA, CLIENT_PLUGIN_AUTH,
        CLIENT_PLUGIN_AUTH_LENENC_CLIENT_DATA, CLIENT_PROTOCOL_41, CLIENT_PS_MULTI_RESULTS,
        CLIENT_REMEMBER_OPTIONS, CLIENT_RESERVED, CLIENT_SECURE_CONNECTION, CLIENT_SESSION_TRACK,
        CLIENT_TRANSACTIONS])"

subsection \<open>Writers\<close>

text \<open>Consecutive \<open>write_u8\<close>, \<open>write_all\<close>, ... on the packet buffer; they cannot fail.\<close>

definition puts :: "bytes list \<Rightarrow> packet_writer \<Rightarrow> packet_writer" where
  "puts bss w = foldl (\<lambda>w bs. put bs w) w bss"

text \<open>Every value of the enum has a state (theorem \<open>sqlstate_total\<close>), so the \<open>None\<close> case is void.\<close>

definition sqlstate_bytes :: "ErrorKind \<Rightarrow> bytes" where
  "sqlstate_bytes err = (case sqlstate err of Some s \<Rightarrow> ascii s | None \<Rightarrow> [])"

definition write_err_packet ::
  "byteorder \<Rightarrow> ErrorKind \<Rightarrow> bytes \<Rightarrow> packet_writer \<Rightarrow> unit result \<times> packet_writer" where
  "write_err_packet B err msg w =
     end_packet B (puts [[0xff], bo_write_u16 B (word_of_nat err), ascii ''#'', sqlstate_bytes err, msg] w)"

definition write_err ::
  "byteorder \<Rightarrow> ErrorKind \<Rightarrow> bytes \<Rightarrow> packet_writer \<Rightarrow> unit result \<times> packet_writer" where
  "write_err B err msg w =
     end_packet B (puts [[0xff], bo_write_u16 B (word_of_nat err), ascii ''#'', sqlstate_bytes err, msg] w)"

definition write_eof_packet ::
  "byteorder \<Rightarrow> u16 \<Rightarrow> packet_writer \<Rightarrow> unit result \<times> packet_writer" where
  "write_eof_packet B s w = end_packet B (puts [[0xfe, 0x00, 0x00], bo_write_u16 B s] w)"

definition write_ok_packet ::
  "byteorder \<Rightarrow> mysql_common \<Rightarrow> u64 \<Rightarrow> u64 \<Rightarrow> u16 \<Rightarrow> packet_writer \<Rightarrow> unit result \<times> packet_writer" where
  "write_ok_packet B M rows last_insert_id s w =
     end_packet B
       (puts [[0x00], lenenc_int M rows, lenenc_int M last_insert_id, bo_write_u16 B s, [0x00, 0x00]] w)"

text \<open>The fields that depend on the client's capabilities.\<close>

definition ok_status_part :: "byteorder \<Rightarrow> mysql_common \<Rightarrow> u32 \<Rightarrow> OkPacket \<Rightarrow> bytes list" where
  "ok_status_part B M caps ok =
     (if has_cap M caps CLIENT_PROTOCOL_41 then [bo_write_u16 B (ok_status_flags ok), [0x00, 0x00]]
      else if has_cap M caps CLIENT_TRANSACTIONS then [bo_write_u16 B (ok_status_flags ok)]
      else [])"

definition ok_info_part :: "mysql_common \<Rightarrow> u32 \<Rightarrow> OkPacket \<Rightarrow> bytes list" where
  "ok_info_part M caps ok =
     (if has_cap M caps CLIENT_SESSION_TRACK then
        lenenc_str M (utf8_encode (ok_info ok)) #
        (if has_status M (ok_status_flags ok) SERVER_SESSION_STATE_CHANGED
         then [lenenc_str M (utf8_encode (ok_session_state_info ok))] else [])
      else [utf8_encode (ok_info ok)])"

definition ok_fields :: "byteorder \<Rightarrow> mysql_common \<Rightarrow> u32 \<Rightarrow> OkPacket \<Rightarrow> bytes list" where
  "ok_fields B M caps ok =
     [[ok_header ok], lenenc_int M (ok_affected_rows ok), lenenc_int M (ok_last_insert_id ok)] @
     ok_status_part B M caps ok @ ok_info_part M caps ok"

definition write_ok_packet_with_client_flags ::
  "byteorder \<Rightarrow> mysql_common \<Rightarrow> u32 \<Rightarrow> OkPacket \<Rightarrow> packet_writer \<Rightarrow> unit result \<times> packet_writer" where
  "write_ok_packet_with_client_flags B M caps ok w = end_packet B (puts (ok_fields B M caps ok) w)"

text \<open>One column definition packet.\<close>

definition column_fields :: "byteorder \<Rightarrow> mysql_common \<Rightarrow> bool \<Rightarrow> Column \<Rightarrow> bytes list" where
  "column_fields B M is_com_field_list c =
     [lenenc_str M (ascii ''def''), lenenc_str M [], lenenc_str M (utf8_encode (col_table c)),
      lenenc_str M [], lenenc_str M (utf8_encode (col_column c)), lenenc_str M [],
      lenenc_int M 0xC, bo_write_u16 B 33, bo_write_u32 B 1024, [col_type c],
      bo_write_u16 B (col_flags c), [0x00], [0x00, 0x00]] @
     (if is_com_field_list then [[0xfb]] else [])"

fun write_columns ::
  "byteorder \<Rightarrow> mysql_common \<Rightarrow> bool \<Rightarrow> Column list \<Rightarrow> packet_writer \<Rightarrow> unit result \<times> packet_writer" where
  "write_columns B M fl [] w = (Ok (), w)"
| "write_columns B M fl (c # cs) w =
     bind_io (\<lambda>w. end_packet B (puts (column_fields B M fl c) w))
       (\<lambda>_. write_columns B M fl cs) w"

definition write_column_definitions_41 ::
  "byteorder \<Rightarrow> mysql_common \<Rightarrow> Column list \<Rightarrow> u32 \<Rightarrow> bool \<Rightarrow> packet_writer \<Rightarrow> unit result \<times> packet_writer" where
  "write_column_definitions_41 B M cs caps is_com_field_list =
     bind_io (write_columns B M is_com_field_list cs) (\<lambda>_.
       if \<not> has_cap M caps CLIENT_DEPRECATE_EOF then write_eof_packet B 0 else return_io ())"

definition write_column_definitions ::
  "byteorder \<Rightarrow> mysql_common \<Rightarrow> Column list \<Rightarrow> u32 \<Rightarrow> packet_writer \<Rightarrow> unit result \<times> packet_writer" where
  "write_column_definitions B M cs caps =
     bind_io (\<lambda>w. end_packet B (puts [lenenc_int M (word_of_nat (length cs))] w)) (\<lambda>_.
       write_column_definitions_41 B M cs caps False)"

definition write_prepare_ok ::
  "byteorder \<Rightarrow> mysql_common \<Rightarrow> u32 \<Rightarrow> Column list \<Rightarrow> Column list \<Rightarrow> u32 \<Rightarrow> packet_writer \<Rightarrow>
   unit result \<times> packet_writer" where
  "write_prepare_ok B M stmt_id params columns caps =
     bind_io
       (\<lambda>w. end_packet B
          (puts [[0x00], bo_write_u32 B stmt_id, bo_write_u16 B (word_of_nat (length columns)),
                 bo_write_u16 B (word_of_nat (length params)), [0x00], bo_write_u16 B 0] w)) (\<lambda>_.
     bind_io
       (if 0 < length params then write_column_definitions_41 B M params caps False else return_io ()) (\<lambda>_.
     bind_io
       (if 0 < length columns then write_column_definitions_41 B M columns caps False else return_io ()) (\<lambda>_.
     return_io ())))"

text \<open>
  The fields of the initial handshake; \<open>tls\<close> says whether the server has a TLS configuration. The
  scramble is an array of twenty bytes.
\<close>

definition initial_handshake_fields :: "mysql_common \<Rightarrow> u64 \<Rightarrow> bytes \<Rightarrow> bytes \<Rightarrow> bool \<Rightarrow> bytes list" where
  "initial_handshake_fields M conn_id scramble server_version tls =
     (let server_capabilities =
            (if tls then default_capabilities M OR cap_bits M CLIENT_SSL else default_capabilities M);
          caps_vec = le_bytes 4 (unat server_capabilities) in
      [[10], server_version, [0x00],
       [ucast conn_id, ucast (drop_bit 8 conn_id), ucast (drop_bit 16 conn_id), ucast (drop_bit 24 conn_id)],
       take AUTH_PLUGIN_DATA_PART_1_LENGTH scramble, [0x00],
       take 2 caps_vec, [DEFAULT_COLLATION_ID],
       le_bytes 2 (unat (status_bits M SERVER_STATUS_AUTOCOMMIT)),
       drop 2 caps_vec, [word_of_nat (length scramble + 1)], replicate 10 0x00,
       drop AUTH_PLUGIN_DATA_PART_1_LENGTH scramble, [0x00],
       ascii (auth_plugin_as_ref AuthNativePassword), [0x00]])"

definition write_initial_handshake ::
  "byteorder \<Rightarrow> mysql_common \<Rightarrow> u64 \<Rightarrow> bytes \<Rightarrow> bytes \<Rightarrow> bool \<Rightarrow> packet_writer \<Rightarrow> unit result \<times> packet_writer" where
  "write_initial_handshake B M conn_id scramble server_version tls =
     bind_io
       (\<lambda>w. end_packet B (puts (initial_handshake_fields M conn_id scramble server_version tls) w))
       (\<lambda>_. flush_all)"

definition write_query_request :: "byteorder \<Rightarrow> bytes \<Rightarrow> packet_writer \<Rightarrow> unit result \<times> packet_writer" where
  "write_query_request B data w = end_packet B (puts [[command_code ComQuery], data] w)"

definition write_reset_connection :: "byteorder \<Rightarrow> packet_writer \<Rightarrow> unit result \<times> packet_writer" where
  "write_reset_connection B =
     bind_io (\<lambda>w. end_packet B (puts [[command_code ComResetConnection], bo_write_u32 B CONN_ID] w))
       (\<lambda>_. flush_all)"

subsection \<open>What a writer function sends\<close>

text \<open>The frames of consecutive payloads; the sequence number runs on.\<close>

fun wires :: "u8 \<Rightarrow> bytes list \<Rightarrow> bytes" where
  "wires s [] = []"
| "wires s (p # ps) = wire s p @ wires (s + word_of_nat (wire_count p)) ps"

definition wires_count :: "bytes list \<Rightarrow> nat" where
  "wires_count ps = sum_list (map wire_count ps)"

lemma wires_append: "wires s (ps @ qs) = wires s ps @ wires (s + word_of_nat (wires_count ps)) qs"
  by (induction ps arbitrary: s) (simp_all add: wires_count_def algebra_simps)

text \<open>
  \<open>emits m ps\<close>: on a writer with an empty buffer and a sink whose writes do not fail, \<open>m\<close> succeeds
  and exactly the payloads \<open>ps\<close> go out, framed and numbered from the writer's sequence number.
\<close>

definition emits :: "(packet_writer \<Rightarrow> unit result \<times> packet_writer) \<Rightarrow> bytes list \<Rightarrow> bool" where
  "emits m ps \<longleftrightarrow> (\<forall>w. wr_buf w = [] \<and> no_fail (sk_plan (wr_inner w)) \<longrightarrow>
     (\<exists>w'. m w = (Ok (), w') \<and> wr_buf w' = [] \<and> no_fail (sk_plan (wr_inner w')) \<and>
        wr_seq w' = wr_seq w + word_of_nat (wires_count ps) \<and>
        sk_sent (wr_inner w') = sk_sent (wr_inner w) @ wires (wr_seq w) ps))"

lemma emitsD:
  assumes "emits m ps" "wr_buf w = []" "no_fail (sk_plan (wr_inner w))"
  obtains w' where "m w = (Ok (), w')" "wr_buf w' = []" "no_fail (sk_plan (wr_inner w'))"
    "wr_seq w' = wr_seq w + word_of_nat (wires_count ps)"
    "sk_sent (wr_inner w') = sk_sent (wr_inner w) @ wires (wr_seq w) ps"
  using assms unfolding emits_def by blast

lemma emits_return: "emits (return_io ()) []"
  by (simp add: emits_def return_io_def wires_count_def)

lemma emits_Ok: "emits (\<lambda>w. (Ok (), w)) []"
  by (simp add: emits_def wires_count_def)

lemma emits_bind:
  assumes "emits m ps" "emits m' qs"
  shows "emits (bind_io m (\<lambda>_. m')) (ps @ qs)"
  unfolding emits_def
proof (intro allI impI, elim conjE)
  fix w :: packet_writer assume w: "wr_buf w = []" "no_fail (sk_plan (wr_inner w))"
  obtain w1 where w1: "m w = (Ok (), w1)" "wr_buf w1 = []" "no_fail (sk_plan (wr_inner w1))"
    "wr_seq w1 = wr_seq w + word_of_nat (wires_count ps)"
    "sk_sent (wr_inner w1) = sk_sent (wr_inner w) @ wires (wr_seq w) ps"
    by (rule emitsD [OF assms(1) w])
  obtain w2 where w2: "m' w1 = (Ok (), w2)" "wr_buf w2 = []" "no_fail (sk_plan (wr_inner w2))"
    "wr_seq w2 = wr_seq w1 + word_of_nat (wires_count qs)"
    "sk_sent (wr_inner w2) = sk_sent (wr_inner w1) @ wires (wr_seq w1) qs"
    by (rule emitsD [OF assms(2) w1(2,3)])
  show "\<exists>w'. bind_io m (\<lambda>_. m') w = (Ok (), w') \<and> wr_buf w' = [] \<and> no_fail (sk_plan (wr_inner w')) \<and>
      wr_seq w' = wr_seq w + word_of_nat (wires_count (ps @ qs)) \<and>
      sk_sent (wr_inner w') = sk_sent (wr_inner w) @ wires (wr_seq w) (ps @ qs)"
    using w1 w2 by (intro exI [of _ w2]) (simp add: step_simps wires_append wires_count_def)
qed

lemma emits_bind_Nil: "emits m ps \<Longrightarrow> emits m' [] \<Longrightarrow> emits (bind_io m (\<lambda>_. m')) ps"
  using emits_bind [of m ps m' "[]"] by simp

lemma emits_flush: "emits flush_all []"
  unfolding emits_def
proof (intro allI impI, elim conjE)
  fix w :: packet_writer assume "no_fail (sk_plan (wr_inner w))" "wr_buf w = []"
  then show "\<exists>w'. flush_all w = (Ok (), w') \<and> wr_buf w' = [] \<and> no_fail (sk_plan (wr_inner w')) \<and>
      wr_seq w' = wr_seq w + word_of_nat (wires_count []) \<and>
      sk_sent (wr_inner w') = sk_sent (wr_inner w) @ wires (wr_seq w) []"
    using no_fail_Cons
    by (cases "sk_plan (wr_inner w)") (force simp: flush_all_def sink_flush_def wires_count_def)+
qed

lemma puts_eq: "puts bss w = w\<lparr>wr_buf := wr_buf w @ concat bss\<rparr>"
  by (induction bss arbitrary: w) (simp_all add: puts_def put_def)

context byteorder_spec
begin

lemma emits_packet:
  assumes "concat bss \<noteq> []"
  shows "emits (\<lambda>w. end_packet B (puts bss w)) [concat bss]"
  unfolding emits_def
proof (intro allI impI, elim conjE)
  fix w :: packet_writer assume w: "wr_buf w = []" "no_fail (sk_plan (wr_inner w))"
  let ?w = "puts bss w"
  have "wr_buf ?w \<noteq> []" "no_fail (sk_plan (wr_inner ?w))" using assms w by (simp_all add: puts_eq)
  then obtain k where k: "end_packet B ?w =
      (Ok (), ?w\<lparr>wr_buf := [], wr_seq := wr_seq ?w + word_of_nat (wire_count (wr_buf ?w)), wr_inner := k\<rparr>)"
    "sk_sent k = sk_sent (wr_inner ?w) @ wire (wr_seq ?w) (wr_buf ?w)" "no_fail (sk_plan k)"
    using end_packet_sends [of ?w] by blast
  show "\<exists>w'. end_packet B ?w = (Ok (), w') \<and> wr_buf w' = [] \<and> no_fail (sk_plan (wr_inner w')) \<and>
      wr_seq w' = wr_seq w + word_of_nat (wires_count [concat bss]) \<and>
      sk_sent (wr_inner w') = sk_sent (wr_inner w) @ wires (wr_seq w) [concat bss]"
    unfolding k(1) using k(2,3) w(1) by (simp add: puts_eq wires_count_def)
qed

end

subsection \<open>The payloads\<close>

text \<open>What \<open>ok_packet\<close> makes of an OK packet that was written for the same capabilities.\<close>

definition ok_read_back :: "mysql_common \<Rightarrow> u32 \<Rightarrow> OkPacket \<Rightarrow> OkPacket" where
  "ok_read_back M caps ok =
     ok\<lparr>ok_warnings := 0,
        ok_info := (if cap_set caps CLIENT_SESSION_TRACK then ok_info ok else []),
        ok_session_state_info :=
          (if cap_set caps CLIENT_SESSION_TRACK \<and> has_status M (ok_status_flags ok) SERVER_SESSION_STATE_CHANGED
           then ok_session_state_info ok else [])\<rparr>"

definition ok_wf :: "OkPacket \<Rightarrow> bool" where
  "ok_wf ok \<longleftrightarrow> attr_ok (ok_info ok) \<and> attr_ok (ok_session_state_info ok)"

lemma le_bytes_numeral:
  "le_bytes (numeral k) v = word_of_nat (v mod 256) # le_bytes (pred_numeral k) (v div 256)"
  by (simp only: numeral_eq_Suc le_bytes.simps)

locale protocol_spec = codec_spec W M + byteorder_spec B for W M B
begin

lemma has_cap_iff_set: "has_cap M caps c \<longleftrightarrow> cap_set caps c"
  by (simp add: has_cap_iff cap_set_def)

lemma emits_single:
  assumes "concat bss = p" "p \<noteq> []"
  shows "emits (\<lambda>w. end_packet B (puts bss w)) [p]"
  using emits_packet [of bss] assms by simp

lemma emits_eof_packet:
  "emits (write_eof_packet B s) [[0xfe, 0x00, 0x00] @ le_bytes 2 (unat s)]"
  unfolding write_eof_packet_def by (rule emits_single) (simp_all add: write_u16)

lemma emits_err_packet:
  assumes "sqlstate err = Some st" "err < 2 ^ 16"
  shows "emits (write_err_packet B err msg) [0xff # le_bytes 2 err @ ascii (''#'' @ st) @ msg]"
proof -
  have "unat (word_of_nat err :: u16) = err" using assms(2) by (simp add: unat_of_nat)
  with assms(1) show ?thesis
    unfolding write_err_packet_def
    by (intro emits_single) (simp_all add: write_u16 sqlstate_bytes_def ascii_def)
qed

lemma emits_ok_packet_with_client_flags:
  "emits (write_ok_packet_with_client_flags B M caps ok) [concat (ok_fields B M caps ok)]"
  unfolding write_ok_packet_with_client_flags_def
  by (rule emits_single) (simp_all add: ok_fields_def)

lemma emits_ok_packet:
  "emits (write_ok_packet B M rows last_insert_id s)
     [0x00 # lenenc_doc (unat rows) @ lenenc_doc (unat last_insert_id) @ le_bytes 2 (unat s) @ [0, 0]]"
  unfolding write_ok_packet_def by (rule emits_single) (simp_all add: write_u16 lenenc_int)

lemma emits_query_request: "emits (write_query_request B d) [command_code ComQuery # d]"
  unfolding write_query_request_def by (rule emits_single) simp_all

lemma emits_reset_connection:
  "emits (write_reset_connection B) [[0x1f, 0x08, 0x00, 0x00, 0x00]]"
  unfolding write_reset_connection_def
  by (rule emits_bind_Nil [OF _ emits_flush], rule emits_single)
    (simp_all add: write_u32 CONN_ID_def le_bytes_numeral)

lemma emits_initial_handshake:
  "emits (write_initial_handshake B M conn_id scramble version tls)
     [concat (initial_handshake_fields M conn_id scramble version tls)]"
  unfolding write_initial_handshake_def
  by (rule emits_bind_Nil [OF _ emits_flush], rule emits_single)
    (simp_all add: initial_handshake_fields_def Let_def)

lemma lenenc_doc_not_Nil: "lenenc_doc n \<noteq> []"
  by (simp add: lenenc_doc_def)

lemma emits_columns:
  "emits (write_columns B M fl cs) (map (\<lambda>c. concat (column_fields B M fl c)) cs)"
proof (induction cs)
  case Nil
  then show ?case using emits_Ok by (simp add: write_columns.simps)
next
  case (Cons c cs)
  have "emits (\<lambda>w. end_packet B (puts (column_fields B M fl c) w)) [concat (column_fields B M fl c)]"
    by (rule emits_single) (simp_all add: column_fields_def)
  from emits_bind [OF this Cons] show ?case by (simp add: write_columns.simps [abs_def])
qed

lemma emits_column_definitions_41:
  "emits (write_column_definitions_41 B M cs caps fl)
     (map (\<lambda>c. concat (column_fields B M fl c)) cs @
      (if cap_set caps CLIENT_DEPRECATE_EOF then [] else [[0xfe, 0x00, 0x00, 0x00, 0x00]]))"
  unfolding write_column_definitions_41_def has_cap_iff_set
  using emits_bind [OF emits_columns emits_eof_packet [of 0]]
    emits_bind_Nil [OF emits_columns emits_return]
  by (simp add: le_bytes_numeral)

lemma emits_column_definitions:
  assumes "length cs < 2 ^ 64"
  shows "emits (write_column_definitions B M cs caps)
     (lenenc_doc (length cs) # map (\<lambda>c. concat (column_fields B M False c)) cs @
      (if cap_set caps CLIENT_DEPRECATE_EOF then [] else [[0xfe, 0x00, 0x00, 0x00, 0x00]]))"
proof -
  have "unat (word_of_nat (length cs) :: u64) = length cs" using assms by (simp add: unat_of_nat)
  then have "emits (\<lambda>w. end_packet B (puts [lenenc_int M (word_of_nat (length cs))] w))
      [lenenc_doc (length cs)]"
    by (intro emits_single) (simp_all add: lenenc_int lenenc_doc_not_Nil)
  from emits_bind [OF this emits_column_definitions_41 [of cs caps False]]
  show ?thesis unfolding write_column_definitions_def by simp
qed

lemma emits_prepare_ok:
  assumes "length columns < 2 ^ 16" "length params < 2 ^ 16"
  shows "emits (write_prepare_ok B M stmt_id params columns caps)
     ((0x00 # le_bytes 4 (unat stmt_id) @ le_bytes 2 (length columns) @ le_bytes 2 (length params) @
         [0x00, 0x00, 0x00]) #
      (if params = [] then [] else
         map (\<lambda>c. concat (column_fields B M False c)) params @
         (if cap_set caps CLIENT_DEPRECATE_EOF then [] else [[0xfe, 0x00, 0x00, 0x00, 0x00]])) @
      (if columns = [] then [] else
         map (\<lambda>c. concat (column_fields B M False c)) columns @
         (if cap_set caps CLIENT_DEPRECATE_EOF then [] else [[0xfe, 0x00, 0x00, 0x00, 0x00]])))"
proof -
  have n: "unat (word_of_nat (length columns) :: u16) = length columns"
    "unat (word_of_nat (length params) :: u16) = length params"
    using assms by (simp_all add: unat_of_nat)
  have hd: "emits (\<lambda>w. end_packet B
          (puts [[0x00], bo_write_u32 B stmt_id, bo_write_u16 B (word_of_nat (length columns)),
                 bo_write_u16 B (word_of_nat (length params)), [0x00], bo_write_u16 B 0] w))
      [0x00 # le_bytes 4 (unat stmt_id) @ le_bytes 2 (length columns) @ le_bytes 2 (length params) @
         [0x00, 0x00, 0x00]]"
    by (rule emits_single) (simp_all add: write_u16 write_u32 n le_bytes_numeral [of _ 0])
  have cols: "emits (if 0 < length cs then write_column_definitions_41 B M cs caps False else return_io ())
      (if cs = [] then [] else
         map (\<lambda>c. concat (column_fields B M False c)) cs @
         (if cap_set caps CLIENT_DEPRECATE_EOF then [] else [[0xfe, 0x00, 0x00, 0x00, 0x00]]))" for cs
    using emits_column_definitions_41 [of cs caps False] emits_return by (simp split: if_splits)
  from emits_bind [OF hd emits_bind [OF cols [of params] emits_bind_Nil [OF cols [of columns] emits_return]]]
  show ?thesis unfolding write_prepare_ok_def by simp
qed

lemma default_capabilities_set: "cap_set (default_capabilities M) c \<longleftrightarrow> c \<noteq> CLIENT_SSL"
  by (cases c) (simp_all add: cap_set_def default_capabilities_def cap_bits)

text \<open>An EOF packet is read back by \<open>eof_server_status\<close>.\<close>

lemma eof_server_status_round_trip:
  "eof_server_status W M ([0xfe, 0x00, 0x00] @ le_bytes 2 (unat s)) = Done [] (status_from_bits_truncate M s)"
  using le_u16_bytes [of s "[]"] by (simp add: eof_server_status_def)

lemma read_lenenc_string:
  assumes "length v < 2 ^ 64"
  shows "read_length_encoded_number W (lenenc_str M v @ i) = Done (v @ i) (word_of_nat (length v))"
  using assms by (simp add: lenenc_str read_length_encoded_number_doc)

lemma ok_payload_round_trip:
  assumes "cap_set caps CLIENT_PROTOCOL_41" "ok_wf ok"
  shows "\<exists>r. ok_packet W M (concat (ok_fields B M caps ok)) caps = Done r (ok_read_back M caps ok)"
proof -
  let ?i = "utf8_encode (ok_info ok)" and ?s = "utf8_encode (ok_session_state_info ok)"
  let ?rest = "concat (ok_info_part M caps ok)"
  have wf: "length ?i < 2 ^ 64" "length ?s < 2 ^ 64" "utf8_or_empty ?i = ok_info ok"
    "utf8_or_empty ?s = ok_session_state_info ok"
    using assms(2) by (simp_all add: ok_wf_def attr_ok_def utf8_or_empty_def utf8_decode_encode)
  have n: "unat (word_of_nat (length ?i) :: u64) = length ?i" "unat (word_of_nat (length ?s) :: u64) = length ?s"
    using wf(1,2) by (simp_all add: unat_of_nat)
  have lenenc: "read_length_encoded_number W (lenenc_int M x @ i) = Done i x" for x i
    using read_length_encoded_number_doc [of "unat x" i] unsigned_less [of x] by (simp add: lenenc_int)
  have two: "w_le_u16 W (0 # 0 # i) = Done i 0" for i
    using le_u16_bytes [of 0 i] by (simp add: le_bytes_numeral)
  have ne: "lenenc_str M ?i \<noteq> []" using wf(1) by (simp add: lenenc_str lenenc_doc_not_Nil)
  have take: "w_take W (length v) (v @ i) = Done i v" for v i by (rule take_append) simp
  note str = read_lenenc_string [OF wf(1)] read_lenenc_string [OF wf(1), of "[]", simplified]
    read_lenenc_string [OF wf(2), of "[]", simplified]
  have "ok_packet W M (concat (ok_fields B M caps ok)) caps = Done ?rest (ok_read_back M caps ok)"
    using assms(1) ne
    by (simp add: ok_packet_def ok_fields_def ok_status_part_def ok_info_part_def ok_read_back_def
        has_cap_iff_set le_u8 lenenc write_u16 le_u16_bytes two str wf n take take [of _ "[]", simplified])
  then show ?thesis by blast
qed

end

interpretation protocol_ref: protocol_spec winnow_ref mysql_common_ref byteorder_ref
  by unfold_locales

end
