(* ===== verification/Session.thy ===== *)
theory Session
  imports Writers
begin

text \<open>
  The state of one proxied connection, the macro \<open>async_packet_read!\<close> of \<open>packet_reader.rs\<close> and the
  helper methods of the trait \<open>ComForwarder\<close> (\<open>server/forwarder/mod.rs\<close>). A peer that sends whole,
  short packets is described by the list of packets its reader delivers; on such peers forwarding a
  packet copies its bytes unchanged.
\<close>

subsection \<open>State\<close>

text \<open>The reader and the writer of the client and of the backend.\<close>

record session =
  ss_client_reader :: packet_reader
  ss_client_writer :: packet_writer
  ss_backend_reader :: packet_reader
  ss_backend_writer :: packet_writer

datatype peer = Client | Backend

fun reader_of :: "peer \<Rightarrow> session \<Rightarrow> packet_reader" where
  "reader_of Client s = ss_client_reader s"
| "reader_of Backend s = ss_backend_reader s"

fun writer_of :: "peer \<Rightarrow> session \<Rightarrow> packet_writer" where
  "writer_of Client s = ss_client_writer s"
| "writer_of Backend s = ss_backend_writer s"

fun set_reader :: "peer \<Rightarrow> packet_reader \<Rightarrow> session \<Rightarrow> session" where
  "set_reader Client r s = s\<lparr>ss_client_reader := r\<rparr>"
| "set_reader Backend r s = s\<lparr>ss_backend_reader := r\<rparr>"

fun set_writer :: "peer \<Rightarrow> packet_writer \<Rightarrow> session \<Rightarrow> session" where
  "set_writer Client w s = s\<lparr>ss_client_writer := w\<rparr>"
| "set_writer Backend w s = s\<lparr>ss_backend_writer := w\<rparr>"

text \<open>Run a reader or a writer operation on one side of the session.\<close>

definition on_reader :: "peer \<Rightarrow> (packet_reader, 'a) io \<Rightarrow> (session, 'a) io" where
  "on_reader p f s = (let (res, r) = f (reader_of p s) in (res, set_reader p r s))"

definition on_writer :: "peer \<Rightarrow> (packet_writer, 'a) io \<Rightarrow> (session, 'a) io" where
  "on_writer p f s = (let (res, w) = f (writer_of p s) in (res, set_writer p w s))"

subsection \<open>Operations\<close>

text \<open>\<open>async_packet_read!\<close>: the end of the stream is an error.\<close>

definition async_packet_read :: "winnow \<Rightarrow> bool \<Rightarrow> peer \<Rightarrow> (session, u8 \<times> bytes) io" where
  "async_packet_read W chk p =
     bind_io (on_reader p (next_async W chk)) (\<lambda>pkt.
       case pkt of
         Some sp \<Rightarrow> return_io sp
       | None \<Rightarrow> fail_io (Err (IoError ConnectionAborted ''connection disconnect.'')))"

text \<open>\<open>set_seq\<close>, \<open>write_all\<close> and \<open>end_packet\<close>.\<close>

definition send_packet :: "byteorder \<Rightarrow> peer \<Rightarrow> u8 \<Rightarrow> bytes \<Rightarrow> (session, unit) io" where
  "send_packet B p seq pkt = on_writer p (\<lambda>w. end_packet B (put pkt (set_seq seq w)))"

definition flush_peer :: "peer \<Rightarrow> (session, unit) io" where
  "flush_peer p = on_writer p flush_all"

definition forward_one_packet ::
  "winnow \<Rightarrow> byteorder \<Rightarrow> bool \<Rightarrow> peer \<Rightarrow> peer \<Rightarrow> bool \<Rightarrow> (session, bytes) io" where
  "forward_one_packet W B chk dest src is_flush =
     bind_io (async_packet_read W chk src) (\<lambda>(seq, src_rsp).
     bind_io (send_packet B dest seq src_rsp) (\<lambda>_.
     bind_io (if is_flush then flush_peer dest else return_io ()) (\<lambda>_.
     return_io src_rsp)))"

text \<open>
  The packets of \<open>mysql_common\<close> the proxy rewrites, as the values its methods build: the methods
  \<open>with_...\<close> of \<open>ComChangeUser\<close> and \<open>ComChangeUserMoreData\<close> set one field, their \<open>new\<close> leaves all optional fields
  out, and the accessors of \<open>HandshakeResponse\<close> read one. An authentication plugin is its name. Reading
  and writing the packets, and the constructor of \<open>HandshakeResponse\<close>, are the library's:
  \<open>mysql_packets\<close> is a parameter (\<open>None\<close> where \<open>deserialize\<close> fails).
\<close>

record change_user_more_data =
  md_character_set :: u16
  md_auth_plugin :: "bytes option"
  md_connect_attributes :: "(rstr \<rightharpoonup> rstr) option"

record change_user =
  cu_user :: "bytes option"
  cu_auth_plugin_data :: "bytes option"
  cu_database :: "bytes option"
  cu_more_data :: "change_user_more_data option"

record lib_handshake =
  lh_scramble_buf :: bytes
  lh_server_version :: "u16 \<times> u8 \<times> u8"
  lh_user :: "bytes option"
  lh_db_name :: "bytes option"
  lh_auth_plugin :: "bytes option"
  lh_capabilities :: u32
  lh_connect_attributes :: "(rstr \<rightharpoonup> rstr) option"
  lh_max_packet_size :: u32

record mysql_packets =
  change_user_deserialize :: "u32 \<Rightarrow> bytes \<Rightarrow> change_user option"
  change_user_serialize :: "change_user \<Rightarrow> bytes"
  handshake_deserialize :: "bytes \<Rightarrow> lib_handshake option"
  handshake_new :: "bytes option \<Rightarrow> u16 \<times> u8 \<times> u8 \<Rightarrow> bytes option \<Rightarrow> bytes option \<Rightarrow> bytes option \<Rightarrow> u32 \<Rightarrow>
    (rstr \<rightharpoonup> rstr) option \<Rightarrow> u32 \<Rightarrow> lib_handshake"
  handshake_serialize :: "lib_handshake \<Rightarrow> bytes"

definition more_data_new :: "u16 \<Rightarrow> change_user_more_data" where
  "more_data_new character_set =
     \<lparr>md_character_set = character_set, md_auth_plugin = None, md_connect_attributes = None\<rparr>"

definition com_change_user_new :: change_user where
  "com_change_user_new = \<lparr>cu_user = None, cu_auth_plugin_data = None, cu_database = None, cu_more_data = None\<rparr>"

definition unknown_plugin :: bytes where
  "unknown_plugin = ascii (auth_plugin_as_ref UnKnowPluginName)"

text \<open>
  The client's COM_CHANGE_USER, stripped of its authentication data and given a collation and a plugin;
  and the one the proxy makes for a connection it uses again.
\<close>

definition change_user_rewrite :: "mysql_packets \<Rightarrow> u32 \<Rightarrow> u16 \<Rightarrow> bytes \<Rightarrow> bytes \<Rightarrow> bytes option" where
  "change_user_rewrite P client_capability collation plugin client_packet =
     map_option (\<lambda>com_change_user.
       let change_user_more_data = (more_data_new collation)\<lparr>md_auth_plugin := Some plugin\<rparr>;
           updated_change_user_com = com_change_user
             \<lparr>cu_auth_plugin_data := None, cu_more_data := Some change_user_more_data\<rparr> in
       change_user_serialize P updated_change_user_com)
     (change_user_deserialize P client_capability client_packet)"

definition change_user_new :: "mysql_packets \<Rightarrow> bytes option \<Rightarrow> bytes option \<Rightarrow> u16 \<Rightarrow> bytes \<Rightarrow> bytes" where
  "change_user_new P username database character_set plugin =
     change_user_serialize P
       (com_change_user_new
          \<lparr>cu_user := username, cu_database := database,
           cu_more_data := Some ((more_data_new character_set)\<lparr>md_auth_plugin := Some plugin\<rparr>)\<rparr>)"

text \<open>What goes to the backend for a client packet: nothing for \<open>ComQuit\<close>.\<close>

definition backend_packet ::
  "mysql_packets \<Rightarrow> CommandCode \<Rightarrow> HandshakeResponse \<Rightarrow> bytes \<Rightarrow> bytes option result" where
  "backend_packet P com_code handshake client_packet =
     (case com_code of
        ComQuit \<Rightarrow> Ok None
      | ComChangeUser \<Rightarrow>
          rbind
            (unwrap_opt (change_user_rewrite P (hs_client_flag handshake) (hs_collation handshake)
               unknown_plugin client_packet))
            (\<lambda>pkt. Ok (Some pkt))
      | _ \<Rightarrow> Ok (Some client_packet))"

definition write_to_backend ::
  "byteorder \<Rightarrow> mysql_packets \<Rightarrow> u8 \<Rightarrow> CommandCode \<Rightarrow> HandshakeResponse \<Rightarrow> bytes \<Rightarrow> (session, unit) io" where
  "write_to_backend B P seq com_code handshake client_packet =
     bind_io (fail_io (backend_packet P com_code handshake client_packet)) (\<lambda>pkt_option.
       case pkt_option of
         Some pkt \<Rightarrow> bind_io (send_packet B Backend seq pkt) (\<lambda>_. flush_peer Backend)
       | None \<Rightarrow> return_io ())"

text \<open>\<open>parse_err_packet!\<close>: the packet is only logged, but it must deserialize.\<close>

definition parse_err_packet :: "mysql_common \<Rightarrow> u32 \<Rightarrow> bytes \<Rightarrow> (session, unit) io" where
  "parse_err_packet M capabilities pkt =
     (case err_message M capabilities pkt of
        Some msg \<Rightarrow> return_io ()
      | None \<Rightarrow> fail_io Panic)"

subsection \<open>Every packet read makes the reader smaller\<close>

definition reader_size :: "packet_reader \<Rightarrow> nat" where
  "reader_size r = rd_remaining r + stream_size (rd_r r)"

lemma read_more_reader_size:
  assumes "read_more b r = (Ok n, r')"
  shows "reader_size r' = reader_size r"
proof -
  have "rd_remaining r' = rd_remaining r + n"
    using assms by (auto simp: read_more_def Let_def make_room_def split: if_splits prod.splits result.splits)
  with read_more_size [OF assms] show ?thesis by (simp add: reader_size_def)
qed

lemma read_more_no_diverge: "fst (read_more b r) \<noteq> Diverge"
  by (auto simp: read_more_def Let_def split: prod.splits result.splits)

context winnow_spec
begin

lemma next_loop_size:
  "next_loop W chk b r = (Ok (Some sp), r') \<Longrightarrow> reader_size r' < reader_size r"
proof (induction "stream_size (rd_r r)" arbitrary: b r rule: less_induct)
  case less
  let ?live = "take (rd_remaining r) (drop (rd_start r) (rd_bytes r))"
  define parse where
    "parse = (if rd_remaining r \<noteq> 0 then packet W chk ?live else ParseErr Incomplete)"
  note eq = less.prems [unfolded next_loop.simps [of W chk b r], folded parse_def]
  show ?case
  proof (cases parse)
    case (Done rest p)
    then have "packet W chk ?live = Done rest p" by (simp add: parse_def split: if_splits)
    then have "length rest + 4 \<le> rd_remaining r" using packet_suffix [of chk ?live rest p] by simp
    moreover have "r' = (if 0 < length rest
        then r\<lparr>rd_bytes := rest, rd_start := 0, rd_remaining := length rest\<rparr>
        else r\<lparr>rd_remaining := 0\<rparr>)"
      using eq Done by simp
    ultimately show ?thesis by (auto simp: reader_size_def)
  next
    case (ParseErr e)
    obtain res r2 where rm: "read_more b r = (res, r2)" by (cases "read_more b r")
    with eq ParseErr obtain n where n: "res = Ok n" "0 < n"
      "next_loop W chk PACKET_LARGE_BUFFER_SIZE r2 = (Ok (Some sp), r')"
      by (cases e; cases res) (auto simp: Let_def split: if_splits)
    have "stream_size (rd_r r2) < stream_size (rd_r r)" using read_more_size rm n by fastforce
    from less.hyps [OF this n(3)] show ?thesis using read_more_reader_size rm n(1) by simp
  next
    case ParsePanic
    with eq show ?thesis by simp
  qed
qed

lemma next_async_size:
  assumes "next_async W chk r = (Ok (Some sp), r')"
  shows "reader_size r' < reader_size r"
proof -
  let ?r = "r\<lparr>rd_start := length (rd_bytes r) - rd_remaining r\<rparr>"
  have "next_loop W chk PACKET_BUFFER_SIZE ?r = (Ok (Some sp), r')"
    using assms by (simp add: next_async_def split: if_splits)
  then show ?thesis using next_loop_size by (fastforce simp: reader_size_def)
qed

lemma next_loop_no_diverge: "fst (next_loop W chk b r) \<noteq> Diverge"
proof (induction "stream_size (rd_r r)" arbitrary: b r rule: less_induct)
  case less
  obtain res r2 where rm: "read_more b r = (res, r2)" by (cases "read_more b r")
  have nd: "res \<noteq> Diverge" using read_more_no_diverge [of b r] rm by simp
  have ih: "fst (next_loop W chk b' r2) \<noteq> Diverge" if "res = Ok n" "n \<noteq> 0" for n b'
    using less.hyps [of r2 b'] read_more_size [of b r n r2] rm that by simp
  show ?case
    unfolding next_loop.simps [of W chk b r] using rm nd ih
    by (auto simp: Let_def split: iresult.splits err_mode.splits result.splits)
qed

lemma next_async_no_diverge: "fst (next_async W chk r) \<noteq> Diverge"
  using next_loop_no_diverge by (simp add: next_async_def)

end

lemma set_reader_simps [simp]:
  "reader_of p (set_reader p r s) = r"
  "p \<noteq> q \<Longrightarrow> reader_of p (set_reader q r s) = reader_of p s"
  "writer_of p (set_reader q r s) = writer_of p s"
  "writer_of p (set_writer p w s) = w"
  "p \<noteq> q \<Longrightarrow> writer_of p (set_writer q w s) = writer_of p s"
  "reader_of p (set_writer q w s) = reader_of p s"
  by (cases p; cases q; simp)+

subsection \<open>Peers that send whole, short packets\<close>

text \<open>
  The packets a reader will deliver: the stream does not fail, every payload fits one frame, and the
  peer closes the connection after the last packet.
\<close>

definition frame_bytes :: "(u8 \<times> bytes) list \<Rightarrow> bytes" where
  "frame_bytes ps = concat (map (\<lambda>(q, p). frame q p) ps)"

definition delivers :: "packet_reader \<Rightarrow> (u8 \<times> bytes) list \<Rightarrow> bool" where
  "delivers r ps \<longleftrightarrow>
     reader_ok r \<and> pending r = frame_bytes ps \<and> list_all (\<lambda>(q, p). length p < MAX_PAYLOAD_LEN) ps"

definition open_writer :: "packet_writer \<Rightarrow> bool" where
  "open_writer w \<longleftrightarrow> wr_buf w = [] \<and> sk_plan (wr_inner w) = []"

definition sent_to :: "peer \<Rightarrow> session \<Rightarrow> bytes" where
  "sent_to p s = sk_sent (wr_inner (writer_of p s))"

text \<open>
  \<open>moved src dest ps s s'\<close>: from \<open>s\<close> to \<open>s'\<close> the packets \<open>ps\<close> went out to \<open>dest\<close>, byte for byte, and
  nothing but the reader of \<open>src\<close> and the writer of \<open>dest\<close> changed.
\<close>

definition moved :: "peer \<Rightarrow> peer \<Rightarrow> (u8 \<times> bytes) list \<Rightarrow> session \<Rightarrow> session \<Rightarrow> bool" where
  "moved src dest ps s s' \<longleftrightarrow>
     open_writer (writer_of dest s') \<and> sent_to dest s' = sent_to dest s @ frame_bytes ps \<and>
     (\<forall>p. p \<noteq> src \<longrightarrow> reader_of p s' = reader_of p s) \<and>
     (\<forall>p. p \<noteq> dest \<longrightarrow> writer_of p s' = writer_of p s)"

lemma frame_bytes_Nil [simp]: "frame_bytes [] = []"
  by (simp add: frame_bytes_def)

lemma frame_bytes_Cons [simp]: "frame_bytes ((q, p) # ps) = frame q p @ frame_bytes ps"
  by (simp add: frame_bytes_def)

lemma frame_bytes_append [simp]: "frame_bytes (ps @ qs) = frame_bytes ps @ frame_bytes qs"
  by (simp add: frame_bytes_def)

lemma moved_refl: "open_writer (writer_of dest s) \<Longrightarrow> moved src dest [] s s"
  by (simp add: moved_def)

lemma moved_trans:
  "moved src dest ps s s1 \<Longrightarrow> moved src dest qs s1 s2 \<Longrightarrow> moved src dest (ps @ qs) s s2"
  by (simp add: moved_def)

lemma moved_open: "moved src dest ps s s' \<Longrightarrow> open_writer (writer_of dest s')"
  by (simp add: moved_def)

lemma flush_peer_open:
  assumes "open_writer (writer_of dest s)"
  obtains s' where "flush_peer dest s = (Ok (), s')" "moved src dest [] s s'"
    "reader_of src s' = reader_of src s"
  using assms flush_all_open [of "writer_of dest s"] that
  by (auto simp: flush_peer_def on_writer_def open_writer_def moved_def sent_to_def)

context winnow_spec
begin

lemma next_async_delivers:
  assumes "delivers r ((q, p) # ps)"
  obtains r' where "next_async W chk r = (Ok (Some (q, p)), r')" "delivers r' ps"
proof -
  have d: "reader_ok r" "pending r = frame q p @ frame_bytes ps" "length p < MAX_PAYLOAD_LEN"
    using assms by (auto simp: delivers_def)
  then have "packet W chk (pending r) = Done (frame_bytes ps) (q, p)"
    using packet_wire_small [of p chk q] wire_small by metis
  from next_async_Done [OF d(1) this] that assms show thesis by (auto simp: delivers_def)
qed

lemma next_async_delivers_Nil:
  assumes "delivers r []"
  obtains r' where "next_async W chk r = (Ok None, r')" "delivers r' []"
  using next_async_eof [of r chk] assms that by (auto simp: delivers_def)

lemma async_packet_read_delivers:
  assumes "delivers (reader_of src s) ((q, p) # ps)"
  obtains r' where "async_packet_read W chk src s = (Ok (q, p), set_reader src r' s)" "delivers r' ps"
proof -
  obtain r' where "next_async W chk (reader_of src s) = (Ok (Some (q, p)), r')" "delivers r' ps"
    using next_async_delivers [OF assms] by blast
  with that show thesis
    by (simp add: async_packet_read_def on_reader_def bind_io_def return_io_def)
qed

lemma async_packet_read_closed:
  assumes "delivers (reader_of src s) []"
  obtains r' where "async_packet_read W chk src s =
      (Err (IoError ConnectionAborted ''connection disconnect.''), set_reader src r' s)" "delivers r' []"
proof -
  obtain r' where "next_async W chk (reader_of src s) = (Ok None, r')" "delivers r' []"
    using next_async_delivers_Nil [OF assms] by blast
  with that show thesis
    by (simp add: async_packet_read_def on_reader_def bind_io_def fail_io_def)
qed

end

locale net_spec = winnow_spec W + byteorder_spec B for W B
begin

lemma send_packet_wire:
  assumes "open_writer (writer_of dest s)"
  obtains w' where "send_packet B dest q p s = (Ok (), set_writer dest w' s)" "open_writer w'"
    "sk_sent (wr_inner w') = sent_to dest s @ wire q p" "wr_seq w' = q + word_of_nat (wire_count p)"
proof -
  let ?w = "put p (set_seq q (writer_of dest s))"
  have buf: "wr_buf ?w = p" and inner: "wr_inner ?w = wr_inner (writer_of dest s)" and seq: "wr_seq ?w = q"
    using assms by (simp_all add: put_def set_seq_def open_writer_def)
  have "sk_plan (wr_inner ?w) = []" using assms inner by (simp add: open_writer_def)
  from end_packet_open [OF this] obtain w' where w': "end_packet B ?w = (Ok (), w')" "wr_buf w' = []"
    "sk_plan (wr_inner w') = []" "sk_sent (wr_inner w') = sk_sent (wr_inner ?w) @ wire (wr_seq ?w) (wr_buf ?w)"
    "wr_seq w' = wr_seq ?w + word_of_nat (wire_count (wr_buf ?w))"
    by blast
  show thesis
    by (rule that [of w'])
      (use w' buf inner seq in \<open>simp_all add: send_packet_def on_writer_def open_writer_def sent_to_def\<close>)
qed

lemma send_packet_open:
  assumes "open_writer (writer_of dest s)" "length p < MAX_PAYLOAD_LEN"
  obtains w' where "send_packet B dest q p s = (Ok (), set_writer dest w' s)" "open_writer w'"
    "sk_sent (wr_inner w') = sent_to dest s @ frame q p" "wr_seq w' = q + word_of_nat (wire_count p)"
  using send_packet_wire [OF assms(1)] wire_small [OF assms(2)] that by metis

text \<open>
  A packet of several frames is read as one payload, under the number of its last frame, and written as
  frames that are numbered from there.
\<close>

lemma forward_one_packet_wire:
  assumes "reader_ok (reader_of src s)" "pending (reader_of src s) = wire q p @ rest"
    and "p = [] \<or> length p mod MAX_PAYLOAD_LEN \<noteq> 0" "\<not> chk \<or> unat q + length p div MAX_PAYLOAD_LEN \<le> 256"
    and "open_writer (writer_of dest s)"
  obtains s' where "forward_one_packet W B chk dest src fl s = (Ok p, s')"
    "sent_to dest s' = sent_to dest s @ wire (q + word_of_nat (length p div MAX_PAYLOAD_LEN)) p"
    "reader_ok (reader_of src s')" "pending (reader_of src s') = rest" "open_writer (writer_of dest s')"
proof -
  let ?q = "q + word_of_nat (length p div MAX_PAYLOAD_LEN) :: u8"
  have "packet W chk (pending (reader_of src s)) = Done rest (?q, p)"
    using packet_wire [OF assms(3,4)] by (simp add: assms(2))
  from next_async_Done [OF assms(1) this] obtain r' where
    r': "next_async W chk (reader_of src s) = (Ok (Some (?q, p)), r')" "reader_ok r'" "pending r' = rest" by blast
  then have r: "async_packet_read W chk src s = (Ok (?q, p), set_reader src r' s)"
    by (simp add: async_packet_read_def on_reader_def bind_io_def return_io_def)
  let ?s1 = "set_reader src r' s"
  obtain w' where w: "send_packet B dest ?q p ?s1 = (Ok (), set_writer dest w' ?s1)" "open_writer w'"
    "sk_sent (wr_inner w') = sent_to dest ?s1 @ wire ?q p"
    using send_packet_wire [of dest ?s1 ?q p] assms(5) by auto
  let ?s2 = "set_writer dest w' ?s1"
  have s2: "sent_to dest ?s2 = sent_to dest s @ wire ?q p" using w(3) by (simp add: sent_to_def)
  obtain s3 where f: "flush_peer dest ?s2 = (Ok (), s3)" "moved src dest [] ?s2 s3"
    "reader_of src s3 = reader_of src ?s2"
    using flush_peer_open [of dest ?s2 src] w(2) by auto
  show thesis
  proof (cases fl)
    case True
    then have "forward_one_packet W B chk dest src fl s = (Ok p, s3)"
      using r w(1) f(1) by (simp add: forward_one_packet_def bind_io_def return_io_def)
    then show thesis using that [of s3] f(2,3) s2 r' by (simp add: moved_def)
  next
    case False
    then have "forward_one_packet W B chk dest src fl s = (Ok p, ?s2)"
      using r w(1) by (simp add: forward_one_packet_def bind_io_def return_io_def)
    then show thesis using that [of ?s2] s2 r' w(2) by simp
  qed
qed

text \<open>Forwarding a packet copies its frame and consumes it.\<close>

lemma forward_one_packet_moves:
  assumes "delivers (reader_of src s) ((q, p) # ps)" "open_writer (writer_of dest s)"
  obtains s' where "forward_one_packet W B chk dest src fl s = (Ok p, s')" "moved src dest [(q, p)] s s'"
    "delivers (reader_of src s') ps"
proof -
  have len: "length p < MAX_PAYLOAD_LEN" using assms(1) by (simp add: delivers_def)
  obtain r' where r: "async_packet_read W chk src s = (Ok (q, p), set_reader src r' s)" "delivers r' ps"
    by (rule async_packet_read_delivers [OF assms(1)])
  let ?s1 = "set_reader src r' s"
  obtain w' where w: "send_packet B dest q p ?s1 = (Ok (), set_writer dest w' ?s1)" "open_writer w'"
    "sk_sent (wr_inner w') = sent_to dest ?s1 @ frame q p"
    using send_packet_open [of dest ?s1 p q] assms(2) len by auto
  let ?s2 = "set_writer dest w' ?s1"
  have m: "moved src dest [(q, p)] s ?s2" using w(2,3) by (simp add: moved_def sent_to_def)
  obtain s3 where f: "flush_peer dest ?s2 = (Ok (), s3)" "moved src dest [] ?s2 s3"
    "reader_of src s3 = reader_of src ?s2"
    using flush_peer_open [of dest ?s2 src] w(2) by auto
  show thesis
  proof (cases fl)
    case True
    have "forward_one_packet W B chk dest src fl s = (Ok p, s3)"
      using r(1) w(1) f(1) True by (simp add: forward_one_packet_def bind_io_def return_io_def)
    then show thesis using that [of s3] moved_trans [OF m f(2)] f(3) r(2) by simp
  next
    case False
    have "forward_one_packet W B chk dest src fl s = (Ok p, ?s2)"
      using r(1) w(1) False by (simp add: forward_one_packet_def bind_io_def return_io_def)
    then show thesis using that [of ?s2] m r(2) by simp
  qed
qed

lemma forward_one_packet_closed:
  assumes "delivers (reader_of src s) []" "open_writer (writer_of dest s)"
  obtains s' where "forward_one_packet W B chk dest src fl s =
      (Err (IoError ConnectionAborted ''connection disconnect.''), s')"
    "moved src dest [] s s'" "delivers (reader_of src s') []"
proof -
  obtain r' where "async_packet_read W chk src s =
      (Err (IoError ConnectionAborted ''connection disconnect.''), set_reader src r' s)" "delivers r' []"
    by (rule async_packet_read_closed [OF assms(1)])
  then show thesis
    using that [of "set_reader src r' s"] assms(2)
    by (simp add: forward_one_packet_def bind_io_def moved_def sent_to_def)
qed

end

interpretation net_ref: net_spec winnow_ref byteorder_ref
  by unfold_locales

end
