(* ===== verification/Auth.thy ===== *)
theory Auth
  imports Forwarder
begin

text \<open>
  \<open>server/auth/mod.rs\<close> and \<open>server/auth/authenticator.rs\<close>: salts and hexadecimal decoding, and the
  connection phase. The proxy greets the client itself, then makes the backend ask the client for
  fresh authentication data by naming an unknown plugin, and relays the exchange.
\<close>

subsection \<open>Salts, hexadecimal strings, digests\<close>

definition fix_salt_byte :: "u8 \<Rightarrow> u8" where
  "fix_salt_byte b = (if b = 0 \<or> b = 0x24 then b + 1 else b)"

definition default_salt :: bytes where
  "default_salt = map fix_salt_byte (take SCRAMBLE_SIZE (ascii '';X,po_k}>o6^Wz!/kM}N''))"

text \<open>\<open>gen_user_salt\<close>: \<open>draws\<close> are the twenty results of \<open>gen_range(0..127)\<close>.\<close>

definition gen_user_salt :: "nat list \<Rightarrow> bytes" where
  "gen_user_salt draws = map (\<lambda>n. fix_salt_byte (word_of_nat n)) (take SCRAMBLE_SIZE draws)"

definition val :: "u8 \<Rightarrow> nat \<Rightarrow> u8 result" where
  "val c idx =
     (if 65 \<le> unat c \<and> unat c \<le> 70 then Ok (c - 65 + 10)
      else if 97 \<le> unat c \<and> unat c \<le> 102 then Ok (c - 97 + 10)
      else if 48 \<le> unat c \<and> unat c \<le> 57 then Ok (c - 48)
      else Err (IoError InvalidData (''Invalid hex character '' @ map char_of (digits idx))))"

text \<open>\<open>try_collect\<close> over the pairs: the first error ends it.\<close>

fun decode_pairs :: "nat \<Rightarrow> bytes list \<Rightarrow> bytes result" where
  "decode_pairs i [] = Ok []"
| "decode_pairs i (pair # ps) =
     rbind (val (pair ! 0) (2 * i)) (\<lambda>hi.
     rbind (val (pair ! 1) (2 * i + 1)) (\<lambda>lo.
     rbind (decode_pairs (Suc i) ps) (\<lambda>bs. Ok ((push_bit 4 hi OR lo) # bs))))"

definition hex_string_decode :: "bytes \<Rightarrow> bytes result" where
  "hex_string_decode data =
     (if length data mod 2 \<noteq> 0
      then Err (IoError InvalidData ''Input hex string's length needs to be even, as two digits correspond to one byte.'')
      else decode_pairs 0 (chunks 2 data))"

text \<open>\<open>zip\<close> stops at the shorter argument; the rest of \<open>left\<close> stays.\<close>

fun xor_bytes :: "bytes \<Rightarrow> bytes \<Rightarrow> bytes" where
  "xor_bytes (l # ls) (r # rs) = (l XOR r) # xor_bytes ls rs"
| "xor_bytes ls rs = ls"

text \<open>The digests of the crates \<open>sha1\<close> and \<open>sha2\<close>; \<open>copy_from_slice\<close> panics on another length.\<close>

record digests =
  sha1_digest :: "bytes \<Rightarrow> bytes"
  sha256_digest :: "bytes \<Rightarrow> bytes"

definition to_u8_32 :: "bytes \<Rightarrow> bytes result" where
  "to_u8_32 bs = (if length bs = 32 then Ok bs else Panic)"

definition sha256_1 :: "digests \<Rightarrow> bytes \<Rightarrow> bytes result" where
  "sha256_1 D bs = to_u8_32 (sha256_digest D bs)"

definition sha256_2 :: "digests \<Rightarrow> bytes \<Rightarrow> bytes \<Rightarrow> bytes result" where
  "sha256_2 D bs1 bs2 = to_u8_32 (sha256_digest D (bs1 @ bs2))"

definition sha1_1 :: "digests \<Rightarrow> bytes \<Rightarrow> bytes" where
  "sha1_1 D bs = sha1_digest D bs"

definition sha1_2 :: "digests \<Rightarrow> bytes \<Rightarrow> bytes \<Rightarrow> bytes" where
  "sha1_2 D bs1 bs2 = sha1_digest D (bs1 @ bs2)"

subsection \<open>ProxyAuthenticator\<close>

definition AUTH_SWITCH_REQUEST :: u8 where
  "AUTH_SWITCH_REQUEST = 0xfe"

definition DEFAULT_BACKEND_VERSION :: bytes where
  "DEFAULT_BACKEND_VERSION = ascii ''11.1.2-MariaDB-1:11.1.2+maria~ubu2204''"

text \<open>Send a packet with a given sequence number and flush.\<close>

definition relay :: "byteorder \<Rightarrow> peer \<Rightarrow> u8 \<Rightarrow> bytes \<Rightarrow> (session, unit) io" where
  "relay B p seq pkt = bind_io (send_packet B p seq pkt) (\<lambda>_. flush_peer p)"

text \<open>\<open>pkt[0]\<close> panics on an empty packet; the assertion panics on another first byte.\<close>

definition assert_auth_switch :: "bytes \<Rightarrow> unit result" where
  "assert_auth_switch pkt = (if pkt \<noteq> [] \<and> pkt ! 0 = AUTH_SWITCH_REQUEST then Ok () else Panic)"

definition auth_verdict :: "mysql_common \<Rightarrow> bytes \<Rightarrow> unit result" where
  "auth_verdict M be_auth_pkt =
     (if be_auth_pkt = [] then Panic
      else if be_auth_pkt ! 0 = header_u8 ErrHeader then
        (case err_message M (default_capabilities M) be_auth_pkt of
           None \<Rightarrow> Panic
         | Some msg \<Rightarrow>
             (case utf8_decode msg of
                None \<Rightarrow> Panic
              | Some s \<Rightarrow> Err (IoError PermissionDenied ''server error'')))
      else Ok ())"

definition process_auth_switch_plugin ::
  "winnow \<Rightarrow> byteorder \<Rightarrow> mysql_common \<Rightarrow> bool \<Rightarrow> u8 \<Rightarrow> (session, unit) io" where
  "process_auth_switch_plugin W B M chk client_seq =
     bind_io (async_packet_read W chk Backend) (\<lambda>(be_seq, pkt).
     bind_io (fail_io (assert_auth_switch pkt)) (\<lambda>_.
     bind_io (fail_io (add_chk chk client_seq 1)) (\<lambda>seq.
     bind_io (relay B Client seq pkt) (\<lambda>_.
     bind_io (async_packet_read W chk Client) (\<lambda>(_, auth_response).
     bind_io (fail_io (add_chk chk be_seq 1)) (\<lambda>seq.
     bind_io (relay B Backend seq auth_response) (\<lambda>_.
     bind_io (async_packet_read W chk Backend) (\<lambda>(l_seq, be_auth_pkt).
     bind_io (relay B Client l_seq be_auth_pkt) (\<lambda>_.
     fail_io (auth_verdict M be_auth_pkt))))))))))"

definition reset_handshake_plugin :: "mysql_packets \<Rightarrow> bytes \<Rightarrow> HandshakeResponse \<Rightarrow> bytes result" where
  "reset_handshake_plugin P handshake_pkt h =
     (let curr_user = hs_username h; max_pkt_len = hs_max_packet_len h in
      case handshake_deserialize P handshake_pkt of
        Some pkt \<Rightarrow>
          (let un_know_plugin_rsp = handshake_new P (Some (lh_scramble_buf pkt)) (8, 0, 36) curr_user (lh_db_name pkt)
                 (Some unknown_plugin) (lh_capabilities pkt) (lh_connect_attributes pkt) max_pkt_len in
           Ok (handshake_serialize P un_know_plugin_rsp))
      | None \<Rightarrow> Err (IoError InvalidData ''HandshakeResponse''))"

text \<open>
  A pooled connection that has authenticated before: \<open>COM_CHANGE_USER\<close> with the unknown plugin. The
  sequence number of the backend's writer is left as it is.
\<close>

definition continue_auth ::
  "winnow \<Rightarrow> byteorder \<Rightarrow> mysql_common \<Rightarrow> mysql_packets \<Rightarrow> bool \<Rightarrow> u8 \<Rightarrow> HandshakeResponse \<Rightarrow> (session, unit) io" where
  "continue_auth W B M P chk client_seq h =
     (let change_user_data =
            change_user_new P (hs_username h) (hs_database h) (ucast UTF8_MB4_GENERAL_CI) unknown_plugin in
      bind_io (on_writer Backend (\<lambda>w. end_packet B (put change_user_data w))) (\<lambda>_.
      bind_io (flush_peer Backend) (\<lambda>_.
      process_auth_switch_plugin W B M chk client_seq)))"

text \<open>A fresh connection: read the backend's greeting, answer it with the client's rewritten response.\<close>

definition reply_handshake_response ::
  "winnow \<Rightarrow> byteorder \<Rightarrow> mysql_common \<Rightarrow> mysql_packets \<Rightarrow> bool \<Rightarrow> u8 \<Rightarrow> bytes \<Rightarrow> HandshakeResponse \<Rightarrow>
   (session, unit) io" where
  "reply_handshake_response W B M P chk client_seq packet_bytes h =
     bind_io (async_packet_read W chk Backend) (\<lambda>_.
     bind_io (fail_io (reset_handshake_plugin P packet_bytes h)) (\<lambda>new_packet.
     bind_io (relay B Backend client_seq new_packet) (\<lambda>_.
     process_auth_switch_plugin W B M chk client_seq)))"

text \<open>
  The greeting of the client, before a backend is chosen. \<open>unwrap\<close> makes a malformed response a
  panic.
\<close>

definition initial_handshake ::
  "winnow \<Rightarrow> byteorder \<Rightarrow> mysql_common \<Rightarrow> bool \<Rightarrow> bool \<Rightarrow> bool \<Rightarrow> u64 \<Rightarrow> bytes \<Rightarrow>
   packet_reader \<times> packet_writer \<Rightarrow>
   (u8 \<times> HandshakeResponse \<times> bytes) result \<times> packet_reader \<times> packet_writer" where
  "initial_handshake W B M chk sync_router tls conn_id scramble = (\<lambda>(r, w).
     case write_initial_handshake B M conn_id scramble DEFAULT_BACKEND_VERSION tls w of
       (Ok _, w1) \<Rightarrow>
         (case next_async W chk r of
            (Ok (Some (seq, pkt)), r1) \<Rightarrow>
              (rbind (unwrap_parse (client_handshake_response W M pkt False))
                 (\<lambda>h. Ok (seq, change_tenant_if_need sync_router h, pkt)), r1, w1)
          | (Ok None, r1) \<Rightarrow>
              (case write_err_packet B ER_ACCESS_DENIED_ERROR (ascii ''peer terminated connection'') w1 of
                 (Ok _, w2) \<Rightarrow> (Err (IoError PermissionDenied ''peer terminated connection''), r1, w2)
               | (Err e, w2) \<Rightarrow> (Err e, r1, w2)
               | (Panic, w2) \<Rightarrow> (Panic, r1, w2)
               | (Diverge, w2) \<Rightarrow> (Diverge, r1, w2))
          | (Err e, r1) \<Rightarrow> (Err e, r1, w1)
          | (Panic, r1) \<Rightarrow> (Panic, r1, w1)
          | (Diverge, r1) \<Rightarrow> (Diverge, r1, w1))
     | (Err e, w1) \<Rightarrow> (Err e, r, w1)
     | (Panic, w1) \<Rightarrow> (Panic, r, w1)
     | (Diverge, w1) \<Rightarrow> (Diverge, r, w1))"

subsection \<open>Salts\<close>

lemma fix_salt_byte_ok:
  assumes "unat b < 127"
  shows "fix_salt_byte b \<noteq> 0 \<and> fix_salt_byte b \<noteq> 0x24 \<and> unat (fix_salt_byte b) < 127"
proof -
  have "b + 1 \<noteq> 0 \<and> b + 1 \<noteq> 0x24" if "b = 0 \<or> b = 0x24" using that by auto
  with assms show ?thesis by (auto simp: fix_salt_byte_def)
qed

lemma gen_user_salt_ok:
  assumes "length draws = SCRAMBLE_SIZE" "\<forall>n \<in> set draws. n < 127"
  shows "length (gen_user_salt draws) = 20"
    "\<forall>b \<in> set (gen_user_salt draws). b \<noteq> 0 \<and> b \<noteq> 0x24 \<and> unat b < 127"
proof -
  show "length (gen_user_salt draws) = 20" using assms(1) by (simp add: gen_user_salt_def SCRAMBLE_SIZE_def)
  have "unat (word_of_nat n :: u8) < 127" if "n < 127" for n
    using that by simp
  with assms show "\<forall>b \<in> set (gen_user_salt draws). b \<noteq> 0 \<and> b \<noteq> 0x24 \<and> unat b < 127"
    using fix_salt_byte_ok by (auto simp: gen_user_salt_def)
qed

subsection \<open>Hexadecimal strings\<close>

text \<open>The digits of a byte, lower or upper case.\<close>

definition digit :: "bool \<Rightarrow> nat \<Rightarrow> u8" where
  "digit upper d = word_of_nat (if d < 10 then 48 + d else if upper then 55 + d else 87 + d)"

definition to_hex :: "bool \<Rightarrow> bytes \<Rightarrow> bytes" where
  "to_hex upper bs = concat (map (\<lambda>b. [digit upper (unat b div 16), digit upper (unat b mod 16)]) bs)"

lemma val_digit:
  assumes "d < 16"
  shows "val (digit upper d) i = Ok (word_of_nat d)"
proof -
  have n: "unat (word_of_nat (k + d) :: u8) = k + d" if "k \<le> 87" for k
    using assms that by (intro unat_word_of_nat_u8) simp
  show ?thesis
  proof (cases "d < 10")
    case True
    with n [of 48] show ?thesis by (simp add: val_def digit_def)
  next
    case False
    with assms n [of 55] n [of 87] show ?thesis by (simp add: val_def digit_def)
  qed
qed

lemma join_nibbles: "push_bit 4 (word_of_nat (unat b div 16)) OR word_of_nat (unat b mod 16) = (b :: u8)"
proof -
  have w: "unat x = n \<Longrightarrow> word_of_nat n = x" for x :: u8 and n by auto
  have "word_of_nat (unat b div 16) = drop_bit 4 b"
    by (rule w) (simp only: unat_drop_bit_eq, simp add: drop_bit_eq_div)
  moreover have "word_of_nat (unat b mod 16) = take_bit 4 b"
    by (rule w) (simp only: unsigned_take_bit_eq, simp add: take_bit_eq_mod)
  moreover have "push_bit 4 (drop_bit 4 b) OR take_bit 4 b = b"
    by (rule bit_word_eqI) (auto simp: bit_simps)
  ultimately show ?thesis by simp
qed

lemma chunks_pairs: "chunks 2 (a # b # xs) = [a, b] # chunks 2 xs"
  by (subst chunks.simps) (simp add: numeral_2_eq_2)

lemma decode_pairs_to_hex: "decode_pairs i (chunks 2 (to_hex upper bs)) = Ok bs"
proof (induction bs arbitrary: i)
  case (Cons b bs)
  have "unat b div 16 < 16" by (simp add: div_less_iff_less_mult)
  with Cons join_nibbles [of b] show ?case
    by (simp add: to_hex_def chunks_pairs val_digit)
qed (simp add: to_hex_def)

lemma hex_string_decode_to_hex: "hex_string_decode (to_hex upper bs) = Ok bs"
proof -
  have "length (to_hex upper bs) = 2 * length bs" by (induction bs) (simp_all add: to_hex_def)
  then show ?thesis by (simp add: hex_string_decode_def decode_pairs_to_hex)
qed

lemma hex_string_decode_odd:
  "odd (length d) \<Longrightarrow> \<exists>m. hex_string_decode d = Err (IoError InvalidData m)"
  by (simp add: hex_string_decode_def odd_iff_mod_2_eq_one)

lemma xor_bytes_involutive: "xor_bytes (xor_bytes l r) r = l"
  by (induction l r rule: xor_bytes.induct) (simp_all add: xor.assoc)

subsection \<open>The authentication exchange\<close>

text \<open>What the session has sent to both sides since \<open>s\<close>; both writers stay usable.\<close>

definition exchanged ::
  "(u8 \<times> bytes) list \<Rightarrow> (u8 \<times> bytes) list \<Rightarrow> session \<Rightarrow> session \<Rightarrow> bool" where
  "exchanged to_client to_backend s s' \<longleftrightarrow>
     sent_to Client s' = sent_to Client s @ frame_bytes to_client \<and>
     sent_to Backend s' = sent_to Backend s @ frame_bytes to_backend \<and>
     open_writer (ss_client_writer s') \<and> open_writer (ss_backend_writer s')"

definition session_delivers :: "session \<Rightarrow> (u8 \<times> bytes) list \<Rightarrow> (u8 \<times> bytes) list \<Rightarrow> bool" where
  "session_delivers s from_client from_backend \<longleftrightarrow>
     delivers (ss_client_reader s) from_client \<and> delivers (ss_backend_reader s) from_backend \<and>
     open_writer (ss_client_writer s) \<and> open_writer (ss_backend_writer s)"

lemma set_reader_sent [simp]: "sent_to p (set_reader q r s) = sent_to p s"
  by (cases p; cases q) (simp_all add: sent_to_def)

context net_spec
begin

lemma relay_open:
  assumes "open_writer (writer_of p s)" "length pkt < MAX_PAYLOAD_LEN"
  obtains s' where "relay B p q pkt s = (Ok (), s')" "moved p p [(q, pkt)] s s'"
    "reader_of p s' = reader_of p s"
proof -
  obtain w' where w: "send_packet B p q pkt s = (Ok (), set_writer p w' s)" "open_writer w'"
    "sk_sent (wr_inner w') = sent_to p s @ frame q pkt"
    by (rule send_packet_open [OF assms])
  let ?s1 = "set_writer p w' s"
  obtain s2 where f: "flush_peer p ?s1 = (Ok (), s2)" "moved p p [] ?s1 s2" "reader_of p s2 = reader_of p ?s1"
    using flush_peer_open [of p ?s1 p] w(2) by auto
  have "moved p p [(q, pkt)] s ?s1" using w(2,3) by (simp add: moved_def sent_to_def)
  from moved_trans [OF this f(2)] f w(1) that show thesis
    by (simp add: relay_def bind_io_def)
qed

lemma relay_client:
  assumes "session_delivers s cs bs" "length pkt < MAX_PAYLOAD_LEN"
  obtains s' where "relay B Client q pkt s = (Ok (), s')" "session_delivers s' cs bs"
    "exchanged [(q, pkt)] [] s s'"
proof -
  obtain s' where s': "relay B Client q pkt s = (Ok (), s')" "moved Client Client [(q, pkt)] s s'"
    "reader_of Client s' = reader_of Client s"
    using relay_open [of Client s pkt q] assms by (auto simp: session_delivers_def)
  have "reader_of Backend s' = reader_of Backend s" "writer_of Backend s' = writer_of Backend s"
    using s'(2) by (auto simp: moved_def simp del: reader_of.simps writer_of.simps)
  with s' assms(1) that show thesis
    by (simp add: session_delivers_def exchanged_def moved_def sent_to_def)
qed

lemma relay_backend:
  assumes "session_delivers s cs bs" "length pkt < MAX_PAYLOAD_LEN"
  obtains s' where "relay B Backend q pkt s = (Ok (), s')" "session_delivers s' cs bs"
    "exchanged [] [(q, pkt)] s s'"
proof -
  obtain s' where s': "relay B Backend q pkt s = (Ok (), s')" "moved Backend Backend [(q, pkt)] s s'"
    "reader_of Backend s' = reader_of Backend s"
    using relay_open [of Backend s pkt q] assms by (auto simp: session_delivers_def)
  have "reader_of Client s' = reader_of Client s" "writer_of Client s' = writer_of Client s"
    using s'(2) by (auto simp: moved_def simp del: reader_of.simps writer_of.simps)
  with s' assms(1) that show thesis
    by (simp add: session_delivers_def exchanged_def moved_def sent_to_def)
qed

lemma read_client:
  assumes "session_delivers s ((q, p) # cs) bs"
  obtains s' where "async_packet_read W chk Client s = (Ok (q, p), s')" "session_delivers s' cs bs"
    "exchanged [] [] s s'" "length p < MAX_PAYLOAD_LEN"
proof -
  obtain r where r: "async_packet_read W chk Client s = (Ok (q, p), set_reader Client r s)" "delivers r cs"
    using async_packet_read_delivers [of Client s q p cs] assms by (auto simp: session_delivers_def)
  have "length p < MAX_PAYLOAD_LEN" using assms by (simp add: session_delivers_def delivers_def)
  with r assms show thesis
    by (intro that [of "set_reader Client r s"]) (auto simp: session_delivers_def exchanged_def sent_to_def)
qed

lemma read_backend:
  assumes "session_delivers s cs ((q, p) # bs)"
  obtains s' where "async_packet_read W chk Backend s = (Ok (q, p), s')" "session_delivers s' cs bs"
    "exchanged [] [] s s'" "length p < MAX_PAYLOAD_LEN"
proof -
  obtain r where r: "async_packet_read W chk Backend s = (Ok (q, p), set_reader Backend r s)" "delivers r bs"
    using async_packet_read_delivers [of Backend s q p bs] assms by (auto simp: session_delivers_def)
  have "length p < MAX_PAYLOAD_LEN" using assms by (simp add: session_delivers_def delivers_def)
  with r assms show thesis
    by (intro that [of "set_reader Backend r s"]) (auto simp: session_delivers_def exchanged_def sent_to_def)
qed

end

lemma exchanged_trans:
  "exchanged c1 b1 s s1 \<Longrightarrow> exchanged c2 b2 s1 s2 \<Longrightarrow> exchanged (c1 @ c2) (b1 @ b2) s s2"
  by (simp add: exchanged_def)

lemma add_chk_one:
  fixes x :: u8
  assumes "chk \<longrightarrow> x \<noteq> 255"
  shows "add_chk chk x 1 = Ok (x + 1)"
proof (cases chk)
  case True
  have "unat x \<noteq> 255"
  proof
    assume "unat x = 255"
    then have "word_of_nat (unat x) = (255 :: u8)" by simp
    with True assms show False by simp
  qed
  then have "unat x < 255" using unat_u8_lt [of x] by linarith
  then have "unat x + unat (1 :: u8) < 2 ^ LENGTH(8)" by simp
  then show ?thesis by (rule add_chk_no_overflow)
qed simp

context net_spec
begin

text \<open>
  The relayed exchange: the switch request goes to the client under the next sequence number, its
  answer to the backend, and the backend's verdict back to the client.
\<close>

lemma auth_switch_exchange:
  assumes "session_delivers s ((q2, resp) # cs) ((q1, sw) # (q3, fin) # bs)"
    "sw \<noteq> []" "sw ! 0 = 0xfe" "chk \<longrightarrow> client_seq \<noteq> 255 \<and> q1 \<noteq> 255"
  obtains s' where "process_auth_switch_plugin W B M chk client_seq s = (auth_verdict M fin, s')"
    "session_delivers s' cs bs" "exchanged [(client_seq + 1, sw), (q3, fin)] [(q1 + 1, resp)] s s'"
proof -
  note add = add_chk_one
  obtain s1 where s1: "async_packet_read W chk Backend s = (Ok (q1, sw), s1)"
    "session_delivers s1 ((q2, resp) # cs) ((q3, fin) # bs)" "exchanged [] [] s s1" "length sw < MAX_PAYLOAD_LEN"
    by (rule read_backend [OF assms(1)])
  obtain s2 where s2: "relay B Client (client_seq + 1) sw s1 = (Ok (), s2)"
    "session_delivers s2 ((q2, resp) # cs) ((q3, fin) # bs)" "exchanged [(client_seq + 1, sw)] [] s1 s2"
    by (rule relay_client [OF s1(2,4)])
  obtain s3 where s3: "async_packet_read W chk Client s2 = (Ok (q2, resp), s3)"
    "session_delivers s3 cs ((q3, fin) # bs)" "exchanged [] [] s2 s3" "length resp < MAX_PAYLOAD_LEN"
    by (rule read_client [OF s2(2)])
  obtain s4 where s4: "relay B Backend (q1 + 1) resp s3 = (Ok (), s4)"
    "session_delivers s4 cs ((q3, fin) # bs)" "exchanged [] [(q1 + 1, resp)] s3 s4"
    by (rule relay_backend [OF s3(2,4)])
  obtain s5 where s5: "async_packet_read W chk Backend s4 = (Ok (q3, fin), s5)"
    "session_delivers s5 cs bs" "exchanged [] [] s4 s5" "length fin < MAX_PAYLOAD_LEN"
    by (rule read_backend [OF s4(2)])
  obtain s6 where s6: "relay B Client q3 fin s5 = (Ok (), s6)"
    "session_delivers s6 cs bs" "exchanged [(q3, fin)] [] s5 s6"
    by (rule relay_client [OF s5(2,4)])
  have "exchanged [(client_seq + 1, sw), (q3, fin)] [(q1 + 1, resp)] s s6"
    using s1(3) s2(3) s3(3) s4(3) s5(3) s6(3) by (simp add: exchanged_def)
  moreover have "process_auth_switch_plugin W B M chk client_seq s = (auth_verdict M fin, s6)"
    using s1(1) s2(1) s3(1) s4(1) s5(1) s6(1) assms(2-4)
    by (simp add: process_auth_switch_plugin_def bind_io_def fail_io_def assert_auth_switch_def
        AUTH_SWITCH_REQUEST_def add)
  ultimately show thesis using that s6(2) by blast
qed

lemma reply_handshake_exchange:
  assumes "session_delivers s ((q2, resp) # cs) ((q0, greeting) # (q1, sw) # (q3, fin) # bs)"
    "reset_handshake_plugin P pkt h = Ok new_packet" "length new_packet < MAX_PAYLOAD_LEN"
    "sw \<noteq> []" "sw ! 0 = 0xfe" "chk \<longrightarrow> client_seq \<noteq> 255 \<and> q1 \<noteq> 255"
  obtains s' where "reply_handshake_response W B M P chk client_seq pkt h s = (auth_verdict M fin, s')"
    "session_delivers s' cs bs"
    "exchanged [(client_seq + 1, sw), (q3, fin)] [(client_seq, new_packet), (q1 + 1, resp)] s s'"
proof -
  obtain s1 where s1: "async_packet_read W chk Backend s = (Ok (q0, greeting), s1)"
    "session_delivers s1 ((q2, resp) # cs) ((q1, sw) # (q3, fin) # bs)" "exchanged [] [] s s1"
    by (rule read_backend [OF assms(1)])
  obtain s2 where s2: "relay B Backend client_seq new_packet s1 = (Ok (), s2)"
    "session_delivers s2 ((q2, resp) # cs) ((q1, sw) # (q3, fin) # bs)"
    "exchanged [] [(client_seq, new_packet)] s1 s2"
    by (rule relay_backend [OF s1(2) assms(3)])
  obtain s3 where s3: "process_auth_switch_plugin W B M chk client_seq s2 = (auth_verdict M fin, s3)"
    "session_delivers s3 cs bs" "exchanged [(client_seq + 1, sw), (q3, fin)] [(q1 + 1, resp)] s2 s3"
    by (rule auth_switch_exchange [OF s2(2) assms(4-6)])
  show thesis
    using that [of s3] s1(1) s2(1) s3 exchanged_trans [OF exchanged_trans [OF s1(3) s2(3)] s3(3)] assms(2)
    by (simp add: reply_handshake_response_def bind_io_def fail_io_def)
qed

lemma send_queued:
  assumes "session_delivers s cs bs" "length pkt < MAX_PAYLOAD_LEN"
  obtains s' where "bind_io (on_writer Backend (\<lambda>w. end_packet B (put pkt w))) (\<lambda>_. flush_peer Backend) s = (Ok (), s')"
    "session_delivers s' cs bs" "exchanged [] [(wr_seq (ss_backend_writer s), pkt)] s s'"
proof -
  have "relay B Backend (wr_seq (ss_backend_writer s)) pkt s =
      bind_io (on_writer Backend (\<lambda>w. end_packet B (put pkt w))) (\<lambda>_. flush_peer Backend) s"
    by (simp add: relay_def send_packet_def on_writer_def bind_io_def set_seq_def)
  then show thesis using relay_backend [OF assms, of "wr_seq (ss_backend_writer s)" thesis] that by auto
qed

lemma continue_auth_exchange:
  assumes "session_delivers s ((q2, resp) # cs) ((q1, sw) # (q3, fin) # bs)"
    "change_user_new P (hs_username h) (hs_database h) (ucast UTF8_MB4_GENERAL_CI) unknown_plugin = request"
    "length request < MAX_PAYLOAD_LEN" "sw \<noteq> []" "sw ! 0 = 0xfe" "chk \<longrightarrow> client_seq \<noteq> 255 \<and> q1 \<noteq> 255"
  obtains s' where "continue_auth W B M P chk client_seq h s = (auth_verdict M fin, s')"
    "session_delivers s' cs bs"
    "exchanged [(client_seq + 1, sw), (q3, fin)] [(wr_seq (ss_backend_writer s), request), (q1 + 1, resp)] s s'"
proof -
  obtain s1 where s1: "bind_io (on_writer Backend (\<lambda>w. end_packet B (put request w))) (\<lambda>_. flush_peer Backend) s =
      (Ok (), s1)"
    "session_delivers s1 ((q2, resp) # cs) ((q1, sw) # (q3, fin) # bs)"
    "exchanged [] [(wr_seq (ss_backend_writer s), request)] s s1"
    by (rule send_queued [OF assms(1,3)])
  obtain s2 where s2: "process_auth_switch_plugin W B M chk client_seq s1 = (auth_verdict M fin, s2)"
    "session_delivers s2 cs bs" "exchanged [(client_seq + 1, sw), (q3, fin)] [(q1 + 1, resp)] s1 s2"
    by (rule auth_switch_exchange [OF s1(2) assms(4-6)])
  have "continue_auth W B M P chk client_seq h s =
      bind_io (bind_io (on_writer Backend (\<lambda>w. end_packet B (put request w))) (\<lambda>_. flush_peer Backend))
        (\<lambda>_. process_auth_switch_plugin W B M chk client_seq) s"
    by (simp add: continue_auth_def Let_def assms(2) bind_io_def split: prod.split result.split)
  then show thesis using that [of s2] s1(1) s2 exchanged_trans [OF s1(3) s2(3)] by (simp add: bind_io_def)
qed

end

end
