(* ===== verification/Transparency.thy ===== *)
theory Transparency
  imports Forwarder
begin

text \<open>
  What the forwarders do with well-formed responses. The grammar of a response is given by the
  inductive predicates \<open>result_set\<close> and \<open>query_response\<close> over the backend's packets; a forwarder
  copies exactly the packets of one response to the client, byte for byte, and leaves the packets
  behind it in the backend's reader.
\<close>

sublocale protocol_spec \<subseteq> net_spec W B
  by unfold_locales

subsection \<open>The grammar of a response\<close>

definition row_end :: "mysql_common \<Rightarrow> u32 \<Rightarrow> bytes \<Rightarrow> bool" where
  "row_end M caps p \<longleftrightarrow>
     is_err_packet p \<or>
     (if has_cap M caps CLIENT_DEPRECATE_EOF then is_result_set_eof_packet p else is_eof_packet p)"

text \<open>The status a terminating packet carries.\<close>

definition end_status :: "winnow \<Rightarrow> mysql_common \<Rightarrow> u32 \<Rightarrow> bytes \<Rightarrow> u16 result" where
  "end_status W M caps p =
     (if is_err_packet p then (if err_message M caps p = None then Panic else Ok 0)
      else if \<not> has_cap M caps CLIENT_DEPRECATE_EOF then unwrap_parse (eof_server_status W M p)
      else rbind (unwrap_parse (ok_packet W M p caps)) (\<lambda>ok. Ok (ok_status_flags ok)))"

text \<open>Rows and their terminator.\<close>

inductive rows :: "winnow \<Rightarrow> mysql_common \<Rightarrow> u32 \<Rightarrow> (u8 \<times> bytes) list \<Rightarrow> u16 \<Rightarrow> bool"
  for W M caps where
  rows_end: "row_end M caps t \<Longrightarrow> end_status W M caps t = Ok f \<Longrightarrow> rows W M caps [(q, t)] f"
| rows_more: "\<not> row_end M caps p \<Longrightarrow> rows W M caps ps f \<Longrightarrow> rows W M caps ((q, p) # ps) f"

inductive_cases rows_cases: "rows W M caps ps f"

inductive_simps rows_Cons: "rows W M caps ((q, p) # ps) f"

text \<open>No response continues another one: where the rows end is determined by the packets so far.\<close>

lemma rows_prefix_free:
  "rows W M caps ps f \<Longrightarrow> rows W M caps (ps @ rest) f' \<Longrightarrow> rest = [] \<and> f' = f"
  by (induction rule: rows.induct) (auto simp: rows_Cons)

text \<open>
  The packets behind the column count: column definitions and rows together when EOF packets are
  deprecated; otherwise the column definitions, an EOF packet, and the rows unless the EOF packet
  announces a cursor.
\<close>

inductive result_set ::
  "winnow \<Rightarrow> byteorder \<Rightarrow> mysql_common \<Rightarrow> u32 \<Rightarrow> (u8 \<times> bytes) list \<Rightarrow> u16 \<Rightarrow> bool"
  for W B M caps where
  rs_deprecate: "has_cap M caps CLIENT_DEPRECATE_EOF \<Longrightarrow> rows W M caps ps f \<Longrightarrow> result_set W B M caps ps f"
| rs_cursor: "\<not> has_cap M caps CLIENT_DEPRECATE_EOF \<Longrightarrow> list_all (\<lambda>(q, p). \<not> is_eof_packet p) cols \<Longrightarrow>
    is_eof_packet e \<Longrightarrow> eof_status_code B e = Ok c \<Longrightarrow> status_from_bits M c = Some f \<Longrightarrow>
    has_status M f SERVER_STATUS_CURSOR_EXISTS \<Longrightarrow> result_set W B M caps (cols @ [(q, e)]) f"
| rs_rows: "\<not> has_cap M caps CLIENT_DEPRECATE_EOF \<Longrightarrow> list_all (\<lambda>(q, p). \<not> is_eof_packet p) cols \<Longrightarrow>
    is_eof_packet e \<Longrightarrow> eof_status_code B e = Ok c \<Longrightarrow>
    (case status_from_bits M c of Some f' \<Rightarrow> \<not> has_status M f' SERVER_STATUS_CURSOR_EXISTS | None \<Rightarrow> True) \<Longrightarrow>
    rows W M caps ps f \<Longrightarrow> result_set W B M caps (cols @ (q, e) # ps) f"

text \<open>The response to a query: OK packets and result sets, as long as more results are announced.\<close>

inductive query_response ::
  "winnow \<Rightarrow> byteorder \<Rightarrow> mysql_common \<Rightarrow> u32 \<Rightarrow> (u8 \<times> bytes) list \<Rightarrow> bool"
  for W B M caps where
  qr_err: "is_err_packet p \<Longrightarrow> err_message M caps p \<noteq> None \<Longrightarrow> query_response W B M caps [(q, p)]"
| qr_ok: "is_ok_packet p \<Longrightarrow> ok_packet W M p caps = Done i ok \<Longrightarrow>
    \<not> has_status M (ok_status_flags ok) SERVER_MORE_RESULTS_EXISTS \<Longrightarrow> query_response W B M caps [(q, p)]"
| qr_ok_more: "is_ok_packet p \<Longrightarrow> ok_packet W M p caps = Done i ok \<Longrightarrow>
    has_status M (ok_status_flags ok) SERVER_MORE_RESULTS_EXISTS \<Longrightarrow> query_response W B M caps ps \<Longrightarrow>
    query_response W B M caps ((q, p) # ps)"
| qr_set: "\<not> is_ok_packet p \<Longrightarrow> \<not> is_err_packet p \<Longrightarrow> \<not> is_local_in_file_packet p \<Longrightarrow>
    result_set W B M caps xs f \<Longrightarrow> \<not> has_status M f SERVER_MORE_RESULTS_EXISTS \<Longrightarrow>
    query_response W B M caps ((q, p) # xs)"
| qr_set_more: "\<not> is_ok_packet p \<Longrightarrow> \<not> is_err_packet p \<Longrightarrow> \<not> is_local_in_file_packet p \<Longrightarrow>
    result_set W B M caps xs f \<Longrightarrow> has_status M f SERVER_MORE_RESULTS_EXISTS \<Longrightarrow>
    query_response W B M caps ps \<Longrightarrow> query_response W B M caps ((q, p) # xs @ ps)"

subsection \<open>Forwarding a response\<close>

text \<open>
  \<open>copies m ps a\<close>: when the backend delivers \<open>ps\<close> and then \<open>rest\<close> to a session whose client can be
  written to, \<open>m\<close> returns \<open>a\<close>, the client got exactly \<open>ps\<close>, and \<open>rest\<close> is still to be read.
\<close>

definition copies :: "(session, 'a) io \<Rightarrow> (u8 \<times> bytes) list \<Rightarrow> 'a \<Rightarrow> bool" where
  "copies m ps a \<longleftrightarrow>
     (\<forall>s rest. delivers (ss_backend_reader s) (ps @ rest) \<and> open_writer (ss_client_writer s) \<longrightarrow>
        (\<exists>s'. m s = (Ok a, s') \<and> moved Backend Client ps s s' \<and> delivers (ss_backend_reader s') rest))"

lemma copiesD:
  assumes "copies m ps a" "delivers (ss_backend_reader s) (ps @ rest)" "open_writer (ss_client_writer s)"
  obtains s' where "m s = (Ok a, s')" "moved Backend Client ps s s'"
    "delivers (ss_backend_reader s') rest" "open_writer (ss_client_writer s')"
  using assms unfolding copies_def by (metis moved_open writer_of.simps(1))

lemma copies_bind:
  assumes "copies m ps a" "copies (f a) qs b"
  shows "copies (bind_io m f) (ps @ qs) b"
  unfolding copies_def
proof (intro allI impI, elim conjE)
  fix s :: session and rest
  assume s: "delivers (ss_backend_reader s) ((ps @ qs) @ rest)" "open_writer (ss_client_writer s)"
  obtain s1 where s1: "m s = (Ok a, s1)" "moved Backend Client ps s s1"
    "delivers (ss_backend_reader s1) (qs @ rest)" "open_writer (ss_client_writer s1)"
    using copiesD [OF assms(1), of s "qs @ rest"] s by auto
  obtain s2 where "f a s1 = (Ok b, s2)" "moved Backend Client qs s1 s2" "delivers (ss_backend_reader s2) rest"
    by (rule copiesD [OF assms(2) s1(3,4)])
  with s1 show "\<exists>s'. bind_io m f s = (Ok b, s') \<and> moved Backend Client (ps @ qs) s s' \<and>
      delivers (ss_backend_reader s') rest"
    using moved_trans by (fastforce simp: step_simps)
qed

lemma copies_bind_Nil:
  "copies m [] a \<Longrightarrow> copies (f a) qs b \<Longrightarrow> copies (bind_io m f) qs b"
  using copies_bind [of m "[]" a f qs b] by simp

lemma copies_bind_last:
  "copies m ps a \<Longrightarrow> copies (f a) [] b \<Longrightarrow> copies (bind_io m f) ps b"
  using copies_bind [of m ps a f "[]" b] by simp

lemma copies_return: "copies (return_io a) [] a"
  by (simp add: copies_def return_io_def moved_refl)

lemma copies_ok: "r = Ok a \<Longrightarrow> copies (fail_io r) [] a"
  by (simp add: copies_def fail_io_def moved_refl)

lemma copies_flush: "copies (flush_peer Client) [] ()"
  unfolding copies_def
proof (intro allI impI, elim conjE)
  fix s :: session and rest
  assume s: "delivers (ss_backend_reader s) ([] @ rest)" "open_writer (ss_client_writer s)"
  obtain s' where "flush_peer Client s = (Ok (), s')" "moved Backend Client [] s s'"
    "reader_of Backend s' = reader_of Backend s"
    using flush_peer_open [of Client s Backend] s(2) by auto
  with s(1) show "\<exists>s'. flush_peer Client s = (Ok (), s') \<and> moved Backend Client [] s s' \<and>
      delivers (ss_backend_reader s') rest"
    by auto
qed

lemma copies_parse_err: "err_message M caps p \<noteq> None \<Longrightarrow> copies (parse_err_packet M caps p) [] ()"
  by (auto simp: parse_err_packet_def copies_return split: option.splits)

lemma delivers_size: "delivers r ps \<Longrightarrow> length ps \<le> reader_size r"
proof -
  assume d: "delivers r ps"
  have "length ps \<le> length (frame_bytes ps)" by (induction ps) auto
  moreover have "length (stream_bytes es) = stream_size es" if "healthy es" for es
    using that by (induction es rule: healthy.induct) auto
  moreover have "rd_remaining r \<le> length (rd_bytes r)" "healthy (rd_r r)"
    using d by (simp_all add: delivers_def reader_ok_def reader_inv_def)
  ultimately have "length ps \<le> length (frame_bytes ps)" "length (pending r) = reader_size r"
    by (simp_all add: pending_def reader_size_def)
  then show ?thesis using d by (simp add: delivers_def)
qed

lemma copies_with_fuel:
  assumes "\<And>n. length ps < n \<Longrightarrow> copies (f n) ps a"
  shows "copies (with_fuel f) ps a"
proof -
  have "length ps < Suc (reader_size (ss_backend_reader s))"
    if "delivers (ss_backend_reader s) (ps @ rest)" for s :: session and rest
    using delivers_size [OF that] by simp
  with assms show ?thesis unfolding copies_def with_fuel_def by blast
qed

context net_spec
begin

lemma copies_packet: "copies (forward_one_packet W B chk Client Backend fl) [(q, p)] p"
  unfolding copies_def
proof (intro allI impI, elim conjE)
  fix s :: session and rest
  assume s: "delivers (ss_backend_reader s) ([(q, p)] @ rest)" "open_writer (ss_client_writer s)"
  obtain s' where "forward_one_packet W B chk Client Backend fl s = (Ok p, s')"
    "moved Backend Client [(q, p)] s s'" "delivers (reader_of Backend s') rest"
    using forward_one_packet_moves [of Backend s q p rest Client] s by auto
  then show "\<exists>s'. forward_one_packet W B chk Client Backend fl s = (Ok p, s') \<and>
      moved Backend Client [(q, p)] s s' \<and> delivers (ss_backend_reader s') rest"
    by auto
qed

lemma copies_packet_bind:
  "copies (f p) ps a \<Longrightarrow>
   copies (bind_io (forward_one_packet W B chk Client Backend fl) f) ((q, p) # ps) a"
  using copies_bind [OF copies_packet, of f p ps a] by simp

lemma rows_length: "rows W M caps ps f \<Longrightarrow> 0 < length ps"
  by (erule rows_cases) simp_all

lemma until_result_end_loop_copies:
  "rows W M caps ps f \<Longrightarrow> length ps \<le> n \<Longrightarrow> copies (until_result_end_loop W B M chk caps n) ps f"
proof (induction arbitrary: n rule: rows.induct)
  case (rows_end t f q)
  then obtain k where "n = Suc k" by (cases n) auto
  moreover have "end_status W M caps t = Ok f \<Longrightarrow> is_err_packet t \<Longrightarrow> f = 0 \<and> err_message M caps t \<noteq> None"
    by (auto simp: end_status_def split: if_splits)
  moreover have "unwrap_parse (ok_packet W M t caps) = Ok ok \<Longrightarrow>
      copies (bind_io (flush_peer Client) (\<lambda>_. return_io (ok_status_flags ok))) [] (ok_status_flags ok)" for ok
    by (intro copies_bind_Nil [OF copies_flush] copies_return)
  ultimately show ?case
    using rows_end
    by (auto simp: row_end_def end_status_def rbind_Ok_iff split: if_splits
        intro!: copies_packet_bind copies_bind_Nil [OF copies_parse_err] copies_bind_Nil [OF copies_flush]
          copies_return copies_ok copies_bind_Nil [OF copies_ok])
next
  case (rows_more p ps f q)
  then obtain k where "n = Suc k" "length ps \<le> k" by (cases n) auto
  with rows_more show ?case
    by (auto simp: row_end_def split: if_splits intro!: copies_packet_bind)
qed

lemma forward_until_result_end_copies:
  assumes "rows W M (hs_client_flag h) ps f"
  shows "copies (forward_until_result_end W B M chk h) ps f"
  unfolding forward_until_result_end_def
  by (rule copies_with_fuel) (use assms in \<open>auto intro: until_result_end_loop_copies\<close>)

lemma columns_loop_copies:
  assumes "list_all (\<lambda>(q, p). \<not> is_eof_packet p) cols" "is_eof_packet e" "length cols < n"
  shows "copies (columns_loop W B chk n) (cols @ [(q, e)]) e"
  using assms
proof (induction cols arbitrary: n)
  case Nil
  then show ?case
    by (cases n) (auto intro!: copies_packet_bind copies_return)
next
  case (Cons a cols)
  then show ?case
    by (cases n; cases a) (auto intro!: copies_packet_bind)
qed

lemma forward_result_copies:
  assumes "result_set W B M (hs_client_flag h) ps f"
  shows "copies (forward_result W B M chk h) ps f"
  using assms
proof cases
  case rs_deprecate
  then show ?thesis by (simp add: forward_result_def forward_until_result_end_copies)
next
  case (rs_cursor cols e c q)
  have "copies (with_fuel (columns_loop W B chk)) (cols @ [(q, e)]) e"
    by (rule copies_with_fuel) (use rs_cursor in \<open>simp add: columns_loop_copies\<close>)
  with rs_cursor show ?thesis
    by (auto simp: forward_result_def
        intro!: copies_bind_last copies_bind_Nil [OF copies_ok] copies_bind_Nil [OF copies_flush] copies_return)
next
  case (rs_rows cols e c ps' q)
  have "copies (with_fuel (columns_loop W B chk)) (cols @ [(q, e)]) e"
    by (rule copies_with_fuel) (use rs_rows in \<open>simp add: columns_loop_copies\<close>)
  note first = copies_bind [OF this, of _ ps', unfolded append_assoc append_Cons append_Nil]
  from rs_rows show ?thesis
    by (auto simp: forward_result_def forward_until_result_end_copies split: option.splits
        intro!: first copies_bind_Nil [OF copies_ok])
qed

lemma query_loop_copies:
  "query_response W B M (hs_client_flag h) ps \<Longrightarrow> length ps \<le> n \<Longrightarrow>
   copies (query_loop W B M chk h n) ps ()"
proof (induction arbitrary: n rule: query_response.induct)
  case (qr_err p q)
  then obtain k where "n = Suc k" by (cases n) auto
  moreover have "\<not> is_ok_packet p" using qr_err.hyps(1) by (simp add: packet_class_defs)
  ultimately show ?case
    using qr_err
    by (auto simp: Let_def intro!: copies_packet_bind copies_bind_Nil [OF copies_parse_err]
        copies_bind_Nil [OF copies_flush] copies_return)
next
  case (qr_ok p i ok q)
  then obtain k where "n = Suc k" by (cases n) auto
  with qr_ok show ?case
    by (auto simp: Let_def intro!: copies_packet_bind copies_bind_Nil [OF copies_flush]
        copies_bind_Nil [OF copies_ok] copies_return)
next
  case (qr_ok_more p i ok ps q)
  then obtain k where "n = Suc k" "length ps \<le> k" by (cases n) auto
  with qr_ok_more show ?case
    by (auto simp: Let_def intro!: copies_packet_bind copies_bind_Nil [OF copies_flush]
        copies_bind_Nil [OF copies_ok])
next
  case (qr_set p xs f q)
  then obtain k where "n = Suc k" by (cases n) auto
  with qr_set show ?case
    by (auto simp: Let_def intro!: copies_packet_bind copies_bind_last [OF forward_result_copies] copies_return)
next
  case (qr_set_more p xs f ps q)
  then obtain k where "n = Suc k" "length ps \<le> k" by (cases n) auto
  with qr_set_more show ?case
    by (auto simp: Let_def intro!: copies_packet_bind copies_bind [OF forward_result_copies])
qed

lemma forward_query_copies:
  "query_response W B M (hs_client_flag h) ps \<Longrightarrow> copies (forward_query W B M chk h) ps ()"
  unfolding forward_query_def
  by (rule copies_with_fuel) (simp add: query_loop_copies)

lemma generic_forward_copies: "copies (generic_forward W B chk) [(q, p)] (Some p)"
  unfolding generic_forward_def by (intro copies_bind_last [OF copies_packet] copies_return)

text \<open>The response to a prepare: as many packets as its header announces.\<close>

lemma forward_packets_copies: "copies (forward_packets W B chk (length ps)) ps ()"
proof (induction ps)
  case Nil
  then show ?case by (simp add: copies_return)
next
  case (Cons a ps)
  then show ?case by (cases a) (simp add: copies_packet_bind)
qed

lemma forward_prepare_stmt_copies:
  assumes "is_ok_packet p" "length ps = unat n"
    "expected_packets B chk (has_cap M (hs_client_flag h) CLIENT_DEPRECATE_EOF) p = Ok n"
  shows "copies (forward_prepare_stmt W B M chk h) ((q, p) # ps) None"
proof -
  have "\<not> is_err_packet p" using assms(1) by (simp add: packet_class_defs)
  moreover have fwd: "copies (forward_packets W B chk (unat n)) ps ()"
    using forward_packets_copies [of chk ps] assms(2) by simp
  ultimately show ?thesis
    using assms(1,3)
    by (auto simp: forward_prepare_stmt_def Let_def intro!: copies_packet_bind copies_bind_Nil [OF copies_ok]
        copies_bind_last [OF fwd] copies_bind_Nil [OF copies_flush] copies_return)
qed

end

text \<open>The packets a prepare is answered with (\<open>write_prepare_ok\<close>), and that the forwarder expects as many.\<close>

definition prepare_packets :: "byteorder \<Rightarrow> mysql_common \<Rightarrow> u32 \<Rightarrow> Column list \<Rightarrow> Column list \<Rightarrow> u32 \<Rightarrow> bytes list" where
  "prepare_packets B M stmt_id params columns caps =
     (0x00 # le_bytes 4 (unat stmt_id) @ le_bytes 2 (length columns) @ le_bytes 2 (length params) @
         [0x00, 0x00, 0x00]) #
      (if params = [] then [] else
         map (\<lambda>c. concat (column_fields B M False c)) params @
         (if cap_set caps CLIENT_DEPRECATE_EOF then [] else [[0xfe, 0x00, 0x00, 0x00, 0x00]])) @
      (if columns = [] then [] else
         map (\<lambda>c. concat (column_fields B M False c)) columns @
         (if cap_set caps CLIENT_DEPRECATE_EOF then [] else [[0xfe, 0x00, 0x00, 0x00, 0x00]]))"

context protocol_spec
begin

lemma expected_packets_prepare_ok:
  assumes "length columns + length params + 2 < 2 ^ 16"
    and "header = 0x00 # le_bytes 4 (unat stmt_id) @ le_bytes 2 (length columns) @ le_bytes 2 (length params) @
         [0x00, 0x00, 0x00]"
  shows "expected_packets B chk depr header = Ok (word_of_nat (length columns + length params +
    (if depr then 0 else (if columns = [] then 0 else 1) + (if params = [] then 0 else 1))))"
proof -
  let ?c = "length columns" and ?p = "length params"
  have lens: "?c < 256 ^ 2" "?p < 256 ^ 2" using assms(1) by simp_all
  have d: "drop 5 header = le_bytes 2 ?c @ le_bytes 2 ?p @ [0, 0, 0]" "drop 7 header = le_bytes 2 ?p @ [0, 0, 0]"
    by (simp_all add: assms(2))
  have r: "bo_read_u16 B (drop 5 header) = Ok (word_of_nat ?c)" "bo_read_u16 B (drop 7 header) = Ok (word_of_nat ?p)"
    using lens by (simp_all add: d read_u16 le_val_le_bytes_small)
  have pos: "(0 < (word_of_nat n :: u16)) \<longleftrightarrow> n \<noteq> 0" if "n < 2 ^ 16" for n
    using that by (simp add: word_less_nat_alt unat_of_nat)
  have add: "add_chk chk (word_of_nat a) (word_of_nat b :: u16) = Ok (word_of_nat (a + b))" if "a + b < 2 ^ 16" for a b
    using that by (subst add_chk_no_overflow) (simp_all add: unat_of_nat)
  have "length header = 12" by (simp add: assms(2))
  then show ?thesis
    using assms(1) r pos [of ?c] pos [of ?p] add [of ?c ?p] add [of "?c + ?p" 1] add [of "?c + ?p + 1" 1]
    by (auto simp: expected_packets_def add.assoc add.commute)
qed
lemma forward_prepare_ok_copies:
  assumes "length columns + length params + 2 < 2 ^ 16"
    "map snd ps = prepare_packets B M stmt_id params columns (hs_client_flag h)"
  shows "copies (forward_prepare_stmt W B M chk h) ps None"
proof -
  let ?d = "has_cap M (hs_client_flag h) CLIENT_DEPRECATE_EOF"
  let ?n = "length columns + length params +
      (if ?d then 0 else (if columns = [] then 0 else 1) + (if params = [] then 0 else 1))"
  obtain q p rest where ps: "ps = (q, p) # rest"
    "p = 0x00 # le_bytes 4 (unat stmt_id) @ le_bytes 2 (length columns) @ le_bytes 2 (length params) @ [0, 0, 0]"
    "map snd rest = tl (prepare_packets B M stmt_id params columns (hs_client_flag h))"
    using assms(2) by (cases ps) (auto simp: prepare_packets_def)
  have "length (tl (prepare_packets B M stmt_id params columns (hs_client_flag h))) = ?n"
    by (simp add: prepare_packets_def has_cap_iff_set)
  then have len: "length rest = ?n" by (metis ps(3) length_map)
  have "?n < 2 ^ 16" using assms(1) by simp
  then have "unat (word_of_nat ?n :: u16) = ?n" by (subst unat_of_nat) (rule mod_less, simp)
  moreover have "is_ok_packet p" by (simp add: ps(2) is_ok_packet_def)
  ultimately show ?thesis
    using forward_prepare_stmt_copies [of p rest "word_of_nat ?n" chk M h q] ps(1) len
      expected_packets_prepare_ok [OF assms(1) ps(2), of chk ?d] by simp
qed

end

end
