(* ===== verification/Server.thy ===== *)
theory Server
  imports Auth Transparency BackendMgr
begin

text \<open>
  \<open>server/haentgl_server.rs\<close>: the command phase (\<open>on_com\<close>) and the whole life of a client connection
  (\<open>connect\<close>). The command loop reads a client packet in every iteration; its fuel is one more than
  the bytes the client can still deliver.
\<close>

subsection \<open>The command phase\<close>

text \<open>The choice of the forwarder by command code, and its \<open>forward\<close>.\<close>

definition forward ::
  "winnow \<Rightarrow> byteorder \<Rightarrow> mysql_common \<Rightarrow> bool \<Rightarrow> CommandCode \<Rightarrow> bytes \<Rightarrow> HandshakeResponse \<Rightarrow>
   (session, bytes option) io" where
  "forward W B M chk com_code client_packet h =
     (case com_code of
        ComStmtPrepare \<Rightarrow> stmt_prepare_forward W B M chk com_code client_packet h
      | ComStmtClose \<Rightarrow> stmt_prepare_forward W B M chk com_code client_packet h
      | ComQuery \<Rightarrow> query_forward W B M chk com_code h
      | ComStmtExecute \<Rightarrow> query_forward W B M chk com_code h
      | ComProcessInfo \<Rightarrow> query_forward W B M chk com_code h
      | ComFieldList \<Rightarrow> query_forward W B M chk com_code h
      | ComStmtFetch \<Rightarrow> query_forward W B M chk com_code h
      | ComQuit \<Rightarrow> reset_conn_forward W B chk
      | ComChangeUser \<Rightarrow> change_user_forward W B M chk h
      | _ \<Rightarrow> generic_forward W B chk)"

text \<open>\<open>client_packet[0]\<close> panics on an empty packet, \<open>from_u8(..).unwrap()\<close> on an unknown command.\<close>

definition command_of :: "bytes \<Rightarrow> CommandCode result" where
  "command_of client_packet =
     (if client_packet = [] then Panic else unwrap_opt (command_from_u8 (client_packet ! 0)))"

fun on_com_loop ::
  "winnow \<Rightarrow> byteorder \<Rightarrow> mysql_common \<Rightarrow> mysql_packets \<Rightarrow> bool \<Rightarrow> HandshakeResponse \<Rightarrow> nat \<Rightarrow> (session, unit) io" where
  "on_com_loop W B M P chk h 0 = fail_io Diverge"
| "on_com_loop W B M P chk h (Suc n) =
     bind_io (on_reader Client (next_async W chk)) (\<lambda>pkt_opt.
       case pkt_opt of
         None \<Rightarrow> fail_io (Err (IoError InvalidData ''Malform packet error''))
       | Some (seq, client_packet) \<Rightarrow>
           bind_io (fail_io (command_of client_packet)) (\<lambda>com_code.
           bind_io (write_to_backend B P seq com_code h client_packet) (\<lambda>_.
           bind_io (fail_io (unwrap_opt (all_sql_com (client_packet ! 0)))) (\<lambda>labels.
           bind_io (forward W B M chk com_code client_packet h) (\<lambda>_.
             if com_code = ComQuit then return_io () else on_com_loop W B M P chk h n)))))"

definition on_com ::
  "winnow \<Rightarrow> byteorder \<Rightarrow> mysql_common \<Rightarrow> mysql_packets \<Rightarrow> bool \<Rightarrow> HandshakeResponse \<Rightarrow> (session, unit) io" where
  "on_com W B M P chk h =
     bind_io (on_writer Backend (\<lambda>w. (Ok (), reset_seq w))) (\<lambda>_ s.
       on_com_loop W B M P chk h (Suc (reader_size (ss_client_reader s))) s)"

subsection \<open>A client connection\<close>

text \<open>
  \<open>pool_get\<close> stands for \<open>get().await.unwrap()\<close> on the pool the backend manager has chosen. The result
  keeps the session and the pooled connection as they are when \<open>connect\<close> returns. \<open>main\<close> sets the
  environment variable that \<open>change_tenant_if_need\<close> reads exactly when the router is not static.
\<close>

record connection =
  cn_session :: session
  cn_pooled :: PooledConn

definition give_back :: "session \<Rightarrow> DbUserConnLifeCycle \<Rightarrow> PooledConn \<Rightarrow> connection" where
  "give_back s lc conn =
     \<lparr>cn_session = s,
      cn_pooled = update_conn_life_cycle lc
        (conn\<lparr>pc_reader := ss_backend_reader s, pc_writer := ss_backend_writer s\<rparr>)\<rparr>"

definition authenticate ::
  "winnow \<Rightarrow> byteorder \<Rightarrow> mysql_common \<Rightarrow> mysql_packets \<Rightarrow> bool \<Rightarrow> DbUserConnLifeCycle \<Rightarrow> u8 \<Rightarrow> bytes \<Rightarrow>
   HandshakeResponse \<Rightarrow> (session, unit) io" where
  "authenticate W B M P chk conn_life_cycle seq handshake_pkt h =
     (case lc_conn_phase conn_life_cycle of
        Some PhaseCommand \<Rightarrow> continue_auth W B M P chk seq h
      | _ \<Rightarrow> reply_handshake_response W B M P chk seq handshake_pkt h)"

text \<open>From the pooled connection on: authenticate, record the phase, serve commands.\<close>

definition serve ::
  "winnow \<Rightarrow> byteorder \<Rightarrow> mysql_common \<Rightarrow> mysql_packets \<Rightarrow> bool \<Rightarrow> u8 \<Rightarrow> bytes \<Rightarrow> HandshakeResponse \<Rightarrow>
   packet_reader \<Rightarrow> sink \<Rightarrow> PooledConn \<Rightarrow> unit result \<times> connection" where
  "serve W B M P chk seq handshake_pkt h reader writer conn =
     (let s0 = \<lparr>ss_client_reader = reader, ss_client_writer = writer_new writer,
                ss_backend_reader = pc_reader conn, ss_backend_writer = reset_seq (pc_writer conn)\<rparr>;
          conn_life_cycle = get_conn_life_cycle conn;
          db_user = db_user_string h in
      case authenticate W B M P chk conn_life_cycle seq handshake_pkt h s0 of
        (Ok _, s1) \<Rightarrow>
          (case on_com W B M P chk h s1 of
             (res, s2) \<Rightarrow> (res, give_back s2 (new_conn_life_cycle db_user PhaseCommand) conn))
      | (Err e, s1) \<Rightarrow> (Ok (), give_back s1 (new_conn_life_cycle db_user PhaseConnection) conn)
      | (Panic, s1) \<Rightarrow> (Panic, give_back s1 conn_life_cycle conn)
      | (Diverge, s1) \<Rightarrow> (Diverge, give_back s1 conn_life_cycle conn))"

definition on_conn ::
  "winnow \<Rightarrow> byteorder \<Rightarrow> mysql_common \<Rightarrow> bool \<Rightarrow> bool \<Rightarrow> bool \<Rightarrow> u64 \<Rightarrow> bytes \<Rightarrow> stream \<Rightarrow> sink \<Rightarrow>
   (u8 \<times> HandshakeResponse \<times> bytes) result \<times> packet_reader \<times> packet_writer" where
  "on_conn W B M chk sync_router tls conn_id scramble r w =
     initial_handshake W B M chk sync_router tls conn_id scramble (reader_new r, writer_new w)"

definition connect ::
  "winnow \<Rightarrow> byteorder \<Rightarrow> mysql_common \<Rightarrow> mysql_packets \<Rightarrow> hex \<Rightarrow> (nat \<Rightarrow> nat) \<Rightarrow> ('p \<Rightarrow> PooledConn result) \<Rightarrow> bool \<Rightarrow>
   bool \<Rightarrow> nat list \<Rightarrow> u64 \<Rightarrow> 'p BackendMgr \<Rightarrow> stream \<Rightarrow> sink \<Rightarrow> unit result \<times> connection option" where
  "connect W B M P H G pool_get chk tls draws conn_id mgr r w =
     (case on_conn W B M chk (\<not> is_static (bm_router mgr)) tls conn_id (gen_user_salt draws) r w of
        (Ok (seq, h, pkt), reader, writer) \<Rightarrow>
          (case rbind (connect_to_backend H G chk h mgr) pool_get of
             Ok conn \<Rightarrow>
               (let (res, c) = serve W B M P chk seq pkt h reader (wr_inner writer) conn in (res, Some c))
           | Err e \<Rightarrow> (Err e, None)
           | Panic \<Rightarrow> (Panic, None)
           | Diverge \<Rightarrow> (Diverge, None))
      | (Err e, _) \<Rightarrow> (Err e, None)
      | (Panic, _) \<Rightarrow> (Panic, None)
      | (Diverge, _) \<Rightarrow> (Diverge, None))"

subsection \<open>The command phase ends\<close>

text \<open>
  The responses of the backend to a request, and the conversations that end with COM_QUIT: what the
  client sends, what the backend answers, and what the proxy sends to each of them. The first
  argument is the sequence number the backend writer is at: the COM_RESET_CONNECTION that replaces
  COM_QUIT carries it.
\<close>

inductive answers ::
  "winnow \<Rightarrow> byteorder \<Rightarrow> mysql_common \<Rightarrow> bool \<Rightarrow> u32 \<Rightarrow> bytes \<Rightarrow> (u8 \<times> bytes) list \<Rightarrow> bool"
  for W B M chk caps where
  ans_query: "command_of r = Ok c \<Longrightarrow> c \<in> {ComQuery, ComStmtExecute, ComProcessInfo} \<Longrightarrow>
    query_response W B M caps ps \<Longrightarrow> answers W B M chk caps r ps"
| ans_rows: "command_of r = Ok c \<Longrightarrow> c \<in> {ComFieldList, ComStmtFetch} \<Longrightarrow>
    rows W M caps ps f \<Longrightarrow> answers W B M chk caps r ps"
| ans_prepare: "command_of r = Ok ComStmtPrepare \<Longrightarrow> is_ok_packet p \<Longrightarrow>
    expected_packets B chk (has_cap M caps CLIENT_DEPRECATE_EOF) p = Ok n \<Longrightarrow> length ps = unat n \<Longrightarrow>
    answers W B M chk caps r ((q, p) # ps)"
| ans_prepare_err: "command_of r = Ok ComStmtPrepare \<Longrightarrow> is_err_packet p \<Longrightarrow>
    err_message M caps p \<noteq> None \<Longrightarrow> answers W B M chk caps r [(q, p)]"
| ans_close: "command_of r = Ok ComStmtClose \<Longrightarrow> 5 \<le> length r \<Longrightarrow> answers W B M chk caps r []"
| ans_generic: "command_of r = Ok c \<Longrightarrow>
    c \<notin> {ComStmtPrepare, ComStmtClose, ComQuery, ComStmtExecute, ComProcessInfo, ComFieldList,
          ComStmtFetch, ComQuit, ComChangeUser} \<Longrightarrow>
    answers W B M chk caps r [(q, p)]"

definition reset_request :: bytes where
  "reset_request = [0x1f, 0x08, 0x00, 0x00, 0x00]"

inductive dialogue ::
  "winnow \<Rightarrow> byteorder \<Rightarrow> mysql_common \<Rightarrow> bool \<Rightarrow> u32 \<Rightarrow> u8 \<Rightarrow> (u8 \<times> bytes) list \<Rightarrow> (u8 \<times> bytes) list \<Rightarrow>
   (u8 \<times> bytes) list \<Rightarrow> (u8 \<times> bytes) list \<Rightarrow> bool"
  for W B M chk caps where
  dlg_quit: "command_of r = Ok ComQuit \<Longrightarrow>
    dialogue W B M chk caps sq [(q, r)] [(q', p)] [] [(sq, reset_request)]"
| dlg_request: "answers W B M chk caps r ps \<Longrightarrow> dialogue W B M chk caps (q + 1) reqs backs tc tb \<Longrightarrow>
    dialogue W B M chk caps sq ((q, r) # reqs) (ps @ backs) (ps @ tc) ((q, r) # tb)"

lemma command_of_Ok: "command_of r = Ok c \<longleftrightarrow> r \<noteq> [] \<and> r ! 0 = command_code c"
  by (simp add: command_of_def command_from_u8_Some)

lemma command_of_no_diverge: "command_of r \<noteq> Diverge"
  by (cases "command_from_u8 (r ! 0)") (simp_all add: command_of_def)

lemma answers_command:
  assumes "answers W B M chk caps r ps"
  obtains c where "command_of r = Ok c" "c \<noteq> ComQuit" "c \<noteq> ComChangeUser"
  using assms by cases auto

lemma backend_packet_same:
  "c \<noteq> ComQuit \<Longrightarrow> c \<noteq> ComChangeUser \<Longrightarrow> backend_packet P c h r = Ok (Some r)"
  by (cases c) (simp_all add: backend_packet_def)

lemma on_com_eq:
  "on_com W B M P chk h s =
     on_com_loop W B M P chk h (Suc (client_size s)) (s\<lparr>ss_backend_writer := reset_seq (ss_backend_writer s)\<rparr>)"
  by (simp add: on_com_def bind_io_def on_writer_def client_size_def del: on_com_loop.simps)

lemma tame_write_to_backend: "tame (write_to_backend B P seq c h pkt) s"
proof -
  have "backend_packet P c h pkt \<noteq> Diverge"
    by (cases c; cases "change_user_rewrite P (hs_client_flag h) (hs_collation h) unknown_plugin pkt")
      (simp_all add: backend_packet_def)
  then show ?thesis
    unfolding write_to_backend_def
    by (auto intro!: tame_bind tame_intros split: option.split)
qed

lemma bind_io_no_diverge:
  assumes "fst (m s) \<noteq> Diverge" "\<And>a s'. m s = (Ok a, s') \<Longrightarrow> fst (f a s') \<noteq> Diverge"
  shows "fst (bind_io m f s) \<noteq> Diverge"
  using assms by (auto simp: bind_io_def split: prod.splits result.splits)

lemma relay_no_diverge: "fst (relay B p q pkt s) \<noteq> Diverge"
  unfolding relay_def
proof (rule bind_io_no_diverge)
  show "fst (send_packet B p q pkt s) \<noteq> Diverge" using tame_send by (auto simp: tame_def)
  show "fst (flush_peer p s') \<noteq> Diverge" for s' using tame_flush by (auto simp: tame_def)
qed

context net_spec
begin

lemma forward_tame: "tame (forward W B M chk c pkt h) s"
  by (cases c) (simp_all add: forward_def stmt_prepare_forward_tame query_forward_tame
      reset_conn_forward_tame change_user_forward_tame generic_forward_tame)

lemma command_step_no_diverge:
  assumes "\<And>s'. client_size s' \<le> client_size s \<Longrightarrow> fst (k s') \<noteq> Diverge"
  shows "fst (bind_io (fail_io (command_of pkt)) (\<lambda>com_code.
    bind_io (write_to_backend B P seq com_code h pkt) (\<lambda>_.
    bind_io (fail_io (unwrap_opt (all_sql_com (pkt ! 0)))) (\<lambda>labels.
    bind_io (forward W B M chk com_code pkt h) (\<lambda>_.
      if com_code = ComQuit then return_io () else k)))) s) \<noteq> Diverge"
proof (intro bind_io_no_diverge, goal_cases)
  case 1 then show ?case by (simp add: fail_io_def command_of_no_diverge)
next
  case 2 then show ?case using tame_write_to_backend by (simp add: tame_def)
next
  case (3 c) then show ?case by (cases "all_sql_com (pkt ! 0)") (simp_all add: fail_io_def)
next
  case 4 then show ?case using forward_tame by (simp add: tame_def)
next
  case (5 c t1 u t2 l t3 v t4)
  have "client_size t2 \<le> client_size s" "client_size t4 \<le> client_size t2"
    using 5 tame_write_to_backend [of B P seq c h pkt t1] forward_tame [of M chk c pkt h t3]
    by (auto simp: tame_def fail_io_def)
  then show ?case using assms [of t4] by (simp add: return_io_def)
qed

lemma on_com_loop_no_diverge:
  "client_size s < n \<Longrightarrow> fst (on_com_loop W B M P chk h n s) \<noteq> Diverge"
proof (induction n arbitrary: s)
  case (Suc n)
  show ?case unfolding on_com_loop.simps
  proof (rule bind_io_no_diverge, goal_cases)
    case 1
    show ?case using next_async_no_diverge by (simp add: on_reader_def case_prod_unfold Let_def)
  next
    case (2 pkt_opt s1)
    show ?case
    proof (cases pkt_opt)
      case (Some sp)
      have "client_size s1 < n"
        using 2 Suc.prems Some next_async_size [of chk "ss_client_reader s" sp "ss_client_reader s1"]
        by (auto simp: on_reader_def client_size_def split: prod.splits)
      then show ?thesis using Suc.IH command_step_no_diverge [of s1 "on_com_loop W B M P chk h n"]
        by (cases sp) (simp add: Some)
    qed (simp add: fail_io_def)
  qed
qed simp

lemma on_com_no_diverge: "fst (on_com W B M P chk h s) \<noteq> Diverge"
  unfolding on_com_eq by (rule on_com_loop_no_diverge) (simp add: client_size_def)

lemma forward_copies:
  assumes "answers W B M chk (hs_client_flag h) r ps" "command_of r = Ok c"
  obtains a where "copies (forward W B M chk c r h) ps a"
  using assms
proof cases
  case (ans_query c)
  then have "copies (forward_query W B M chk h) ps ()" by (simp add: forward_query_copies)
  then have "copies (query_forward W B M chk c h) ps None"
    using ans_query by (simp add: query_forward_def copies_bind_last copies_return)
  then show thesis using ans_query assms(2) that by (auto simp: forward_def)
next
  case (ans_rows c f)
  then have "copies (forward_until_result_end W B M chk h) ps f" by (simp add: forward_until_result_end_copies)
  then have "copies (query_forward W B M chk c h) ps None"
    using ans_rows by (auto simp: query_forward_def copies_bind_last copies_return)
  then show thesis using ans_rows assms(2) that by (auto simp: forward_def)
next
  case (ans_prepare p n ps' q)
  then show thesis using that assms(2) forward_prepare_stmt_copies [of p ps' n chk M h q]
    by (auto simp: forward_def stmt_prepare_forward_def)
next
  case (ans_prepare_err p q)
  then have "copies (forward_prepare_stmt W B M chk h) [(q, p)] None"
    unfolding forward_prepare_stmt_def
    by (auto intro!: copies_packet_bind copies_bind_Nil [OF copies_parse_err]
        copies_bind_Nil [OF copies_flush] copies_return)
  then show thesis using ans_prepare_err that assms(2) by (simp add: forward_def stmt_prepare_forward_def)
next
  case ans_close
  obtain i where "bo_read_u32 B (take 4 (drop 1 r)) = Ok i" using ans_close read_u32 by simp
  then have "copies (forward_close_stmt B r) [] None"
    using ans_close by (simp add: forward_close_stmt_def copies_bind_Nil [OF copies_ok] copies_return)
  then show thesis using ans_close that assms(2) by (simp add: forward_def stmt_prepare_forward_def)
next
  case (ans_generic c q p)
  then have "forward W B M chk c r h = generic_forward W B chk" by (cases c) (simp_all add: forward_def)
  then show thesis using ans_generic that assms(2) generic_forward_copies by auto
qed

lemma relay_seq:
  assumes "relay B p q pkt s = (Ok (), s')" "open_writer (writer_of p s)" "pkt \<noteq> []" "length pkt < MAX_PAYLOAD_LEN"
  shows "wr_seq (writer_of p s') = q + 1"
proof -
  obtain w' where "send_packet B p q pkt s = (Ok (), set_writer p w' s)" "wr_seq w' = q + 1"
    using send_packet_open [OF assms(2,4), of q thesis] assms(3,4) by (auto simp: wire_count_small)
  then show ?thesis using assms(1)
    by (auto simp: relay_def bind_io_def flush_peer_def on_writer_def flush_all_def split: prod.splits)
qed

lemma copies_exchanged:
  assumes "copies m ps a" "session_delivers s cs (ps @ bs)"
  obtains s' where "m s = (Ok a, s')" "session_delivers s' cs bs" "exchanged ps [] s s'"
    "ss_backend_writer s' = ss_backend_writer s"
proof -
  obtain s' where s': "m s = (Ok a, s')" "moved Backend Client ps s s'" "delivers (ss_backend_reader s') bs"
    "open_writer (ss_client_writer s')"
    using copiesD [OF assms(1)] assms(2) by (auto simp: session_delivers_def)
  have "reader_of Client s' = reader_of Client s" "writer_of Backend s' = writer_of Backend s"
    using s'(2) by (auto simp: moved_def simp del: reader_of.simps writer_of.simps)
  then show thesis using s' assms(2) that
    by (simp add: session_delivers_def exchanged_def moved_def sent_to_def)
qed

lemma read_request:
  assumes "session_delivers s ((q, r) # cs) bs"
  obtains s' where "on_reader Client (next_async W chk) s = (Ok (Some (q, r)), s')" "session_delivers s' cs bs"
    "exchanged [] [] s s'" "length r < MAX_PAYLOAD_LEN" "ss_backend_writer s' = ss_backend_writer s"
proof -
  have d: "delivers (ss_client_reader s) ((q, r) # cs)" using assms by (simp add: session_delivers_def)
  obtain r' where "next_async W chk (ss_client_reader s) = (Ok (Some (q, r)), r')" "delivers r' cs"
    by (rule next_async_delivers [OF d])
  then show thesis using assms that [of "s\<lparr>ss_client_reader := r'\<rparr>"] d
    by (simp add: on_reader_def session_delivers_def exchanged_def sent_to_def delivers_def)
qed

lemma request_step:
  assumes "answers W B M chk (hs_client_flag h) r ps" "session_delivers s ((q, r) # cs) (ps @ bs)"
  obtains s' where "on_com_loop W B M P chk h (Suc n) s = on_com_loop W B M P chk h n s'"
    "session_delivers s' cs bs" "exchanged ps [(q, r)] s s'" "wr_seq (ss_backend_writer s') = q + 1"
proof -
  obtain c where c: "command_of r = Ok c" "c \<noteq> ComQuit" "c \<noteq> ComChangeUser"
    by (rule answers_command [OF assms(1)])
  obtain l where l: "all_sql_com (r ! 0) = Some l" using all_sql_com_code c(1) by (auto simp: command_of_Ok)
  obtain s1 where s1: "on_reader Client (next_async W chk) s = (Ok (Some (q, r)), s1)"
    "session_delivers s1 cs (ps @ bs)" "exchanged [] [] s s1" "length r < MAX_PAYLOAD_LEN"
    by (rule read_request [OF assms(2)])
  obtain s2 where s2: "relay B Backend q r s1 = (Ok (), s2)" "session_delivers s2 cs (ps @ bs)"
    "exchanged [] [(q, r)] s1 s2"
    by (rule relay_backend [OF s1(2,4)])
  have seq: "wr_seq (ss_backend_writer s2) = q + 1"
    using relay_seq [OF s2(1)] s1(2,4) c(1) by (simp add: session_delivers_def command_of_Ok)
  obtain a where a: "copies (forward W B M chk c r h) ps a" by (rule forward_copies [OF assms(1) c(1)])
  obtain s3 where s3: "forward W B M chk c r h s2 = (Ok a, s3)" "session_delivers s3 cs bs"
    "exchanged ps [] s2 s3" "ss_backend_writer s3 = ss_backend_writer s2"
    by (rule copies_exchanged [OF a s2(2)])
  have "write_to_backend B P q c h r = relay B Backend q r"
    using c by (simp add: write_to_backend_def relay_def fail_io_def bind_io_def backend_packet_same fun_eq_iff)
  then have "on_com_loop W B M P chk h (Suc n) s = on_com_loop W B M P chk h n s3"
    using s1(1) s2(1) s3(1) c(1,2) l
    by (simp only: on_com_loop.simps bind_io_def fail_io_def prod.case option.case result.case unwrap_opt.simps
        if_False)
  moreover have "exchanged ps [(q, r)] s s3"
    using exchanged_trans [OF exchanged_trans [OF s1(3) s2(3)] s3(3)] by simp
  ultimately show thesis using that s3(2,4) seq by simp
qed

lemma write_flush_open:
  assumes "open_writer w" "concat bss \<noteq> []"
  obtains w' where "bind_io (\<lambda>w. end_packet B (puts bss w)) (\<lambda>_. flush_all) w = (Ok (), w')" "open_writer w'"
    "sk_sent (wr_inner w') = sk_sent (wr_inner w) @ wire (wr_seq w) (concat bss)"
proof -
  have buf: "wr_buf (puts bss w) = concat bss" "wr_seq (puts bss w) = wr_seq w" "wr_inner (puts bss w) = wr_inner w"
    using assms by (simp_all add: puts_eq open_writer_def)
  obtain w1 where w1: "end_packet B (puts bss w) = (Ok (), w1)" "wr_buf w1 = []" "sk_plan (wr_inner w1) = []"
    "sk_sent (wr_inner w1) = sk_sent (wr_inner w) @ wire (wr_seq w) (concat bss)"
    using end_packet_open [of "puts bss w"] assms(1) buf by (auto simp: open_writer_def)
  then show thesis using flush_all_open [OF w1(3)] that by (simp add: bind_io_def open_writer_def)
qed

lemma write_reset_connection_open:
  assumes "open_writer w"
  obtains w' where "write_reset_connection B w = (Ok (), w')" "open_writer w'"
    "sk_sent (wr_inner w') = sk_sent (wr_inner w) @ frame (wr_seq w) reset_request"
proof -
  have "concat [[command_code ComResetConnection], bo_write_u32 B CONN_ID] = reset_request"
    by (simp add: write_u32 CONN_ID_def le_bytes_numeral reset_request_def)
  moreover have "wire s reset_request = frame s reset_request" for s
    by (rule wire_small) (simp add: reset_request_def MAX_PAYLOAD_LEN_def)
  ultimately show thesis
    using write_flush_open [OF assms, of "[[command_code ComResetConnection], bo_write_u32 B CONN_ID]" thesis] that
    by (simp add: write_reset_connection_def reset_request_def del: command_code.simps)
qed

lemma quit_step:
  assumes "command_of r = Ok ComQuit" "session_delivers s ((q, r) # cs) ((q', p) # bs)"
  obtains s' where "on_com_loop W B M P chk h (Suc n) s = (Ok (), s')" "session_delivers s' cs bs"
    "exchanged [] [(wr_seq (ss_backend_writer s), reset_request)] s s'"
proof -
  obtain l where l: "all_sql_com (r ! 0) = Some l"
    using all_sql_com_code assms(1) by (auto simp: command_of_Ok simp del: command_code.simps)
  obtain s1 where s1: "on_reader Client (next_async W chk) s = (Ok (Some (q, r)), s1)"
    "session_delivers s1 cs ((q', p) # bs)" "exchanged [] [] s s1" "ss_backend_writer s1 = ss_backend_writer s"
    by (rule read_request [OF assms(2)])
  have ow: "open_writer (ss_backend_writer s1)" using s1(2) by (simp add: session_delivers_def)
  obtain w' where w': "write_reset_connection B (ss_backend_writer s1) = (Ok (), w')" "open_writer w'"
    "sk_sent (wr_inner w') = sk_sent (wr_inner (ss_backend_writer s1)) @
       frame (wr_seq (ss_backend_writer s1)) reset_request"
    by (rule write_reset_connection_open [OF ow])
  let ?s2 = "s1\<lparr>ss_backend_writer := w'\<rparr>"
  have s2: "on_writer Backend (write_reset_connection B) s1 = (Ok (), ?s2)"
    using w'(1) by (simp add: on_writer_def)
  have d2: "session_delivers ?s2 cs ((q', p) # bs)" using s1(2) w'(2) by (simp add: session_delivers_def)
  have e2: "exchanged [] [(wr_seq (ss_backend_writer s), reset_request)] s1 ?s2"
    using w' s1(2,4) by (simp add: exchanged_def session_delivers_def sent_to_def)
  obtain s3 where s3: "async_packet_read W chk Backend ?s2 = (Ok (q', p), s3)" "session_delivers s3 cs bs"
    "exchanged [] [] ?s2 s3"
    by (rule read_backend [OF d2])
  have "on_com_loop W B M P chk h (Suc n) s = (Ok (), s3)"
    using s1(1) s2 s3(1) assms(1) l
    by (simp add: bind_io_def fail_io_def return_io_def write_to_backend_def backend_packet_def forward_def
        reset_conn_forward_def)
  then show thesis using that s3(2) exchanged_trans [OF exchanged_trans [OF s1(3) e2] s3(3)] by simp
qed

lemma on_com_loop_dialogue:
  assumes "dialogue W B M chk (hs_client_flag h) sq reqs backs tc tb" "length reqs \<le> n"
    "session_delivers s (reqs @ cs) (backs @ bs)" "wr_seq (ss_backend_writer s) = sq"
  shows "\<exists>s'. on_com_loop W B M P chk h n s = (Ok (), s') \<and> session_delivers s' cs bs \<and> exchanged tc tb s s'"
  using assms
proof (induction arbitrary: s n rule: dialogue.induct)
  case (dlg_quit r sq q q' p)
  then obtain m where "n = Suc m" by (cases n) auto
  then show ?case
    using quit_step [of r s q cs q' p bs M P chk h m] dlg_quit by (simp del: on_com_loop.simps) blast
next
  case (dlg_request r ps q reqs backs tc tb sq)
  then obtain m where n: "n = Suc m" by (cases n) auto
  have d: "session_delivers s ((q, r) # reqs @ cs) (ps @ backs @ bs)" using dlg_request.prems by simp
  obtain s' where s': "on_com_loop W B M P chk h (Suc m) s = on_com_loop W B M P chk h m s'"
    "session_delivers s' (reqs @ cs) (backs @ bs)" "exchanged ps [(q, r)] s s'"
    "wr_seq (ss_backend_writer s') = q + 1"
    by (rule request_step [OF dlg_request.hyps(1) d])
  from dlg_request.IH [OF _ s'(2,4), of m] dlg_request.prems n
  obtain s2 where "on_com_loop W B M P chk h m s' = (Ok (), s2)" "session_delivers s2 cs bs" "exchanged tc tb s' s2"
    by auto
  then show ?case using n s'(1) exchanged_trans [OF s'(3)] by (simp del: on_com_loop.simps)
qed

lemma on_com_dialogue:
  assumes "dialogue W B M chk (hs_client_flag h) 0 reqs backs tc tb"
    "session_delivers s (reqs @ cs) (backs @ bs)"
  shows "\<exists>s'. on_com W B M P chk h s = (Ok (), s') \<and> session_delivers s' cs bs \<and> exchanged tc tb s s'"
proof -
  let ?s = "s\<lparr>ss_backend_writer := reset_seq (ss_backend_writer s)\<rparr>"
  have d: "session_delivers ?s (reqs @ cs) (backs @ bs)"
    using assms(2) by (simp add: session_delivers_def open_writer_def reset_seq_def)
  have "length reqs \<le> Suc (client_size s)"
    using delivers_size [of "ss_client_reader s" "reqs @ cs"] assms(2)
    by (simp add: session_delivers_def client_size_def)
  from on_com_loop_dialogue [OF assms(1) this d]
  obtain s' where "on_com W B M P chk h s = (Ok (), s')" "session_delivers s' cs bs" "exchanged tc tb ?s s'"
    by (auto simp: reset_seq_def on_com_eq simp del: on_com_loop.simps)
  then show ?thesis by (auto simp: exchanged_def sent_to_def reset_seq_def)
qed

end

subsection \<open>The connection and its pool\<close>

definition serve_start :: "packet_reader \<Rightarrow> sink \<Rightarrow> PooledConn \<Rightarrow> session" where
  "serve_start reader writer conn =
     \<lparr>ss_client_reader = reader, ss_client_writer = writer_new writer,
      ss_backend_reader = pc_reader conn, ss_backend_writer = reset_seq (pc_writer conn)\<rparr>"

definition auth_outcome ::
  "winnow \<Rightarrow> byteorder \<Rightarrow> mysql_common \<Rightarrow> mysql_packets \<Rightarrow> bool \<Rightarrow> u8 \<Rightarrow> bytes \<Rightarrow> HandshakeResponse \<Rightarrow>
   packet_reader \<Rightarrow> sink \<Rightarrow> PooledConn \<Rightarrow> unit result \<times> session" where
  "auth_outcome W B M P chk seq pkt h reader writer conn =
     authenticate W B M P chk (pc_life_cycle conn) seq pkt h (serve_start reader writer conn)"

lemma serve_auth_ok:
  assumes "auth_outcome W B M P chk seq pkt h reader writer conn = (Ok (), s)"
    "serve W B M P chk seq pkt h reader writer conn = (res, c)"
  shows "(res, cn_session c) = on_com W B M P chk h s"
    "pc_life_cycle (cn_pooled c) = new_conn_life_cycle (db_user_string h) PhaseCommand"
    "mgr_recycle (cn_pooled c) = Ok ()"
  using assms
  by (auto simp: auth_outcome_def serve_start_def serve_def Let_def give_back_def get_conn_life_cycle_def
      update_conn_life_cycle_def mgr_recycle_def new_conn_life_cycle_def life_cycle_is_none_def split: prod.splits)

lemma serve_auth_err:
  assumes "auth_outcome W B M P chk seq pkt h reader writer conn = (Err e, s)"
    "serve W B M P chk seq pkt h reader writer conn = (res, c)"
  shows "res = Ok ()" "cn_session c = s"
    "mgr_recycle (cn_pooled c) = Err (IoError PermissionDenied ''connection is illegal'')"
    "lc_conn_phase (pc_life_cycle (cn_pooled c)) = Some PhaseConnection"
  using assms
  by (auto simp: auth_outcome_def serve_start_def serve_def Let_def give_back_def get_conn_life_cycle_def
      update_conn_life_cycle_def mgr_recycle_def new_conn_life_cycle_def life_cycle_is_none_def)

text \<open>A panic passes the update of the life cycle by: recycling decides as it did before.\<close>

lemma serve_auth_panic:
  assumes "auth_outcome W B M P chk seq pkt h reader writer conn = (r, s)" "\<not> is_ok r" "\<nexists>e. r = Err e"
    "serve W B M P chk seq pkt h reader writer conn = (res, c)"
  shows "res = r" "cn_session c = s" "pc_life_cycle (cn_pooled c) = pc_life_cycle conn"
    "mgr_recycle (cn_pooled c) = mgr_recycle conn"
  using assms
  by (cases r; auto simp: auth_outcome_def serve_start_def serve_def Let_def give_back_def get_conn_life_cycle_def
      update_conn_life_cycle_def mgr_recycle_def)+

text \<open>The connections a pool can hold: created by the manager, or used by a client and recycled.\<close>

inductive pooled ::
  "winnow \<Rightarrow> byteorder \<Rightarrow> mysql_common \<Rightarrow> mysql_packets \<Rightarrow> bool \<Rightarrow> PooledConn \<Rightarrow> bool"
  for W B M P chk where
  pooled_create: "mgr_create tcp nanoid m = Ok c \<Longrightarrow> pooled W B M P chk c"
| pooled_serve: "pooled W B M P chk c \<Longrightarrow> mgr_recycle c = Ok () \<Longrightarrow>
    serve W B M P chk seq pkt h reader writer c = (res, k) \<Longrightarrow> pooled W B M P chk (cn_pooled k)"

lemma serve_life_cycle_wf:
  assumes "serve W B M P chk seq pkt h reader writer c = (res, k)" "life_cycle_wf (pc_life_cycle c)"
  shows "life_cycle_wf (pc_life_cycle (cn_pooled k))"
  using assms
  by (auto simp: serve_def Let_def give_back_def update_conn_life_cycle_def get_conn_life_cycle_def
      life_cycle_wf_new split: prod.splits result.splits)

lemma pooled_wf: "pooled W B M P chk c \<Longrightarrow> life_cycle_wf (pc_life_cycle c)"
proof (induction rule: pooled.induct)
  case (pooled_create tcp nanoid inst c)
  then show ?case
    by (auto simp: mgr_create_def get_backend_client_def life_cycle_wf_default split: result.splits)
next
  case pooled_serve
  then show ?case by (blast intro: serve_life_cycle_wf)
qed

context net_spec
begin

lemma process_auth_switch_no_diverge: "fst (process_auth_switch_plugin W B M chk q s) \<noteq> Diverge"
proof -
  have rd: "fst (async_packet_read W chk p s) \<noteq> Diverge" for p s
    using async_packet_read_tame by (simp add: tame_def)
  have v: "auth_verdict M pkt \<noteq> Diverge" for pkt by (simp add: auth_verdict_def split: option.split)
  have a: "add_chk chk x 1 \<noteq> Diverge" for x :: u8 by (simp add: add_chk_def)
  show ?thesis unfolding process_auth_switch_plugin_def prod.case_eq_if
    by (intro bind_io_no_diverge rd relay_no_diverge) (simp_all add: fail_io_def v a assert_auth_switch_def)
qed

lemma authenticate_no_diverge: "fst (authenticate W B M P chk lc seq pkt h s) \<noteq> Diverge"
proof -
  have c: "fst (continue_auth W B M P chk seq h s) \<noteq> Diverge"
    unfolding continue_auth_def Let_def
    by (intro bind_io_no_diverge process_auth_switch_no_diverge)
      (simp_all add: on_writer_def case_prod_unfold Let_def end_packet_no_diverge flush_peer_def flush_all_no_diverge)
  have "reset_handshake_plugin P pkt h \<noteq> Diverge" by (simp add: reset_handshake_plugin_def split: option.split)
  then have r: "fst (reply_handshake_response W B M P chk seq pkt h s) \<noteq> Diverge"
    unfolding reply_handshake_response_def
    by (intro bind_io_no_diverge process_auth_switch_no_diverge relay_no_diverge)
      (use async_packet_read_tame in \<open>simp_all add: tame_def fail_io_def\<close>)
  show ?thesis using c r by (simp add: authenticate_def split: option.split DbConnPhase.split)
qed

lemma serve_no_diverge: "fst (serve W B M P chk seq pkt h reader writer conn) \<noteq> Diverge"
  using authenticate_no_diverge on_com_no_diverge
  by (auto simp: serve_def Let_def split: prod.split result.split) (metis fst_conv)+

end

subsection \<open>The first exchange with a client\<close>

context protocol_spec
begin

lemma on_conn_reads:
  assumes "delivers (reader_new es) ((q, p) # ps)" "sk_plan k = []"
  obtains r' w' where "on_conn W B M chk sync_router tls conn_id scramble es k =
      (rbind (unwrap_parse (client_handshake_response W M p False))
         (\<lambda>h. Ok (q, change_tenant_if_need sync_router h, p)), r', w')"
    "delivers r' ps" "sk_plan (wr_inner w') = []"
    "sk_sent (wr_inner w') = sk_sent k @
       wire 0 (concat (initial_handshake_fields M conn_id scramble DEFAULT_BACKEND_VERSION tls))"
proof -
  let ?fields = "initial_handshake_fields M conn_id scramble DEFAULT_BACKEND_VERSION tls"
  have "open_writer (writer_new k)" "concat ?fields \<noteq> []"
    using assms(2) by (simp_all add: open_writer_def writer_new_def initial_handshake_fields_def Let_def)
  then obtain w' where w': "write_initial_handshake B M conn_id scramble DEFAULT_BACKEND_VERSION tls (writer_new k) = (Ok (), w')"
    "open_writer w'" "sk_sent (wr_inner w') = sk_sent k @ wire 0 (concat ?fields)"
    using write_flush_open [of "writer_new k" ?fields thesis]
    by (auto simp: write_initial_handshake_def writer_new_def)
  obtain r' where "next_async W chk (reader_new es) = (Ok (Some (q, p)), r')" "delivers r' ps"
    by (rule next_async_delivers [OF assms(1)])
  then show thesis using that [of r' w'] w' by (simp add: on_conn_def initial_handshake_def open_writer_def)
qed

lemma serve_dialogue:
  assumes "session_delivers (serve_start reader k conn) ((q2, answer) # requests @ cs)
      ((q0, greeting) # (q1, switch) # (q3, verdict) # responses @ bs)"
    and "lc_conn_phase (pc_life_cycle conn) \<noteq> Some PhaseCommand"
    and "reset_handshake_plugin P pkt h = Ok new_packet" "length new_packet < MAX_PAYLOAD_LEN"
    and "switch \<noteq> []" "switch ! 0 = 0xfe" "chk \<longrightarrow> seq \<noteq> 255 \<and> q1 \<noteq> 255" "auth_verdict M verdict = Ok ()"
    and "dialogue W B M chk (hs_client_flag h) 0 requests responses to_client to_backend"
  obtains c where "serve W B M P chk seq pkt h reader k conn = (Ok (), c)" "session_delivers (cn_session c) cs bs"
    "exchanged ([(seq + 1, switch), (q3, verdict)] @ to_client) ([(seq, new_packet), (q1 + 1, answer)] @ to_backend)
      (serve_start reader k conn) (cn_session c)"
    "mgr_recycle (cn_pooled c) = Ok ()"
proof -
  have first: "authenticate W B M P chk (pc_life_cycle conn) seq pkt h = reply_handshake_response W B M P chk seq pkt h"
    using assms(2) by (simp add: authenticate_def split: option.split DbConnPhase.split)
  obtain s1 where s1: "auth_outcome W B M P chk seq pkt h reader k conn = (Ok (), s1)"
    "session_delivers s1 (requests @ cs) (responses @ bs)"
    "exchanged [(seq + 1, switch), (q3, verdict)] [(seq, new_packet), (q1 + 1, answer)] (serve_start reader k conn) s1"
    using reply_handshake_exchange [OF assms(1,3-7), of M thesis] assms(8) first by (auto simp: auth_outcome_def)
  obtain res c where c: "serve W B M P chk seq pkt h reader k conn = (res, c)" by fastforce
  obtain s2 where s2: "on_com W B M P chk h s1 = (Ok (), s2)" "session_delivers s2 cs bs" "exchanged to_client to_backend s1 s2"
    using on_com_dialogue [OF assms(9) s1(2), of P] by blast
  show thesis
    using that [of c] c s2 serve_auth_ok [OF s1(1) c] exchanged_trans [OF s1(3) s2(3)] by simp
qed

lemma connect_dialogue:
  assumes "hello_ok hello" "\<not> cap_set (ch_caps hello) CLIENT_SSL"
    and "h = change_tenant_if_need (\<not> is_static (bm_router mgr)) (hello_response M hello)"
    and "pkt = hello_head hello @ hello_body hello"
    and "delivers (reader_new es) ((seq, pkt) # (q2, answer) # requests @ cs)" "sk_plan k = []"
    and "connect_to_backend H G chk h mgr = Ok pool" "pool_get pool = Ok conn"
    and "delivers (pc_reader conn) ((q0, greeting) # (q1, switch) # (q3, verdict) # responses @ bs)"
    and "open_writer (pc_writer conn)" "lc_conn_phase (pc_life_cycle conn) \<noteq> Some PhaseCommand"
    and "reset_handshake_plugin P pkt h = Ok new_packet" "length new_packet < MAX_PAYLOAD_LEN"
    and "switch \<noteq> []" "switch ! 0 = 0xfe" "chk \<longrightarrow> seq \<noteq> 255 \<and> q1 \<noteq> 255" "auth_verdict M verdict = Ok ()"
    and "dialogue W B M chk (hs_client_flag h) 0 requests responses to_client to_backend"
  obtains c where "connect W B M P H G pool_get chk tls draws conn_id mgr es k = (Ok (), Some c)"
    "sent_to Client (cn_session c) = sk_sent k @
       wire 0 (concat (initial_handshake_fields M conn_id (gen_user_salt draws) DEFAULT_BACKEND_VERSION tls)) @
       frame_bytes ([(seq + 1, switch), (q3, verdict)] @ to_client)"
    "sent_to Backend (cn_session c) = sk_sent (wr_inner (pc_writer conn)) @
       frame_bytes ([(seq, new_packet), (q1 + 1, answer)] @ to_backend)"
    "session_delivers (cn_session c) cs bs" "mgr_recycle (cn_pooled c) = Ok ()"
proof -
  have parse: "client_handshake_response W M pkt False = Done [] (hello_response M hello)"
    using handshake_round_trip [OF assms(1), of False "[]"] assms(2,4) by simp
  obtain r' w' where rw: "on_conn W B M chk (\<not> is_static (bm_router mgr)) tls conn_id (gen_user_salt draws) es k =
      (Ok (seq, h, pkt), r', w')" "delivers r' ((q2, answer) # requests @ cs)" "sk_plan (wr_inner w') = []"
    "sk_sent (wr_inner w') = sk_sent k @
       wire 0 (concat (initial_handshake_fields M conn_id (gen_user_salt draws) DEFAULT_BACKEND_VERSION tls))"
    using on_conn_reads [OF assms(5,6), of chk "\<not> is_static (bm_router mgr)" tls conn_id "gen_user_salt draws" thesis]
      parse assms(3) by auto
  have "session_delivers (serve_start r' (wr_inner w') conn) ((q2, answer) # requests @ cs)
      ((q0, greeting) # (q1, switch) # (q3, verdict) # responses @ bs)"
    using rw(2,3) assms(9,10) by (simp add: session_delivers_def serve_start_def open_writer_def writer_new_def reset_seq_def)
  from serve_dialogue [OF this assms(11-18)] obtain c where
    c: "serve W B M P chk seq pkt h r' (wr_inner w') conn = (Ok (), c)" "session_delivers (cn_session c) cs bs"
      "exchanged ([(seq + 1, switch), (q3, verdict)] @ to_client) ([(seq, new_packet), (q1 + 1, answer)] @ to_backend)
        (serve_start r' (wr_inner w') conn) (cn_session c)"
      "mgr_recycle (cn_pooled c) = Ok ()"
    by blast
  show thesis
  proof (rule that [of c])
    show "connect W B M P H G pool_get chk tls draws conn_id mgr es k = (Ok (), Some c)"
      using rw(1) c(1) assms(7,8) by (simp add: connect_def)
  qed (use c rw(4) in \<open>simp_all add: exchanged_def sent_to_def serve_start_def writer_new_def reset_seq_def\<close>)
qed

end

end
