(* ===== verification/Latency.thy ===== *)
theory Latency
  imports Server Metrics
begin

text \<open>
  The metrics of \<open>server/haentgl_server.rs\<close>: the labels of the commands (\<open>init_sql_com_labels\<close> of
  \<open>server/mod.rs\<close>), the timer of every command and the gauge of the current connections. The command
  loop, \<open>serve\<close> and \<open>connect\<close> are written once more over the session together with the metrics; erasing
  the metrics gives the functions of the theory \<open>Server\<close>. \<open>clk\<close> gives the readings of the clock when a
  command is sent to the backend and when its timer is dropped, by the fuel of the loop.
\<close>

definition sql_com_labels :: "labels \<Rightarrow> u8 \<Rightarrow> labels option" where
  "sql_com_labels process_labels com_code =
     map_option (\<lambda>com_str. (''proxy_com'', lit com_str) # process_labels) (all_sql_com com_code)"

definition init_sql_com_labels :: "host \<Rightarrow> (u8 \<Rightarrow> labels option) result" where
  "init_sql_com_labels h = rbind (common_labels h) (\<lambda>process_labels. Ok (sql_com_labels process_labels))"

subsection \<open>Sessions with metrics\<close>

type_synonym 'r metered = "session \<times> 'r metrics_ctx"

definition on_session :: "(session, 'a) io \<Rightarrow> ('r metered, 'a) io" where
  "on_session m = (\<lambda>(s, c). case m s of (res, s') \<Rightarrow> (res, s', c))"

definition on_metrics :: "('r metrics_ctx \<Rightarrow> 'r metrics_ctx) \<Rightarrow> ('r metered, unit) io" where
  "on_metrics f = (\<lambda>(s, c). (Ok (), s, f c))"

text \<open>A scope with a timer: the timer is dropped however the scope is left.\<close>

definition timed :: "'r metrics_crate \<Rightarrow> nat \<times> nat \<Rightarrow> labels \<Rightarrow> ('r metered, 'a) io \<Rightarrow> ('r metered, 'a) io" where
  "timed C clock ls m = (\<lambda>(s, c).
     let timer = new_with_labels (fst clock) PROXY_COM_LATENCY ls c in
     case m (s, c) of (res, s', c') \<Rightarrow> (res, s', timer_drop C (snd clock) timer c'))"

fun metered_com_loop ::
  "'r metrics_crate \<Rightarrow> labels \<Rightarrow> (nat \<Rightarrow> nat \<times> nat) \<Rightarrow> winnow \<Rightarrow> byteorder \<Rightarrow> mysql_common \<Rightarrow> mysql_packets \<Rightarrow> bool \<Rightarrow>
   HandshakeResponse \<Rightarrow> nat \<Rightarrow> ('r metered, unit) io" where
  "metered_com_loop C common clk W B M P chk h 0 = fail_io Diverge"
| "metered_com_loop C common clk W B M P chk h (Suc n) =
     bind_io (on_session (on_reader Client (next_async W chk))) (\<lambda>pkt_opt.
       case pkt_opt of
         None \<Rightarrow> fail_io (Err (IoError InvalidData ''Malform packet error''))
       | Some (seq, client_packet) \<Rightarrow>
           bind_io (fail_io (command_of client_packet)) (\<lambda>com_code.
           bind_io (on_session (write_to_backend B P seq com_code h client_packet)) (\<lambda>_.
           bind_io (fail_io (unwrap_opt (sql_com_labels common (client_packet ! 0)))) (\<lambda>ls.
           bind_io (timed C (clk n) ls
             (bind_io (on_session (forward W B M chk com_code client_packet h)) (\<lambda>_.
                if com_code = ComQuit
                then bind_io (on_metrics (gauge_dec C PROXY_CURR_CONN (Fin 1) (Some common))) (\<lambda>_. return_io True)
                else return_io False))) (\<lambda>quit.
             if quit then return_io () else metered_com_loop C common clk W B M P chk h n)))))"

definition metered_on_com ::
  "'r metrics_crate \<Rightarrow> labels \<Rightarrow> (nat \<Rightarrow> nat \<times> nat) \<Rightarrow> winnow \<Rightarrow> byteorder \<Rightarrow> mysql_common \<Rightarrow> mysql_packets \<Rightarrow> bool \<Rightarrow>
   HandshakeResponse \<Rightarrow> ('r metered, unit) io" where
  "metered_on_com C common clk W B M P chk h =
     bind_io (on_session (on_writer Backend (\<lambda>w. (Ok (), reset_seq w)))) (\<lambda>_ (s, c).
       metered_com_loop C common clk W B M P chk h (Suc (reader_size (ss_client_reader s))) (s, c))"

definition metered_serve ::
  "'r metrics_crate \<Rightarrow> labels \<Rightarrow> (nat \<Rightarrow> nat \<times> nat) \<Rightarrow> winnow \<Rightarrow> byteorder \<Rightarrow> mysql_common \<Rightarrow> mysql_packets \<Rightarrow> bool \<Rightarrow>
   u8 \<Rightarrow> bytes \<Rightarrow> HandshakeResponse \<Rightarrow> packet_reader \<Rightarrow> sink \<Rightarrow> PooledConn \<Rightarrow> 'r metrics_ctx \<Rightarrow>
   unit result \<times> connection \<times> 'r metrics_ctx" where
  "metered_serve C common clk W B M P chk seq handshake_pkt h reader writer conn c =
     (let s0 = \<lparr>ss_client_reader = reader, ss_client_writer = writer_new writer,
                ss_backend_reader = pc_reader conn, ss_backend_writer = reset_seq (pc_writer conn)\<rparr>;
          conn_life_cycle = get_conn_life_cycle conn;
          db_user = db_user_string h in
      case authenticate W B M P chk conn_life_cycle seq handshake_pkt h s0 of
        (Ok _, s1) \<Rightarrow>
          (case metered_on_com C common clk W B M P chk h (s1, c) of
             (res, s2, c') \<Rightarrow> (res, give_back s2 (new_conn_life_cycle db_user PhaseCommand) conn, c'))
      | (Err e, s1) \<Rightarrow> (Ok (), give_back s1 (new_conn_life_cycle db_user PhaseConnection) conn, c)
      | (Panic, s1) \<Rightarrow> (Panic, give_back s1 conn_life_cycle conn, c)
      | (Diverge, s1) \<Rightarrow> (Diverge, give_back s1 conn_life_cycle conn, c))"

definition metered_connect ::
  "'r metrics_crate \<Rightarrow> labels \<Rightarrow> (nat \<Rightarrow> nat \<times> nat) \<Rightarrow> winnow \<Rightarrow> byteorder \<Rightarrow> mysql_common \<Rightarrow> mysql_packets \<Rightarrow> hex \<Rightarrow>
   (nat \<Rightarrow> nat) \<Rightarrow> ('p \<Rightarrow> PooledConn result) \<Rightarrow> bool \<Rightarrow> bool \<Rightarrow> nat list \<Rightarrow> u64 \<Rightarrow> 'p BackendMgr \<Rightarrow> stream \<Rightarrow> sink \<Rightarrow>
   'r metrics_ctx \<Rightarrow> unit result \<times> connection option \<times> 'r metrics_ctx" where
  "metered_connect C common clk W B M P H G pool_get chk tls draws conn_id mgr r w c =
     (case on_conn W B M chk (\<not> is_static (bm_router mgr)) tls conn_id (gen_user_salt draws) r w of
        (Ok (seq, h, pkt), reader, writer) \<Rightarrow>
          (case rbind (connect_to_backend H G chk h mgr) pool_get of
             Ok conn \<Rightarrow>
               (case metered_serve C common clk W B M P chk seq pkt h reader (wr_inner writer) conn c of
                  (res, cn, c') \<Rightarrow> (res, Some cn, c'))
           | Err e \<Rightarrow> (Err e, None, c)
           | Panic \<Rightarrow> (Panic, None, c)
           | Diverge \<Rightarrow> (Diverge, None, c))
      | (Err e, _) \<Rightarrow> (Err e, None, c)
      | (Panic, _) \<Rightarrow> (Panic, None, c)
      | (Diverge, _) \<Rightarrow> (Diverge, None, c))"

subsection \<open>Erasing the metrics\<close>

text \<open>A metered operation behaves on the session as a plain one.\<close>

definition erases :: "('r metered, 'a) io \<Rightarrow> (session, 'a) io \<Rightarrow> bool" where
  "erases mm m \<longleftrightarrow> (\<forall>s c res s' c'. mm (s, c) = (res, s', c') \<longrightarrow> m s = (res, s'))"

lemma erases_eq: "erases mm m \<Longrightarrow> mm (s, c) = (res, s', c') \<Longrightarrow> m s = (res, s')"
  unfolding erases_def by blast

lemma erases_session: "erases (on_session m) m"
  by (simp add: erases_def on_session_def split: prod.split)

lemma erases_fail: "erases (fail_io res) (fail_io res)"
  by (simp add: erases_def fail_io_def)

lemma erases_return: "erases (return_io a) (return_io a)"
  by (simp add: erases_def return_io_def)

lemma erases_metrics: "erases (on_metrics f) (return_io ())"
  by (simp add: erases_def on_metrics_def return_io_def)

lemma erases_timed: "erases mm m \<Longrightarrow> erases (timed C clock ls mm) m"
  by (fastforce simp: erases_def timed_def Let_def split: prod.splits)

lemma erases_bind:
  assumes "erases mm m" "\<And>a. erases (ff a) (f a)"
  shows "erases (bind_io mm ff) (bind_io m f)"
  unfolding erases_def
proof (intro allI impI)
  fix s c res' s'' c''
  assume bind: "bind_io mm ff (s, c) = (res', s'', c'')"
  obtain res s' c' where mm: "mm (s, c) = (res, s', c')" by (cases "mm (s, c)") auto
  then have "m s = (res, s')" using assms(1) by (rule erases_eq [rotated])
  then show "bind_io m f s = (res', s'')"
    using bind mm erases_eq [OF assms(2)] by (cases res) (auto simp: bind_io_def)
qed

lemmas erases_intros = erases_session erases_fail erases_return erases_metrics erases_timed erases_bind

lemma bind_unwrap_map:
  "bind_io (fail_io (unwrap_opt (map_option f x))) g = bind_io (fail_io (unwrap_opt x)) (\<lambda>a. g (f a))"
  by (cases x) (simp_all add: bind_io_def fail_io_def fun_eq_iff)

lemma erases_com_loop:
  "erases (metered_com_loop C common clk W B M P chk h n) (on_com_loop W B M P chk h n)"
proof (induction n)
  case (Suc n)
  have body: "erases (bind_io (timed C (clk n) ls
       (bind_io (on_session (forward W B M chk com_code pkt h)) (\<lambda>_.
          if com_code = ComQuit
          then bind_io (on_metrics (gauge_dec C PROXY_CURR_CONN (Fin 1) (Some common))) (\<lambda>_. return_io True)
          else return_io False))) (\<lambda>quit.
       if quit then return_io () else metered_com_loop C common clk W B M P chk h n))
     (bind_io (forward W B M chk com_code pkt h) (\<lambda>_.
       if com_code = ComQuit then return_io () else on_com_loop W B M P chk h n))" for ls com_code pkt
  proof -
    let ?m = "bind_io (forward W B M chk com_code pkt h) (\<lambda>_.
       if com_code = ComQuit then bind_io (return_io ()) (\<lambda>_. return_io True) else return_io False)"
    have "(bind_io (forward W B M chk com_code pkt h) (\<lambda>_.
         if com_code = ComQuit then return_io () else on_com_loop W B M P chk h n)) =
       bind_io ?m (\<lambda>quit. if quit then return_io () else on_com_loop W B M P chk h n)"
      by (cases "com_code = ComQuit") (simp_all add: bind_io_assoc)
    moreover have "erases (bind_io (on_metrics f) (\<lambda>_. return_io True)) (bind_io (return_io ()) (\<lambda>_. return_io True))"
      for f :: "'a metrics_ctx \<Rightarrow> 'a metrics_ctx"
      by (intro erases_intros)
    ultimately show ?thesis
      by (simp only:) (intro erases_intros; simp add: erases_return Suc.IH)
  qed
  show ?case
    unfolding metered_com_loop.simps on_com_loop.simps sql_com_labels_def bind_unwrap_map
    by (rule erases_bind [OF erases_session]) (auto intro!: erases_intros body split: option.split)
qed (simp add: erases_fail)

lemma erases_on_com: "erases (metered_on_com C common clk W B M P chk h) (on_com W B M P chk h)"
  unfolding metered_on_com_def on_com_def
  by (rule erases_bind [OF erases_session])
    (auto simp: erases_def simp del: metered_com_loop.simps on_com_loop.simps dest: erases_eq [OF erases_com_loop])

lemma serve_erased:
  assumes "metered_serve C common clk W B M P chk seq pkt h reader writer conn c = (res, cn, c')"
  shows "serve W B M P chk seq pkt h reader writer conn = (res, cn)"
  using assms by (auto simp: metered_serve_def serve_def Let_def dest: erases_eq [OF erases_on_com]
      split: prod.splits result.splits)

lemma connect_erased:
  assumes "metered_connect C common clk W B M P H G pool_get chk tls draws conn_id mgr r w c = (res, cn, c')"
  shows "connect W B M P H G pool_get chk tls draws conn_id mgr r w = (res, cn)"
  using assms by (auto simp: metered_connect_def connect_def dest: serve_erased split: prod.splits result.splits)

subsection \<open>The gauge of the current connections\<close>

text \<open>
  An operation that takes one from the gauge when its result satisfies \<open>Q\<close>, and leaves the gauge
  alone otherwise.
\<close>

definition decrements :: "'r metrics_crate \<Rightarrow> metric_key \<Rightarrow> ('r metered, 'a) io \<Rightarrow> ('a result \<Rightarrow> bool) \<Rightarrow> bool" where
  "decrements C k mm Q \<longleftrightarrow>
     (\<forall>s c r res s' c'. mx_recorder c = Some r \<longrightarrow> mm (s, c) = (res, s', c') \<longrightarrow>
        (\<exists>r'. mx_recorder c' = Some r' \<and>
          mc_gauge C r' k = (if Q res then fval_sub (mc_gauge C r k) (Fin 1) else mc_gauge C r k)))"

lemma decrementsE:
  assumes "decrements C k mm Q" "mx_recorder c = Some r" "mm (s, c) = (res, s', c')"
  obtains r' where "mx_recorder c' = Some r'"
    "mc_gauge C r' k = (if Q res then fval_sub (mc_gauge C r k) (Fin 1) else mc_gauge C r k)"
  using assms unfolding decrements_def by blast

lemma decrements_session: "decrements C k (on_session m) (\<lambda>_. False)"
  by (auto simp: decrements_def on_session_def split: prod.splits)

lemma decrements_fail: "decrements C k (fail_io res) (\<lambda>_. False)"
  by (simp add: decrements_def fail_io_def)

lemma decrements_return: "decrements C k (return_io a) (\<lambda>_. False)"
  by (simp add: decrements_def return_io_def)

lemma decrements_bind:
  assumes "decrements C k mm (\<lambda>_. False)" "\<And>a. decrements C k (ff a) Q"
    and "\<And>e. \<not> Q (Err e)" "\<not> Q Panic" "\<not> Q Diverge"
  shows "decrements C k (bind_io mm ff) Q"
  unfolding decrements_def
proof (intro allI impI)
  fix s c r res s' c'
  assume r: "mx_recorder c = Some r" and bind: "bind_io mm ff (s, c) = (res, s', c')"
  obtain res1 s1 c1 where mm: "mm (s, c) = (res1, s1, c1)" by (cases "mm (s, c)") auto
  obtain r1 where r1: "mx_recorder c1 = Some r1" "mc_gauge C r1 k = mc_gauge C r k"
    using decrementsE [OF assms(1) r mm] by auto
  show "\<exists>r'. mx_recorder c' = Some r' \<and>
      mc_gauge C r' k = (if Q res then fval_sub (mc_gauge C r k) (Fin 1) else mc_gauge C r k)"
  proof (cases res1)
    case (Ok a)
    then have "ff a (s1, c1) = (res, s', c')" using bind mm by (simp add: bind_io_def)
    then show ?thesis using decrementsE [OF assms(2) r1(1)] r1(2) by metis
  qed (use bind mm r1 assms(3-) in \<open>auto simp: bind_io_def\<close>)
qed

lemma decrements_error: "\<not> Q res \<Longrightarrow> decrements C k (fail_io res) Q"
  by (simp add: decrements_def fail_io_def)

lemma decrements_timed:
  assumes "metrics_spec C" "decrements C k mm Q"
  shows "decrements C k (timed C clock ls mm) Q"
  unfolding decrements_def
proof (intro allI impI)
  fix s c r res s' c'
  assume r: "mx_recorder c = Some r" and t: "timed C clock ls mm (s, c) = (res, s', c')"
  obtain c1 where mm: "mm (s, c) = (res, s', c1)"
    and c': "c' = timer_drop C (snd clock) (new_with_labels (fst clock) PROXY_COM_LATENCY ls c) c1"
    using t by (auto simp: timed_def Let_def split: prod.splits)
  obtain r1 where r1: "mx_recorder c1 = Some r1"
    "mc_gauge C r1 k = (if Q res then fval_sub (mc_gauge C r k) (Fin 1) else mc_gauge C r k)"
    by (rule decrementsE [OF assms(2) r mm])
  then show "\<exists>r'. mx_recorder c' = Some r' \<and>
      mc_gauge C r' k = (if Q res then fval_sub (mc_gauge C r k) (Fin 1) else mc_gauge C r k)"
    using metrics_spec.gauge_record [OF assms(1)]
    by (auto simp: c' timer_drop_def new_with_labels_def histogram_def r)
qed

lemma decrements_command:
  assumes "metrics_spec C"
  shows "decrements C (metric_key_of PROXY_CURR_CONN (Some common))
    (bind_io (on_session m) (\<lambda>_.
       if quit then bind_io (on_metrics (gauge_dec C PROXY_CURR_CONN (Fin 1) (Some common))) (\<lambda>_. return_io True)
       else return_io False)) (\<lambda>res. res = Ok True)"
proof (rule decrements_bind [OF decrements_session])
  show "decrements C (metric_key_of PROXY_CURR_CONN (Some common))
      (if quit then bind_io (on_metrics (gauge_dec C PROXY_CURR_CONN (Fin 1) (Some common))) (\<lambda>_. return_io True)
       else return_io False) (\<lambda>res. res = Ok True)"
    using metrics_spec.gauge_decrement [OF assms]
    by (auto simp: decrements_def bind_io_def on_metrics_def return_io_def gauge_dec_def)
qed simp_all

lemma decrements_com_loop:
  assumes "metrics_spec C"
  shows "decrements C (metric_key_of PROXY_CURR_CONN (Some common)) (metered_com_loop C common clk W B M P chk h n)
    (\<lambda>res. res = Ok ())"
proof (induction n)
  case 0
  show ?case by (simp add: decrements_def fail_io_def)
next
  case (Suc n)
  let ?k = "metric_key_of PROXY_CURR_CONN (Some common)"
  have step: "decrements C ?k (bind_io mm (\<lambda>quit.
      if quit then return_io () else metered_com_loop C common clk W B M P chk h n)) (\<lambda>res. res = Ok ())"
    if mm: "decrements C ?k mm (\<lambda>res. res = Ok True)" for mm
    unfolding decrements_def
  proof (intro allI impI)
    fix s c r res s' c'
    assume r: "mx_recorder c = Some r"
      and bind: "bind_io mm (\<lambda>quit. if quit then return_io () else metered_com_loop C common clk W B M P chk h n) (s, c)
        = (res, s', c')"
    obtain res1 s1 c1 where m: "mm (s, c) = (res1, s1, c1)" by (cases "mm (s, c)") auto
    obtain r1 where r1: "mx_recorder c1 = Some r1"
      "mc_gauge C r1 ?k = (if res1 = Ok True then fval_sub (mc_gauge C r ?k) (Fin 1) else mc_gauge C r ?k)"
      by (rule decrementsE [OF mm r m])
    show "\<exists>r'. mx_recorder c' = Some r' \<and>
        mc_gauge C r' ?k = (if res = Ok () then fval_sub (mc_gauge C r ?k) (Fin 1) else mc_gauge C r ?k)"
    proof (cases "res1 = Ok False")
      case True
      then have "metered_com_loop C common clk W B M P chk h n (s1, c1) = (res, s', c')"
        using bind m by (simp add: bind_io_def)
      then show ?thesis using decrementsE [OF Suc.IH r1(1)] r1(2) True by (metis result.inject(1))
    next
      case False
      then show ?thesis using bind m r1 by (cases res1) (auto simp: bind_io_def return_io_def split: if_splits)
    qed
  qed
  show ?case
    unfolding metered_com_loop.simps
    by (rule decrements_bind [OF decrements_session], split option.split)
      (auto intro!: decrements_bind [OF decrements_session] decrements_bind [OF decrements_fail] step
        decrements_timed [OF assms] decrements_command [OF assms] decrements_error)
qed

text \<open>
  \<open>connect\<close> takes one from the gauge when it served commands until COM_QUIT, and nothing of it ever adds
  to the gauge.
\<close>

definition served_until_quit :: "unit result \<Rightarrow> connection option \<Rightarrow> bool" where
  "served_until_quit res cn \<longleftrightarrow>
     res = Ok () \<and> (\<exists>c. cn = Some c \<and> lc_conn_phase (get_conn_life_cycle (cn_pooled c)) = Some PhaseCommand)"

lemma decrements_on_com:
  assumes "metrics_spec C"
  shows "decrements C (metric_key_of PROXY_CURR_CONN (Some common)) (metered_on_com C common clk W B M P chk h)
    (\<lambda>res. res = Ok ())"
  unfolding metered_on_com_def
proof (rule decrements_bind [OF decrements_session])
  show "decrements C (metric_key_of PROXY_CURR_CONN (Some common))
      (\<lambda>(s, c). metered_com_loop C common clk W B M P chk h (Suc (reader_size (ss_client_reader s))) (s, c))
      (\<lambda>res. res = Ok ())"
    using decrements_com_loop [OF assms] unfolding decrements_def case_prod_conv by blast
qed simp_all

lemma phase_give_back [simp]:
  "lc_conn_phase (get_conn_life_cycle (cn_pooled (give_back s (new_conn_life_cycle u ph) conn))) = Some ph"
  by (simp add: give_back_def get_conn_life_cycle_def update_conn_life_cycle_def new_conn_life_cycle_def)

lemma serve_gauge:
  assumes "metrics_spec C" "mx_recorder c = Some r"
    and "metered_serve C common clk W B M P chk seq pkt h reader writer conn c = (res, cn, c')"
  obtains r' where "mx_recorder c' = Some r'"
    "mc_gauge C r' (metric_key_of PROXY_CURR_CONN (Some common)) =
      (if served_until_quit res (Some cn) then fval_sub (mc_gauge C r (metric_key_of PROXY_CURR_CONN (Some common))) (Fin 1)
       else mc_gauge C r (metric_key_of PROXY_CURR_CONN (Some common)))"
proof -
  define s0 where "s0 = \<lparr>ss_client_reader = reader, ss_client_writer = writer_new writer,
    ss_backend_reader = pc_reader conn, ss_backend_writer = reset_seq (pc_writer conn)\<rparr>"
  obtain ra s1 where a: "authenticate W B M P chk (get_conn_life_cycle conn) seq pkt h s0 = (ra, s1)"
    by (cases "authenticate W B M P chk (get_conn_life_cycle conn) seq pkt h s0")
  show thesis
  proof (cases "\<exists>u. ra = Ok u")
    case True
    obtain res1 s2 c1 where o: "metered_on_com C common clk W B M P chk h (s1, c) = (res1, s2, c1)"
      by (cases "metered_on_com C common clk W B M P chk h (s1, c)") auto
    have eq: "res = res1" "cn = give_back s2 (new_conn_life_cycle (db_user_string h) PhaseCommand) conn" "c' = c1"
      using assms(3) a True o by (auto simp: metered_serve_def Let_def simp flip: s0_def)
    show thesis
      by (rule decrementsE [OF decrements_on_com [OF assms(1)] assms(2) o])
        (rule that, simp_all add: eq served_until_quit_def)
  next
    case False
    then have "\<not> served_until_quit res (Some cn) \<and> c' = c"
      using assms(3) a by (cases ra) (auto simp: metered_serve_def Let_def served_until_quit_def simp flip: s0_def)
    then show thesis using that assms(2) by simp
  qed
qed

lemma connect_gauge:
  assumes "metrics_spec C" "mx_recorder c = Some r"
    and "metered_connect C common clk W B M P H G pool_get chk tls draws conn_id mgr rd w c = (res, cn, c')"
  obtains r' where "mx_recorder c' = Some r'"
    "mc_gauge C r' (metric_key_of PROXY_CURR_CONN (Some common)) =
      (if served_until_quit res cn then fval_sub (mc_gauge C r (metric_key_of PROXY_CURR_CONN (Some common))) (Fin 1)
       else mc_gauge C r (metric_key_of PROXY_CURR_CONN (Some common)))"
proof -
  consider (served) seq h pkt reader writer conn cn1 where
      "metered_serve C common clk W B M P chk seq pkt h reader writer conn c = (res, cn1, c')" "cn = Some cn1"
    | (refused) "cn = None" "c' = c"
    using assms(3) by (auto simp: metered_connect_def split: prod.splits result.splits)
  then show thesis
  proof cases
    case served
    then show thesis using serve_gauge [OF assms(1,2) served(1)] that by blast
  next
    case refused
    then show thesis using that assms(2) by (simp add: served_until_quit_def)
  qed
qed

text \<open>A connection that \<open>connect\<close> has given back and that its pool accepts was served until COM_QUIT.\<close>

lemma connect_recycled:
  assumes "connect W B M P H G pool_get chk tls draws conn_id mgr r w = (Ok (), Some c)" "mgr_recycle (cn_pooled c) = Ok ()"
  shows "served_until_quit (Ok ()) (Some c)"
  using assms
  by (auto simp: connect_def serve_def Let_def served_until_quit_def mgr_recycle_def
      life_cycle_is_none_def give_back_def update_conn_life_cycle_def new_conn_life_cycle_def get_conn_life_cycle_def
      split: prod.splits result.splits if_splits)

end
