(* ===== verification/ActiveUsers.thy ===== *)
theory ActiveUsers
  imports Concurrent Tenant
begin

text \<open>
  \<open>cp/active_users.rs\<close> and \<open>cp/cp_target.rs\<close>: the window of recently active users that the control
  plane fetches. The hash function (\<open>xxh3\<close> over the strings written to the hasher) and the size of a
  \<open>UserCom\<close> value are parameters. The operations are first taken one after the other; then their atomic
  steps are interleaved.
\<close>

subsection \<open>Records\<close>

record UserCom =
  uc_cluster :: "TenantKey option"
  uc_user :: rstr
  uc_com :: bytes
  uc_com_ts :: u64

definition user_com_hash :: "(rstr list \<Rightarrow> u64) \<Rightarrow> UserCom \<Rightarrow> u64 result" where
  "user_com_hash X user_com =
     rbind (unwrap_opt (uc_cluster user_com)) (\<lambda>user_ref.
       Ok (X [tk_region user_ref, tk_available_zone user_ref, tk_cluster_name user_ref,
              tk_namespace user_ref, uc_user user_com]))"

subsection \<open>SwitchableMaps\<close>

record SwitchableMaps =
  sm_table :: "(u64, UserCom) dashmap list"
  sm_active_idx :: nat

definition maps_new :: SwitchableMaps where
  "maps_new = \<lparr>sm_table = [[], []], sm_active_idx = 0\<rparr>"

definition active_len :: "SwitchableMaps \<Rightarrow> nat" where
  "active_len m = length (sm_table m ! sm_active_idx m)"

text \<open>
  The index is loaded first (\<open>curr_idx\<close>) and exchanged afterwards; the exchange fails, and gives no
  iterator, when another task has changed the index in between.
\<close>

definition maps_switch :: "nat \<Rightarrow> SwitchableMaps \<Rightarrow> (u64, UserCom) dashmap option \<times> SwitchableMaps" where
  "maps_switch curr_idx m =
     (let new_active_idx = (curr_idx + 1) mod 2 in
      if sm_active_idx m = curr_idx
      then (Some (sm_table m ! curr_idx), m\<lparr>sm_active_idx := new_active_idx\<rparr>)
      else (None, m))"

definition clean_inactive :: "SwitchableMaps \<Rightarrow> SwitchableMaps" where
  "clean_inactive m =
     (let inactive_idx = (sm_active_idx m + 1) mod 2 in m\<lparr>sm_table := (sm_table m)[inactive_idx := []]\<rparr>)"

definition maps_put :: "u64 \<Rightarrow> UserCom \<Rightarrow> SwitchableMaps \<Rightarrow> SwitchableMaps" where
  "maps_put key v m =
     m\<lparr>sm_table := (sm_table m)[sm_active_idx m := dm_insert key v (sm_table m ! sm_active_idx m)]\<rparr>"

definition maps_get :: "u64 \<Rightarrow> SwitchableMaps \<Rightarrow> UserCom option" where
  "maps_get key m = dm_get (sm_table m ! sm_active_idx m) key"

definition iter_active :: "SwitchableMaps \<Rightarrow> (u64, UserCom) dashmap" where
  "iter_active m = sm_table m ! sm_active_idx m"

subsection \<open>UserActivityWindow\<close>

record UserActivityWindow =
  uw_data :: SwitchableMaps
  uw_size :: u64
  uw_count :: u64
  uw_buf :: "(TenantKey \<times> rstr \<times> u8 \<times> u64) list"

definition window_new :: UserActivityWindow where
  "window_new = \<lparr>uw_data = maps_new, uw_size = 0, uw_count = 0, uw_buf = []\<rparr>"

definition window_default :: UserActivityWindow where
  "window_default = window_new"

definition window_count :: "UserActivityWindow \<Rightarrow> u64" where
  "window_count w = uw_count w"

definition window_size :: "UserActivityWindow \<Rightarrow> u64" where
  "window_size w = uw_size w"

definition add_active_users ::
  "TenantKey \<Rightarrow> rstr \<Rightarrow> u8 \<Rightarrow> u64 \<Rightarrow> UserActivityWindow \<Rightarrow> UserActivityWindow" where
  "add_active_users cluster active_user com_code com_ts w =
     w\<lparr>uw_buf := uw_buf w @ [(cluster, active_user, com_code, com_ts)]\<rparr>"

text \<open>One turn of the task that \<open>new\<close> spawns: a message, if there is one, is put into the maps.\<close>

definition consume :: "(rstr list \<Rightarrow> u64) \<Rightarrow> u64 \<Rightarrow> UserActivityWindow \<Rightarrow> unit result \<times> UserActivityWindow" where
  "consume X sized w =
     (case uw_buf w of
        [] \<Rightarrow> (Ok (), w)
      | (cluster, user, com_code, ts) # rest \<Rightarrow>
          (let user_com = \<lparr>uc_cluster = Some cluster, uc_user = user, uc_com = [com_code], uc_com_ts = ts\<rparr> in
           case user_com_hash X user_com of
             Ok user_key \<Rightarrow>
               (Ok (), w\<lparr>uw_data := maps_put user_key user_com (uw_data w), uw_count := uw_count w + 1,
                         uw_size := uw_size w + sized, uw_buf := rest\<rparr>)
           | _ \<Rightarrow> (Panic, w\<lparr>uw_buf := rest\<rparr>)))"

text \<open>
  \<open>freeze\<close> after \<open>switch\<close> has loaded the index; the whole operation loads the index of the window it
  is applied to.
\<close>

definition freeze_loaded :: "nat \<Rightarrow> UserActivityWindow \<Rightarrow> UserCom list \<times> UserActivityWindow" where
  "freeze_loaded curr_idx w =
     (case maps_switch curr_idx (uw_data w) of
        (Some it, m) \<Rightarrow> (map snd it, w\<lparr>uw_data := clean_inactive m, uw_size := 0\<rparr>)
      | (None, m) \<Rightarrow> ([], w\<lparr>uw_data := m\<rparr>))"

definition freeze :: "UserActivityWindow \<Rightarrow> UserCom list \<times> UserActivityWindow" where
  "freeze w = freeze_loaded (sm_active_idx (uw_data w)) w"

subsection \<open>Batches for the control plane\<close>

definition DEFAULT_CHUNK_SIZE :: nat where
  "DEFAULT_CHUNK_SIZE = 15"

record PacketHeader =
  ph_packet_type :: "32 word"
  ph_package_count :: u32
  ph_size_pre_package :: u32
  ph_size :: u32

record ControlPlaneResponse =
  cpr_header :: "PacketHeader option"
  cpr_packet_data :: "UserCom list option"

text \<open>The responses to one request of the stream, as long as the channel accepts them.\<close>

definition active_users :: "UserCom list \<Rightarrow> ControlPlaneResponse list" where
  "active_users users =
     (if users = [] then
        [\<lparr>cpr_header = Some \<lparr>ph_packet_type = 1, ph_package_count = 0, ph_size_pre_package = 0, ph_size = 0\<rparr>,
          cpr_packet_data = None\<rparr>]
      else
        map (\<lambda>batch.
          \<lparr>cpr_header = Some \<lparr>ph_packet_type = 1, ph_package_count = word_of_nat (length users),
             ph_size_pre_package = word_of_nat DEFAULT_CHUNK_SIZE, ph_size = word_of_nat (length batch)\<rparr>,
           cpr_packet_data = Some batch\<rparr>) (chunks DEFAULT_CHUNK_SIZE users))"

subsection \<open>One operation after the other\<close>

definition maps_wf :: "SwitchableMaps \<Rightarrow> bool" where
  "maps_wf m \<longleftrightarrow> length (sm_table m) = 2 \<and> sm_active_idx m < 2 \<and> list_all dm_wf (sm_table m) \<and>
     sm_table m ! ((sm_active_idx m + 1) mod 2) = []"

text \<open>The abstract window: the last record of each user since the last freeze.\<close>

definition recent :: "UserActivityWindow \<Rightarrow> u64 \<rightharpoonup> UserCom" where
  "recent w = dm_get (iter_active (uw_data w))"

definition com_of :: "TenantKey \<times> rstr \<times> u8 \<times> u64 \<Rightarrow> UserCom" where
  "com_of = (\<lambda>(cluster, user, com_code, ts).
     \<lparr>uc_cluster = Some cluster, uc_user = user, uc_com = [com_code], uc_com_ts = ts\<rparr>)"

definition key_of :: "(rstr list \<Rightarrow> u64) \<Rightarrow> TenantKey \<times> rstr \<times> u8 \<times> u64 \<Rightarrow> u64" where
  "key_of X = (\<lambda>(cluster, user, com_code, ts).
     X [tk_region cluster, tk_available_zone cluster, tk_cluster_name cluster, tk_namespace cluster, user])"

lemma two_cases: "(i :: nat) < 2 \<Longrightarrow> i = 0 \<or> i = 1"
  by auto

lemma maps_wf_new: "maps_wf maps_new"
  by (simp add: maps_wf_def maps_new_def)

lemma maps_put_wf: "maps_wf m \<Longrightarrow> maps_wf (maps_put k v m)"
  by (auto simp: maps_wf_def maps_put_def list_all_iff dest!: two_cases set_update_subset_insert [THEN subsetD])

lemma consume_recent:
  assumes "maps_wf (uw_data w)" "uw_buf w = msg # rest"
  shows "\<exists>w'. consume X sized w = (Ok (), w') \<and> maps_wf (uw_data w') \<and> uw_buf w' = rest \<and>
    recent w' = (recent w)(key_of X msg \<mapsto> com_of msg) \<and> uw_count w' = uw_count w + 1"
proof -
  obtain cluster user c ts where m: "msg = (cluster, user, c, ts)" by (cases msg)
  have "sm_active_idx (uw_data w) < length (sm_table (uw_data w))" using assms(1) by (simp add: maps_wf_def)
  then show ?thesis
    using assms maps_put_wf [OF assms(1)]
    by (simp add: consume_def m user_com_hash_def recent_def iter_active_def maps_put_def key_of_def com_of_def)
qed

fun consume_all :: "(rstr list \<Rightarrow> u64) \<Rightarrow> u64 \<Rightarrow> nat \<Rightarrow> UserActivityWindow \<Rightarrow> unit result \<times> UserActivityWindow" where
  "consume_all X sized 0 w = (Ok (), w)"
| "consume_all X sized (Suc n) w = bind_io (consume X sized) (\<lambda>_. consume_all X sized n) w"

lemma consume_all_recent:
  assumes "maps_wf (uw_data w)" "uw_buf w = msgs @ rest"
  shows "\<exists>w'. consume_all X sized (length msgs) w = (Ok (), w') \<and> maps_wf (uw_data w') \<and> uw_buf w' = rest \<and>
    recent w' = foldl (\<lambda>m msg. m(key_of X msg \<mapsto> com_of msg)) (recent w) msgs"
  using assms
proof (induction msgs arbitrary: w)
  case (Cons msg msgs)
  from consume_recent [OF Cons.prems(1), of msg "msgs @ rest" X sized] Cons.prems(2) obtain w1
    where "consume X sized w = (Ok (), w1)" "maps_wf (uw_data w1)" "uw_buf w1 = msgs @ rest"
      "recent w1 = (recent w)(key_of X msg \<mapsto> com_of msg)" by auto
  then show ?case using Cons.IH [of w1] by (simp add: bind_io_def)
qed simp

lemma freeze_eq:
  "freeze w = (map snd (iter_active (uw_data w)),
     w\<lparr>uw_data := clean_inactive ((uw_data w)\<lparr>sm_active_idx := (sm_active_idx (uw_data w) + 1) mod 2\<rparr>), uw_size := 0\<rparr>)"
  by (simp add: freeze_def freeze_loaded_def maps_switch_def iter_active_def)

lemma freeze_recent:
  assumes "maps_wf (uw_data w)"
  shows "set (fst (freeze w)) = ran (recent w)" "recent (snd (freeze w)) = Map.empty"
    "maps_wf (uw_data (snd (freeze w)))" "uw_buf (snd (freeze w)) = uw_buf w"
    "length (fst (freeze w)) = card (dom (recent w))"
proof -
  let ?m = "uw_data w"
  have i: "sm_active_idx ?m = 0 \<or> sm_active_idx ?m = 1" "length (sm_table ?m) = 2"
    "dm_wf (sm_table ?m ! sm_active_idx ?m)"
    using assms by (auto simp: maps_wf_def list_all_iff dest!: two_cases)
  show "set (fst (freeze w)) = ran (recent w)"
    using i(3) by (auto simp: freeze_eq recent_def iter_active_def ran_distinct dm_wf_def)
  show "length (fst (freeze w)) = card (dom (recent w))"
    using i(3) by (simp add: freeze_eq recent_def iter_active_def dm_wf_def
        dom_map_of_conv_image_fst distinct_card flip: set_map)
  show "recent (snd (freeze w)) = Map.empty" "maps_wf (uw_data (snd (freeze w)))" "uw_buf (snd (freeze w)) = uw_buf w"
    using i assms by (auto simp: freeze_eq recent_def iter_active_def Let_def clean_inactive_def maps_wf_def
        list_all_iff dest!: set_update_subset_insert [THEN subsetD])
qed

lemma active_users_batches:
  "concat (map (\<lambda>r. case cpr_packet_data r of Some b \<Rightarrow> b | None \<Rightarrow> []) (active_users users)) = users"
  "r \<in> set (active_users users) \<Longrightarrow> \<exists>h. cpr_header r = Some h \<and> ph_package_count h = word_of_nat (length users) \<and>
     ph_size h = word_of_nat (case cpr_packet_data r of Some b \<Rightarrow> length b | None \<Rightarrow> 0) \<and>
     (case cpr_packet_data r of Some b \<Rightarrow> b \<noteq> [] \<and> length b \<le> 15 | None \<Rightarrow> users = [])"
proof -
  have "concat (map (\<lambda>b. b) (chunks DEFAULT_CHUNK_SIZE users)) = users"
    by (simp add: concat_chunks DEFAULT_CHUNK_SIZE_def)
  then show "concat (map (\<lambda>r. case cpr_packet_data r of Some b \<Rightarrow> b | None \<Rightarrow> []) (active_users users)) = users"
    by (simp add: active_users_def comp_def)
  show "r \<in> set (active_users users) \<Longrightarrow> \<exists>h. cpr_header r = Some h \<and> ph_package_count h = word_of_nat (length users) \<and>
     ph_size h = word_of_nat (case cpr_packet_data r of Some b \<Rightarrow> length b | None \<Rightarrow> 0) \<and>
     (case cpr_packet_data r of Some b \<Rightarrow> b \<noteq> [] \<and> length b \<le> 15 | None \<Rightarrow> users = [])"
    using chunks_length [of _ DEFAULT_CHUNK_SIZE users]
    by (auto simp: active_users_def DEFAULT_CHUNK_SIZE_def split: if_splits)
qed

subsection \<open>Interleavings\<close>

text \<open>
  The task that fills the maps and the freezing tasks, one per control-plane stream, as processes that
  share the maps. An atomic step is one access to the shared state. \<open>put\<close> loads the active index and
  then inserts. \<open>freeze\<close> loads the index and exchanges it; when the exchange fails it returns the empty
  vector, otherwise it iterates over the old table. A \<open>DashMap\<close> consists of \<open>n\<close> shards, each behind a
  lock of its own: \<open>sh\<close> is the shard of a key, the iterator holds the lock of one shard at a time, and
  so does \<open>clear\<close>; a shard is therefore read or cleared in one step, and the other tasks may run
  between two shards. \<open>clean_inactive\<close> loads the index once more and clears the other table.
  \<open>sw_puts\<close> and \<open>sw_out\<close> record what was inserted and what was returned; the counters \<open>size\<close> and
  \<open>count\<close>, which no decision reads, are left out.
\<close>

datatype writer_pc = WIdle | WLoaded nat u64 UserCom

datatype freezer_pc =
    FIdle
  | FLoaded nat
  | FIter nat nat "(u64 \<times> UserCom) list"
  | FClear nat nat "(u64 \<times> UserCom) list"

record shared_window =
  sw_tables :: "(u64, UserCom) dashmap list"
  sw_active :: nat
  sw_writer :: writer_pc
  sw_freezers :: "nat \<Rightarrow> freezer_pc"
  sw_puts :: "(u64 \<times> UserCom) list"
  sw_out :: "(u64 \<times> UserCom) list"

definition shared_new :: shared_window where
  "shared_new = \<lparr>sw_tables = [[], []], sw_active = 0, sw_writer = WIdle, sw_freezers = (\<lambda>i. FIdle),
     sw_puts = [], sw_out = []\<rparr>"

definition shard :: "(u64 \<Rightarrow> nat) \<Rightarrow> nat \<Rightarrow> (u64, UserCom) dashmap \<Rightarrow> (u64, UserCom) dashmap" where
  "shard sh i m = filter (\<lambda>(k, v). sh k = i) m"

definition clear_shard :: "(u64 \<Rightarrow> nat) \<Rightarrow> nat \<Rightarrow> (u64, UserCom) dashmap \<Rightarrow> (u64, UserCom) dashmap" where
  "clear_shard sh i m = filter (\<lambda>(k, v). sh k \<noteq> i) m"

inductive sw_step :: "nat \<Rightarrow> (u64 \<Rightarrow> nat) \<Rightarrow> shared_window \<Rightarrow> shared_window \<Rightarrow> bool" for n sh where
  put_load: "sw_writer s = WIdle \<Longrightarrow> sw_step n sh s (s\<lparr>sw_writer := WLoaded (sw_active s) k v\<rparr>)"
| put_insert: "sw_writer s = WLoaded i k v \<Longrightarrow>
    sw_step n sh s (s\<lparr>sw_tables := (sw_tables s)[i := dm_insert k v (sw_tables s ! i)], sw_writer := WIdle,
                      sw_puts := (k, v) # sw_puts s\<rparr>)"
| freeze_load: "sw_freezers s f = FIdle \<Longrightarrow>
    sw_step n sh s (s\<lparr>sw_freezers := (sw_freezers s)(f := FLoaded (sw_active s))\<rparr>)"
| freeze_switch: "sw_freezers s f = FLoaded c \<Longrightarrow> sw_active s = c \<Longrightarrow>
    sw_step n sh s (s\<lparr>sw_freezers := (sw_freezers s)(f := FIter c 0 []), sw_active := (c + 1) mod 2\<rparr>)"
| freeze_fail: "sw_freezers s f = FLoaded c \<Longrightarrow> sw_active s \<noteq> c \<Longrightarrow>
    sw_step n sh s (s\<lparr>sw_freezers := (sw_freezers s)(f := FIdle)\<rparr>)"
| freeze_iter: "sw_freezers s f = FIter old i d \<Longrightarrow> i < n \<Longrightarrow>
    sw_step n sh s (s\<lparr>sw_freezers := (sw_freezers s)(f := FIter old (Suc i) (d @ shard sh i (sw_tables s ! old)))\<rparr>)"
| freeze_reload: "sw_freezers s f = FIter old n d \<Longrightarrow>
    sw_step n sh s (s\<lparr>sw_freezers := (sw_freezers s)(f := FClear ((sw_active s + 1) mod 2) 0 d)\<rparr>)"
| freeze_clear: "sw_freezers s f = FClear c i d \<Longrightarrow> i < n \<Longrightarrow>
    sw_step n sh s (s\<lparr>sw_freezers := (sw_freezers s)(f := FClear c (Suc i) d),
                      sw_tables := (sw_tables s)[c := clear_shard sh i (sw_tables s ! c)]\<rparr>)"
| freeze_return: "sw_freezers s f = FClear c n d \<Longrightarrow>
    sw_step n sh s (s\<lparr>sw_freezers := (sw_freezers s)(f := FIdle), sw_out := d @ sw_out s\<rparr>)"

text \<open>The states reached by steps that keep a discipline \<open>P\<close>.\<close>

inductive sw_reach ::
  "nat \<Rightarrow> (u64 \<Rightarrow> nat) \<Rightarrow> (shared_window \<Rightarrow> shared_window \<Rightarrow> bool) \<Rightarrow> shared_window \<Rightarrow> bool" for n sh P where
  sw_start: "sw_reach n sh P shared_new"
| sw_next: "sw_reach n sh P s \<Longrightarrow> sw_step n sh s t \<Longrightarrow> P s t \<Longrightarrow> sw_reach n sh P t"

text \<open>Whatever the interleaving, only inserted records are stored or returned.\<close>

fun held :: "freezer_pc \<Rightarrow> (u64 \<times> UserCom) list" where
  "held (FIter old i d) = d"
| "held (FClear c i d) = d"
| "held _ = []"

fun table_of :: "freezer_pc \<Rightarrow> nat" where
  "table_of (FIter old i d) = old"
| "table_of (FClear c i d) = c"
| "table_of (FLoaded c) = c"
| "table_of FIdle = 0"

definition sw_sound :: "shared_window \<Rightarrow> bool" where
  "sw_sound s \<longleftrightarrow> length (sw_tables s) = 2 \<and> sw_active s < 2 \<and>
     (\<forall>i < 2. set (sw_tables s ! i) \<subseteq> set (sw_puts s)) \<and> set (sw_out s) \<subseteq> set (sw_puts s) \<and>
     (\<forall>i k v. sw_writer s = WLoaded i k v \<longrightarrow> i < 2) \<and>
     (\<forall>f. table_of (sw_freezers s f) < 2 \<and> set (held (sw_freezers s f)) \<subseteq> set (sw_puts s))"

lemma dm_insert_subset: "set (dm_insert k v m) \<subseteq> insert (k, v) (set m)"
  by (induction m) auto

lemma shard_subset: "set (shard sh i m) \<subseteq> set m" "set (clear_shard sh i m) \<subseteq> set m"
  by (auto simp: shard_def clear_shard_def)

lemma sw_soundD:
  "sw_sound s \<Longrightarrow> sw_freezers s f = pc \<Longrightarrow> table_of pc < 2 \<and> set (held pc) \<subseteq> set (sw_puts s)"
  "sw_sound s \<Longrightarrow> i < 2 \<Longrightarrow> set (sw_tables s ! i) \<subseteq> set (sw_puts s)"
  by (auto simp: sw_sound_def)

lemma sw_step_sound:
  assumes "sw_step n sh s t" "sw_sound s"
  shows "sw_sound t"
  using assms(1)
proof cases
  case (put_insert i k v)
  have tables: "set ((sw_tables s)[i := dm_insert k v (sw_tables s ! i)] ! j) \<subseteq> insert (k, v) (set (sw_puts s))" if "j < 2" for j
    using assms(2) that dm_insert_subset [of k v "sw_tables s ! i"] put_insert
    by (cases "i = j") (auto simp: sw_sound_def)
  have held: "set (held (sw_freezers s f)) \<subseteq> insert (k, v) (set (sw_puts s))" for f
    using sw_soundD(1) [OF assms(2) refl] by blast
  have rest: "length (sw_tables s) = 2" "sw_active s < 2" "set (sw_out s) \<subseteq> insert (k, v) (set (sw_puts s))"
    "table_of (sw_freezers s f) < 2" for f
    using assms(2) by (auto simp: sw_sound_def)
  show ?thesis
    unfolding put_insert(1) sw_sound_def by (intro conjI allI impI) (simp_all add: tables held rest)
next
  case (freeze_iter f old i d)
  have "set (shard sh i (sw_tables s ! old)) \<subseteq> set (sw_puts s)"
    by (rule subset_trans [OF shard_subset(1) sw_soundD(2) [OF assms(2)]])
      (use sw_soundD(1) [OF assms(2) freeze_iter(2)] in simp)
  then show ?thesis using assms(2) sw_soundD(1) [OF assms(2) freeze_iter(2)] freeze_iter(1) by (auto simp: sw_sound_def)
next
  case (freeze_clear f c i d)
  have "set ((sw_tables s)[c := clear_shard sh i (sw_tables s ! c)] ! j) \<subseteq> set (sw_puts s)" if "j < 2" for j
    using that sw_soundD(2) [OF assms(2) that] shard_subset(2) [of sh i "sw_tables s ! j"] assms(2)
    by (cases "c = j") (simp_all add: sw_sound_def subset_trans)
  then show ?thesis using assms(2) sw_soundD(1) [OF assms(2) freeze_clear(2)] freeze_clear(1) by (auto simp: sw_sound_def)
next
  case (freeze_reload f old d)
  then show ?thesis using assms(2) sw_soundD(1) [OF assms(2) freeze_reload(2)] by (auto simp: sw_sound_def)
next
  case (freeze_switch f c)
  then show ?thesis using assms(2) sw_soundD(1) [OF assms(2) freeze_switch(2)] by (auto simp: sw_sound_def)
next
  case (freeze_return f c d)
  then show ?thesis using assms(2) sw_soundD(1) [OF assms(2) freeze_return(2)] by (auto simp: sw_sound_def)
qed (use assms(2) in \<open>auto simp: sw_sound_def\<close>)

lemma sw_reach_sound: "sw_reach n sh P s \<Longrightarrow> sw_sound s"
proof (induction rule: sw_reach.induct)
  case sw_start
  show ?case by (auto simp: sw_sound_def shared_new_def less_2_cases_iff)
next
  case sw_next
  then show ?case by (blast intro: sw_step_sound)
qed

text \<open>
  One freezing task, and no late insertion: an insertion into the table that is being frozen, by a
  \<open>put\<close> that has loaded the index before the switch, comes before the iterator reaches the shard of
  the key or after \<open>clear\<close> has passed it. Then no user is forgotten: every inserted key is stored, in
  the hands of the freezer, or returned.
\<close>

fun late :: "(u64 \<Rightarrow> nat) \<Rightarrow> freezer_pc \<Rightarrow> nat \<Rightarrow> u64 \<Rightarrow> bool" where
  "late sh (FIter old j d) i k = (i = old \<and> sh k < j)"
| "late sh (FClear c j d) i k = (i = c \<and> j \<le> sh k)"
| "late sh _ i k = False"

definition calm :: "(u64 \<Rightarrow> nat) \<Rightarrow> shared_window \<Rightarrow> shared_window \<Rightarrow> bool" where
  "calm sh s t \<longleftrightarrow> (\<forall>f. f \<noteq> 0 \<longrightarrow> sw_freezers t f = FIdle) \<and>
     (\<forall>i k v. sw_writer s = WLoaded i k v \<and> sw_writer t = WIdle \<longrightarrow> \<not> late sh (sw_freezers s 0) i k)"

definition keys :: "(u64 \<times> UserCom) list \<Rightarrow> u64 set" where
  "keys m = fst ` set m"

definition kept :: "shared_window \<Rightarrow> bool" where
  "kept s \<longleftrightarrow> keys (sw_puts s) \<subseteq>
     keys (sw_tables s ! 0) \<union> keys (sw_tables s ! 1) \<union> keys (held (sw_freezers s 0)) \<union> keys (sw_out s)"

text \<open>What the freezer has passed of its table it holds; what it has not yet cleared of it, it holds.\<close>

fun covered :: "nat \<Rightarrow> (u64 \<Rightarrow> nat) \<Rightarrow> shared_window \<Rightarrow> freezer_pc \<Rightarrow> bool" where
  "covered n sh s (FIter old j d) \<longleftrightarrow> old = (sw_active s + 1) mod 2 \<and>
     {k \<in> keys (sw_tables s ! old). sh k < j} \<subseteq> keys d"
| "covered n sh s (FClear c j d) \<longleftrightarrow> c = (sw_active s + 1) mod 2 \<and>
     {k \<in> keys (sw_tables s ! c). j \<le> sh k} \<subseteq> keys d"
| "covered n sh s _ \<longleftrightarrow> True"

definition calm_inv :: "nat \<Rightarrow> (u64 \<Rightarrow> nat) \<Rightarrow> shared_window \<Rightarrow> bool" where
  "calm_inv n sh s \<longleftrightarrow> sw_sound s \<and> kept s \<and> (\<forall>f. f \<noteq> 0 \<longrightarrow> sw_freezers s f = FIdle) \<and>
     covered n sh s (sw_freezers s 0)"

lemma keys_insert [simp]: "keys (dm_insert k v m) = insert k (keys m)"
  by (simp add: keys_def flip: dom_map_of_conv_image_fst)

lemma keys_simps [simp]: "keys [] = {}" "keys ((k, v) # m) = insert k (keys m)" "keys (m @ m') = keys m \<union> keys m'"
  by (auto simp: keys_def)

lemma keys_shard [simp]:
  "keys (shard sh i m) = {k \<in> keys m. sh k = i}" "keys (clear_shard sh i m) = {k \<in> keys m. sh k \<noteq> i}"
  by (force simp: keys_def shard_def clear_shard_def)+

lemma calm_step:
  assumes "sw_step n sh s t" "calm sh s t" "calm_inv n sh s" "\<forall>k. sh k < n"
  shows "calm_inv n sh t"
proof -
  have sound: "sw_sound t" using assms(1,3) sw_step_sound by (simp add: calm_inv_def)
  have inv: "kept s" "\<forall>f. f \<noteq> 0 \<longrightarrow> sw_freezers s f = FIdle" "covered n sh s (sw_freezers s 0)"
    using assms(3) by (simp_all add: calm_inv_def)
  have len: "length (sw_tables s) = 2" and a: "sw_active s = 0 \<or> sw_active s = 1"
    using assms(3) by (auto simp: calm_inv_def sw_sound_def dest: two_cases)
  have zero: "f = 0" if "sw_freezers s f \<noteq> FIdle" for f using inv(2) that by auto
  from assms(1) show ?thesis
  proof cases
    case (put_load k v)
    then show ?thesis using inv sound by (cases "sw_freezers s 0") (simp_all add: calm_inv_def kept_def)
  next
    case (put_insert i k v)
    have i: "i = 0 \<or> i = 1" using assms(3) put_insert by (auto simp: calm_inv_def sw_sound_def dest: two_cases)
    have "\<not> late sh (sw_freezers s 0) i k" using assms(2) put_insert by (auto simp: calm_def)
    then have "covered n sh t (sw_freezers s 0)"
      using inv(3) put_insert(1) i len a by (cases "sw_freezers s 0") (auto split: if_splits)
    moreover have "kept t" using inv(1) put_insert(1) i len by (auto simp: kept_def)
    ultimately show ?thesis using inv(2) sound put_insert(1) by (simp add: calm_inv_def)
  next
    case (freeze_load f)
    then have "f = 0" using assms(2) by (auto simp: calm_def split: if_splits)
    then show ?thesis using inv sound freeze_load by (auto simp: calm_inv_def kept_def)
  next
    case (freeze_switch f c)
    then have "f = 0" using zero by simp
    then show ?thesis using inv sound freeze_switch a by (auto simp: calm_inv_def kept_def)
  next
    case (freeze_fail f c)
    then have "f = 0" using zero by simp
    then show ?thesis using inv sound freeze_fail by (auto simp: calm_inv_def kept_def)
  next
    case (freeze_iter f old i d)
    then have "f = 0" using zero by simp
    then show ?thesis using inv sound freeze_iter by (auto simp: calm_inv_def kept_def less_Suc_eq)
  next
    case (freeze_reload f old d)
    then have "f = 0" using zero by simp
    then show ?thesis using inv sound freeze_reload assms(4) by (auto simp: calm_inv_def kept_def)
  next
    case (freeze_clear f c i d)
    then have f: "f = 0" using zero by simp
    have c: "c = (sw_active s + 1) mod 2" "{k \<in> keys (sw_tables s ! c). i \<le> sh k} \<subseteq> keys d"
      using inv(3) freeze_clear(2) f by auto
    have "kept t"
      using inv(1) freeze_clear(1,2) f a len c by (auto simp: kept_def subset_iff)
    moreover have "covered n sh t (sw_freezers t 0)"
      using c(2) freeze_clear(1) f c(1) [symmetric] len a by (auto simp: subset_iff)
    moreover have "\<forall>f. f \<noteq> 0 \<longrightarrow> sw_freezers t f = FIdle" using inv(2) freeze_clear(1) f by simp
    ultimately show ?thesis using sound unfolding calm_inv_def by blast
  next
    case (freeze_return f c d)
    then have "f = 0" using zero by simp
    then show ?thesis using inv sound freeze_return by (auto simp: calm_inv_def kept_def)
  qed
qed

lemma calm_reach_kept:
  assumes "sw_reach n sh (calm sh) s" "\<forall>k. sh k < n"
  shows "calm_inv n sh s"
  using assms(1)
proof (induction rule: sw_reach.induct)
  case sw_start
  show ?case by (auto simp: calm_inv_def kept_def sw_sound_def shared_new_def less_2_cases_iff)
next
  case sw_next
  then show ?case using assms(2) by (blast intro: calm_step)
qed

text \<open>A freezer that runs alone over the shards of a table, under a discipline that lets it.\<close>

definition allows :: "(shared_window \<Rightarrow> shared_window \<Rightarrow> bool) \<Rightarrow> nat \<Rightarrow> bool" where
  "allows P f \<longleftrightarrow>
     (\<forall>s t. sw_writer t = sw_writer s \<and> (\<forall>g. g \<noteq> f \<longrightarrow> sw_freezers t g = sw_freezers s g) \<longrightarrow> P s t)"

lemma sw_next_freezer:
  "sw_reach n sh P s \<Longrightarrow> sw_step n sh s t \<Longrightarrow> allows P f \<Longrightarrow> sw_writer t = sw_writer s \<Longrightarrow>
     (\<forall>g. g \<noteq> f \<longrightarrow> sw_freezers t g = sw_freezers s g) \<Longrightarrow> sw_reach n sh P t"
  by (rule sw_next) (auto simp: allows_def)

lemma switch_alone:
  assumes "sw_reach n sh P s" "allows P f" "sw_freezers s f = FIdle"
  shows "sw_reach n sh P (s\<lparr>sw_freezers := (sw_freezers s)(f := FIter (sw_active s) 0 []),
    sw_active := (sw_active s + 1) mod 2\<rparr>)"
proof -
  let ?s = "s\<lparr>sw_freezers := (sw_freezers s)(f := FLoaded (sw_active s))\<rparr>"
  have "sw_reach n sh P ?s" using assms(1) freeze_load [OF assms(3)] assms(2) by (rule sw_next_freezer) simp_all
  from sw_next_freezer [OF this freeze_switch [of ?s f "sw_active s" n sh]] assms(2) show ?thesis by simp
qed

lemma iter_alone:
  assumes "sw_reach n sh P s" "allows P f" "sw_freezers s f = FIter old 0 []" "m \<le> n" "sw_tables s ! old = []"
  shows "sw_reach n sh P (s\<lparr>sw_freezers := (sw_freezers s)(f := FIter old m [])\<rparr>)"
  using assms(4)
proof (induction m)
  case 0
  have "s\<lparr>sw_freezers := (sw_freezers s)(f := FIter old 0 [])\<rparr> = s" using assms(3) by (simp add: fun_upd_idem)
  then show ?case using assms(1) by argo
next
  case (Suc m)
  let ?s = "s\<lparr>sw_freezers := (sw_freezers s)(f := FIter old m [])\<rparr>"
  have step: "sw_step n sh ?s (s\<lparr>sw_freezers := (sw_freezers s)(f := FIter old (Suc m) [])\<rparr>)"
    using freeze_iter [of ?s f old m "[]" n sh] Suc.prems assms(5) by (simp add: shard_def)
  have "sw_reach n sh P ?s" by (rule Suc.IH) (use Suc.prems in simp)
  from this step assms(2) show ?case by (rule sw_next_freezer) simp_all
qed

lemma clear_alone:
  assumes "sw_reach n sh P s" "allows P f" "sw_freezers s f = FClear c 0 d" "m \<le> n" "c < length (sw_tables s)"
  shows "sw_reach n sh P (s\<lparr>sw_freezers := (sw_freezers s)(f := FClear c m d),
    sw_tables := (sw_tables s)[c := filter (\<lambda>(k, v). m \<le> sh k) (sw_tables s ! c)]\<rparr>)"
  using assms(4)
proof (induction m)
  case 0
  have "s\<lparr>sw_freezers := (sw_freezers s)(f := FClear c 0 d),
      sw_tables := (sw_tables s)[c := filter (\<lambda>(k, v). 0 \<le> sh k) (sw_tables s ! c)]\<rparr> = s"
    using assms(3) by (simp add: fun_upd_idem case_prod_beta)
  then show ?case using assms(1) by argo
next
  case (Suc m)
  let ?t = "\<lambda>m. (sw_tables s)[c := filter (\<lambda>(k, v). m \<le> sh k) (sw_tables s ! c)]"
  let ?s = "\<lambda>m. s\<lparr>sw_freezers := (sw_freezers s)(f := FClear c m d), sw_tables := ?t m\<rparr>"
  have "clear_shard sh m (filter (\<lambda>(k, v). m \<le> sh k) xs) = filter (\<lambda>(k, v). Suc m \<le> sh k) xs" for xs
    by (induction xs) (auto simp: clear_shard_def)
  then have "(?t m)[c := clear_shard sh m (?t m ! c)] = ?t (Suc m)"
    using assms(5) by simp
  then have step: "sw_step n sh (?s m) (?s (Suc m))"
    using freeze_clear [of "?s m" f c m d n sh] Suc.prems by simp
  have "sw_reach n sh P (?s m)" by (rule Suc.IH) (use Suc.prems in simp)
  from this step assms(2) show ?case by (rule sw_next_freezer) simp_all
qed

text \<open>A freeze of an empty table: the table beside the active one is emptied at its end.\<close>

lemma finish_alone:
  assumes "sw_reach n sh P s" "allows P f" "sw_freezers s f = FIter old n []" "\<forall>k. sh k < n"
  shows "sw_reach n sh P (s\<lparr>sw_tables := (sw_tables s)[(sw_active s + 1) mod 2 := []],
    sw_freezers := (sw_freezers s)(f := FIdle)\<rparr>)"
proof -
  let ?c = "(sw_active s + 1) mod 2"
  let ?s1 = "s\<lparr>sw_freezers := (sw_freezers s)(f := FClear ?c 0 [])\<rparr>"
  let ?s2 = "s\<lparr>sw_freezers := (sw_freezers s)(f := FClear ?c n []), sw_tables := (sw_tables s)[?c := []]\<rparr>"
  have s1: "sw_reach n sh P ?s1" using assms(1) freeze_reload [OF assms(3)] assms(2) by (rule sw_next_freezer) simp_all
  have none: "filter (\<lambda>(k, v). n \<le> sh k) m = []" for m :: "(u64 \<times> UserCom) list"
    using assms(4) by (auto simp: filter_empty_conv simp flip: not_less)
  have "sw_reach n sh P ?s2"
    using clear_alone [OF s1 assms(2), of ?c "[]" n] sw_reach_sound [OF s1] by (simp add: sw_sound_def none)
  from sw_next_freezer [OF this freeze_return [of ?s2 f ?c n "[]" sh]] assms(2) show ?thesis by simp
qed

text \<open>
  The first excluded interleaving: the writer has loaded the index before a freeze switches it, and
  inserts after the freeze has read the shard and before it clears it.
\<close>

definition one_freezer :: "shared_window \<Rightarrow> shared_window \<Rightarrow> bool" where
  "one_freezer s t \<longleftrightarrow> (\<forall>f. f \<noteq> 0 \<longrightarrow> sw_freezers t f = sw_freezers s f)"

lemma lost_update:
  assumes "\<forall>k. sh k < n"
  shows "\<exists>s. sw_reach n sh one_freezer s \<and> (k, v) \<in> set (sw_puts s) \<and> sw_writer s = WIdle \<and>
     (\<forall>f. sw_freezers s f = FIdle) \<and> sw_tables s = [[], []] \<and> sw_out s = []"
proof -
  let ?s1 = "shared_new\<lparr>sw_writer := WLoaded 0 k v\<rparr>"
  let ?s2 = "?s1\<lparr>sw_freezers := (\<lambda>_. FIdle)(0 := FIter 0 0 []), sw_active := 1\<rparr>"
  let ?s3 = "?s2\<lparr>sw_freezers := (\<lambda>_. FIdle)(0 := FIter 0 n [])\<rparr>"
  let ?s4 = "?s3\<lparr>sw_tables := [[(k, v)], []], sw_writer := WIdle, sw_puts := [(k, v)]\<rparr>"
  have P: "allows one_freezer 0" by (auto simp: allows_def one_freezer_def)
  have "sw_step n sh shared_new ?s1" using put_load [of shared_new n sh k v] by (simp add: shared_new_def)
  with sw_start have "sw_reach n sh one_freezer ?s1" by (rule sw_next) (simp add: one_freezer_def shared_new_def)
  from switch_alone [OF this P] have "sw_reach n sh one_freezer ?s2" by (simp add: shared_new_def)
  from iter_alone [OF this P, of 0 n] have "sw_reach n sh one_freezer ?s3" by (simp add: shared_new_def)
  moreover have "sw_step n sh ?s3 ?s4" using put_insert [of ?s3 0 k v n sh] by (simp add: shared_new_def)
  ultimately have "sw_reach n sh one_freezer ?s4" by (rule sw_next) (simp add: one_freezer_def shared_new_def)
  from finish_alone [OF this P, of 0] assms show ?thesis
    by (intro exI) (rule conjI, simp, simp add: shared_new_def)
qed

text \<open>
  The second: a freezer that is still at work when another one switches back clears, at its end, the
  table that the other one is about to read, although every insertion goes into the active table.
\<close>

definition fresh :: "shared_window \<Rightarrow> shared_window \<Rightarrow> bool" where
  "fresh s t \<longleftrightarrow> (\<forall>i k v. sw_writer s = WLoaded i k v \<and> sw_writer t = WIdle \<longrightarrow> i = sw_active s)"

lemma lost_to_freezer:
  assumes "\<forall>k. sh k < n"
  shows "\<exists>s. sw_reach n sh fresh s \<and> (k, v) \<in> set (sw_puts s) \<and> sw_writer s = WIdle \<and>
     (\<forall>f. sw_freezers s f = FIdle) \<and> sw_tables s = [[], []] \<and> sw_out s = []"
proof -
  let ?fs = "\<lambda>a b. (\<lambda>_ :: nat. FIdle)(0 := a, 1 := b)"
  let ?s1 = "shared_new\<lparr>sw_freezers := ?fs (FIter 0 0 []) FIdle, sw_active := 1\<rparr>"
  let ?s2 = "?s1\<lparr>sw_writer := WLoaded 1 k v\<rparr>"
  let ?s3 = "?s1\<lparr>sw_tables := [[], [(k, v)]], sw_puts := [(k, v)]\<rparr>"
  let ?s4 = "?s3\<lparr>sw_freezers := ?fs (FIter 0 0 []) (FIter 1 0 []), sw_active := 0\<rparr>"
  let ?s5 = "?s4\<lparr>sw_freezers := ?fs (FIter 0 n []) (FIter 1 0 [])\<rparr>"
  let ?s6 = "?s4\<lparr>sw_freezers := ?fs FIdle (FIter 1 0 []), sw_tables := [[], []]\<rparr>"
  let ?s7 = "?s6\<lparr>sw_freezers := ?fs FIdle (FIter 1 n [])\<rparr>"
  have P: "allows fresh f" for f by (auto simp: allows_def fresh_def)
  note upd = fun_upd_twist [of "Suc 0" "0 :: nat"]
  from switch_alone [OF sw_start P, of 0 n sh] have "sw_reach n sh fresh ?s1" by (simp add: shared_new_def fun_upd_idem)
  moreover have "sw_step n sh ?s1 ?s2" using put_load [of ?s1 n sh k v] by (simp add: shared_new_def)
  ultimately have "sw_reach n sh fresh ?s2" by (rule sw_next) (simp add: fresh_def shared_new_def)
  moreover have "sw_step n sh ?s2 ?s3" using put_insert [of ?s2 1 k v n sh] by (simp add: shared_new_def)
  ultimately have "sw_reach n sh fresh ?s3" by (rule sw_next) (simp add: fresh_def shared_new_def)
  from switch_alone [OF this P, of 1] have "sw_reach n sh fresh ?s4" by (simp add: shared_new_def upd)
  from iter_alone [OF this P, of 0 0 n] have "sw_reach n sh fresh ?s5" by (simp add: shared_new_def upd)
  from finish_alone [OF this P, of 0 0] assms have "sw_reach n sh fresh ?s6" by (simp add: shared_new_def upd)
  from iter_alone [OF this P, of 1 1 n] have "sw_reach n sh fresh ?s7" by (simp add: shared_new_def upd)
  from finish_alone [OF this P, of 1 1] assms show ?thesis
    by (intro exI) (rule conjI, simp, simp add: shared_new_def)
qed

end
