(* ===== verification/Startup.thy ===== *)
theory Startup
  imports Config Endpoints Latency ActiveUsers "HOL-Library.Multiset"
begin

text \<open>
  \<open>cmd/src/main.rs\<close> and \<open>cp/mod.rs\<close>: the tasks of the process, the loop that accepts connections, and
  the shutdown. The signals of the operating system and what the listener accepts are a list of events;
  every accepted connection is served by \<open>connect\<close>. The level of the log and the addresses of sockets are
  parsed by other code: whether they are accepted is an input.
\<close>

subsection \<open>Shutdown\<close>

datatype os_signal = CtrlC | Terminate

definition shutdown_signal :: "os_signal \<Rightarrow> ShutdownMessage" where
  "shutdown_signal sig =
     (case sig of
        CtrlC \<Rightarrow> Cancel (lit ''ProxySrv receive ctrl_c signal  ()'')
      | Terminate \<Rightarrow> Cancel (lit ''ProxySrv receive terminate signal  ()''))"

text \<open>
  \<open>shutdown_await\<close> and the wait of the control-plane service are over when the channel has a message the
  receiver has not seen, or when the sender is gone.
\<close>

definition shutdown_await :: "nat \<Rightarrow> bool \<Rightarrow> ShutdownMessage watch \<Rightarrow> bool" where
  "shutdown_await seen sender_alive w \<longleftrightarrow> watch_poll seen w \<noteq> None \<or> \<not> sender_alive"

subsection \<open>Tasks\<close>

definition start_cp_target_reporter :: "(rstr \<Rightarrow> bool) \<Rightarrow> UserActivityWindow \<Rightarrow> rstr \<Rightarrow> UserActivityWindow result" where
  "start_cp_target_reporter sock window cp_addr = (if sock cp_addr then Ok window else Panic)"

definition start_cp_target :: "(rstr \<Rightarrow> bool) \<Rightarrow> ProxyServerArgs \<Rightarrow> UserActivityWindow option result" where
  "start_cp_target sock a =
     (if cpa_enable_cp (pa_cp_args a) then
        rbind (unwrap_opt (cp_listen_addr (pa_cp_args a))) (\<lambda>rpc_server_addr.
        rbind (start_cp_target_reporter sock window_new rpc_server_addr) (\<lambda>window. Ok (Some window)))
      else Ok None)"

datatype task = Collector ProcessRecorder | HttpServer u16 bool

definition start_metrics_and_rest ::
  "'r metrics_crate \<Rightarrow> host \<Rightarrow> ProxyServerArgs \<Rightarrow> ('r metrics_ctx, task list) io" where
  "start_metrics_and_rest C h a =
     bind_io
       (if pa_enable_metrics a then
          bind_io (init_metrics_context C h) (\<lambda>_.
          bind_io (fail_io (common_labels h)) (\<lambda>common c.
            case process_recorder_new C common c of
              (recorder, c') \<Rightarrow> (Ok [Collector recorder, HttpServer (pa_http_port a) True], c')))
        else return_io []) (\<lambda>tasks.
     return_io (tasks @ (if pa_enable_rest a then [HttpServer (pa_http_port a) False] else [])))"

text \<open>The HTTP servers, in the order in which the runtime gets to them.\<close>

fun run_servers :: "u16 list \<Rightarrow> task list \<Rightarrow> (string \<times> verb \<times> endpoint) list result list" where
  "run_servers bound [] = []"
| "run_servers bound (Collector p # ts) = run_servers bound ts"
| "run_servers bound (HttpServer port enable_metric # ts) =
     (case start_server port enable_metric bound of (r, bound') \<Rightarrow> r # run_servers bound' ts)"

subsection \<open>Accepting connections\<close>

record 'p accepted =
  ac_draws :: "nat list"
  ac_conn_id :: u64
  ac_stream :: stream
  ac_sink :: sink
  ac_clock :: "nat \<Rightarrow> nat \<times> nat"
  ac_pool_get :: "'p \<Rightarrow> PooledConn result"

text \<open>
  Every turn of the loop calls \<open>shutdown_signal\<close> anew, and with it makes new listeners for the signals. A
  signal that arrives while \<open>select!\<close> waits is \<open>Signalled\<close>; one that arrives when no listener exists, between
  two turns, or in a turn whose \<open>select!\<close> has found the accepted connection first, is \<open>Missed\<close>: the listeners
  of the next turn do not get it.
\<close>

datatype 'p accept_event = Signalled os_signal | Missed os_signal | Accepted "'p accepted" | AcceptFailed

text \<open>
  The connections that are spawned, the channel, and whether the loop has ended; sending succeeds
  because \<open>main\<close> keeps a receiver.
\<close>

fun accept_loop ::
  "'p accept_event list \<Rightarrow> ShutdownMessage watch \<Rightarrow> 'p accepted list \<times> ShutdownMessage watch \<times> bool" where
  "accept_loop [] tx = ([], tx, False)"
| "accept_loop (Signalled sig # es) tx = ([], watch_send (shutdown_signal sig) tx, True)"
| "accept_loop (Accepted conn # es) tx =
     (case accept_loop es tx of (conns, tx', ended) \<Rightarrow> (conn # conns, tx', ended))"
| "accept_loop (AcceptFailed # es) tx = accept_loop es tx"
| "accept_loop (Missed sig # es) tx = accept_loop es tx"

text \<open>The connections served one after the other; \<open>main\<close> passes no certificate.\<close>

fun serve_all ::
  "'r metrics_crate \<Rightarrow> labels \<Rightarrow> winnow \<Rightarrow> byteorder \<Rightarrow> mysql_common \<Rightarrow> mysql_packets \<Rightarrow> hex \<Rightarrow> (nat \<Rightarrow> nat) \<Rightarrow> bool \<Rightarrow>
   'p BackendMgr \<Rightarrow> 'p accepted list \<Rightarrow> 'r metrics_ctx \<Rightarrow> (unit result \<times> connection option) list \<times> 'r metrics_ctx" where
  "serve_all C common W B M P H G chk mgr [] c = ([], c)"
| "serve_all C common W B M P H G chk mgr (conn # conns) c =
     (case metered_connect C common (ac_clock conn) W B M P H G (ac_pool_get conn) chk False (ac_draws conn)
             (ac_conn_id conn) mgr (ac_stream conn) (ac_sink conn) c of
        (res, cn, c') \<Rightarrow>
          (case serve_all C common W B M P H G chk mgr conns c' of
             (rs, c'') \<Rightarrow> ((res, cn) # rs, c'')))"

text \<open>The server holds the labels of the commands and the manager; its authenticator has no state.\<close>

record 'p HaentglServer =
  sv_sql_com_labels :: "u8 \<Rightarrow> labels option"
  sv_backend_mgr :: "'p BackendMgr"

definition haentgl_server_new :: "host \<Rightarrow> 'p BackendMgr \<Rightarrow> 'p HaentglServer result" where
  "haentgl_server_new h backend_mgr =
     rbind (init_sql_com_labels h) (\<lambda>ls. Ok \<lparr>sv_sql_com_labels = ls, sv_backend_mgr = backend_mgr\<rparr>)"

definition initialize_async ::
  "(BackendInstance \<Rightarrow> nat \<Rightarrow> 'p option) \<Rightarrow> BackendInstance list list \<Rightarrow> ('p HaentglServer, unit) io" where
  "initialize_async build bursts srv =
     (case prepare_backend_conn_pool build bursts (sv_backend_mgr srv) of
        (r, m) \<Rightarrow> (r, srv\<lparr>sv_backend_mgr := m\<rparr>))"

definition server_close :: "'p HaentglServer \<Rightarrow> 'p HaentglServer" where
  "server_close srv = srv"

record ('p, 'c) proxy_run =
  px_mgr :: "'p BackendMgr"
  px_sync_router :: bool
  px_resolver :: "'c CpResolver option"
  px_tasks :: "task list"
  px_labels :: "u8 \<Rightarrow> labels option"
  px_conns :: "'p accepted list"
  px_shutdown :: "ShutdownMessage watch"
  px_ended :: bool

text \<open>
  \<open>main\<close>, up to a list of events: \<open>px_sync_router\<close> says that the environment variable of the sync router is
  set, \<open>level\<close> accepts the level of the log and \<open>bindable\<close> the port. The
  runtime refuses to be built without a worker.
\<close>

definition proxy_main ::
  "(rstr \<Rightarrow> rstr) \<Rightarrow> (rstr \<Rightarrow> rstr option option) \<Rightarrow> (rstr \<Rightarrow> bool) \<Rightarrow> (u16 \<Rightarrow> bool) \<Rightarrow> 'r metrics_crate \<Rightarrow> host \<Rightarrow>
   ProxyServerArgs \<Rightarrow> 'p accept_event list \<Rightarrow> ('r metrics_ctx, ('p, 'c) proxy_run) io" where
  "proxy_main L uri level bindable C h a es =
     (let log_level = (case pa_log_level a of Some l \<Rightarrow> l | None \<Rightarrow> lit ''DEBUG'') in
      if \<not> level log_level then fail_io (Err (IoError (OtherIo 0) ''invalid level''))
      else if pa_works a = 0 then fail_io Panic
      else
        bind_io (fail_io (startup L uri (h_env h) a)) (\<lambda>(mgr, sync, r).
        bind_io (start_metrics_and_rest C h a) (\<lambda>tasks.
        bind_io (fail_io (haentgl_server_new h mgr)) (\<lambda>srv.
        if \<not> bindable (pa_port a) then fail_io Panic
        else
          (case accept_loop es (watch_channel ShutdownInit) of
             (conns, tx, ended) \<Rightarrow>
               return_io \<lparr>px_mgr = sv_backend_mgr srv, px_sync_router = sync, px_resolver = r, px_tasks = tasks,
                          px_labels = sv_sql_com_labels srv, px_conns = conns, px_shutdown = tx, px_ended = ended\<rparr>)))))"

subsection \<open>The accept loop\<close>

fun accepted_conn :: "'p accept_event \<Rightarrow> 'p accepted option" where
  "accepted_conn (Accepted conn) = Some conn"
| "accepted_conn _ = None"

text \<open>
  The loop runs to the first signal it observes, or through all events; what comes after the signal
  has no effect.
\<close>

lemma accept_loop_quiet:
  assumes "\<forall>sig. Signalled sig \<notin> set es"
  shows "accept_loop (es @ es') tx =
    (case accept_loop es' tx of (conns, tx', ended) \<Rightarrow> (List.map_filter accepted_conn es @ conns, tx', ended))"
  using assms
proof (induction es)
  case Nil
  then show ?case by (simp add: List.map_filter_def)
next
  case (Cons e es)
  then show ?case by (cases e) (auto simp: List.map_filter_def split: prod.split)
qed

lemma accept_loop_split:
  "\<exists>before after. es = before @ after \<and> (\<forall>sig. Signalled sig \<notin> set before) \<and>
     (after = [] \<or> (\<exists>sig rest. after = Signalled sig # rest))"
proof (induction es)
  case (Cons e es)
  then obtain before after where es: "es = before @ after" "\<forall>sig. Signalled sig \<notin> set before"
    "after = [] \<or> (\<exists>sig rest. after = Signalled sig # rest)" by blast
  show ?case
  proof (cases "\<exists>sig. e = Signalled sig")
    case True
    then show ?thesis by (intro exI [of _ "[]"] exI [of _ "e # es"]) auto
  next
    case False
    then show ?thesis using es by (intro exI [of _ "e # before"] exI [of _ after]) auto
  qed
qed simp

lemma accept_loop_eq:
  assumes "\<forall>sig. Signalled sig \<notin> set before"
  shows "accept_loop before tx = (List.map_filter accepted_conn before, tx, False)"
    "accept_loop (before @ Signalled sig # rest) tx =
      (List.map_filter accepted_conn before, watch_send (shutdown_signal sig) tx, True)"
  using accept_loop_quiet [OF assms, of "[]" tx] accept_loop_quiet [OF assms, of "Signalled sig # rest" tx] by simp_all

text \<open>
  A signal ends every wait on the channel, of a receiver that has seen everything before it.
\<close>

lemma shutdown_reaches_all:
  assumes "seen \<le> wt_version tx"
  shows "shutdown_await seen sender_alive (watch_send m tx)"
  using assms by (simp add: shutdown_await_def watch_poll_def watch_send_def)

lemma no_early_shutdown: "\<not> shutdown_await (wt_version tx) True tx"
  by (simp add: shutdown_await_def watch_poll_def)

subsection \<open>Tasks of the process\<close>

lemma start_cp_target_addr:
  "start_cp_target sock a = Panic \<longleftrightarrow>
     (\<exists>addr. cp_listen_addr (pa_cp_args a) = Some addr \<and> \<not> sock addr)"
  by (simp add: start_cp_target_def start_cp_target_reporter_def cp_listen_addr_def split: option.split)

lemma start_metrics_and_rest_tasks:
  assumes "start_metrics_and_rest C h a c = (Ok tasks, c')"
  shows "filter (\<lambda>t. \<exists>p m. t = HttpServer p m) tasks =
    (if pa_enable_metrics a then [HttpServer (pa_http_port a) True] else []) @
    (if pa_enable_rest a then [HttpServer (pa_http_port a) False] else [])"
  using assms by (auto simp: start_metrics_and_rest_def bind_io_def return_io_def fail_io_def
      split: if_splits prod.splits result.splits)

lemma run_servers_filter: "run_servers bound ts = run_servers bound (filter (\<lambda>t. \<exists>p m. t = HttpServer p m) ts)"
  by (induction bound ts rule: run_servers.induct) (simp_all split: prod.split)

lemma mset_pair:
  assumes "mset xs = {#a, b#}"
  shows "xs = [a, b] \<or> xs = [b, a]"
proof -
  have "length xs = 2" using arg_cong [OF assms, of size] by simp
  then obtain x y where "xs = [x, y]" by (auto simp: numeral_2_eq_2 length_Suc_conv)
  then show ?thesis using assms by (auto simp: add_eq_conv_ex)
qed

text \<open>
  With the metrics and the REST service both on, one of the two servers panics in every order, and
  when the REST server is the first nobody serves the metrics.
\<close>

lemma servers_conflict:
  assumes "start_metrics_and_rest C h a c = (Ok tasks, c')" "pa_enable_metrics a" "pa_enable_rest a"
    and "mset order = mset tasks" "pa_http_port a \<notin> set bound"
  shows "run_servers bound order = [Ok (routes True), Panic] \<or> run_servers bound order = [Ok (routes False), Panic]"
proof -
  let ?h = "\<lambda>t. \<exists>p m. t = HttpServer p m" and ?port = "pa_http_port a"
  have "mset (filter ?h order) = mset (filter ?h tasks)" using assms(4) by (metis mset_filter)
  also have "\<dots> = {#HttpServer ?port True, HttpServer ?port False#}"
    using start_metrics_and_rest_tasks [OF assms(1)] assms(2,3) by simp
  finally have "filter ?h order = [HttpServer ?port True, HttpServer ?port False] \<or>
      filter ?h order = [HttpServer ?port False, HttpServer ?port True]"
    by (rule mset_pair)
  then show ?thesis
    using assms(5) run_servers_filter [of bound order] by (auto simp: start_server_def)
qed

subsection \<open>Serving the accepted connections\<close>

lemma serve_all_results:
  assumes "serve_all C common W B M P H G chk mgr conns c = (rs, c')"
  shows "rs = map (\<lambda>conn. connect W B M P H G (ac_pool_get conn) chk False (ac_draws conn) (ac_conn_id conn) mgr
    (ac_stream conn) (ac_sink conn)) conns"
  using assms
proof (induction conns arbitrary: c rs)
  case (Cons conn conns)
  obtain res cn c1 where m: "metered_connect C common (ac_clock conn) W B M P H G (ac_pool_get conn) chk False
      (ac_draws conn) (ac_conn_id conn) mgr (ac_stream conn) (ac_sink conn) c = (res, cn, c1)"
    by (rule prod_cases3)
  obtain rs1 c2 where r: "serve_all C common W B M P H G chk mgr conns c1 = (rs1, c2)" by (rule prod.exhaust)
  have "rs = (res, cn) # rs1" "c2 = c'" using Cons.prems m r by simp_all
  then show ?case using connect_erased [OF m] Cons.IH [of c1 rs1] r by simp
qed simp

text \<open>
  The gauge of the current connections counts down by one for every connection that ends with
  COM_QUIT; no connection counts it up.
\<close>

lemma serve_all_gauge:
  assumes "metrics_spec C" "mx_recorder c = Some r"
    and "mc_gauge C r (metric_key_of PROXY_CURR_CONN (Some common)) = Fin (of_int n)" "n \<le> 0" "length conns < 2 ^ 53 - nat (- n)"
    and "serve_all C common W B M P H G chk mgr conns c = (rs, c')"
  shows "\<exists>r'. mx_recorder c' = Some r' \<and> mc_gauge C r' (metric_key_of PROXY_CURR_CONN (Some common)) =
    Fin (of_int (n - int (length (filter (\<lambda>(res, cn). served_until_quit res cn) rs))))"
  using assms(2-)
proof (induction conns arbitrary: c r n rs)
  case (Cons conn conns)
  let ?k = "metric_key_of PROXY_CURR_CONN (Some common)"
  obtain res cn c1 where m: "metered_connect C common (ac_clock conn) W B M P H G (ac_pool_get conn) chk False
      (ac_draws conn) (ac_conn_id conn) mgr (ac_stream conn) (ac_sink conn) c = (res, cn, c1)"
    by (rule prod_cases3)
  obtain rs1 c2 where s: "serve_all C common W B M P H G chk mgr conns c1 = (rs1, c2)" by (rule prod.exhaust)
  have rs: "rs = (res, cn) # rs1" "c2 = c'" using Cons.prems(5) m s by simp_all
  define d :: int where "d = (if served_until_quit res cn then 1 else 0)"
  obtain r1 where r1: "mx_recorder c1 = Some r1" "mc_gauge C r1 ?k =
      (if served_until_quit res cn then fval_sub (mc_gauge C r ?k) (Fin 1) else mc_gauge C r ?k)"
    by (rule connect_gauge [OF assms(1) Cons.prems(1) m])
  have bound: "\<bar>n - 1\<bar> < 2 ^ 53" using Cons.prems(3,4) by (simp add: nat_minus_as_int)
  have g: "mc_gauge C r1 ?k = Fin (of_int (n - d))"
    using r1(2) Cons.prems(2) fval_sub_int [OF bound] by (simp add: d_def)
  have "length conns < 2 ^ 53 - nat (- (n - d))" using Cons.prems(3,4) by (auto simp: d_def)
  then show ?case
    using Cons.IH [OF r1(1) g _ _ s [unfolded rs(2)]] Cons.prems(3) by (simp add: rs d_def diff_diff_eq split: if_splits)
qed auto

end
