(* ===== verification/ReadyGate.thy ===== *)
theory ReadyGate
  imports CpResolver
begin

text \<open>
  The start of the discovery (\<open>start_backend_discovery\<close> in \<open>backend/mod.rs\<close>): two tasks, the ticker of the
  resolver (\<open>start\<close> in \<open>control_plane_resolver.rs\<close>) and the discovery, which waits on a condition variable
  until the ticker has found a member (\<open>wait_for_backends_ready\<close>). The tasks run on the worker threads
  of the runtime: a task that awaits gives its thread back, but a thread that waits for the condition
  variable is blocked. What happens under the mutex is one step, and so is a poll of the members, at
  which nobody else looks before the discovery has gone on.
\<close>

subsection \<open>State\<close>

text \<open>
  The discovery has not run yet, sleeps in \<open>wait\<close>, is awake and about to look at the flag again, or has
  gone on. The ticker awaits its tick or the answer of the control plane, is about to test the flag,
  is about to set it, or has returned.
\<close>

datatype waiter = Unpolled | Asleep | Woken | Passed

datatype ticker = Ticking | Testing | Setting | Returned "unit result"

record 'c gate =
  rg_resolver :: "'c CpResolver"
  rg_waiter :: waiter
  rg_ticker :: ticker

definition gate_init :: "'c CpResolver \<Rightarrow> 'c gate" where
  "gate_init r = \<lparr>rg_resolver = r, rg_waiter = Unpolled, rg_ticker = Ticking\<rparr>"

abbreviation started :: "'c gate \<Rightarrow> bool" where
  "started s \<equiv> cr_started (rg_resolver s)"

definition busy :: "'c gate \<Rightarrow> nat" where
  "busy s = (if rg_waiter s = Asleep \<or> rg_waiter s = Woken then 1 else 0) +
     (if rg_ticker s = Testing \<or> rg_ticker s = Setting then 1 else 0)"

subsection \<open>Operations\<close>

text \<open>The head of the loop of \<open>wait_for_backends_ready\<close>: test the flag, go on or sleep.\<close>

definition wait_for_backends_ready :: "'c gate \<Rightarrow> 'c gate" where
  "wait_for_backends_ready s = s\<lparr>rg_waiter := (if started s then Passed else Asleep)\<rparr>"

definition notify_all :: "'c gate \<Rightarrow> 'c gate" where
  "notify_all s = s\<lparr>rg_waiter := (if rg_waiter s = Asleep then Woken else rg_waiter s)\<rparr>"

text \<open>The three parts of a round of the ticker.\<close>

definition tick_refresh :: "(rstr \<Rightarrow> 'c option) \<Rightarrow> CpBackend list option \<Rightarrow> 'c gate \<Rightarrow> 'c gate" where
  "tick_refresh conn answer s =
     (case refresh_backends conn answer (rg_resolver s) of
        (Ok _, r1) \<Rightarrow> s\<lparr>rg_resolver := r1, rg_ticker := Testing\<rparr>
      | (e, r1) \<Rightarrow> s\<lparr>rg_resolver := r1, rg_ticker := Returned e\<rparr>)"

definition tick_check :: "'c gate \<Rightarrow> 'c gate" where
  "tick_check s =
     s\<lparr>rg_ticker := (if cr_backends (rg_resolver s) \<noteq> [] \<and> \<not> started s then Setting else Ticking)\<rparr>"

definition tick_set :: "'c gate \<Rightarrow> 'c gate" where
  "tick_set s = notify_all (s\<lparr>rg_resolver := (rg_resolver s)\<lparr>cr_started := True\<rparr>, rg_ticker := Ticking\<rparr>)"

text \<open>
  A task that is to run needs a free worker. A sleeping thread may wake up without being notified. The
  discovery that has passed uses the members of the resolver.
\<close>

inductive gate_step :: "(rstr \<Rightarrow> 'c option) \<Rightarrow> nat \<Rightarrow> 'c gate \<Rightarrow> 'c gate \<Rightarrow> bool" for conn workers where
  poll: "rg_waiter s = Unpolled \<Longrightarrow> busy s < workers \<Longrightarrow> gate_step conn workers s (wait_for_backends_ready s)"
| spurious: "rg_waiter s = Asleep \<Longrightarrow> gate_step conn workers s (s\<lparr>rg_waiter := Woken\<rparr>)"
| recheck: "rg_waiter s = Woken \<Longrightarrow> gate_step conn workers s (wait_for_backends_ready s)"
| refresh: "rg_ticker s = Ticking \<Longrightarrow> busy s < workers \<Longrightarrow> gate_step conn workers s (tick_refresh conn answer s)"
| check: "rg_ticker s = Testing \<Longrightarrow> gate_step conn workers s (tick_check s)"
| set: "rg_ticker s = Setting \<Longrightarrow> gate_step conn workers s (tick_set s)"
| shutdown: "rg_ticker s = Ticking \<Longrightarrow> busy s < workers \<Longrightarrow> gate_step conn workers s (s\<lparr>rg_ticker := Returned (Ok ())\<rparr>)"
| pick: "rg_waiter s = Passed \<Longrightarrow> gate_step conn workers s (s\<lparr>rg_resolver := snd (get_cp_backend (rg_resolver s))\<rparr>)"
| mark: "rg_waiter s = Passed \<Longrightarrow>
    gate_step conn workers s (s\<lparr>rg_resolver := mark_backend_unavailable name (rg_resolver s)\<rparr>)"

abbreviation gate_steps :: "(rstr \<Rightarrow> 'c option) \<Rightarrow> nat \<Rightarrow> 'c gate \<Rightarrow> 'c gate \<Rightarrow> bool" where
  "gate_steps conn workers \<equiv> (gate_step conn workers)\<^sup>*\<^sup>*"

lemmas gate_ops = wait_for_backends_ready_def notify_all_def tick_refresh_def tick_check_def tick_set_def

subsection \<open>The rounds of the ticker\<close>

lemma gate_members [simp]:
  "cr_backends (snd (get_cp_backend r)) = cr_backends r" "cr_started (snd (get_cp_backend r)) = cr_started r"
  "cr_started (mark_backend_unavailable name r) = cr_started r"
  "cr_backends (mark_backend_unavailable name r) = [] \<longleftrightarrow> cr_backends r = []"
  by (auto simp: get_cp_backend_def mark_backend_unavailable_def Let_def split: option.splits)

lemma refresh_backends_started [simp]: "cr_started (snd (refresh_backends conn answer r)) = cr_started r"
  by (simp add: refresh_backends_def update_backends_def Let_def split: option.split)

text \<open>A round leaves the resolver as \<open>resolver_start\<close> does for one answer.\<close>

lemma tick_round:
  assumes "rg_ticker s = Ticking" "busy s < workers"
  shows "\<exists>s'. gate_steps conn workers s s' \<and>
    rg_resolver s' = snd (resolver_start conn [answer] (rg_resolver s)) \<and>
    rg_ticker s' = (case fst (resolver_start conn [answer] (rg_resolver s)) of Ok _ \<Rightarrow> Ticking | e \<Rightarrow> Returned e) \<and>
    rg_waiter s' = (if started s' \<and> \<not> started s \<and> rg_waiter s = Asleep then Woken else rg_waiter s)"
proof -
  let ?s1 = "tick_refresh conn answer s"
  have one: "gate_step conn workers s ?s1" by (rule refresh [OF assms])
  show ?thesis
  proof (cases answer)
    case None
    then show ?thesis using one by (intro exI [of _ ?s1]) (auto simp: gate_ops refresh_backends_def)
  next
    case (Some bs)
    let ?r = "update_backends conn bs (rg_resolver s)"
    have s1: "?s1 = s\<lparr>rg_resolver := ?r, rg_ticker := Testing\<rparr>" by (simp add: Some gate_ops refresh_backends_def)
    have same: "cr_started ?r = started s" by (simp add: update_backends_def Let_def)
    have two: "gate_steps conn workers s (tick_check ?s1)"
      using one gate_step.check [of ?s1 conn workers] by (simp add: s1)
    show ?thesis
    proof (cases "cr_backends ?r \<noteq> [] \<and> \<not> started s")
      case True
      then have "gate_step conn workers (tick_check ?s1) (tick_set (tick_check ?s1))"
        by (intro gate_step.set) (simp add: s1 tick_check_def same)
      with two have "gate_steps conn workers s (tick_set (tick_check ?s1))" by simp
      then show ?thesis
        using True by (intro exI [of _ "tick_set (tick_check ?s1)"]) (auto simp: s1 gate_ops same Some refresh_backends_def)
    next
      case False
      then show ?thesis
        using two by (intro exI [of _ "tick_check ?s1"]) (auto simp: s1 gate_ops same Some refresh_backends_def)
    qed
  qed
qed

subsection \<open>What the gate promises\<close>

text \<open>The ticker sets the flag only when there is a member, and nobody sleeps while the flag is set.\<close>

definition gate_wf :: "'c gate \<Rightarrow> bool" where
  "gate_wf s \<longleftrightarrow> (rg_ticker s = Setting \<longrightarrow> cr_backends (rg_resolver s) \<noteq> [] \<and> \<not> started s) \<and>
     (started s \<longrightarrow> rg_waiter s \<noteq> Asleep) \<and> (rg_waiter s = Passed \<longrightarrow> started s)"

lemma gate_wf_init: "\<not> cr_started r \<Longrightarrow> gate_wf (gate_init r)"
  by (simp add: gate_wf_def gate_init_def)

lemma tick_refresh_keeps:
  "started (tick_refresh conn answer s) = started s" "rg_waiter (tick_refresh conn answer s) = rg_waiter s"
  "rg_ticker (tick_refresh conn answer s) \<noteq> Setting"
  "rg_ticker (tick_refresh conn answer s) = Testing \<or> (\<exists>e. rg_ticker (tick_refresh conn answer s) = Returned e)"
  by (auto simp: tick_refresh_def refresh_backends_def update_backends_def Let_def split: option.split)

lemma gate_step_wf: "gate_step conn workers s s' \<Longrightarrow> gate_wf s \<Longrightarrow> gate_wf s'"
proof (induction rule: gate_step.induct)
  case (refresh s answer)
  then show ?case using tick_refresh_keeps [of conn answer s] by (simp add: gate_wf_def)
qed (auto simp: gate_wf_def gate_ops)

lemma gate_steps_wf: "gate_steps conn workers s s' \<Longrightarrow> gate_wf s \<Longrightarrow> gate_wf s'"
  by (induction rule: rtranclp_induct) (auto intro: gate_step_wf)

text \<open>The step that opens the gate.\<close>

lemma gate_step_opens:
  assumes "gate_step conn workers s s'" "gate_wf s" "\<not> started s" "started s'"
  shows "cr_backends (rg_resolver s) \<noteq> []"
  using assms
proof (cases rule: gate_step.cases)
  case (refresh answer)
  then show ?thesis using assms(3,4) tick_refresh_keeps(1) [of conn answer s] by simp
qed (auto simp: gate_wf_def gate_ops)

lemma gate_opened:
  assumes "gate_steps conn workers s s'" "gate_wf s" "\<not> started s" "started s'"
  shows "\<exists>s1. gate_steps conn workers s s1 \<and> gate_steps conn workers s1 s' \<and> \<not> started s1 \<and>
    cr_backends (rg_resolver s1) \<noteq> []"
  using assms
proof (induction rule: rtranclp_induct)
  case (step s1 s2)
  show ?case
  proof (cases "started s1")
    case True
    then obtain s0 where "gate_steps conn workers s s0" "gate_steps conn workers s0 s1" "\<not> started s0"
      "cr_backends (rg_resolver s0) \<noteq> []"
      using step.IH step.prems by blast
    then show ?thesis using step.hyps(2) by (meson rtranclp.rtrancl_into_rtrancl)
  next
    case False
    then have "cr_backends (rg_resolver s1) \<noteq> []"
      using gate_step_opens [OF step.hyps(2)] gate_steps_wf [OF step.hyps(1)] step.prems by blast
    then show ?thesis using False step.hyps by blast
  qed
qed simp

subsection \<open>The first choice of a member\<close>

text \<open>Only the discovery marks members as unavailable, so before it has passed all of them are available.\<close>

definition all_available :: "'c CpResolver \<Rightarrow> bool" where
  "all_available r \<longleftrightarrow> (\<forall>(name, c) \<in> set (cr_backends r). ch_status c = Available)"

lemma set_update: "set (AList.update k v al) \<subseteq> insert (k, v) (set al)"
  by (induction al) auto

lemma merge_channel_available: "ch_status new = Available \<Longrightarrow> ch_status (merge_channel b new old) = Available"
  by (cases "ch_status old") (simp_all add: merge_channel_def)

lemma update_backend_available:
  assumes "\<forall>(name, c) \<in> set m. ch_status c = Available"
  shows "\<forall>(name, c) \<in> set (update_backend conn m b). ch_status c = Available"
proof (cases "cp_channel_new conn b")
  case None
  then show ?thesis using assms by (auto simp: update_backend_def AList.delete_eq)
next
  case (Some new)
  then have "ch_status new = Available" by (auto simp: cp_channel_new_def)
  then show ?thesis
    using assms Some set_update [of "cb_name b" _ m] merge_channel_available
    by (fastforce simp: update_backend_def split: option.splits)
qed

lemma foldl_update_backend_available:
  assumes "\<forall>(name, c) \<in> set m. ch_status c = Available"
  shows "\<forall>(name, c) \<in> set (foldl (update_backend conn) m bs). ch_status c = Available"
  using assms
proof (induction bs arbitrary: m)
  case (Cons b bs)
  then show ?case using Cons.IH [OF update_backend_available [OF Cons.prems]] by simp
qed simp

lemma update_backends_available:
  assumes "all_available r"
  shows "all_available (update_backends conn bs r)"
proof -
  let ?kept = "filter (\<lambda>(name, c). name \<in> cb_name ` set bs) (cr_backends r)"
  have kept: "\<forall>(name, c) \<in> set ?kept. ch_status c = Available"
    using assms unfolding all_available_def set_filter by blast
  have eq: "cr_backends (update_backends conn bs r) = foldl (update_backend conn) ?kept bs"
    by (simp add: update_backends_def Let_def)
  show ?thesis unfolding all_available_def eq by (rule foldl_update_backend_available [OF kept])
qed

lemma gate_step_available:
  "gate_step conn workers s s' \<Longrightarrow> rg_waiter s' \<noteq> Passed \<Longrightarrow> all_available (rg_resolver s) \<Longrightarrow> all_available (rg_resolver s')"
proof (induction rule: gate_step.induct)
  case (refresh s answer)
  then show ?case
    by (auto simp: tick_refresh_def refresh_backends_def update_backends_available split: option.splits)
qed (auto simp: gate_ops all_available_def)

lemma passed_stays: "gate_step conn workers s s' \<Longrightarrow> rg_waiter s = Passed \<Longrightarrow> rg_waiter s' = Passed"
  by (induction rule: gate_step.induct) (auto simp: gate_ops refresh_backends_def split: option.splits)

lemma gate_steps_available:
  "gate_steps conn workers s s' \<Longrightarrow> rg_waiter s' \<noteq> Passed \<Longrightarrow> all_available (rg_resolver s) \<Longrightarrow> all_available (rg_resolver s')"
  by (induction rule: rtranclp_induct) (auto intro: gate_step_available dest: passed_stays)

lemma first_pick:
  assumes "all_available r"
  shows "fst (get_cp_backend r) = Panic \<longleftrightarrow> cr_backends r = []"
  using assms by (cases "cr_backends r") (auto simp: get_cp_backend_panics available_channels_def all_available_def)

subsection \<open>Opening the gate\<close>

text \<open>A ticker between two rounds, with the flag as the last round left it.\<close>

lemma round_completes:
  assumes "gate_wf s" "\<forall>e. rg_ticker s \<noteq> Returned e"
  shows "\<exists>s'. gate_steps conn workers s s' \<and> rg_ticker s' = Ticking \<and>
    (rg_waiter s' = rg_waiter s \<or> rg_waiter s = Asleep \<and> rg_waiter s' = Woken)"
proof -
  have set: "gate_step conn workers s1 (tick_set s1) \<and> rg_ticker (tick_set s1) = Ticking \<and>
      (rg_waiter (tick_set s1) = rg_waiter s1 \<or> rg_waiter s1 = Asleep \<and> rg_waiter (tick_set s1) = Woken)"
    if "rg_ticker s1 = Setting" for s1
    using gate_step.set [OF that] by (auto simp: gate_ops)
  show ?thesis
  proof (cases "rg_ticker s")
    case Testing
    then have c: "gate_step conn workers s (tick_check s)" by (rule gate_step.check)
    show ?thesis
    proof (cases "rg_ticker (tick_check s) = Setting")
      case True
      then show ?thesis using c set [OF True] by (intro exI [of _ "tick_set (tick_check s)"]) (auto simp: gate_ops)
    next
      case False
      then show ?thesis using c by (intro exI [of _ "tick_check s"]) (auto simp: gate_ops split: if_splits)
    qed
  next
    case Setting
    then show ?thesis using set [OF Setting] by (intro exI [of _ "tick_set s"]) auto
  qed (use assms(2) in auto)
qed

text \<open>With two workers the gate opens as soon as the control plane lists a member that can be reached.\<close>

lemma gate_can_open:
  fixes bs :: "CpBackend list"
  assumes wf: "gate_wf s" and run: "\<forall>e. rg_ticker s \<noteq> Returned e" and two: "2 \<le> workers"
    and bs: "distinct (map cb_name bs)" "b \<in> set bs" "conn (lit ''http://'' @ cb_service_addr b) \<noteq> None"
  shows "\<exists>s'. gate_steps conn workers s s' \<and> rg_waiter s' = Passed"
proof -
  obtain s1 where s1: "gate_steps conn workers s s1" "rg_ticker s1 = Ticking"
    using round_completes [OF wf run] by blast
  have "busy s1 < workers" using two s1(2) by (simp add: busy_def)
  then obtain s2 where s2: "gate_steps conn workers s1 s2"
    "rg_resolver s2 = snd (resolver_start conn [Some bs] (rg_resolver s1))" "rg_ticker s2 = Ticking"
    using tick_round [OF s1(2), of workers conn "Some bs"] by (auto simp: refresh_backends_def)
  have "cb_name b \<in> dom (dm_get (cr_backends (update_backends conn bs (rg_resolver s1))))"
    using bs by (auto simp: update_backends_dom [OF bs(1)])
  then have "cr_backends (update_backends conn bs (rg_resolver s1)) \<noteq> []" by auto
  then have up: "started s2" using s2(2) by (auto simp: refresh_backends_def)
  have "gate_wf s2" using gate_steps_wf [OF s1(1) wf] gate_steps_wf [OF s2(1)] by blast
  then have "rg_waiter s2 \<noteq> Asleep" using up by (simp add: gate_wf_def)
  moreover have "busy s2 < workers" using two s2(3) by (simp add: busy_def)
  ultimately consider "rg_waiter s2 = Passed" | "gate_step conn workers s2 (wait_for_backends_ready s2)"
    by (cases "rg_waiter s2") (auto intro: poll recheck)
  then show ?thesis
  proof cases
    case 1
    then show ?thesis using s1(1) s2(1) by (meson rtranclp_trans)
  next
    case 2
    then have "gate_steps conn workers s (wait_for_backends_ready s2)"
      using s1(1) s2(1) by (meson rtranclp.rtrancl_into_rtrancl rtranclp_trans)
    then show ?thesis using up by (intro exI [of _ "wait_for_backends_ready s2"]) (simp add: wait_for_backends_ready_def)
  qed
qed

subsection \<open>A gate that stays shut\<close>

text \<open>
  Nobody is left to open it: the ticker has returned, or the only worker is the one that waits.
\<close>

definition gate_stuck :: "nat \<Rightarrow> 'c gate \<Rightarrow> bool" where
  "gate_stuck workers s \<longleftrightarrow> \<not> started s \<and> rg_waiter s \<noteq> Passed \<and>
     ((\<exists>e. rg_ticker s = Returned e) \<or> workers = 1 \<and> rg_ticker s = Ticking \<and> rg_waiter s \<noteq> Unpolled)"

lemma gate_stuck_step: "gate_step conn workers s s' \<Longrightarrow> gate_stuck workers s \<Longrightarrow> gate_stuck workers s'"
proof (induction rule: gate_step.induct)
  case (refresh s answer)
  then show ?case by (cases "rg_waiter s") (auto simp: gate_stuck_def busy_def)
next
  case (shutdown s)
  then show ?case by (cases "rg_waiter s") (auto simp: gate_stuck_def busy_def)
qed (auto simp: gate_stuck_def gate_ops)

lemma gate_stuck_steps: "gate_steps conn workers s s' \<Longrightarrow> gate_stuck workers s \<Longrightarrow> gate_stuck workers s'"
  by (induction rule: rtranclp_induct) (auto intro: gate_stuck_step)

lemma one_worker_stuck:
  assumes "\<not> cr_started r"
  shows "gate_step conn 1 (gate_init r) (wait_for_backends_ready (gate_init r))"
    "gate_stuck 1 (wait_for_backends_ready (gate_init r))"
proof -
  show "gate_step conn 1 (gate_init r) (wait_for_backends_ready (gate_init r))"
    by (rule poll) (simp_all add: gate_init_def busy_def)
  show "gate_stuck 1 (wait_for_backends_ready (gate_init r))"
    using assms by (simp add: gate_stuck_def wait_for_backends_ready_def gate_init_def)
qed

lemma failed_refresh_stuck:
  assumes "0 < workers" "\<not> cr_started r"
  shows "gate_step conn workers (gate_init r) (tick_refresh conn None (gate_init r))"
    "gate_stuck workers (tick_refresh conn None (gate_init r))"
proof -
  show "gate_step conn workers (gate_init r) (tick_refresh conn None (gate_init r))"
    by (rule refresh) (use assms in \<open>simp_all add: gate_init_def busy_def\<close>)
  show "gate_stuck workers (tick_refresh conn None (gate_init r))"
    using assms by (simp add: gate_stuck_def tick_refresh_def refresh_backends_def gate_init_def)
qed

end
