(* ===== verification/Protobuf.thy ===== *)
theory Protobuf
  imports Utf8 "HOL-Library.Finite_Map"
begin

text \<open>
  The wire format of protocol buffers, as its documentation gives it: numbers of seven bits a byte,
  fields with a number and a wire type, and messages as sequences of fields. A reader skips the fields
  it does not know, takes the last value of a field that comes more than once, and merges the
  occurrences of an embedded message. Groups, which the format has abandoned, are refused. This theory
  models no code of the repository: it serves to build the instance of the parameter \<open>prost\<close> with which
  the theory \<open>Grpc\<close> shows that the contract of that library can be met.
\<close>

subsection \<open>Numbers\<close>

fun varint :: "nat \<Rightarrow> bytes" where
  "varint n = (if n < 128 then [word_of_nat n] else word_of_nat (n mod 128 + 128) # varint (n div 128))"

declare varint.simps [simp del]

text \<open>A number has at most ten bytes, and fits sixty-four bits.\<close>

fun get_varint :: "nat \<Rightarrow> bytes \<Rightarrow> (nat \<times> bytes) option" where
  "get_varint 0 bs = None"
| "get_varint (Suc k) [] = None"
| "get_varint (Suc k) (b # bs) =
     (if b < 128 then Some (unat b, bs)
      else map_option (\<lambda>(n, rest). (unat b - 128 + 128 * n, rest)) (get_varint k bs))"

definition read_varint :: "bytes \<Rightarrow> (nat \<times> bytes) option" where
  "read_varint bs =
     (case get_varint 10 bs of Some (n, rest) \<Rightarrow> if n < 2 ^ 64 then Some (n, rest) else None | None \<Rightarrow> None)"

lemma varint_not_Nil [simp]: "varint n \<noteq> []"
  by (subst varint.simps) simp

lemma get_varint_varint: "n < 128 ^ Suc k \<Longrightarrow> get_varint (Suc k) (varint n @ rest) = Some (n, rest)"
proof (induction k arbitrary: n)
  case 0
  then show ?case by (subst varint.simps) (simp add: unat_of_nat word_less_nat_alt)
next
  case (Suc k)
  show ?case
  proof (cases "n < 128")
    case True
    then show ?thesis
      by (subst varint.simps) (simp add: unat_of_nat word_less_nat_alt)
  next
    case False
    have "unat (word_of_nat (n mod 128 + 128) :: u8) = n mod 128 + 128" by (simp add: unat_of_nat del: of_nat_add)
    moreover have "n div 128 < 128 ^ Suc k" using Suc.prems by (simp add: less_mult_imp_div_less mult.commute)
    ultimately show ?thesis
      using False Suc.IH [of "n div 128"] by (subst varint.simps) (simp add: word_less_nat_alt del: of_nat_add)
  qed
qed

lemma read_varint_varint: "n < 2 ^ 64 \<Longrightarrow> read_varint (varint n @ rest) = Some (n, rest)"
  using get_varint_varint [of n 9 rest] by (simp add: read_varint_def)

lemma get_varint_shorter: "get_varint k bs = Some (n, rest) \<Longrightarrow> length rest < length bs"
proof (induction k bs arbitrary: n rest rule: get_varint.induct)
  case (3 k b bs)
  then show ?case by (fastforce split: if_splits)
qed simp_all

lemma read_varint_shorter: "read_varint bs = Some (n, rest) \<Longrightarrow> length rest < length bs"
  using get_varint_shorter by (auto simp: read_varint_def split: option.splits if_splits)

subsection \<open>Fields\<close>

datatype wval = Varint nat | Fixed64 bytes | Len bytes | Fixed32 bytes

type_synonym field = "nat \<times> wval"

fun enc_field :: "field \<Rightarrow> bytes" where
  "enc_field (n, Varint v) = varint (8 * n) @ varint v"
| "enc_field (n, Fixed64 bs) = varint (8 * n + 1) @ bs"
| "enc_field (n, Len bs) = varint (8 * n + 2) @ varint (length bs) @ bs"
| "enc_field (n, Fixed32 bs) = varint (8 * n + 5) @ bs"

definition fields_bytes :: "field list \<Rightarrow> bytes" where
  "fields_bytes fs = concat (map enc_field fs)"

definition split_bytes :: "nat \<Rightarrow> bytes \<Rightarrow> (bytes \<times> bytes) option" where
  "split_bytes n bs = (if n \<le> length bs then Some (take n bs, drop n bs) else None)"

text \<open>A key has thirty-two bits, and the number of a field is at least one.\<close>

definition read_field :: "bytes \<Rightarrow> (field \<times> bytes) option" where
  "read_field bs =
     Option.bind (read_varint bs) (\<lambda>(key, r).
       let n = key div 8 in
       if 2 ^ 32 \<le> key \<or> n = 0 then None
       else if key mod 8 = 0 then map_option (\<lambda>(v, rest). ((n, Varint v), rest)) (read_varint r)
       else if key mod 8 = 1 then map_option (\<lambda>(b, rest). ((n, Fixed64 b), rest)) (split_bytes 8 r)
       else if key mod 8 = 2 then
         Option.bind (read_varint r) (\<lambda>(l, r'). map_option (\<lambda>(b, rest). ((n, Len b), rest)) (split_bytes l r'))
       else if key mod 8 = 5 then map_option (\<lambda>(b, rest). ((n, Fixed32 b), rest)) (split_bytes 4 r)
       else None)"

lemma read_field_shorter: "read_field bs = Some (f, rest) \<Longrightarrow> length rest < length bs"
  by (fastforce simp: read_field_def bind_eq_Some_conv Let_def split_bytes_def split: if_splits prod.splits
      dest!: read_varint_shorter)

function read_fields :: "bytes \<Rightarrow> field list option" where
  "read_fields bs =
     (if bs = [] then Some []
      else (case read_field bs of None \<Rightarrow> None | Some (f, rest) \<Rightarrow> map_option (\<lambda>fs. f # fs) (read_fields rest)))"
  by pat_completeness auto
termination
  by (relation "measure length") (use read_field_shorter in auto)

declare read_fields.simps [simp del]

text \<open>What an encoder writes: numbers of fields and of integers in range.\<close>

definition val_ok :: "wval \<Rightarrow> bool" where
  "val_ok v \<longleftrightarrow>
     (case v of
        Varint x \<Rightarrow> x < 2 ^ 64
      | Fixed64 bs \<Rightarrow> length bs = 8
      | Len bs \<Rightarrow> True
      | Fixed32 bs \<Rightarrow> length bs = 4)"

definition val_sized :: "wval \<Rightarrow> bool" where
  "val_sized v \<longleftrightarrow> (case v of Len bs \<Rightarrow> length bs < 2 ^ 64 | _ \<Rightarrow> True)"

definition field_ok :: "field \<Rightarrow> bool" where
  "field_ok f \<longleftrightarrow> 0 < fst f \<and> fst f < 2 ^ 29 \<and> val_ok (snd f)"

definition field_sized :: "field \<Rightarrow> bool" where
  "field_sized f \<longleftrightarrow> val_sized (snd f)"

lemmas field_defs = field_ok_def field_sized_def val_ok_def val_sized_def

lemma read_field_enc:
  assumes "field_ok f" "field_sized f"
  shows "read_field (enc_field f @ rest) = Some (f, rest)"
proof -
  obtain n v where f: "f = (n, v)" by (rule prod.exhaust)
  have n: "0 < n" "n < 2 ^ 29" using assms(1) by (simp_all add: f field_ok_def)
  have key: "8 * n + t < 2 ^ 32" "(8 * n + t) div 8 = n" "(8 * n + t) mod 8 = t" if "t < 8" for t
    using n that by simp_all
  have rd: "read_varint (varint (8 * n + t) @ r) = Some (8 * n + t, r)" if "t < 8" for t r
    by (rule read_varint_varint) (use key(1) [OF that] in simp)
  show ?thesis
    using assms n key [of 0] key [of 1] key [of 2] key [of 5] rd [of 0] rd [of 1] rd [of 2] rd [of 5]
    by (cases v) (simp_all add: f field_defs read_field_def Let_def read_varint_varint split_bytes_def)
qed

lemma enc_field_not_Nil [simp]: "enc_field f \<noteq> []"
  by (cases f rule: enc_field.cases) simp_all

lemma fields_bytes_simps [simp]:
  "fields_bytes [] = []" "fields_bytes (f # fs) = enc_field f @ fields_bytes fs"
  "fields_bytes (fs @ gs) = fields_bytes fs @ fields_bytes gs"
  by (simp_all add: fields_bytes_def)

lemma read_fields_append:
  "list_all field_ok fs \<Longrightarrow> list_all field_sized fs \<Longrightarrow>
   read_fields (fields_bytes fs @ rest) = map_option (\<lambda>gs. fs @ gs) (read_fields rest)"
proof (induction fs)
  case (Cons f fs)
  then show ?case
    using read_field_enc [of f "fields_bytes fs @ rest"]
    by (cases "read_fields rest") (simp_all add: read_fields.simps [of "_ @ _"])
next
  case Nil
  show ?case by (cases "read_fields rest") simp_all
qed

text \<open>A message that is not longer than a length can say has no field that is.\<close>

lemma fields_sized:
  assumes "length (fields_bytes fs) < 2 ^ 64"
  shows "list_all field_sized fs"
  using assms
proof (induction fs)
  case (Cons f fs)
  then show ?case by (cases f rule: enc_field.cases) (simp_all add: field_defs)
qed simp

lemma read_fields_bytes:
  assumes "list_all field_ok fs" "length (fields_bytes fs) < 2 ^ 64"
  shows "read_fields (fields_bytes fs) = Some fs"
  using read_fields_append [OF assms(1) fields_sized [OF assms(2)], of "[]"] by (simp add: read_fields.simps [of "[]"])

subsection \<open>Values of fields\<close>

text \<open>The values under one number, and the values of a field put under its number.\<close>

definition occurs :: "nat \<Rightarrow> field list \<Rightarrow> wval list" where
  "occurs n fs = map snd (filter (\<lambda>f. fst f = n) fs)"

definition under :: "nat \<Rightarrow> wval list \<Rightarrow> field list" where
  "under n vs = map (\<lambda>v. (n, v)) vs"

text \<open>The default of a type is not written: it is what a reader assumes for a missing field.\<close>

definition str_vals :: "rstr \<Rightarrow> wval list" where
  "str_vals s = (if s = [] then [] else [Len (utf8_encode s)])"

definition bytes_vals :: "bytes \<Rightarrow> wval list" where
  "bytes_vals b = (if b = [] then [] else [Len b])"

definition uint_vals :: "nat \<Rightarrow> wval list" where
  "uint_vals v = (if v = 0 then [] else [Varint v])"

definition bool_vals :: "bool \<Rightarrow> wval list" where
  "bool_vals b = uint_vals (if b then 1 else 0)"

text \<open>A negative number is written as one of sixty-four bits.\<close>

definition int32_vals :: "32 word \<Rightarrow> wval list" where
  "int32_vals w = uint_vals (unat (scast w :: u64))"

definition msg_vals :: "('m \<Rightarrow> bytes) \<Rightarrow> 'm option \<Rightarrow> wval list" where
  "msg_vals enc x = (case x of None \<Rightarrow> [] | Some m \<Rightarrow> [Len (enc m)])"

definition rep_vals :: "('m \<Rightarrow> bytes) \<Rightarrow> 'm list \<Rightarrow> wval list" where
  "rep_vals enc ms = map (\<lambda>m. Len (enc m)) ms"

fun lens :: "wval list \<Rightarrow> bytes list option" where
  "lens [] = Some []"
| "lens (Len b # vs) = map_option (\<lambda>bs. b # bs) (lens vs)"
| "lens (_ # vs) = None"

fun nums :: "wval list \<Rightarrow> nat list option" where
  "nums [] = Some []"
| "nums (Varint v # vs) = map_option (\<lambda>ns. v # ns) (nums vs)"
| "nums (_ # vs) = None"

definition str_of :: "wval list \<Rightarrow> rstr option" where
  "str_of vs = Option.bind (lens vs) (\<lambda>bs. map_option (\<lambda>ss. last ([] # ss)) (those (map utf8_decode bs)))"

definition bytes_of :: "wval list \<Rightarrow> bytes option" where
  "bytes_of vs = map_option (\<lambda>bs. last ([] # bs)) (lens vs)"

definition uint_of :: "wval list \<Rightarrow> nat option" where
  "uint_of vs = map_option (\<lambda>ns. last (0 # ns)) (nums vs)"

definition bool_of :: "wval list \<Rightarrow> bool option" where
  "bool_of vs = map_option (\<lambda>n. n \<noteq> 0) (uint_of vs)"

definition word_of :: "wval list \<Rightarrow> 'l::len word option" where
  "word_of vs = map_option word_of_nat (uint_of vs)"

text \<open>The occurrences of an embedded message are merged, which is reading them as one.\<close>

definition msg_of :: "(bytes \<Rightarrow> 'm option) \<Rightarrow> wval list \<Rightarrow> 'm option option" where
  "msg_of dec vs =
     Option.bind (lens vs) (\<lambda>bs. if bs = [] then Some None else map_option Some (dec (concat bs)))"

definition rep_of :: "(bytes \<Rightarrow> 'm option) \<Rightarrow> wval list \<Rightarrow> 'm list option" where
  "rep_of dec vs = Option.bind (lens vs) (\<lambda>bs. those (map dec bs))"

text \<open>
  Of the members of a \<open>oneof\<close> the last one counts, merged with the occurrences of the same member that
  directly precede it.
\<close>

definition oneof_step :: "(nat \<times> bytes) option \<Rightarrow> nat \<times> bytes \<Rightarrow> (nat \<times> bytes) option" where
  "oneof_step acc x =
     (case acc of
        Some (n, bs) \<Rightarrow> if n = fst x then Some (n, bs @ snd x) else Some x
      | None \<Rightarrow> Some x)"

definition oneof_of :: "nat list \<Rightarrow> field list \<Rightarrow> (nat \<times> bytes) option option" where
  "oneof_of ns fs =
     (let members = filter (\<lambda>f. fst f \<in> set ns) fs in
      map_option (\<lambda>bs. foldl oneof_step None (zip (map fst members) bs)) (lens (map snd members)))"

subsection \<open>Messages\<close>

definition encode :: "('m \<Rightarrow> field list) \<Rightarrow> 'm \<Rightarrow> bytes" where
  "encode fields m = fields_bytes (fields m)"

definition decode :: "(field list \<Rightarrow> 'm option) \<Rightarrow> bytes \<Rightarrow> 'm option" where
  "decode of_fields bs = Option.bind (read_fields bs) of_fields"

text \<open>A message that satisfies \<open>ok\<close> and is not too long is read as it was written.\<close>

definition round_trip :: "('m \<Rightarrow> bool) \<Rightarrow> ('m \<Rightarrow> bytes) \<Rightarrow> (bytes \<Rightarrow> 'm option) \<Rightarrow> bool" where
  "round_trip ok enc dec \<longleftrightarrow> (\<forall>m. ok m \<longrightarrow> length (enc m) < 2 ^ 64 \<longrightarrow> dec (enc m) = Some m)"

lemma round_tripD: "round_trip ok enc dec \<Longrightarrow> ok m \<Longrightarrow> length (enc m) < 2 ^ 64 \<Longrightarrow> dec (enc m) = Some m"
  unfolding round_trip_def by blast

lemma round_tripI:
  assumes "\<And>m. ok m \<Longrightarrow> list_all field_ok (fields m)"
    and "\<And>m. ok m \<Longrightarrow> list_all field_sized (fields m) \<Longrightarrow> of_fields (fields m) = Some m"
  shows "round_trip ok (encode fields) (decode of_fields)"
  using assms fields_sized by (simp add: round_trip_def encode_def decode_def read_fields_bytes)

subsection \<open>Round trips of the fields\<close>

named_theorems proto "reading back the values of a field"

lemma occurs_append [proto]: "occurs n (fs @ gs) = occurs n fs @ occurs n gs"
  by (simp add: occurs_def)

lemma occurs_under [proto]: "occurs n (under m vs) = (if n = m then vs else [])"
  by (induction vs) (auto simp: occurs_def under_def)

lemma occurs_single [proto]: "occurs n [f] = (if fst f = n then [snd f] else [])"
  by (simp add: occurs_def)

lemma field_ok_under [proto]:
  "0 < n \<Longrightarrow> n < 2 ^ 29 \<Longrightarrow> list_all field_ok (under n vs) \<longleftrightarrow> list_all val_ok vs"
  by (simp add: under_def list_all_iff field_ok_def)

lemma field_sized_under [proto]: "list_all field_sized (under n vs) \<longleftrightarrow> list_all val_sized vs"
  by (simp add: under_def list_all_iff field_sized_def)

definition unicode :: "rstr \<Rightarrow> bool" where
  "unicode s \<longleftrightarrow> list_all is_scalar s"

lemma str_trip [proto]: "unicode s \<Longrightarrow> str_of (str_vals s) = Some s"
  by (simp add: str_of_def str_vals_def unicode_def utf8_decode_encode)

lemma bytes_trip [proto]: "bytes_of (bytes_vals b) = Some b"
  by (simp add: bytes_of_def bytes_vals_def)

lemma uint_trip [proto]: "uint_of (uint_vals v) = Some v"
  by (simp add: uint_of_def uint_vals_def)

lemma bool_trip [proto]: "bool_of (bool_vals b) = Some b"
  by (simp add: bool_of_def bool_vals_def uint_trip)

lemma word_trip [proto]: "word_of (uint_vals (unat w)) = Some w"
  by (simp add: word_of_def uint_trip)

lemma int32_trip [proto]: "word_of (int32_vals w) = Some w"
proof -
  have "word_of_nat (unat (scast w :: u64)) = w" by (rule bit_word_eqI) (simp add: bit_simps)
  then show ?thesis by (simp add: word_of_def int32_vals_def uint_trip)
qed

lemma vals_ok [proto]:
  "list_all val_ok (str_vals s)" "list_all val_ok (bytes_vals b)" "list_all val_ok (bool_vals c)"
  "list_all val_ok (uint_vals (unat (w :: u64)))" "list_all val_ok (uint_vals (unat (w' :: u32)))"
  "list_all val_ok (int32_vals i)" "list_all val_ok (msg_vals enc x)" "list_all val_ok (rep_vals enc ms)"
proof -
  have "unat w < 2 ^ 64" "unat w' < 2 ^ 64" "unat (scast i :: u64) < 2 ^ 64"
    using unsigned_less [of w, where 'a = nat] unsigned_less [of w', where 'a = nat]
      unsigned_less [of "scast i :: u64", where 'a = nat] by simp_all
  then show "list_all val_ok (str_vals s)" "list_all val_ok (bytes_vals b)" "list_all val_ok (bool_vals c)"
    "list_all val_ok (uint_vals (unat w))" "list_all val_ok (uint_vals (unat w'))" "list_all val_ok (int32_vals i)"
    "list_all val_ok (msg_vals enc x)" "list_all val_ok (rep_vals enc ms)"
    by (auto simp: str_vals_def bytes_vals_def bool_vals_def uint_vals_def int32_vals_def msg_vals_def rep_vals_def
      val_ok_def list_all_iff split: option.split)
qed

lemma msg_trip [proto]:
  assumes "round_trip ok enc dec" "list_all val_sized (msg_vals enc x)" "case x of Some m \<Rightarrow> ok m | None \<Rightarrow> True"
  shows "msg_of dec (msg_vals enc x) = Some x"
  using assms by (auto simp: msg_of_def msg_vals_def val_sized_def round_tripD split: option.splits)

lemma rep_trip [proto]:
  assumes "round_trip ok enc dec" "list_all val_sized (rep_vals enc ms)" "list_all ok ms"
  shows "rep_of dec (rep_vals enc ms) = Some ms"
proof -
  have "lens (rep_vals enc ms) = Some (map enc ms)" by (induction ms) (simp_all add: rep_vals_def)
  moreover have "those (map (\<lambda>m. dec (enc m)) ms) = Some ms"
    using assms(2,3) by (induction ms) (auto simp: rep_vals_def val_sized_def round_tripD [OF assms(1)])
  ultimately show ?thesis by (simp add: rep_of_def comp_def)
qed

subsection \<open>Maps\<close>

text \<open>
  A map is a repeated message of a key and a value, in the order \<open>ord\<close> in which the hash table is
  visited, which is not specified.
\<close>

type_synonym order = "(rstr, rstr) fmap \<Rightarrow> (rstr \<times> rstr) list"

locale map_order =
  fixes ord :: order
  assumes ord_keys: "distinct (map fst (ord m))"
    and ord_map: "fmap_of_list (ord m) = m"

definition entry_fields :: "rstr \<times> rstr \<Rightarrow> field list" where
  "entry_fields e = under 1 (str_vals (fst e)) @ under 2 (str_vals (snd e))"

definition entry_of :: "field list \<Rightarrow> (rstr \<times> rstr) option" where
  "entry_of fs = Option.bind (str_of (occurs 1 fs)) (\<lambda>k. map_option (\<lambda>v. (k, v)) (str_of (occurs 2 fs)))"

definition map_vals :: "order \<Rightarrow> (rstr, rstr) fmap \<Rightarrow> wval list" where
  "map_vals ord m = rep_vals (encode entry_fields) (ord m)"

definition fmap_of :: "wval list \<Rightarrow> (rstr, rstr) fmap option" where
  "fmap_of vs = map_option (foldl (\<lambda>m (k, v). fmupd k v m) fmempty) (rep_of (decode entry_of) vs)"

definition map_text :: "(rstr, rstr) fmap \<Rightarrow> bool" where
  "map_text m \<longleftrightarrow> fmpred (\<lambda>k v. unicode k \<and> unicode v) m"

lemma entry_trip: "round_trip (\<lambda>e. unicode (fst e) \<and> unicode (snd e)) (encode entry_fields) (decode entry_of)"
  by (rule round_tripI) (simp_all add: entry_fields_def entry_of_def proto)

lemma lookup_foldl_fmupd:
  assumes "distinct (map fst xs)"
  shows "fmlookup (foldl (\<lambda>m (k, v). fmupd k v m) m0 xs) k =
    (case map_of xs k of Some v \<Rightarrow> Some v | None \<Rightarrow> fmlookup m0 k)"
  using assms
proof (induction xs arbitrary: m0)
  case (Cons x xs)
  obtain a b where x: "x = (a, b)" by (rule prod.exhaust)
  then have "map_of xs a = None" using Cons.prems by (simp add: map_of_eq_None_iff)
  then show ?case using Cons by (auto simp: x split: option.split)
qed simp

context map_order
begin

lemma ord_text: "map_text m \<Longrightarrow> list_all (\<lambda>e. unicode (fst e) \<and> unicode (snd e)) (ord m)"
proof -
  assume m: "map_text m"
  have "fmlookup m k = Some v" if "(k, v) \<in> set (ord m)" for k v
    using that ord_keys [of m] ord_map [of m] by (metis fmlookup_of_list map_of_is_SomeI)
  then show ?thesis using m unfolding map_text_def list_all_iff fmpred_iff by fastforce
qed

lemma map_trip [proto]:
  assumes "map_text m" "list_all val_sized (map_vals ord m)"
  shows "fmap_of (map_vals ord m) = Some m"
proof -
  have "rep_of (decode entry_of) (map_vals ord m) = Some (ord m)"
    using rep_trip [OF entry_trip _ ord_text [OF assms(1)]] assms(2) by (simp add: map_vals_def)
  moreover have "foldl (\<lambda>m (k, v). fmupd k v m) fmempty (ord m) = fmap_of_list (ord m)"
    by (rule fmap_ext) (simp add: lookup_foldl_fmupd [OF ord_keys] fmlookup_of_list split: option.split)
  ultimately show ?thesis by (simp add: fmap_of_def ord_map)
qed

end

lemma map_vals_ok [proto]: "list_all val_ok (map_vals ord m)"
  by (simp add: map_vals_def vals_ok)

end
