(* ===== verification/Wire.thy ===== *)
theory Wire
  imports Discovery ActiveUsers Protobuf "HOL-Library.Monad_Syntax" "HOL-Library.List_Lexorder"
begin

text \<open>
  The messages of \<open>prost/\<close> that travel, as records, and the predicate that their strings are strings of
  Rust, that is of Unicode scalar values. The library \<open>prost\<close>, which encodes and decodes them, is a
  parameter of the theory \<open>Grpc\<close>; the rest of this theory builds one instance of that parameter, after
  the documentation of the format, with the fields the attributes of the messages give (\<open>tag\<close> is the
  number of a field).
\<close>

subsection \<open>Messages of the topology\<close>

record SubscribeRequest =
  sq_cluster_name :: "ClusterName option"
  sq_subscribe_id :: "SubscribeId option"
  sq_force :: bool

record GetTopologyRequest =
  gt_locations :: "DBLocation list"
  gt_label :: "(rstr, rstr) fmap"

record Response =
  resp_status :: "32 word"
  resp_message :: rstr
  resp_payload :: "Payload option"

datatype PacketType = Unspecified | ActiveUser

definition packet_type_as_str_name :: "PacketType \<Rightarrow> string" where
  "packet_type_as_str_name t =
     (case t of Unspecified \<Rightarrow> ''PACKET_TYPE_UNSPECIFIED'' | ActiveUser \<Rightarrow> ''PACKET_TYPE_ACTIVE_USER'')"

definition packet_type_from_str_name :: "string \<Rightarrow> PacketType option" where
  "packet_type_from_str_name s =
     (if s = ''PACKET_TYPE_UNSPECIFIED'' then Some Unspecified
      else if s = ''PACKET_TYPE_ACTIVE_USER'' then Some ActiveUser else None)"

lemma packet_type_names: "packet_type_from_str_name s = Some t \<longleftrightarrow> s = packet_type_as_str_name t"
  by (cases t) (auto simp: packet_type_from_str_name_def packet_type_as_str_name_def)

subsection \<open>Names and places\<close>

definition SubscribeId_fields :: "SubscribeId \<Rightarrow> field list" where
  "SubscribeId_fields m = under 1 (str_vals (si_id m)) @ under 2 (str_vals (si_namespace m)) @ under 3 (str_vals (si_name m))"

definition SubscribeId_of :: "field list \<Rightarrow> SubscribeId option" where
  "SubscribeId_of fs = do {
     id' \<leftarrow> str_of (occurs 1 fs);
     namespace \<leftarrow> str_of (occurs 2 fs);
     name \<leftarrow> str_of (occurs 3 fs);
     Some \<lparr>si_id = id', si_namespace = namespace, si_name = name\<rparr>
   }"

definition SubscribeId_text :: "SubscribeId \<Rightarrow> bool" where
  "SubscribeId_text m \<longleftrightarrow> unicode (si_id m) \<and> unicode (si_namespace m) \<and> unicode (si_name m)"

definition ClusterName_fields :: "ClusterName \<Rightarrow> field list" where
  "ClusterName_fields m = under 1 (str_vals (cn_namespace m)) @ under 2 (str_vals (cn_cluster_name m))"

definition ClusterName_of :: "field list \<Rightarrow> ClusterName option" where
  "ClusterName_of fs = do {
     namespace \<leftarrow> str_of (occurs 1 fs);
     cluster_name \<leftarrow> str_of (occurs 2 fs);
     Some \<lparr>cn_namespace = namespace, cn_cluster_name = cluster_name\<rparr>
   }"

definition ClusterName_text :: "ClusterName \<Rightarrow> bool" where
  "ClusterName_text m \<longleftrightarrow> unicode (cn_namespace m) \<and> unicode (cn_cluster_name m)"

definition DBLocation_fields :: "DBLocation \<Rightarrow> field list" where
  "DBLocation_fields m = under 1 (str_vals (loc_region m)) @ under 2 (str_vals (loc_available_zone m)) @
     under 3 (str_vals (loc_namespace m)) @ under 4 (str_vals (loc_node_name m))"

definition DBLocation_of :: "field list \<Rightarrow> DBLocation option" where
  "DBLocation_of fs = do {
     region \<leftarrow> str_of (occurs 1 fs);
     available_zone \<leftarrow> str_of (occurs 2 fs);
     namespace \<leftarrow> str_of (occurs 3 fs);
     node_name \<leftarrow> str_of (occurs 4 fs);
     Some \<lparr>loc_region = region, loc_available_zone = available_zone, loc_namespace = namespace,
           loc_node_name = node_name\<rparr>
   }"

definition DBLocation_text :: "DBLocation \<Rightarrow> bool" where
  "DBLocation_text m \<longleftrightarrow> unicode (loc_region m) \<and> unicode (loc_available_zone m) \<and> unicode (loc_namespace m) \<and>
     unicode (loc_node_name m)"

definition TenantKey_fields :: "TenantKey \<Rightarrow> field list" where
  "TenantKey_fields m = under 1 (str_vals (tk_region m)) @ under 2 (str_vals (tk_available_zone m)) @
     under 3 (str_vals (tk_namespace m)) @ under 4 (str_vals (tk_cluster_name m))"

definition TenantKey_of :: "field list \<Rightarrow> TenantKey option" where
  "TenantKey_of fs = do {
     region \<leftarrow> str_of (occurs 1 fs);
     available_zone \<leftarrow> str_of (occurs 2 fs);
     namespace \<leftarrow> str_of (occurs 3 fs);
     cluster_name \<leftarrow> str_of (occurs 4 fs);
     Some \<lparr>tk_region = region, tk_available_zone = available_zone, tk_namespace = namespace,
           tk_cluster_name = cluster_name\<rparr>
   }"

definition TenantKey_text :: "TenantKey \<Rightarrow> bool" where
  "TenantKey_text m \<longleftrightarrow> unicode (tk_region m) \<and> unicode (tk_available_zone m) \<and> unicode (tk_namespace m) \<and>
     unicode (tk_cluster_name m)"

subsection \<open>Services\<close>

definition ServiceExpose_fields :: "ServiceExpose \<Rightarrow> field list" where
  "ServiceExpose_fields m = under 1 (str_vals (se_addr m)) @ under 2 (int32_vals (se_port m))"

definition ServiceExpose_of :: "field list \<Rightarrow> ServiceExpose option" where
  "ServiceExpose_of fs = do {
     addr \<leftarrow> str_of (occurs 1 fs);
     port \<leftarrow> word_of (occurs 2 fs);
     Some \<lparr>se_addr = addr, se_port = port\<rparr>
   }"

definition Endpoint_fields :: "Endpoint \<Rightarrow> field list" where
  "Endpoint_fields m = under 1 (str_vals (ep_address m)) @ under 2 (str_vals (ep_port_name m)) @
     under 3 (int32_vals (ep_port m))"

definition Endpoint_of :: "field list \<Rightarrow> Endpoint option" where
  "Endpoint_of fs = do {
     address \<leftarrow> str_of (occurs 1 fs);
     port_name \<leftarrow> str_of (occurs 2 fs);
     port \<leftarrow> word_of (occurs 3 fs);
     Some \<lparr>ep_address = address, ep_port_name = port_name, ep_port = port\<rparr>
   }"

definition Endpoint_text :: "Endpoint \<Rightarrow> bool" where
  "Endpoint_text m \<longleftrightarrow> unicode (ep_address m) \<and> unicode (ep_port_name m)"

definition ServiceSecrets_fields :: "ServiceSecrets \<Rightarrow> field list" where
  "ServiceSecrets_fields m = under 1 (str_vals (sec_user m)) @ under 2 (str_vals (sec_password m))"

definition ServiceSecrets_of :: "field list \<Rightarrow> ServiceSecrets option" where
  "ServiceSecrets_of fs = do {
     user \<leftarrow> str_of (occurs 1 fs);
     password \<leftarrow> str_of (occurs 2 fs);
     Some \<lparr>sec_user = user, sec_password = password\<rparr>
   }"

definition ServiceSecrets_text :: "ServiceSecrets \<Rightarrow> bool" where
  "ServiceSecrets_text m \<longleftrightarrow> unicode (sec_user m) \<and> unicode (sec_password m)"

text \<open>A predicate of the message in an optional field.\<close>

definition opt_ok :: "('m \<Rightarrow> bool) \<Rightarrow> 'm option \<Rightarrow> bool" where
  "opt_ok ok x \<longleftrightarrow> (case x of Some m \<Rightarrow> ok m | None \<Rightarrow> True)"

definition DBService_fields :: "order \<Rightarrow> DBService \<Rightarrow> field list" where
  "DBService_fields ord m =
     under 1 (msg_vals (encode DBLocation_fields) (svc_location m)) @
     under 2 (str_vals (svc_cluster m)) @
     under 3 (str_vals (svc_service m)) @
     under 4 (int32_vals (svc_status m)) @
     under 5 (msg_vals (encode ServiceExpose_fields) (svc_expose m)) @
     under 6 (msg_vals (encode ServiceSecrets_fields) (svc_secrets m)) @
     under 7 (rep_vals (encode Endpoint_fields) (svc_endpoints m)) @
     under 8 (map_vals ord (svc_payload m))"

definition DBService_of :: "field list \<Rightarrow> DBService option" where
  "DBService_of fs = do {
     location \<leftarrow> msg_of (decode DBLocation_of) (occurs 1 fs);
     cluster \<leftarrow> str_of (occurs 2 fs);
     service \<leftarrow> str_of (occurs 3 fs);
     status \<leftarrow> word_of (occurs 4 fs);
     expose \<leftarrow> msg_of (decode ServiceExpose_of) (occurs 5 fs);
     secrets \<leftarrow> msg_of (decode ServiceSecrets_of) (occurs 6 fs);
     endpoints \<leftarrow> rep_of (decode Endpoint_of) (occurs 7 fs);
     payload \<leftarrow> fmap_of (occurs 8 fs);
     Some \<lparr>svc_location = location, svc_cluster = cluster, svc_service = service, svc_status = status,
           svc_expose = expose, svc_secrets = secrets, svc_endpoints = endpoints, svc_payload = payload\<rparr>
   }"

definition DBService_text :: "DBService \<Rightarrow> bool" where
  "DBService_text m \<longleftrightarrow> opt_ok DBLocation_text (svc_location m) \<and> unicode (svc_cluster m) \<and> unicode (svc_service m) \<and>
     opt_ok (\<lambda>e. unicode (se_addr e)) (svc_expose m) \<and> opt_ok ServiceSecrets_text (svc_secrets m) \<and>
     list_all Endpoint_text (svc_endpoints m) \<and> map_text (svc_payload m)"

definition DBServiceList_fields :: "order \<Rightarrow> DBServiceList \<Rightarrow> field list" where
  "DBServiceList_fields ord m = under 1 (rep_vals (encode (DBService_fields ord)) (sl_service_list m))"

definition DBServiceList_of :: "field list \<Rightarrow> DBServiceList option" where
  "DBServiceList_of fs = do {
     service_list \<leftarrow> rep_of (decode DBService_of) (occurs 1 fs);
     Some \<lparr>sl_service_list = service_list\<rparr>
   }"

text \<open>The time of an event; the message is one of the library \<open>prost_types\<close>.\<close>

definition Timestamp_fields :: "Timestamp \<Rightarrow> field list" where
  "Timestamp_fields m = under 1 (uint_vals (unat (ts_seconds m))) @ under 2 (int32_vals (ts_nanos m))"

definition Timestamp_of :: "field list \<Rightarrow> Timestamp option" where
  "Timestamp_of fs = do {
     seconds \<leftarrow> word_of (occurs 1 fs);
     nanos \<leftarrow> word_of (occurs 2 fs);
     Some \<lparr>ts_seconds = seconds, ts_nanos = nanos\<rparr>
   }"

definition ServiceChangeEvent_fields :: "order \<Rightarrow> ServiceChangeEvent \<Rightarrow> field list" where
  "ServiceChangeEvent_fields ord m =
     under 1 (msg_vals (encode (DBService_fields ord)) (ce_service m)) @
     under 2 (msg_vals (encode Timestamp_fields) (ce_event_timestamp m))"

definition ServiceChangeEvent_of :: "field list \<Rightarrow> ServiceChangeEvent option" where
  "ServiceChangeEvent_of fs = do {
     service \<leftarrow> msg_of (decode DBService_of) (occurs 1 fs);
     event_timestamp \<leftarrow> msg_of (decode Timestamp_of) (occurs 2 fs);
     Some \<lparr>ce_service = service, ce_event_timestamp = event_timestamp\<rparr>
   }"

text \<open>The empty message reads any fields.\<close>

definition unit_fields :: "unit \<Rightarrow> field list" where
  "unit_fields m = []"

definition unit_of :: "field list \<Rightarrow> unit option" where
  "unit_of fs = Some ()"

fun payload_fields :: "order \<Rightarrow> Payload option \<Rightarrow> field list" where
  "payload_fields ord None = []"
| "payload_fields ord (Some (ServiceList l)) = [(3, Len (encode (DBServiceList_fields ord) l))]"
| "payload_fields ord (Some (ChangeEvent e)) = [(4, Len (encode (ServiceChangeEvent_fields ord) e))]"
| "payload_fields ord (Some NoData) = [(5, Len (encode unit_fields ()))]"

definition payload_of :: "field list \<Rightarrow> Payload option option" where
  "payload_of fs = do {
     member \<leftarrow> oneof_of [3, 4, 5] fs;
     case member of
       None \<Rightarrow> Some None
     | Some (n, bs) \<Rightarrow>
         (if n = 3 then map_option (\<lambda>l. Some (ServiceList l)) (decode DBServiceList_of bs)
          else if n = 4 then map_option (\<lambda>e. Some (ChangeEvent e)) (decode ServiceChangeEvent_of bs)
          else map_option (\<lambda>_. Some NoData) (decode unit_of bs))
   }"

definition Response_fields :: "order \<Rightarrow> Response \<Rightarrow> field list" where
  "Response_fields ord m =
     under 1 (int32_vals (resp_status m)) @ under 2 (str_vals (resp_message m)) @ payload_fields ord (resp_payload m)"

definition Response_of :: "field list \<Rightarrow> Response option" where
  "Response_of fs = do {
     status \<leftarrow> word_of (occurs 1 fs);
     message \<leftarrow> str_of (occurs 2 fs);
     payload \<leftarrow> payload_of fs;
     Some \<lparr>resp_status = status, resp_message = message, resp_payload = payload\<rparr>
   }"

fun payload_text :: "Payload option \<Rightarrow> bool" where
  "payload_text (Some (ServiceList l)) \<longleftrightarrow> list_all DBService_text (sl_service_list l)"
| "payload_text (Some (ChangeEvent e)) \<longleftrightarrow> opt_ok DBService_text (ce_service e)"
| "payload_text _ \<longleftrightarrow> True"

definition Response_text :: "Response \<Rightarrow> bool" where
  "Response_text m \<longleftrightarrow> unicode (resp_message m) \<and> payload_text (resp_payload m)"

subsection \<open>Requests\<close>

definition SubscribeRequest_fields :: "SubscribeRequest \<Rightarrow> field list" where
  "SubscribeRequest_fields m =
     under 1 (msg_vals (encode ClusterName_fields) (sq_cluster_name m)) @
     under 2 (msg_vals (encode SubscribeId_fields) (sq_subscribe_id m)) @
     under 3 (bool_vals (sq_force m))"

definition SubscribeRequest_of :: "field list \<Rightarrow> SubscribeRequest option" where
  "SubscribeRequest_of fs = do {
     cluster_name \<leftarrow> msg_of (decode ClusterName_of) (occurs 1 fs);
     subscribe_id \<leftarrow> msg_of (decode SubscribeId_of) (occurs 2 fs);
     force \<leftarrow> bool_of (occurs 3 fs);
     Some \<lparr>sq_cluster_name = cluster_name, sq_subscribe_id = subscribe_id, sq_force = force\<rparr>
   }"

definition SubscribeRequest_text :: "SubscribeRequest \<Rightarrow> bool" where
  "SubscribeRequest_text m \<longleftrightarrow> opt_ok ClusterName_text (sq_cluster_name m) \<and> opt_ok SubscribeId_text (sq_subscribe_id m)"

definition SubscribeNamespaceRequest_fields :: "order \<Rightarrow> SubscribeNamespaceRequest \<Rightarrow> field list" where
  "SubscribeNamespaceRequest_fields ord m =
     under 1 (msg_vals (encode DBLocation_fields) (sr_db_location m)) @
     under 2 (msg_vals (encode SubscribeId_fields) (sr_subscribe_id m)) @
     under 3 (bool_vals (sr_force m)) @
     under 4 (map_vals ord (sr_label m))"

definition SubscribeNamespaceRequest_of :: "field list \<Rightarrow> SubscribeNamespaceRequest option" where
  "SubscribeNamespaceRequest_of fs = do {
     db_location \<leftarrow> msg_of (decode DBLocation_of) (occurs 1 fs);
     subscribe_id \<leftarrow> msg_of (decode SubscribeId_of) (occurs 2 fs);
     force \<leftarrow> bool_of (occurs 3 fs);
     label \<leftarrow> fmap_of (occurs 4 fs);
     Some \<lparr>sr_db_location = db_location, sr_subscribe_id = subscribe_id, sr_force = force, sr_label = label\<rparr>
   }"

definition SubscribeNamespaceRequest_text :: "SubscribeNamespaceRequest \<Rightarrow> bool" where
  "SubscribeNamespaceRequest_text m \<longleftrightarrow> opt_ok DBLocation_text (sr_db_location m) \<and>
     opt_ok SubscribeId_text (sr_subscribe_id m) \<and> map_text (sr_label m)"

definition GetTopologyRequest_fields :: "order \<Rightarrow> GetTopologyRequest \<Rightarrow> field list" where
  "GetTopologyRequest_fields ord m =
     under 1 (rep_vals (encode DBLocation_fields) (gt_locations m)) @ under 2 (map_vals ord (gt_label m))"

definition GetTopologyRequest_of :: "field list \<Rightarrow> GetTopologyRequest option" where
  "GetTopologyRequest_of fs = do {
     locations \<leftarrow> rep_of (decode DBLocation_of) (occurs 1 fs);
     label \<leftarrow> fmap_of (occurs 2 fs);
     Some \<lparr>gt_locations = locations, gt_label = label\<rparr>
   }"

definition GetTopologyRequest_text :: "GetTopologyRequest \<Rightarrow> bool" where
  "GetTopologyRequest_text m \<longleftrightarrow> list_all DBLocation_text (gt_locations m) \<and> map_text (gt_label m)"

subsection \<open>Messages of the control plane\<close>

definition PacketHeader_fields :: "PacketHeader \<Rightarrow> field list" where
  "PacketHeader_fields m =
     under 1 (int32_vals (ph_packet_type m)) @ under 2 (uint_vals (unat (ph_package_count m))) @
     under 3 (uint_vals (unat (ph_size_pre_package m))) @ under 4 (uint_vals (unat (ph_size m)))"

definition PacketHeader_of :: "field list \<Rightarrow> PacketHeader option" where
  "PacketHeader_of fs = do {
     packet_type \<leftarrow> word_of (occurs 1 fs);
     package_count \<leftarrow> word_of (occurs 2 fs);
     size_pre_package \<leftarrow> word_of (occurs 3 fs);
     size' \<leftarrow> word_of (occurs 4 fs);
     Some \<lparr>ph_packet_type = packet_type, ph_package_count = package_count, ph_size_pre_package = size_pre_package,
           ph_size = size'\<rparr>
   }"

definition UserCom_fields :: "UserCom \<Rightarrow> field list" where
  "UserCom_fields m =
     under 1 (msg_vals (encode TenantKey_fields) (uc_cluster m)) @ under 2 (str_vals (uc_user m)) @
     under 3 (bytes_vals (uc_com m)) @ under 4 (uint_vals (unat (uc_com_ts m)))"

definition UserCom_of :: "field list \<Rightarrow> UserCom option" where
  "UserCom_of fs = do {
     cluster \<leftarrow> msg_of (decode TenantKey_of) (occurs 1 fs);
     user \<leftarrow> str_of (occurs 2 fs);
     com \<leftarrow> bytes_of (occurs 3 fs);
     com_ts \<leftarrow> word_of (occurs 4 fs);
     Some \<lparr>uc_cluster = cluster, uc_user = user, uc_com = com, uc_com_ts = com_ts\<rparr>
   }"

definition UserCom_text :: "UserCom \<Rightarrow> bool" where
  "UserCom_text m \<longleftrightarrow> opt_ok TenantKey_text (uc_cluster m) \<and> unicode (uc_user m)"

text \<open>The message \<open>ActiveUsers\<close> is its list, the only member of the \<open>oneof\<close> of a response.\<close>

definition ActiveUsers_fields :: "UserCom list \<Rightarrow> field list" where
  "ActiveUsers_fields m = under 1 (rep_vals (encode UserCom_fields) m)"

definition ActiveUsers_of :: "field list \<Rightarrow> UserCom list option" where
  "ActiveUsers_of fs = rep_of (decode UserCom_of) (occurs 1 fs)"

definition ControlPlaneResponse_fields :: "ControlPlaneResponse \<Rightarrow> field list" where
  "ControlPlaneResponse_fields m =
     under 1 (msg_vals (encode PacketHeader_fields) (cpr_header m)) @
     under 3 (msg_vals (encode ActiveUsers_fields) (cpr_packet_data m))"

definition ControlPlaneResponse_of :: "field list \<Rightarrow> ControlPlaneResponse option" where
  "ControlPlaneResponse_of fs = do {
     header \<leftarrow> msg_of (decode PacketHeader_of) (occurs 1 fs);
     packet_data \<leftarrow> msg_of (decode ActiveUsers_of) (occurs 3 fs);
     Some \<lparr>cpr_header = header, cpr_packet_data = packet_data\<rparr>
   }"

definition ControlPlaneResponse_text :: "ControlPlaneResponse \<Rightarrow> bool" where
  "ControlPlaneResponse_text m \<longleftrightarrow> opt_ok (list_all UserCom_text) (cpr_packet_data m)"

subsection \<open>Round trips\<close>

lemmas message_defs = SubscribeId_fields_def SubscribeId_of_def SubscribeId_text_def
  ClusterName_fields_def ClusterName_of_def ClusterName_text_def
  DBLocation_fields_def DBLocation_of_def DBLocation_text_def
  TenantKey_fields_def TenantKey_of_def TenantKey_text_def
  ServiceExpose_fields_def ServiceExpose_of_def Endpoint_fields_def Endpoint_of_def Endpoint_text_def
  ServiceSecrets_fields_def ServiceSecrets_of_def ServiceSecrets_text_def
  Timestamp_fields_def Timestamp_of_def unit_fields_def unit_of_def PacketHeader_fields_def PacketHeader_of_def

lemma SubscribeId_trip: "round_trip SubscribeId_text (encode SubscribeId_fields) (decode SubscribeId_of)"
  by (rule round_tripI) (simp_all add: message_defs proto)

lemma ClusterName_trip: "round_trip ClusterName_text (encode ClusterName_fields) (decode ClusterName_of)"
  by (rule round_tripI) (simp_all add: message_defs proto)

lemma DBLocation_trip: "round_trip DBLocation_text (encode DBLocation_fields) (decode DBLocation_of)"
  by (rule round_tripI) (simp_all add: message_defs proto)

lemma TenantKey_trip: "round_trip TenantKey_text (encode TenantKey_fields) (decode TenantKey_of)"
  by (rule round_tripI) (simp_all add: message_defs proto)

lemma ServiceExpose_trip:
  "round_trip (\<lambda>e. unicode (se_addr e)) (encode ServiceExpose_fields) (decode ServiceExpose_of)"
  by (rule round_tripI) (simp_all add: message_defs proto)

lemma Endpoint_trip: "round_trip Endpoint_text (encode Endpoint_fields) (decode Endpoint_of)"
  by (rule round_tripI) (simp_all add: message_defs proto)

lemma ServiceSecrets_trip: "round_trip ServiceSecrets_text (encode ServiceSecrets_fields) (decode ServiceSecrets_of)"
  by (rule round_tripI) (simp_all add: message_defs proto)

lemma Timestamp_trip: "round_trip (\<lambda>_. True) (encode Timestamp_fields) (decode Timestamp_of)"
  by (rule round_tripI) (simp_all add: message_defs proto)

lemma unit_trip: "round_trip (\<lambda>_. True) (encode unit_fields) (decode unit_of)"
  by (rule round_tripI) (simp_all add: message_defs)

lemma PacketHeader_trip: "round_trip (\<lambda>_. True) (encode PacketHeader_fields) (decode PacketHeader_of)"
  by (rule round_tripI) (simp_all add: message_defs proto)

text \<open>The messages in the fields of other messages.\<close>

lemmas embedded = msg_trip [OF SubscribeId_trip] msg_trip [OF ClusterName_trip] msg_trip [OF DBLocation_trip]
  msg_trip [OF TenantKey_trip] msg_trip [OF ServiceExpose_trip] msg_trip [OF ServiceSecrets_trip]
  msg_trip [OF Timestamp_trip] msg_trip [OF PacketHeader_trip] rep_trip [OF DBLocation_trip] rep_trip [OF Endpoint_trip]

lemma opt_True [simp]: "case x of None \<Rightarrow> True | Some m \<Rightarrow> True"
  by (cases x) simp_all

lemma SubscribeRequest_trip:
  "round_trip SubscribeRequest_text (encode SubscribeRequest_fields) (decode SubscribeRequest_of)"
  by (rule round_tripI)
    (simp_all add: SubscribeRequest_fields_def SubscribeRequest_of_def SubscribeRequest_text_def opt_ok_def proto embedded)

lemma UserCom_trip: "round_trip UserCom_text (encode UserCom_fields) (decode UserCom_of)"
  by (rule round_tripI) (simp_all add: UserCom_fields_def UserCom_of_def UserCom_text_def opt_ok_def proto embedded)

lemma ActiveUsers_trip: "round_trip (list_all UserCom_text) (encode ActiveUsers_fields) (decode ActiveUsers_of)"
  by (rule round_tripI) (simp_all add: ActiveUsers_fields_def ActiveUsers_of_def proto rep_trip [OF UserCom_trip])

lemma ControlPlaneResponse_trip:
  "round_trip ControlPlaneResponse_text (encode ControlPlaneResponse_fields) (decode ControlPlaneResponse_of)"
  by (rule round_tripI)
    (simp_all add: ControlPlaneResponse_fields_def ControlPlaneResponse_of_def ControlPlaneResponse_text_def opt_ok_def
      proto embedded msg_trip [OF ActiveUsers_trip])

lemma payload_fields_proto [proto]:
  "list_all field_ok (payload_fields ord p)"
  "n < 3 \<Longrightarrow> occurs n (payload_fields ord p) = []"
  by (cases "(ord, p)" rule: payload_fields.cases; simp add: field_defs occurs_def)+

context map_order
begin

lemma DBService_trip: "round_trip DBService_text (encode (DBService_fields ord)) (decode DBService_of)"
  by (rule round_tripI) (simp_all add: DBService_fields_def DBService_of_def DBService_text_def opt_ok_def proto embedded)

lemma DBServiceList_trip:
  "round_trip (\<lambda>l. list_all DBService_text (sl_service_list l)) (encode (DBServiceList_fields ord)) (decode DBServiceList_of)"
  by (rule round_tripI)
    (simp_all add: DBServiceList_fields_def DBServiceList_of_def proto rep_trip [OF DBService_trip])

lemma ServiceChangeEvent_trip:
  "round_trip (\<lambda>e. opt_ok DBService_text (ce_service e)) (encode (ServiceChangeEvent_fields ord))
     (decode ServiceChangeEvent_of)"
  by (rule round_tripI)
    (simp_all add: ServiceChangeEvent_fields_def ServiceChangeEvent_of_def opt_ok_def proto embedded
      msg_trip [OF DBService_trip])

lemma SubscribeNamespaceRequest_trip:
  "round_trip SubscribeNamespaceRequest_text (encode (SubscribeNamespaceRequest_fields ord))
     (decode SubscribeNamespaceRequest_of)"
  by (rule round_tripI)
    (simp_all add: SubscribeNamespaceRequest_fields_def SubscribeNamespaceRequest_of_def
      SubscribeNamespaceRequest_text_def opt_ok_def proto embedded)

lemma GetTopologyRequest_trip:
  "round_trip GetTopologyRequest_text (encode (GetTopologyRequest_fields ord)) (decode GetTopologyRequest_of)"
  by (rule round_tripI)
    (simp_all add: GetTopologyRequest_fields_def GetTopologyRequest_of_def GetTopologyRequest_text_def proto embedded)

text \<open>The member of the payload is read back, whatever other fields are around it.\<close>

lemma payload_trip:
  assumes "payload_text p" "list_all field_sized (payload_fields ord p)"
    and "\<And>f. f \<in> set before \<union> set after \<Longrightarrow> fst f \<notin> {3, 4, 5}"
  shows "payload_of (before @ payload_fields ord p @ after) = Some p"
proof -
  have none: "filter (\<lambda>f. fst f \<in> set [3, 4, 5]) fs = []" if "set fs \<subseteq> set before \<union> set after" for fs
    using that assms(3) by (simp add: filter_empty_conv) blast
  have member: "oneof_of [3, 4, 5] (before @ payload_fields ord p @ after) =
      Some (case payload_fields ord p of [(n, Len bs)] \<Rightarrow> Some (n, bs) | _ \<Rightarrow> None)"
    by (cases "(ord, p)" rule: payload_fields.cases)
      (simp_all add: oneof_of_def none [simplified] oneof_step_def)
  show ?thesis
    using assms(1,2) member DBServiceList_trip ServiceChangeEvent_trip unit_trip
    by (cases "(ord, p)" rule: payload_fields.cases) (simp_all add: payload_of_def field_defs round_trip_def)
qed

lemma Response_of_fields:
  assumes "Response_text m" "list_all field_sized (Response_fields ord m)" "list_all (\<lambda>f. fst f \<notin> {1..5}) unknown"
  shows "Response_of (Response_fields ord m @ unknown) = Some m"
proof -
  have others: "occurs n unknown = []" if "n \<in> {1, 2}" for n
    using assms(3) that by (auto simp: occurs_def filter_empty_conv list_all_iff)
  have "payload_of ((under 1 (int32_vals (resp_status m)) @ under 2 (str_vals (resp_message m))) @
      payload_fields ord (resp_payload m) @ unknown) = Some (resp_payload m)"
    by (rule payload_trip)
      (use assms in \<open>auto simp: Response_text_def Response_fields_def under_def list_all_iff\<close>)
  then show ?thesis
    using assms(1) by (simp add: Response_of_def Response_fields_def Response_text_def proto others)
qed

lemma Response_trip: "round_trip Response_text (encode (Response_fields ord)) (decode Response_of)"
proof (rule round_tripI)
  show "list_all field_ok (Response_fields ord m)" for m by (simp add: Response_fields_def proto)
  show "Response_of (Response_fields ord m) = Some m" if "Response_text m" "list_all field_sized (Response_fields ord m)" for m
    using Response_of_fields [OF that, of "[]"] by simp
qed

end

end
