(* ===== verification/Grpc.thy ===== *)
theory Grpc
  imports Wire
begin

text \<open>
  The generated services \<open>prost/topology.rs\<close> and \<open>prost/control_plane.rs\<close>: their clients, the dispatch
  of their servers and the options of both. The libraries \<open>prost\<close> and \<open>tonic\<close> are parameters: a codec for
  every message that reads what it wrote, and an exchange in which a call gives the result of the
  method that serves it. The format of the theory \<open>Wire\<close> is such a codec. What remains is the code's
  own part, the paths of the methods and the choice of the method by the path.
\<close>

subsection \<open>Codecs\<close>

record Status =
  st_code :: nat
  st_message :: string

abbreviation (input) Unknown :: nat where "Unknown \<equiv> 2"
abbreviation (input) Unimplemented :: nat where "Unimplemented \<equiv> 12"
abbreviation (input) Internal :: nat where "Internal \<equiv> 13"

text \<open>A stream of messages and, when it does not end well, the status it ends with.\<close>

type_synonym 'a streaming = "'a list \<times> Status option"

record 'm codec =
  co_enc :: "'m \<Rightarrow> bytes"
  co_dec :: "bytes \<Rightarrow> 'm option"

text \<open>One codec for every message that travels.\<close>

record prost =
  pr_get_topology :: "GetTopologyRequest codec"
  pr_subscribe :: "SubscribeRequest codec"
  pr_namespace :: "SubscribeNamespaceRequest codec"
  pr_response :: "Response codec"
  pr_unit :: "unit codec"
  pr_cp_response :: "ControlPlaneResponse codec"

definition codec_ok :: "('m \<Rightarrow> bool) \<Rightarrow> 'm codec \<Rightarrow> bool" where
  "codec_ok ok c \<longleftrightarrow> round_trip ok (co_enc c) (co_dec c)"

locale prost_spec =
  fixes D :: prost
  assumes get_topology: "codec_ok GetTopologyRequest_text (pr_get_topology D)"
    and subscribe: "codec_ok SubscribeRequest_text (pr_subscribe D)"
    and namespace: "codec_ok SubscribeNamespaceRequest_text (pr_namespace D)"
    and response: "codec_ok Response_text (pr_response D)"
    and empty: "codec_ok (\<lambda>_. True) (pr_unit D)"
    and cp_response: "codec_ok ControlPlaneResponse_text (pr_cp_response D)"

subsection \<open>Exchange\<close>

text \<open>The options of the two ends of a call; the encodings of the compression are numbers.\<close>

record grpc_config =
  gc_accept_compression :: "nat set"
  gc_send_compression :: "nat set"
  gc_max_decoding :: "nat option"
  gc_max_encoding :: "nat option"

definition config_default :: grpc_config where
  "config_default = \<lparr>gc_accept_compression = {}, gc_send_compression = {}, gc_max_decoding = None, gc_max_encoding = None\<rparr>"

text \<open>The end of a client: a channel, the origin of its requests and its options.\<close>

record 'ch grpc =
  gr_channel :: 'ch
  gr_origin :: "string option"
  gr_config :: grpc_config

definition grpc_new :: "'ch \<Rightarrow> 'ch grpc" where
  "grpc_new channel = \<lparr>gr_channel = channel, gr_origin = None, gr_config = config_default\<rparr>"

definition grpc_with_origin :: "'ch \<Rightarrow> string \<Rightarrow> 'ch grpc" where
  "grpc_with_origin channel origin = \<lparr>gr_channel = channel, gr_origin = Some origin, gr_config = config_default\<rparr>"

definition grpc_send_compressed :: "nat \<Rightarrow> 'ch grpc \<Rightarrow> 'ch grpc" where
  "grpc_send_compressed encoding g = g\<lparr>gr_config := (gr_config g)\<lparr>gc_send_compression := {encoding}\<rparr>\<rparr>"

definition grpc_accept_compressed :: "nat \<Rightarrow> 'ch grpc \<Rightarrow> 'ch grpc" where
  "grpc_accept_compressed encoding g =
     g\<lparr>gr_config := (gr_config g)\<lparr>gc_accept_compression := insert encoding (gc_accept_compression (gr_config g))\<rparr>\<rparr>"

definition grpc_max_decoding_message_size :: "nat \<Rightarrow> 'ch grpc \<Rightarrow> 'ch grpc" where
  "grpc_max_decoding_message_size limit g = g\<lparr>gr_config := (gr_config g)\<lparr>gc_max_decoding := Some limit\<rparr>\<rparr>"

definition grpc_max_encoding_message_size :: "nat \<Rightarrow> 'ch grpc \<Rightarrow> 'ch grpc" where
  "grpc_max_encoding_message_size limit g = g\<lparr>gr_config := (gr_config g)\<lparr>gc_max_encoding := Some limit\<rparr>\<rparr>"

text \<open>
  \<open>'rep\<close> is the reply to a request on the wire. \<open>tn_fits\<close> says that a message stays within the limits the
  two sides have by default, of which one is that its length has four bytes; under them a call of a
  served method gives the result of the method, and a call that gets the empty reply with the status
  \<open>Unimplemented\<close> fails with that status.
\<close>

record 'rep tonic =
  tn_fits :: "bytes \<Rightarrow> bool"
  tn_serve_unary :: "grpc_config \<Rightarrow> (bytes \<Rightarrow> Status + bytes) \<Rightarrow> bytes list \<Rightarrow> 'rep"
  tn_serve_streaming :: "grpc_config \<Rightarrow> (bytes list \<Rightarrow> Status + bytes streaming) \<Rightarrow> bytes list \<Rightarrow> 'rep"
  tn_empty_reply :: "nat \<Rightarrow> 'rep"
  tn_call_unary :: "grpc_config \<Rightarrow> (bytes list \<Rightarrow> 'rep) \<Rightarrow> bytes \<Rightarrow> Status + bytes"
  tn_call_streaming :: "grpc_config \<Rightarrow> (bytes list \<Rightarrow> 'rep) \<Rightarrow> bytes list \<Rightarrow> Status + bytes streaming"

locale tonic_spec =
  fixes N :: "'rep tonic"
  assumes small: "tn_fits N w \<Longrightarrow> length w < 2 ^ 32"
    and unary: "tn_fits N w \<Longrightarrow> (\<And>v. f w = Inr v \<Longrightarrow> tn_fits N v) \<Longrightarrow>
      tn_call_unary N config_default (tn_serve_unary N config_default f) w = f w"
    and streaming: "list_all (tn_fits N) ws \<Longrightarrow> (\<And>vs st. g ws = Inr (vs, st) \<Longrightarrow> list_all (tn_fits N) vs) \<Longrightarrow>
      tn_call_streaming N config_default (tn_serve_streaming N config_default g) ws = g ws"
    and empty_unary: "tn_call_unary N config_default (\<lambda>_. tn_empty_reply N code) w =
      Inl \<lparr>st_code = code, st_message = []\<rparr>"
    and empty_streaming: "tn_call_streaming N config_default (\<lambda>_. tn_empty_reply N code) ws =
      Inl \<lparr>st_code = code, st_message = []\<rparr>"

text \<open>A channel is not ready and says why, or carries a request to the server, by its path.\<close>

record 'rep transport =
  tr_not_ready :: "string option"
  tr_send :: "string \<Rightarrow> bytes list \<Rightarrow> 'rep"

abbreviation served_by :: "(string \<Rightarrow> bytes list \<Rightarrow> 'rep) \<Rightarrow> 'rep transport" where
  "served_by server \<equiv> \<lparr>tr_not_ready = None, tr_send = server\<rparr>"

definition grpc_unary :: "'rep tonic \<Rightarrow> 'rep transport grpc \<Rightarrow> string \<Rightarrow> bytes \<Rightarrow> Status + bytes" where
  "grpc_unary N g path w = tn_call_unary N (gr_config g) (tr_send (gr_channel g) path) w"

definition grpc_streaming :: "'rep tonic \<Rightarrow> 'rep transport grpc \<Rightarrow> string \<Rightarrow> bytes list \<Rightarrow> Status + bytes streaming" where
  "grpc_streaming N g path ws = tn_call_streaming N (gr_config g) (tr_send (gr_channel g) path) ws"

definition when_ready :: "'rep transport grpc \<Rightarrow> Status + 'b \<Rightarrow> Status + 'b" where
  "when_ready g r =
     (case tr_not_ready (gr_channel g) of
        Some e \<Rightarrow> Inl \<lparr>st_code = Unknown, st_message = ''Service was not ready: '' @ e\<rparr>
      | None \<Rightarrow> r)"

subsection \<open>Encoded methods\<close>

definition decode_error :: Status where
  "decode_error = \<lparr>st_code = Internal, st_message = ''failed to decode''\<rparr>"

definition coded :: "'a codec \<Rightarrow> 'b codec \<Rightarrow> ('a \<Rightarrow> Status + 'b) \<Rightarrow> bytes \<Rightarrow> Status + bytes" where
  "coded c c' f w = (case co_dec c w of None \<Rightarrow> Inl decode_error | Some m \<Rightarrow> map_sum id (co_enc c') (f m))"

text \<open>A message that cannot be decoded ends its stream.\<close>

fun decode_stream :: "'a codec \<Rightarrow> bytes list \<Rightarrow> Status option \<Rightarrow> 'a streaming" where
  "decode_stream c [] st = ([], st)"
| "decode_stream c (w # ws) st =
     (case co_dec c w of
        None \<Rightarrow> ([], Some decode_error)
      | Some m \<Rightarrow> (case decode_stream c ws st of (ms, st') \<Rightarrow> (m # ms, st')))"

definition coded_stream ::
  "'a codec \<Rightarrow> 'b codec \<Rightarrow> ('a streaming \<Rightarrow> Status + 'b streaming) \<Rightarrow> bytes list \<Rightarrow> Status + bytes streaming" where
  "coded_stream c c' f ws = map_sum id (map_prod (map (co_enc c')) id) (f (decode_stream c ws None))"

text \<open>The client decodes what it gets.\<close>

definition decoded :: "'b codec \<Rightarrow> Status + bytes \<Rightarrow> Status + 'b" where
  "decoded c r =
     (case r of Inl st \<Rightarrow> Inl st | Inr w \<Rightarrow> (case co_dec c w of None \<Rightarrow> Inl decode_error | Some m \<Rightarrow> Inr m))"

definition decoded_stream :: "'b codec \<Rightarrow> Status + bytes streaming \<Rightarrow> Status + 'b streaming" where
  "decoded_stream c r = map_sum id (\<lambda>(ws, st). decode_stream c ws st) r"

subsection \<open>The client of the topology service\<close>

text \<open>Making a channel of an address and putting an interceptor before it are the library's.\<close>

record 'ch TopologyClient =
  tpc_inner :: "'ch grpc"

definition topology_client_new :: "'ch \<Rightarrow> 'ch TopologyClient" where
  "topology_client_new inner = \<lparr>tpc_inner = grpc_new inner\<rparr>"

definition topology_client_connect ::
  "('d \<Rightarrow> 'e + 'p) \<Rightarrow> ('p \<Rightarrow> 'e + 'ch) \<Rightarrow> 'd \<Rightarrow> 'e + 'ch TopologyClient" where
  "topology_client_connect endpoint_new connect dst =
     (case endpoint_new dst of
        Inl e \<Rightarrow> Inl e
      | Inr endpoint \<Rightarrow> map_sum id topology_client_new (connect endpoint))"

definition topology_client_with_origin :: "'ch \<Rightarrow> string \<Rightarrow> 'ch TopologyClient" where
  "topology_client_with_origin inner origin = \<lparr>tpc_inner = grpc_with_origin inner origin\<rparr>"

definition topology_client_with_interceptor :: "('ch \<Rightarrow> 'f \<Rightarrow> 'ch2) \<Rightarrow> 'ch \<Rightarrow> 'f \<Rightarrow> 'ch2 TopologyClient" where
  "topology_client_with_interceptor intercepted inner interceptor = topology_client_new (intercepted inner interceptor)"

definition topology_client_send_compressed :: "nat \<Rightarrow> 'ch TopologyClient \<Rightarrow> 'ch TopologyClient" where
  "topology_client_send_compressed encoding c = c\<lparr>tpc_inner := grpc_send_compressed encoding (tpc_inner c)\<rparr>"

definition topology_client_accept_compressed :: "nat \<Rightarrow> 'ch TopologyClient \<Rightarrow> 'ch TopologyClient" where
  "topology_client_accept_compressed encoding c = c\<lparr>tpc_inner := grpc_accept_compressed encoding (tpc_inner c)\<rparr>"

definition topology_client_max_decoding_message_size :: "nat \<Rightarrow> 'ch TopologyClient \<Rightarrow> 'ch TopologyClient" where
  "topology_client_max_decoding_message_size limit c = c\<lparr>tpc_inner := grpc_max_decoding_message_size limit (tpc_inner c)\<rparr>"

definition topology_client_max_encoding_message_size :: "nat \<Rightarrow> 'ch TopologyClient \<Rightarrow> 'ch TopologyClient" where
  "topology_client_max_encoding_message_size limit c = c\<lparr>tpc_inner := grpc_max_encoding_message_size limit (tpc_inner c)\<rparr>"

definition client_get_topology ::
  "'rep tonic \<Rightarrow> prost \<Rightarrow> 'rep transport TopologyClient \<Rightarrow> GetTopologyRequest \<Rightarrow> Status + Response" where
  "client_get_topology N D c request =
     when_ready (tpc_inner c)
       (decoded (pr_response D) (grpc_unary N (tpc_inner c) ''/topology.Topology/GetTopology'' (co_enc (pr_get_topology D) request)))"

definition client_subscribe ::
  "'rep tonic \<Rightarrow> prost \<Rightarrow> 'rep transport TopologyClient \<Rightarrow> SubscribeRequest list \<Rightarrow> Status + Response streaming" where
  "client_subscribe N D c requests =
     when_ready (tpc_inner c)
       (decoded_stream (pr_response D)
         (grpc_streaming N (tpc_inner c) ''/topology.Topology/Subscribe'' (map (co_enc (pr_subscribe D)) requests)))"

definition client_cancel_subscribe ::
  "'rep tonic \<Rightarrow> prost \<Rightarrow> 'rep transport TopologyClient \<Rightarrow> SubscribeRequest \<Rightarrow> Status + Response" where
  "client_cancel_subscribe N D c request =
     when_ready (tpc_inner c)
       (decoded (pr_response D) (grpc_unary N (tpc_inner c) ''/topology.Topology/CancelSubscribe'' (co_enc (pr_subscribe D) request)))"

definition client_subscribe_namespace ::
  "'rep tonic \<Rightarrow> prost \<Rightarrow> 'rep transport TopologyClient \<Rightarrow> SubscribeNamespaceRequest list \<Rightarrow> Status + Response streaming" where
  "client_subscribe_namespace N D c requests =
     when_ready (tpc_inner c)
       (decoded_stream (pr_response D)
         (grpc_streaming N (tpc_inner c) ''/topology.Topology/SubscribeNamespace'' (map (co_enc (pr_namespace D)) requests)))"

definition client_cancel_subscribe_namespace ::
  "'rep tonic \<Rightarrow> prost \<Rightarrow> 'rep transport TopologyClient \<Rightarrow> SubscribeNamespaceRequest \<Rightarrow> Status + Response" where
  "client_cancel_subscribe_namespace N D c request =
     when_ready (tpc_inner c)
       (decoded (pr_response D) (grpc_unary N (tpc_inner c) ''/topology.Topology/CancelSubscribeNamespace'' (co_enc (pr_namespace D) request)))"

subsection \<open>The server of the topology service\<close>

text \<open>The methods of the trait \<open>Topology\<close>.\<close>

record Topology =
  tp_get_topology :: "GetTopologyRequest \<Rightarrow> Status + Response"
  tp_subscribe :: "SubscribeRequest streaming \<Rightarrow> Status + Response streaming"
  tp_cancel_subscribe :: "SubscribeRequest \<Rightarrow> Status + Response"
  tp_subscribe_namespace :: "SubscribeNamespaceRequest streaming \<Rightarrow> Status + Response streaming"
  tp_cancel_subscribe_namespace :: "SubscribeNamespaceRequest \<Rightarrow> Status + Response"

record 'i TopologyServer =
  tps_inner :: 'i
  tps_accept_compression_encodings :: "nat set"
  tps_send_compression_encodings :: "nat set"
  tps_max_decoding_message_size :: "nat option"
  tps_max_encoding_message_size :: "nat option"

definition topology_server_from_arc :: "'i \<Rightarrow> 'i TopologyServer" where
  "topology_server_from_arc inner =
     \<lparr>tps_inner = inner, tps_accept_compression_encodings = {}, tps_send_compression_encodings = {},
      tps_max_decoding_message_size = None, tps_max_encoding_message_size = None\<rparr>"

definition topology_server_new :: "'i \<Rightarrow> 'i TopologyServer" where
  "topology_server_new inner = topology_server_from_arc inner"

definition topology_server_with_interceptor :: "('i TopologyServer \<Rightarrow> 'f \<Rightarrow> 's) \<Rightarrow> 'i \<Rightarrow> 'f \<Rightarrow> 's" where
  "topology_server_with_interceptor intercepted inner interceptor = intercepted (topology_server_new inner) interceptor"

definition topology_server_accept_compressed :: "nat \<Rightarrow> 'i TopologyServer \<Rightarrow> 'i TopologyServer" where
  "topology_server_accept_compressed encoding s =
     s\<lparr>tps_accept_compression_encodings := insert encoding (tps_accept_compression_encodings s)\<rparr>"

definition topology_server_send_compressed :: "nat \<Rightarrow> 'i TopologyServer \<Rightarrow> 'i TopologyServer" where
  "topology_server_send_compressed encoding s =
     s\<lparr>tps_send_compression_encodings := insert encoding (tps_send_compression_encodings s)\<rparr>"

definition topology_server_max_decoding_message_size :: "nat \<Rightarrow> 'i TopologyServer \<Rightarrow> 'i TopologyServer" where
  "topology_server_max_decoding_message_size limit s = s\<lparr>tps_max_decoding_message_size := Some limit\<rparr>"

definition topology_server_max_encoding_message_size :: "nat \<Rightarrow> 'i TopologyServer \<Rightarrow> 'i TopologyServer" where
  "topology_server_max_encoding_message_size limit s = s\<lparr>tps_max_encoding_message_size := Some limit\<rparr>"

definition topology_server_clone :: "'i TopologyServer \<Rightarrow> 'i TopologyServer" where
  "topology_server_clone s =
     \<lparr>tps_inner = tps_inner s, tps_accept_compression_encodings = tps_accept_compression_encodings s,
      tps_send_compression_encodings = tps_send_compression_encodings s,
      tps_max_decoding_message_size = tps_max_decoding_message_size s,
      tps_max_encoding_message_size = tps_max_encoding_message_size s\<rparr>"

text \<open>The options that every arm of the dispatch applies to its exchange.\<close>

definition topology_server_config :: "'i TopologyServer \<Rightarrow> grpc_config" where
  "topology_server_config s =
     \<lparr>gc_accept_compression = tps_accept_compression_encodings s,
      gc_send_compression = tps_send_compression_encodings s,
      gc_max_decoding = tps_max_decoding_message_size s, gc_max_encoding = tps_max_encoding_message_size s\<rparr>"

definition GetTopologySvc :: "'rep tonic \<Rightarrow> prost \<Rightarrow> Topology TopologyServer \<Rightarrow> bytes list \<Rightarrow> 'rep" where
  "GetTopologySvc N D s =
     tn_serve_unary N (topology_server_config s) (coded (pr_get_topology D) (pr_response D) (tp_get_topology (tps_inner s)))"

definition SubscribeSvc :: "'rep tonic \<Rightarrow> prost \<Rightarrow> Topology TopologyServer \<Rightarrow> bytes list \<Rightarrow> 'rep" where
  "SubscribeSvc N D s =
     tn_serve_streaming N (topology_server_config s) (coded_stream (pr_subscribe D) (pr_response D) (tp_subscribe (tps_inner s)))"

definition CancelSubscribeSvc :: "'rep tonic \<Rightarrow> prost \<Rightarrow> Topology TopologyServer \<Rightarrow> bytes list \<Rightarrow> 'rep" where
  "CancelSubscribeSvc N D s =
     tn_serve_unary N (topology_server_config s) (coded (pr_subscribe D) (pr_response D) (tp_cancel_subscribe (tps_inner s)))"

definition SubscribeNamespaceSvc :: "'rep tonic \<Rightarrow> prost \<Rightarrow> Topology TopologyServer \<Rightarrow> bytes list \<Rightarrow> 'rep" where
  "SubscribeNamespaceSvc N D s =
     tn_serve_streaming N (topology_server_config s) (coded_stream (pr_namespace D) (pr_response D) (tp_subscribe_namespace (tps_inner s)))"

definition CancelSubscribeNamespaceSvc :: "'rep tonic \<Rightarrow> prost \<Rightarrow> Topology TopologyServer \<Rightarrow> bytes list \<Rightarrow> 'rep" where
  "CancelSubscribeNamespaceSvc N D s =
     tn_serve_unary N (topology_server_config s) (coded (pr_namespace D) (pr_response D) (tp_cancel_subscribe_namespace (tps_inner s)))"

definition topology_call ::
  "'rep tonic \<Rightarrow> prost \<Rightarrow> Topology TopologyServer \<Rightarrow> string \<Rightarrow> bytes list \<Rightarrow> 'rep" where
  "topology_call N D s path =
     (if path = ''/topology.Topology/GetTopology'' then GetTopologySvc N D s
      else if path = ''/topology.Topology/Subscribe'' then SubscribeSvc N D s
      else if path = ''/topology.Topology/CancelSubscribe'' then CancelSubscribeSvc N D s
      else if path = ''/topology.Topology/SubscribeNamespace'' then SubscribeNamespaceSvc N D s
      else if path = ''/topology.Topology/CancelSubscribeNamespace'' then CancelSubscribeNamespaceSvc N D s
      else (\<lambda>_. tn_empty_reply N Unimplemented))"

definition topology_SERVICE_NAME :: string where
  "topology_SERVICE_NAME = ''topology.Topology''"

subsection \<open>The control-plane service\<close>

record 'ch ControlPlaneServiceClient =
  cpc_inner :: "'ch grpc"

definition cp_client_new :: "'ch \<Rightarrow> 'ch ControlPlaneServiceClient" where
  "cp_client_new inner = \<lparr>cpc_inner = grpc_new inner\<rparr>"

definition cp_client_connect ::
  "('d \<Rightarrow> 'e + 'p) \<Rightarrow> ('p \<Rightarrow> 'e + 'ch) \<Rightarrow> 'd \<Rightarrow> 'e + 'ch ControlPlaneServiceClient" where
  "cp_client_connect endpoint_new connect dst =
     (case endpoint_new dst of
        Inl e \<Rightarrow> Inl e
      | Inr endpoint \<Rightarrow> map_sum id cp_client_new (connect endpoint))"

definition cp_client_with_origin :: "'ch \<Rightarrow> string \<Rightarrow> 'ch ControlPlaneServiceClient" where
  "cp_client_with_origin inner origin = \<lparr>cpc_inner = grpc_with_origin inner origin\<rparr>"

definition cp_client_with_interceptor :: "('ch \<Rightarrow> 'f \<Rightarrow> 'ch2) \<Rightarrow> 'ch \<Rightarrow> 'f \<Rightarrow> 'ch2 ControlPlaneServiceClient" where
  "cp_client_with_interceptor intercepted inner interceptor = cp_client_new (intercepted inner interceptor)"

definition cp_client_send_compressed :: "nat \<Rightarrow> 'ch ControlPlaneServiceClient \<Rightarrow> 'ch ControlPlaneServiceClient" where
  "cp_client_send_compressed encoding c = c\<lparr>cpc_inner := grpc_send_compressed encoding (cpc_inner c)\<rparr>"

definition cp_client_accept_compressed :: "nat \<Rightarrow> 'ch ControlPlaneServiceClient \<Rightarrow> 'ch ControlPlaneServiceClient" where
  "cp_client_accept_compressed encoding c = c\<lparr>cpc_inner := grpc_accept_compressed encoding (cpc_inner c)\<rparr>"

definition cp_client_max_decoding_message_size :: "nat \<Rightarrow> 'ch ControlPlaneServiceClient \<Rightarrow> 'ch ControlPlaneServiceClient" where
  "cp_client_max_decoding_message_size limit c = c\<lparr>cpc_inner := grpc_max_decoding_message_size limit (cpc_inner c)\<rparr>"

definition cp_client_max_encoding_message_size :: "nat \<Rightarrow> 'ch ControlPlaneServiceClient \<Rightarrow> 'ch ControlPlaneServiceClient" where
  "cp_client_max_encoding_message_size limit c = c\<lparr>cpc_inner := grpc_max_encoding_message_size limit (cpc_inner c)\<rparr>"

definition client_active_users ::
  "'rep tonic \<Rightarrow> prost \<Rightarrow> 'rep transport ControlPlaneServiceClient \<Rightarrow> unit list \<Rightarrow>
   Status + ControlPlaneResponse streaming" where
  "client_active_users N D c requests =
     when_ready (cpc_inner c)
       (decoded_stream (pr_cp_response D)
         (grpc_streaming N (cpc_inner c) ''/control_plane.ControlPlaneService/ActiveUsers''
           (map (co_enc (pr_unit D)) requests)))"

type_synonym ControlPlaneService = "unit streaming \<Rightarrow> Status + ControlPlaneResponse streaming"

record 'i ControlPlaneServiceServer =
  cps_inner :: 'i
  cps_accept_compression_encodings :: "nat set"
  cps_send_compression_encodings :: "nat set"
  cps_max_decoding_message_size :: "nat option"
  cps_max_encoding_message_size :: "nat option"

definition cp_server_from_arc :: "'i \<Rightarrow> 'i ControlPlaneServiceServer" where
  "cp_server_from_arc inner =
     \<lparr>cps_inner = inner, cps_accept_compression_encodings = {}, cps_send_compression_encodings = {},
      cps_max_decoding_message_size = None, cps_max_encoding_message_size = None\<rparr>"

definition cp_server_new :: "'i \<Rightarrow> 'i ControlPlaneServiceServer" where
  "cp_server_new inner = cp_server_from_arc inner"

definition cp_server_with_interceptor :: "('i ControlPlaneServiceServer \<Rightarrow> 'f \<Rightarrow> 's) \<Rightarrow> 'i \<Rightarrow> 'f \<Rightarrow> 's" where
  "cp_server_with_interceptor intercepted inner interceptor = intercepted (cp_server_new inner) interceptor"

definition cp_server_accept_compressed :: "nat \<Rightarrow> 'i ControlPlaneServiceServer \<Rightarrow> 'i ControlPlaneServiceServer" where
  "cp_server_accept_compressed encoding s =
     s\<lparr>cps_accept_compression_encodings := insert encoding (cps_accept_compression_encodings s)\<rparr>"

definition cp_server_send_compressed :: "nat \<Rightarrow> 'i ControlPlaneServiceServer \<Rightarrow> 'i ControlPlaneServiceServer" where
  "cp_server_send_compressed encoding s =
     s\<lparr>cps_send_compression_encodings := insert encoding (cps_send_compression_encodings s)\<rparr>"

definition cp_server_max_decoding_message_size :: "nat \<Rightarrow> 'i ControlPlaneServiceServer \<Rightarrow> 'i ControlPlaneServiceServer" where
  "cp_server_max_decoding_message_size limit s = s\<lparr>cps_max_decoding_message_size := Some limit\<rparr>"

definition cp_server_max_encoding_message_size :: "nat \<Rightarrow> 'i ControlPlaneServiceServer \<Rightarrow> 'i ControlPlaneServiceServer" where
  "cp_server_max_encoding_message_size limit s = s\<lparr>cps_max_encoding_message_size := Some limit\<rparr>"

definition cp_server_clone :: "'i ControlPlaneServiceServer \<Rightarrow> 'i ControlPlaneServiceServer" where
  "cp_server_clone s =
     \<lparr>cps_inner = cps_inner s, cps_accept_compression_encodings = cps_accept_compression_encodings s,
      cps_send_compression_encodings = cps_send_compression_encodings s,
      cps_max_decoding_message_size = cps_max_decoding_message_size s,
      cps_max_encoding_message_size = cps_max_encoding_message_size s\<rparr>"

text \<open>The options that every arm of the dispatch applies to its exchange.\<close>

definition cp_server_config :: "'i ControlPlaneServiceServer \<Rightarrow> grpc_config" where
  "cp_server_config s =
     \<lparr>gc_accept_compression = cps_accept_compression_encodings s,
      gc_send_compression = cps_send_compression_encodings s,
      gc_max_decoding = cps_max_decoding_message_size s, gc_max_encoding = cps_max_encoding_message_size s\<rparr>"

definition ActiveUsersSvc ::
  "'rep tonic \<Rightarrow> prost \<Rightarrow> ControlPlaneService ControlPlaneServiceServer \<Rightarrow> bytes list \<Rightarrow> 'rep" where
  "ActiveUsersSvc N D s =
     tn_serve_streaming N (cp_server_config s) (coded_stream (pr_unit D) (pr_cp_response D) (cps_inner s))"

definition control_plane_call ::
  "'rep tonic \<Rightarrow> prost \<Rightarrow> ControlPlaneService ControlPlaneServiceServer \<Rightarrow> string \<Rightarrow> bytes list \<Rightarrow> 'rep" where
  "control_plane_call N D s path =
     (if path = ''/control_plane.ControlPlaneService/ActiveUsers'' then ActiveUsersSvc N D s
      else (\<lambda>_. tn_empty_reply N Unimplemented))"

definition cp_SERVICE_NAME :: string where
  "cp_SERVICE_NAME = ''control_plane.ControlPlaneService''"

text \<open>
  The service of \<open>cp_target.rs\<close>: every item of the stream of requests, the error that may end it
  included, freezes the window and is answered with the batches of its users. No record comes in
  between the requests here.
\<close>

record ControlPlaneServiceImpl =
  cpi_active_users :: UserActivityWindow

definition cp_service_impl_new :: "UserActivityWindow \<Rightarrow> ControlPlaneServiceImpl" where
  "cp_service_impl_new window = \<lparr>cpi_active_users = window\<rparr>"

fun active_users_stream :: "UserActivityWindow \<Rightarrow> 'i list \<Rightarrow> ControlPlaneResponse list" where
  "active_users_stream w [] = []"
| "active_users_stream w (_ # reqs) =
     (case freeze w of (users, w') \<Rightarrow> active_users users @ active_users_stream w' reqs)"

definition stream_items :: "'a streaming \<Rightarrow> (Status + 'a) list" where
  "stream_items s = (case s of (ms, st) \<Rightarrow> map Inr ms @ (case st of Some e \<Rightarrow> [Inl e] | None \<Rightarrow> []))"

definition cp_service :: "ControlPlaneServiceImpl \<Rightarrow> ControlPlaneService" where
  "cp_service i reqs = Inr (active_users_stream (cpi_active_users i) (stream_items reqs), None)"

subsection \<open>A call gives the result of the method\<close>

text \<open>
  The messages of a call, the requests \<open>ms\<close> and the reply \<open>r\<close>, are texts of Rust and stay within the
  limits.
\<close>

definition fits :: "'rep tonic \<Rightarrow> ('m \<Rightarrow> bool) \<Rightarrow> 'm codec \<Rightarrow> 'm list \<Rightarrow> bool" where
  "fits N ok c ms \<longleftrightarrow> list_all (\<lambda>m. ok m \<and> tn_fits N (co_enc c m)) ms"

definition reply_fits :: "'rep tonic \<Rightarrow> ('m \<Rightarrow> bool) \<Rightarrow> 'm codec \<Rightarrow> Status + 'm streaming \<Rightarrow> bool" where
  "reply_fits N ok c r \<longleftrightarrow> (case r of Inr (ms, _) \<Rightarrow> fits N ok c ms | Inl _ \<Rightarrow> True)"

text \<open>The reply to a unary call, as a stream of one message.\<close>

abbreviation single :: "Status + 'b \<Rightarrow> Status + 'b streaming" where
  "single r \<equiv> map_sum id (\<lambda>m. ([m], None)) r"

context tonic_spec
begin

lemma codec_fits:
  assumes "codec_ok ok c" "ok m" "tn_fits N (co_enc c m)"
  shows "co_dec c (co_enc c m) = Some m"
  using round_tripD [OF assms(1) [unfolded codec_ok_def] assms(2)] small [OF assms(3)] by simp

lemma decode_stream_encoded:
  "codec_ok ok c \<Longrightarrow> fits N ok c ms \<Longrightarrow> decode_stream c (map (co_enc c) ms) st = (ms, st)"
  by (induction ms) (simp_all add: fits_def codec_fits)

lemma unary_call:
  assumes c: "codec_ok ok c" "codec_ok ok' c'"
    and f: "fits N ok c [m]" "reply_fits N ok' c' (single (f m))"
  shows "decoded c' (tn_call_unary N config_default (tn_serve_unary N config_default (coded c c' f)) (co_enc c m)) = f m"
proof -
  have m: "co_dec c (co_enc c m) = Some m" using f(1) by (simp add: fits_def codec_fits [OF c(1)])
  have "tn_call_unary N config_default (tn_serve_unary N config_default (coded c c' f)) (co_enc c m) =
      coded c c' f (co_enc c m)"
    by (rule unary) (use m f in \<open>auto simp: fits_def reply_fits_def coded_def map_sum_def split: sum.splits\<close>)
  then show ?thesis
    using m f(2) codec_fits [OF c(2)] by (cases "f m") (simp_all add: decoded_def coded_def reply_fits_def fits_def)
qed

lemma streaming_call:
  assumes c: "codec_ok ok c" "codec_ok ok' c'"
    and f: "fits N ok c ms" "reply_fits N ok' c' (g (ms, None))"
  shows "decoded_stream c' (tn_call_streaming N config_default
      (tn_serve_streaming N config_default (coded_stream c c' g)) (map (co_enc c) ms)) = g (ms, None)"
proof -
  have coded: "coded_stream c c' g (map (co_enc c) ms) = map_sum id (map_prod (map (co_enc c')) id) (g (ms, None))"
    by (simp add: coded_stream_def decode_stream_encoded [OF c(1) f(1)])
  have "tn_call_streaming N config_default (tn_serve_streaming N config_default (coded_stream c c' g)) (map (co_enc c) ms) =
      coded_stream c c' g (map (co_enc c) ms)"
    by (rule streaming)
      (use f in \<open>auto simp: fits_def reply_fits_def coded list_all_iff map_sum_def split: sum.splits\<close>)
  then show ?thesis
    unfolding coded using f(2)
    by (cases "g (ms, None)") (auto simp: decoded_stream_def reply_fits_def decode_stream_encoded [OF c(2)])
qed

end

lemmas default_options = grpc_new_def config_default_def topology_server_new_def topology_server_from_arc_def
  topology_server_config_def cp_server_new_def cp_server_from_arc_def cp_server_config_def
  topology_client_new_def cp_client_new_def

lemma default_configs [simp]:
  "topology_server_config (topology_server_new impl) = config_default"
  "cp_server_config (cp_server_new impl') = config_default"
  "tps_inner (topology_server_new impl) = impl" "cps_inner (cp_server_new impl') = impl'"
  "tpc_inner (topology_client_new ch) = grpc_new ch" "cpc_inner (cp_client_new ch') = grpc_new ch'"
  by (simp_all add: default_options)

lemma grpc_new_calls [simp]:
  "grpc_unary N (grpc_new (served_by server)) path w = tn_call_unary N config_default (server path) w"
  "grpc_streaming N (grpc_new (served_by server)) path ws = tn_call_streaming N config_default (server path) ws"
  "when_ready (grpc_new (served_by server)) r = r"
  by (simp_all add: grpc_unary_def grpc_streaming_def when_ready_def grpc_new_def)

lemmas topology_svcs = topology_call_def GetTopologySvc_def SubscribeSvc_def CancelSubscribeSvc_def
  SubscribeNamespaceSvc_def CancelSubscribeNamespaceSvc_def

lemmas client_methods = client_get_topology_def client_subscribe_def client_cancel_subscribe_def
  client_subscribe_namespace_def client_cancel_subscribe_namespace_def client_active_users_def

text \<open>A client that talks to the server of its service, each made by its \<open>new\<close>.\<close>

abbreviation topology_link :: "'rep tonic \<Rightarrow> prost \<Rightarrow> Topology \<Rightarrow> 'rep transport" where
  "topology_link N D impl \<equiv> served_by (topology_call N D (topology_server_new impl))"

abbreviation control_plane_link :: "'rep tonic \<Rightarrow> prost \<Rightarrow> ControlPlaneService \<Rightarrow> 'rep transport" where
  "control_plane_link N D impl \<equiv> served_by (control_plane_call N D (cp_server_new impl))"

locale service_spec = tonic_spec N + prost_spec D for N :: "'rep tonic" and D :: prost
begin

lemma get_topology_call:
  "fits N GetTopologyRequest_text (pr_get_topology D) [m] \<Longrightarrow>
   reply_fits N Response_text (pr_response D) (single (tp_get_topology impl m)) \<Longrightarrow>
   client_get_topology N D (topology_client_new (topology_link N D impl)) m = tp_get_topology impl m"
  using unary_call [OF get_topology response] by (simp add: client_methods topology_svcs)

lemma subscribe_call:
  "fits N SubscribeRequest_text (pr_subscribe D) ms \<Longrightarrow>
   reply_fits N Response_text (pr_response D) (tp_subscribe impl (ms, None)) \<Longrightarrow>
   client_subscribe N D (topology_client_new (topology_link N D impl)) ms = tp_subscribe impl (ms, None)"
  using streaming_call [OF subscribe response] by (simp add: client_methods topology_svcs)

lemma cancel_subscribe_call:
  "fits N SubscribeRequest_text (pr_subscribe D) [m] \<Longrightarrow>
   reply_fits N Response_text (pr_response D) (single (tp_cancel_subscribe impl m)) \<Longrightarrow>
   client_cancel_subscribe N D (topology_client_new (topology_link N D impl)) m = tp_cancel_subscribe impl m"
  using unary_call [OF subscribe response] by (simp add: client_methods topology_svcs)

lemma subscribe_namespace_call:
  "fits N SubscribeNamespaceRequest_text (pr_namespace D) ms \<Longrightarrow>
   reply_fits N Response_text (pr_response D) (tp_subscribe_namespace impl (ms, None)) \<Longrightarrow>
   client_subscribe_namespace N D (topology_client_new (topology_link N D impl)) ms = tp_subscribe_namespace impl (ms, None)"
  using streaming_call [OF namespace response] by (simp add: client_methods topology_svcs)

lemma cancel_subscribe_namespace_call:
  "fits N SubscribeNamespaceRequest_text (pr_namespace D) [m] \<Longrightarrow>
   reply_fits N Response_text (pr_response D) (single (tp_cancel_subscribe_namespace impl m)) \<Longrightarrow>
   client_cancel_subscribe_namespace N D (topology_client_new (topology_link N D impl)) m =
     tp_cancel_subscribe_namespace impl m"
  using unary_call [OF namespace response] by (simp add: client_methods topology_svcs)

lemma active_users_call:
  "fits N (\<lambda>_. True) (pr_unit D) reqs \<Longrightarrow>
   reply_fits N ControlPlaneResponse_text (pr_cp_response D) (impl (reqs, None)) \<Longrightarrow>
   client_active_users N D (cp_client_new (control_plane_link N D impl)) reqs = impl (reqs, None)"
  using streaming_call [OF empty cp_response] by (simp add: client_methods control_plane_call_def ActiveUsersSvc_def)

text \<open>A path that is no method of the service is unimplemented.\<close>

lemma wrong_service:
  "client_active_users N D (cp_client_new (topology_link N D impl)) reqs =
     Inl \<lparr>st_code = Unimplemented, st_message = []\<rparr>"
  using empty_streaming by (simp add: client_methods topology_call_def decoded_stream_def)

end

text \<open>A control plane whose stream of requests breaks has emptied the window once more.\<close>

lemma active_users_stream_length:
  "length xs = length ys \<Longrightarrow> active_users_stream w xs = active_users_stream w ys"
  by (induction xs ys arbitrary: w rule: list_induct2) (simp_all split: prod.split)

lemma active_users_stream_map [simp]: "active_users_stream w (map f xs) = active_users_stream w xs"
  by (rule active_users_stream_length) simp

lemma cp_service_requests: "cp_service i (reqs, None) = Inr (active_users_stream (cpi_active_users i) reqs, None)"
  by (simp add: cp_service_def stream_items_def)

lemma broken_stream_freezes:
  "cp_service i (reqs, Some e) = cp_service i (reqs @ [()], None)"
  using active_users_stream_length [of "map Inr reqs @ [Inl e]" "reqs @ [()]" "cpi_active_users i"]
  by (simp add: cp_service_def stream_items_def del: map_append)

subsection \<open>A codec and an exchange\<close>

text \<open>
  Instances of the two parameters, which show that their contracts can be met. The codec is the format
  of protocol buffers as it is documented, with the field numbers of the messages, for any order in
  which a hash table is visited; it stands for no code of the repository.
\<close>

definition protobuf :: "order \<Rightarrow> prost" where
  "protobuf ord =
     \<lparr>pr_get_topology = \<lparr>co_enc = encode (GetTopologyRequest_fields ord), co_dec = decode GetTopologyRequest_of\<rparr>,
      pr_subscribe = \<lparr>co_enc = encode SubscribeRequest_fields, co_dec = decode SubscribeRequest_of\<rparr>,
      pr_namespace = \<lparr>co_enc = encode (SubscribeNamespaceRequest_fields ord), co_dec = decode SubscribeNamespaceRequest_of\<rparr>,
      pr_response = \<lparr>co_enc = encode (Response_fields ord), co_dec = decode Response_of\<rparr>,
      pr_unit = \<lparr>co_enc = encode unit_fields, co_dec = decode unit_of\<rparr>,
      pr_cp_response = \<lparr>co_enc = encode ControlPlaneResponse_fields, co_dec = decode ControlPlaneResponse_of\<rparr>\<rparr>"

sublocale map_order \<subseteq> pb: prost_spec "protobuf ord"
  by unfold_locales
    (simp_all add: protobuf_def codec_ok_def GetTopologyRequest_trip SubscribeRequest_trip
      SubscribeNamespaceRequest_trip Response_trip unit_trip ControlPlaneResponse_trip)

interpretation sorted_maps: map_order sorted_list_of_fmap
proof
  show "distinct (map fst (sorted_list_of_fmap m))" for m :: "(rstr, rstr) fmap"
    by (simp add: sorted_list_of_fmap_def comp_def sorted_list_of_fset.rep_eq)
  show "fmap_of_list (sorted_list_of_fmap m) = m" for m :: "(rstr, rstr) fmap"
    by (rule fmap_ext) (simp add: fmlookup_of_list)
qed

text \<open>An exchange that keeps the messages as they are.\<close>

definition tonic_ref :: "(Status + bytes streaming) tonic" where
  "tonic_ref =
     \<lparr>tn_fits = (\<lambda>w. length w < 2 ^ 32),
      tn_serve_unary = (\<lambda>_ f ws. case ws of [w] \<Rightarrow> single (f w) | _ \<Rightarrow> Inl decode_error),
      tn_serve_streaming = (\<lambda>_ g ws. g ws),
      tn_empty_reply = (\<lambda>code. Inl \<lparr>st_code = code, st_message = []\<rparr>),
      tn_call_unary = (\<lambda>_ send w. case send [w] of Inr ([v], _) \<Rightarrow> Inr v | Inr _ \<Rightarrow> Inl decode_error | Inl st \<Rightarrow> Inl st),
      tn_call_streaming = (\<lambda>_ send ws. send ws)\<rparr>"

interpretation tonic_ref: tonic_spec tonic_ref
proof
  show "tn_call_unary tonic_ref config_default (tn_serve_unary tonic_ref config_default f) w = f w" for f w
    by (cases "f w") (simp_all add: tonic_ref_def)
qed (simp_all add: tonic_ref_def)

interpretation services: service_spec tonic_ref "protobuf sorted_list_of_fmap"
  by unfold_locales

end
