(* ===== verification/Build.thy ===== *)
theory Build
  imports Prelude "HOL-Library.Sublist"
begin

text \<open>
  \<open>proxy/build.rs\<close>: the rewriting of the generated sources. Running the protobuf compiler is not
  modelled; the text it generates is the input. The type names of the program (\<open>DBLocation\<close>,
  \<open>DBService\<close>) are the generated ones with another capital.
\<close>

subsection \<open>The script\<close>

text \<open>\<open>str::replace\<close>: the matches are taken from the left and do not overlap.\<close>

function str_replace :: "string \<Rightarrow> string \<Rightarrow> string \<Rightarrow> string" where
  "str_replace pat to s =
     (if pat = [] then s
      else if prefix pat s then to @ str_replace pat to (drop (length pat) s)
      else (case s of [] \<Rightarrow> [] | c # cs \<Rightarrow> c # str_replace pat to cs))"
  by pat_completeness auto
termination
  by (relation "measure (\<lambda>(pat, to, s). length s)") (auto simp: prefix_def)

declare str_replace.simps [simp del]

definition rewrite_proto_file :: "string \<Rightarrow> string" where
  "rewrite_proto_file generate_file =
     str_replace ''DbServiceList'' ''DBServiceList''
       (str_replace ''DbService'' ''DBService''
         (str_replace ''DbLocation'' ''DBLocation'' generate_file))"

text \<open>The files of the protobuf definitions, with the generated files that are rewritten afterwards.\<close>

definition proto_files_rewrite_mapping :: "(string \<times> string list) list" where
  "proto_files_rewrite_mapping =
     [(''control_plane.proto'', []),
      (''common.proto'', []),
      (''topology.proto'', [''common_proto.rs'', ''topology.rs''])]"

definition output_dirs :: "string list" where
  "output_dirs = [''./src/prost/'', ''./src/prost'', ''./src/prost/'']"

text \<open>
  \<open>main\<close>: \<open>mkdir\<close> makes a directory, \<open>compile\<close> runs the generator on a file and changes the generated
  sources of the directory, or fails; a rewritten file that cannot be read panics. The three spellings
  of the directory are one directory, so that a source is known by its file name.
\<close>

type_synonym sources = "string \<Rightarrow> string option"

fun rewrite_files :: "string list \<Rightarrow> sources \<Rightarrow> sources result" where
  "rewrite_files [] gen = Ok gen"
| "rewrite_files (f # fs) gen =
     (case gen f of None \<Rightarrow> Panic | Some text \<Rightarrow> rewrite_files fs (gen(f \<mapsto> rewrite_proto_file text)))"

fun build_protos ::
  "(string \<Rightarrow> unit result) \<Rightarrow> (string \<Rightarrow> sources \<Rightarrow> sources option) \<Rightarrow> ((string \<times> string list) \<times> string) list \<Rightarrow>
   sources \<Rightarrow> sources result" where
  "build_protos mkdir compile [] gen = Ok gen"
| "build_protos mkdir compile (((proto, rewrites), output_dir) # ps) gen =
     rbind (mkdir output_dir) (\<lambda>_.
       case compile (''protos/'' @ proto) gen of
         None \<Rightarrow> Panic
       | Some gen' \<Rightarrow> rbind (rewrite_files rewrites gen') (build_protos mkdir compile ps))"

subsection \<open>Replacing a name by one that does not contain it\<close>

lemma str_replace_prefix:
  "pat \<noteq> [] \<Longrightarrow> str_replace pat to (pat @ s) = to @ str_replace pat to s"
  by (subst str_replace.simps) simp

lemma str_replace_Cons:
  "pat \<noteq> [] \<Longrightarrow> \<not> prefix pat (c # cs) \<Longrightarrow> str_replace pat to (c # cs) = c # str_replace pat to cs"
  by (subst str_replace.simps) simp

lemma str_replace_Nil [simp]: "str_replace pat to [] = []"
  by (subst str_replace.simps) simp

lemma str_replace_absent: "\<not> sublist pat s \<Longrightarrow> str_replace pat to s = s"
proof (induction s)
  case (Cons c cs)
  have "pat \<noteq> []" using Cons.prems by auto
  moreover have "\<not> prefix pat (c # cs)" "\<not> sublist pat cs"
    using Cons.prems by (auto simp: sublist_Cons_right)
  ultimately show ?case using Cons.IH by (simp add: str_replace_Cons)
qed simp

text \<open>
  The names that are replaced start with a capital \<open>D\<close> and have no other, and their replacement has it
  in front too: the output starts with characters other than \<open>D\<close> only where the input does.
\<close>

lemma str_replace_start:
  assumes "hd to = d" "to \<noteq> []" "pat \<noteq> []" "prefix q (str_replace pat to s)" "d \<notin> set q"
  shows "prefix q s"
  using assms(4,5)
proof (induction q arbitrary: s)
  case (Cons x q)
  have "\<not> prefix pat s"
  proof
    assume "prefix pat s"
    then obtain t where "s = pat @ t" by (auto simp: prefix_def)
    then have "prefix (x # q) (to @ str_replace pat to t)" using Cons.prems(1) assms(3) by (simp add: str_replace_prefix)
    then have "x = hd to" using assms(2) by (cases to) auto
    then show False using Cons.prems(2) assms(1) by simp
  qed
  then show ?case
  proof (cases s)
    case Nil
    then show ?thesis using Cons.prems(1) by simp
  next
    case (Cons c cs)
    then have "str_replace pat to s = c # str_replace pat to cs"
      using \<open>\<not> prefix pat s\<close> assms(3) by (simp add: str_replace_Cons)
    then show ?thesis using Cons.IH [of cs] Cons.prems Cons by simp
  qed
qed simp

lemma sublist_skip:
  "d \<notin> set a \<Longrightarrow> sublist (d # r) (a @ b) \<Longrightarrow> sublist (d # r) b"
  by (induction a) (auto simp: sublist_Cons_right)

text \<open>
  A name \<open>d # x # r\<close> with one \<open>d\<close>, and a replacement \<open>d # y # q\<close> with another second character: an occurrence
  of the name in the output is an occurrence in the input that was not replaced.
\<close>

lemma str_replace_occurrence:
  assumes "pat \<noteq> []" "x \<noteq> y" "d \<notin> set (y # q)" "d \<notin> set (x # r)"
    and "sublist (d # x # r) (str_replace pat (d # y # q) s)"
  shows "\<exists>a b. s = a @ (d # x # r) @ b \<and> \<not> prefix pat ((d # x # r) @ b)"
  using assms(5)
proof (induction "length s" arbitrary: s rule: less_induct)
  case less
  let ?p = "d # x # r" and ?out = "str_replace pat (d # y # q)"
  show ?case
  proof (cases "prefix pat s")
    case True
    then obtain t where t: "s = pat @ t" by (auto simp: prefix_def)
    have "sublist ?p ((y # q) @ ?out t)"
      using less.prems assms(1,2) by (simp add: t str_replace_prefix sublist_Cons_right [of ?p d])
    then have "sublist ?p (?out t)" by (rule sublist_skip [OF assms(3)])
    then obtain a b where "t = a @ ?p @ b" "\<not> prefix pat (?p @ b)"
      using less.hyps [of t] assms(1) t by auto
    then show ?thesis using t by (metis append.assoc)
  next
    case False
    then show ?thesis
    proof (cases s)
      case (Cons c cs)
      have out: "?out s = c # ?out cs" using False assms(1) by (simp add: Cons str_replace_Cons)
      show ?thesis
      proof (cases "prefix ?p (?out s)")
        case True
        then have "prefix ?p (c # ?out cs)" unfolding out .
        then have "c = d" "prefix (x # r) (?out cs)" by auto
        then have "prefix (x # r) cs"
          using str_replace_start [of "d # y # q" d pat "x # r" cs] assms(1,4) by simp
        then obtain b where "s = ?p @ b" using Cons \<open>c = d\<close> by (auto simp: prefix_def)
        then show ?thesis using False by (metis append_Nil)
      next
        case nopre: False
        then have "sublist ?p (?out cs)" using less.prems unfolding out sublist_Cons_right by blast
        then obtain a b where "cs = a @ ?p @ b" "\<not> prefix pat (?p @ b)"
          using less.hyps [of cs] Cons by auto
        then show ?thesis using Cons by (metis append_Cons)
      qed
    qed (use less.prems in simp)
  qed
qed

text \<open>
  The third replacement of the script does nothing, the text that is left has none of the generated
  names, and a second run would change nothing.
\<close>

lemma no_DbService: "\<not> sublist ''DbService'' (str_replace ''DbService'' ''DBService'' s)"
proof
  assume "sublist ''DbService'' (str_replace ''DbService'' ''DBService'' s)"
  then show False
    using str_replace_occurrence [of "''DbService''" "CHR ''b''" "CHR ''B''" "CHR ''D''" "''Service''" "''Service''" s]
    by auto
qed

lemma no_DbLocation:
  "\<not> sublist ''DbLocation'' (str_replace ''DbLocation'' ''DBLocation'' s)"
proof
  assume "sublist ''DbLocation'' (str_replace ''DbLocation'' ''DBLocation'' s)"
  then show False
    using str_replace_occurrence [of "''DbLocation''" "CHR ''b''" "CHR ''B''" "CHR ''D''" "''Location''" "''Location''" s]
    by auto
qed

lemma DbLocation_not_made:
  assumes "\<not> sublist ''DbLocation'' s"
  shows "\<not> sublist ''DbLocation'' (str_replace ''DbService'' ''DBService'' s)"
proof
  assume "sublist ''DbLocation'' (str_replace ''DbService'' ''DBService'' s)"
  then obtain a b where "s = a @ ''DbLocation'' @ b"
    using str_replace_occurrence [of "''DbService''" "CHR ''b''" "CHR ''B''" "CHR ''D''" "''Service''" "''Location''" s]
    by auto
  then show False using assms by (auto simp: sublist_def)
qed

lemma rewrite_proto_file_eq:
  "rewrite_proto_file s = str_replace ''DbService'' ''DBService'' (str_replace ''DbLocation'' ''DBLocation'' s)"
proof -
  let ?t = "str_replace ''DbService'' ''DBService'' (str_replace ''DbLocation'' ''DBLocation'' s)"
  have "sublist ''DbService'' ''DbServiceList''" by (auto intro: prefix_imp_sublist)
  then have "\<not> sublist ''DbServiceList'' ?t" using no_DbService sublist_order.order.trans by blast
  then show ?thesis unfolding rewrite_proto_file_def by (rule str_replace_absent)
qed

lemma rewrite_proto_file_idem: "rewrite_proto_file (rewrite_proto_file s) = rewrite_proto_file s"
proof -
  have "\<not> sublist ''DbLocation'' (rewrite_proto_file s)" "\<not> sublist ''DbService'' (rewrite_proto_file s)"
    unfolding rewrite_proto_file_eq using DbLocation_not_made no_DbLocation no_DbService by simp_all
  then show ?thesis unfolding rewrite_proto_file_eq [of "rewrite_proto_file s"] by (simp add: str_replace_absent)
qed

text \<open>When the script succeeds both generated files have been rewritten.\<close>

lemma build_rewrites:
  assumes "build_protos mkdir compile (zip proto_files_rewrite_mapping output_dirs) gen = Ok gen'"
  shows "\<exists>a b. gen' ''common_proto.rs'' = Some (rewrite_proto_file a) \<and> gen' ''topology.rs'' = Some (rewrite_proto_file b)"
  using assms
  by (auto simp: proto_files_rewrite_mapping_def output_dirs_def rbind_Ok_iff split: option.splits)

end
