(* ===== verification/StaticProxy.thy ===== *)
theory StaticProxy
  imports Auth Transparency
begin

text \<open>
  \<open>server/static_proxy.rs\<close> and \<open>server/cmd_handler.rs\<close>: the demonstration server that answers MySQL
  clients itself, with a command handler behind it. The handler is a trait that users implement: a
  record of functions on the handler's state and the packet writer. The loop over the client's packets
  takes as fuel one more than the bytes the client can still deliver.
\<close>

subsection \<open>The command handler\<close>

record 'h cmd_handler =
  kh_auth :: "string \<Rightarrow> bytes \<Rightarrow> bytes \<Rightarrow> bytes \<Rightarrow> ('h, bool) io"
  kh_on_init :: "bytes \<Rightarrow> ('h \<times> packet_writer, unit) io"
  kh_on_prepare :: "bytes \<Rightarrow> ('h \<times> packet_writer, unit) io"
  kh_on_query :: "bytes \<Rightarrow> ('h \<times> packet_writer, unit) io"
  kh_on_execute :: "bytes \<Rightarrow> ('h \<times> packet_writer, unit) io"

record 'h client_conn =
  cc_reader :: packet_reader
  cc_writer :: packet_writer
  cc_handler :: 'h

definition with_writer :: "(packet_writer, 'a) io \<Rightarrow> ('h client_conn, 'a) io" where
  "with_writer f c = (let (res, w) = f (cc_writer c) in (res, c\<lparr>cc_writer := w\<rparr>))"

definition with_reader :: "(packet_reader, 'a) io \<Rightarrow> ('h client_conn, 'a) io" where
  "with_reader f c = (let (res, r) = f (cc_reader c) in (res, c\<lparr>cc_reader := r\<rparr>))"

definition with_handler :: "('h \<times> packet_writer, 'a) io \<Rightarrow> ('h client_conn, 'a) io" where
  "with_handler f c =
     (let (res, h, w) = f (cc_handler c, cc_writer c) in (res, c\<lparr>cc_handler := h, cc_writer := w\<rparr>))"

definition next_seq :: "bool \<Rightarrow> u8 \<Rightarrow> ('h client_conn, unit) io" where
  "next_seq chk seq =
     bind_io (fail_io (add_chk chk seq 1)) (\<lambda>s. with_writer (\<lambda>w. (Ok (), set_seq s w)))"

subsection \<open>Commands\<close>

definition answer_ok :: "byteorder \<Rightarrow> mysql_common \<Rightarrow> u32 \<Rightarrow> u8 \<Rightarrow> ('h client_conn, unit) io" where
  "answer_ok B M client_flags header =
     with_writer (write_ok_packet_with_client_flags B M client_flags (ok_packet_default\<lparr>ok_header := header\<rparr>))"

text \<open>One command; the result says whether the loop goes on.\<close>

definition do_command ::
  "byteorder \<Rightarrow> mysql_common \<Rightarrow> 'h cmd_handler \<Rightarrow> u32 \<Rightarrow> Command iresult \<Rightarrow> ('h client_conn, bool) io" where
  "do_command B M K client_flags cmd_pkt_rs =
     (case cmd_pkt_rs of
        Done _ cmd \<Rightarrow>
          (case cmd of
             Query q \<Rightarrow> bind_io (with_handler (kh_on_query K q)) (\<lambda>_. return_io True)
           | Prepare p \<Rightarrow> bind_io (with_handler (kh_on_prepare K p)) (\<lambda>_. return_io True)
           | Execute stmt params \<Rightarrow> bind_io (with_handler (kh_on_execute K params)) (\<lambda>_. return_io True)
           | SendLongData stmt param data \<Rightarrow> return_io True
           | Close stmt \<Rightarrow> bind_io (answer_ok B M client_flags 0) (\<lambda>_. return_io True)
           | ListFields q \<Rightarrow> bind_io (answer_ok B M client_flags 0xfe) (\<lambda>_. return_io True)
           | Init schema \<Rightarrow> bind_io (with_handler (kh_on_init K schema)) (\<lambda>_. return_io True)
           | Ping \<Rightarrow> bind_io (answer_ok B M client_flags 0) (\<lambda>_. return_io True)
           | Quit \<Rightarrow> return_io False)
      | ParseErr e \<Rightarrow> bind_io (answer_ok B M client_flags 0) (\<lambda>_. return_io True)
      | ParsePanic \<Rightarrow> fail_io Panic)"

fun on_cmd_loop ::
  "winnow \<Rightarrow> Command winnow_partial \<Rightarrow> byteorder \<Rightarrow> mysql_common \<Rightarrow> 'h cmd_handler \<Rightarrow> bool \<Rightarrow> u32 \<Rightarrow> nat \<Rightarrow>
   ('h client_conn, unit) io" where
  "on_cmd_loop W P B M K chk client_flags 0 = fail_io Diverge"
| "on_cmd_loop W P B M K chk client_flags (Suc n) =
     bind_io (with_reader (next_async W chk)) (\<lambda>pkt.
       case pkt of
         None \<Rightarrow> return_io ()
       | Some (seq, cmd_pkt) \<Rightarrow>
           bind_io (next_seq chk seq) (\<lambda>_.
           bind_io (do_command B M K client_flags (from_packet P cmd_pkt)) (\<lambda>continue.
             if continue then on_cmd_loop W P B M K chk client_flags n else return_io ())))"

definition on_cmd ::
  "winnow \<Rightarrow> Command winnow_partial \<Rightarrow> byteorder \<Rightarrow> mysql_common \<Rightarrow> 'h cmd_handler \<Rightarrow> bool \<Rightarrow> u32 \<Rightarrow>
   ('h client_conn, unit) io" where
  "on_cmd W P B M K chk client_flags c =
     on_cmd_loop W P B M K chk client_flags (Suc (reader_size (cc_reader c))) c"

subsection \<open>The handshake\<close>

text \<open>The messages of the errors are modelled without the input they quote at their end.\<close>

fun client_handshake_err :: "'a iresult \<Rightarrow> 'a result" where
  "client_handshake_err (Done i a) = Ok a"
| "client_handshake_err ParsePanic = Panic"
| "client_handshake_err (ParseErr Incomplete) = Err (IoError UnexpectedEof ''backend sent incomplete handshake'')"
| "client_handshake_err (ParseErr (Backtrack k)) =
     (if k = KindEof then Err (IoError UnexpectedEof ''backend did not complete handshake'')
      else Err (IoError InvalidData ''bad backend handshake''))"
| "client_handshake_err (ParseErr (Cut k)) =
     (if k = KindEof then Err (IoError UnexpectedEof ''backend did not complete handshake'')
      else Err (IoError InvalidData ''bad backend handshake''))"

definition auth_pkt_reader :: "winnow \<Rightarrow> bool \<Rightarrow> string \<Rightarrow> ('h client_conn, u8 \<times> bytes) io" where
  "auth_pkt_reader W chk msg =
     bind_io (with_reader (next_async W chk)) (\<lambda>pkt.
       case pkt of
         Some sp \<Rightarrow> return_io sp
       | None \<Rightarrow> fail_io (Err (IoError ConnectionAborted msg)))"

definition static_initial_handshake ::
  "winnow \<Rightarrow> byteorder \<Rightarrow> mysql_common \<Rightarrow> bool \<Rightarrow> bool \<Rightarrow> u64 \<Rightarrow>
   ('h client_conn, bool \<times> HandshakeResponse \<times> u8 \<times> u32) io" where
  "static_initial_handshake W B M chk tls conn_id =
     bind_io (with_writer (write_initial_handshake B M conn_id default_salt DEFAULT_BACKEND_VERSION tls)) (\<lambda>_.
     bind_io (auth_pkt_reader W chk ''peer terminated connection'') (\<lambda>(seq, handshake_pkt).
     bind_io (fail_io (client_handshake_err (client_handshake_response W M handshake_pkt False))) (\<lambda>client_handshake_rsp.
     bind_io (next_seq chk seq) (\<lambda>_.
       let server_capabilities = default_capabilities M in
       return_io (has_cap M (hs_client_flag client_handshake_rsp) CLIENT_SSL, client_handshake_rsp, seq,
                  server_capabilities)))))"

text \<open>The debug format of the user name (a byte vector) and of the plugin name.\<close>

definition debug_bytes :: "bytes \<Rightarrow> string" where
  "debug_bytes bs =
     ''['' @ concat (map (\<lambda>(i, b). (if i = 0 then [] else '', '') @ map char_of (digits (unat b)))
       (enumerate 0 bs)) @ '']''"

definition auth_failed_err :: "bytes \<Rightarrow> string \<Rightarrow> string" where
  "auth_failed_err username desired_plugin =
     ''Authenticate failed, user '' @ debug_bytes username @ '', auth_plugin: '' @
     [char_of (34 :: nat)] @ desired_plugin @ [char_of (34 :: nat)]"

definition switch_method ::
  "winnow \<Rightarrow> byteorder \<Rightarrow> bool \<Rightarrow> string \<Rightarrow> u8 \<Rightarrow> ('h client_conn, u8 \<times> bytes) io" where
  "switch_method W B chk desired_plugin seq =
     bind_io (next_seq chk seq) (\<lambda>_.
     bind_io (with_writer (\<lambda>w. end_packet B (puts [[0xfe], ascii desired_plugin, [0x00], default_salt, [0x00]] w))) (\<lambda>_.
     bind_io (with_writer flush_all) (\<lambda>_.
     auth_pkt_reader W chk ''backend terminated connection'')))"

definition check_user ::
  "winnow \<Rightarrow> byteorder \<Rightarrow> mysql_common \<Rightarrow> 'h cmd_handler \<Rightarrow> bool \<Rightarrow> HandshakeResponse \<Rightarrow> u8 \<Rightarrow> bytes \<Rightarrow>
   ('h client_conn, unit) io" where
  "check_user W B M K chk client_handshake seq username =
     (let desired_plugin = auth_plugin_as_ref AuthNativePassword; auth_rsp = hs_auth_response client_handshake in
      bind_io
        (if desired_plugin \<noteq> '''' \<and> auth_rsp = [] \<and> hs_auth_plugin client_handshake \<noteq> ascii desired_plugin
         then switch_method W B chk desired_plugin seq else return_io (seq, auth_rsp)) (\<lambda>(seq, auth_rsp).
      bind_io (next_seq chk seq) (\<lambda>_.
      bind_io (with_handler (\<lambda>(h, w). let (res, h') = kh_auth K desired_plugin username default_salt auth_rsp h
                                       in (res, h', w))) (\<lambda>auth_rs.
        if \<not> auth_rs then
          bind_io (with_writer (write_err_packet B ER_ACCESS_DENIED_NO_PASSWORD_ERROR
              (ascii (auth_failed_err username desired_plugin)))) (\<lambda>_.
          bind_io (with_writer flush_all) (\<lambda>_.
          fail_io (Err (IoError PermissionDenied (auth_failed_err username desired_plugin)))))
        else
          (case map_option utf8_decode (hs_database client_handshake) of
             Some (Some curr_database) \<Rightarrow> with_handler (kh_on_init K (utf8_encode curr_database))
           | _ \<Rightarrow>
               with_writer (write_ok_packet_with_client_flags B M (hs_client_flag client_handshake)
                 ok_packet_default))))))"

definition respond_client_handshake_rsp ::
  "winnow \<Rightarrow> byteorder \<Rightarrow> mysql_common \<Rightarrow> 'h cmd_handler \<Rightarrow> bool \<Rightarrow> HandshakeResponse \<Rightarrow> u8 \<Rightarrow>
   ('h client_conn, unit) io" where
  "respond_client_handshake_rsp W B M K chk client_handshake seq =
     bind_io
       (if has_cap M (hs_client_flag client_handshake) CLIENT_SSL then
          bind_io (auth_pkt_reader W chk ''backend terminated connection'') (\<lambda>(r_seq, handshake_pkt).
          bind_io (fail_io (client_handshake_err (client_handshake_response W M handshake_pkt True))) (\<lambda>h.
          bind_io (next_seq chk r_seq) (\<lambda>_. return_io (r_seq, h))))
        else return_io (seq, client_handshake)) (\<lambda>(seq, client_handshake).
     if \<not> has_cap M (hs_client_flag client_handshake) CLIENT_PROTOCOL_41 then
       fail_io (Err (IoError ConnectionAborted ''Protocol Incompatibilities. Required: CLIENT_PROTOCOL_41.Please upgrade your mysql backend.''))
     else
       bind_io
         (case hs_username client_handshake of
            Some username \<Rightarrow> check_user W B M K chk client_handshake seq username
          | None \<Rightarrow> return_io ()) (\<lambda>_.
       with_writer flush_all))"

text \<open>The reader of the handshake is wrapped into a new one; the writer starts again at sequence 0.\<close>

definition rewrap :: "('h client_conn, unit) io" where
  "rewrap c =
     (Ok (), c\<lparr>cc_reader := reader_new (stacked_stream (cc_reader c)),
               cc_writer := writer_new (wr_inner (cc_writer c))\<rparr>)"

definition serve_conn ::
  "winnow \<Rightarrow> Command winnow_partial \<Rightarrow> byteorder \<Rightarrow> mysql_common \<Rightarrow> 'h cmd_handler \<Rightarrow> bool \<Rightarrow> u64 \<Rightarrow>
   ('h client_conn, unit) io" where
  "serve_conn W P B M K chk conn_id =
     bind_io (static_initial_handshake W B M chk False conn_id) (\<lambda>(_, handshake, seq, client_flags).
     bind_io rewrap (\<lambda>_.
     bind_io (respond_client_handshake_rsp W B M K chk handshake seq) (\<lambda>_.
     on_cmd W P B M K chk client_flags)))"

definition run ::
  "winnow \<Rightarrow> Command winnow_partial \<Rightarrow> byteorder \<Rightarrow> mysql_common \<Rightarrow> 'h cmd_handler \<Rightarrow> bool \<Rightarrow> stream \<Rightarrow> sink \<Rightarrow> 'h \<Rightarrow>
   unit result \<times> 'h client_conn" where
  "run W P B M K chk inbound outbound h =
     serve_conn W P B M K chk 0
       \<lparr>cc_reader = reader_new inbound, cc_writer = writer_new outbound, cc_handler = h\<rparr>"

text \<open>The accept loop: connections one after the other, numbered; the first error ends it.\<close>

fun on_recv_loop ::
  "winnow \<Rightarrow> Command winnow_partial \<Rightarrow> byteorder \<Rightarrow> mysql_common \<Rightarrow> 'h cmd_handler \<Rightarrow> bool \<Rightarrow> u64 \<Rightarrow>
   (stream \<times> sink \<times> 'h) list \<Rightarrow> unit result \<times> 'h client_conn list" where
  "on_recv_loop W P B M K chk conn_id [] = (Ok (), [])"
| "on_recv_loop W P B M K chk conn_id ((inbound, outbound, h) # conns) =
     (case serve_conn W P B M K chk conn_id
         \<lparr>cc_reader = reader_new inbound, cc_writer = writer_new outbound, cc_handler = h\<rparr> of
        (Ok _, c) \<Rightarrow> (let (res, cs) = on_recv_loop W P B M K chk (conn_id + 1) conns in (res, c # cs))
      | (Err e, c) \<Rightarrow> (Err e, [c])
      | (Panic, c) \<Rightarrow> (Panic, [c])
      | (Diverge, c) \<Rightarrow> (Diverge, [c]))"

subsection \<open>The command loop ends\<close>

definition handler_returns :: "'h cmd_handler \<Rightarrow> bool" where
  "handler_returns K \<longleftrightarrow>
     (\<forall>d x. fst (kh_on_init K d x) \<noteq> Diverge \<and> fst (kh_on_prepare K d x) \<noteq> Diverge \<and>
            fst (kh_on_query K d x) \<noteq> Diverge \<and> fst (kh_on_execute K d x) \<noteq> Diverge)"

text \<open>A step that returns and leaves the reader alone.\<close>

definition reads_nothing :: "('h client_conn, 'a) io \<Rightarrow> bool" where
  "reads_nothing m \<longleftrightarrow> (\<forall>c. fst (m c) \<noteq> Diverge \<and> cc_reader (snd (m c)) = cc_reader c)"

lemma reads_nothing_bind:
  assumes "reads_nothing m" "\<And>a. reads_nothing (f a)"
  shows "reads_nothing (bind_io m f)"
  unfolding reads_nothing_def
proof
  fix c
  show "fst (bind_io m f c) \<noteq> Diverge \<and> cc_reader (snd (bind_io m f c)) = cc_reader c"
  proof (cases "m c")
    case (Pair r c1)
    then have "r \<noteq> Diverge" "cc_reader c1 = cc_reader c"
      using assms(1) [unfolded reads_nothing_def, rule_format, of c] by simp_all
    then show ?thesis using Pair assms(2) by (cases r) (simp_all add: bind_io_def reads_nothing_def)
  qed
qed

lemma reads_nothing_simps [simp]:
  "reads_nothing (return_io a)"
  "res \<noteq> Diverge \<Longrightarrow> reads_nothing (fail_io res)"
  "(\<And>w. fst (f w) \<noteq> Diverge) \<Longrightarrow> reads_nothing (with_writer f)"
  "(\<And>h w. fst (g (h, w)) \<noteq> Diverge) \<Longrightarrow> reads_nothing (with_handler g)"
  by (simp_all add: reads_nothing_def return_io_def fail_io_def with_writer_def with_handler_def case_prod_unfold Let_def)

lemma next_seq_reads_nothing: "reads_nothing (next_seq chk q)"
  unfolding next_seq_def by (intro reads_nothing_bind) (simp_all add: add_chk_def)

lemma answer_ok_reads_nothing: "reads_nothing (answer_ok B M flags hdr)"
  by (simp add: answer_ok_def write_ok_packet_with_client_flags_def end_packet_no_diverge)

lemma do_command_reads_nothing:
  assumes "handler_returns K"
  shows "reads_nothing (do_command B M K flags cmd)"
  using assms unfolding do_command_def handler_returns_def
  by (auto intro!: reads_nothing_bind answer_ok_reads_nothing split: iresult.split Command.split)

context winnow_spec
begin

lemma on_cmd_loop_no_diverge:
  assumes "handler_returns K"
  shows "reader_size (cc_reader c) < n \<Longrightarrow> fst (on_cmd_loop W P B M K chk flags n c) \<noteq> Diverge"
proof (induction n arbitrary: c)
  case (Suc n)
  obtain r r' where r: "next_async W chk (cc_reader c) = (r, r')" by fastforce
  have "r \<noteq> Diverge" using next_async_no_diverge [of chk "cc_reader c"] r by simp
  moreover have "fst (bind_io (next_seq chk q) (\<lambda>_. bind_io (do_command B M K flags (from_packet P p)) (\<lambda>continue.
      if continue then on_cmd_loop W P B M K chk flags n else return_io ())) (c\<lparr>cc_reader := r'\<rparr>)) \<noteq> Diverge"
    if "r = Ok (Some (q, p))" for q p
  proof -
    let ?m = "bind_io (next_seq chk q) (\<lambda>_. do_command B M K flags (from_packet P p))"
    have small: "reader_size r' < n"
      using next_async_size [of chk "cc_reader c" "(q, p)" r'] r that Suc.prems by simp
    have m: "reads_nothing ?m" using assms by (intro reads_nothing_bind next_seq_reads_nothing do_command_reads_nothing)
    have "fst (bind_io ?m (\<lambda>continue. if continue then on_cmd_loop W P B M K chk flags n else return_io ())
        (c\<lparr>cc_reader := r'\<rparr>)) \<noteq> Diverge"
    proof (cases "?m (c\<lparr>cc_reader := r'\<rparr>)")
      case (Pair x c1)
      then have "x \<noteq> Diverge" "cc_reader c1 = r'"
        using m [unfolded reads_nothing_def, rule_format, of "c\<lparr>cc_reader := r'\<rparr>"] by simp_all
      then show ?thesis using Suc.IH [of c1] small Pair by (cases x) (simp_all add: bind_io_def return_io_def)
    qed
    then show ?thesis by (simp add: bind_io_assoc)
  qed
  ultimately show ?case
    using r by (cases r) (auto simp: bind_io_def with_reader_def return_io_def split: option.split)
qed simp

lemma on_cmd_no_diverge: "handler_returns K \<Longrightarrow> fst (on_cmd W P B M K chk flags c) \<noteq> Diverge"
  unfolding on_cmd_def by (rule on_cmd_loop_no_diverge) simp_all

end

subsection \<open>What the client receives\<close>

text \<open>
  The packets one command is answered with, when \<open>A\<close> says what the handler writes for the four
  commands it is asked about. \<open>h_emits\<close> is \<open>emits\<close> for an operation that has the handler's state too.
\<close>

definition h_emits :: "('h \<times> packet_writer, unit) io \<Rightarrow> bytes list \<Rightarrow> bool" where
  "h_emits m ps \<longleftrightarrow> (\<forall>h w. wr_buf w = [] \<and> no_fail (sk_plan (wr_inner w)) \<longrightarrow>
     (\<exists>h' w'. m (h, w) = (Ok (), h', w') \<and> wr_buf w' = [] \<and> no_fail (sk_plan (wr_inner w')) \<and>
        sk_sent (wr_inner w') = sk_sent (wr_inner w) @ wires (wr_seq w) ps))"

definition handler_emits :: "'h cmd_handler \<Rightarrow> (Command \<Rightarrow> bytes list) \<Rightarrow> bool" where
  "handler_emits K A \<longleftrightarrow>
     (\<forall>d st. h_emits (kh_on_query K d) (A (Query d)) \<and> h_emits (kh_on_prepare K d) (A (Prepare d)) \<and>
        h_emits (kh_on_execute K d) (A (Execute st d)) \<and> h_emits (kh_on_init K d) (A (Init d)))"

definition ok_reply :: "byteorder \<Rightarrow> mysql_common \<Rightarrow> u32 \<Rightarrow> u8 \<Rightarrow> bytes list" where
  "ok_reply B M flags header = [concat (ok_fields B M flags (ok_packet_default\<lparr>ok_header := header\<rparr>))]"

fun reply :: "byteorder \<Rightarrow> mysql_common \<Rightarrow> u32 \<Rightarrow> (Command \<Rightarrow> bytes list) \<Rightarrow> Command iresult \<Rightarrow> bytes list" where
  "reply B M flags A (Done i (SendLongData st param d)) = []"
| "reply B M flags A (Done i (Close st)) = ok_reply B M flags 0"
| "reply B M flags A (Done i Ping) = ok_reply B M flags 0"
| "reply B M flags A (Done i (ListFields q)) = ok_reply B M flags 0xfe"
| "reply B M flags A (Done i Quit) = []"
| "reply B M flags A (Done i cmd) = A cmd"
| "reply B M flags A (ParseErr e) = ok_reply B M flags 0"
| "reply B M flags A ParsePanic = []"

definition replies ::
  "byteorder \<Rightarrow> mysql_common \<Rightarrow> Command winnow_partial \<Rightarrow> u32 \<Rightarrow> (Command \<Rightarrow> bytes list) \<Rightarrow> (u8 \<times> bytes) list \<Rightarrow> bytes" where
  "replies B M P flags A reqs = concat (map (\<lambda>(q, p). wires (q + 1) (reply B M flags A (from_packet P p))) reqs)"

fun is_quit :: "Command iresult \<Rightarrow> bool" where
  "is_quit (Done i Quit) = True"
| "is_quit _ = False"

text \<open>\<open>conn_emits m ps a\<close>: \<open>m\<close> returns \<open>a\<close>, has sent the packets \<open>ps\<close> and left the reader alone.\<close>

definition idle_writer :: "packet_writer \<Rightarrow> bool" where
  "idle_writer w \<longleftrightarrow> wr_buf w = [] \<and> no_fail (sk_plan (wr_inner w))"

definition conn_emits :: "('h client_conn, 'a) io \<Rightarrow> bytes list \<Rightarrow> 'a \<Rightarrow> bool" where
  "conn_emits m ps a \<longleftrightarrow> (\<forall>c. idle_writer (cc_writer c) \<longrightarrow>
     (\<exists>c'. m c = (Ok a, c') \<and> idle_writer (cc_writer c') \<and> cc_reader c' = cc_reader c \<and>
        sk_sent (wr_inner (cc_writer c')) = sk_sent (wr_inner (cc_writer c)) @ wires (wr_seq (cc_writer c)) ps))"

lemma conn_emits_return: "conn_emits (return_io a) [] a"
  by (simp add: conn_emits_def return_io_def)

lemma conn_emits_then:
  assumes "conn_emits m ps ()"
  shows "conn_emits (bind_io m (\<lambda>_. return_io a)) ps a"
  using assms unfolding conn_emits_def bind_io_def return_io_def by fastforce

lemma conn_emits_writer:
  assumes "emits m ps"
  shows "conn_emits (with_writer m) ps ()"
  using assms unfolding conn_emits_def emits_def idle_writer_def with_writer_def by fastforce

lemma conn_emits_handler:
  assumes "h_emits m ps"
  shows "conn_emits (with_handler m) ps ()"
  unfolding conn_emits_def
proof (intro allI impI)
  fix c :: "'a client_conn"
  assume "idle_writer (cc_writer c)"
  then obtain h' w' where "m (cc_handler c, cc_writer c) = (Ok (), h', w')" "idle_writer w'"
    "sk_sent (wr_inner w') = sk_sent (wr_inner (cc_writer c)) @ wires (wr_seq (cc_writer c)) ps"
    using assms unfolding h_emits_def idle_writer_def by blast
  then show "\<exists>c'. with_handler m c = (Ok (), c') \<and> idle_writer (cc_writer c') \<and> cc_reader c' = cc_reader c \<and>
      sk_sent (wr_inner (cc_writer c')) = sk_sent (wr_inner (cc_writer c)) @ wires (wr_seq (cc_writer c)) ps"
    by (simp add: with_handler_def)
qed

context protocol_spec
begin

lemma answer_ok_emits: "conn_emits (answer_ok B M flags hdr) (ok_reply B M flags hdr) ()"
  unfolding answer_ok_def ok_reply_def by (intro conn_emits_writer emits_ok_packet_with_client_flags)

lemma do_command_emits:
  assumes "handler_emits K A" "cmd \<noteq> ParsePanic"
  shows "conn_emits (do_command B M K flags cmd) (reply B M flags A cmd) (\<not> is_quit cmd)"
proof (cases cmd)
  case (Done i c)
  then show ?thesis
    using assms(1) unfolding do_command_def handler_emits_def
    by (cases c) (simp_all add: conn_emits_then conn_emits_handler conn_emits_return answer_ok_emits)
qed (use assms(2) in \<open>simp_all add: do_command_def conn_emits_then answer_ok_emits\<close>)

lemma on_cmd_loop_step:
  assumes "handler_emits K A" "delivers (cc_reader c) ((q, p) # ps)" "idle_writer (cc_writer c)"
    and "chk \<longrightarrow> q \<noteq> 255" "from_packet P p \<noteq> ParsePanic"
  obtains c' where "on_cmd_loop W P B M K chk flags (Suc n) c =
      (if is_quit (from_packet P p) then (Ok (), c') else on_cmd_loop W P B M K chk flags n c')"
    "delivers (cc_reader c') ps" "idle_writer (cc_writer c')"
    "sk_sent (wr_inner (cc_writer c')) =
       sk_sent (wr_inner (cc_writer c)) @ wires (q + 1) (reply B M flags A (from_packet P p))"
proof -
  obtain r where r: "next_async W chk (cc_reader c) = (Ok (Some (q, p)), r)" "delivers r ps"
    by (rule next_async_delivers [OF assms(2)])
  let ?c = "c\<lparr>cc_reader := r, cc_writer := set_seq (q + 1) (cc_writer c)\<rparr>"
  have "add_chk chk q 1 = Ok (q + 1)" using assms(4) by (rule add_chk_one)
  then have seq: "next_seq chk q (c\<lparr>cc_reader := r\<rparr>) = (Ok (), ?c)"
    by (simp add: next_seq_def bind_io_def fail_io_def with_writer_def)
  have "idle_writer (cc_writer ?c)" using assms(3) by (simp add: idle_writer_def set_seq_def)
  then obtain c' where c': "do_command B M K flags (from_packet P p) ?c = (Ok (\<not> is_quit (from_packet P p)), c')"
    "idle_writer (cc_writer c')" "cc_reader c' = r"
    "sk_sent (wr_inner (cc_writer c')) =
       sk_sent (wr_inner (cc_writer c)) @ wires (q + 1) (reply B M flags A (from_packet P p))"
    using do_command_emits [OF assms(1,5), of flags] unfolding conn_emits_def
    by (fastforce simp: set_seq_def)
  show thesis
  proof
    show "on_cmd_loop W P B M K chk flags (Suc n) c =
      (if is_quit (from_packet P p) then (Ok (), c') else on_cmd_loop W P B M K chk flags n c')"
      using r(1) seq c'(1) by (simp add: bind_io_def with_reader_def return_io_def)
  qed (use c' r(2) in simp_all)
qed

lemma on_cmd_loop_served:
  assumes "handler_emits K A" "list_all (\<lambda>(q, p). (chk \<longrightarrow> q \<noteq> 255) \<and> from_packet P p \<noteq> ParsePanic) (reqs @ [(q, p)])"
    and "list_all (\<lambda>(q, p). \<not> is_quit (from_packet P p)) reqs" "is_quit (from_packet P p)"
  shows "delivers (cc_reader c) (reqs @ (q, p) # rest) \<Longrightarrow> idle_writer (cc_writer c) \<Longrightarrow> length reqs < n \<Longrightarrow>
    \<exists>c'. on_cmd_loop W P B M K chk flags n c = (Ok (), c') \<and> delivers (cc_reader c') rest \<and>
      sk_sent (wr_inner (cc_writer c')) = sk_sent (wr_inner (cc_writer c)) @ replies B M P flags A reqs"
  using assms(2,3)
proof (induction reqs arbitrary: c n)
  case Nil
  then obtain n' where n: "n = Suc n'" by (cases n) auto
  have r: "reply B M flags A (from_packet P p) = []" using assms(4) by (cases "from_packet P p" rule: is_quit.cases) auto
  have d: "delivers (cc_reader c) ((q, p) # rest)" "chk \<longrightarrow> q \<noteq> 255" "from_packet P p \<noteq> ParsePanic"
    using Nil.prems by simp_all
  show ?case
    by (rule on_cmd_loop_step [OF assms(1) d(1) Nil.prems(2) d(2,3), of flags n'])
      (use assms(4) in \<open>simp add: n r replies_def\<close>)
next
  case (Cons a reqs)
  obtain qa pa n' where a: "a = (qa, pa)" "n = Suc n'" using Cons.prems by (cases a; cases n) auto
  have d: "delivers (cc_reader c) ((qa, pa) # reqs @ (q, p) # rest)" "chk \<longrightarrow> qa \<noteq> 255"
    "from_packet P pa \<noteq> ParsePanic" "\<not> is_quit (from_packet P pa)"
    using Cons.prems a by simp_all
  obtain c' where c': "on_cmd_loop W P B M K chk flags n c = on_cmd_loop W P B M K chk flags n' c'"
    "delivers (cc_reader c') (reqs @ (q, p) # rest)" "idle_writer (cc_writer c')"
    "sk_sent (wr_inner (cc_writer c')) =
       sk_sent (wr_inner (cc_writer c)) @ wires (qa + 1) (reply B M flags A (from_packet P pa))"
    by (rule on_cmd_loop_step [OF assms(1) d(1) Cons.prems(2) d(2,3), of flags n']) (use d(4) in \<open>simp add: a(2)\<close>)
  have "\<exists>c''. on_cmd_loop W P B M K chk flags n' c' = (Ok (), c'') \<and> delivers (cc_reader c'') rest \<and>
      sk_sent (wr_inner (cc_writer c'')) = sk_sent (wr_inner (cc_writer c')) @ replies B M P flags A reqs"
    by (rule Cons.IH [OF c'(2,3)]) (use Cons.prems a in simp_all)
  then show ?case using c'(1,4) a(1) by (auto simp: replies_def)
qed

lemma on_cmd_served:
  assumes "handler_emits K A" "list_all (\<lambda>(q, p). (chk \<longrightarrow> q \<noteq> 255) \<and> from_packet P p \<noteq> ParsePanic) (reqs @ [(q, p)])"
    and "list_all (\<lambda>(q, p). \<not> is_quit (from_packet P p)) reqs" "is_quit (from_packet P p)"
    and "delivers (cc_reader c) (reqs @ (q, p) # rest)" "idle_writer (cc_writer c)"
  shows "\<exists>c'. on_cmd W P B M K chk flags c = (Ok (), c') \<and> delivers (cc_reader c') rest \<and>
      sk_sent (wr_inner (cc_writer c')) = sk_sent (wr_inner (cc_writer c)) @ replies B M P flags A reqs"
  unfolding on_cmd_def using delivers_size [OF assms(5)]
  by (intro on_cmd_loop_served [OF assms]) simp

end

end
