(* ===== verification/Spec2Isabelle.thy ===== *)
theory Spec2Isabelle
  imports Startup ReadyGate Grpc Build StaticProxy Transparency Auth Pool Tenant Writers Charset ErrorCodes
begin

text \<open>
  This development models \<^bold>\<open>haentgl\<close>, a proxy for MySQL databases written in Rust, and proves what its
  parts promise. The proxy accepts MySQL clients, chooses a backend database for the client's tenant,
  takes a connection from that backend's pool, relays the authentication and then forwards every
  command and its response, until the client quits and the connection goes back to its pool. Beside
  this it follows the topology of the database clusters through a control plane, reports the active
  users to it, keeps metrics of its commands and of its process, and serves them and its profilers over
  HTTP.

  \<^bold>\<open>How the code is modelled.\<close> A struct is a record, an enum a datatype, a method a function on the
  state. Integers with a width are words; an operation that panics on overflow in a debug build and
  wraps in a release build takes a flag \<open>chk\<close>, and the theorems hold for both builds unless they say
  otherwise. A computation returns a \<open>result\<close>: \<open>Ok\<close>, \<open>Err\<close> (an \<open>io::Error\<close>), \<open>Panic\<close> (an \<open>unwrap\<close>, an index out
  of range, an overflow) or \<open>Diverge\<close> (the fuel of a loop is used up), together with the new state. A
  socket's reading half is a list of read events (data, errors), its writing half a sink with a plan of
  short and failing writes; what was sent is recorded. Loops that read from a stream take as fuel one
  more than the number of bytes the stream can still deliver; each iteration consumes at least one, so
  the fuel is enough, which is proved (\<open>serve_terminates\<close>, and \<open>on_cmd_served\<close> for the demonstration
  server) and not assumed. Tasks that wait for one of several events (the accept loop, the collector,
  the task of the heap profiler) are functions of the list of the events they see; what the operating
  system, a directory, a clock or an allocator answers is an input. Numbers of type \<open>f32\<close> and \<open>f64\<close> are
  rationals that every operation rounds.
  Third-party crates are parameters: records of functions (\<open>winnow\<close>, \<open>byteorder\<close>, \<open>mysql_common\<close>, \<open>mysql_packets\<close>, \<open>hex\<close>,
  \<open>metrics_crate\<close>, \<open>tonic\<close>, \<open>prost\<close>) or plain functions (hash functions, the random generator, \<open>Uri::try_from\<close>,
  connecting, building a pool), whose documented behaviour is stated by locales (\<open>winnow_spec\<close>,
  \<open>byteorder_spec\<close>, \<open>mysql_common_spec\<close>, \<open>hex_spec\<close>, \<open>rng_spec\<close>, \<open>lowercase_spec\<close>, \<open>metrics_spec\<close>, \<open>tonic_spec\<close>,
  \<open>prost_spec\<close>, \<open>map_order\<close>) and shown to be satisfiable by reference implementations (\<open>winnow_ref\<close> and so on), on which
  the witnesses compute. The text of an error message is kept where it is fixed; the parts that quote
  other errors are left out.

  \<^bold>\<open>The theories,\<close> with the files under \<open>src/src/\<close> they model:

  \<^item> \<open>Prelude\<close>: results, the state-passing monad, checked addition, slices, strings, little-endian
    numbers. \<open>Crates\<close>: the parameters for the crates and their contracts. \<open>Concurrent\<close>: \<open>DashMap\<close> as an
    association list, the watch channel of \<open>tokio\<close>.
  \<^item> \<open>Constants\<close>, \<open>ErrorCodes\<close>, \<open>Charset\<close>: \<open>protocol/mysql/constants.rs\<close>, \<open>error_codes.rs\<close>, \<open>charset.rs\<close>.
  \<^item> \<open>Packet\<close>, \<open>PacketReader\<close>, \<open>PacketWriter\<close>: \<open>protocol/mysql/packet/\<close>. Both readers are packet
    sources (locale \<open>packet_source\<close>): they refine the parser of frames whatever the sizes of the reads,
    and they invert the writer.
  \<^item> \<open>Utf8\<close>, \<open>Basic\<close>, \<open>Writers\<close>: UTF-8, the parsers of \<open>protocol/mysql/basic.rs\<close> and the packet builders of
    \<open>packet/writers.rs\<close>, with round trips between them (locales \<open>codec_spec\<close>, \<open>command_spec\<close>,
    \<open>protocol_spec\<close>).
  \<^item> \<open>Session\<close>, \<open>Forwarder\<close>, \<open>Transparency\<close>: the two halves of a client session and the forwarders of
    \<open>server/forwarder/\<close>; grammars of the responses the protocol allows (\<open>query_response\<close> and others) and
    the proof that forwarding a response of the grammar copies exactly its packets (\<open>copies\<close>).
  \<^item> \<open>Auth\<close>: \<open>server/auth/\<close>. \<open>Tenant\<close>: tenant keys and user names (\<open>backend/mod.rs\<close>). \<open>Pool\<close>: \<open>backend/pool/\<close>.
  \<^item> \<open>CpResolver\<close>, \<open>Discovery\<close>, \<open>Router\<close>, \<open>BackendMgr\<close>: \<open>backend/control_plane_resolver.rs\<close>,
    \<open>backend_discovery.rs\<close>, \<open>router/\<close> and \<open>backend_mgr.rs\<close>. Both routers satisfy one contract
    (\<open>router_contract\<close>), which is what the manager's lemmas rest on.
  \<^item> \<open>Server\<close>: \<open>server/haentgl_server.rs\<close>: \<open>on_conn\<close>, \<open>on_com\<close>, \<open>connect\<close>. The conversations of a client with a
    backend are an inductive relation (\<open>dialogue\<close>), which the server is shown to implement; the
    connections a pool can hold are another (\<open>pooled\<close>), with an invariant.
  \<^item> \<open>Config\<close>: \<open>server/proxy_cli_args.rs\<close> and the part of \<open>cmd/src/main.rs\<close> that builds the backend manager.
    \<open>Rest\<close>: the tenant endpoints of \<open>web_service/\<close>.
  \<^item> \<open>Floats\<close>: rounding. \<open>SysUtils\<close>: \<open>common/src/sys_utils.rs\<close> over a record of the host. \<open>Metrics\<close>:
    \<open>common/src/metrics/\<close>: the definitions, the recorder, gauges, timers, the collector of the process.
    \<open>Latency\<close>: the server once more with its timers and its gauge, and the proof that erasing them gives
    \<open>Server\<close>. \<open>Profiling\<close>: \<open>common/src/profiling/\<close>, the sampling threads as a step relation.
  \<^item> \<open>Endpoints\<close>: \<open>web_service/src/metrics_handler.rs\<close> and the routes of \<open>http_server.rs\<close>. \<open>Startup\<close>: the tasks,
    the accept loop and the shutdown of \<open>cmd/src/main.rs\<close>, and \<open>cp/mod.rs\<close>.
  \<^item> \<open>ReadyGate\<close>: the two tasks of \<open>start_backend_discovery\<close>, one polling the members and one waiting for them
    on a condition variable, as a step relation over the worker threads of the runtime.
  \<^item> \<open>Grpc\<close>: the clients and servers of \<open>prost/topology.rs\<close> and \<open>prost/control_plane.rs\<close> over any codec and
    exchange with the laws of \<open>service_spec\<close>. \<open>Protobuf\<close> and \<open>Wire\<close> model no code of the repository but the
    records of three messages: they write the documented format out as a reference instance of the
    parameter \<open>prost\<close>, which shows that its laws can hold. \<open>Build\<close>: \<open>proxy/build.rs\<close>.
  \<^item> \<open>ActiveUsers\<close>: \<open>cp/active_users.rs\<close> and \<open>cp/cp_target.rs\<close>, as operations one after the other and as a
    step relation that interleaves the accesses of \<open>put\<close> and of any number of calls of \<open>freeze\<close>, which read
    and clear a \<open>DashMap\<close> one shard after the other.
  \<^item> \<open>StaticProxy\<close>: the demonstration server of \<open>server/static_proxy.rs\<close>.

  \<^bold>\<open>What is shown.\<close> The sections below state the properties. The command phase and a whole connection are
  transparent: client and backend receive exactly each other's packets, for payloads of one frame; packets
  of several frames are copied under other sequence numbers, which is stated for one packet. Readers and writers are inverse
  to each other and to the parsers; the one exception, payloads whose length is a multiple of the
  maximal frame, is proved too, as is the header of an empty packet that a short write truncates.
  Authentication, pooling and routing keep their invariants; a connection whose authentication fails with an error is never recycled, one whose authentication panics
  keeps the life cycle it had. Resolver and discovery follow the announcements of the
  control plane; its start loses no notification, and hangs only where the theorem says so. The process
  accepts connections until the first signal it observes and none after it; its metrics change nothing
  of what a connection does. A call of a generated client reaches the method it names.
  Where the code does not do what it means to, the theorem states what it does (the
  panics on malformed input, the overflow of tenant keys, the pools of offline backends, the router
  that never learns a tenant, the records of active users lost between threads, the signals missed
  between two turns of the accept loop, the gauges that only fall or count
  twice, the wait that blocks the only worker, the limits of a container that are not used).

  \<^bold>\<open>Not modelled:\<close> logging; the code of \<open>prost\<close> and \<open>tonic\<close> and the codecs derived for the messages, of which only
  the laws of \<open>prost_spec\<close> and \<open>tonic_spec\<close> are used; the matching of a path against the table of the routes; the scheduling of the
  \<open>tokio\<close> runtime, beyond the interleavings that are stated as relations; TLS (the source never upgrades
  a connection); and time (timeouts, intervals, the idle time of pools). Dropping a connection when the
  other half of a \<open>select!\<close> finishes is modelled by the end of the list of events.
\<close>

section \<open>Example data\<close>

text \<open>A session at the start of the command phase, used by the witnesses.\<close>

definition demo_sink :: sink where
  "demo_sink = \<lparr>sk_sent = [], sk_flushed = 0, sk_plan = []\<rparr>"

definition demo_session :: "(u8 \<times> bytes) list \<Rightarrow> (u8 \<times> bytes) list \<Rightarrow> session" where
  "demo_session from_client from_backend =
     \<lparr>ss_client_reader = reader_new (if from_client = [] then [] else [Data (frame_bytes from_client)]),
      ss_client_writer = writer_new demo_sink,
      ss_backend_reader = reader_new (if from_backend = [] then [] else [Data (frame_bytes from_backend)]),
      ss_backend_writer = writer_new demo_sink\<rparr>"

definition demo_handshake :: "u32 \<Rightarrow> HandshakeResponse" where
  "demo_handshake caps =
     \<lparr>hs_client_flag = caps, hs_max_packet_len = 0, hs_collation = 45, hs_tenant_key = None,
      hs_username = Some (ascii ''root''), hs_auth_response = [], hs_auth_plugin = [],
      hs_database = None, hs_connect_attributes = None\<rparr>"

definition demo_ok :: bytes where
  "demo_ok = [0x00, 0x00, 0x00, 0x02, 0x00, 0x00, 0x00]"

lemma frame_bytes_not_Nil: "ps \<noteq> [] \<Longrightarrow> frame_bytes ps \<noteq> []"
  by (cases ps) (auto simp: frame_def)

lemma demo_delivers:
  assumes "list_all (\<lambda>(q, p). length p < MAX_PAYLOAD_LEN) ps"
  shows "delivers (reader_new (if ps = [] then [] else [Data (frame_bytes ps)])) ps"
  using assms frame_bytes_not_Nil [of ps]
  by (auto simp: delivers_def reader_ok_def reader_inv_def pending_def reader_new_def)

lemma demo_writer_open: "open_writer (writer_new demo_sink)"
  by (simp add: open_writer_def writer_new_def demo_sink_def)

lemmas demo_session_simps = demo_session_def demo_delivers demo_writer_open session.simps

lemmas ref_specs = winnow_ref.winnow_spec_axioms byteorder_ref.byteorder_spec_axioms
  mysql_common_ref.mysql_common_spec_axioms

lemma demo_ok_verdict: "auth_verdict mysql_common_ref demo_ok = Ok ()"
  by (simp add: auth_verdict_def demo_ok_def)

definition demo_hello :: client_hello where
  "demo_hello = \<lparr>ch_caps = 0x88208, ch_max_packet_len = 0x1000000, ch_collation = 45,
     ch_username = ascii ''tenant.root'', ch_auth = [1, 2, 3], ch_db = ascii ''db'',
     ch_plugin = ascii ''mysql_native_password'', ch_attrs = []\<rparr>"

lemma demo_hello_ok: "hello_ok demo_hello" "\<not> cap_set (ch_caps demo_hello) CLIENT_SSL"
  by (simp_all add: hello_ok_def demo_hello_def cap_set_def cstr_ok_def ascii_def)

lemma demo_hello_small: "length (hello_head demo_hello @ hello_body demo_hello) < MAX_PAYLOAD_LEN"
  by (simp add: hello_head_def hello_body_def demo_hello_def cap_set_def ascii_def MAX_PAYLOAD_LEN_def)

text \<open>
  An instance of the library's packets, after the documentation of the protocol: COM_CHANGE_USER with
  its terminated strings, and the handshake response of protocol 4.1.
\<close>

definition optional :: "bytes option \<Rightarrow> bytes" where
  "optional x = (case x of Some b \<Rightarrow> b | None \<Rightarrow> [])"

definition change_user_bytes :: "change_user \<Rightarrow> bytes" where
  "change_user_bytes c =
     0x11 # optional (cu_user c) @ 0 # word_of_nat (length (optional (cu_auth_plugin_data c))) #
     optional (cu_auth_plugin_data c) @ optional (cu_database c) @ 0 #
     (case cu_more_data c of
        Some d \<Rightarrow> le_bytes 2 (unat (md_character_set d)) @ (case md_auth_plugin d of Some p \<Rightarrow> p @ [0] | None \<Rightarrow> [])
      | None \<Rightarrow> [])"

definition change_user_read :: "bytes \<Rightarrow> change_user option" where
  "change_user_read pkt =
     (let user = takeWhile (\<lambda>b. b \<noteq> 0) (drop 1 pkt); rest = drop (length user + 2) pkt in
      if rest = [] then None
      else
        let n = unat (hd rest); database = takeWhile (\<lambda>b. b \<noteq> 0) (drop (Suc n) rest) in
        Some \<lparr>cu_user = Some user, cu_auth_plugin_data = Some (take n (tl rest)), cu_database = Some database,
          cu_more_data = None\<rparr>)"

definition lib_hello :: "lib_handshake \<Rightarrow> client_hello" where
  "lib_hello l = \<lparr>ch_caps = lh_capabilities l, ch_max_packet_len = lh_max_packet_size l, ch_collation = 45,
     ch_username = optional (lh_user l), ch_auth = lh_scramble_buf l, ch_db = optional (lh_db_name l),
     ch_plugin = optional (lh_auth_plugin l), ch_attrs = []\<rparr>"

definition lib_read :: "bytes \<Rightarrow> lib_handshake option" where
  "lib_read pkt =
     (case client_handshake_response winnow_ref mysql_common_ref pkt False of
        Done _ h \<Rightarrow> Some \<lparr>lh_scramble_buf = hs_auth_response h, lh_server_version = (0, 0, 0), lh_user = hs_username h,
          lh_db_name = hs_database h, lh_auth_plugin = Some (hs_auth_plugin h), lh_capabilities = hs_client_flag h,
          lh_connect_attributes = hs_connect_attributes h, lh_max_packet_size = hs_max_packet_len h\<rparr>
      | _ \<Rightarrow> None)"

definition demo_packets :: mysql_packets where
  "demo_packets = \<lparr>change_user_deserialize = (\<lambda>_. change_user_read), change_user_serialize = change_user_bytes,
     handshake_deserialize = lib_read,
     handshake_new = (\<lambda>scramble version user db plugin caps attrs size.
       \<lparr>lh_scramble_buf = optional scramble, lh_server_version = version, lh_user = user, lh_db_name = db,
        lh_auth_plugin = plugin, lh_capabilities = caps, lh_connect_attributes = attrs, lh_max_packet_size = size\<rparr>),
     handshake_serialize = (\<lambda>l. hello_head (lib_hello l) @ hello_body (lib_hello l))\<rparr>"

definition demo_hello_reset :: client_hello where
  "demo_hello_reset = demo_hello\<lparr>ch_plugin := unknown_plugin\<rparr>"

lemma demo_hello_parsed:
  "client_handshake_response winnow_ref mysql_common_ref (hello_head demo_hello @ hello_body demo_hello) False =
     Done [] (hello_response mysql_common_ref demo_hello)"
  using codec_spec.handshake_round_trip [OF codec_spec.intro [OF ref_specs(1,3)] demo_hello_ok(1), of False "[]"] demo_hello_ok(2)
  by simp

lemma demo_hello_read:
  "lib_read (hello_head demo_hello @ hello_body demo_hello) =
     Some \<lparr>lh_scramble_buf = [1, 2, 3], lh_server_version = (0, 0, 0), lh_user = Some (ascii ''tenant.root''),
       lh_db_name = Some (ascii ''db''), lh_auth_plugin = Some (ascii ''mysql_native_password''), lh_capabilities = 0x88208,
       lh_connect_attributes = None, lh_max_packet_size = 0x1000000\<rparr>"
  unfolding lib_read_def demo_hello_parsed
  by (simp add: hello_response_def demo_hello_def mysql_common_ref_def cap_known_def cap_set_def)

lemma demo_reset:
  assumes "hs_username h = Some (ascii ''tenant.root'')" "hs_max_packet_len h = 0x1000000"
  shows "reset_handshake_plugin demo_packets (hello_head demo_hello @ hello_body demo_hello) h =
    Ok (hello_head demo_hello_reset @ hello_body demo_hello_reset)"
proof -
  have "handshake_deserialize demo_packets = lib_read" by (simp add: demo_packets_def)
  then show ?thesis
    unfolding reset_handshake_plugin_def assms demo_hello_read
    by (simp add: demo_hello_read Let_def demo_packets_def lib_hello_def optional_def)
      (simp add: demo_hello_reset_def demo_hello_def)
qed

lemma demo_hello_reset_small: "length (hello_head demo_hello_reset @ hello_body demo_hello_reset) < MAX_PAYLOAD_LEN"
  by (simp add: hello_head_def hello_body_def demo_hello_reset_def demo_hello_def cap_set_def ascii_def unknown_plugin_def
      MAX_PAYLOAD_LEN_def)

definition demo_instance :: BackendInstance where
  "demo_instance = \<lparr>bi_location = \<lparr>loc_region = [], loc_available_zone = [], loc_namespace = [], loc_node_name = []\<rparr>,
     bi_addr = lit ''127.0.0.1:3306'', bi_status = Ready, bi_cluster = \<lparr>cn_namespace = [], cn_cluster_name = []\<rparr>\<rparr>"

section \<open>The command phase\<close>

text \<open>
  C1. The command phase as a whole. A client sends commands and ends with COM_QUIT; the backend
  answers each command in the form the protocol gives for it (queries and multi-result sets,
  prepares, fetches, closes, single-packet answers). Then \<open>on_com\<close> returns without an error, the
  client has received exactly the backend's answers, the backend exactly the client's commands and,
  instead of COM_QUIT, one COM_RESET_CONNECTION, and the packets behind the conversation are unread
  on both sides. The reset carries the sequence number the last command has left. Every packet that
  either side sends is a single frame, shorter than 2^24 - 1 bytes.
\<close>

theorem on_com_transparent:
  assumes "winnow_spec W" "byteorder_spec B"
    and "dialogue W B M chk (hs_client_flag h) 0 requests responses to_client to_backend"
    and "session_delivers s (requests @ cs) (responses @ bs)"
  shows "\<exists>s'. on_com W B M P chk h s = (Ok (), s') \<and> session_delivers s' cs bs \<and>
    sent_to Client s' = sent_to Client s @ frame_bytes to_client \<and>
    sent_to Backend s' = sent_to Backend s @ frame_bytes to_backend"
  using net_spec.on_com_dialogue [OF net_spec.intro [OF assms(1,2)] assms(3,4), of P]
  by (auto simp: exchanged_def)

definition demo_requests :: "(u8 \<times> bytes) list" where
  "demo_requests = [(0, 0x03 # ascii ''BEGIN''), (0, [0x0e]), (0, [0x01])]"

definition demo_responses :: "(u8 \<times> bytes) list" where
  "demo_responses = [(1, demo_ok), (1, demo_ok), (2, demo_ok)]"

lemma demo_query_response:
  assumes "caps = 0x200 \<or> caps = 0x88208"
  shows "query_response winnow_ref byteorder_ref mysql_common_ref caps [(1, demo_ok)]"
proof (rule qr_ok)
  show "is_ok_packet demo_ok" by (simp add: is_ok_packet_def demo_ok_def)
  show "ok_packet winnow_ref mysql_common_ref demo_ok caps = Done []
      \<lparr>ok_header = 0, ok_affected_rows = 0, ok_last_insert_id = 0, ok_status_flags = 2,
       ok_warnings = 0, ok_info = [], ok_session_state_info = []\<rparr>"
    using assms by (auto simp: ok_packet_def demo_ok_def winnow_ref_def read_length_encoded_number_def)
qed (simp add: mysql_common_ref_def)

lemma demo_dialogue:
  assumes "caps = 0x200 \<or> caps = 0x88208"
  shows "dialogue winnow_ref byteorder_ref mysql_common_ref True caps 0 demo_requests demo_responses
     [(1, demo_ok), (1, demo_ok)]
     [(0, 0x03 # ascii ''BEGIN''), (0, [0x0e]), (1, reset_request)]"
proof -
  let ?d = "dialogue winnow_ref byteorder_ref mysql_common_ref True caps"
  let ?a = "answers winnow_ref byteorder_ref mysql_common_ref True caps"
  have quit: "?d (0 + 1) [(0, [0x01])] [(2, demo_ok)] [] [(0 + 1, reset_request)]"
    by (rule dlg_quit) (simp add: command_of_Ok)
  have "?a [0x0e] [(1, demo_ok)]" by (rule ans_generic [of _ ComPing]) (simp_all add: command_of_Ok)
  from dlg_request [OF this quit]
  have ping: "?d (0 + 1) [(0, [0x0e]), (0, [0x01])] [(1, demo_ok), (2, demo_ok)] [(1, demo_ok)]
      [(0, [0x0e]), (1, reset_request)]"
    by simp
  have "?a (0x03 # ascii ''BEGIN'') [(1, demo_ok)]"
    using demo_query_response [OF assms] by (intro ans_query [of _ ComQuery]) (simp_all add: command_of_Ok)
  from dlg_request [OF this ping, of 0] show ?thesis by (simp add: demo_requests_def demo_responses_def)
qed

lemma demo_session_delivers:
  assumes "list_all (\<lambda>(q, p). length p < MAX_PAYLOAD_LEN) cs" "list_all (\<lambda>(q, p). length p < MAX_PAYLOAD_LEN) bs"
  shows "session_delivers (demo_session cs bs) cs bs"
  using assms by (simp add: session_delivers_def demo_session_def demo_delivers demo_writer_open)

lemma demo_sent: "sent_to p (demo_session cs bs) = []"
  by (cases p) (simp_all add: sent_to_def demo_session_def writer_new_def demo_sink_def)

theorem on_com_transparent_witness:
  "\<exists>s'. on_com winnow_ref byteorder_ref mysql_common_ref demo_packets True (demo_handshake 0x200)
      (demo_session demo_requests demo_responses) = (Ok (), s') \<and>
    sent_to Client s' = frame 1 demo_ok @ frame 1 demo_ok \<and>
    sent_to Backend s' = frame 0 (0x03 # ascii ''BEGIN'') @ frame 0 [0x0e] @ frame 1 reset_request"
proof -
  have "session_delivers (demo_session demo_requests demo_responses) (demo_requests @ []) (demo_responses @ [])"
    using demo_session_delivers [of demo_requests demo_responses]
    by (simp add: demo_requests_def demo_responses_def demo_ok_def MAX_PAYLOAD_LEN_def ascii_def)
  from on_com_transparent [OF ref_specs(1,2) _ this, of mysql_common_ref True "demo_handshake 0x200"
      _ _ demo_packets] demo_dialogue [of "0x200"]
  show ?thesis by (fastforce simp: demo_sent demo_handshake_def)
qed

text \<open>
  C2. A client connection from end to end. A client that answers the proxy's greeting with a handshake
  response is routed by its tenant to a backend pool; on a connection of that pool that no client has
  used yet, the proxy authenticates it and then serves its commands until COM_QUIT. \<open>connect\<close> returns
  without an error, the client has received the greeting, the relayed authentication and exactly the
  backend's answers, the backend has received the rewritten handshake response, the client's
  authentication data and exactly the client's commands, nothing behind the conversation is consumed,
  and the connection can go back to its pool. Every packet that either side sends, and the rewritten
  response, is a single frame, shorter than 2^24 - 1 bytes.
\<close>

theorem connect_serves_client:
  assumes "winnow_spec W" "mysql_common_spec M" "byteorder_spec B"
    and "hello_ok hello" "\<not> cap_set (ch_caps hello) CLIENT_SSL"
    and "h = change_tenant_if_need (\<not> is_static (bm_router mgr)) (hello_response M hello)"
    and "pkt = hello_head hello @ hello_body hello"
    and "delivers (reader_new es) ((seq, pkt) # (q2, answer) # requests @ cs)" "sk_plan k = []"
    and "connect_to_backend H G chk h mgr = Ok pool" "pool_get pool = Ok conn"
    and "delivers (pc_reader conn) ((q0, greeting) # (q1, switch) # (q3, verdict) # responses @ bs)"
    and "open_writer (pc_writer conn)" "lc_conn_phase (pc_life_cycle conn) \<noteq> Some PhaseCommand"
    and "reset_handshake_plugin P pkt h = Ok new_packet" "length new_packet < MAX_PAYLOAD_LEN"
    and "switch \<noteq> []" "switch ! 0 = 0xfe" "chk \<longrightarrow> seq \<noteq> 255 \<and> q1 \<noteq> 255" "auth_verdict M verdict = Ok ()"
    and "dialogue W B M chk (hs_client_flag h) 0 requests responses to_client to_backend"
  shows "\<exists>c. connect W B M P H G pool_get chk tls draws conn_id mgr es k = (Ok (), Some c) \<and>
    sent_to Client (cn_session c) = sk_sent k @
      wire 0 (concat (initial_handshake_fields M conn_id (gen_user_salt draws) DEFAULT_BACKEND_VERSION tls)) @
      frame_bytes ([(seq + 1, switch), (q3, verdict)] @ to_client) \<and>
    sent_to Backend (cn_session c) = sk_sent (wr_inner (pc_writer conn)) @
      frame_bytes ([(seq, new_packet), (q1 + 1, answer)] @ to_backend) \<and>
    session_delivers (cn_session c) cs bs \<and> mgr_recycle (cn_pooled c) = Ok ()"
proof -
  have ps: "protocol_spec W M B" using assms(1-3) by (intro protocol_spec.intro codec_spec.intro)
  show ?thesis by (rule protocol_spec.connect_dialogue [where pool_get = pool_get and pool = pool, OF ps assms(4-21)]) blast
qed

definition demo_conn :: "(u8 \<times> bytes) list \<Rightarrow> PooledConn" where
  "demo_conn ps = \<lparr>pc_id = [], pc_reader = reader_new [Data (frame_bytes ps)], pc_writer = writer_new demo_sink,
     pc_life_cycle = life_cycle_default, pc_shut = False\<rparr>"

definition demo_mgr :: "'p \<Rightarrow> 'p BackendMgr" where
  "demo_mgr pool = (backend_mgr_new (Static \<lparr>rt_backend_addrs = [demo_instance]\<rparr>) manager_options_default)
     \<lparr>bm_pools := [(demo_instance, pool)]\<rparr>"

lemma demo_mgr_connects:
  "hs_tenant_key h = None \<Longrightarrow> connect_to_backend hex_ref (\<lambda>n. 0) True h (demo_mgr pool) = Ok pool"
  by (simp add: connect_to_backend_def tenant_of_def demo_mgr_def backend_mgr_new_def static_selector_def
      balance_def list_get_def manager_options_default_def)

lemma demo_hello_static:
  "change_tenant_if_need False (hello_response mysql_common_ref demo_hello) = hello_response mysql_common_ref demo_hello"
  "hs_tenant_key (hello_response mysql_common_ref demo_hello) = None"
  "hs_client_flag (hello_response mysql_common_ref demo_hello) = 0x88208"
  by (simp_all add: change_tenant_if_need_def hello_response_def demo_hello_def mysql_common_ref_def cap_known_def)

lemma demo_small:
  "list_all (\<lambda>(q, p). length p < MAX_PAYLOAD_LEN) demo_requests"
  "list_all (\<lambda>(q, p). length p < MAX_PAYLOAD_LEN) demo_responses"
  "length demo_ok < MAX_PAYLOAD_LEN"
  by (simp_all add: demo_requests_def demo_responses_def demo_ok_def MAX_PAYLOAD_LEN_def ascii_def)

definition demo_client_packets :: "(u8 \<times> bytes) list" where
  "demo_client_packets = [(1, hello_head demo_hello @ hello_body demo_hello), (3, [5])] @ demo_requests"

definition demo_backend :: PooledConn where
  "demo_backend = demo_conn ([(0, [10]), (2, [0xfe, 1]), (4, demo_ok)] @ demo_responses)"

lemma demo_client_delivers:
  "delivers (reader_new [Data (frame_bytes demo_client_packets)])
     ((1, hello_head demo_hello @ hello_body demo_hello) # (3, [5]) # demo_requests @ [])"
  using demo_delivers [of demo_client_packets] demo_hello_small demo_small
  by (simp add: demo_client_packets_def MAX_PAYLOAD_LEN_def)

lemma demo_backend_delivers:
  "delivers (pc_reader demo_backend) ((0, [10]) # (2, [0xfe, 1]) # (4, demo_ok) # demo_responses @ [])"
  using demo_delivers [of "[(0, [10]), (2, [0xfe, 1]), (4, demo_ok)] @ demo_responses"] demo_small
  by (simp add: demo_backend_def demo_conn_def MAX_PAYLOAD_LEN_def)

lemma demo_backend_fresh:
  "open_writer (pc_writer demo_backend)" "lc_conn_phase (pc_life_cycle demo_backend) \<noteq> Some PhaseCommand"
  "sk_sent (wr_inner (pc_writer demo_backend)) = []"
  by (simp_all add: demo_backend_def demo_conn_def demo_writer_open life_cycle_default_def)
    (simp add: writer_new_def demo_sink_def)

lemma demo_hello_kept:
  "hello_response mysql_common_ref demo_hello =
     change_tenant_if_need (\<not> is_static (bm_router (demo_mgr pool))) (hello_response mysql_common_ref demo_hello)"
  "reset_handshake_plugin demo_packets (hello_head demo_hello @ hello_body demo_hello) (hello_response mysql_common_ref demo_hello) =
     Ok (hello_head demo_hello_reset @ hello_body demo_hello_reset)"
  by (simp_all add: demo_mgr_def backend_mgr_new_def demo_hello_static) (rule demo_reset; simp add: hello_response_def demo_hello_def)

theorem connect_serves_client_witness:
  "\<exists>c. connect winnow_ref byteorder_ref mysql_common_ref demo_packets hex_ref (\<lambda>n. 0) Ok True False
      (replicate 20 65) 1 (demo_mgr demo_backend) [Data (frame_bytes demo_client_packets)] demo_sink = (Ok (), Some c) \<and>
    sent_to Backend (cn_session c) = frame_bytes [(1, hello_head demo_hello_reset @ hello_body demo_hello_reset), (3, [5]),
      (0, 0x03 # ascii ''BEGIN''), (0, [0x0e]), (1, reset_request)] \<and>
    mgr_recycle (cn_pooled c) = Ok ()"
  using connect_serves_client [where pool_get = Ok and pool = demo_backend and conn = demo_backend and k = demo_sink
      and tls = False and draws = "replicate 20 65" and conn_id = 1, OF ref_specs(1,3,2) demo_hello_ok demo_hello_kept(1) refl
      demo_client_delivers _ demo_mgr_connects refl demo_backend_delivers demo_backend_fresh(1,2) demo_hello_kept(2)
      demo_hello_reset_small _ _ _ demo_ok_verdict]
    demo_dialogue [of "0x88208"] demo_backend_fresh(3)
  by (fastforce simp: demo_hello_static demo_sink_def)

text \<open>
  C3. A client connection always comes to an end: whatever the client and the backend send, the
  authentication and the command loop return (with a result, an error or a panic) once their streams
  are used up. The fuel of every loop of the model is enough.
\<close>

theorem serve_terminates:
  assumes "winnow_spec W" "byteorder_spec B"
  shows "fst (serve W B M P chk seq pkt h reader writer conn) \<noteq> Diverge"
  using net_spec.serve_no_diverge [OF net_spec.intro [OF assms]] .

theorem serve_terminates_witness:
  "fst (serve winnow_ref byteorder_ref mysql_common_ref demo_packets True 1 [] (demo_handshake 0x200)
     (reader_new [Data [0x01]]) demo_sink
     \<lparr>pc_id = [], pc_reader = reader_new [], pc_writer = writer_new demo_sink,
      pc_life_cycle = life_cycle_default, pc_shut = False\<rparr>) \<noteq> Diverge"
  by (rule serve_terminates [OF ref_specs(1,2)])

text \<open>
  C4. A query's response reaches the client byte for byte. Whenever the backend sends a well-formed
  response (OK and ERR packets, result sets with or without EOF packets, cursors, several result
  sets), \<open>forward_query\<close> succeeds, the client has received exactly the frames of the response, the
  packets behind the response are still to be read, and the other halves of the session are
  untouched. Every packet of the backend is a single frame, shorter than 2^24 - 1 bytes.
\<close>

theorem forward_query_transparent:
  assumes "winnow_spec W" "byteorder_spec B"
    and "query_response W B M (hs_client_flag h) ps"
    and "delivers (ss_backend_reader s) (ps @ rest)" "open_writer (ss_client_writer s)"
  shows "\<exists>s'. forward_query W B M chk h s = (Ok (), s') \<and>
    sent_to Client s' = sent_to Client s @ frame_bytes ps \<and>
    delivers (ss_backend_reader s') rest \<and>
    ss_client_reader s' = ss_client_reader s \<and> ss_backend_writer s' = ss_backend_writer s"
proof -
  have net: "net_spec W B" using assms(1,2) by (rule net_spec.intro)
  obtain s' where "forward_query W B M chk h s = (Ok (), s')" "moved Backend Client ps s s'"
    "delivers (ss_backend_reader s') rest"
    by (rule copiesD [OF net_spec.forward_query_copies [OF net assms(3)] assms(4,5)])
  moreover from this(2) have "reader_of Client s' = reader_of Client s" "writer_of Backend s' = writer_of Backend s"
    by (auto simp: moved_def simp del: reader_of.simps writer_of.simps)
  ultimately show ?thesis by (auto simp: moved_def)
qed

theorem forward_query_transparent_witness:
  "\<exists>s'. forward_query winnow_ref byteorder_ref mysql_common_ref True (demo_handshake 0x200)
      (demo_session [] [(1, demo_ok), (0, [0xff])]) = (Ok (), s') \<and>
    sent_to Client s' = frame 1 demo_ok \<and> delivers (ss_backend_reader s') [(0, [0xff])]"
proof -
  let ?s = "demo_session [] [(1, demo_ok), (0, [0xff])]"
  have "delivers (ss_backend_reader ?s) ([(1, demo_ok)] @ [(0, [0xff])])"
    using demo_delivers [of "[(1, demo_ok), (0, [0xff])]"]
    by (simp add: demo_session_def demo_ok_def MAX_PAYLOAD_LEN_def)
  moreover have "open_writer (ss_client_writer ?s)" by (simp add: demo_session_def demo_writer_open)
  moreover have "sent_to Client ?s = []"
    by (simp add: sent_to_def demo_session_def writer_new_def demo_sink_def)
  ultimately show ?thesis
    using forward_query_transparent [of winnow_ref byteorder_ref mysql_common_ref "demo_handshake 0x200"
        "[(1, demo_ok)]" ?s "[(0, [0xff])]" True] ref_specs demo_query_response [of "0x200"]
    by (auto simp: demo_handshake_def)
qed

text \<open>
  C5. Packets of several frames. The forwarder takes a packet of any length, whose frames are numbered
  from some number on, as one payload under the number of its last frame, and sends it on as frames
  that are numbered from there: the payload arrives whole, nothing behind the packet is consumed, and
  the frames arrive under the numbers they came with only if there is a single one (up to a wrap-around
  of the number after 256 frames). Payloads that are a positive multiple of 2^24 - 1 bytes are excluded,
  and so are, when arithmetic is checked, numbers that pass 255 before the last frame.
\<close>

theorem forward_renumbers_frames:
  assumes "winnow_spec W" "byteorder_spec B"
    and "reader_ok (reader_of src s)" "pending (reader_of src s) = wire q p @ rest" "open_writer (writer_of dest s)"
    and "p = [] \<or> length p mod MAX_PAYLOAD_LEN \<noteq> 0" "\<not> chk \<or> unat q + length p div MAX_PAYLOAD_LEN \<le> 256"
    and "last_seq = q + word_of_nat (length p div MAX_PAYLOAD_LEN)"
  shows "\<exists>s'. forward_one_packet W B chk dest src is_flush s = (Ok p, s') \<and>
    sent_to dest s' = sent_to dest s @ wire last_seq p \<and> open_writer (writer_of dest s') \<and>
    reader_ok (reader_of src s') \<and> pending (reader_of src s') = rest \<and>
    (wire last_seq p = wire q p \<longleftrightarrow> 256 dvd length p div MAX_PAYLOAD_LEN)"
proof -
  have "wire last_seq p = wire q p \<longleftrightarrow> 256 dvd length p div MAX_PAYLOAD_LEN"
    using word_of_nat_eq_0_iff [where 'a = 8] by (simp add: wire_eq_iff assms(8))
  then show ?thesis
    using net_spec.forward_one_packet_wire [OF net_spec.intro [OF assms(1,2)] assms(3,4,6,7,5)] assms(8) by metis
qed

definition demo_large :: bytes where
  "demo_large = replicate (2 ^ 24) 7"

lemma demo_large_frames: "length demo_large mod MAX_PAYLOAD_LEN = 1" "length demo_large div MAX_PAYLOAD_LEN = 1"
  unfolding demo_large_def length_replicate MAX_PAYLOAD_LEN_def by simp_all

theorem forward_renumbers_frames_witness:
  "\<exists>s'. forward_one_packet winnow_ref byteorder_ref True Client Backend True
      ((demo_session [] [])\<lparr>ss_backend_reader := reader_new [Data (wire 1 demo_large)]\<rparr>) = (Ok demo_large, s') \<and>
    sent_to Client s' = wire 2 demo_large \<and> sent_to Client s' \<noteq> wire 1 demo_large"
proof -
  let ?s = "(demo_session [] [])\<lparr>ss_backend_reader := reader_new [Data (wire 1 demo_large)]\<rparr>"
  have "demo_large \<noteq> []" using demo_large_frames(1) by auto
  then have "chunks MAX_PAYLOAD_LEN demo_large \<noteq> []"
    using concat_chunks [OF MAX_PAYLOAD_LEN_pos, of demo_large] by auto
  then have "wire 1 demo_large \<noteq> []" by (cases "chunks MAX_PAYLOAD_LEN demo_large") (simp_all add: wire_def frame_def)
  then have r: "reader_ok (reader_of Backend ?s)" "pending (reader_of Backend ?s) = wire 1 demo_large @ []"
    by (simp_all add: reader_ok_def reader_inv_def pending_def reader_new_def)
  have w: "open_writer (writer_of Client ?s)" by (simp add: demo_session_simps)
  from forward_renumbers_frames [OF ref_specs(1,2) r w, of True "1 + word_of_nat (length demo_large div MAX_PAYLOAD_LEN)" True]
  obtain s' where "forward_one_packet winnow_ref byteorder_ref True Client Backend True ?s = (Ok demo_large, s')"
    "sent_to Client s' = sent_to Client ?s @ wire 2 demo_large" "wire 2 demo_large \<noteq> wire 1 demo_large"
    by (auto simp: demo_large_frames)
  moreover have "sent_to Client ?s = []" by (simp add: sent_to_def demo_session_def writer_new_def demo_sink_def)
  ultimately show ?thesis by simp
qed

section \<open>Framing\<close>

text \<open>
  C6. The asynchronous reader refines the parser. However the peer's bytes are cut into reads,
  \<open>next_async\<close> answers what \<open>packet\<close> says about all the bytes still to come: the next packet (and
  exactly its bytes are consumed), the end of the stream, or an \<open>UnexpectedEof\<close> error when the stream
  ends inside a packet.
\<close>

theorem next_async_is_packet:
  assumes "winnow_spec W" "reader_ok r"
  shows "\<exists>r'. next_async W chk r = (fst (next_spec (packet W chk (pending r)) (pending r)), r') \<and>
    (packet W chk (pending r) \<noteq> ParsePanic \<longrightarrow>
       reader_ok r' \<and> pending r' = snd (next_spec (packet W chk (pending r)) (pending r)))"
  using winnow_spec.next_async_refines [OF assms] .

theorem next_async_is_packet_witness:
  "\<exists>r'. next_async winnow_ref True (reader_new [Data [1, 0], Data [0, 7, 0x0e, 5], Data [0]]) = (Ok (Some (7, [0x0e])), r') \<and>
     pending r' = [5, 0]"
proof -
  let ?r = "reader_new [Data [1, 0], Data [0, 7, 0x0e, 5], Data [0]]"
  have ok: "reader_ok ?r" by (simp add: reader_ok_new)
  have pend: "pending ?r = frame 7 [0x0e] @ [5, 0]" by (simp add: pending_new frame_def le_bytes_numeral)
  have "packet winnow_ref True (wire 7 [0x0e] @ [5, 0]) = Done [5, 0] (7, [0x0e])"
    by (rule winnow_ref.packet_wire_small) (simp add: MAX_PAYLOAD_LEN_def)
  then have "packet winnow_ref True (pending ?r) = Done [5, 0] (7, [0x0e])"
    by (simp add: pend wire_small MAX_PAYLOAD_LEN_def)
  with next_async_is_packet [OF ref_specs(1) ok, of True] show ?thesis by (auto simp: next_spec_def)
qed

text \<open>
  C7. The synchronous reader and the asynchronous one agree: on the same pending bytes \<open>next_read\<close> and
  \<open>next_async\<close> give the same answer and leave the same bytes to be read, although they manage their
  buffers differently.
\<close>

theorem next_read_agrees:
  assumes "winnow_spec W" "reader_ok r1" "reader_ok r2" "pending r1 = pending r2"
    and "packet W chk (pending r1) \<noteq> ParsePanic"
  shows "fst (next_read W chk r1) = fst (next_async W chk r2) \<and>
    pending (snd (next_read W chk r1)) = pending (snd (next_async W chk r2))"
  using winnow_spec.next_read_refines [OF assms(1,2), of chk]
    winnow_spec.next_async_refines [OF assms(1,3), of chk] assms(4,5) by auto

theorem next_read_agrees_witness:
  "pending (snd (next_read winnow_ref False (reader_new [Data [1, 0, 0, 7, 0x0e]]))) =
   pending (snd (next_async winnow_ref False (reader_new [Data [1, 0, 0], Data [7, 0x0e]])))"
proof -
  let ?r1 = "reader_new [Data [1, 0, 0, 7, 0x0e]]" and ?r2 = "reader_new [Data [1, 0, 0], Data [7, 0x0e]]"
  have p: "pending ?r1 = wire 7 [0x0e] @ []" "pending ?r2 = wire 7 [0x0e] @ []"
    by (simp_all add: pending_new wire_small frame_def MAX_PAYLOAD_LEN_def le_bytes_numeral)
  have "packet winnow_ref False (wire 7 [0x0e] @ []) = Done [] (7, [0x0e])"
    by (rule winnow_ref.packet_wire_small) (simp add: MAX_PAYLOAD_LEN_def)
  then show ?thesis
    using next_read_agrees [OF ref_specs(1), of ?r1 ?r2 False] p by (simp add: reader_ok_new)
qed

text \<open>
  C8. What \<open>end_packet\<close> writes, \<open>next_async\<close> reads back. A payload that is not a positive multiple of
  2^24 - 1 bytes is cut into frames, and a reader that receives these frames, in any pieces, returns the
  same payload with the sequence number of the last frame and leaves the bytes behind it, provided that
  the sequence number does not pass 255 before the last frame. When there is a payload, the frames are
  sent completely even if the socket accepts only part of each write. An empty payload is one frame,
  which is handed to a single vectored write: what the socket does not accept of its four bytes is
  lost, and \<open>end_packet\<close> reports success all the same.
\<close>

theorem end_packet_round_trip:
  assumes "winnow_spec W" "byteorder_spec B"
    and "wr_buf w = [] \<or> length (wr_buf w) mod MAX_PAYLOAD_LEN \<noteq> 0" "no_fail (sk_plan (wr_inner w))"
    and "unat (wr_seq w) + length (wr_buf w) div MAX_PAYLOAD_LEN \<le> 256"
  shows "\<exists>w' bs. end_packet B w = (Ok (), w') \<and> wr_buf w' = [] \<and>
    sk_sent (wr_inner w') = sk_sent (wr_inner w) @
      (if wr_buf w \<noteq> [] then bs
       else case sk_plan (wr_inner w) of Accept n # _ \<Rightarrow> take n bs | _ \<Rightarrow> bs) \<and>
    (wr_buf w = [] \<longrightarrow> length bs = 4) \<and>
    (\<forall>r rest. reader_ok r \<and> pending r = bs @ rest \<longrightarrow>
      (\<exists>r'. next_async W chk r =
          (Ok (Some (wr_seq w + word_of_nat (length (wr_buf w) div MAX_PAYLOAD_LEN), wr_buf w)), r') \<and>
        reader_ok r' \<and> pending r' = rest))"
proof -
  have parse: "packet W chk (wire (wr_seq w) (wr_buf w) @ rest) =
      Done rest (wr_seq w + word_of_nat (length (wr_buf w) div MAX_PAYLOAD_LEN), wr_buf w)" for rest
    using assms(3,5) by (intro winnow_spec.packet_wire [OF assms(1)]) auto
  have sent: "\<exists>w'. end_packet B w = (Ok (), w') \<and> wr_buf w' = [] \<and>
    sk_sent (wr_inner w') = sk_sent (wr_inner w) @
      (if wr_buf w \<noteq> [] then wire (wr_seq w) (wr_buf w)
       else case sk_plan (wr_inner w) of Accept n # _ \<Rightarrow> take n (wire (wr_seq w) (wr_buf w)) | _ \<Rightarrow> wire (wr_seq w) (wr_buf w))"
  proof (cases "wr_buf w = []")
    case False
    then show ?thesis using byteorder_spec.end_packet_sends [OF assms(2) False assms(4)] by auto
  next
    case True
    show ?thesis
    proof (cases "sk_plan (wr_inner w)")
      case Nil
      then show ?thesis using byteorder_spec.end_packet_empty [OF assms(2) True Nil] True by simp
    next
      case (Cons e es)
      then obtain n where n: "sk_plan (wr_inner w) = Accept n # es" using assms(4) no_fail_Cons [of e es] by auto
      show ?thesis using byteorder_spec.end_packet_empty_short_write [OF assms(2) True n] True n by simp
    qed
  qed
  have "wr_buf w = [] \<longrightarrow> length (wire (wr_seq w) (wr_buf w)) = 4" by (simp add: wire_def frame_def)
  then show ?thesis using sent parse winnow_spec.next_async_Done [OF assms(1)] by metis
qed

theorem end_packet_round_trip_witness:
  "(\<exists>w'. end_packet byteorder_ref
      \<lparr>wr_buf = ascii ''ping'', wr_seq = 255, wr_inner = sink_new [Accept 2, Accept 1]\<rparr> = (Ok (), w') \<and> wr_buf w' = []) \<and>
   (\<exists>w'. end_packet byteorder_ref \<lparr>wr_buf = [], wr_seq = 3, wr_inner = sink_new [Accept 2]\<rparr> = (Ok (), w') \<and>
      length (sk_sent (wr_inner w')) = 2)"
  using end_packet_round_trip [OF ref_specs(1,2), of
      "\<lparr>wr_buf = ascii ''ping'', wr_seq = 255, wr_inner = sink_new [Accept 2, Accept 1]\<rparr>" True]
    end_packet_round_trip [OF ref_specs(1,2), of "\<lparr>wr_buf = [], wr_seq = 3, wr_inner = sink_new [Accept 2]\<rparr>" True]
  by (auto simp: ascii_def sink_new_def MAX_PAYLOAD_LEN_def)

text \<open>
  C9. A payload that is a positive multiple of 2^24 - 1 bytes is written without the empty frame that
  ends it in the protocol: a reader that has received all the bytes \<open>end_packet\<close> sent still waits for
  more, and at the end of the stream reports unhandled bytes.
\<close>

theorem end_packet_exact_multiple:
  assumes "winnow_spec W" "byteorder_spec B"
    and "wr_buf w \<noteq> []" "length (wr_buf w) mod MAX_PAYLOAD_LEN = 0" "no_fail (sk_plan (wr_inner w))"
  shows "\<exists>w' bs. end_packet B w = (Ok (), w') \<and> sk_sent (wr_inner w') = sk_sent (wr_inner w) @ bs \<and>
    (\<forall>r. reader_ok r \<and> pending r = bs \<longrightarrow>
      fst (next_async W chk r) = Err (IoError UnexpectedEof ''unhandled bytes''))"
proof -
  obtain k' where k': "end_packet B w =
      (Ok (), w\<lparr>wr_buf := [], wr_seq := wr_seq w + word_of_nat (wire_count (wr_buf w)), wr_inner := k'\<rparr>)"
    "sk_sent k' = sk_sent (wr_inner w) @ wire (wr_seq w) (wr_buf w)"
    using byteorder_spec.end_packet_sends [OF assms(2,3,5)] by blast
  have more: "backtracks (packet W chk (wire (wr_seq w) (wr_buf w)))"
    by (rule winnow_spec.packet_wire_exact [OF assms(1,3,4)])
  have "wire (wr_seq w) (wr_buf w) \<noteq> []"
    using assms(3) by (subst wire_def, subst chunks.simps) (simp add: frame_def MAX_PAYLOAD_LEN_def)
  then show ?thesis
    using k' more winnow_spec.next_async_unexpected_eof [OF assms(1)]
    by (intro exI [of _ "w\<lparr>wr_buf := [], wr_seq := wr_seq w + word_of_nat (wire_count (wr_buf w)), wr_inner := k'\<rparr>"]
        exI [of _ "wire (wr_seq w) (wr_buf w)"]) (simp, metis fst_conv)
qed

theorem end_packet_exact_multiple_witness:
  "\<exists>w'. end_packet byteorder_ref
      \<lparr>wr_buf = replicate MAX_PAYLOAD_LEN 0, wr_seq = 0, wr_inner = sink_new []\<rparr> = (Ok (), w')"
  using end_packet_exact_multiple [OF ref_specs(1,2), of
      "\<lparr>wr_buf = replicate MAX_PAYLOAD_LEN 0, wr_seq = 0, wr_inner = sink_new []\<rparr>" True]
  by (auto simp: sink_new_def)

section \<open>Authentication\<close>

text \<open>
  C10. First authentication of a connection. The proxy swallows the backend's greeting, replaces the
  client's handshake response (unknown plugin, the user without its tenant) and then relays the
  authentication switch: the backend's request to the client under the client's next sequence number,
  the client's answer to the backend under the backend's next one, the verdict to the client unchanged.
  The verdict is the result: OK lets the session continue, an ERR packet becomes an error. The
  rewritten response is what the library makes of the fields \<open>reset_handshake_plugin\<close> gives it; all packets
  are single frames, and the two sequence numbers that are increased are not 255.
\<close>

theorem authenticate_first:
  assumes "winnow_spec W" "byteorder_spec B" "lc_conn_phase lc \<noteq> Some PhaseCommand"
    and "session_delivers s ((q2, answer) # cs) ((q0, greeting) # (q1, switch) # (q3, verdict) # bs)"
    and "reset_handshake_plugin P pkt h = Ok new_packet" "length new_packet < MAX_PAYLOAD_LEN"
    and "switch \<noteq> []" "switch ! 0 = 0xfe" "client_seq \<noteq> 255" "q1 \<noteq> 255"
  shows "\<exists>s'. authenticate W B M P chk lc client_seq pkt h s = (auth_verdict M verdict, s') \<and>
    session_delivers s' cs bs \<and>
    sent_to Client s' = sent_to Client s @ frame_bytes [(client_seq + 1, switch), (q3, verdict)] \<and>
    sent_to Backend s' = sent_to Backend s @ frame_bytes [(client_seq, new_packet), (q1 + 1, answer)]"
proof -
  have "authenticate W B M P chk lc client_seq pkt h = reply_handshake_response W B M P chk client_seq pkt h"
    using assms(3) by (simp add: authenticate_def split: option.split DbConnPhase.split)
  then show ?thesis
    using net_spec.reply_handshake_exchange [OF net_spec.intro [OF assms(1,2)] assms(4-8), of chk client_seq M]
      assms(9,10) by (auto simp: exchanged_def)
qed

theorem authenticate_first_witness:
  "\<exists>s'. authenticate winnow_ref byteorder_ref mysql_common_ref demo_packets True life_cycle_default 1
      (hello_head demo_hello @ hello_body demo_hello) (hello_response mysql_common_ref demo_hello)
      (demo_session [(3, [5])] [(0, [10]), (2, [0xfe, 1]), (4, demo_ok)]) = (Ok (), s') \<and>
    sent_to Client s' = frame 2 [0xfe, 1] @ frame 4 demo_ok \<and>
    sent_to Backend s' = frame 1 (hello_head demo_hello_reset @ hello_body demo_hello_reset) @ frame 3 [5]"
proof -
  let ?s = "demo_session [(3, [5])] [(0, [10]), (2, [0xfe, 1]), (4, demo_ok)]"
  have "session_delivers ?s ((3, [5]) # []) ((0, [10]) # (2, [0xfe, 1]) # (4, demo_ok) # [])"
    by (rule demo_session_delivers) (simp_all add: demo_ok_def MAX_PAYLOAD_LEN_def)
  from authenticate_first [OF ref_specs(1,2) _ this demo_hello_kept(2) demo_hello_reset_small, of life_cycle_default 1
      mysql_common_ref True]
  show ?thesis
    by (auto simp: life_cycle_default_def demo_ok_verdict demo_sent)
qed

text \<open>
  C11. Authentication on a reused connection. A pooled connection that an earlier client has left in
  the command phase is switched to the new client's user by a COM_CHANGE_USER that carries the
  sequence number of the freshly reset backend writer; the rest of the exchange is the same relay,
  under the same conditions on packets and sequence numbers.
\<close>

theorem authenticate_reused:
  assumes "winnow_spec W" "byteorder_spec B" "lc_conn_phase lc = Some PhaseCommand"
    and "session_delivers s ((q2, answer) # cs) ((q1, switch) # (q3, verdict) # bs)"
    and "change_user_new P (hs_username h) (hs_database h) (ucast UTF8_MB4_GENERAL_CI) unknown_plugin = request"
    and "length request < MAX_PAYLOAD_LEN" "switch \<noteq> []" "switch ! 0 = 0xfe" "client_seq \<noteq> 255" "q1 \<noteq> 255"
  shows "\<exists>s'. authenticate W B M P chk lc client_seq pkt h s = (auth_verdict M verdict, s') \<and>
    session_delivers s' cs bs \<and>
    sent_to Client s' = sent_to Client s @ frame_bytes [(client_seq + 1, switch), (q3, verdict)] \<and>
    sent_to Backend s' =
      sent_to Backend s @ frame_bytes [(wr_seq (ss_backend_writer s), request), (q1 + 1, answer)]"
proof -
  have "authenticate W B M P chk lc client_seq pkt h = continue_auth W B M P chk client_seq h"
    using assms(3) by (simp add: authenticate_def)
  then show ?thesis
    using net_spec.continue_auth_exchange [OF net_spec.intro [OF assms(1,2)] assms(4-8), of chk client_seq M]
      assms(9,10) by (auto simp: exchanged_def)
qed

definition demo_change_user :: bytes where
  "demo_change_user = 0x11 # ascii ''root'' @ [0, 0, 0, 45, 0] @ unknown_plugin @ [0]"

lemma demo_change_user_new:
  "change_user_new demo_packets (hs_username (demo_handshake caps)) (hs_database (demo_handshake caps))
     (ucast UTF8_MB4_GENERAL_CI) unknown_plugin = demo_change_user"
  by (simp add: change_user_new_def demo_packets_def change_user_bytes_def com_change_user_new_def more_data_new_def
      demo_handshake_def optional_def UTF8_MB4_GENERAL_CI_def le_bytes_numeral demo_change_user_def)

theorem authenticate_reused_witness:
  "\<exists>s'. authenticate winnow_ref byteorder_ref mysql_common_ref demo_packets True
      (new_conn_life_cycle [] PhaseCommand) 1 []
      (demo_handshake 0x200) (demo_session [(3, [5])] [(1, [0xfe, 1]), (3, demo_ok)]) = (Ok (), s') \<and>
    sent_to Backend s' = frame 0 demo_change_user @ frame 2 [5]"
proof -
  let ?s = "demo_session [(3, [5])] [(1, [0xfe, 1]), (3, demo_ok)]"
  have d: "session_delivers ?s ((3, [5]) # []) ((1, [0xfe, 1]) # (3, demo_ok) # [])"
    by (rule demo_session_delivers) (simp_all add: demo_ok_def MAX_PAYLOAD_LEN_def)
  have seq: "wr_seq (ss_backend_writer ?s) = 0" by (simp add: demo_session_def writer_new_def)
  have small: "length demo_change_user < MAX_PAYLOAD_LEN"
    by (simp add: demo_change_user_def unknown_plugin_def ascii_def MAX_PAYLOAD_LEN_def)
  from authenticate_reused [OF ref_specs(1,2) _ d demo_change_user_new small, of "new_conn_life_cycle [] PhaseCommand" 1
      mysql_common_ref True "[]"]
  show ?thesis by (auto simp: new_conn_life_cycle_def demo_ok_verdict demo_sent seq)
qed

text \<open>
  C12. What becomes of a backend connection after its client. After a successful authentication the
  client's commands are served and the connection is recycled, in the command phase, under the name of
  the user that was served. After a failed one no command is served, the connection is marked as being
  in the connection phase, and the pool's recycling refuses it. A panic during authentication, such as
  that of \<open>assert_eq!\<close> when the backend does not ask for a switch of the plugin, leaves the life cycle as it
  was: the recycling check answers what it answered before, so that a connection it had accepted is
  accepted again although its client has not been authenticated on it.
\<close>

theorem serve_recycles_authenticated:
  assumes "serve W B M P chk seq pkt h reader writer conn = (res, c)"
  shows "case auth_outcome W B M P chk seq pkt h reader writer conn of
      (Ok _, s) \<Rightarrow> (res, cn_session c) = on_com W B M P chk h s \<and> mgr_recycle (cn_pooled c) = Ok () \<and>
        pc_life_cycle (cn_pooled c) = new_conn_life_cycle (db_user_string h) PhaseCommand
    | (Err e, s) \<Rightarrow> res = Ok () \<and> cn_session c = s \<and>
        lc_conn_phase (pc_life_cycle (cn_pooled c)) = Some PhaseConnection \<and>
        mgr_recycle (cn_pooled c) = Err (IoError PermissionDenied ''connection is illegal'')
    | (r, s) \<Rightarrow> res = r \<and> cn_session c = s \<and> pc_life_cycle (cn_pooled c) = pc_life_cycle conn \<and>
        mgr_recycle (cn_pooled c) = mgr_recycle conn"
  using serve_auth_ok [OF _ assms] serve_auth_err [OF _ assms] serve_auth_panic [OF _ _ _ assms]
  by (simp split: prod.split result.split)

theorem serve_recycles_authenticated_witness:
  "\<exists>res c. serve winnow_ref byteorder_ref mysql_common_ref demo_packets True 1 [] (demo_handshake 0x200)
     (reader_new []) demo_sink
     \<lparr>pc_id = [], pc_reader = reader_new [], pc_writer = writer_new demo_sink,
      pc_life_cycle = life_cycle_default, pc_shut = False\<rparr> = (res, c) \<and>
   res = Ok () \<and> mgr_recycle (cn_pooled c) = Err (IoError PermissionDenied ''connection is illegal'')"
proof -
  let ?conn = "\<lparr>pc_id = [], pc_reader = reader_new [], pc_writer = writer_new demo_sink,
      pc_life_cycle = life_cycle_default, pc_shut = False\<rparr>"
  let ?serve = "serve winnow_ref byteorder_ref mysql_common_ref demo_packets True 1 [] (demo_handshake 0x200)
     (reader_new []) demo_sink ?conn"
  let ?s = "serve_start (reader_new []) demo_sink ?conn"
  have "delivers (ss_backend_reader ?s) []"
    using demo_delivers [of "[]"] by (simp add: serve_start_def)
  then obtain r where "async_packet_read winnow_ref True Backend ?s =
      (Err (IoError ConnectionAborted ''connection disconnect.''), set_reader Backend r ?s)"
    using winnow_ref.async_packet_read_closed [of Backend ?s True] by auto
  then have "auth_outcome winnow_ref byteorder_ref mysql_common_ref demo_packets True 1 [] (demo_handshake 0x200)
      (reader_new []) demo_sink ?conn = (Err (IoError ConnectionAborted ''connection disconnect.''), set_reader Backend r ?s)"
    by (simp add: auth_outcome_def authenticate_def life_cycle_default_def reply_handshake_response_def bind_io_def)
  with serve_recycles_authenticated [of winnow_ref byteorder_ref mysql_common_ref demo_packets True 1 "[]"
      "demo_handshake 0x200" "reader_new []" demo_sink ?conn "fst ?serve" "snd ?serve"]
  show ?thesis by (intro exI [of _ "fst ?serve"] exI [of _ "snd ?serve"]) (simp add: prod_eq_iff)
qed

text \<open>
  C13. The pool's recycling check never panics. Every connection that can be in a pool (created by the
  manager, or recycled and used by further clients, whatever happened to them) has a life cycle whose
  user and phase are both set or both unset, so that \<open>recycle\<close> either accepts it or rejects it, and
  rejects it exactly in the connection phase.
\<close>

theorem pooled_recycle_decides:
  assumes "pooled W B M P chk c"
  shows "mgr_recycle c =
    (if lc_conn_phase (pc_life_cycle c) = Some PhaseConnection
     then Err (IoError PermissionDenied ''connection is illegal'') else Ok ())"
  using mgr_recycle_eq [OF pooled_wf [OF assms]] .

theorem pooled_recycle_decides_witness:
  "\<exists>c. mgr_create (\<lambda>_. Ok ([], demo_sink)) (lit ''id'') (pooled_conn_mgr_new demo_instance) = Ok c \<and> mgr_recycle c = Ok ()"
proof -
  obtain c where c: "mgr_create (\<lambda>_. Ok ([], demo_sink)) (lit ''id'') (pooled_conn_mgr_new demo_instance) = Ok c"
    "lc_conn_phase (pc_life_cycle c) = None"
    by (simp add: mgr_create_def backend_io_new_def get_backend_client_def life_cycle_default_def)
  have "pooled winnow_ref byteorder_ref mysql_common_ref demo_packets True c"
    by (rule pooled_create [OF c(1)])
  from pooled_recycle_decides [OF this] c show ?thesis by simp
qed

section \<open>The handshake\<close>

text \<open>
  C14. The first exchange. The proxy sends its greeting; a client that answers with a protocol 4.1
  handshake response (user, authentication data in either encoding, and the optional database, plugin
  and connection attributes its capabilities announce) is understood field by field, with the tenant
  split off the user name, and exactly its packet is consumed.
\<close>

theorem on_conn_handshake:
  assumes "winnow_spec W" "mysql_common_spec M" "byteorder_spec B"
    and "hello_ok c" "\<not> cap_set (ch_caps c) CLIENT_SSL"
    and "delivers (reader_new es) ((q, hello_head c @ hello_body c) # ps)" "sk_plan k = []"
  shows "\<exists>r' w'. on_conn W B M chk sync_router tls conn_id scramble es k =
      (Ok (q, change_tenant_if_need sync_router (hello_response M c), hello_head c @ hello_body c), r', w') \<and>
    delivers r' ps \<and> sk_sent (wr_inner w') = sk_sent k @
      wire 0 (concat (initial_handshake_fields M conn_id scramble DEFAULT_BACKEND_VERSION tls))"
proof -
  have cs: "codec_spec W M" using assms(1,2) by (rule codec_spec.intro)
  have "client_handshake_response W M (hello_head c @ hello_body c) False = Done [] (hello_response M c)"
    using codec_spec.handshake_round_trip [OF cs assms(4), of False "[]"] assms(5) by simp
  then show ?thesis
    using protocol_spec.on_conn_reads [OF protocol_spec.intro [OF cs assms(3)] assms(6,7),
        of chk sync_router tls conn_id scramble] by simp blast
qed

theorem on_conn_handshake_witness:
  "\<exists>h r' w'. on_conn winnow_ref byteorder_ref mysql_common_ref True True False 7 (replicate 20 1)
      [Data (frame 1 (hello_head demo_hello @ hello_body demo_hello))] demo_sink =
      (Ok (1, h, hello_head demo_hello @ hello_body demo_hello), r', w') \<and>
    hs_tenant_key h = Some (ascii ''tenant'') \<and> hs_username h = Some (ascii ''root'') \<and>
    hs_database h = Some (ascii ''db'')"
proof -
  let ?p = "hello_head demo_hello @ hello_body demo_hello"
  have "delivers (reader_new [Data (frame 1 ?p)]) [(1, ?p)]"
    using demo_delivers [of "[(1, ?p)]"] demo_hello_small by simp
  from on_conn_handshake [OF ref_specs(1,3,2) demo_hello_ok this, of demo_sink True True False 7 "replicate 20 1"]
  have "\<exists>r' w'. on_conn winnow_ref byteorder_ref mysql_common_ref True True False 7 (replicate 20 1)
      [Data (frame 1 ?p)] demo_sink =
      (Ok (1, change_tenant_if_need True (hello_response mysql_common_ref demo_hello), ?p), r', w')"
    by (auto simp: demo_sink_def)
  moreover have "change_tenant_if_need True (hello_response mysql_common_ref demo_hello) =
      (hello_response mysql_common_ref demo_hello)
        \<lparr>hs_tenant_key := Some (ascii ''tenant''), hs_username := Some (ascii ''root'')\<rparr>"
    by (rule change_tenant_split) (simp_all add: hello_response_def demo_hello_def ascii_def)
  ultimately show ?thesis
    by (auto simp: hello_response_def demo_hello_def cap_set_def)
qed

text \<open>
  C15. Two packets the protocol allows in place of a handshake response. A response with an empty user
  name makes the connection task panic: the parser rejects the packet and its result is unwrapped. A
  client that asks for TLS gets none: its SSL request is taken for a complete handshake response
  without user and authentication data, and the connection goes on unencrypted.
\<close>

theorem on_conn_mistaken_hellos:
  assumes "winnow_spec W" "mysql_common_spec M" "byteorder_spec B"
    and "cap_set (ch_caps c) CLIENT_PROTOCOL_41" "delivers (reader_new es) ((q, pkt) # ps)" "sk_plan k = []"
  shows "(\<not> cap_set (ch_caps c) CLIENT_SSL \<and> pkt = hello_head c @ 0 # i \<longrightarrow>
      fst (on_conn W B M chk sync_router tls conn_id scramble es k) = Panic) \<and>
    (cap_set (ch_caps c) CLIENT_SSL \<and> pkt = hello_head c \<longrightarrow>
      fst (on_conn W B M chk sync_router tls conn_id scramble es k) = Ok (q, tls_request M c, hello_head c))"
proof (intro conjI impI; elim conjE)
  have cs: "codec_spec W M" using assms(1,2) by (rule codec_spec.intro)
  note reads = protocol_spec.on_conn_reads [OF protocol_spec.intro [OF cs assms(3)] assms(5,6),
      of chk sync_router tls conn_id scramble]
  show "fst (on_conn W B M chk sync_router tls conn_id scramble es k) = Panic"
    if "\<not> cap_set (ch_caps c) CLIENT_SSL" "pkt = hello_head c @ 0 # i"
  proof -
    have "backtracks (client_handshake_response W M pkt False)"
      using codec_spec.handshake_empty_username [OF cs assms(4)] that by simp
    then show ?thesis using reads by fastforce
  qed
  show "fst (on_conn W B M chk sync_router tls conn_id scramble es k) = Ok (q, tls_request M c, hello_head c)"
    if "cap_set (ch_caps c) CLIENT_SSL" "pkt = hello_head c"
  proof -
    have "client_handshake_response W M pkt False = Done [] (tls_request M c)"
      using codec_spec.handshake_tls_request [OF cs assms(4) that(1), of "[]"] that(2) by simp
    moreover have "change_tenant_if_need sync_router (tls_request M c) = tls_request M c"
      by (simp add: change_tenant_if_need_def tls_request_def)
    ultimately show ?thesis using reads that(2) by fastforce
  qed
qed

theorem on_conn_mistaken_hellos_witness:
  "fst (on_conn winnow_ref byteorder_ref mysql_common_ref True True False 7 (replicate 20 1)
      [Data (frame 1 (hello_head demo_hello @ [0, 0]))] demo_sink) = Panic \<and>
   fst (on_conn winnow_ref byteorder_ref mysql_common_ref True True True 7 (replicate 20 1)
      [Data (frame 1 (hello_head (demo_hello\<lparr>ch_caps := 0xa00\<rparr>)))] demo_sink) =
    Ok (1, tls_request mysql_common_ref (demo_hello\<lparr>ch_caps := 0xa00\<rparr>), hello_head (demo_hello\<lparr>ch_caps := 0xa00\<rparr>))"
proof
  have caps: "cap_set (ch_caps demo_hello) CLIENT_PROTOCOL_41" "sk_plan demo_sink = []"
    "cap_set (ch_caps (demo_hello\<lparr>ch_caps := 0xa00\<rparr>)) CLIENT_PROTOCOL_41"
    "cap_set (ch_caps (demo_hello\<lparr>ch_caps := 0xa00\<rparr>)) CLIENT_SSL"
    by (simp_all add: cap_set_def demo_hello_def demo_sink_def)
  let ?p = "hello_head demo_hello @ [0, 0]"
  have "delivers (reader_new [Data (frame 1 ?p)]) [(1, ?p)]"
    using demo_delivers [of "[(1, ?p)]"] by (simp add: hello_head_def MAX_PAYLOAD_LEN_def)
  from on_conn_mistaken_hellos [OF ref_specs(1,3,2) caps(1) this caps(2), of "[0]"] demo_hello_ok(2)
  show "fst (on_conn winnow_ref byteorder_ref mysql_common_ref True True False 7 (replicate 20 1)
      [Data (frame 1 ?p)] demo_sink) = Panic" by simp
  let ?q = "hello_head (demo_hello\<lparr>ch_caps := 0xa00\<rparr>)"
  have "delivers (reader_new [Data (frame 1 ?q)]) [(1, ?q)]"
    using demo_delivers [of "[(1, ?q)]"] by (simp add: hello_head_def MAX_PAYLOAD_LEN_def)
  from on_conn_mistaken_hellos [OF ref_specs(1,3,2) caps(3) this caps(2)] caps(4)
  show "fst (on_conn winnow_ref byteorder_ref mysql_common_ref True True True 7 (replicate 20 1)
      [Data (frame 1 ?q)] demo_sink) = Ok (1, tls_request mysql_common_ref (demo_hello\<lparr>ch_caps := 0xa00\<rparr>), ?q)"
    by blast
qed

section \<open>Packets the proxy writes\<close>

text \<open>
  C16. An OK packet the proxy writes for a client with protocol 4.1 reads back as the packet that was
  written, with two losses: the warning count is always sent as zero, and the info and session-state
  strings come back only to clients with session tracking.
\<close>

theorem ok_packet_round_trip:
  assumes "winnow_spec W" "mysql_common_spec M" "byteorder_spec B"
    and "cap_set caps CLIENT_PROTOCOL_41" "ok_wf ok" "wr_buf w = []" "no_fail (sk_plan (wr_inner w))"
  shows "\<exists>w' p r. write_ok_packet_with_client_flags B M caps ok w = (Ok (), w') \<and>
    sk_sent (wr_inner w') = sk_sent (wr_inner w) @ wire (wr_seq w) p \<and>
    ok_packet W M p caps = Done r (ok_read_back M caps ok)"
proof -
  have ps: "protocol_spec W M B" using assms(1-3) by (intro protocol_spec.intro codec_spec.intro)
  obtain r where "ok_packet W M (concat (ok_fields B M caps ok)) caps = Done r (ok_read_back M caps ok)"
    using protocol_spec.ok_payload_round_trip [OF ps assms(4,5)] by blast
  then show ?thesis
    using emitsD [OF protocol_spec.emits_ok_packet_with_client_flags [OF ps] assms(6,7), of caps ok]
    by (metis wires.simps append_Nil2)
qed

theorem ok_packet_round_trip_witness:
  "\<exists>w' p r. write_ok_packet_with_client_flags byteorder_ref mysql_common_ref 0x800200
      \<lparr>ok_header = 0, ok_affected_rows = 300, ok_last_insert_id = 7, ok_status_flags = 2, ok_warnings = 4,
       ok_info = lit ''done'', ok_session_state_info = []\<rparr> (writer_new (sink_new [Accept 3])) = (Ok (), w') \<and>
    sk_sent (wr_inner w') = wire 0 p \<and>
    ok_packet winnow_ref mysql_common_ref p 0x800200 = Done r
      \<lparr>ok_header = 0, ok_affected_rows = 300, ok_last_insert_id = 7, ok_status_flags = 2, ok_warnings = 0,
       ok_info = lit ''done'', ok_session_state_info = []\<rparr>"
proof -
  let ?ok = "\<lparr>ok_header = 0, ok_affected_rows = 300, ok_last_insert_id = 7, ok_status_flags = 2, ok_warnings = 4,
       ok_info = lit ''done'', ok_session_state_info = []\<rparr>"
  have "ok_wf ?ok" by (simp add: ok_wf_def attr_ok_def lit_def is_scalar_def utf8_encode_def utf8_char_def)
  from ok_packet_round_trip [OF ref_specs(1,3,2) _ this, of "0x800200" "writer_new (sink_new [Accept 3])"]
  show ?thesis
    by (auto simp: cap_set_def writer_new_def sink_new_def ok_read_back_def mysql_common_ref_def)
qed



text \<open>
  C18. An error the proxy reports. For every error kind the packet is an error packet (\<open>is_err_packet\<close>) that
  carries the kind's number, its five-character SQL state and the message, and the client library, with
  the capability of protocol 4.1, reads the message back from it.
\<close>

theorem err_packet_written:
  assumes "byteorder_spec B" "mysql_common_spec M" "err \<in> set error_kinds" "wr_buf w = []" "no_fail (sk_plan (wr_inner w))"
  shows "\<exists>w' p state. write_err_packet B err msg w = (Ok (), w') \<and>
    sk_sent (wr_inner w') = sk_sent (wr_inner w) @ wire (wr_seq w) p \<and> is_err_packet p \<and>
    sqlstate err = Some state \<and> length state = 5 \<and> error_kind_from (word_of_nat (le_val (take 2 (drop 1 p)))) = Ok err \<and>
    take 6 (drop 3 p) = ascii (''#'' @ state) \<and> drop 9 p = msg \<and>
    (\<forall>caps. has_cap M caps CLIENT_PROTOCOL_41 \<longrightarrow> err_message M caps p = Some msg)"
proof -
  obtain st where st: "sqlstate err = Some st" "length st = 5" using sqlstate_total [OF assms(3)] by blast
  have small: "err < 2 ^ 16" "err < 0xffff" using assms(3) by (simp_all add: error_kinds_upt del: upt_rec_numeral)
  let ?p = "0xff # le_bytes 2 err @ ascii (''#'' @ st) @ msg"
  have ps: "protocol_spec winnow_ref mysql_common_ref B"
    using assms(1) ref_specs by (intro protocol_spec.intro codec_spec.intro)
  obtain w' where w': "write_err_packet B err msg w = (Ok (), w')"
    "sk_sent (wr_inner w') = sk_sent (wr_inner w) @ wires (wr_seq w) [?p]"
    using emitsD [OF protocol_spec.emits_err_packet [OF ps st(1) small(1)] assms(4,5), of msg thesis] by blast
  have "unat (word_of_nat err :: u16) = err" using small by (simp add: unat_of_nat)
  then have "error_kind_from (word_of_nat (le_val (take 2 (drop 1 ?p)))) = Ok err"
    using small assms(3) by (simp add: le_val_le_bytes_small error_kind_from_Ok)
  moreover have "\<forall>caps. has_cap M caps CLIENT_PROTOCOL_41 \<longrightarrow> err_message M caps ?p = Some msg"
    using mysql_common_spec.err_message [OF assms(2) _ small(2), of _ "ascii st" msg] st(2) by (simp add: ascii_def)
  ultimately show ?thesis using w' st
    by (intro exI [of _ w'] exI [of _ ?p] exI [of _ st]) (simp add: is_err_packet_def ascii_def)
qed

theorem err_packet_written_witness:
  "\<exists>w' p. write_err_packet byteorder_ref ER_ACCESS_DENIED_ERROR (ascii ''denied'') (writer_new demo_sink) = (Ok (), w') \<and>
     sk_sent (wr_inner w') = wire 0 p \<and> err_message mysql_common_ref 0x200 p = Some (ascii ''denied'')"
proof -
  have "ER_ACCESS_DENIED_ERROR \<in> set error_kinds"
    by (simp add: error_kinds_upt ER_ACCESS_DENIED_ERROR_def del: upt_rec_numeral)
  moreover have "has_cap mysql_common_ref 0x200 CLIENT_PROTOCOL_41" by (simp add: mysql_common_ref_def)
  ultimately show ?thesis
    using err_packet_written [OF ref_specs(2,3), of _ "writer_new demo_sink" "ascii ''denied''"]
    by (fastforce simp: writer_new_def demo_sink_def)
qed

section \<open>Tenants and commands\<close>

text \<open>
  C19. A tenant key survives its encoding: when each field is shorter than 256 bytes and the first three
  together too, \<open>decode_tenant_key\<close> gives back the key \<open>encode_tenant_key\<close> was applied to, in debug and
  release builds alike and for arbitrary (also non-ASCII) fields.
\<close>

theorem tenant_key_round_trip:
  assumes "hex_spec H" "lengths_fit k" "prefix_len k < 256"
  shows "decode_tenant_key H chk (encode_tenant_key H k) = Ok k"
  using hex_spec.decode_encode_tenant_key [OF assms] .

theorem tenant_key_round_trip_witness:
  "decode_tenant_key hex_ref True (encode_tenant_key hex_ref test_tenant_key) = Ok test_tenant_key"
  by (rule tenant_key_round_trip [OF hex_ref.hex_spec_axioms])
    (simp_all add: lengths_fit_def prefix_len_def test_tenant_key_def lit_def str_len_def char_len_def)

text \<open>
  C20. The offsets of the decoder are summed in eight bits: for a key whose first three fields have 256
  bytes or more together, every field short enough to be encoded, decoding its own encoding overflows and
  panics in a build with overflow checks.
\<close>

theorem tenant_key_overflow:
  assumes "hex_spec H" "lengths_fit k" "256 \<le> prefix_len k"
  shows "decode_tenant_key H True (encode_tenant_key H k) = Panic"
  using hex_spec.decode_encode_overflow [OF assms] .

theorem tenant_key_overflow_witness:
  "decode_tenant_key hex_ref True (encode_tenant_key hex_ref
     \<lparr>tk_region = replicate 100 97, tk_available_zone = replicate 100 98, tk_namespace = replicate 100 99,
      tk_cluster_name = []\<rparr>) = Panic"
  by (rule tenant_key_overflow [OF hex_ref.hex_spec_axioms])
    (simp_all add: lengths_fit_def prefix_len_def str_len_def char_len_def sum_list_replicate)

section \<open>Backends\<close>

text \<open>
  C21. A proxy started with a list of backend addresses and no other option routes every client to one of
  them: the manager \<open>main\<close> builds has a pool for each address of the comma-separated list once
  \<open>prepare_backend_conn_pool\<close> has run, and a client without a tenant gets the pool of an address in
  the list, whatever the random generator draws, provided that a pool can be built for each address.
\<close>

theorem startup_routes_to_listed:
  fixes build :: "BackendInstance \<Rightarrow> nat \<Rightarrow> 'p option"
  assumes "lowercase_spec L" "rng_spec G"
    and "pa_router a = None" "pa_balance a = None" "pa_backend a = Some (BackendArg (join_char 44 addrs))"
    and "addrs \<noteq> []" "list_all (\<lambda>addr. 44 \<notin> set addr) addrs"
    and "\<And>inst n. build inst n \<noteq> None" "hs_tenant_key h = None"
  shows "\<exists>m m' addr pool. startup L uri env a = Ok (m, False, None) \<and>
    prepare_backend_conn_pool build bursts m = (Ok (), m') \<and> addr \<in> set addrs \<and>
    build (backend_at addr) (max_size m) = Some pool \<and> connect_to_backend H G chk h m' = Ok pool"
proof -
  let ?bs = "map backend_at addrs"
  let ?m = "backend_mgr_new (Static \<lparr>rt_backend_addrs = ?bs\<rparr>) manager_options_default :: 'p BackendMgr"
  have bs: "static_backend_list a = ?bs"
    using assms(5-7) by (simp add: static_backend_list_def split_join)
  have m: "startup L uri env a = Ok (?m, False, None)"
    using startup_default [OF assms(1,3,4)] bs by simp
  have ready: "\<forall>b \<in> set ?bs. bi_status b = Ready \<and> build b (max_size ?m) \<noteq> None"
    using assms(8) by (simp add: backend_at_def)
  have router: "bm_router ?m = Static \<lparr>rt_backend_addrs = ?bs\<rparr>" and ne: "?bs \<noteq> []"
    and random: "opt_balance_type (bm_options ?m) = Random"
    using assms(6) by (simp_all add: backend_mgr_new_def manager_options_default_def)
  have k: "tenant_of H chk h = Ok test_tenant_key" using assms(9) by (simp add: tenant_of_def)
  obtain m' b pool where "prepare_backend_conn_pool build bursts ?m = (Ok (), m')" "b \<in> set ?bs"
    "build b (max_size ?m) = Some pool" "connect_to_backend H G chk h m' = Ok pool"
    by (rule rng_spec.static_connects [where build = build and m = ?m and bs = ?bs and bursts = bursts,
          OF assms(2) router ne random ready k])
  with m show ?thesis by auto
qed

definition demo_args :: ProxyServerArgs where
  "demo_args = \<lparr>pa_works = 4, pa_port = 3310, pa_http_port = 9000, pa_tls = False, pa_enable_metrics = False,
     pa_enable_rest = False, pa_router = None, pa_balance = None, pa_log_level = None, pa_cp_addr = None,
     pa_curr_node = None, pa_namespace = None, pa_backend = Some (BackendArg (lit ''a:1,b:2'')),
     pa_cp_args = \<lparr>cpa_enable_cp = False, cpa_cp_target_addr = None\<rparr>\<rparr>"

theorem startup_routes_to_listed_witness:
  "\<exists>m m' addr. startup (map to_ascii_lowercase) (\<lambda>s. None) (\<lambda>s. None) demo_args = Ok (m, False, None) \<and>
    prepare_backend_conn_pool (\<lambda>inst n. Some (bi_addr inst)) [] m = (Ok (), m') \<and>
    addr \<in> {lit ''a:1'', lit ''b:2''} \<and> connect_to_backend hex_ref (\<lambda>n. n - 1) True (demo_handshake 0) m' = Ok addr"
proof -
  have G: "rng_spec (\<lambda>n. n - 1)" by (rule rng_spec.intro) simp
  have b: "pa_backend demo_args = Some (BackendArg (join_char 44 [lit ''a:1'', lit ''b:2'']))"
    by (simp add: demo_args_def lit_def)
  from startup_routes_to_listed [OF lowercase_ref.lowercase_spec_axioms G _ _ b, of "\<lambda>inst n. Some (bi_addr inst)"
      "demo_handshake 0" "\<lambda>s. None" "\<lambda>s. None" "[]" hex_ref True]
  show ?thesis by (fastforce simp: demo_args_def demo_handshake_def backend_at_def lit_def)
qed

text \<open>
  C22. The members of the control plane take turns: as long as the list of members does not change,
  among any \<open>n + 1\<close> calls of \<open>get_cp_backend\<close> in a row, \<open>n\<close> being the number of available members, every
  available member is chosen. The call panics exactly when no member is available.
\<close>

theorem resolver_round_robin:
  assumes "c \<in> set (available_channels r)" "length (available_channels r) < 2 ^ 64"
  shows "Ok c \<in> set (picks (Suc (length (available_channels r))) r) \<and>
    fst (get_cp_backend r) \<noteq> Panic \<and>
    fst (get_cp_backend (r'\<lparr>cr_backends := filter (\<lambda>(name, c). ch_status c = Unavailable) (cr_backends r)\<rparr>)) = Panic"
proof -
  have "available_channels (r'\<lparr>cr_backends := filter (\<lambda>(name, c). ch_status c = Unavailable) (cr_backends r)\<rparr>) = []"
    by (auto simp: available_channels_def filter_empty_conv)
  then show ?thesis
    using picks_round_robin [OF assms] assms(1) by (auto simp: get_cp_backend_panics)
qed

definition demo_channel :: "CpChannelStatus \<Rightarrow> rstr \<Rightarrow> nat CpChannel" where
  "demo_channel st name = \<lparr>ch_status = st, ch_generation = 1, ch_channel = 0, ch_backend_name = name,
     ch_service = [], ch_endpoint = []\<rparr>"

definition demo_resolver :: "CpChannelStatus \<Rightarrow> nat CpResolver" where
  "demo_resolver st = \<lparr>cr_cp_service = [], cr_interval = 1,
     cr_backends = [(lit ''m1'', demo_channel Available (lit ''m1'')), (lit ''m2'', demo_channel st (lit ''m2''))],
     cr_started = True, cr_pick_index = 2 ^ 64 - 1\<rparr>"

theorem resolver_round_robin_witness:
  "Ok (demo_channel Available (lit ''m2'')) \<in> set (picks 3 (demo_resolver Available))"
  using resolver_round_robin [of "demo_channel Available (lit ''m2'')" "demo_resolver Available", THEN conjunct1]
  by (simp add: available_channels_def demo_resolver_def demo_channel_def numeral_3_eq_3)

text \<open>
  C23. A refresh of the member list. Afterwards the resolver knows exactly the members that were listed
  and could be reached, all of them available; a member's generation is at least the listed one and
  never falls while the member stays available; the invariant that each channel is stored under its
  own name is kept, also when a member is marked unavailable. The names in the list are distinct.
\<close>

theorem resolver_refresh:
  assumes "resolver_wf r" "distinct (map cb_name bs)"
  shows "resolver_wf (update_backends conn bs r) \<and> resolver_wf (mark_backend_unavailable member r) \<and>
    dom (dm_get (cr_backends (update_backends conn bs r))) =
      {cb_name b | b. b \<in> set bs \<and> conn (lit ''http://'' @ cb_service_addr b) \<noteq> None} \<and>
    (\<forall>b \<in> set bs. \<forall>c. dm_get (cr_backends (update_backends conn bs r)) (cb_name b) = Some c \<longrightarrow>
       ch_status c = Available \<and> cb_generation b \<le> ch_generation c \<and>
       (\<forall>old. dm_get (cr_backends r) (cb_name b) = Some old \<and> ch_status old = Available \<longrightarrow>
          ch_generation old \<le> ch_generation c))"
proof (intro conjI ballI allI impI)
  show "resolver_wf (update_backends conn bs r)" by (rule update_backends_wf [OF assms])
  show "resolver_wf (mark_backend_unavailable member r)" by (rule mark_unavailable_wf [OF assms(1)])
  show "dom (dm_get (cr_backends (update_backends conn bs r))) =
      {cb_name b | b. b \<in> set bs \<and> conn (lit ''http://'' @ cb_service_addr b) \<noteq> None}"
    by (rule update_backends_dom [OF assms(2)])
next
  fix b c
  assume b: "b \<in> set bs" "dm_get (cr_backends (update_backends conn bs r)) (cb_name b) = Some c"
  then have c: "refreshed conn b (dm_get (cr_backends r) (cb_name b)) = Some c"
    by (simp add: update_backends_listed [OF assms(2)])
  then show "ch_status c = Available" "cb_generation b \<le> ch_generation c" by (rule refreshed_available)+
  fix old
  assume "dm_get (cr_backends r) (cb_name b) = Some old \<and> ch_status old = Available"
  then show "ch_generation old \<le> ch_generation c" using refreshed_available(3) [OF c] by blast
qed

definition demo_member :: "rstr \<Rightarrow> rstr \<Rightarrow> CpBackend" where
  "demo_member name addr = \<lparr>cb_name = name, cb_generation = 5, cb_role = 0, cb_gossip_addr = [],
     cb_service_addr = addr, cb_address = [], cb_ready = 1\<rparr>"

lemma demo_member_simps [simp]: "cb_name (demo_member name addr) = name" "cb_service_addr (demo_member name addr) = addr"
  by (simp_all add: demo_member_def)

theorem resolver_refresh_witness:
  "dom (dm_get (cr_backends (update_backends (\<lambda>uri. if uri = lit ''http://x'' then Some 7 else None)
     [demo_member (lit ''m1'') (lit ''x''), demo_member (lit ''m3'') (lit ''y'')] (demo_resolver Available)))) =
   {lit ''m1''}"
proof -
  have "resolver_wf (demo_resolver Available)"
    by (simp add: resolver_wf_def dm_wf_def demo_resolver_def demo_channel_def lit_def)
  from resolver_refresh [OF this, of "[demo_member (lit ''m1'') (lit ''x''), demo_member (lit ''m3'') (lit ''y'')]"
      "\<lambda>uri. if uri = lit ''http://x'' then Some 7 else None", THEN conjunct2, THEN conjunct2, THEN conjunct1]
  show ?thesis by (simp add: lit_def) (auto split: if_splits intro!: exI [of _ "demo_member [109, 49] [120]"])
qed

text \<open>
  C24. What the discovery knows is what the control plane announced last. Whatever a subscription
  delivers, the discovery goes through the items up to the first one that ends it. Every item before
  that one is an announcement for a tenant of the table, or concerns the queue of requests; the
  announcements update, one by one, the instance at the announced address of the announced tenant, and
  every announced instance goes to the watch channel of the router. A broken stream or an empty payload
  ends the subscription with an error; any other payload, an incomplete announcement and an
  announcement for a tenant that is not in the table end it with a panic. The tenants of the table stay
  the same, and the invariant that a tenant has at most one instance per address, each of the tenant's
  cluster, is kept.
\<close>

theorem discovery_refines_announcements:
  assumes "discovery_wf d" "tenants = dom (dm_get (bd_tenants d))"
  shows "\<exists>seen rest d'. items = seen @ rest \<and>
    (\<forall>item \<in> set seen. item_verdict tenants item = Ok ()) \<and>
    (case rest of [] \<Rightarrow> recv_stream items d = (Ok (), d')
     | item # _ \<Rightarrow> item_verdict tenants item \<noteq> Ok () \<and> recv_stream items d = (item_verdict tenants item, d')) \<and>
    discovery_wf d' \<and> dom (dm_get (bd_tenants d')) = tenants \<and>
    instance_at d' = foldl learn (instance_at d) (List.map_filter announced seen) \<and>
    bd_db_instance d' = foldl (\<lambda>w ki. watch_send (snd ki) w) (bd_db_instance d) (List.map_filter announced seen)"
  unfolding assms(2) by (rule recv_stream_follows [OF assms(1)])

definition demo_service :: "32 word \<Rightarrow> DBService" where
  "demo_service status = \<lparr>svc_location = Some \<lparr>loc_region = [], loc_available_zone = [], loc_namespace = lit ''ns'',
       loc_node_name = []\<rparr>, svc_cluster = lit ''c'', svc_service = [], svc_status = status, svc_expose = None,
     svc_secrets = None, svc_endpoints = [\<lparr>ep_address = lit ''db'', ep_port_name = lit ''sql-port'', ep_port = 7\<rparr>],
     svc_payload = fmempty\<rparr>"

definition demo_event :: "32 word \<Rightarrow> ServiceChangeEvent" where
  "demo_event status = \<lparr>ce_service = Some (demo_service status), ce_event_timestamp = None\<rparr>"

definition demo_tenant :: TenantKey where
  "demo_tenant = \<lparr>tk_region = [], tk_available_zone = [], tk_namespace = lit ''ns'', tk_cluster_name = lit ''c''\<rparr>"

definition demo_db :: "ServiceStatus \<Rightarrow> BackendInstance" where
  "demo_db st = \<lparr>bi_location = \<lparr>loc_region = [], loc_available_zone = [], loc_namespace = lit ''ns'', loc_node_name = []\<rparr>,
     bi_addr = lit ''db:7'', bi_status = st, bi_cluster = \<lparr>cn_namespace = lit ''ns'', cn_cluster_name = lit ''c''\<rparr>\<rparr>"

lemma demo_service_changes:
  "changed_instance (demo_service 2) = Ok (demo_tenant, demo_db Ready)"
  "changed_instance (demo_service 3) = Ok (demo_tenant, demo_db Offline)"
  by (simp_all add: changed_instance_def demo_service_def demo_tenant_def demo_db_def SQL_PORT_def show_i32_def
      svc_get_status_def lit_def digits.simps Let_def)

lemma demo_event_announces:
  "announced (event_item (demo_event 2)) = Some (demo_tenant, demo_db Ready)"
  "announced (event_item (demo_event 3)) = Some (demo_tenant, demo_db Offline)"
  by (simp_all add: announced_event demo_event_def demo_service_changes)

theorem discovery_refines_announcements_witness:
  "\<exists>d'. recv_stream [event_item (demo_event 2), Queue (Queued demo_tenant), event_item (demo_event 3), Message None]
      (unsubscribed_tenants demo_tenant (discovery_new [] [])) =
      (Err (IoError (OtherIo 0) ''BackendDiscovery receive empty payload.''), d') \<and>
    instance_at d' demo_tenant (lit ''db:7'') = Some (demo_db Offline)"
proof -
  let ?d = "unsubscribed_tenants demo_tenant (discovery_new [] [])"
  let ?items = "[event_item (demo_event 2), Queue (Queued demo_tenant), event_item (demo_event 3), Message None]"
  have wf: "discovery_wf ?d" by (intro unsubscribed_tenants_wf discovery_wf_new)
  have T: "{demo_tenant} = dom (dm_get (bd_tenants ?d))" by (simp add: unsubscribed_tenants_def discovery_new_def)
  have v: "item_verdict {demo_tenant} (event_item (demo_event 2)) = Ok ()"
    "item_verdict {demo_tenant} (Queue (Queued demo_tenant)) = Ok ()"
    "item_verdict {demo_tenant} (event_item (demo_event 3)) = Ok ()"
    "item_verdict {demo_tenant} (Message None) = Err (IoError (OtherIo 0) ''BackendDiscovery receive empty payload.'')"
    by (simp_all add: item_verdict_def demo_event_announces)
  have q: "announced (Queue (Queued demo_tenant)) = None" by (simp add: announced_def)
  from discovery_refines_announcements [OF wf T, of ?items] obtain seen rest d' where
    f: "?items = seen @ rest" "\<forall>item \<in> set seen. item_verdict {demo_tenant} item = Ok ()"
      "case rest of [] \<Rightarrow> recv_stream ?items ?d = (Ok (), d')
       | item # _ \<Rightarrow> item_verdict {demo_tenant} item \<noteq> Ok () \<and> recv_stream ?items ?d = (item_verdict {demo_tenant} item, d')"
      "instance_at d' = foldl learn (instance_at ?d) (List.map_filter announced seen)" by blast
  have "rest = [Message None]"
    using f(1-3) v by (auto simp: Cons_eq_append_conv simp del: recv_stream.simps)
  then show ?thesis using f v q
    by (intro exI [of _ d']) (auto simp: List.map_filter_def demo_event_announces demo_db_def lit_def simp del: recv_stream.simps)
qed

text \<open>
  C25. When a subscription fails, the discovery marks the member it used as unavailable and subscribes
  again at a different one, which is available; every tenant of its table is queued again, and asked for
  once the request stream has been polled empty. When no member is left, the task panics.
\<close>

theorem discovery_retries_elsewhere:
  assumes "send_subscribe (at_subscription a) d = (Err e, d1)"
    and "r1 = mark_backend_unavailable (ch_backend_name c)
      (foldl (\<lambda>r bs. update_backends conn bs r) r (at_refreshes a))" "resolver_wf r1"
  shows "(case get_cp_backend r1 of
      (Ok c1, r2) \<Rightarrow> discover_loop conn (a # as) c r d = discover_loop conn as c1 r2 (resubscribe d1) \<and>
        ch_backend_name c1 \<noteq> ch_backend_name c \<and> ch_status c1 = Available
    | (_, r2) \<Rightarrow> fst (discover_loop conn (a # as) c r d) = Panic) \<and>
    (k \<in> dom (dm_get (bd_tenants d1)) \<longrightarrow>
      subscribe_request (bd_node_id d1) (bd_namespace d1) k \<in>
        set (bd_requests ((send_stream ^^ length (bd_tenant_keys (resubscribe d1))) (resubscribe d1))))"
proof
  show "k \<in> dom (dm_get (bd_tenants d1)) \<longrightarrow>
      subscribe_request (bd_node_id d1) (bd_namespace d1) k \<in>
        set (bd_requests ((send_stream ^^ length (bd_tenant_keys (resubscribe d1))) (resubscribe d1)))"
    by (intro impI resubscribe_requests)
  have "fst (discover_loop conn (a # as) c r d) = Panic" if "fst (get_cp_backend r1) = Panic"
    using that discover_loop_no_member [OF assms(1), of c conn r as] assms(2) by (simp add: get_cp_backend_panics)
  moreover have "fst (get_cp_backend r1) = Panic \<or> (\<exists>c1 r2. get_cp_backend r1 = (Ok c1, r2))"
    by (simp add: get_cp_backend_eq Let_def)
  ultimately show "case get_cp_backend r1 of
      (Ok c1, r2) \<Rightarrow> discover_loop conn (a # as) c r d = discover_loop conn as c1 r2 (resubscribe d1) \<and>
        ch_backend_name c1 \<noteq> ch_backend_name c \<and> ch_status c1 = Available
    | (_, r2) \<Rightarrow> fst (discover_loop conn (a # as) c r d) = Panic"
    using discover_loop_retry [OF assms(1,2)] get_cp_backend_available [OF assms(3)] assms(3) by fastforce
qed

theorem discovery_retries_elsewhere_witness:
  "\<exists>r2. discover_loop (\<lambda>uri. Some 0) [\<lparr>at_refreshes = [], at_subscription = Rejected []\<rparr>,
        \<lparr>at_refreshes = [], at_subscription = Streaming []\<rparr>]
      (demo_channel Available (lit ''m1'')) (demo_resolver Available) (discovery_new [] []) =
    discover_loop (\<lambda>uri. Some 0) [\<lparr>at_refreshes = [], at_subscription = Streaming []\<rparr>]
      (demo_channel Available (lit ''m2'')) r2 (discovery_new [] [])"
proof -
  let ?r1 = "mark_backend_unavailable (lit ''m1'') (demo_resolver Available)"
  have wf: "resolver_wf ?r1"
    by (rule mark_unavailable_wf) (simp add: resolver_wf_def dm_wf_def demo_resolver_def demo_channel_def lit_def)
  have pick: "get_cp_backend ?r1 = (Ok (demo_channel Available (lit ''m2'')), ?r1\<lparr>cr_pick_index := 0\<rparr>)"
    by (simp add: get_cp_backend_def available_channels_def mark_backend_unavailable_def demo_resolver_def
        demo_channel_def lit_def)
  show ?thesis
    using discovery_retries_elsewhere [of "\<lparr>at_refreshes = [], at_subscription = Rejected []\<rparr>" "discovery_new [] []" _
        "discovery_new [] []" ?r1 "demo_channel Available (lit ''m1'')" "\<lambda>uri. Some 0" "demo_resolver Available"
        "[\<lparr>at_refreshes = [], at_subscription = Streaming []\<rparr>]" demo_tenant] wf pick
    by (auto simp: send_subscribe_def resubscribe_def discovery_new_def demo_channel_def)
qed

text \<open>
  C26. The router that follows the control plane never routes a client. Nothing the proxy does adds a
  tenant to the discovery (\<open>unsubscribed_tenants\<close> has no caller), so that in every state the discovery
  can reach after start-up no client gets a backend: one whose tenant can be read off its user name is
  refused with \<open>Tenant not found\<close>, and any other ends the way the decoding of its tenant prefix does, a
  panic included. The first change event of the control plane makes the discovery task panic. Adding a
  tenant through the REST interface is answered with \<open>201\<close> and changes nothing about it.
\<close>

theorem sync_router_never_routes:
  assumes "discovered d" "bm_router m = Sync \<lparr>rt_be_discovery = d\<rparr>"
  shows "connect_to_backend H G chk h m =
      (case tenant_of H chk h of Ok _ \<Rightarrow> Err (IoError NotFound ''Tenant not found'') | Err e \<Rightarrow> Err e
       | Panic \<Rightarrow> Panic | Diverge \<Rightarrow> Diverge) \<and>
    connect_to_backend H G chk h m \<noteq> Ok pool \<and>
    fst (recv_stream (Message (Some (ChangeEvent event)) # items) d) = Panic \<and>
    (startup L uri env a = Ok (m0, True, r) \<longrightarrow> (\<exists>d0. discovered d0 \<and> bm_router m0 = Sync \<lparr>rt_be_discovery = d0\<rparr>)) \<and>
    api_code (fst (add_tenant env k (Some d))) = 201 \<and> discovered (snd (add_tenant env k (Some d)))"
proof (intro conjI impI)
  obtain resp d' where added: "add_tenant env k (Some d) = (resp, d')" by fastforce
  show "api_code (fst (add_tenant env k (Some d))) = 201" "discovered (snd (add_tenant env k (Some d)))"
    using add_tenant_accepted [OF added] assms(1) added by simp_all
  show "connect_to_backend H G chk h m =
      (case tenant_of H chk h of Ok _ \<Rightarrow> Err (IoError NotFound ''Tenant not found'') | Err e \<Rightarrow> Err e
       | Panic \<Rightarrow> Panic | Diverge \<Rightarrow> Diverge)" "connect_to_backend H G chk h m \<noteq> Ok pool"
    using assms(2) discovered_no_tenants [OF assms(1)]
    by (cases "tenant_of H chk h"; simp add: connect_to_backend_def sync_selector_def)+
  show "fst (recv_stream (Message (Some (ChangeEvent event)) # items) d) = Panic"
    by (rule discovered_event_panics [OF assms(1)])
  assume "startup L uri env a = Ok (m0, True, r)"
  then show "\<exists>d0. discovered d0 \<and> bm_router m0 = Sync \<lparr>rt_be_discovery = d0\<rparr>"
    using startup_Ok(3) disc_new by fastforce
qed

theorem sync_router_never_routes_witness:
  "\<exists>m r. startup (map to_ascii_lowercase) (\<lambda>s. Some None) (\<lambda>s. None)
      (demo_args\<lparr>pa_router := Some (lit ''sync-with-cp''), pa_cp_addr := Some (lit ''cp'')\<rparr>) = Ok (m, True, r) \<and>
    connect_to_backend hex_ref (\<lambda>n. 0) True (demo_handshake 0) (m :: nat BackendMgr) =
      Err (IoError NotFound ''Tenant not found'')"
proof -
  let ?a = "demo_args\<lparr>pa_router := Some (lit ''sync-with-cp''), pa_cp_addr := Some (lit ''cp'')\<rparr>"
  let ?d = "discovery_new (lit ''local_node'') (lit ''default'')"
  let ?m = "backend_mgr_new (Sync \<lparr>rt_be_discovery = ?d\<rparr>) (manager_options_default\<lparr>opt_static_router := False\<rparr>) :: nat BackendMgr"
  have start: "\<exists>r. startup (map to_ascii_lowercase) (\<lambda>s. Some None) (\<lambda>s. None) ?a = Ok (?m, True, r)"
    by (simp add: startup_def new_backend_opts_def new_backend_router_def router_type_def router_from_str_def
        sync_router_new_def start_backend_discovery_def get_backend_discovery_def cp_resolver_new_def balancer_type_def balancer_from_str_def
        manager_options_default_def get_node_id_def get_namespace_def demo_args_def eq_ignore_ascii_case_def
        to_ascii_lowercase_def lit_def)
  have "connect_to_backend hex_ref (\<lambda>n. 0) True (demo_handshake 0) ?m = Err (IoError NotFound ''Tenant not found'')"
    using sync_router_never_routes [OF disc_new, of ?m, THEN conjunct1]
    by (simp add: backend_mgr_new_def tenant_of_def demo_handshake_def)
  with start show ?thesis by blast
qed

text \<open>
  C27. A backend that goes offline keeps its pool. The pools are keyed by the whole instance, its status
  included, so the notification of an instance that is offline closes and removes nothing, and
  \<open>tenant_status\<close> still answers as before (\<open>Ready\<close> or \<open>UnKnowStatus\<close>, nothing else). A client that is
  routed to an instance in any status but \<open>Ready\<close> gets \<open>NotConnected\<close>.
\<close>

theorem offline_backend_keeps_pool:
  assumes "mgr_wf m" "bi_status inst = Offline"
  shows "\<exists>m'. init_backend_pool build inst m = (Ok (), m') \<and> mgr_wf m' \<and>
    dm_get (bm_pools m') = dm_get (bm_pools m) \<and> bm_closed m' = bm_closed m \<and>
    tenant_status k m' = tenant_status k m \<and> tenant_status k m \<in> {Ready, UnKnowStatus} \<and>
    (\<forall>inst'. tenant_of H chk h = Ok k \<and> selector G (bm_router m) k (opt_balance_type (bm_options m)) = Ok inst' \<and>
       bi_status inst' \<noteq> Ready \<longrightarrow>
       connect_to_backend H G chk h m = Err (IoError NotConnected ''no backend_addr found''))"
proof -
  obtain m' where m': "init_backend_pool build inst m = (Ok (), m')"
    using offline_keeps_pools(1) [OF assms, of build] by (metis prod.collapse)
  have wf: "mgr_wf m'" by (rule init_backend_pool_wf [OF assms(1) m'])
  have pools: "dm_get (bm_pools m') = dm_get (bm_pools m)" "bm_closed m' = bm_closed m"
    using offline_keeps_pools(2,3) [OF assms, of build] m' by simp_all
  have "tenant_status k m' = tenant_status k m" "tenant_status k m \<in> {Ready, UnKnowStatus}"
    by (simp_all add: tenant_status_values [OF wf] tenant_status_values [OF assms(1)] pools(1))
  then show ?thesis using m' wf pools connect_not_ready [OF assms(1)] by auto
qed

theorem offline_backend_keeps_pool_witness:
  "\<exists>m'. init_backend_pool (\<lambda>inst n. Some n) (demo_db Offline)
       ((demo_mgr 0)\<lparr>bm_pools := [(demo_db Ready, 5 :: nat)]\<rparr>) = (Ok (), m') \<and>
     dm_get (bm_pools m') (demo_db Ready) = Some 5 \<and> tenant_status demo_tenant m' = Ready"
proof -
  let ?m = "(demo_mgr 0)\<lparr>bm_pools := [(demo_db Ready, 5 :: nat)]\<rparr>"
  have "mgr_wf ?m" by (simp add: mgr_wf_def dm_wf_def demo_db_def)
  moreover have "tenant_status demo_tenant ?m = Ready" by (simp add: tenant_status_def demo_db_def demo_tenant_def)
  ultimately show ?thesis
    using offline_backend_keeps_pool [of ?m "demo_db Offline" "\<lambda>inst n. Some n" demo_tenant] by (force simp: demo_db_def)
qed

section \<open>Active users\<close>

text \<open>
  C28. What the control plane fetches. When the users reported to a new window have been consumed, the
  next \<open>freeze\<close> returns one record per user, the one of the user's last command, and leaves nothing for
  the \<open>freeze\<close> after it; the batches sent out contain exactly the records, in order, at most fifteen in
  each. A user is what the hash of its tenant and name tells apart: users with the same hash share a
  record.
\<close>

theorem window_reports_latest:
  "\<exists>w. consume_all X sized (length msgs)
      (foldl (\<lambda>w (cluster, user, com, ts). add_active_users cluster user com ts w) window_new msgs) = (Ok (), w) \<and>
    set (fst (freeze w)) = ran (foldl (\<lambda>m msg. m(key_of X msg \<mapsto> com_of msg)) Map.empty msgs) \<and>
    length (fst (freeze w)) = card (dom (foldl (\<lambda>m msg. m(key_of X msg \<mapsto> com_of msg)) Map.empty msgs)) \<and>
    fst (freeze (snd (freeze w))) = [] \<and>
    concat (map (\<lambda>r. case cpr_packet_data r of Some b \<Rightarrow> b | None \<Rightarrow> []) (active_users (fst (freeze w)))) =
      fst (freeze w) \<and>
    list_all (\<lambda>r. case cpr_packet_data r of Some b \<Rightarrow> 0 < length b \<and> length b \<le> 15 | None \<Rightarrow> fst (freeze w) = [])
      (active_users (fst (freeze w)))"
proof -
  let ?w0 = "foldl (\<lambda>w (cluster, user, com, ts). add_active_users cluster user com ts w) window_new msgs"
  have "uw_data (foldl (\<lambda>w (cluster, user, com, ts). add_active_users cluster user com ts w) w msgs) = uw_data w \<and>
      uw_buf (foldl (\<lambda>w (cluster, user, com, ts). add_active_users cluster user com ts w) w msgs) = uw_buf w @ msgs" for w
    by (induction msgs arbitrary: w) (auto simp: add_active_users_def)
  then have w0: "maps_wf (uw_data ?w0)" "uw_buf ?w0 = msgs @ []" "recent ?w0 = Map.empty"
    by (simp_all add: window_new_def maps_wf_new) (simp add: recent_def iter_active_def window_new_def maps_new_def)
  obtain w where w: "consume_all X sized (length msgs) ?w0 = (Ok (), w)" "maps_wf (uw_data w)"
    "recent w = foldl (\<lambda>m msg. m(key_of X msg \<mapsto> com_of msg)) Map.empty msgs"
    using consume_all_recent [OF w0(1,2), of X sized] w0(3) by auto
  note fr = freeze_recent [OF w(2)]
  have "set (fst (freeze (snd (freeze w)))) = {}" using freeze_recent(1) [OF fr(3)] fr(2) by simp
  moreover have "list_all (\<lambda>r. case cpr_packet_data r of Some b \<Rightarrow> 0 < length b \<and> length b \<le> 15 | None \<Rightarrow> users = [])
      (active_users users)" for users
    using active_users_batches(2) [of _ users] unfolding list_all_iff by (fastforce split: option.split option.splits)
  ultimately show ?thesis using w fr by (intro exI [of _ w]) (simp add: active_users_batches(1))
qed

text \<open>
  C29. Concurrent use of the window, one atomic step at a time: loads and exchanges of the index, and
  the shards of the two tables (any number of them, any assignment of the keys), which are read and
  cleared one after the other. As long as a single task freezes, and a \<open>put\<close> that has loaded the index
  before the switch inserts neither into a shard the iterator has passed nor into one that is still to
  be cleared, every user that was reported is in one of the two tables, in the hands of the freezer,
  or was sent. Without that discipline records are lost. For every record there are two sequences of
  steps after which all operations have finished, both tables are empty, and the record has been sent
  to nobody: one with a single freezer and a late insertion, and one in which every insertion goes
  into the active table and a second freezer switches while the first is still at work, so that the
  first one clears the table the second one has yet to read.
\<close>

theorem window_concurrent_freeze:
  assumes "\<forall>k. sh k < n"
  shows "(sw_reach n sh (calm sh) s \<and> (k, v) \<in> set (sw_puts s) \<longrightarrow>
     k \<in> keys (sw_tables s ! 0) \<union> keys (sw_tables s ! 1) \<union> keys (held (sw_freezers s 0)) \<union> keys (sw_out s)) \<and>
   (\<exists>s. sw_reach n sh one_freezer s \<and> (k, v) \<in> set (sw_puts s) \<and> sw_writer s = WIdle \<and>
     (\<forall>f. sw_freezers s f = FIdle) \<and> sw_tables s = [[], []] \<and> sw_out s = []) \<and>
   (\<exists>s. sw_reach n sh fresh s \<and> (k, v) \<in> set (sw_puts s) \<and> sw_writer s = WIdle \<and>
     (\<forall>f. sw_freezers s f = FIdle) \<and> sw_tables s = [[], []] \<and> sw_out s = [])"
proof (intro conjI impI lost_update lost_to_freezer assms)
  assume reach: "sw_reach n sh (calm sh) s \<and> (k, v) \<in> set (sw_puts s)"
  then have "kept s" using calm_reach_kept [of n sh s] assms by (simp add: calm_inv_def)
  moreover have "k \<in> keys (sw_puts s)" using reach by (force simp: keys_def)
  ultimately show "k \<in> keys (sw_tables s ! 0) \<union> keys (sw_tables s ! 1) \<union> keys (held (sw_freezers s 0)) \<union> keys (sw_out s)"
    by (auto simp: kept_def)
qed

theorem window_concurrent_freeze_witness:
  "\<exists>s. sw_reach 2 (\<lambda>k. unat k mod 2) (calm (\<lambda>k. unat k mod 2)) s \<and> sw_puts s = [(3, com_of (demo_tenant, [], 1, 2))] \<and>
     sw_active s = 1 \<and>
     3 \<in> keys (sw_tables s ! 0) \<union> keys (sw_tables s ! 1) \<union> keys (held (sw_freezers s 0)) \<union> keys (sw_out s)"
proof -
  let ?sh = "\<lambda>k :: u64. unat k mod 2"
  let ?v = "com_of (demo_tenant, [], 1, 2)"
  let ?s1 = "shared_new\<lparr>sw_writer := WLoaded 0 3 ?v\<rparr>"
  let ?s2 = "?s1\<lparr>sw_freezers := (\<lambda>_. FIdle)(0 := FLoaded 0)\<rparr>"
  let ?s3 = "?s1\<lparr>sw_freezers := (\<lambda>_. FIdle)(0 := FIter 0 0 []), sw_active := 1\<rparr>"
  let ?s4 = "?s1\<lparr>sw_freezers := (\<lambda>_. FIdle)(0 := FIter 0 1 []), sw_active := 1\<rparr>"
  let ?s5 = "?s4\<lparr>sw_tables := [[(3, ?v)], []], sw_writer := WIdle, sw_puts := [(3, ?v)]\<rparr>"
  note [simp] = calm_def shared_new_def
  have "sw_step 2 ?sh shared_new ?s1" using put_load [of shared_new 2 ?sh 3 ?v] by simp
  then have s1: "sw_reach 2 ?sh (calm ?sh) ?s1" by (rule sw_next [OF sw_start]) simp
  have "sw_step 2 ?sh ?s1 ?s2" using freeze_load [of ?s1 0 2 ?sh] by simp
  then have s2: "sw_reach 2 ?sh (calm ?sh) ?s2" by (rule sw_next [OF s1]) simp
  have "sw_step 2 ?sh ?s2 ?s3" using freeze_switch [of ?s2 0 0 2 ?sh] by simp
  then have s3: "sw_reach 2 ?sh (calm ?sh) ?s3" by (rule sw_next [OF s2]) simp
  have "sw_step 2 ?sh ?s3 ?s4" using freeze_iter [of ?s3 0 0 0 "[]" 2 ?sh] by (simp add: shard_def)
  then have s4: "sw_reach 2 ?sh (calm ?sh) ?s4" by (rule sw_next [OF s3]) simp
  have "sw_step 2 ?sh ?s4 ?s5" using put_insert [of ?s4 0 3 ?v 2 ?sh] by simp
  then have s5: "sw_reach 2 ?sh (calm ?sh) ?s5" by (rule sw_next [OF s4]) simp
  have "(3, ?v) \<in> set (sw_puts ?s5)" by simp
  with window_concurrent_freeze [of ?sh 2 ?s5 3 ?v] s5 show ?thesis by (intro exI [of _ ?s5]) simp
qed

section \<open>The demonstration server\<close>

text \<open>
  C30. Commands of the demonstration server. Until the client quits, each command is answered under the
  next sequence number: queries, prepares, executions and changes of the database with what the
  command handler writes, pings, closed statements and field lists with an OK packet, data for a
  statement with nothing, and every unknown command with an OK packet too. The server then returns
  without an error and has read nothing behind the quit command. The handler is one that never fails
  and whose output depends on the command alone.
\<close>

theorem static_proxy_answers:
  assumes "winnow_spec W" "mysql_common_spec M" "byteorder_spec B" "handler_emits K A"
    and "list_all (\<lambda>(q, p). (chk \<longrightarrow> q \<noteq> 255) \<and> from_packet P p \<noteq> ParsePanic) (reqs @ [(q, p)])"
    and "list_all (\<lambda>(q, p). \<not> is_quit (from_packet P p)) reqs" "is_quit (from_packet P p)"
    and "delivers (cc_reader c) (reqs @ (q, p) # rest)" "idle_writer (cc_writer c)"
  shows "\<exists>c'. on_cmd W P B M K chk flags c = (Ok (), c') \<and> delivers (cc_reader c') rest \<and>
    sk_sent (wr_inner (cc_writer c')) = sk_sent (wr_inner (cc_writer c)) @
      concat (map (\<lambda>(q, p). wires (q + 1) (reply B M flags A (from_packet P p))) reqs)"
proof -
  have "protocol_spec W M B" using assms(1-3) by (intro protocol_spec.intro codec_spec.intro)
  from protocol_spec.on_cmd_served [OF this assms(4-9)] show ?thesis by (simp add: replies_def)
qed

definition demo_handler :: "unit cmd_handler" where
  "demo_handler = \<lparr>kh_auth = (\<lambda>_ _ _ _ h. (Ok True, h)), kh_on_init = (\<lambda>_ s. (Ok (), s)),
     kh_on_prepare = (\<lambda>_ s. (Ok (), s)), kh_on_query = (\<lambda>_ s. (Ok (), s)), kh_on_execute = (\<lambda>_ s. (Ok (), s))\<rparr>"

lemma demo_handler_emits: "handler_emits demo_handler (\<lambda>_. [])"
  by (simp add: handler_emits_def h_emits_def demo_handler_def)

theorem static_proxy_answers_witness:
  "\<exists>c'. on_cmd winnow_ref winnow_partial_ref byteorder_ref mysql_common_ref demo_handler True 0x200
      \<lparr>cc_reader = reader_new [Data (frame_bytes [(0, [0x0e]), (0, [0x01])])], cc_writer = writer_new demo_sink,
       cc_handler = ()\<rparr> = (Ok (), c') \<and>
    sk_sent (wr_inner (cc_writer c')) = wire 1 [0, 0, 0, 0, 0, 0, 0]"
proof -
  let ?c = "\<lparr>cc_reader = reader_new [Data (frame_bytes [(0, [0x0e]), (0, [0x01])])], cc_writer = writer_new demo_sink,
       cc_handler = ()\<rparr>"
  have cmds: "\<exists>i. from_packet winnow_partial_ref [0x0e] = Done i Ping" "\<exists>i. from_packet winnow_partial_ref [0x01] = Done i Quit"
    using command_ref.from_packet_round_trip [of 0 0 Ping] command_ref.from_packet_round_trip [of 0 0 Quit]
    by simp_all
  have d: "delivers (cc_reader ?c) ([(0, [0x0e])] @ (0, [0x01]) # [])"
    using demo_delivers [of "[(0, [0x0e]), (0, [0x01])]"] by (simp add: MAX_PAYLOAD_LEN_def)
  have w: "idle_writer (cc_writer ?c)" by (simp add: idle_writer_def writer_new_def demo_sink_def)
  have ok: "ok_reply byteorder_ref mysql_common_ref 0x200 0 = [[0, 0, 0, 0, 0, 0, 0]]"
    by (simp add: ok_reply_def ok_fields_def ok_packet_default_def ok_status_part_def ok_info_part_def mysql_common_ref_def
        byteorder_ref.write_u16 lenenc_doc_def le_bytes_numeral utf8_encode_def)
  show ?thesis
    using static_proxy_answers [OF ref_specs(1,3,2) demo_handler_emits _ _ _ d w, of True winnow_partial_ref "0x200"] cmds ok
    by (auto simp: writer_new_def demo_sink_def)
qed

section \<open>The process\<close>

text \<open>
  C31. From the command line to the shutdown. \<open>main\<close> spawns one task for every connection that is accepted
  before the first signal it observes, in that order, and none afterwards; failed accepts change
  nothing, and neither do signals that arrive while no turn of the loop listens for them, which are
  lost. The observed signal is published on the shutdown channel, where it ends the wait of every task
  that has seen the channel from the start; before it none of these waits ends. The backend manager
  the connections share is well formed from the start, and stays so while its pools are being prepared
  in the background, whatever instances the router names and whichever pools can be built.
\<close>

theorem proxy_accepts_until_signal:
  assumes "proxy_main L uri level bindable C h a es c = (Ok res, c')"
  shows "(\<exists>before after. es = before @ after \<and> (\<forall>sig. Signalled sig \<notin> set before) \<and>
      px_conns res = List.map_filter accepted_conn before \<and>
      (if px_ended res
       then \<exists>sig rest. after = Signalled sig # rest \<and> wt_value (px_shutdown res) = shutdown_signal sig
       else after = [] \<and> wt_value (px_shutdown res) = ShutdownInit)) \<and>
    (shutdown_await 0 True (px_shutdown res) \<longleftrightarrow> px_ended res) \<and>
    (\<forall>build insts. mgr_wf (pools_after build insts (px_mgr res))) \<and>
    (\<forall>build bursts. \<exists>insts. snd (prepare_backend_conn_pool build bursts (px_mgr res)) = pools_after build insts (px_mgr res))"
proof -
  have up: "startup L uri (h_env h) a = Ok (px_mgr res, px_sync_router res, px_resolver res)"
    and loop: "accept_loop es (watch_channel ShutdownInit) = (px_conns res, px_shutdown res, px_ended res)"
    using assms by (auto simp: proxy_main_def haentgl_server_new_def rbind_Ok_iff Let_def bind_io_def fail_io_def return_io_def
        split: if_splits result.splits prod.splits)
  obtain before after where es: "es = before @ after" "\<forall>sig. Signalled sig \<notin> set before"
    "after = [] \<or> (\<exists>sig rest. after = Signalled sig # rest)"
    using accept_loop_split [of es] by blast
  have cases: "(after = [] \<and> px_conns res = List.map_filter accepted_conn before \<and>
        px_shutdown res = watch_channel ShutdownInit \<and> \<not> px_ended res) \<or>
      (\<exists>sig rest. after = Signalled sig # rest \<and> px_conns res = List.map_filter accepted_conn before \<and>
        px_shutdown res = watch_send (shutdown_signal sig) (watch_channel ShutdownInit) \<and> px_ended res)"
    using es(1,3) loop accept_loop_eq [OF es(2)] by auto
  show ?thesis
  proof (intro conjI allI)
    show "mgr_wf (pools_after build insts (px_mgr res))" for build insts
      by (rule pools_after_wf [OF startup_Ok(1) [OF up]])
    show "\<exists>insts. snd (prepare_backend_conn_pool build bursts (px_mgr res)) = pools_after build insts (px_mgr res)" for build bursts
      by (rule prepare_pools)
    show "shutdown_await 0 True (px_shutdown res) \<longleftrightarrow> px_ended res"
      using cases by (auto simp: watch_send_def watch_channel_def shutdown_await_def watch_poll_def)
    show "\<exists>before after. es = before @ after \<and> (\<forall>sig. Signalled sig \<notin> set before) \<and>
      px_conns res = List.map_filter accepted_conn before \<and>
      (if px_ended res
       then \<exists>sig rest. after = Signalled sig # rest \<and> wt_value (px_shutdown res) = shutdown_signal sig
       else after = [] \<and> wt_value (px_shutdown res) = ShutdownInit)"
      using es(1,2) cases by (intro exI [of _ before] exI [of _ after]) (auto simp: watch_send_def watch_channel_def)
  qed
qed

definition demo_host :: host where
  "demo_host =
     \<lparr>h_os = ''linux'', h_env = (\<lambda>name. if name = ''SQL_PROXY_POD_NAME'' then Some (lit ''pod'') else None),
      h_read = (\<lambda>path. if path = V2_CPU_LIMIT_PATH then Inr (digits 150000 @ 32 # digits 100000 @ [10])
        else if path = V1_CPU_QUOTA_PATH then Inr (digits 150000 @ [10])
        else if path = V1_CPU_PERIOD_PATH then Inr (digits 100000 @ [10])
        else Inl (IoError NotFound [])),
      h_is_dir = (\<lambda>_. True), h_exists = (\<lambda>_. False), h_host_name_max = 64, h_gethostname = (\<lambda>_. None),
      h_parallelism = Some 8\<rparr>"

definition demo_accepted :: "u64 \<Rightarrow> stream \<Rightarrow> PooledConn accepted" where
  "demo_accepted conn_id es =
     \<lparr>ac_draws = replicate 20 65, ac_conn_id = conn_id, ac_stream = es, ac_sink = demo_sink, ac_clock = (\<lambda>_. (0, 3)),
      ac_pool_get = Ok\<rparr>"

theorem proxy_accepts_until_signal_witness:
  "\<exists>(res :: (PooledConn, unit) proxy_run) c'. proxy_main (map to_ascii_lowercase) (\<lambda>_. None) (\<lambda>_. True) (\<lambda>_. True) metrics_ref demo_host demo_args
      [Accepted (demo_accepted 1 []), AcceptFailed, Missed Terminate, Accepted (demo_accepted 2 []), Signalled CtrlC, Accepted (demo_accepted 3 [])]
      metrics_ctx_new = (Ok res, c') \<and>
    map ac_conn_id (px_conns res) = [1, 2] \<and> shutdown_await 0 True (px_shutdown res)"
proof -
  let ?es = "[Accepted (demo_accepted 1 []), AcceptFailed, Missed Terminate, Accepted (demo_accepted 2 []), Signalled CtrlC, Accepted (demo_accepted 3 [])]"
  have "common_labels demo_host = Ok [(''node_name'', lit ''pod'')]"
    by (simp add: common_labels_def hostname_def demo_host_def)
  moreover have args: "pa_works demo_args = 4" "pa_log_level demo_args = None" "pa_enable_metrics demo_args = False"
    "pa_enable_rest demo_args = False" "pa_router demo_args = None" "pa_balance demo_args = None"
    by (simp_all add: demo_args_def)
  ultimately have "\<exists>(res :: (PooledConn, unit) proxy_run) c'. proxy_main (map to_ascii_lowercase) (\<lambda>_. None) (\<lambda>_. True) (\<lambda>_. True) metrics_ref demo_host demo_args
      ?es metrics_ctx_new = (Ok res, c')"
    by (simp add: startup_default [OF lowercase_ref.lowercase_spec_axioms] proxy_main_def haentgl_server_new_def rbind_Ok_iff Let_def bind_io_def fail_io_def return_io_def start_metrics_and_rest_def args
        init_sql_com_labels_def)
  then obtain res :: "(PooledConn, unit) proxy_run" and c' where res: "proxy_main (map to_ascii_lowercase) (\<lambda>_. None) (\<lambda>_. True) (\<lambda>_. True) metrics_ref demo_host
      demo_args ?es metrics_ctx_new = (Ok res, c')" by blast
  from proxy_accepts_until_signal [OF res] obtain before after where
    es: "?es = before @ after" "\<forall>sig. Signalled sig \<notin> set before" "px_conns res = List.map_filter accepted_conn before"
      "if px_ended res
       then \<exists>sig rest. after = Signalled sig # rest \<and> wt_value (px_shutdown res) = shutdown_signal sig
       else after = [] \<and> wt_value (px_shutdown res) = ShutdownInit"
      "shutdown_await 0 True (px_shutdown res) \<longleftrightarrow> px_ended res" by blast
  have "px_ended res" using es(1,2,4) by (cases "px_ended res") auto
  moreover have "before = [Accepted (demo_accepted 1 []), AcceptFailed, Missed Terminate, Accepted (demo_accepted 2 [])]"
    using es(1,2,4) \<open>px_ended res\<close> by (auto simp: Cons_eq_append_conv)
  ultimately show ?thesis using res es(3,5)
    by (intro exI [of _ res] exI [of _ c']) (simp add: demo_accepted_def List.map_filter_def)
qed

text \<open>
  C32. The metrics of the connections. Counting and timing the commands changes nothing of what a
  connection does: the results are those of \<open>connect\<close>. The gauge of the current connections, which
  starts at zero, ends at minus the number of the connections that were served until COM_QUIT: it is
  taken down once for each of these, and never up.
\<close>

theorem connections_metered:
  assumes "metrics_spec C" "mx_recorder c = Some r"
    and "mc_gauge C r (metric_key_of PROXY_CURR_CONN (Some common)) = Fin 0" "length conns < 2 ^ 53"
    and "serve_all C common W B M P H G chk mgr conns c = (rs, c')"
  shows "rs = map (\<lambda>conn. connect W B M P H G (ac_pool_get conn) chk False (ac_draws conn) (ac_conn_id conn) mgr
      (ac_stream conn) (ac_sink conn)) conns \<and>
    (\<exists>r'. mx_recorder c' = Some r' \<and> mc_gauge C r' (metric_key_of PROXY_CURR_CONN (Some common)) =
      Fin (of_int (- int (length (filter (\<lambda>(res, cn). served_until_quit res cn) rs)))))"
  using serve_all_results [OF assms(5)] serve_all_gauge [OF assms(1,2) _ _ _ assms(5), of 0] assms(3,4) by simp

lemma demo_served:
  "\<exists>c. connect winnow_ref byteorder_ref mysql_common_ref demo_packets hex_ref (\<lambda>n. 0) Ok True False
      (replicate 20 65) conn_id (demo_mgr demo_backend) [Data (frame_bytes demo_client_packets)] demo_sink = (Ok (), Some c) \<and>
    served_until_quit (Ok ()) (Some c)"
proof -
  have "protocol_spec winnow_ref mysql_common_ref byteorder_ref"
    using ref_specs by (intro protocol_spec.intro codec_spec.intro)
  then obtain c where c: "connect winnow_ref byteorder_ref mysql_common_ref demo_packets hex_ref (\<lambda>n. 0) Ok True False
      (replicate 20 65) conn_id (demo_mgr demo_backend) [Data (frame_bytes demo_client_packets)] demo_sink = (Ok (), Some c)"
    "mgr_recycle (cn_pooled c) = Ok ()"
    using protocol_spec.connect_dialogue [where pool_get = Ok and pool = demo_backend and conn = demo_backend
        and k = demo_sink and thesis = thesis, OF _ demo_hello_ok demo_hello_kept(1) refl demo_client_delivers _
        demo_mgr_connects refl demo_backend_delivers demo_backend_fresh(1,2) demo_hello_kept(2) demo_hello_reset_small _ _ _
        demo_ok_verdict]
      demo_dialogue [of "0x88208"] by (fastforce simp: demo_hello_static demo_sink_def)
  then show ?thesis using connect_recycled by blast
qed

theorem connections_metered_witness:
  "\<exists>rs c' r'. serve_all metrics_ref [] winnow_ref byteorder_ref mysql_common_ref demo_packets hex_ref (\<lambda>n. 0) True
      (demo_mgr demo_backend) (map (\<lambda>i. demo_accepted i [Data (frame_bytes demo_client_packets)]) [1, 2])
      (metrics_ctx_new\<lparr>mx_recorder := Some (\<lambda>_. Fin 0, \<lambda>_. [])\<rparr>) = (rs, c') \<and>
    mx_recorder c' = Some r' \<and> mc_gauge metrics_ref r' (PROXY_CURR_CONN, []) = Fin (-2)"
proof -
  let ?conns = "map (\<lambda>i. demo_accepted i [Data (frame_bytes demo_client_packets)]) [1, 2]"
  let ?c = "metrics_ctx_new\<lparr>mx_recorder := Some (\<lambda>_. Fin 0, \<lambda>_. [])\<rparr>"
  obtain rs c' where s: "serve_all metrics_ref [] winnow_ref byteorder_ref mysql_common_ref demo_packets hex_ref (\<lambda>n. 0) True
      (demo_mgr demo_backend) ?conns ?c = (rs, c')"
    by (rule prod.exhaust)
  obtain c1 c2 where served:
    "connect winnow_ref byteorder_ref mysql_common_ref demo_packets hex_ref (\<lambda>n. 0) Ok True False
      (replicate 20 65) 1 (demo_mgr demo_backend) [Data (frame_bytes demo_client_packets)] demo_sink = (Ok (), Some c1)"
    "connect winnow_ref byteorder_ref mysql_common_ref demo_packets hex_ref (\<lambda>n. 0) Ok True False
      (replicate 20 65) 2 (demo_mgr demo_backend) [Data (frame_bytes demo_client_packets)] demo_sink = (Ok (), Some c2)"
    "served_until_quit (Ok ()) (Some c1)" "served_until_quit (Ok ()) (Some c2)"
    using demo_served [of 1] demo_served [of 2] by blast
  show ?thesis
    using connections_metered [OF metrics_ref.metrics_spec_axioms _ _ _ s] s served
    by (force simp: metrics_ref_def metrics_ctx_new_def demo_accepted_def metric_key_of_def)
qed

text \<open>
  C33. The processor time of the process. The collector adds the whole time since the start at every
  tick, so that the gauge \<open>proxy_process_cpu_seconds_total\<close> is the sum of all readings and not the last
  one; this holds from the initialisation of the metrics on, however the branches of the loop are
  polled.
\<close>

theorem cpu_seconds_accumulate:
  assumes "metrics_spec C" "mx_once c0 = NotRun" "mx_recorder c0 = None" "common_labels h = Ok ls"
    and "init_metrics_context C h c0 = (Ok (), c1)" "process_recorder_new C ls c1 = (p, c2)"
    and "start_auto_collect C chk h page_size clock_tick p pls c2 = (Running, c)"
    and "sum_list (map (cpu_seconds clock_tick) (readings pls)) < 2 ^ 53"
  shows "\<exists>r. mx_recorder c = Some r \<and>
    mc_gauge C r (CPU_TOTAL, ls) = Fin (of_int (sum_list (map (cpu_seconds clock_tick) (readings pls))))"
proof -
  obtain name where name: "hostname h = Ok name" "ls = [(''node_name'', name)]"
    using assms(4) by (auto simp: common_labels_def rbind_Ok_iff)
  obtain r1 where r1: "mx_recorder c1 = Some r1" "\<And>k. mc_gauge C r1 k = Fin 0"
    using metrics_spec.init_installs [OF assms(1-3) name(1), of thesis] assms(5) by auto
  obtain r2 where r2: "mx_recorder c2 = Some r2" "mc_gauge C r2 = mc_gauge C r1" "p = process_recorder ls"
    by (rule process_recorder_gauges [OF assms(1) r1(1) assms(6)])
  show ?thesis
    using auto_collect_accumulates [OF assms(1) r2(1), of ls 0 chk h page_size clock_tick pls c] r1(2) r2(2,3) assms(7,8)
    by simp
qed

definition demo_poll :: "u64 \<Rightarrow> poll" where
  "demo_poll utime =
     \<lparr>pl_stop_first = False, pl_sender_alive = True, pl_has_changed = False, pl_message = ShutdownInit, pl_tick = True,
      pl_stat = Some \<lparr>ps_vsize = 0, ps_rss = 0, ps_utime = utime, ps_stime = 100\<rparr>\<rparr>"

theorem cpu_seconds_accumulate_witness:
  "\<exists>p c1 c2 c r. init_metrics_context metrics_ref demo_host metrics_ctx_new = (Ok (), c1) \<and>
    process_recorder_new metrics_ref [(''node_name'', lit ''pod'')] c1 = (p, c2) \<and>
    start_auto_collect metrics_ref True demo_host 4096 100 p (map demo_poll [400, 500, 600]) c2 = (Running, c) \<and>
    mx_recorder c = Some r \<and> mc_gauge metrics_ref r (CPU_TOTAL, [(''node_name'', lit ''pod'')]) = Fin 18"
proof -
  let ?ls = "[(''node_name'', lit ''pod'')]" and ?pls = "map demo_poll [400, 500, 600]"
  have host: "hostname demo_host = Ok (lit ''pod'')" by (simp add: hostname_def demo_host_def)
  then have labels: "common_labels demo_host = Ok ?ls" by (simp add: common_labels_def)
  obtain c1 r1 where c1: "init_metrics_context metrics_ref demo_host metrics_ctx_new = (Ok (), c1)" "mx_recorder c1 = Some r1"
    by (rule metrics_ref.init_installs [OF _ _ host, of metrics_ctx_new]) (simp_all add: metrics_ctx_new_def)
  obtain p c2 where p: "process_recorder_new metrics_ref ?ls c1 = (p, c2)" by (rule prod.exhaust)
  have cpus: "get_total_cpu demo_host = Ok (Fin (f32_of_usize 8))"
    using cgroup_limits_unused [of demo_host] by (simp add: host_consistent_def demo_host_def sys_cpu_def)
  have "fst (start_auto_collect metrics_ref True demo_host 4096 100 p ?pls c2) = Running"
    by (simp add: demo_poll_def auto_collect_step_cases collect_def bind_io_def fail_io_def on_gauge_def Let_def cpus
        mul_i64_def add_chk_def)
  then obtain c where c: "start_auto_collect metrics_ref True demo_host 4096 100 p ?pls c2 = (Running, c)"
    by (metis prod.collapse)
  have sum: "sum_list (map (cpu_seconds 100) (readings ?pls)) = 18"
    by (simp add: readings_simps demo_poll_def cpu_seconds_def)
  show ?thesis
    using cpu_seconds_accumulate [OF metrics_ref.metrics_spec_axioms _ _ labels c1(1) p c] c1(1) p c
    unfolding sum by (fastforce simp: metrics_ctx_new_def)
qed

text \<open>
  C34. The threads of the processor profiler, in every interleaving of requests and threads. No more
  threads run than starts were answered with \<open>true\<close>, and a start is answered so only when the last one
  has been stopped: there are at most as many of them as stops answered with \<open>true\<close>, and one more while
  the flag is up. After a stop, and until somebody starts the profiler again, no thread begins a new
  sample, and every thread ends within two moves: the moves of all threads and the threads that are
  left are together at most twice the threads that ran at the stop.
\<close>

theorem cpu_profiler_threads:
  assumes "prof_run prof_default es s"
  shows "length (pf_threads s) \<le> starts es \<and> starts es \<le> stops es + (if pf_starting s then 1 else 0) \<and>
    (\<forall>r ms s'. prof_run s (Stop r # ms) s' \<and> list_all (\<lambda>e. \<nexists>dir res. e = Start dir res) ms \<longrightarrow>
      sampling s' \<le> sampling s \<and> moves ms + length (pf_threads s') \<le> 2 * length (pf_threads s))"
  using prof_run_threads [OF assms] prof_run_turns [OF assms] stop_drains [of s]
  by (auto simp: prof_default_def)

theorem cpu_profiler_threads_witness:
  "\<exists>s s'. prof_run prof_default
       [Start True (Ok True), Move 0 False, Stop (Ok True), Start True (Ok True), Move 1 False] s \<and>
     prof_run s [Stop (Ok True), Move 0 False, Move 0 False, Move 0 True] s' \<and>
     sampling s = 2 \<and> sampling s' \<le> sampling s \<and>
     moves [Move 0 False, Move 0 False, Move 0 True] + length (pf_threads s') \<le> 2 * length (pf_threads s)"
proof -
  let ?s = "\<lambda>ts. \<lparr>pf_starting = False, pf_threads = ts\<rparr>"
  let ?two = "\<lparr>pf_starting = True, pf_threads = [Sampling, Sampling]\<rparr>"
  have "prof_step ?two (Stop (Ok True)) (?s [Sampling, Sampling])" by (rule do_stop) (simp add: prof_stop_eq)
  moreover have "prof_step (?s [Sampling, Sampling]) (Move 0 False) (?s [Checking, Sampling])"
    using do_move [of 0 "?s [Sampling, Sampling]" False] by (simp add: sampler_step_def replace_at_def)
  moreover have "prof_step (?s [Checking, Sampling]) (Move 0 False) (?s [Sampling])"
    using do_move [of 0 "?s [Checking, Sampling]" False] by (simp add: sampler_step_def replace_at_def)
  moreover have "prof_step (?s [Sampling]) (Move 0 True) (?s [])"
    using do_move [of 0 "?s [Sampling]" True] by (simp add: sampler_step_def replace_at_def)
  ultimately have run: "prof_run ?two [Stop (Ok True), Move 0 False, Move 0 False, Move 0 True] (?s [])"
    by (blast intro: run_refl run_step)
  have "sampling (?s []) \<le> sampling ?two \<and>
      moves [Move 0 False, Move 0 False, Move 0 True] + length (pf_threads (?s [])) \<le> 2 * length (pf_threads ?two)"
    using cpu_profiler_threads [OF two_samplers] run by fastforce
  with two_samplers run show ?thesis
    by (intro exI [of "\<lambda>s. \<exists>s'. _ s s'" ?two] exI [of _ "?s []"]) (simp add: sampling_def)
qed

text \<open>
  C35. The processors of a container. Both versions of the interface give the same limit for the same
  quota and period, the quotient of the two up to the rounding of \<open>f32\<close>. \<open>get_total_cpu\<close> uses it on no
  host: where the files of the control groups can be read it returns the number of processors.
\<close>

theorem container_cpu_limits:
  assumes "h_parallelism h = Some n" "quota < 2 ^ 64" "0 < period" "period < 2 ^ 64"
    and "read_to_string h V2_CPU_LIMIT_PATH = Ok (digits quota @ 32 # digits period @ [10])"
    and "read_to_string h V1_CPU_QUOTA_PATH = Ok (digits quota @ [10])"
    and "read_to_string h V1_CPU_PERIOD_PATH = Ok (digits period @ [10])" "host_consistent h"
  shows "get_container_cpu h V1 = get_container_cpu h V2 \<and>
    (\<exists>v. get_container_cpu h V2 = Ok (Fin v) \<and>
      \<bar>v - of_nat quota / of_nat period\<bar> \<le> of_nat quota / of_nat period / 2 ^ 22) \<and>
    get_total_cpu h = sys_cpu h"
proof -
  obtain v where v: "f32_div (f32_of_usize quota) (f32_of_usize period) = Fin v"
    "\<bar>v - of_nat quota / of_nat period\<bar> \<le> of_nat quota / of_nat period / 2 ^ 22"
    by (rule f32_div_error [OF assms(3)])
  show ?thesis
    using container_cpu_v2 [OF assms(1,2,4,5)] container_cpu_v1 [OF assms(1,2,4,6,7)] cgroup_limits_unused [OF assms(8)] v
    by simp
qed

theorem container_cpu_limits_witness:
  "get_container_cpu demo_host V1 = get_container_cpu demo_host V2 \<and> get_total_cpu demo_host = Ok (Fin (f32_of_usize 8))"
proof -
  have paths: "V1_CPU_QUOTA_PATH \<noteq> V2_CPU_LIMIT_PATH" "V1_CPU_PERIOD_PATH \<noteq> V2_CPU_LIMIT_PATH"
    "V1_CPU_PERIOD_PATH \<noteq> V1_CPU_QUOTA_PATH"
    by (simp_all add: V1_CPU_QUOTA_PATH_def V1_CPU_PERIOD_PATH_def V2_CPU_LIMIT_PATH_def)
  have "host_consistent demo_host" by (simp add: host_consistent_def demo_host_def)
  then show ?thesis
    using container_cpu_limits [of demo_host 8 150000 100000] paths
    by (simp add: demo_host_def read_to_string_def sys_cpu_def)
qed

section \<open>Talking to the control plane\<close>

text \<open>
  C36. The generated services. A call of a client reaches the method of the server it is named after:
  for each of the five methods of the topology service and for the one of the control-plane service
  the client gets what the method of the implementation returns, as long as the messages of the call
  stay within the limits of size. For the control plane these are the batches of the users of the window.
\<close>

theorem calls_reach_methods:
  assumes "service_spec N D"
  shows "(fits N GetTopologyRequest_text (pr_get_topology D) [m1] \<and>
       reply_fits N Response_text (pr_response D) (single (tp_get_topology impl m1)) \<longrightarrow>
       client_get_topology N D (topology_client_new (topology_link N D impl)) m1 = tp_get_topology impl m1) \<and>
    (fits N SubscribeRequest_text (pr_subscribe D) ms2 \<and>
       reply_fits N Response_text (pr_response D) (tp_subscribe impl (ms2, None)) \<longrightarrow>
       client_subscribe N D (topology_client_new (topology_link N D impl)) ms2 = tp_subscribe impl (ms2, None)) \<and>
    (fits N SubscribeRequest_text (pr_subscribe D) [m2] \<and>
       reply_fits N Response_text (pr_response D) (single (tp_cancel_subscribe impl m2)) \<longrightarrow>
       client_cancel_subscribe N D (topology_client_new (topology_link N D impl)) m2 = tp_cancel_subscribe impl m2) \<and>
    (fits N SubscribeNamespaceRequest_text (pr_namespace D) ms3 \<and>
       reply_fits N Response_text (pr_response D) (tp_subscribe_namespace impl (ms3, None)) \<longrightarrow>
       client_subscribe_namespace N D (topology_client_new (topology_link N D impl)) ms3 =
         tp_subscribe_namespace impl (ms3, None)) \<and>
    (fits N SubscribeNamespaceRequest_text (pr_namespace D) [m3] \<and>
       reply_fits N Response_text (pr_response D) (single (tp_cancel_subscribe_namespace impl m3)) \<longrightarrow>
       client_cancel_subscribe_namespace N D (topology_client_new (topology_link N D impl)) m3 =
         tp_cancel_subscribe_namespace impl m3) \<and>
    (fits N (\<lambda>_. True) (pr_unit D) reqs \<and>
       reply_fits N ControlPlaneResponse_text (pr_cp_response D) (cp_service i (reqs, None)) \<longrightarrow>
       client_active_users N D (cp_client_new (control_plane_link N D (cp_service i))) reqs =
         Inr (active_users_stream (cpi_active_users i) reqs, None))"
  using service_spec.get_topology_call [OF assms] service_spec.subscribe_call [OF assms]
    service_spec.cancel_subscribe_call [OF assms] service_spec.subscribe_namespace_call [OF assms]
    service_spec.cancel_subscribe_namespace_call [OF assms] service_spec.active_users_call [OF assms]
  by (simp add: cp_service_requests)

theorem calls_reach_methods_witness:
  "client_active_users tonic_ref (protobuf sorted_list_of_fmap)
     (cp_client_new (control_plane_link tonic_ref (protobuf sorted_list_of_fmap)
       (cp_service (cp_service_impl_new window_new)))) [(), ()] =
     Inr (active_users_stream window_new [(), ()], None)"
proof -
  let ?D = "protobuf sorted_list_of_fmap" and ?i = "cp_service_impl_new window_new"
  have "list_all (\<lambda>r. cpr_packet_data r = None \<and> length (encode ControlPlaneResponse_fields r) < 2 ^ 8)
      (active_users_stream window_new [(), ()])"
    by code_simp
  then have "reply_fits tonic_ref ControlPlaneResponse_text (pr_cp_response ?D) (cp_service ?i ([(), ()], None))"
    by (auto simp: cp_service_requests cp_service_impl_new_def reply_fits_def fits_def tonic_ref_def protobuf_def
        list_all_iff ControlPlaneResponse_text_def opt_ok_def simp del: active_users_stream.simps)
  moreover have "fits tonic_ref (\<lambda>_. True) (pr_unit ?D) [(), ()]"
    by (simp add: fits_def tonic_ref_def protobuf_def encode_def unit_fields_def)
  ultimately show ?thesis
    using calls_reach_methods [OF services.service_spec_axioms, of _ _ _ _ _ _ "[(), ()]" ?i]
    by (simp add: cp_service_impl_new_def del: active_users_stream.simps)
qed

text \<open>
  C37. The start of the discovery. The task that subscribes waits, on a condition variable, for the one
  that polls the members. It passes only after a poll has found a member, and until it has passed the
  choice of a member would panic exactly while the list is empty; it never sleeps while the flag is
  set, so that no notification is lost; and with two worker threads, from every state of a
  poller that has not returned, there are steps with a member that can be reached after which it has
  passed. But the wait
  blocks its thread: with one worker the wait may begin before the first poll has finished, and then
  the poll never runs and the wait never ends. Nor does it end when the first poll fails.
\<close>

theorem discovery_start_gate:
  fixes bs :: "CpBackend list"
  assumes "cp_resolver_new uri addr interval = Ok r" "gate_steps conn workers (gate_init r) s"
  shows "(rg_waiter s = Passed \<longrightarrow> (\<exists>s1. gate_steps conn workers (gate_init r) s1 \<and> gate_steps conn workers s1 s \<and>
       rg_waiter s1 \<noteq> Passed \<and> cr_backends (rg_resolver s1) \<noteq> [])) \<and>
    (rg_waiter s \<noteq> Passed \<longrightarrow> (fst (get_cp_backend (rg_resolver s)) = Panic \<longleftrightarrow> cr_backends (rg_resolver s) = [])) \<and>
    (started s \<longrightarrow> rg_waiter s \<noteq> Asleep) \<and>
    (2 \<le> workers \<and> (\<forall>e. rg_ticker s \<noteq> Returned e) \<and> distinct (map cb_name bs) \<and> b \<in> set bs \<and>
       conn (lit ''http://'' @ cb_service_addr b) \<noteq> None \<longrightarrow>
     (\<exists>s'. gate_steps conn workers s s' \<and> rg_waiter s' = Passed)) \<and>
    (workers = 1 \<longrightarrow> (\<exists>s1. gate_steps conn workers (gate_init r) s1 \<and>
       (\<forall>s'. gate_steps conn workers s1 s' \<longrightarrow> rg_waiter s' \<noteq> Passed))) \<and>
    (rg_ticker s = Returned res \<and> \<not> started s \<longrightarrow> (\<forall>s'. gate_steps conn workers s s' \<longrightarrow> rg_waiter s' \<noteq> Passed))"
proof (intro conjI impI allI)
  have new: "\<not> cr_started r" "all_available (rg_resolver (gate_init r))"
    using assms(1) by (auto simp: cp_resolver_new_def rbind_Ok_iff all_available_def gate_init_def)
  have wf: "gate_wf s" using gate_steps_wf [OF assms(2) gate_wf_init [OF new(1)]] .
  show "fst (get_cp_backend (rg_resolver s)) = Panic \<longleftrightarrow> cr_backends (rg_resolver s) = []" if "rg_waiter s \<noteq> Passed"
    by (rule first_pick [OF gate_steps_available [OF assms(2) that new(2)]])
  show "started s \<Longrightarrow> rg_waiter s \<noteq> Asleep" using wf by (simp add: gate_wf_def)
  show "\<exists>s1. gate_steps conn workers (gate_init r) s1 \<and> gate_steps conn workers s1 s \<and>
      rg_waiter s1 \<noteq> Passed \<and> cr_backends (rg_resolver s1) \<noteq> []" if "rg_waiter s = Passed"
    using gate_opened [OF assms(2) gate_wf_init [OF new(1)]] gate_steps_wf gate_wf_init [OF new(1)] wf that new(1)
    by (fastforce simp: gate_wf_def gate_init_def)
  show "\<exists>s'. gate_steps conn workers s s' \<and> rg_waiter s' = Passed"
    if "2 \<le> workers \<and> (\<forall>e. rg_ticker s \<noteq> Returned e) \<and> distinct (map cb_name bs) \<and> b \<in> set bs \<and>
       conn (lit ''http://'' @ cb_service_addr b) \<noteq> None"
    using gate_can_open [OF wf, of workers bs b conn] that by blast
  show "\<exists>s1. gate_steps conn workers (gate_init r) s1 \<and>
      (\<forall>s'. gate_steps conn workers s1 s' \<longrightarrow> rg_waiter s' \<noteq> Passed)" if "workers = 1"
    using one_worker_stuck(1) [OF new(1), of conn] one_worker_stuck(2) [OF new(1)] gate_stuck_steps [of conn 1] that
    by (metis gate_stuck_def r_into_rtranclp)
  show "rg_waiter s' \<noteq> Passed" if "rg_ticker s = Returned res \<and> \<not> started s" "gate_steps conn workers s s'" for s'
  proof -
    have "gate_stuck workers s" using that(1) wf by (auto simp: gate_stuck_def gate_wf_def)
    then show ?thesis using gate_stuck_steps [OF that(2)] by (simp add: gate_stuck_def)
  qed
qed

theorem discovery_start_gate_witness:
  "\<exists>r. cp_resolver_new (\<lambda>s. Some None) (lit ''cp'') None = Ok r \<and>
   (\<exists>s'. gate_steps (\<lambda>uri. Some (7 :: nat)) 2 (gate_init r) s' \<and> rg_waiter s' = Passed) \<and>
   (\<exists>s1. gate_steps (\<lambda>uri. Some 7) 1 (gate_init r) s1 \<and>
     (\<forall>s'. gate_steps (\<lambda>uri. Some 7) 1 s1 s' \<longrightarrow> rg_waiter s' \<noteq> Passed))"
proof -
  obtain r :: "nat CpResolver" where r: "cp_resolver_new (\<lambda>s. Some None) (lit ''cp'') None = Ok r"
    by (simp add: cp_resolver_new_def)
  show ?thesis
    using r discovery_start_gate [OF r, of "\<lambda>uri. Some 7" 2 "gate_init r" "[demo_member (lit ''m1'') (lit ''x'')]"
        "demo_member (lit ''m1'') (lit ''x'')"]
      discovery_start_gate [OF r, of "\<lambda>uri. Some 7" 1 "gate_init r"]
    by (intro exI [of _ r]) (simp add: gate_init_def)
qed

section \<open>Tables\<close>

text \<open>
  C38. The tables of errors. \<open>From<u16>\<close> accepts exactly the numbers of the 886 error kinds, each for its
  own kind, and panics on every other number. The match of \<open>sqlstate\<close> is exhaustive: every kind has an
  arm, which decides its state, and the state is five characters, digits or capital letters.
\<close>

theorem error_tables_consistent:
  "error_kind_from x = (if unat x \<in> set error_kinds then Ok (unat x) else Panic) \<and>
   distinct error_kinds \<and> length error_kinds = 886 \<and>
   list_all (\<lambda>k. list_ex (\<lambda>arm. k \<in> set (fst arm) \<and> sqlstate k = Some (snd arm) \<and>
     length (snd arm) = 5 \<and> list_all is_state_char (snd arm)) sqlstate_arms) error_kinds"
proof -
  have "error_kind_from x = (if unat x \<in> set error_kinds then Ok (unat x) else Panic)"
    using error_kind_from_Ok [of x "unat x"] error_kind_from_Panic [of x] by simp
  moreover have "list_ex (\<lambda>arm. k \<in> set (fst arm) \<and> sqlstate k = Some (snd arm) \<and>
     length (snd arm) = 5 \<and> list_all is_state_char (snd arm)) sqlstate_arms" if k: "k \<in> set error_kinds" for k
  proof -
    obtain arm where arm: "arm \<in> set sqlstate_arms" "k \<in> set (fst arm)" using k set_arms by blast
    then have "sqlstate k = Some (snd arm)" using sqlstate_arm [of "fst arm" "snd arm" k] by simp
    then show ?thesis using arm sqlstate_total [OF k] unfolding list_ex_iff by (intro bexI [of _ arm]) auto
  qed
  ultimately show ?thesis by (simp add: list_all_iff) (simp add: error_kinds_upt del: upt_rec_numeral)
qed

text \<open>
  C39. The tables of character sets. Id and name of a collation determine each other. For all
  sets but four the name in \<open>charsets\<close> is the collation whose id \<open>charset_ids\<close> gives; for these four
  no collation has the name, but one has the name without its last character. \<open>get_charset_id\<close> panics
  exactly on unknown names.
\<close>

theorem charset_tables_consistent:
  "(collations i = Some name \<longleftrightarrow> collation_names name = Some i) \<and>
   (case charset_ids cs of
      Some i \<Rightarrow> (\<exists>name. charsets cs = Some name \<and>
        (if cs \<in> set misspelt
         then collation_names name = None \<and> collation_names (butlast name) = Some (ucast i)
         else collation_names name = Some (ucast i)))
    | None \<Rightarrow> True) \<and>
   (get_charset_id cs = Panic \<longleftrightarrow> charset_ids cs = None)"
proof (intro conjI collations_inverse)
  show "case charset_ids cs of
      Some i \<Rightarrow> (\<exists>name. charsets cs = Some name \<and>
        (if cs \<in> set misspelt
         then collation_names name = None \<and> collation_names (butlast name) = Some (ucast i)
         else collation_names name = Some (ucast i)))
    | None \<Rightarrow> True"
    by (cases "charset_ids cs") (simp_all only: option.case charset_tables)
  have "map_of fast_path cs = Some i \<Longrightarrow> cs \<in> dom charset_ids" for i
    using fast_path_known map_of_SomeD [of fast_path cs i] by (auto simp: list_all_iff)
  then show "get_charset_id cs = Panic \<longleftrightarrow> charset_ids cs = None"
    by (auto simp: get_charset_id_eq dom_def split: option.split)
qed

end
